(* ===== verification/Prelude.thy ===== *)
theory Prelude
  imports Main "HOL-Library.Multiset" "HOL-Library.AList"
begin

text \<open>
  Shared vocabulary of the development: the collections its proofs draw on, the nullish
  operator and the truthiness tests of TypeScript on optional strings, and the stable sort
  of JavaScript's \<open>Array.prototype.sort\<close> with the laws of its comparator interface.
\<close>

named_theorems handler_simps \<open>equations that unfold a handler of the model\<close>
named_theorems wf_intros \<open>preservation of a well-formedness invariant by one operation\<close>

subsection \<open>Optional values\<close>

type_synonym uid = string

text \<open>\<open>a ?? b\<close> on a value that may be null or undefined.\<close>

definition nullish :: "'a option \<Rightarrow> 'a option \<Rightarrow> 'a option" where
  "nullish a b = (case a of None \<Rightarrow> b | Some x \<Rightarrow> Some x)"

definition nullish_or :: "'a option \<Rightarrow> 'a \<Rightarrow> 'a" where
  "nullish_or a d = (case a of None \<Rightarrow> d | Some x \<Rightarrow> x)"

text \<open>The truthy test of an optional string: null, undefined and the empty string fail it.\<close>

definition truthy :: "string option \<Rightarrow> bool" where
  "truthy a = (case a of None \<Rightarrow> False | Some s \<Rightarrow> s \<noteq> [])"

lemma nullish_simps [simp]:
  "nullish None b = b" "nullish (Some x) b = Some x"
  "nullish_or None d = d" "nullish_or (Some x) d = x"
  by (simp_all add: nullish_def nullish_or_def)

lemma truthy_simps [simp]: "\<not> truthy None" "truthy (Some s) = (s \<noteq> [])"
  by (simp_all add: truthy_def)

lemma nullish_eq_None [simp]: "nullish a b = None \<longleftrightarrow> a = None \<and> b = None"
  by (cases a) simp_all

subsection \<open>The stable sort of JavaScript\<close>

text \<open>
  \<open>xs.sort(cmp)\<close>: ECMAScript fixes the result for a consistent comparator, namely the stable
  arrangement in which no later element compares below an earlier one. Insertion from the
  right computes it: an element goes before the first one it does not exceed.
\<close>

fun js_insort :: "('a \<Rightarrow> 'a \<Rightarrow> 'n::linordered_idom) \<Rightarrow> 'a \<Rightarrow> 'a list \<Rightarrow> 'a list" where
  "js_insort cmp x [] = [x]"
| "js_insort cmp x (y # ys) =
     (if cmp x y \<le> 0 then x # y # ys else y # js_insort cmp x ys)"

definition js_sort :: "('a \<Rightarrow> 'a \<Rightarrow> 'n::linordered_idom) \<Rightarrow> 'a list \<Rightarrow> 'a list" where
  "js_sort cmp xs = foldr (js_insort cmp) xs []"

lemma js_sort_simps [simp]:
  "js_sort cmp [] = []" "js_sort cmp (x # xs) = js_insort cmp x (js_sort cmp xs)"
  by (simp_all add: js_sort_def)

lemma mset_js_insort [simp]: "mset (js_insort cmp x xs) = add_mset x (mset xs)"
  by (induction xs) auto

lemma mset_js_sort [simp]: "mset (js_sort cmp xs) = mset xs"
  by (induction xs) simp_all

lemma set_js_insort [simp]: "set (js_insort cmp x xs) = insert x (set xs)"
  by (induction xs) auto

lemma set_js_sort [simp]: "set (js_sort cmp xs) = set xs"
  by (induction xs) simp_all

lemma length_js_sort [simp]: "length (js_sort cmp xs) = length xs"
  by (metis mset_js_sort size_mset)

lemma distinct_js_sort [simp]: "distinct (js_sort cmp xs) = distinct xs"
  by (metis mset_js_sort mset_eq_imp_distinct_iff)

text \<open>
  The comparator interface of a sort's client: any two elements compare one way at least,
  and \<open>\<le> 0\<close> is transitive. Under these laws the result is sorted and stable.
\<close>

locale js_comparator =
  fixes cmp :: "'a \<Rightarrow> 'a \<Rightarrow> 'n::linordered_idom"
  assumes cmp_total: "cmp x y \<le> 0 \<or> cmp y x \<le> 0"
    and cmp_trans: "cmp x y \<le> 0 \<Longrightarrow> cmp y z \<le> 0 \<Longrightarrow> cmp x z \<le> 0"
begin

lemma insort_sorted:
  "sorted_wrt (\<lambda>a b. cmp a b \<le> 0) xs \<Longrightarrow> sorted_wrt (\<lambda>a b. cmp a b \<le> 0) (js_insort cmp x xs)"
proof (induction xs)
  case (Cons y ys)
  then show ?case using cmp_total [of x y] by (auto intro: cmp_trans)
qed simp

lemma sort_sorted: "sorted_wrt (\<lambda>a b. cmp a b \<le> 0) (js_sort cmp xs)"
  by (induction xs) (simp_all add: insort_sorted)

lemma insort_filter_equal:
  assumes "sorted_wrt (\<lambda>a b. cmp a b \<le> 0) xs"
  shows "filter (\<lambda>b. cmp a b \<le> 0 \<and> cmp b a \<le> 0) (js_insort cmp x xs)
       = filter (\<lambda>b. cmp a b \<le> 0 \<and> cmp b a \<le> 0) (x # xs)"
  using assms
proof (induction xs)
  case (Cons y ys)
  show ?case
  proof (cases "cmp x y \<le> 0")
    case False
    have "\<not> ((cmp a x \<le> 0 \<and> cmp x a \<le> 0) \<and> (cmp a y \<le> 0 \<and> cmp y a \<le> 0))"
      using False cmp_trans by blast
    with Cons False show ?thesis by auto
  qed simp
qed simp

lemma sort_stable:
  "filter (\<lambda>b. cmp a b \<le> 0 \<and> cmp b a \<le> 0) (js_sort cmp xs)
 = filter (\<lambda>b. cmp a b \<le> 0 \<and> cmp b a \<le> 0) xs"
  by (induction xs) (simp_all add: insort_filter_equal [OF sort_sorted])

lemma sort_nth_le:
  assumes "i < j" "j < length xs"
  shows "cmp (js_sort cmp xs ! i) (js_sort cmp xs ! j) \<le> 0"
  using sort_sorted [of xs] assms by (simp add: sorted_wrt_iff_nth_less)

lemma sort_id: "sorted_wrt (\<lambda>a b. cmp a b \<le> 0) xs \<Longrightarrow> js_sort cmp xs = xs"
proof (induction xs)
  case (Cons x xs)
  then show ?case by (cases xs) auto
qed simp

end

subsection \<open>Lists\<close>

lemma sorted_wrt_filterI: "sorted_wrt P xs \<Longrightarrow> sorted_wrt P (filter Q xs)"
  by (induction xs) auto

lemma mset_three_way:
  "(\<And>x. Q x \<Longrightarrow> \<not> P x) \<Longrightarrow>
   mset (filter (\<lambda>x. \<not> P x \<and> \<not> Q x) xs @ filter Q xs @ filter P xs) = mset xs"
  by (induction xs) auto

subsection \<open>Redis hashes and JavaScript sets\<close>

text \<open>The fields of a hash, and a set in insertion order.\<close>

type_synonym fields = "(string \<times> string) list"

definition set_field :: "string \<Rightarrow> string \<Rightarrow> fields \<Rightarrow> fields" where
  "set_field f v h = AList.update f v h"

definition set_add :: "'a \<Rightarrow> 'a list \<Rightarrow> 'a list" where
  "set_add x xs = (if x \<in> set xs then xs else xs @ [x])"

lemma set_add_set [simp]: "set (set_add x xs) = insert x (set xs)"
  by (auto simp: set_add_def)

lemma set_add_distinct [simp]: "distinct (set_add x xs) = distinct xs"
  by (simp add: set_add_def)

lemma set_add_nonempty [simp]: "set_add x xs \<noteq> []"
  by (auto simp: set_add_def)

end
