(* ===== verification/JsValue.thy ===== *)
theory JsValue
  imports Prelude Complex_Main "HOL-Library.List_Lexorder" "HOL-Library.Char_ord"
begin

text \<open>
  The values of TypeScript's \<open>unknown\<close> that the services read from parsed JSON, and the
  standard-library functions they apply to them: \<open>trim\<close>, \<open>toLowerCase\<close>, \<open>String\<close>,
  \<open>Number\<close>, \<open>Number.isFinite\<close>, \<open>Math.round\<close>. A string is a list of code units below 256;
  a number is an exact rational (the rounding of binary64 and its overflow to infinity are
  not modelled), so NaN and the infinities appear as the absence of a finite number.
\<close>

subsection \<open>Strings\<close>

definition js_space :: "char \<Rightarrow> bool" where
  "js_space c = ((of_char c :: nat) \<in> {9, 10, 11, 12, 13, 32, 160})"

definition js_trim :: "string \<Rightarrow> string" where
  "js_trim s = rev (dropWhile js_space (rev (dropWhile js_space s)))"

definition js_lower_char :: "char \<Rightarrow> char" where
  "js_lower_char c =
     (let n = (of_char c :: nat)
      in if (65 \<le> n \<and> n \<le> 90) \<or> (192 \<le> n \<and> n \<le> 222 \<and> n \<noteq> 215) then char_of (n + 32) else c)"

definition js_lower :: "string \<Rightarrow> string" where
  "js_lower s = map js_lower_char s"

lemma dropWhile_snoc: "\<not> P y \<Longrightarrow> dropWhile P (xs @ [y]) = dropWhile P xs @ [y]"
  by (induction xs) auto

lemma dropWhile_front_kept:
  "ys = [] \<or> \<not> P (hd ys) \<Longrightarrow> dropWhile P (rev (dropWhile P (rev ys))) = rev (dropWhile P (rev ys))"
  by (cases ys) (auto simp: dropWhile_snoc)

lemma dropWhile_hd: "dropWhile P xs = [] \<or> \<not> P (hd (dropWhile P xs))"
  by (induction xs) auto

lemma js_trim_idem [simp]: "js_trim (js_trim s) = js_trim s"
  using dropWhile_front_kept [of "dropWhile js_space s" js_space, OF dropWhile_hd] by (simp add: js_trim_def)

lemma js_lower_char_idem [simp]: "js_lower_char (js_lower_char c) = js_lower_char c"
proof -
  let ?n = "of_char c :: nat"
  have "of_char (char_of (?n + 32) :: char) = (?n + 32) mod 256" by (simp add: of_char_of)
  then show ?thesis by (auto simp: js_lower_char_def Let_def)
qed

lemma js_lower_idem [simp]: "js_lower (js_lower s) = js_lower s"
  by (simp add: js_lower_def)

lemma js_lower_eq_Nil [simp]: "js_lower s = [] \<longleftrightarrow> s = []"
  by (simp add: js_lower_def)

lemma js_space_lower [simp]: "js_space (js_lower_char c) = js_space c"
proof -
  let ?n = "of_char c :: nat"
  have "of_char (char_of (?n + 32) :: char) = (?n + 32) mod 256" by (simp add: of_char_of)
  then show ?thesis by (auto simp: js_lower_char_def js_space_def Let_def)
qed

lemma js_trim_lower: "js_trim (js_lower s) = js_lower (js_trim s)"
proof -
  have d: "dropWhile js_space (map js_lower_char t) = map js_lower_char (dropWhile js_space t)" for t
    by (simp add: dropWhile_map comp_def)
  show ?thesis by (simp add: js_trim_def js_lower_def d rev_map)
qed

subsection \<open>Numbers as text\<close>

definition digit_char :: "nat \<Rightarrow> char" where
  "digit_char d = char_of (48 + d)"

definition is_digit :: "char \<Rightarrow> bool" where
  "is_digit c = (48 \<le> (of_char c :: nat) \<and> (of_char c :: nat) \<le> 57)"

fun nat_str :: "nat \<Rightarrow> string" where
  "nat_str n = (if n < 10 then [digit_char n] else nat_str (n div 10) @ [digit_char (n mod 10)])"

declare nat_str.simps [simp del]

text \<open>\<open>String(n)\<close> for an integer \<open>n\<close>.\<close>

definition int_str :: "int \<Rightarrow> string" where
  "int_str i = (if i < 0 then CHR ''-'' # nat_str (nat (- i)) else nat_str (nat i))"

definition digits_val :: "string \<Rightarrow> nat" where
  "digits_val s = foldl (\<lambda>a c. 10 * a + (of_char c - 48)) 0 s"

definition split_sign :: "string \<Rightarrow> bool \<times> string" where
  "split_sign s = (case s of
      [] \<Rightarrow> (False, [])
    | c # r \<Rightarrow> if c = CHR ''-'' then (True, r) else if c = CHR ''+'' then (False, r) else (False, s))"

text \<open>An unsigned decimal literal: digits, an optional fraction, an optional exponent.\<close>

definition decimal_val :: "string \<Rightarrow> rat option" where
  "decimal_val s =
     (let ip = takeWhile is_digit s; r1 = dropWhile is_digit s;
          dot = (case r1 of [] \<Rightarrow> False | c # _ \<Rightarrow> c = CHR ''.'');
          fp = (if dot then takeWhile is_digit (tl r1) else []);
          r2 = (if dot then dropWhile is_digit (tl r1) else r1);
          m = of_nat (digits_val (ip @ fp)) / 10 ^ length fp
      in if ip = [] \<and> fp = [] then None
         else case r2 of
                [] \<Rightarrow> Some m
              | c # r3 \<Rightarrow>
                  if c = CHR ''e'' \<or> c = CHR ''E'' then
                    let (neg, ds) = split_sign r3
                    in if ds \<noteq> [] \<and> list_all is_digit ds
                       then Some (if neg then m / 10 ^ digits_val ds else m * 10 ^ digits_val ds)
                       else None
                  else None)"

definition radix_digit :: "nat \<Rightarrow> char \<Rightarrow> nat option" where
  "radix_digit b c =
     (let n = (of_char c :: nat);
          d = (if 48 \<le> n \<and> n \<le> 57 then n - 48 else if 97 \<le> n \<and> n \<le> 122 then n - 87
               else if 65 \<le> n \<and> n \<le> 90 then n - 55 else b)
      in if d < b then Some d else None)"

fun radix_val :: "nat \<Rightarrow> nat \<Rightarrow> string \<Rightarrow> nat option" where
  "radix_val b a [] = Some a"
| "radix_val b a (c # cs) = (case radix_digit b c of None \<Rightarrow> None | Some d \<Rightarrow> radix_val b (b * a + d) cs)"

definition radix_prefix :: "string \<Rightarrow> nat option" where
  "radix_prefix s = (case s of
      c # x # _ \<Rightarrow>
        if c \<noteq> CHR ''0'' then None
        else if x \<in> {CHR ''x'', CHR ''X''} then Some 16
        else if x \<in> {CHR ''o'', CHR ''O''} then Some 8
        else if x \<in> {CHR ''b'', CHR ''B''} then Some 2 else None
    | _ \<Rightarrow> None)"

text \<open>
  \<open>Number(s)\<close> when it is finite; \<open>None\<close> for NaN and for the infinities, which the callers
  reject together with \<open>Number.isFinite\<close>.
\<close>

definition js_number :: "string \<Rightarrow> rat option" where
  "js_number s =
     (let t = js_trim s
      in if t = [] then Some 0
         else case radix_prefix t of
                Some b \<Rightarrow> if length t = 2 then None else map_option of_nat (radix_val b 0 (drop 2 t))
              | None \<Rightarrow> (let (neg, u) = split_sign t
                         in map_option (\<lambda>v. if neg then - v else v) (decimal_val u)))"

definition js_round :: "rat \<Rightarrow> int" where
  "js_round x = \<lfloor>x + 1 / 2\<rfloor>"

subsection \<open>Printing and reading an integer\<close>

lemma digit_char_digit: "d < 10 \<Longrightarrow> is_digit (digit_char d) \<and> of_char (digit_char d) = 48 + d"
  by (simp add: is_digit_def digit_char_def of_char_of)

lemma nat_str_digits: "list_all is_digit (nat_str n)"
proof (induction n rule: nat_str.induct)
  case (1 n)
  then show ?case
    by (cases "n < 10") (simp_all add: nat_str.simps [of n] digit_char_digit)
qed

lemma nat_str_nonempty [simp]: "nat_str n \<noteq> []"
  by (subst nat_str.simps) simp

lemma digits_val_snoc: "digits_val (s @ [c]) = 10 * digits_val s + (of_char c - 48)"
  by (simp add: digits_val_def)

lemma digits_val_nat_str [simp]: "digits_val (nat_str n) = n"
proof (induction n rule: nat_str.induct)
  case (1 n)
  show ?case
  proof (cases "n < 10")
    case True
    then show ?thesis by (simp add: nat_str.simps [of n] digits_val_def digit_char_digit)
  next
    case False
    then show ?thesis
      using 1 by (simp add: nat_str.simps [of n] digits_val_snoc digit_char_digit)
  qed
qed

lemma digit_not_special:
  "is_digit c \<Longrightarrow> \<not> js_space c \<and> c \<noteq> CHR ''-'' \<and> c \<noteq> CHR ''+'' \<and> c \<noteq> CHR ''x'' \<and> c \<noteq> CHR ''X''
    \<and> c \<noteq> CHR ''o'' \<and> c \<noteq> CHR ''O'' \<and> c \<noteq> CHR ''b'' \<and> c \<noteq> CHR ''B''"
  by (auto simp: is_digit_def js_space_def)

lemma trim_nonspace:
  "s \<noteq> [] \<Longrightarrow> \<not> js_space (hd s) \<Longrightarrow> \<not> js_space (last s) \<Longrightarrow> js_trim s = s"
proof -
  assume ne: "s \<noteq> []" and h: "\<not> js_space (hd s)" and l: "\<not> js_space (last s)"
  have "dropWhile js_space s = s" using ne h by (cases s) auto
  moreover have "dropWhile js_space (rev s) = rev s" using ne l by (cases s rule: rev_cases) auto
  ultimately show ?thesis by (simp add: js_trim_def)
qed

lemma decimal_val_digits:
  assumes "list_all is_digit s" "s \<noteq> []"
  shows "decimal_val s = Some (of_nat (digits_val s))"
proof -
  have t: "takeWhile is_digit s = s"
    using assms by (simp add: takeWhile_eq_all_conv list_all_iff)
  have d: "dropWhile is_digit s = []"
    using assms by (simp add: dropWhile_eq_Nil_conv list_all_iff)
  show ?thesis using assms(2) by (simp add: decimal_val_def Let_def t d)
qed

lemma radix_prefix_None:
  assumes "list_all is_digit s" shows "radix_prefix s = None"
proof (cases s)
  case (Cons c r)
  show ?thesis
  proof (cases r)
    case (Cons x t)
    with \<open>s = c # r\<close> assms have "is_digit x" by simp
    then have "x \<notin> {CHR ''x'', CHR ''X'', CHR ''o'', CHR ''O'', CHR ''b'', CHR ''B''}"
      using digit_not_special by blast
    then show ?thesis by (simp add: radix_prefix_def Cons \<open>s = c # r\<close>)
  qed (simp add: radix_prefix_def Cons)
qed (simp add: radix_prefix_def)

lemma js_number_int_str: "js_number (int_str i) = Some (of_int i)"
proof -
  define s where "s = nat_str (nat \<bar>i\<bar>)"
  have d: "list_all is_digit s" and ne: "s \<noteq> []" by (simp_all add: s_def nat_str_digits)
  have hl: "\<not> js_space (hd s)" "\<not> js_space (last s)" "is_digit (hd s)"
    using d ne by (auto simp: list_all_iff digit_not_special)
  have sp: "\<not> js_space (CHR ''-'')" by (simp add: js_space_def)
  have v: "decimal_val s = Some (of_nat (nat \<bar>i\<bar>))"
    using decimal_val_digits [OF d ne] by (simp add: s_def)
  show ?thesis
  proof (cases "i < 0")
    case True
    then have eq: "int_str i = CHR ''-'' # s" by (simp add: int_str_def s_def)
    have t: "js_trim (CHR ''-'' # s) = CHR ''-'' # s"
      using ne hl sp by (intro trim_nonspace) simp_all
    have r: "radix_prefix (CHR ''-'' # s) = None" by (simp add: radix_prefix_def split: list.splits)
    show ?thesis using True v by (simp add: js_number_def eq t r split_sign_def)
  next
    case False
    then have eq: "int_str i = s" by (simp add: int_str_def s_def)
    have t: "js_trim s = s" using ne hl by (intro trim_nonspace) simp_all
    obtain c r where s: "s = c # r" using ne by (cases s) auto
    with hl have "c \<noteq> CHR ''-''" "c \<noteq> CHR ''+''" by (auto dest: digit_not_special)
    then have "split_sign s = (False, s)" by (simp add: split_sign_def s)
    with False v show ?thesis
      by (simp add: js_number_def eq t ne radix_prefix_None [OF d])
  qed
qed

lemma int_str_nonempty [simp]: "int_str i \<noteq> []"
  by (simp add: int_str_def)

lemma int_str_inj: "int_str i = int_str j \<Longrightarrow> i = j"
  by (metis js_number_int_str of_int_eq_iff option.inject)

subsection \<open>Values of unknown type\<close>

datatype json =
    JUndefined | JNull | JBool bool | JNum rat | JStr string
  | JArr "json list" | JObj "(string \<times> json) list"

type_synonym jrecord = "(string \<times> json) list"

text \<open>Property access: a missing property reads as undefined.\<close>

definition jget :: "jrecord \<Rightarrow> string \<Rightarrow> json" where
  "jget r k = (case map_of r k of None \<Rightarrow> JUndefined | Some v \<Rightarrow> v)"

lemma jget_simps [simp]:
  "jget [] k = JUndefined"
  "jget ((k', v) # r) k = (if k = k' then v else jget r k)"
  by (simp_all add: jget_def)

text \<open>\<open>typeof v === "string" ? v : null\<close>.\<close>

fun as_string :: "json \<Rightarrow> string option" where
  "as_string (JStr s) = Some s"
| "as_string _ = None"

definition opt_str :: "string option \<Rightarrow> json" where
  "opt_str a = (case a of None \<Rightarrow> JNull | Some s \<Rightarrow> JStr s)"

definition opt_num :: "rat option \<Rightarrow> json" where
  "opt_num a = (case a of None \<Rightarrow> JNull | Some x \<Rightarrow> JNum x)"

lemma as_string_opt_str [simp]: "as_string (opt_str a) = a"
  by (cases a) (simp_all add: opt_str_def)

end
