(* ===== verification/RedisStore.thy ===== *)
theory RedisStore
  imports JsValue "HOL-Library.AList"
begin

text \<open>
  The Redis keyspace the matching service keeps its state in
  (\<open>apps/matching-service/src/core/redis/keys.ts\<close>). A key is a value of a datatype with one
  constructor per key builder of the code, and \<open>render_key\<close> is the template the builder
  returns, so that two builders agree on a key only where their rendered texts do. The store
  has one map per Redis value type; a command is the documented change of one key. The time
  to live is recorded, and an expiry is a separate event (\<open>expire_key\<close>) that may strike
  any key with one.
\<close>

subsection \<open>Keys\<close>

datatype rkey =
    Snapshot uid
  | PoolGlobal
  | PoolByCountry string
  | PoolByCity string string
  | PoolByRegion string string
  | PoolUserLocationMeta uid
  | UserState uid
  | UserLock uid
  | PairLock uid uid
  | PairPending uid uid
  | PairConnectFinalize uid uid
  | UserSkipPeers uid
  | UserMatchedPeers uid
  | UserConnectionPeers uid
  | MatchJobQueue
  | AttemptKey string
  | UserLastAttempt uid
  | UserStartSearchLock uid
  | BlocksOutgoing uid
  | BlocksIncoming uid

fun render_key :: "rkey \<Rightarrow> string" where
  "render_key (Snapshot u) = ''user:profile:snapshot:'' @ u"
| "render_key PoolGlobal = ''mm:pool:global''"
| "render_key (PoolByCountry c) = ''mm:pool:cc:'' @ c"
| "render_key (PoolByCity c s) = ''mm:pool:city:'' @ c @ '':'' @ s"
| "render_key (PoolByRegion c s) = ''mm:pool:reg:'' @ c @ '':'' @ s"
| "render_key (PoolUserLocationMeta u) = ''mm:pool:loc-meta:'' @ u"
| "render_key (UserState u) = ''mm:state:'' @ u"
| "render_key (UserLock u) = ''mm:lock:user:'' @ u"
| "render_key (PairLock a b) = ''mm:pair:lock:'' @ a @ '':'' @ b"
| "render_key (PairPending a b) = ''mm:pair:pending:'' @ a @ '':'' @ b"
| "render_key (PairConnectFinalize a b) = ''mm:pair:connect:finalize:'' @ a @ '':'' @ b"
| "render_key (UserSkipPeers u) = ''mm:user:skip-peers:'' @ u"
| "render_key (UserMatchedPeers u) = ''mm:user:matched-peers:'' @ u"
| "render_key (UserConnectionPeers u) = ''mm:user:connection-peers:'' @ u"
| "render_key MatchJobQueue = ''mm:jobs:find''"
| "render_key (AttemptKey a) = ''mm:attempt:'' @ a"
| "render_key (UserLastAttempt u) = ''mm:user:last-attempt:'' @ u"
| "render_key (UserStartSearchLock u) = ''mm:user:start-search-lock:'' @ u"
| "render_key (BlocksOutgoing u) = ''user:blocks:outgoing:'' @ u"
| "render_key (BlocksIncoming u) = ''user:blocks:incoming:'' @ u"

text \<open>The pair builders sort their two user ids by code units before they build the key.\<close>

definition pair_lock_key :: "uid \<Rightarrow> uid \<Rightarrow> rkey" where
  "pair_lock_key a b = (if a \<le> b then PairLock a b else PairLock b a)"

definition pair_pending_key :: "uid \<Rightarrow> uid \<Rightarrow> rkey" where
  "pair_pending_key a b = (if a \<le> b then PairPending a b else PairPending b a)"

definition pair_finalize_key :: "uid \<Rightarrow> uid \<Rightarrow> rkey" where
  "pair_finalize_key a b =
     (if a \<le> b then PairConnectFinalize a b else PairConnectFinalize b a)"

lemma pair_keys_commute:
  "pair_lock_key a b = pair_lock_key b a"
  "pair_pending_key a b = pair_pending_key b a"
  "pair_finalize_key a b = pair_finalize_key b a"
  by (auto simp: pair_lock_key_def pair_pending_key_def pair_finalize_key_def)

text \<open>
  A key is sound when no part that a colon of its template follows has a colon itself: the
  first user id of a pair, the country code of a city or region bucket.
\<close>

fun key_parts_plain :: "rkey \<Rightarrow> bool" where
  "key_parts_plain (PoolByCity c s) = (CHR '':'' \<notin> set c)"
| "key_parts_plain (PoolByRegion c s) = (CHR '':'' \<notin> set c)"
| "key_parts_plain (PairLock a b) = (CHR '':'' \<notin> set a)"
| "key_parts_plain (PairPending a b) = (CHR '':'' \<notin> set a)"
| "key_parts_plain (PairConnectFinalize a b) = (CHR '':'' \<notin> set a)"
| "key_parts_plain _ = True"

lemma split_at_colon:
  "CHR '':'' \<notin> set a \<Longrightarrow> CHR '':'' \<notin> set c \<Longrightarrow>
   a @ CHR '':'' # b = c @ CHR '':'' # d \<longleftrightarrow> a = c \<and> b = d"
proof (induction a arbitrary: c)
  case Nil
  then show ?case by (cases c) auto
next
  case (Cons x a)
  then show ?case by (cases c) auto
qed

lemma render_key_inj:
  assumes "key_parts_plain k" "key_parts_plain k'" "render_key k = render_key k'"
  shows "k = k'"
  using assms by (cases k; cases k') (simp_all add: split_at_colon)

subsection \<open>The store\<close>

text \<open>
  Text that the code reads back through \<open>JSON.parse\<close>: either a value, or text that throws.
\<close>

datatype doc = BadJson | Json json

type_synonym zset = "(string \<times> int) list"
type_synonym hash = "(string \<times> string) list"

record redis =
  strs :: "rkey \<Rightarrow> string option"
  docs :: "rkey \<Rightarrow> doc option"
  hashes :: "rkey \<Rightarrow> hash"
  zsets :: "rkey \<Rightarrow> zset"
  rsets :: "rkey \<Rightarrow> string set"
  queues :: "rkey \<Rightarrow> doc list"
  ttls :: "rkey \<Rightarrow> nat option"

definition redis_empty :: redis where
  "redis_empty = \<lparr>strs = (\<lambda>_. None), docs = (\<lambda>_. None), hashes = (\<lambda>_. []),
     zsets = (\<lambda>_. []), rsets = (\<lambda>_. {}), queues = (\<lambda>_. []), ttls = (\<lambda>_. None)\<rparr>"

definition rget :: "rkey \<Rightarrow> redis \<Rightarrow> string option" where
  "rget k r = strs r k"

text \<open>\<open>SET\<close> clears a time to live; \<open>SET .. EX\<close> and \<open>SET .. PX\<close> install one.\<close>

definition rset :: "rkey \<Rightarrow> string \<Rightarrow> redis \<Rightarrow> redis" where
  "rset k v r = r\<lparr>strs := (strs r)(k := Some v), ttls := (ttls r)(k := None)\<rparr>"

definition rset_ex :: "rkey \<Rightarrow> string \<Rightarrow> nat \<Rightarrow> redis \<Rightarrow> redis" where
  "rset_ex k v ttl r = r\<lparr>strs := (strs r)(k := Some v), ttls := (ttls r)(k := Some ttl)\<rparr>"

text \<open>\<open>SET .. NX\<close>: succeeds on an absent key only.\<close>

definition rset_nx :: "rkey \<Rightarrow> string \<Rightarrow> nat \<Rightarrow> redis \<Rightarrow> bool \<times> redis" where
  "rset_nx k v ttl r = (if strs r k = None then (True, rset_ex k v ttl r) else (False, r))"

definition rset_doc :: "rkey \<Rightarrow> doc \<Rightarrow> redis \<Rightarrow> redis" where
  "rset_doc k v r = r\<lparr>docs := (docs r)(k := Some v), ttls := (ttls r)(k := None)\<rparr>"

definition rdel :: "rkey \<Rightarrow> redis \<Rightarrow> redis" where
  "rdel k r = r\<lparr>strs := (strs r)(k := None), docs := (docs r)(k := None),
     hashes := (hashes r)(k := []), zsets := (zsets r)(k := []),
     rsets := (rsets r)(k := {}), queues := (queues r)(k := []), ttls := (ttls r)(k := None)\<rparr>"

definition rexpire :: "rkey \<Rightarrow> nat \<Rightarrow> redis \<Rightarrow> redis" where
  "rexpire k ttl r = r\<lparr>ttls := (ttls r)(k := Some ttl)\<rparr>"

text \<open>\<open>HSET\<close> writes the given fields and leaves every other field of the hash.\<close>

definition hset_fields :: "(string \<times> string) list \<Rightarrow> hash \<Rightarrow> hash" where
  "hset_fields fs h = fold (\<lambda>(f, v) m. AList.update f v m) fs h"

definition rhset :: "rkey \<Rightarrow> (string \<times> string) list \<Rightarrow> redis \<Rightarrow> redis" where
  "rhset k fs r = r\<lparr>hashes := (hashes r)(k := hset_fields fs (hashes r k))\<rparr>"

definition rsadd :: "rkey \<Rightarrow> string \<Rightarrow> redis \<Rightarrow> redis" where
  "rsadd k m r = r\<lparr>rsets := (rsets r)(k := insert m (rsets r k))\<rparr>"

text \<open>
  A sorted set is kept in the order Redis iterates it: by score, then by member.
  \<open>ZADD\<close> replaces the score of a member that is there.
\<close>

fun zinsert :: "string \<times> int \<Rightarrow> zset \<Rightarrow> zset" where
  "zinsert (m, s) [] = [(m, s)]"
| "zinsert (m, s) ((m', s') # z) =
     (if s < s' \<or> (s = s' \<and> m \<le> m') then (m, s) # (m', s') # z else (m', s') # zinsert (m, s) z)"

definition zset_rem :: "string \<Rightarrow> zset \<Rightarrow> zset" where
  "zset_rem m z = filter (\<lambda>p. fst p \<noteq> m) z"

definition zset_add :: "string \<Rightarrow> int \<Rightarrow> zset \<Rightarrow> zset" where
  "zset_add m s z = zinsert (m, s) (zset_rem m z)"

definition zset_members :: "zset \<Rightarrow> string set" where
  "zset_members z = fst ` set z"

definition zset_score :: "zset \<Rightarrow> string \<Rightarrow> int option" where
  "zset_score z = map_of z"

definition zset_ok :: "zset \<Rightarrow> bool" where
  "zset_ok z = (distinct (map fst z) \<and>
     sorted_wrt (\<lambda>p q. snd p < snd q \<or> (snd p = snd q \<and> fst p \<le> fst q)) z)"

definition rzadd :: "rkey \<Rightarrow> int \<Rightarrow> string \<Rightarrow> redis \<Rightarrow> redis" where
  "rzadd k s m r = r\<lparr>zsets := (zsets r)(k := zset_add m s (zsets r k))\<rparr>"

definition rzrem :: "rkey \<Rightarrow> string \<Rightarrow> redis \<Rightarrow> redis" where
  "rzrem k m r = r\<lparr>zsets := (zsets r)(k := zset_rem m (zsets r k))\<rparr>"

text \<open>\<open>ZREVRANGE key 0 (n - 1) WITHSCORES\<close>: the \<open>n\<close> highest, highest first.\<close>

definition rzrevrange :: "rkey \<Rightarrow> nat \<Rightarrow> redis \<Rightarrow> (string \<times> int) list" where
  "rzrevrange k n r = take n (rev (zsets r k))"

text \<open>Expiry of one key that carries a time to live.\<close>

definition expire_key :: "rkey \<Rightarrow> redis \<Rightarrow> redis" where
  "expire_key k r = (if ttls r k = None then r else rdel k r)"

lemmas redis_write_defs =
  rset_def rset_ex_def rset_doc_def rdel_def rexpire_def rhset_def rsadd_def rzadd_def rzrem_def

subsection \<open>Sorted sets as score tables\<close>

text \<open>
  The interface the candidate pool needs of a sorted set: what the scores are after an
  insertion and a removal, and that both keep the representation.
\<close>

locale scored_set =
  fixes empty :: "'z"
    and add :: "string \<Rightarrow> int \<Rightarrow> 'z \<Rightarrow> 'z"
    and rem :: "string \<Rightarrow> 'z \<Rightarrow> 'z"
    and score :: "'z \<Rightarrow> string \<Rightarrow> int option"
    and ok :: "'z \<Rightarrow> bool"
  assumes score_empty: "score empty m = None"
    and score_add: "ok z \<Longrightarrow> score (add m s z) m' = (if m' = m then Some s else score z m')"
    and score_rem: "ok z \<Longrightarrow> score (rem m z) m' = (if m' = m then None else score z m')"
    and ok_empty: "ok empty"
    and ok_add: "ok z \<Longrightarrow> ok (add m s z)"
    and ok_rem: "ok z \<Longrightarrow> ok (rem m z)"
begin

lemma score_rem_same: "ok z \<Longrightarrow> score (rem m z) m = None"
  by (simp add: score_rem)

lemma score_add_rem: "ok z \<Longrightarrow> score (add m s (rem m z)) = score (add m s z)"
  by (rule ext) (simp add: score_add score_rem ok_rem)

lemma rem_add: "ok z \<Longrightarrow> score (rem m (add m s z)) = score (rem m z)"
  by (rule ext) (simp add: score_add score_rem ok_add)

lemma add_add: "ok z \<Longrightarrow> score (add m s (add m s' z)) = score (add m s z)"
  by (rule ext) (simp add: score_add ok_add)

end

lemma map_of_zinsert:
  "fst p \<notin> fst ` set z \<Longrightarrow> map_of (zinsert p z) = (map_of z)(fst p \<mapsto> snd p)"
  by (induction p z rule: zinsert.induct) (auto simp: fun_eq_iff)

lemma map_of_zset_rem: "map_of (zset_rem m z) x = (if x = m then None else map_of z x)"
  by (induction z) (auto simp: zset_rem_def)

lemma set_zinsert [simp]: "set (zinsert p z) = insert p (set z)"
  by (induction p z rule: zinsert.induct) auto

lemma set_zset_rem: "set (zset_rem m z) = {p \<in> set z. fst p \<noteq> m}"
  by (auto simp: zset_rem_def)

lemma zset_rem_fresh [simp]: "m \<notin> fst ` set (zset_rem m z)"
  by (auto simp: zset_rem_def)

lemma distinct_zinsert:
  "distinct (map fst z) \<Longrightarrow> fst p \<notin> fst ` set z \<Longrightarrow> distinct (map fst (zinsert p z))"
  by (induction p z rule: zinsert.induct) auto

lemma sorted_zinsert:
  "sorted_wrt (\<lambda>p q. snd p < snd q \<or> (snd p = snd q \<and> fst p \<le> fst q)) z \<Longrightarrow>
   sorted_wrt (\<lambda>p q. snd p < snd q \<or> (snd p = snd q \<and> fst p \<le> fst q)) (zinsert p z)"
proof (induction p z rule: zinsert.induct)
  case (2 m s m' s' z)
  then show ?case by (auto intro: order_trans)
qed simp

lemma zset_ok_rem: "zset_ok z \<Longrightarrow> zset_ok (zset_rem m z)"
  by (auto simp: zset_ok_def zset_rem_def distinct_map_filter sorted_wrt_filterI)

lemma zset_ok_add: "zset_ok z \<Longrightarrow> zset_ok (zset_add m s z)"
  using zset_ok_rem [of z m]
  by (auto simp: zset_ok_def zset_add_def set_zset_rem intro!: distinct_zinsert sorted_zinsert)

interpretation zs: scored_set "[]" zset_add zset_rem zset_score zset_ok
proof unfold_locales
  fix z :: zset and m m' :: string and s :: int
  show "zset_score [] m = None" by (simp add: zset_score_def)
  show "zset_score (zset_add m s z) m' = (if m' = m then Some s else zset_score z m')"
    by (auto simp: zset_score_def zset_add_def map_of_zinsert map_of_zset_rem)
  show "zset_score (zset_rem m z) m' = (if m' = m then None else zset_score z m')"
    by (simp add: zset_score_def map_of_zset_rem)
  show "zset_ok []" by (simp add: zset_ok_def)
qed (simp_all add: zset_ok_rem zset_ok_add)

lemma zset_members_score: "m \<in> zset_members z \<longleftrightarrow> zset_score z m \<noteq> None"
  by (simp add: zset_members_def zset_score_def map_of_eq_None_iff)

lemma zset_members_add [simp]: "zset_members (zset_add m s z) = insert m (zset_members z)"
  by (auto simp: zset_members_def zset_add_def set_zset_rem image_iff)

lemma zset_members_rem [simp]: "zset_members (zset_rem m z) = zset_members z - {m}"
  by (auto simp: zset_members_def set_zset_rem image_iff)

subsection \<open>Reading after writing\<close>

lemma rget_write [simp]:
  "rget k' (rset k v r) = (if k' = k then Some v else rget k' r)"
  "rget k' (rset_ex k v t r) = (if k' = k then Some v else rget k' r)"
  "rget k' (rdel k r) = (if k' = k then None else rget k' r)"
  "rget k' (rset_doc k d r) = rget k' r"
  "rget k' (rexpire k t r) = rget k' r"
  "rget k' (rhset k fs r) = rget k' r"
  "rget k' (rsadd k m r) = rget k' r"
  "rget k' (rzadd k s m r) = rget k' r"
  "rget k' (rzrem k m r) = rget k' r"
  by (simp_all add: rget_def redis_write_defs)

lemma hashes_write [simp]:
  "hashes (rset k v r) = hashes r"
  "hashes (rset_ex k v t r) = hashes r"
  "hashes (rdel k r) = (hashes r)(k := [])"
  "hashes (rset_doc k d r) = hashes r"
  "hashes (rexpire k t r) = hashes r"
  "hashes (rhset k fs r) = (hashes r)(k := hset_fields fs (hashes r k))"
  "hashes (rsadd k m r) = hashes r"
  "hashes (rzadd k s m r) = hashes r"
  "hashes (rzrem k m r) = hashes r"
  by (simp_all add: redis_write_defs)

lemma zsets_write [simp]:
  "zsets (rset k v r) = zsets r"
  "zsets (rset_ex k v t r) = zsets r"
  "zsets (rdel k r) = (zsets r)(k := [])"
  "zsets (rset_doc k d r) = zsets r"
  "zsets (rexpire k t r) = zsets r"
  "zsets (rhset k fs r) = zsets r"
  "zsets (rsadd k m r) = zsets r"
  "zsets (rzadd k s m r) = (zsets r)(k := zset_add m s (zsets r k))"
  "zsets (rzrem k m r) = (zsets r)(k := zset_rem m (zsets r k))"
  by (simp_all add: redis_write_defs)

lemma docs_write [simp]:
  "docs (rset k v r) = docs r"
  "docs (rset_ex k v t r) = docs r"
  "docs (rdel k r) = (docs r)(k := None)"
  "docs (rset_doc k d r) = (docs r)(k := Some d)"
  "docs (rexpire k t r) = docs r"
  "docs (rhset k fs r) = docs r"
  "docs (rsadd k m r) = docs r"
  "docs (rzadd k s m r) = docs r"
  "docs (rzrem k m r) = docs r"
  by (simp_all add: redis_write_defs)

lemma queues_write [simp]:
  "queues (rset k v r) = queues r"
  "queues (rset_ex k v t r) = queues r"
  "queues (rdel k r) = (queues r)(k := [])"
  "queues (rset_doc k d r) = queues r"
  "queues (rexpire k t r) = queues r"
  "queues (rhset k fs r) = queues r"
  "queues (rsadd k m r) = queues r"
  "queues (rzadd k s m r) = queues r"
  "queues (rzrem k m r) = queues r"
  by (simp_all add: redis_write_defs)

lemma rsets_write [simp]:
  "rsets (rset k v r) = rsets r"
  "rsets (rset_ex k v t r) = rsets r"
  "rsets (rdel k r) = (rsets r)(k := {})"
  "rsets (rset_doc k d r) = rsets r"
  "rsets (rexpire k t r) = rsets r"
  "rsets (rhset k fs r) = rsets r"
  "rsets (rsadd k m r) = (rsets r)(k := insert m (rsets r k))"
  "rsets (rzadd k s m r) = rsets r"
  "rsets (rzrem k m r) = rsets r"
  by (simp_all add: redis_write_defs)

lemma hset_fields_simps [simp]:
  "hset_fields [] h = h"
  "hset_fields ((f, v) # fs) h = hset_fields fs (AList.update f v h)"
  by (simp_all add: hset_fields_def)

lemma update_nonempty [simp]: "AList.update f v h \<noteq> []"
  by (cases h) (auto split: if_splits)

lemma hset_fields_nonempty: "h \<noteq> [] \<or> fs \<noteq> [] \<Longrightarrow> hset_fields fs h \<noteq> []"
  by (induction fs arbitrary: h) auto

lemma map_of_hset_fields:
  "map_of (hset_fields fs h) f = (case map_of (rev fs) f of None \<Rightarrow> map_of h f | Some v \<Rightarrow> Some v)"
  by (induction fs arbitrary: h) (auto simp: update_conv' map_add_def split: option.splits)

end
