(* ===== verification/MatchLocation.thy ===== *)
theory MatchLocation
  imports JsValue
begin

text \<open>
  Location normalisation of the matching service: \<open>scoring/location.ts\<close> and
  \<open>pool/location-index.ts\<close> under \<open>apps/matching-service/src/modules/simple-matching/\<close>, and
  the snapshot profile type of \<open>types/match.types.ts\<close> they read. \<open>filters\<close> and
  \<open>attributes\<close> are the code's \<open>Record<string, unknown>\<close>.
\<close>

record snapshot_profile =
  sp_userId :: uid
  sp_matchIds :: "string list"
  sp_filters :: jrecord
  sp_attributes :: jrecord
  sp_version :: rat
  sp_updatedAt :: rat

definition normalize :: "string \<Rightarrow> string" where
  "normalize s = js_lower (js_trim s)"

lemma normalize_idem [simp]: "normalize (normalize s) = normalize s"
  by (simp add: normalize_def js_trim_lower)

datatype distance_pref = PrefRandom | PrefSameCity | PrefSameRegion | PrefSameCountry | PrefGlobal

definition canonicalDistancePreference :: "string option \<Rightarrow> distance_pref option" where
  "canonicalDistancePreference v = (case v of
      None \<Rightarrow> None
    | Some s \<Rightarrow>
        if s = [] then None
        else let n = normalize s in
          Some (if n = ''same city'' \<or> n = ''same_city'' \<or> n = ''nearby'' then PrefSameCity
                else if n = ''same region'' \<or> n = ''same_region'' then PrefSameRegion
                else if n = ''same country'' \<or> n = ''same_country'' then PrefSameCountry
                else if n = ''global'' then PrefGlobal
                else PrefRandom))"

definition normalizeCountryCode :: "string option \<Rightarrow> string option" where
  "normalizeCountryCode v = (case v of
      None \<Rightarrow> None
    | Some s \<Rightarrow> let t = js_lower (js_trim s) in if t \<noteq> [] then Some t else None)"

text \<open>
  \<open>slugLocationPart\<close>: every maximal run of characters outside \<open>a-z0-9\<close> becomes one
  underscore, then one underscore is dropped at each end.
\<close>

definition slug_char :: "char \<Rightarrow> bool" where
  "slug_char c = (let n = (of_char c :: nat) in (97 \<le> n \<and> n \<le> 122) \<or> (48 \<le> n \<and> n \<le> 57))"

fun slug_runs :: "bool \<Rightarrow> string \<Rightarrow> string" where
  "slug_runs in_run [] = []"
| "slug_runs in_run (c # cs) =
     (if slug_char c then c # slug_runs False cs
      else if in_run then slug_runs True cs
      else CHR ''_'' # slug_runs True cs)"

definition strip_edges :: "string \<Rightarrow> string" where
  "strip_edges s =
     (let a = (case s of c # r \<Rightarrow> if c = CHR ''_'' then r else s | [] \<Rightarrow> [])
      in if a \<noteq> [] \<and> last a = CHR ''_'' then butlast a else a)"

definition slugLocationPart :: "string option \<Rightarrow> string option" where
  "slugLocationPart v = (case v of
      None \<Rightarrow> None
    | Some s \<Rightarrow>
        let t = js_lower (js_trim s) in
        if t = [] then None
        else let slug = strip_edges (slug_runs False t)
             in if slug \<noteq> [] then Some slug else None)"

subsection \<open>Pool index of a profile\<close>

record loc_meta =
  lm_country :: "string option"
  lm_city :: "string option"
  lm_region :: "string option"

definition trimmed_str :: "json \<Rightarrow> string option" where
  "trimmed_str v = (case as_string v of
      None \<Rightarrow> None
    | Some s \<Rightarrow> if js_trim s \<noteq> [] then Some (js_trim s) else None)"

definition buildLocationPoolIndexMeta :: "snapshot_profile option \<Rightarrow> loc_meta" where
  "buildLocationPoolIndexMeta snap = (case snap of
      None \<Rightarrow> \<lparr>lm_country = None, lm_city = None, lm_region = None\<rparr>
    | Some p \<Rightarrow>
        let f = sp_filters p; a = sp_attributes p;
            cc = nullish (normalizeCountryCode (trimmed_str (jget f ''countryCode'')))
                         (normalizeCountryCode (trimmed_str (jget a ''countryCode'')));
            cityRaw = nullish (trimmed_str (jget f ''city'')) (trimmed_str (jget a ''city''));
            regionRaw = nullish (trimmed_str (jget f ''region'')) (trimmed_str (jget a ''region''));
            citySlug = slugLocationPart cityRaw;
            regionSlug = slugLocationPart regionRaw
        in \<lparr>lm_country = cc,
            lm_city = (if cc \<noteq> None \<and> citySlug \<noteq> None then citySlug else None),
            lm_region = (if cc \<noteq> None \<and> regionSlug \<noteq> None then regionSlug else None)\<rparr>)"

subsection \<open>Facts\<close>

lemma normalizeCountryCode_Some:
  "normalizeCountryCode v = Some c \<Longrightarrow> c \<noteq> [] \<and> normalize c = c"
  by (auto simp: normalizeCountryCode_def normalize_def Let_def js_trim_lower split: option.splits if_splits)

lemma trimmed_str_Some: "trimmed_str v = Some s \<Longrightarrow> s \<noteq> [] \<and> js_trim s = s"
  by (auto simp: trimmed_str_def split: option.splits if_splits)

lemma slug_runs_chars: "set (slug_runs b s) \<subseteq> {c. slug_char c} \<union> {CHR ''_''}"
  by (induction b s rule: slug_runs.induct) auto

lemma set_strip_edges: "set (strip_edges s) \<subseteq> set s"
  by (auto simp: strip_edges_def Let_def split: list.splits if_splits dest: in_set_butlastD)

text \<open>In a run the next underscore is swallowed: no two underscores are adjacent.\<close>

fun no_double :: "string \<Rightarrow> bool" where
  "no_double (a # b # r) = (\<not> (a = CHR ''_'' \<and> b = CHR ''_'') \<and> no_double (b # r))"
| "no_double _ = True"

lemma underscore_not_slug [simp]: "\<not> slug_char CHR ''_''"
  by (simp add: slug_char_def)

lemma slug_runs_True_hd: "slug_runs True s = [] \<or> slug_char (hd (slug_runs True s))"
  by (induction s) auto

lemma no_double_Cons: "no_double (a # r) \<longleftrightarrow> (r = [] \<or> \<not> (a = CHR ''_'' \<and> hd r = CHR ''_'')) \<and> no_double r"
  by (cases r) auto

lemma slug_runs_no_double: "no_double (slug_runs b s)"
proof (induction b s rule: slug_runs.induct)
  case (2 b c cs)
  show ?case
  proof (cases "slug_char c")
    case True
    then have "c \<noteq> CHR ''_''" by auto
    with True 2 show ?thesis by (simp add: no_double_Cons)
  next
    case False
    with 2 slug_runs_True_hd [of cs] show ?thesis by (auto simp: no_double_Cons)
  qed
qed simp

lemma no_double_tl: "no_double s \<Longrightarrow> no_double (tl s)"
  by (cases s) (auto simp: no_double_Cons)

lemma no_double_butlast: "no_double s \<Longrightarrow> no_double (butlast s)"
proof (induction s)
  case (Cons a s)
  then show ?case by (cases s; cases "tl s") (auto simp: no_double_Cons)
qed simp

lemma no_double_last2: "no_double (s @ [a, b]) \<Longrightarrow> \<not> (a = CHR ''_'' \<and> b = CHR ''_'')"
  by (induction s) (auto simp: no_double_Cons)

lemma strip_edges_ends:
  assumes "no_double s" "strip_edges s \<noteq> []"
  shows "hd (strip_edges s) \<noteq> CHR ''_''" "last (strip_edges s) \<noteq> CHR ''_''" "no_double (strip_edges s)"
proof -
  define a where "a = (case s of c # r \<Rightarrow> if c = CHR ''_'' then r else s | [] \<Rightarrow> [])"
  have nd: "no_double a" and hda: "a \<noteq> [] \<Longrightarrow> hd a \<noteq> CHR ''_''"
    using assms(1) by (auto simp: a_def no_double_Cons split: list.splits)
  have eq: "strip_edges s = (if a \<noteq> [] \<and> last a = CHR ''_'' then butlast a else a)"
    by (simp add: strip_edges_def a_def)
  show "no_double (strip_edges s)" using nd by (simp add: eq no_double_butlast)
  show "hd (strip_edges s) \<noteq> CHR ''_''"
  proof (cases "a \<noteq> [] \<and> last a = CHR ''_''")
    case True
    with assms(2) eq have "butlast a \<noteq> []" by simp
    with True hda show ?thesis by (cases a) (auto simp: eq)
  next
    case False
    with eq assms(2) have "strip_edges s = a" "a \<noteq> []" by auto
    with hda show ?thesis by simp
  qed
  show "last (strip_edges s) \<noteq> CHR ''_''"
  proof (cases "a \<noteq> [] \<and> last a = CHR ''_''")
    case True
    with assms(2) eq have ne: "butlast a \<noteq> []" by simp
    then obtain b x where b: "butlast a = b @ [x]" by (meson rev_exhaust)
    with True have "a = b @ [x, CHR ''_'']" using append_butlast_last_id [of a] by simp
    with nd no_double_last2 [of b x "CHR ''_''"] b True show ?thesis by (simp add: eq)
  qed (use eq assms(2) in auto)
qed

lemma meta_city_needs_country:
  "lm_city (buildLocationPoolIndexMeta s) \<noteq> None \<Longrightarrow> lm_country (buildLocationPoolIndexMeta s) \<noteq> None"
  "lm_region (buildLocationPoolIndexMeta s) \<noteq> None \<Longrightarrow> lm_country (buildLocationPoolIndexMeta s) \<noteq> None"
  by (auto simp: buildLocationPoolIndexMeta_def Let_def split: option.splits if_splits)

text \<open>
  A slug is a canonical bucket name: non-empty, over \<open>a-z0-9_\<close> only, with no underscore
  at either end and no two in a row. So the city and region buckets of the pool never hold a
  colon, and their Redis keys split uniquely.
\<close>

theorem slug_canonical:
  assumes "slugLocationPart v = Some slug"
  shows "slug \<noteq> [] \<and> (\<forall>c. c \<in> set slug \<longrightarrow> slug_char c \<or> c = CHR ''_'')
    \<and> hd slug \<noteq> CHR ''_'' \<and> last slug \<noteq> CHR ''_'' \<and> no_double slug"
proof -
  obtain t where t: "slug = strip_edges (slug_runs False t)" "slug \<noteq> []"
    using assms by (auto simp: slugLocationPart_def Let_def split: option.splits if_splits)
  have "set slug \<subseteq> {c. slug_char c} \<union> {CHR ''_''}"
    using set_strip_edges slug_runs_chars unfolding t(1) by fast
  moreover note strip_edges_ends [OF slug_runs_no_double t(2) [unfolded t(1)], folded t(1)]
  ultimately show ?thesis using t(2) by auto
qed

theorem slug_canonical_witness:
  "slugLocationPart (Some '' New-York!! '') = Some ''new_york'' \<and> no_double ''new_york''"
proof -
  have e: "slugLocationPart (Some '' New-York!! '') = Some ''new_york''" by code_simp
  from slug_canonical [OF e] e show ?thesis by simp
qed

end
