(* ===== verification/MatchSnapshot.thy ===== *)
theory MatchSnapshot
  imports RedisStore MatchLocation
begin

text \<open>
  The snapshot repository of the matching service (\<open>repositories/snapshot.ts\<close>): the cached
  profile JSON of a user is checked and normalised into the filters and attributes the
  validator and the scorer read. \<open>Date.parse\<close> and the clock are arguments.
\<close>

fun is_record :: "json \<Rightarrow> bool" where
  "is_record (JObj r) = True"
| "is_record _ = False"

fun as_record :: "json \<Rightarrow> jrecord" where
  "as_record (JObj r) = r"
| "as_record _ = []"

fun toStringOrNull :: "json \<Rightarrow> string option" where
  "toStringOrNull (JStr s) = (if js_trim s \<noteq> [] then Some s else None)"
| "toStringOrNull _ = None"

fun toNumberOrNull :: "json \<Rightarrow> rat option" where
  "toNumberOrNull (JNum x) = Some x"
| "toNumberOrNull (JStr s) = (if js_trim s \<noteq> [] then js_number s else None)"
| "toNumberOrNull _ = None"

fun parseDateToMs :: "(string \<Rightarrow> rat option) \<Rightarrow> json \<Rightarrow> rat option" where
  "parseDateToMs date_parse (JNum x) = Some x"
| "parseDateToMs date_parse (JStr s) = (if js_trim s = [] then None else date_parse s)"
| "parseDateToMs date_parse _ = None"

text \<open>\<open>[...new Set(values)]\<close> keeps the first occurrence of each value.\<close>

definition unique :: "string list \<Rightarrow> string list" where
  "unique xs = rev (remdups (rev xs))"

fun collect_ids :: "string \<Rightarrow> json list \<Rightarrow> string list" where
  "collect_ids childKey [] = []"
| "collect_ids childKey (item # items) =
     (if \<not> is_record item then collect_ids childKey items
      else let child = jget (as_record item) childKey in
        if \<not> is_record child then collect_ids childKey items
        else case toStringOrNull (jget (as_record child) ''id'') of
               None \<Rightarrow> collect_ids childKey items
             | Some i \<Rightarrow> i # collect_ids childKey items)"

fun collectNestedIds :: "json \<Rightarrow> string \<Rightarrow> string list" where
  "collectNestedIds (JArr items) childKey = collect_ids childKey items"
| "collectNestedIds _ childKey = []"

definition buildMatchIds :: "string list \<Rightarrow> string list \<Rightarrow> string list \<Rightarrow> string list" where
  "buildMatchIds interestIds goalIds professionIds =
     unique (map (\<lambda>i. ''interest:'' @ i) interestIds @ map (\<lambda>i. ''goal:'' @ i) goalIds
             @ map (\<lambda>i. ''profession:'' @ i) professionIds)"

record session_activity =
  sa_activityId :: string
  sa_name :: string
  sa_detail :: "string option"

fun snapshot_activities :: "json list \<Rightarrow> session_activity list" where
  "snapshot_activities [] = []"
| "snapshot_activities (item # items) =
     (if \<not> is_record item then snapshot_activities items
      else let it = as_record item;
               activity = (if is_record (jget it ''activity'') then as_record (jget it ''activity'') else it)
           in case (toStringOrNull (jget activity ''id''), toStringOrNull (jget activity ''name'')) of
                (Some i, Some n) \<Rightarrow>
                  \<lparr>sa_activityId = i, sa_name = n,
                   sa_detail = nullish (toStringOrNull (jget it ''detailNormalized''))
                                       (map_option js_lower (toStringOrNull (jget it ''detail'')))\<rparr>
                  # snapshot_activities items
              | _ \<Rightarrow> snapshot_activities items)"

fun parseSessionActivitiesFromSnapshot :: "jrecord \<Rightarrow> session_activity list" where
  "parseSessionActivitiesFromSnapshot cs =
     (case jget cs ''activities'' of JArr rows \<Rightarrow> snapshot_activities rows | _ \<Rightarrow> [])"

record session_prep =
  pr_moodIds :: "string list"
  pr_lookingForIds :: "string list"
  pr_connectionPreference :: "string option"
  pr_matchIntent :: string
  pr_sessionActivityIds :: "string list"
  pr_sessionActivities :: "session_activity list"

definition parseSessionPrepFromSnapshot :: "jrecord \<Rightarrow> session_prep" where
  "parseSessionPrepFromSnapshot raw =
     (let csv = jget raw ''currentStatus'' in
      if \<not> is_record csv then
        \<lparr>pr_moodIds = [], pr_lookingForIds = [], pr_connectionPreference = None,
         pr_matchIntent = ''quick'', pr_sessionActivityIds = [], pr_sessionActivities = []\<rparr>
      else let cs = as_record csv;
               acts = parseSessionActivitiesFromSnapshot cs
        in \<lparr>pr_moodIds = collectNestedIds (jget cs ''moods'') ''mood'',
            pr_lookingForIds = collectNestedIds (jget cs ''lookingFor'') ''lookingForOption'',
            pr_connectionPreference = toStringOrNull (jget cs ''connectionPreference''),
            pr_matchIntent =
              (if toStringOrNull (jget cs ''matchIntent'') = Some ''activity'' then ''activity'' else ''quick''),
            pr_sessionActivityIds = map sa_activityId acts,
            pr_sessionActivities = acts\<rparr>)"

text \<open>Arrays and rows are stored back as values of unknown type.\<close>

definition jstrs :: "string list \<Rightarrow> json" where
  "jstrs xs = JArr (map JStr xs)"

definition jactivity :: "session_activity \<Rightarrow> json" where
  "jactivity a = JObj [(''activityId'', JStr (sa_activityId a)), (''name'', JStr (sa_name a)),
                       (''detailNormalized'', opt_str (sa_detail a))]"

definition parseSnapshot ::
  "(string \<Rightarrow> rat option) \<Rightarrow> rat \<Rightarrow> jrecord \<Rightarrow> uid \<Rightarrow> snapshot_profile" where
  "parseSnapshot date_parse now raw fallbackUserId =
     (let user = as_record (jget raw ''user'');
          location = as_record (jget raw ''location'');
          preferences = as_record (jget raw ''preferences'');
          behavior = as_record (jget raw ''behavior'');
          interestIds = collectNestedIds (jget raw ''interests'') ''interest'';
          goalIds = collectNestedIds (jget raw ''goals'') ''goal'';
          professionIds = collectNestedIds (jget raw ''professions'') ''profession'';
          prep = parseSessionPrepFromSnapshot raw
      in \<lparr>sp_userId = nullish_or (nullish (toStringOrNull (jget raw ''userId''))
                                         (toStringOrNull (jget user ''id''))) fallbackUserId,
          sp_matchIds = buildMatchIds interestIds goalIds professionIds,
          sp_filters =
            [(''preferredGender'', JStr (nullish_or (toStringOrNull (jget preferences ''preferredGender'')) ''any'')),
             (''minAge'', JNum (nullish_or (toNumberOrNull (jget preferences ''minAge'')) 18)),
             (''maxAge'', JNum (nullish_or (toNumberOrNull (jget preferences ''maxAge'')) 99)),
             (''distancePreference'',
                JStr (nullish_or (toStringOrNull (jget preferences ''distancePreference'')) ''random'')),
             (''locationPreferenceEnabled'',
                (case jget preferences ''locationPreferenceEnabled'' of JBool b \<Rightarrow> JBool b | _ \<Rightarrow> JBool False)),
             (''countryCode'', opt_str (toStringOrNull (jget location ''countryCode''))),
             (''city'', opt_str (toStringOrNull (jget location ''city''))),
             (''region'', opt_str (toStringOrNull (jget location ''region'')))],
          sp_attributes =
            [(''age'', opt_num (toNumberOrNull (jget raw ''age''))),
             (''gender'', opt_str (toStringOrNull (jget raw ''gender''))),
             (''countryCode'', opt_str (toStringOrNull (jget location ''countryCode''))),
             (''city'', opt_str (toStringOrNull (jget location ''city''))),
             (''region'', opt_str (toStringOrNull (jget location ''region''))),
             (''interestIds'', jstrs interestIds),
             (''goalIds'', jstrs goalIds),
             (''professionIds'', jstrs professionIds),
             (''trustScore'', JNum (nullish_or (toNumberOrNull (jget behavior ''trustScore'')) 100)),
             (''sessionMoodIds'', jstrs (pr_moodIds prep)),
             (''sessionLookingForIds'', jstrs (pr_lookingForIds prep)),
             (''connectionPreference'', opt_str (pr_connectionPreference prep)),
             (''matchIntent'', JStr (pr_matchIntent prep)),
             (''sessionActivityIds'', jstrs (pr_sessionActivityIds prep)),
             (''sessionActivities'', JArr (map jactivity (pr_sessionActivities prep))),
             (''isGuest'', JBool (jget raw ''isGuest'' = JBool True))],
          sp_version = nullish_or (toNumberOrNull (jget raw ''version'')) 1,
          sp_updatedAt =
            nullish_or (nullish (nullish (parseDateToMs date_parse (jget raw ''updatedAt''))
                                         (parseDateToMs date_parse (jget raw ''lastUpdatedAt'')))
                                (parseDateToMs date_parse (jget raw ''createdAt''))) now\<rparr>)"

subsection \<open>Repository\<close>

datatype snapshot_error = InvalidJson uid | NotAnObject uid

definition getSnapshotByUserId ::
  "(string \<Rightarrow> rat option) \<Rightarrow> rat \<Rightarrow> uid \<Rightarrow> redis \<Rightarrow> snapshot_error + snapshot_profile option" where
  "getSnapshotByUserId date_parse now u r = (case docs r (Snapshot u) of
      None \<Rightarrow> Inr None
    | Some BadJson \<Rightarrow> Inl (InvalidJson u)
    | Some (Json v) \<Rightarrow>
        if \<not> is_record v then Inl (NotAnObject u)
        else Inr (Some (parseSnapshot date_parse now (as_record v) u)))"

text \<open>
  \<open>peekCountryCodesByUserIds\<close>: an absent, unreadable or incomplete snapshot gives null. A
  snapshot that is the JSON value null makes the property access throw inside the try, so
  it gives null as well, as any value that is not an object does.
\<close>

definition peekCountryCode :: "redis \<Rightarrow> uid \<Rightarrow> string option" where
  "peekCountryCode r u = (case docs r (Snapshot u) of
      Some (Json (JObj parsed)) \<Rightarrow>
        (case jget (as_record (jget parsed ''location'')) ''countryCode'' of
           JStr s \<Rightarrow> (let cc = js_lower (js_trim s) in if cc \<noteq> [] then Some cc else None)
         | _ \<Rightarrow> None)
    | _ \<Rightarrow> None)"

definition peekCountryCodesByUserIds :: "uid list \<Rightarrow> redis \<Rightarrow> (uid \<Rightarrow> string option option)" where
  "peekCountryCodesByUserIds ids r = (\<lambda>u. if u \<in> set ids then Some (peekCountryCode r u) else None)"

subsection \<open>Facts\<close>

lemma set_unique [simp]: "set (unique xs) = set xs"
  by (simp add: unique_def)

lemma distinct_unique: "distinct (unique xs)"
  by (simp add: unique_def)

lemma parse_matchIds: "distinct (sp_matchIds (parseSnapshot dp now raw u))"
  by (simp add: parseSnapshot_def Let_def buildMatchIds_def distinct_unique)

lemma parse_filters:
  "jget (sp_filters (parseSnapshot dp now raw u)) ''minAge'' =
     JNum (nullish_or (toNumberOrNull (jget (as_record (jget raw ''preferences'')) ''minAge'')) 18)"
  "jget (sp_filters (parseSnapshot dp now raw u)) ''maxAge'' =
     JNum (nullish_or (toNumberOrNull (jget (as_record (jget raw ''preferences'')) ''maxAge'')) 99)"
  by (simp_all add: parseSnapshot_def Let_def)

lemma parse_no_premium:
  "jget (sp_attributes (parseSnapshot dp now raw u)) ''isPremium'' = JUndefined"
  "jget (sp_attributes (parseSnapshot dp now raw u)) ''premiumEnabled'' = JUndefined"
  by (simp_all add: parseSnapshot_def Let_def)

lemma getSnapshot_cases:
  "getSnapshotByUserId dp now u r = Inr (Some p) \<Longrightarrow>
     \<exists>raw. docs r (Snapshot u) = Some (Json (JObj raw)) \<and> p = parseSnapshot dp now raw u"
proof -
  assume h: "getSnapshotByUserId dp now u r = Inr (Some p)"
  then obtain v where v: "docs r (Snapshot u) = Some (Json v)" "is_record v"
      "p = parseSnapshot dp now (as_record v) u"
    by (auto simp: getSnapshotByUserId_def split: option.splits doc.splits if_splits)
  then show ?thesis by (cases v) auto
qed

lemma collect_ids_nonblank: "i \<in> set (collect_ids k items) \<Longrightarrow> js_trim i \<noteq> []"
proof (induction k items rule: collect_ids.induct)
  case (2 k item items)
  have t: "toStringOrNull v = Some s \<Longrightarrow> js_trim s \<noteq> []" for v s
    by (cases v) (auto split: if_splits)
  from 2 show ?case by (auto simp: Let_def split: if_splits option.splits dest: t)
qed simp

end
