(* ===== verification/MatchScoring.thy ===== *)
theory MatchScoring
  imports MatchSnapshot
begin

text \<open>
  Compatibility and scoring of a pair (\<open>scoring/validator.ts\<close>, \<open>scoring/scorer.ts\<close>,
  \<open>scoring/activity-intent.ts\<close>, \<open>guest/guest-match-pool.ts\<close> and the weights of
  \<open>shared/config/constants.ts\<close>). Scores are exact rationals.
\<close>

subsection \<open>Weights\<close>

definition w_interests :: rat where "w_interests = 12"
definition w_goals :: rat where "w_goals = 13"
definition w_professions :: rat where "w_professions = 6"
definition w_agePreference :: rat where "w_agePreference = 6"
definition w_distancePreference :: rat where "w_distancePreference = 6"
definition w_preferredGender :: rat where "w_preferredGender = 3"
definition w_trustScore :: rat where "w_trustScore = 2"
definition w_sessionMoods :: rat where "w_sessionMoods = 28"
definition w_sessionLookingFor :: rat where "w_sessionLookingFor = 28"
definition w_connectionPreference :: rat where "w_connectionPreference = 21"
definition w_sessionActivities :: rat where "w_sessionActivities = 20"
definition w_sessionActivityDetail :: rat where "w_sessionActivityDetail = 8"

lemmas weight_defs =
  w_interests_def w_goals_def w_professions_def w_agePreference_def w_distancePreference_def
  w_preferredGender_def w_trustScore_def w_sessionMoods_def w_sessionLookingFor_def
  w_connectionPreference_def w_sessionActivities_def w_sessionActivityDetail_def

definition minScoreToMatch :: int where "minScoreToMatch = 35"

subsection \<open>Reading unknown values\<close>

definition toNumber :: "json \<Rightarrow> rat option" where
  "toNumber v = toNumberOrNull v"

definition toString :: "json \<Rightarrow> string option" where
  "toString v = trimmed_str v"

fun string_items :: "json list \<Rightarrow> string list" where
  "string_items [] = []"
| "string_items (v # vs) = (case toString v of None \<Rightarrow> string_items vs | Some s \<Rightarrow> s # string_items vs)"

fun toStringArray :: "json \<Rightarrow> string list" where
  "toStringArray (JArr vs) = string_items vs"
| "toStringArray _ = []"

subsection \<open>Component scores\<close>

definition overlapRatio :: "string list \<Rightarrow> string list \<Rightarrow> rat" where
  "overlapRatio left right =
     (if left = [] \<or> right = [] then 0
      else let leftSet = set (map normalize left); rightSet = set (map normalize right);
               unionSize = card (leftSet \<union> rightSet)
           in if unionSize = 0 then 0 else of_nat (card (leftSet \<inter> rightSet)) / of_nat unionSize)"

definition ageScore :: "rat option \<Rightarrow> rat option \<Rightarrow> rat option \<Rightarrow> rat" where
  "ageScore minAge maxAge candidateAge = (case candidateAge of
      None \<Rightarrow> 1 / 2
    | Some age \<Rightarrow>
        if minAge = None \<and> maxAge = None then 1
        else let lower = nullish_or minAge 18; upper = nullish_or maxAge 99 in
          if lower \<le> age \<and> age \<le> upper then 1
          else let dist = (if age < lower then lower - age else if age > upper then age - upper else 0);
                   clamped = min (dist / 10) 1
               in max 0 (1 - clamped))"

record place =
  pl_city :: "string option"
  pl_region :: "string option"
  pl_country :: "string option"

definition same_place :: "string option \<Rightarrow> string option \<Rightarrow> bool" where
  "same_place a b = (truthy a \<and> truthy b \<and> map_option normalize a = map_option normalize b)"

definition distanceScore :: "string option \<Rightarrow> bool \<Rightarrow> place \<Rightarrow> place \<Rightarrow> rat" where
  "distanceScore preference enabled req cand =
     (if \<not> enabled then 1
      else case canonicalDistancePreference preference of
        None \<Rightarrow> 1
      | Some PrefRandom \<Rightarrow> 1
      | Some PrefGlobal \<Rightarrow>
          if \<not> truthy (pl_country req) \<or> \<not> truthy (pl_country cand) then 82 / 100
          else if same_place (pl_country req) (pl_country cand) then 55 / 100 else 1
      | Some PrefSameCity \<Rightarrow> if same_place (pl_city req) (pl_city cand) then 1 else 58 / 100
      | Some PrefSameRegion \<Rightarrow> if same_place (pl_region req) (pl_region cand) then 1 else 68 / 100
      | Some PrefSameCountry \<Rightarrow> if same_place (pl_country req) (pl_country cand) then 1 else 58 / 100)"

definition trustScore :: "rat option \<Rightarrow> rat" where
  "trustScore v = (case v of None \<Rightarrow> 1 / 2 | Some x \<Rightarrow> min (max x 0) 100 / 100)"

definition genderPreferenceScore :: "string option \<Rightarrow> string option \<Rightarrow> rat" where
  "genderPreferenceScore preferred candidate =
     (if \<not> truthy preferred \<or> map_option normalize preferred = Some ''any'' then 1
      else if \<not> truthy candidate then 1 / 2
      else if map_option normalize preferred = map_option normalize candidate then 1 else 0)"

definition sessionOverlapComponent :: "string list \<Rightarrow> string list \<Rightarrow> rat" where
  "sessionOverlapComponent left right =
     (if left = [] \<and> right = [] then 1
      else if left = [] \<or> right = [] then 1 / 2
      else overlapRatio left right)"

definition effective_pref :: "string option \<Rightarrow> string" where
  "effective_pref p = (case p of
      None \<Rightarrow> ''open_to_anyone''
    | Some s \<Rightarrow> if js_trim s \<noteq> [] then normalize s else ''open_to_anyone'')"

record prep_weights =
  pw_mood :: rat
  pw_lookingFor :: rat
  pw_connectionPreference :: rat
  pw_sessionActivities :: rat
  pw_sessionActivityDetail :: rat

definition activeMatchPrepWeights ::
  "string list \<Rightarrow> string list \<Rightarrow> string option \<Rightarrow> string list \<Rightarrow> prep_weights" where
  "activeMatchPrepWeights moods lookingFor connPref activityIds =
     \<lparr>pw_mood = (if moods \<noteq> [] then w_sessionMoods else 0),
      pw_lookingFor = (if lookingFor \<noteq> [] then w_sessionLookingFor else 0),
      pw_connectionPreference =
        (let pref = effective_pref connPref
         in if pref \<noteq> [] \<and> pref \<noteq> ''open_to_anyone'' then w_connectionPreference else 0),
      pw_sessionActivities = (if activityIds \<noteq> [] then w_sessionActivities else 0),
      pw_sessionActivityDetail = (if activityIds \<noteq> [] then w_sessionActivityDetail else 0)\<rparr>"

definition connectionPreferenceDirectionalScore ::
  "string option \<Rightarrow> string list \<Rightarrow> string list \<Rightarrow> rat" where
  "connectionPreferenceDirectionalScore pref reqProf candProf =
     (let p = effective_pref pref; ov = overlapRatio reqProf candProf in
      if p = ''open_to_anyone'' then 1
      else if p = ''same_profession'' then
        (if reqProf = [] \<or> candProf = [] then 1 / 2
         else if ov > 0 then max (35 / 100) ov else 15 / 100)
      else if p = ''different_profession'' then
        (if reqProf = [] \<or> candProf = [] then 1 / 2 else 1 - ov)
      else 1)"

subsection \<open>Activity intent\<close>

fun activity_rows :: "json list \<Rightarrow> session_activity list" where
  "activity_rows [] = []"
| "activity_rows (JObj row # vs) =
     (case (as_string (jget row ''activityId''), as_string (jget row ''name'')) of
        (Some i, Some n) \<Rightarrow>
          if i = [] \<or> n = [] then activity_rows vs
          else \<lparr>sa_activityId = i, sa_name = n,
                sa_detail = map_option normalize (toStringOrNull (jget row ''detailNormalized''))\<rparr>
               # activity_rows vs
      | _ \<Rightarrow> activity_rows vs)"
| "activity_rows (_ # vs) = activity_rows vs"

fun toSessionActivities :: "json \<Rightarrow> session_activity list" where
  "toSessionActivities (JArr vs) = activity_rows vs"
| "toSessionActivities _ = []"

definition sharedActivityIds :: "string list \<Rightarrow> string list \<Rightarrow> string list" where
  "sharedActivityIds left right = filter (\<lambda>i. i \<in> set right) left"

definition match_intent :: "snapshot_profile \<Rightarrow> string" where
  "match_intent p = nullish_or (as_string (jget (sp_attributes p) ''matchIntent'')) ''quick''"

definition activity_ids :: "snapshot_profile \<Rightarrow> string list" where
  "activity_ids p = toStringArray (jget (sp_attributes p) ''sessionActivityIds'')"

definition passesActivityIntentStrictFilter :: "snapshot_profile \<Rightarrow> snapshot_profile \<Rightarrow> bool" where
  "passesActivityIntentStrictFilter requester candidate =
     (if match_intent requester \<noteq> ''activity'' then True
      else if activity_ids requester = [] then True
      else if match_intent candidate \<noteq> ''activity'' then True
      else if activity_ids candidate = [] then False
      else sharedActivityIds (activity_ids requester) (activity_ids candidate) \<noteq> [])"

text \<open>
  The candidate's rows go into a \<open>Map\<close> keyed by activity id, where a later row replaces an
  earlier one; the requester's rows are counted one by one.
\<close>

definition rows_by_id :: "session_activity list \<Rightarrow> string \<Rightarrow> session_activity option" where
  "rows_by_id rows = map_of (rev (map (\<lambda>a. (sa_activityId a, a)) rows))"

definition detail_match :: "session_activity \<Rightarrow> session_activity \<Rightarrow> bool" where
  "detail_match l r = (truthy (sa_detail l) \<and> truthy (sa_detail r) \<and> sa_detail l = sa_detail r)"

definition activity_overlap :: "session_activity list \<Rightarrow> session_activity list \<Rightarrow> rat \<times> rat" where
  "activity_overlap req cand =
     (if req = [] \<or> cand = [] then (0, 0)
      else let byId = rows_by_id cand;
               hits = filter (\<lambda>l. byId (sa_activityId l) \<noteq> None) req;
               details = filter (\<lambda>l. detail_match l (the (byId (sa_activityId l)))) hits;
               unionSize = card (set (map sa_activityId req) \<union> set (map sa_activityId cand));
               overlap = (if unionSize = 0 then 0 else of_nat (length hits) / of_nat unionSize);
               bonus = (if hits = [] then 0 else of_nat (length details) / of_nat (length hits))
           in (overlap, bonus))"

definition profile_activities :: "snapshot_profile \<Rightarrow> session_activity list" where
  "profile_activities p = toSessionActivities (jget (sp_attributes p) ''sessionActivities'')"

definition sessionActivityOverlapScore :: "snapshot_profile \<Rightarrow> snapshot_profile \<Rightarrow> rat \<times> rat" where
  "sessionActivityOverlapScore requester candidate =
     activity_overlap (profile_activities requester) (profile_activities candidate)"

subsection \<open>The directional and bidirectional score\<close>

definition attr :: "snapshot_profile \<Rightarrow> string \<Rightarrow> json" where
  "attr p k = jget (sp_attributes p) k"

definition filt :: "snapshot_profile \<Rightarrow> string \<Rightarrow> json" where
  "filt p k = jget (sp_filters p) k"

definition prep_of :: "snapshot_profile \<Rightarrow> prep_weights" where
  "prep_of p = activeMatchPrepWeights (toStringArray (attr p ''sessionMoodIds''))
     (toStringArray (attr p ''sessionLookingForIds'')) (toString (attr p ''connectionPreference''))
     (toStringArray (attr p ''sessionActivityIds''))"

definition weighted_terms :: "snapshot_profile \<Rightarrow> snapshot_profile \<Rightarrow> (rat \<times> rat) list" where
  "weighted_terms req cand =
     (let prep = prep_of req;
          (overlap, bonus) = sessionActivityOverlapScore req cand
      in [(overlapRatio (toStringArray (attr req ''interestIds'')) (toStringArray (attr cand ''interestIds'')),
           w_interests),
          (overlapRatio (toStringArray (attr req ''goalIds'')) (toStringArray (attr cand ''goalIds'')), w_goals),
          (overlapRatio (toStringArray (attr req ''professionIds'')) (toStringArray (attr cand ''professionIds'')),
           w_professions),
          (ageScore (toNumber (filt req ''minAge'')) (toNumber (filt req ''maxAge'')) (toNumber (attr cand ''age'')),
           w_agePreference),
          (distanceScore (toString (filt req ''distancePreference''))
             (filt req ''locationPreferenceEnabled'' = JBool True)
             \<lparr>pl_city = toString (filt req ''city''), pl_region = toString (filt req ''region''),
              pl_country = toString (filt req ''countryCode'')\<rparr>
             \<lparr>pl_city = toString (attr cand ''city''), pl_region = toString (attr cand ''region''),
              pl_country = toString (attr cand ''countryCode'')\<rparr>,
           w_distancePreference),
          (genderPreferenceScore (toString (filt req ''preferredGender'')) (toString (attr cand ''gender'')),
           w_preferredGender),
          (trustScore (toNumber (attr cand ''trustScore'')), w_trustScore),
          (sessionOverlapComponent (toStringArray (attr req ''sessionMoodIds''))
             (toStringArray (attr cand ''sessionMoodIds'')), pw_mood prep),
          (sessionOverlapComponent (toStringArray (attr req ''sessionLookingForIds''))
             (toStringArray (attr cand ''sessionLookingForIds'')), pw_lookingFor prep),
          (connectionPreferenceDirectionalScore (toString (attr req ''connectionPreference''))
             (toStringArray (attr req ''professionIds'')) (toStringArray (attr cand ''professionIds'')),
           pw_connectionPreference prep),
          (overlap, pw_sessionActivities prep),
          (bonus, pw_sessionActivityDetail prep)])"

definition calculateDirectionalScore :: "snapshot_profile \<Rightarrow> snapshot_profile \<Rightarrow> rat" where
  "calculateDirectionalScore req cand =
     (let ts = weighted_terms req cand;
          weightedTotal = sum_list (map (\<lambda>(c, w). c * w) ts);
          totalWeight = sum_list (map snd ts)
      in if totalWeight \<le> 0 then 0 else weightedTotal / totalWeight * 100)"

definition calculateBidirectionalScore :: "snapshot_profile \<Rightarrow> snapshot_profile \<Rightarrow> int" where
  "calculateBidirectionalScore a b =
     js_round ((calculateDirectionalScore a b + calculateDirectionalScore b a) / 2)"

definition isScoreEligible :: "int \<Rightarrow> bool" where
  "isScoreEligible score = (score \<ge> minScoreToMatch)"

subsection \<open>Validator and guest policy\<close>

definition accepts :: "jrecord \<Rightarrow> jrecord \<Rightarrow> bool" where
  "accepts filters attributes =
     (case toNumber (jget attributes ''age'') of
        None \<Rightarrow> True
      | Some age \<Rightarrow>
          if (case toNumber (jget filters ''minAge'') of None \<Rightarrow> False | Some m \<Rightarrow> age < m) then False
          else if (case toNumber (jget filters ''maxAge'') of None \<Rightarrow> False | Some m \<Rightarrow> age > m) then False
          else True)"

definition isBidirectionallyCompatible :: "snapshot_profile \<Rightarrow> snapshot_profile \<Rightarrow> bool" where
  "isBidirectionallyCompatible a b =
     (accepts (sp_filters a) (sp_attributes b) \<and> accepts (sp_filters b) (sp_attributes a))"

datatype guest_policy = GuestAndRegistered | GuestOnly

definition isGuestSnapshot :: "snapshot_profile \<Rightarrow> bool" where
  "isGuestSnapshot p = (jget (sp_attributes p) ''isGuest'' = JBool True)"

definition areGuestPoolCompatible :: "snapshot_profile \<Rightarrow> snapshot_profile \<Rightarrow> guest_policy \<Rightarrow> bool" where
  "areGuestPoolCompatible requester candidate policy =
     (if policy = GuestAndRegistered then True
      else isGuestSnapshot requester = isGuestSnapshot candidate)"

subsection \<open>Every component lies between 0 and 1\<close>

lemma overlapRatio_range: "0 \<le> overlapRatio l r \<and> overlapRatio l r \<le> 1"
proof -
  have "card (set (map normalize l) \<inter> set (map normalize r)) \<le> card (set (map normalize l) \<union> set (map normalize r))"
    by (rule card_mono) auto
  then show ?thesis by (auto simp: overlapRatio_def Let_def divide_le_eq_1 card_gt_0_iff)
qed

lemma overlapRatio_commute: "overlapRatio l r = overlapRatio r l"
  by (simp add: overlapRatio_def Let_def Int_commute Un_commute disj_commute)

lemma ageScore_range: "0 \<le> ageScore mn mx a \<and> ageScore mn mx a \<le> 1"
  by (auto simp: ageScore_def Let_def min_def max_def split: option.splits)

lemma distanceScore_range: "0 \<le> distanceScore p e r c \<and> distanceScore p e r c \<le> 1"
  by (auto simp: distanceScore_def split: option.splits distance_pref.splits)

lemma trustScore_range: "0 \<le> trustScore v \<and> trustScore v \<le> 1"
  by (auto simp: trustScore_def split: option.splits)

lemma genderPreferenceScore_range: "0 \<le> genderPreferenceScore p c \<and> genderPreferenceScore p c \<le> 1"
  by (auto simp: genderPreferenceScore_def)

lemma sessionOverlapComponent_range: "0 \<le> sessionOverlapComponent l r \<and> sessionOverlapComponent l r \<le> 1"
  using overlapRatio_range [of l r] by (auto simp: sessionOverlapComponent_def)

lemma connectionPreference_range:
  "0 \<le> connectionPreferenceDirectionalScore p a b \<and> connectionPreferenceDirectionalScore p a b \<le> 1"
  using overlapRatio_range [of a b] by (auto simp: connectionPreferenceDirectionalScore_def Let_def)

lemma rows_by_id_dom: "rows_by_id rows i \<noteq> None \<longleftrightarrow> i \<in> set (map sa_activityId rows)"
  by (auto simp: rows_by_id_def map_of_eq_None_iff image_iff)

lemma activity_overlap_nonneg: "0 \<le> fst (activity_overlap l r) \<and> 0 \<le> snd (activity_overlap l r)"
  by (simp add: activity_overlap_def Let_def)

lemma activity_bonus_le: "snd (activity_overlap l r) \<le> 1"
proof -
  have "length (filter P (filter Q xs)) \<le> length (filter Q xs)" for P Q and xs :: "session_activity list"
    by (rule length_filter_le)
  then show ?thesis by (auto simp: activity_overlap_def Let_def divide_le_eq_1 simp del: filter_filter)
qed

text \<open>The overlap counts requester rows, so it stays below 1 when their ids are distinct.\<close>

lemma activity_overlap_le:
  assumes "distinct (map sa_activityId l)"
  shows "fst (activity_overlap l r) \<le> 1"
proof -
  let ?hits = "filter (\<lambda>a. rows_by_id r (sa_activityId a) \<noteq> None) l"
  have "distinct (map sa_activityId ?hits)" using assms by (rule distinct_map_filter)
  then have "length ?hits = card (set (map sa_activityId ?hits))"
    by (metis distinct_card length_map)
  also have "\<dots> \<le> card (set (map sa_activityId l) \<union> set (map sa_activityId r))"
    by (rule card_mono) auto
  finally show ?thesis by (auto simp: activity_overlap_def Let_def divide_le_eq_1 card_gt_0_iff)
qed

lemma prep_nonneg:
  "0 \<le> pw_mood (prep_of p)" "0 \<le> pw_lookingFor (prep_of p)" "0 \<le> pw_connectionPreference (prep_of p)"
  "0 \<le> pw_sessionActivities (prep_of p)" "0 \<le> pw_sessionActivityDetail (prep_of p)"
  by (simp_all add: prep_of_def activeMatchPrepWeights_def weight_defs Let_def)

subsection \<open>The weighted mean\<close>

definition terms_ok :: "(rat \<times> rat) list \<Rightarrow> bool" where
  "terms_ok ts = list_all (\<lambda>(c, w). 0 \<le> c \<and> c \<le> 1 \<and> 0 \<le> w) ts"

lemma weighted_sum_bounds:
  "terms_ok ts \<Longrightarrow> 0 \<le> sum_list (map (\<lambda>(c, w). c * w) ts)
     \<and> sum_list (map (\<lambda>(c, w). c * w) ts) \<le> sum_list (map snd ts)"
proof (induction ts)
  case (Cons t ts)
  obtain c w where t: "t = (c, w)" by (cases t)
  with Cons have cw: "0 \<le> c" "c \<le> 1" "0 \<le> w" and "terms_ok ts" by (auto simp: terms_ok_def)
  then have "0 \<le> c * w" "c * w \<le> w" by (auto simp: mult_left_le_one_le)
  with Cons.IH [OF \<open>terms_ok ts\<close>] show ?case by (simp add: t)
qed simp

lemma weighted_mean_bounds:
  assumes "terms_ok ts" "0 < sum_list (map snd ts)"
  shows "0 \<le> sum_list (map (\<lambda>(c, w). c * w) ts) / sum_list (map snd ts) * 100
    \<and> sum_list (map (\<lambda>(c, w). c * w) ts) / sum_list (map snd ts) * 100 \<le> 100"
  using weighted_sum_bounds [OF assms(1)] assms(2)
  by (simp add: divide_le_eq)

lemma weighted_terms_ok:
  assumes "distinct (map sa_activityId (profile_activities req))"
  shows "terms_ok (weighted_terms req cand)"
  using activity_overlap_le [OF assms, of "profile_activities cand"]
    activity_overlap_nonneg [of "profile_activities req" "profile_activities cand"]
    activity_bonus_le [of "profile_activities req" "profile_activities cand"]
  by (simp add: terms_ok_def weighted_terms_def sessionActivityOverlapScore_def Let_def split_beta
      overlapRatio_range ageScore_range distanceScore_range genderPreferenceScore_range trustScore_range
      sessionOverlapComponent_range connectionPreference_range prep_nonneg weight_defs)

lemma total_weight_pos: "48 \<le> sum_list (map snd (weighted_terms req cand))"
  using prep_nonneg [of req] by (simp add: weighted_terms_def Let_def split_beta weight_defs)

lemma directional_range:
  assumes "distinct (map sa_activityId (profile_activities req))"
  shows "0 \<le> calculateDirectionalScore req cand \<and> calculateDirectionalScore req cand \<le> 100"
proof -
  have pos: "0 < sum_list (map snd (weighted_terms req cand))"
    using total_weight_pos [of req cand] by linarith
  then show ?thesis
    using weighted_mean_bounds [OF weighted_terms_ok [OF assms] pos]
    by (simp add: calculateDirectionalScore_def Let_def)
qed

lemma js_round_mono: "x \<le> y \<Longrightarrow> js_round x \<le> js_round y"
  by (simp add: js_round_def floor_mono)

lemma js_round_int [simp]: "js_round (of_int i) = i"
  by (simp add: js_round_def) linarith

subsection \<open>Properties\<close>

text \<open>
  C37. The match score of two profiles is a percentage. For profiles that list no activity twice
  it lies between 0 and 100 in both directions, and so does their rounded mean, whatever the
  filters and attributes hold.
\<close>

theorem score_is_percentage:
  assumes "distinct (map sa_activityId (profile_activities a))"
    and "distinct (map sa_activityId (profile_activities b))"
  shows "0 \<le> calculateBidirectionalScore a b \<and> calculateBidirectionalScore a b \<le> 100"
proof -
  note da = directional_range [OF assms(1), of b] and db = directional_range [OF assms(2), of a]
  let ?m = "(calculateDirectionalScore a b + calculateDirectionalScore b a) / 2"
  have "of_int 0 \<le> ?m" "?m \<le> of_int 100" using da db by auto
  then have "js_round (of_int 0) \<le> js_round ?m" "js_round ?m \<le> js_round (of_int 100)"
    by (simp_all only: js_round_mono)
  then show ?thesis by (simp only: js_round_int calculateBidirectionalScore_def)
qed

definition sample_raw :: jrecord where
  "sample_raw = [(''currentStatus'', JObj [(''activities'',
     JArr (replicate 4 (JObj [(''id'', JStr ''chess''), (''name'', JStr ''Chess'')])))])]"

definition sample_dup :: snapshot_profile where
  "sample_dup = parseSnapshot (\<lambda>_. None) 0 sample_raw ''u1''"

definition sample_plain :: snapshot_profile where
  "sample_plain = parseSnapshot (\<lambda>_. None) 0 [(''age'', JNum 30)] ''u2''"

theorem score_is_percentage_witness:
  "0 \<le> calculateBidirectionalScore sample_plain sample_plain
   \<and> calculateBidirectionalScore sample_plain sample_plain \<le> 100"
proof -
  have d: "distinct (map sa_activityId (profile_activities sample_plain))" by code_simp
  from score_is_percentage [OF d d] show ?thesis .
qed

text \<open>
  The bound needs its hypothesis. A cached profile whose status lists one activity four times
  passes the snapshot parser with four rows, the overlap counts each of them against a union
  of one id, and the pair scores above 100.
\<close>

theorem duplicate_activity_overshoots:
  "calculateBidirectionalScore sample_dup sample_dup > 100"
  by code_simp

text \<open>
  The activity filter of the primary passes. It rejects a candidate exactly when both sides
  search by activity, the requester named at least one, and no activity id is on both lists.
\<close>

theorem strict_filter_rejects_iff:
  "\<not> passesActivityIntentStrictFilter req cand \<longleftrightarrow>
     match_intent req = ''activity'' \<and> match_intent cand = ''activity'' \<and> activity_ids req \<noteq> []
     \<and> set (activity_ids req) \<inter> set (activity_ids cand) = {}"
  by (auto simp: passesActivityIntentStrictFilter_def sharedActivityIds_def filter_empty_conv)

text \<open>
  A candidate the validator accepts and whose age is known is inside the requester's age
  range, so the age component of a parsed requester's score is full.
\<close>

theorem accepted_age_scores_full:
  assumes "accepts (sp_filters req) (sp_attributes cand)" "toNumber (attr cand ''age'') = Some age"
    and "req = parseSnapshot dp now raw u"
  shows "ageScore (toNumber (filt req ''minAge'')) (toNumber (filt req ''maxAge'')) (toNumber (attr cand ''age'')) = 1"
  using assms by (auto simp: accepts_def attr_def filt_def toNumber_def parse_filters ageScore_def Let_def
      split: if_splits)

theorem accepted_age_scores_full_witness:
  "ageScore (toNumber (filt sample_plain ''minAge'')) (toNumber (filt sample_plain ''maxAge''))
     (toNumber (attr sample_plain ''age'')) = 1"
proof -
  have a: "accepts (sp_filters sample_plain) (sp_attributes sample_plain)" by code_simp
  have n: "toNumber (attr sample_plain ''age'') = Some 30" by code_simp
  show ?thesis by (rule accepted_age_scores_full [OF a n sample_plain_def])
qed

end
