(* ===== verification/MatchRanking.thy ===== *)
theory MatchRanking
  imports MatchScoring
begin

text \<open>
  The order in which a requester tries the scored candidates (the ranking part of
  \<open>helpers.ts\<close>) and the execution strategy of a tier (\<open>strategy.ts\<close>).
\<close>

record scored_candidate =
  sc_userId :: uid
  sc_matchScore :: int
  sc_poolScore :: int

definition scored_cmp :: "scored_candidate \<Rightarrow> scored_candidate \<Rightarrow> int" where
  "scored_cmp a b =
     (if sc_matchScore a \<noteq> sc_matchScore b then sc_matchScore b - sc_matchScore a
      else sc_poolScore b - sc_poolScore a)"

definition sortScoredCandidatesDescending :: "scored_candidate list \<Rightarrow> scored_candidate list" where
  "sortScoredCandidatesDescending cs = js_sort scored_cmp cs"

record peer_sets =
  ps_known :: "uid set"
  ps_skipped :: "uid set"

fun partition_rows ::
  "peer_sets \<Rightarrow> scored_candidate list \<Rightarrow> scored_candidate list \<Rightarrow> scored_candidate list
   \<Rightarrow> scored_candidate list \<Rightarrow> scored_candidate list" where
  "partition_rows ps pref known skipped [] = pref @ known @ skipped"
| "partition_rows ps pref known skipped (row # rows) =
     (if sc_userId row \<in> ps_skipped ps then partition_rows ps pref known (skipped @ [row]) rows
      else if sc_userId row \<in> ps_known ps then partition_rows ps pref (known @ [row]) skipped rows
      else partition_rows ps (pref @ [row]) known skipped rows)"

definition partitionDeprioritizedCandidates ::
  "scored_candidate list \<Rightarrow> peer_sets \<Rightarrow> scored_candidate list" where
  "partitionDeprioritizedCandidates cs ps =
     (if ps_known ps = {} \<and> ps_skipped ps = {} then cs else partition_rows ps [] [] [] cs)"

definition rankCandidatesForPairing ::
  "scored_candidate list \<Rightarrow> peer_sets \<Rightarrow> scored_candidate list" where
  "rankCandidatesForPairing cs ps =
     partitionDeprioritizedCandidates (sortScoredCandidatesDescending cs) ps"

subsection \<open>Strategies\<close>

datatype tier = Standard | Premium
datatype algorithm = StandardPool | PremiumPool
datatype scoring_mode = EligibleOnly | AllCompatible

record strategy =
  st_strategyId :: algorithm
  st_tier :: tier
  st_retryBudget :: nat
  st_primaryScoringMode :: scoring_mode
  st_fallbackScoringMode :: scoring_mode

fun toBoolean :: "json \<Rightarrow> bool" where
  "toBoolean (JBool b) = b"
| "toBoolean (JStr s) = (js_lower s = ''true'')"
| "toBoolean (JNum x) = (x > 0)"
| "toBoolean _ = False"

definition toTier :: "snapshot_profile \<Rightarrow> tier" where
  "toTier p = (if toBoolean (jget (sp_attributes p) ''isPremium'')
                 \<or> toBoolean (jget (sp_attributes p) ''premiumEnabled'') then Premium else Standard)"

definition buildStandardStrategy :: strategy where
  "buildStandardStrategy =
     \<lparr>st_strategyId = StandardPool, st_tier = Standard, st_retryBudget = 0,
      st_primaryScoringMode = EligibleOnly, st_fallbackScoringMode = AllCompatible\<rparr>"

definition buildPremiumStrategy :: strategy where
  "buildPremiumStrategy =
     \<lparr>st_strategyId = PremiumPool, st_tier = Premium, st_retryBudget = 1,
      st_primaryScoringMode = EligibleOnly, st_fallbackScoringMode = AllCompatible\<rparr>"

definition resolveMatchExecutionStrategy :: "snapshot_profile \<Rightarrow> strategy" where
  "resolveMatchExecutionStrategy p =
     (if toTier p = Premium then buildPremiumStrategy else buildStandardStrategy)"

definition orderCandidatesForStrategy ::
  "strategy \<Rightarrow> scored_candidate list \<Rightarrow> scored_candidate list" where
  "orderCandidatesForStrategy strat cs = cs"

subsection \<open>Facts\<close>

lemma scored_cmp_le:
  "scored_cmp a b \<le> 0 \<longleftrightarrow>
     sc_matchScore a > sc_matchScore b
     \<or> (sc_matchScore a = sc_matchScore b \<and> sc_poolScore a \<ge> sc_poolScore b)"
  by (auto simp: scored_cmp_def)

interpretation ranked: js_comparator scored_cmp
  by unfold_locales (auto simp: scored_cmp_le)

definition tier_of :: "peer_sets \<Rightarrow> scored_candidate \<Rightarrow> nat" where
  "tier_of ps c = (if sc_userId c \<in> ps_skipped ps then 2 else if sc_userId c \<in> ps_known ps then 1 else 0)"

lemma partition_rows_eq:
  "partition_rows ps pref known skipped rows =
     (pref @ filter (\<lambda>c. tier_of ps c = 0) rows) @ (known @ filter (\<lambda>c. tier_of ps c = 1) rows)
     @ (skipped @ filter (\<lambda>c. tier_of ps c = 2) rows)"
  by (induction rows arbitrary: pref known skipped) (auto simp: tier_of_def)

lemma partition_eq:
  "partitionDeprioritizedCandidates cs ps =
     filter (\<lambda>c. tier_of ps c = 0) cs @ filter (\<lambda>c. tier_of ps c = 1) cs @ filter (\<lambda>c. tier_of ps c = 2) cs"
proof (cases "ps_known ps = {} \<and> ps_skipped ps = {}")
  case True
  then have "tier_of ps c = 0" for c by (simp add: tier_of_def)
  with True show ?thesis by (simp add: partitionDeprioritizedCandidates_def)
next
  case False
  then have "partitionDeprioritizedCandidates cs ps = partition_rows ps [] [] [] cs"
    by (auto simp: partitionDeprioritizedCandidates_def)
  then show ?thesis by (simp add: partition_rows_eq)
qed

lemma tier_cases: "tier_of ps c = 0 \<or> tier_of ps c = 1 \<or> tier_of ps c = 2"
  by (simp add: tier_of_def)

lemma mset_tiers:
  "mset (filter (\<lambda>c. tier_of ps c = 0) cs @ filter (\<lambda>c. tier_of ps c = 1) cs
     @ filter (\<lambda>c. tier_of ps c = 2) cs) = mset cs"
proof (induction cs)
  case (Cons c cs)
  then show ?case using tier_cases [of ps c] by auto
qed simp

definition tried_before :: "peer_sets \<Rightarrow> scored_candidate \<Rightarrow> scored_candidate \<Rightarrow> bool" where
  "tried_before ps a b = (tier_of ps a < tier_of ps b \<or> (tier_of ps a = tier_of ps b \<and> scored_cmp a b \<le> 0))"

lemma sorted_tier:
  assumes "sorted_wrt (\<lambda>a b. scored_cmp a b \<le> 0) s"
  shows "sorted_wrt (tried_before ps) (filter (\<lambda>c. tier_of ps c = n) s)"
proof -
  have "sorted_wrt (\<lambda>a b. scored_cmp a b \<le> 0) (filter (\<lambda>c. tier_of ps c = n) s)"
    using assms by (rule sorted_wrt_filterI)
  then show ?thesis by (rule sorted_wrt_mono_rel [rotated]) (auto simp: tried_before_def)
qed

text \<open>
  Ranking loses nobody and orders as its comment promises: the result is a rearrangement of
  the scored candidates, every fresh candidate is tried before every known peer and those
  before every skipped one, and inside a tier a higher match score goes first, a higher pool
  score breaking ties.
\<close>

theorem ranking_order:
  "mset (rankCandidatesForPairing cs ps) = mset cs
   \<and> sorted_wrt (tried_before ps) (rankCandidatesForPairing cs ps)"
proof -
  let ?s = "sortScoredCandidatesDescending cs"
  have s: "sorted_wrt (\<lambda>a b. scored_cmp a b \<le> 0) ?s"
    unfolding sortScoredCandidatesDescending_def by (rule ranked.sort_sorted)
  have "mset (rankCandidatesForPairing cs ps) = mset ?s"
    by (simp only: rankCandidatesForPairing_def partition_eq mset_tiers)
  moreover have "sorted_wrt (tried_before ps) (rankCandidatesForPairing cs ps)"
    using sorted_tier [OF s, of ps]
    by (auto simp: rankCandidatesForPairing_def partition_eq sorted_wrt_append tried_before_def)
  ultimately show ?thesis by (simp add: sortScoredCandidatesDescending_def)
qed

text \<open>
  Ranking is stable: candidates that agree on tier, match score and pool score are tried in
  the order the pool gave them.
\<close>

theorem ranking_stable:
  "filter (\<lambda>b. tier_of ps b = tier_of ps a \<and> scored_cmp a b \<le> 0 \<and> scored_cmp b a \<le> 0)
     (rankCandidatesForPairing cs ps)
   = filter (\<lambda>b. tier_of ps b = tier_of ps a \<and> scored_cmp a b \<le> 0 \<and> scored_cmp b a \<le> 0) cs"
proof -
  let ?s = "js_sort scored_cmp cs" and ?E = "\<lambda>b. scored_cmp a b \<le> 0 \<and> scored_cmp b a \<le> 0"
  have one: "filter (\<lambda>b. tier_of ps b = tier_of ps a \<and> ?E b) (filter (\<lambda>c. tier_of ps c = n) s) =
      (if tier_of ps a = n then filter (\<lambda>b. tier_of ps b = tier_of ps a) (filter ?E s) else [])" for n s
    by (auto simp: filter_empty_conv intro!: filter_cong)
  have "filter (\<lambda>b. tier_of ps b = tier_of ps a \<and> ?E b) (rankCandidatesForPairing cs ps) =
      filter (\<lambda>b. tier_of ps b = tier_of ps a) (filter ?E ?s)"
    using tier_cases [of ps a]
    by (auto simp only: rankCandidatesForPairing_def partition_eq sortScoredCandidatesDescending_def
        filter_append one) simp_all
  also have "\<dots> = filter (\<lambda>b. tier_of ps b = tier_of ps a) (filter ?E cs)"
    by (simp only: ranked.sort_stable)
  finally show ?thesis by (simp add: conj_ac)
qed

text \<open>
  The premium strategy, with its extra retry pass, is unreachable from cached profiles: the
  snapshot parser copies no premium flag, whatever the cached JSON says, so every requester
  runs with the standard strategy and no retry budget.
\<close>

theorem premium_never_resolved:
  "resolveMatchExecutionStrategy (parseSnapshot dp now raw u) = buildStandardStrategy"
  by (simp add: resolveMatchExecutionStrategy_def toTier_def parse_no_premium)

end
