(* ===== verification/MatchPool.thy ===== *)
theory MatchPool
  imports MatchRanking
begin

text \<open>
  The searching pool (\<open>pool/pool.ts\<close>) and the block lists it consults
  (\<open>blocks/blocked-peers.ts\<close>). A searching user is a member of the global sorted set, scored
  by enqueue time, and of the country, city and region buckets its location meta names.
\<close>

definition candidateBatchSize :: nat where "candidateBatchSize = 25"
definition poolScanLimit :: nat where "poolScanLimit = 100"
definition poolGlobalSortFetch :: nat where "poolGlobalSortFetch = 120"

type_synonym candidate = "uid \<times> int"

subsection \<open>Blocks\<close>

definition isBlockedWithPeer :: "redis \<Rightarrow> uid \<Rightarrow> uid \<Rightarrow> bool" where
  "isBlockedWithPeer r a b =
     (if a = b then False else b \<in> rsets r (BlocksOutgoing a) \<or> b \<in> rsets r (BlocksIncoming a))"

definition filterBlockedPeers :: "redis \<Rightarrow> uid \<Rightarrow> uid list \<Rightarrow> uid set" where
  "filterBlockedPeers r requester peers =
     {p \<in> set peers. p \<noteq> requester \<and> (p \<in> rsets r (BlocksOutgoing requester) \<or> p \<in> rsets r (BlocksIncoming requester))}"

subsection \<open>Membership\<close>

text \<open>The stored meta is \<open>JSON.stringify\<close> of the index: an absent part is an absent property.\<close>

definition meta_json :: "loc_meta \<Rightarrow> json" where
  "meta_json m = JObj
     ((case lm_country m of None \<Rightarrow> [] | Some c \<Rightarrow> [(''countryCode'', JStr c)])
      @ (case lm_city m of None \<Rightarrow> [] | Some c \<Rightarrow> [(''citySlug'', JStr c)])
      @ (case lm_region m of None \<Rightarrow> [] | Some c \<Rightarrow> [(''regionSlug'', JStr c)]))"

definition read_meta :: "doc option \<Rightarrow> loc_meta" where
  "read_meta d = (case d of
      Some (Json v) \<Rightarrow>
        \<lparr>lm_country = as_string (jget (as_record v) ''countryCode''),
         lm_city = as_string (jget (as_record v) ''citySlug''),
         lm_region = as_string (jget (as_record v) ''regionSlug'')\<rparr>
    | _ \<Rightarrow> \<lparr>lm_country = None, lm_city = None, lm_region = None\<rparr>)"

text \<open>The bucket keys a meta names; the code's truthiness tests skip an empty part.\<close>

definition meta_keys :: "loc_meta \<Rightarrow> rkey list" where
  "meta_keys m =
     (if truthy (lm_country m) then
        let cc = the (lm_country m) in
        [PoolByCountry cc]
        @ (if truthy (lm_city m) then [PoolByCity cc (the (lm_city m))] else [])
        @ (if truthy (lm_region m) then [PoolByRegion cc (the (lm_region m))] else [])
      else [])"

definition stripFromPool :: "uid \<Rightarrow> redis \<Rightarrow> redis" where
  "stripFromPool u r =
     (let keys = meta_keys (read_meta (docs r (PoolUserLocationMeta u)));
          r1 = rzrem PoolGlobal u r;
          r2 = fold (\<lambda>k s. rzrem k u s) keys r1
      in rdel (PoolUserLocationMeta u) r2)"

definition enqueue_with :: "uid \<Rightarrow> int \<Rightarrow> loc_meta \<Rightarrow> redis \<Rightarrow> redis" where
  "enqueue_with u now idx r =
     (let r1 = rzadd PoolGlobal now u r;
          r2 = fold (\<lambda>k s. rzadd k now u s) (meta_keys idx) r1;
          r3 = rset_doc (PoolUserLocationMeta u) (Json (meta_json idx)) r2
      in rset (UserState u) ''searching'' r3)"

definition enqueue :: "(string \<Rightarrow> rat option) \<Rightarrow> int \<Rightarrow> uid \<Rightarrow> redis \<Rightarrow> snapshot_error + redis" where
  "enqueue date_parse now u r =
     (case getSnapshotByUserId date_parse (of_int now) u r of
        Inl e \<Rightarrow> Inl e
      | Inr snap \<Rightarrow> Inr (enqueue_with u now (buildLocationPoolIndexMeta snap) r))"

definition remove_user :: "uid \<Rightarrow> redis \<Rightarrow> redis" where
  "remove_user u r = rdel (UserState u) (stripFromPool u r)"

subsection \<open>Candidate collection\<close>

definition zrevrangeWithScores :: "redis \<Rightarrow> rkey \<Rightarrow> nat \<Rightarrow> candidate list" where
  "zrevrangeWithScores r k limit = filter (\<lambda>c. fst c \<noteq> []) (rzrevrange k limit r)"

definition fetchSearchingStates :: "redis \<Rightarrow> uid list \<Rightarrow> uid set" where
  "fetchSearchingStates r ids = {u \<in> set ids. rget (UserState u) r = Some ''searching''}"

fun collect_until :: "nat \<Rightarrow> uid set \<Rightarrow> uid set \<Rightarrow> candidate list \<Rightarrow> candidate list \<Rightarrow> candidate list" where
  "collect_until n blocked searching out [] = out"
| "collect_until n blocked searching out (c # cs) =
     (if fst c \<in> blocked \<or> fst c \<notin> searching then collect_until n blocked searching out cs
      else let out' = out @ [c] in
        if length out' \<ge> n then out' else collect_until n blocked searching out' cs)"

definition filterCandidates :: "redis \<Rightarrow> uid \<Rightarrow> candidate list \<Rightarrow> nat \<Rightarrow> candidate list" where
  "filterCandidates r requester ordered batchSize =
     (if ordered = [] then []
      else collect_until batchSize (filterBlockedPeers r requester (map fst ordered))
             (fetchSearchingStates r (map fst ordered)) [] ordered)"

definition collectFromZset :: "redis \<Rightarrow> uid \<Rightarrow> rkey \<Rightarrow> nat \<Rightarrow> nat \<Rightarrow> candidate list" where
  "collectFromZset r requester k scanLimit batchSize =
     filterCandidates r requester
       (filter (\<lambda>c. fst c \<noteq> [] \<and> fst c \<noteq> requester) (rzrevrange k scanLimit r)) batchSize"

fun push_unique :: "uid \<Rightarrow> uid set \<Rightarrow> candidate list \<Rightarrow> candidate list" where
  "push_unique requester seen [] = []"
| "push_unique requester seen (c # cs) =
     (if fst c = requester \<or> fst c \<in> seen then push_unique requester seen cs
      else c # push_unique requester (insert (fst c) seen) cs)"

definition mergePrimaryThenGlobal :: "redis \<Rightarrow> uid \<Rightarrow> candidate list \<Rightarrow> candidate list" where
  "mergePrimaryThenGlobal r requester primary =
     filterCandidates r requester
       (push_unique requester {} (primary @ zrevrangeWithScores r PoolGlobal poolScanLimit))
       candidateBatchSize"

definition home_country :: "snapshot_profile \<Rightarrow> string option" where
  "home_country p =
     nullish (normalizeCountryCode (Some (nullish_or (as_string (filt p ''countryCode'')) [])))
             (normalizeCountryCode (Some (nullish_or (as_string (attr p ''countryCode'')) [])))"

definition sort_group :: "redis \<Rightarrow> string option \<Rightarrow> uid \<Rightarrow> int" where
  "sort_group r home u =
     (let peerCc = peekCountryCode r u in
      if \<not> truthy home \<or> \<not> truthy peerCc then 1 else if peerCc = home then 1 else 0)"

definition group_cmp :: "(candidate \<times> int) \<Rightarrow> (candidate \<times> int) \<Rightarrow> int" where
  "group_cmp a b = (if snd a \<noteq> snd b then snd a - snd b else snd (fst b) - snd (fst a))"

definition collectGlobalForeignFirst :: "redis \<Rightarrow> uid \<Rightarrow> snapshot_profile \<Rightarrow> candidate list" where
  "collectGlobalForeignFirst r requester snap =
     (let parsed = filter (\<lambda>c. fst c \<noteq> [] \<and> fst c \<noteq> requester) (rzrevrange PoolGlobal poolGlobalSortFetch r);
          blocked = filterBlockedPeers r requester (map fst parsed);
          pending = filter (\<lambda>c. fst c \<notin> blocked) parsed;
          home = home_country snap;
          grouped = map (\<lambda>c. (c, sort_group r home (fst c))) pending;
          sorted = map fst (js_sort group_cmp grouped);
          searching = fetchSearchingStates r (map fst sorted)
      in take candidateBatchSize (filter (\<lambda>c. fst c \<in> searching) sorted))"

definition getCandidates :: "redis \<Rightarrow> uid \<Rightarrow> snapshot_profile \<Rightarrow> candidate list" where
  "getCandidates r requester snap =
     (let locEnabled = (filt snap ''locationPreferenceEnabled'' = JBool True);
          canonical = canonicalDistancePreference (as_string (filt snap ''distancePreference''));
          fallback = collectFromZset r requester PoolGlobal poolScanLimit candidateBatchSize;
          cc = normalizeCountryCode (Some (nullish_or (as_string (filt snap ''countryCode'')) []));
          city = slugLocationPart (as_string (filt snap ''city''));
          reg = slugLocationPart (as_string (filt snap ''region''))
      in if \<not> locEnabled then fallback
         else case canonical of
           None \<Rightarrow> fallback
         | Some PrefRandom \<Rightarrow> fallback
         | Some PrefGlobal \<Rightarrow> collectGlobalForeignFirst r requester snap
         | Some PrefSameCity \<Rightarrow>
             (case (cc, city) of
                (Some c, Some s) \<Rightarrow>
                  mergePrimaryThenGlobal r requester (zrevrangeWithScores r (PoolByCity c s) poolScanLimit)
              | _ \<Rightarrow> fallback)
         | Some PrefSameCountry \<Rightarrow>
             (case cc of
                Some c \<Rightarrow>
                  mergePrimaryThenGlobal r requester (zrevrangeWithScores r (PoolByCountry c) poolScanLimit)
              | None \<Rightarrow> fallback)
         | Some PrefSameRegion \<Rightarrow>
             (case (cc, reg) of
                (Some c, Some s) \<Rightarrow>
                  mergePrimaryThenGlobal r requester (zrevrangeWithScores r (PoolByRegion c s) poolScanLimit)
              | _ \<Rightarrow> fallback))"

subsection \<open>Facts about membership\<close>

lemma read_meta_json [simp]:
  "read_meta (Some (Json (meta_json m))) = m"
  by (cases m) (auto simp: read_meta_def meta_json_def split: option.splits)

lemma rget_fold_rzrem [simp]: "rget k (fold (\<lambda>k s. rzrem k u s) ks r) = rget k r"
  by (induction ks arbitrary: r) simp_all

lemma docs_fold_rzrem [simp]: "docs (fold (\<lambda>k s. rzrem k u s) ks r) = docs r"
  by (induction ks arbitrary: r) simp_all

lemma hashes_fold_rzrem [simp]: "hashes (fold (\<lambda>k s. rzrem k u s) ks r) = hashes r"
  by (induction ks arbitrary: r) simp_all

lemma queues_fold_rzrem [simp]: "queues (fold (\<lambda>k s. rzrem k u s) ks r) = queues r"
  by (induction ks arbitrary: r) simp_all

lemma rsets_fold_rzrem [simp]: "rsets (fold (\<lambda>k s. rzrem k u s) ks r) = rsets r"
  by (induction ks arbitrary: r) simp_all

lemma rget_fold_rzadd [simp]: "rget k (fold (\<lambda>k s. rzadd k n u s) ks r) = rget k r"
  by (induction ks arbitrary: r) simp_all

lemma docs_fold_rzadd [simp]: "docs (fold (\<lambda>k s. rzadd k n u s) ks r) = docs r"
  by (induction ks arbitrary: r) simp_all

lemma hashes_fold_rzadd [simp]: "hashes (fold (\<lambda>k s. rzadd k n u s) ks r) = hashes r"
  by (induction ks arbitrary: r) simp_all

lemma queues_fold_rzadd [simp]: "queues (fold (\<lambda>k s. rzadd k n u s) ks r) = queues r"
  by (induction ks arbitrary: r) simp_all

lemma members_fold_rzrem:
  "zset_members (zsets (fold (\<lambda>k s. rzrem k u s) ks r) k) =
     (if k \<in> set ks then zset_members (zsets r k) - {u} else zset_members (zsets r k))"
  by (induction ks arbitrary: r) auto

lemma members_fold_rzadd:
  "zset_members (zsets (fold (\<lambda>k s. rzadd k n u s) ks r) k) =
     (if k \<in> set ks then insert u (zset_members (zsets r k)) else zset_members (zsets r k))"
  by (induction ks arbitrary: r) auto

lemma meta_keys_not_meta [simp]:
  "PoolUserLocationMeta v \<notin> set (meta_keys m)" "PoolGlobal \<notin> set (meta_keys m)"
  by (auto simp: meta_keys_def Let_def)

lemma members_strip:
  "zset_members (zsets (stripFromPool u r) k) =
     (if k = PoolUserLocationMeta u then {}
      else if k = PoolGlobal \<or> k \<in> set (meta_keys (read_meta (docs r (PoolUserLocationMeta u))))
      then zset_members (zsets r k) - {u} else zset_members (zsets r k))"
  by (auto simp: stripFromPool_def Let_def members_fold_rzrem zset_members_def [of "[]"])

lemma members_enqueue:
  "zset_members (zsets (enqueue_with u n idx r) k) =
     (if k = PoolGlobal \<or> k \<in> set (meta_keys idx) then insert u (zset_members (zsets r k))
      else zset_members (zsets r k))"
  by (auto simp: enqueue_with_def Let_def members_fold_rzadd)

lemma docs_strip [simp]:
  "docs (stripFromPool u r) = (docs r)(PoolUserLocationMeta u := None)"
  by (simp add: stripFromPool_def Let_def)

lemma docs_enqueue [simp]:
  "docs (enqueue_with u n idx r) = (docs r)(PoolUserLocationMeta u := Some (Json (meta_json idx)))"
  by (simp add: enqueue_with_def Let_def)

lemma rget_strip [simp]:
  "rget k (stripFromPool u r) = (if k = PoolUserLocationMeta u then None else rget k r)"
  by (simp add: stripFromPool_def Let_def)

lemma rget_enqueue [simp]:
  "rget k (enqueue_with u n idx r) = (if k = UserState u then Some ''searching'' else rget k r)"
  by (simp add: enqueue_with_def Let_def)

lemma hashes_strip [simp]:
  "hashes (stripFromPool u r) = (hashes r)(PoolUserLocationMeta u := [])"
  by (simp add: stripFromPool_def Let_def)

lemma hashes_enqueue [simp]: "hashes (enqueue_with u n idx r) = hashes r"
  by (simp add: enqueue_with_def Let_def)

lemma queues_strip [simp]:
  "queues (stripFromPool u r) = (queues r)(PoolUserLocationMeta u := [])"
  by (simp add: stripFromPool_def Let_def)

lemma queues_enqueue [simp]: "queues (enqueue_with u n idx r) = queues r"
  by (simp add: enqueue_with_def Let_def)

text \<open>
  The pool is indexed when a bucket holds a user only if the user's meta names that bucket:
  exactly what \<open>stripFromPool\<close> relies on to find every bucket.
\<close>

definition bucket_key :: "rkey \<Rightarrow> bool" where
  "bucket_key k = (case k of PoolByCountry _ \<Rightarrow> True | PoolByCity _ _ \<Rightarrow> True | PoolByRegion _ _ \<Rightarrow> True | _ \<Rightarrow> False)"

definition indexed :: "uid \<Rightarrow> redis \<Rightarrow> bool" where
  "indexed u r \<longleftrightarrow> (\<forall>k. bucket_key k \<and> u \<in> zset_members (zsets r k) \<longrightarrow>
     k \<in> set (meta_keys (read_meta (docs r (PoolUserLocationMeta u)))))"

definition pooled :: "uid \<Rightarrow> redis \<Rightarrow> bool" where
  "pooled u r \<longleftrightarrow> (\<exists>k. (k = PoolGlobal \<or> bucket_key k) \<and> u \<in> zset_members (zsets r k))"

lemma bucket_key_Global [simp]: "\<not> bucket_key PoolGlobal"
  by (simp add: bucket_key_def)

lemma meta_keys_bucket: "k \<in> set (meta_keys m) \<Longrightarrow> bucket_key k"
  by (auto simp: meta_keys_def Let_def bucket_key_def split: if_splits)

lemma strip_not_pooled: "indexed u r \<Longrightarrow> \<not> pooled u (stripFromPool u r)"
  by (auto simp: pooled_def indexed_def members_strip bucket_key_def split: if_splits)

lemma enqueue_indexed_fresh:
  "\<not> pooled u r \<Longrightarrow> indexed u (enqueue_with u n idx r)"
  by (auto simp: pooled_def indexed_def members_enqueue split: if_splits)

lemma strip_indexed_other: "indexed v r \<Longrightarrow> u \<noteq> v \<Longrightarrow> indexed v (stripFromPool u r)"
  by (auto simp: indexed_def members_strip split: if_splits)

lemma enqueue_indexed_other: "indexed v r \<Longrightarrow> u \<noteq> v \<Longrightarrow> indexed v (enqueue_with u n idx r)"
  by (auto simp: indexed_def members_enqueue split: if_splits)

subsection \<open>Facts about collection\<close>

lemma collect_until_eq:
  "length out < n \<Longrightarrow> collect_until n blocked searching out cs =
     out @ take (n - length out) (filter (\<lambda>c. fst c \<notin> blocked \<and> fst c \<in> searching) cs)"
proof (induction cs arbitrary: out)
  case (Cons c cs)
  show ?case
  proof (cases "fst c \<in> blocked \<or> fst c \<notin> searching")
    case False
    then have keep: "filter (\<lambda>c. fst c \<notin> blocked \<and> fst c \<in> searching) (c # cs) =
        c # filter (\<lambda>c. fst c \<notin> blocked \<and> fst c \<in> searching) cs" by simp
    show ?thesis
    proof (cases "length (out @ [c]) \<ge> n")
      case True
      with Cons.prems have "n - length out = 1" by simp
      with False True keep show ?thesis by simp
    next
      case F: False
      then have "n - length out = Suc (n - length (out @ [c]))" using Cons.prems by simp
      with False F keep Cons.IH [of "out @ [c]"] show ?thesis by simp
    qed
  qed (use Cons in auto)
qed simp

definition good_peer :: "redis \<Rightarrow> uid \<Rightarrow> uid \<Rightarrow> bool" where
  "good_peer r requester u =
     (\<not> isBlockedWithPeer r requester u \<and> rget (UserState u) r = Some ''searching'')"

lemma filterCandidates_eq:
  assumes "0 < n" "\<forall>c \<in> set ordered. fst c \<noteq> requester"
  shows "filterCandidates r requester ordered n = take n (filter (\<lambda>c. good_peer r requester (fst c)) ordered)"
proof -
  have "filter (\<lambda>c. fst c \<notin> filterBlockedPeers r requester (map fst ordered)
          \<and> fst c \<in> fetchSearchingStates r (map fst ordered)) ordered
      = filter (\<lambda>c. good_peer r requester (fst c)) ordered"
    using assms(2) by (intro filter_cong refl)
      (auto simp: filterBlockedPeers_def fetchSearchingStates_def good_peer_def isBlockedWithPeer_def)
  with assms(1) show ?thesis by (simp add: filterCandidates_def collect_until_eq)
qed

lemma push_unique_set:
  "set (push_unique requester seen cs) \<subseteq> set cs"
  "\<forall>c \<in> set (push_unique requester seen cs). fst c \<noteq> requester \<and> fst c \<notin> seen"
proof -
  show "set (push_unique requester seen cs) \<subseteq> set cs"
    by (induction cs arbitrary: seen) auto
  show "\<forall>c \<in> set (push_unique requester seen cs). fst c \<noteq> requester \<and> fst c \<notin> seen"
  proof (induction cs arbitrary: seen)
    case (Cons d cs)
    then show ?case using Cons.IH [of "insert (fst d) seen"] by auto
  qed simp
qed

lemma push_unique_distinct: "distinct (map fst (push_unique requester seen cs))"
proof (induction cs arbitrary: seen)
  case (Cons c cs)
  then show ?case using push_unique_set(2) [of requester "insert (fst c) seen" cs] by auto
qed simp

lemma push_unique_complete:
  "c \<in> set cs \<Longrightarrow> fst c \<noteq> requester \<Longrightarrow> fst c \<notin> seen \<Longrightarrow>
   fst c \<in> fst ` set (push_unique requester seen cs)"
proof (induction cs arbitrary: seen)
  case (Cons d cs)
  then show ?case by (cases "fst d = fst c") auto
qed simp

lemma rzrevrange_distinct:
  "zset_ok (zsets r k) \<Longrightarrow> distinct (map fst (rzrevrange k n r))"
  by (simp add: rzrevrange_def zset_ok_def distinct_take take_map [symmetric] rev_map [symmetric])

lemma distinct_map_take: "distinct (map f xs) \<Longrightarrow> distinct (map f (take n xs))"
  by (simp flip: take_map)

lemma group_cmp_le:
  "group_cmp a b \<le> 0 \<longleftrightarrow> snd a < snd b \<or> (snd a = snd b \<and> snd (fst a) \<ge> snd (fst b))"
  by (auto simp: group_cmp_def)

interpretation grouped: js_comparator group_cmp
  by unfold_locales (auto simp: group_cmp_le)

lemma collectFromZset_eq:
  "0 < n \<Longrightarrow> collectFromZset r requester k cap n =
     take n (filter (\<lambda>c. good_peer r requester (fst c))
       (filter (\<lambda>c. fst c \<noteq> [] \<and> fst c \<noteq> requester) (rzrevrange k cap r)))"
  unfolding collectFromZset_def by (rule filterCandidates_eq) auto

lemma mergePrimaryThenGlobal_eq:
  "mergePrimaryThenGlobal r requester primary =
     take candidateBatchSize (filter (\<lambda>c. good_peer r requester (fst c))
       (push_unique requester {} (primary @ zrevrangeWithScores r PoolGlobal poolScanLimit)))"
  unfolding mergePrimaryThenGlobal_def
  using push_unique_set(2) [of requester "{}" "primary @ zrevrangeWithScores r PoolGlobal poolScanLimit"]
  by (intro filterCandidates_eq) (auto simp: candidateBatchSize_def)

definition candidates_ok :: "redis \<Rightarrow> uid \<Rightarrow> candidate list \<Rightarrow> bool" where
  "candidates_ok r requester cs \<longleftrightarrow>
     length cs \<le> candidateBatchSize \<and> distinct (map fst cs)
     \<and> list_all (\<lambda>c. fst c \<noteq> requester \<and> good_peer r requester (fst c)) cs"

lemma collectFromZset_ok:
  assumes "zset_ok (zsets r k)"
  shows "candidates_ok r requester (collectFromZset r requester k cap candidateBatchSize)"
proof -
  have "0 < candidateBatchSize" by (simp add: candidateBatchSize_def)
  then show ?thesis
    using rzrevrange_distinct [OF assms, of cap]
    by (auto simp: candidates_ok_def collectFromZset_eq list_all_iff dest!: in_set_takeD
        intro!: distinct_map_take distinct_map_filter simp del: filter_filter)
qed

lemma mergePrimaryThenGlobal_ok: "candidates_ok r requester (mergePrimaryThenGlobal r requester primary)"
  using push_unique_distinct [of requester "{}" "primary @ zrevrangeWithScores r PoolGlobal poolScanLimit"]
    push_unique_set(2) [of requester "{}" "primary @ zrevrangeWithScores r PoolGlobal poolScanLimit"]
  by (auto simp: candidates_ok_def mergePrimaryThenGlobal_eq list_all_iff dest!: in_set_takeD
      intro!: distinct_map_take distinct_map_filter)

lemma collectGlobalForeignFirst_ok:
  assumes "zset_ok (zsets r PoolGlobal)"
  shows "candidates_ok r requester (collectGlobalForeignFirst r requester snap)"
proof -
  define parsed where "parsed = filter (\<lambda>c. fst c \<noteq> [] \<and> fst c \<noteq> requester) (rzrevrange PoolGlobal poolGlobalSortFetch r)"
  define pending where "pending = filter (\<lambda>c. fst c \<notin> filterBlockedPeers r requester (map fst parsed)) parsed"
  define grouped where "grouped = map (\<lambda>c. (c, sort_group r (home_country snap) (fst c))) pending"
  define sorted where "sorted = map fst (js_sort group_cmp grouped)"
  have "mset sorted = image_mset fst (mset grouped)" by (simp add: sorted_def)
  then have "mset sorted = mset pending" by (simp add: grouped_def multiset.map_comp comp_def)
  then have set: "set sorted = set pending" and dist: "distinct (map fst sorted) = distinct (map fst pending)"
    by (metis mset_eq_setD) (metis \<open>mset sorted = mset pending\<close> mset_map mset_eq_imp_distinct_iff)
  have "distinct (map fst pending)"
    using rzrevrange_distinct [OF assms, of poolGlobalSortFetch]
    by (auto simp: pending_def parsed_def intro!: distinct_map_filter simp del: filter_filter)
  moreover have "collectGlobalForeignFirst r requester snap =
      take candidateBatchSize (filter (\<lambda>c. fst c \<in> fetchSearchingStates r (map fst sorted)) sorted)"
    by (simp add: collectGlobalForeignFirst_def Let_def sorted_def grouped_def pending_def parsed_def)
  moreover have "\<forall>c \<in> set pending. fst c \<noteq> requester \<and> \<not> isBlockedWithPeer r requester (fst c)"
  proof
    fix c assume c: "c \<in> set pending"
    then have "c \<in> set parsed" "fst c \<notin> filterBlockedPeers r requester (map fst parsed)"
      by (auto simp: pending_def)
    moreover from this have "fst c \<noteq> requester" by (simp add: parsed_def)
    ultimately show "fst c \<noteq> requester \<and> \<not> isBlockedWithPeer r requester (fst c)"
      by (auto simp: filterBlockedPeers_def isBlockedWithPeer_def)
  qed
  ultimately show ?thesis
    using set dist
    by (auto simp: candidates_ok_def list_all_iff good_peer_def fetchSearchingStates_def
        dest!: in_set_takeD intro!: distinct_map_take distinct_map_filter)
qed

subsection \<open>Properties\<close>

text \<open>
  Whatever the location preference, the candidates a search gets are at most 25 distinct
  users other than the requester, each still in state searching and blocked in neither
  direction.
\<close>

theorem candidates_sound:
  assumes "\<And>k. zset_ok (zsets r k)"
  shows "candidates_ok r requester (getCandidates r requester snap)"
  using collectFromZset_ok [OF assms] mergePrimaryThenGlobal_ok collectGlobalForeignFirst_ok [OF assms]
  by (auto simp: getCandidates_def Let_def split: option.splits distance_pref.splits)

definition pool_sample :: redis where
  "pool_sample = enqueue_with ''bob'' 5 \<lparr>lm_country = Some ''fr'', lm_city = Some ''lyon'', lm_region = None\<rparr>
     (enqueue_with ''amy'' 4 \<lparr>lm_country = Some ''in'', lm_city = None, lm_region = None\<rparr> redis_empty)"

theorem candidates_sound_witness:
  "candidates_ok pool_sample ''amy'' (getCandidates pool_sample ''amy'' sample_plain)
   \<and> getCandidates pool_sample ''amy'' sample_plain = [(''bob'', 5)]"
proof -
  have ok: "zset_ok (zsets pool_sample k)" for k
    by (simp add: pool_sample_def enqueue_with_def Let_def meta_keys_def redis_empty_def rset_def rset_doc_def
        rzadd_def zset_ok_add zset_ok_def [of "[]"])
  have "getCandidates pool_sample ''amy'' sample_plain = [(''bob'', 5)]" by code_simp
  with candidates_sound [OF ok] show ?thesis by blast
qed

text \<open>
  Nobody eligible is overlooked: if the primary bucket plus global scan returns fewer than
  25 candidates, every scanned user who is searching, unblocked and not the requester is
  among them.
\<close>

theorem merge_complete:
  assumes "length (mergePrimaryThenGlobal r requester primary) < candidateBatchSize"
    and "c \<in> set primary \<union> set (zrevrangeWithScores r PoolGlobal poolScanLimit)"
    and "fst c \<noteq> requester" and "good_peer r requester (fst c)"
  shows "fst c \<in> fst ` set (mergePrimaryThenGlobal r requester primary)"
proof -
  let ?all = "primary @ zrevrangeWithScores r PoolGlobal poolScanLimit"
  let ?f = "filter (\<lambda>c. good_peer r requester (fst c)) (push_unique requester {} ?all)"
  have "mergePrimaryThenGlobal r requester primary = ?f"
    using assms(1) by (simp add: mergePrimaryThenGlobal_eq)
  moreover have "fst c \<in> fst ` set (push_unique requester {} ?all)"
    using assms(2,3) by (intro push_unique_complete) auto
  then have "fst c \<in> fst ` set ?f" using assms(4) by auto
  ultimately show ?thesis by simp
qed

theorem merge_complete_witness:
  "''bob'' \<in> fst ` set (mergePrimaryThenGlobal pool_sample ''amy'' [])"
proof -
  have l: "length (mergePrimaryThenGlobal pool_sample ''amy'' []) < candidateBatchSize" by code_simp
  have s: "(''bob'', 5) \<in> set [] \<union> set (zrevrangeWithScores pool_sample PoolGlobal poolScanLimit)"
    by code_simp
  have g: "good_peer pool_sample ''amy'' (fst (''bob'', 5 :: int))" by code_simp
  from merge_complete [OF l s _ g] show ?thesis by simp
qed

text \<open>
  With the preference for people abroad, users of another known country come first: in the
  list a requester with a known home country gets, nobody from home or of unknown country
  precedes a foreigner.
\<close>

theorem foreign_first:
  assumes "i < j" "j < length (collectGlobalForeignFirst r requester snap)"
    and "collectGlobalForeignFirst r requester snap ! i = a"
    and "collectGlobalForeignFirst r requester snap ! j = b"
  shows "sort_group r (home_country snap) (fst a) \<le> sort_group r (home_country snap) (fst b)"
proof -
  define parsed where "parsed = filter (\<lambda>c. fst c \<noteq> [] \<and> fst c \<noteq> requester) (rzrevrange PoolGlobal poolGlobalSortFetch r)"
  define pending where "pending = filter (\<lambda>c. fst c \<notin> filterBlockedPeers r requester (map fst parsed)) parsed"
  define g where "g = (\<lambda>c :: candidate. sort_group r (home_country snap) (fst c))"
  define tagged where "tagged = js_sort group_cmp (map (\<lambda>c. (c, g c)) pending)"
  define out where "out = take candidateBatchSize
    (filter (\<lambda>c. fst c \<in> fetchSearchingStates r (map fst (map fst tagged))) (map fst tagged))"
  have tag: "snd t = g (fst t)" if "t \<in> set tagged" for t using that by (auto simp: tagged_def)
  have "sorted_wrt (\<lambda>a b. g (fst a) \<le> g (fst b)) tagged"
  proof (rule sorted_wrt_mono_rel)
    show "sorted_wrt (\<lambda>a b. group_cmp a b \<le> 0) tagged"
      unfolding tagged_def by (rule grouped.sort_sorted)
    fix x y assume "x \<in> set tagged" "y \<in> set tagged" "group_cmp x y \<le> 0"
    then have "snd x = g (fst x)" "snd y = g (fst y)" "snd x \<le> snd y"
      using tag by (auto simp only: group_cmp_le)
    then show "g (fst x) \<le> g (fst y)" by simp
  qed
  then have "sorted_wrt (\<lambda>x y. g x \<le> g y) (map fst tagged)" by (simp add: sorted_wrt_map)
  then have "sorted_wrt (\<lambda>x y. g x \<le> g y) out"
    unfolding out_def by (intro sorted_wrt_take sorted_wrt_filterI)
  moreover have "collectGlobalForeignFirst r requester snap = out"
    by (simp add: collectGlobalForeignFirst_def Let_def out_def tagged_def g_def pending_def parsed_def)
  ultimately show ?thesis using assms by (auto simp: sorted_wrt_iff_nth_less g_def)
qed

definition foreign_sample :: redis where
  "foreign_sample = rset_doc (Snapshot ''bob'') (Json (JObj [(''location'', JObj [(''countryCode'', JStr ''FR'')])]))
     (rset_doc (Snapshot ''cat'') (Json (JObj [(''location'', JObj [(''countryCode'', JStr ''IN'')])]))
       (enqueue_with ''cat'' 9 \<lparr>lm_country = Some ''in'', lm_city = None, lm_region = None\<rparr> pool_sample))"

definition home_in :: snapshot_profile where
  "home_in = parseSnapshot (\<lambda>_. None) 0 [(''location'', JObj [(''countryCode'', JStr ''IN'')])] ''dan''"

theorem foreign_first_witness:
  "sort_group foreign_sample (home_country home_in) ''bob'' \<le> sort_group foreign_sample (home_country home_in) ''cat''"
proof -
  have e: "collectGlobalForeignFirst foreign_sample ''dan'' home_in = [(''bob'', 5), (''cat'', 9), (''amy'', 4)]"
    by code_simp
  show ?thesis
    using foreign_first [of 0 1 foreign_sample "''dan''" home_in "(''bob'', 5)" "(''cat'', 9)"] by (simp add: e)
qed

text \<open>
  Joining and leaving: after a user who was nowhere in the pool is enqueued under any
  location and then stripped, no sorted set of the pool holds the user, and every other
  member is where it was.
\<close>

theorem enqueue_strip_roundtrip:
  assumes "\<not> pooled u r"
  shows "\<not> pooled u (stripFromPool u (enqueue_with u now idx r))
    \<and> (k = PoolGlobal \<or> bucket_key k \<longrightarrow>
        zset_members (zsets (stripFromPool u (enqueue_with u now idx r)) k) = zset_members (zsets r k))"
proof -
  have "\<not> pooled u (stripFromPool u (enqueue_with u now idx r))"
    by (rule strip_not_pooled [OF enqueue_indexed_fresh [OF assms]])
  moreover have "u \<notin> zset_members (zsets r k)" if "k = PoolGlobal \<or> bucket_key k"
    using assms that by (auto simp: pooled_def)
  ultimately show ?thesis by (auto simp: members_strip members_enqueue bucket_key_def)
qed

theorem enqueue_strip_roundtrip_witness:
  "\<not> pooled ''eve'' (stripFromPool ''eve''
      (enqueue_with ''eve'' 7 \<lparr>lm_country = Some ''de'', lm_city = Some ''bonn'', lm_region = None\<rparr> redis_empty))"
proof -
  have "\<not> pooled ''eve'' redis_empty" by (simp add: pooled_def redis_empty_def zset_members_def)
  from enqueue_strip_roundtrip [OF this, where k = PoolGlobal] show ?thesis by blast
qed

text \<open>
  The freshness hypothesis is needed, because \<open>enqueue\<close> does not strip first. A user who is
  still pooled and searches again after moving from Lyon to Bonn stays in the Lyon bucket:
  the meta is overwritten, so even leaving the pool no longer removes that entry.
\<close>

theorem reenqueue_leaves_stale_bucket:
  "let r1 = enqueue_with ''eve'' 7 \<lparr>lm_country = Some ''fr'', lm_city = Some ''lyon'', lm_region = None\<rparr> redis_empty;
       r2 = enqueue_with ''eve'' 8 \<lparr>lm_country = Some ''de'', lm_city = Some ''bonn'', lm_region = None\<rparr> r1;
       r3 = remove_user ''eve'' r2
   in ''eve'' \<in> zset_members (zsets r3 (PoolByCity ''fr'' ''lyon''))
      \<and> ''eve'' \<notin> zset_members (zsets r3 PoolGlobal) \<and> \<not> indexed ''eve'' r2"
proof -
  let ?r1 = "enqueue_with ''eve'' 7 \<lparr>lm_country = Some ''fr'', lm_city = Some ''lyon'', lm_region = None\<rparr> redis_empty"
  let ?r2 = "enqueue_with ''eve'' 8 \<lparr>lm_country = Some ''de'', lm_city = Some ''bonn'', lm_region = None\<rparr> ?r1"
  have "\<not> indexed ''eve'' ?r2"
    unfolding indexed_def
    by (auto simp: members_enqueue meta_keys_def bucket_key_def Let_def intro!: exI [of _ "PoolByCountry ''fr''"])
  then show ?thesis
    by (simp add: remove_user_def members_strip members_enqueue meta_keys_def Let_def)
qed

end
