(* ===== verification/MatchAttempts.thy ===== *)
theory MatchAttempts
  imports MatchPool
begin

text \<open>
  The attempt repository (\<open>repositories/attempt.ts\<close>): one hash per match request, written by
  field (fields an operation does not name survive from earlier states), and the pointer from
  a user to the latest attempt.
\<close>

datatype status = Searching | Proposed | Matched | NoMatch

record attempt =
  at_attemptId :: string
  at_userId :: uid
  at_status :: status
  at_roomId :: "string option"
  at_peerUserId :: "uid option"
  at_matchScore :: "rat option"
  at_isFallbackMatch :: bool
  at_reason :: "string option"
  at_createdAt :: rat
  at_updatedAt :: rat

datatype match_result =
    RMatched string uid rat
  | RProposed string uid rat bool
  | RSearching nat string
  | RNoMatch string

definition attemptTtlSeconds :: nat where "attemptTtlSeconds = 600"

text \<open>\<open>String(score)\<close>: every score written is the integer \<open>Math.round\<close> returned.\<close>

definition num_str :: "rat \<Rightarrow> string" where
  "num_str x = int_str \<lfloor>x\<rfloor>"

definition parse_status :: "string option \<Rightarrow> status" where
  "parse_status s =
     (if s = Some ''matched'' then Matched else if s = Some ''no_match'' then NoMatch
      else if s = Some ''proposed'' then Proposed else Searching)"

definition parse_time :: "string option \<Rightarrow> rat \<Rightarrow> rat" where
  "parse_time v now = (case v of None \<Rightarrow> now | Some s \<Rightarrow> nullish_or (js_number s) now)"

definition parse_score :: "string option \<Rightarrow> rat option" where
  "parse_score v = (if truthy v then js_number (the v) else None)"

definition parseAttemptRecord :: "hash \<Rightarrow> string \<Rightarrow> rat \<Rightarrow> attempt" where
  "parseAttemptRecord payload fallbackAttemptId now =
     (let f = map_of payload in
      \<lparr>at_attemptId = nullish_or (f ''attemptId'') fallbackAttemptId,
       at_userId = nullish_or (f ''userId'') [],
       at_status = parse_status (f ''status''),
       at_roomId = f ''roomId'',
       at_peerUserId = f ''peerUserId'',
       at_matchScore = parse_score (f ''matchScore''),
       at_isFallbackMatch = (f ''isFallbackMatch'' = Some ''1''),
       at_reason = f ''reason'',
       at_createdAt = parse_time (f ''createdAt'') now,
       at_updatedAt = parse_time (f ''updatedAt'') now\<rparr>)"

definition getAttempt :: "rat \<Rightarrow> string \<Rightarrow> redis \<Rightarrow> attempt option" where
  "getAttempt now attemptId r =
     (let raw = hashes r (AttemptKey attemptId)
      in if raw = [] then None else Some (parseAttemptRecord raw attemptId now))"

text \<open>Every write ends alike: the attempt's time to live, then the user's latest attempt.\<close>

definition write_attempt :: "string \<Rightarrow> uid \<Rightarrow> (string \<times> string) list \<Rightarrow> redis \<Rightarrow> redis" where
  "write_attempt attemptId userId fs r =
     rset_ex (UserLastAttempt userId) attemptId attemptTtlSeconds
       (rexpire (AttemptKey attemptId) attemptTtlSeconds
         (rhset (AttemptKey attemptId) fs r))"

definition setSearching :: "int \<Rightarrow> string \<Rightarrow> uid \<Rightarrow> redis \<Rightarrow> redis" where
  "setSearching now attemptId userId r =
     write_attempt attemptId userId
       [(''attemptId'', attemptId), (''userId'', userId), (''status'', ''searching''),
        (''createdAt'', int_str now), (''updatedAt'', int_str now)] r"

definition markProposed :: "int \<Rightarrow> string \<Rightarrow> uid \<Rightarrow> uid \<Rightarrow> rat \<Rightarrow> bool \<Rightarrow> redis \<Rightarrow> redis" where
  "markProposed now attemptId userId peerUserId matchScore isFallbackMatch r =
     write_attempt attemptId userId
       [(''attemptId'', attemptId), (''userId'', userId), (''status'', ''proposed''),
        (''peerUserId'', peerUserId), (''matchScore'', num_str matchScore),
        (''isFallbackMatch'', if isFallbackMatch then ''1'' else ''0''), (''updatedAt'', int_str now)] r"

definition markMatched :: "int \<Rightarrow> string \<Rightarrow> uid \<Rightarrow> uid \<Rightarrow> string \<Rightarrow> rat \<Rightarrow> redis \<Rightarrow> redis" where
  "markMatched now attemptId userId peerUserId roomId matchScore r =
     write_attempt attemptId userId
       [(''attemptId'', attemptId), (''userId'', userId), (''status'', ''matched''),
        (''peerUserId'', peerUserId), (''matchScore'', num_str matchScore), (''roomId'', roomId),
        (''updatedAt'', int_str now)] r"

definition markNoMatch :: "int \<Rightarrow> string \<Rightarrow> uid \<Rightarrow> string \<Rightarrow> redis \<Rightarrow> redis" where
  "markNoMatch now attemptId userId reason r =
     write_attempt attemptId userId
       [(''attemptId'', attemptId), (''userId'', userId), (''status'', ''no_match''),
        (''reason'', reason), (''updatedAt'', int_str now)] r"

definition toResult :: "attempt \<Rightarrow> match_result" where
  "toResult a =
     (if at_status a = Matched \<and> truthy (at_roomId a) \<and> truthy (at_peerUserId a)
      then RMatched (the (at_roomId a)) (the (at_peerUserId a)) (nullish_or (at_matchScore a) 0)
      else if at_status a = Proposed \<and> truthy (at_peerUserId a)
      then RProposed (at_attemptId a) (the (at_peerUserId a)) (nullish_or (at_matchScore a) 0)
             (at_isFallbackMatch a)
      else if at_status a = NoMatch then RNoMatch (nullish_or (at_reason a) ''no_match'')
      else RSearching 1000 (at_attemptId a))"

lemmas attempt_write_defs = setSearching_def markProposed_def markMatched_def markNoMatch_def

subsection \<open>Facts\<close>

lemma write_attempt_simps [simp]:
  "rget k (write_attempt i u fs r) = (if k = UserLastAttempt u then Some i else rget k r)"
  "hashes (write_attempt i u fs r) = (hashes r)(AttemptKey i := hset_fields fs (hashes r (AttemptKey i)))"
  "docs (write_attempt i u fs r) = docs r"
  "zsets (write_attempt i u fs r) = zsets r"
  "queues (write_attempt i u fs r) = queues r"
  "rsets (write_attempt i u fs r) = rsets r"
  by (simp_all add: write_attempt_def)

lemma getAttempt_write:
  "fs \<noteq> [] \<Longrightarrow> getAttempt now i (write_attempt i u fs r) =
     Some (parseAttemptRecord (hset_fields fs (hashes r (AttemptKey i))) i now)"
  by (simp add: getAttempt_def hset_fields_nonempty)

lemma getAttempt_write_other:
  "j \<noteq> i \<Longrightarrow> getAttempt now j (write_attempt i u fs r) = getAttempt now j r"
  by (simp add: getAttempt_def)

lemma parse_score_num_str: "of_int n = x \<Longrightarrow> parse_score (Some (num_str x)) = Some x"
  by (auto simp: parse_score_def num_str_def js_number_int_str)

lemma getAttempt_cong: "hashes r = hashes r' \<Longrightarrow> getAttempt now i r = getAttempt now i r'"
  by (simp add: getAttempt_def)

lemma getAttempt_mark:
  "getAttempt now' i (setSearching now i u r) = Some
     (parseAttemptRecord (hset_fields [(''attemptId'', i), (''userId'', u), (''status'', ''searching''),
        (''createdAt'', int_str now), (''updatedAt'', int_str now)] (hashes r (AttemptKey i))) i now')"
  by (simp add: setSearching_def getAttempt_write del: hset_fields_simps)

lemma status_after_mark:
  "map_option at_status (getAttempt now' i (setSearching now i u r)) = Some Searching"
  "map_option at_status (getAttempt now' i (markProposed now i u p s fb r)) = Some Proposed"
  "map_option at_status (getAttempt now' i (markMatched now i u p room s r)) = Some Matched"
  "map_option at_status (getAttempt now' i (markNoMatch now i u reason r)) = Some NoMatch"
  by (simp_all add: attempt_write_defs getAttempt_write parseAttemptRecord_def parse_status_def
      Let_def update_conv')

lemma user_after_mark:
  "map_option at_userId (getAttempt now' i (setSearching now i u r)) = Some u"
  "map_option at_userId (getAttempt now' i (markProposed now i u p s fb r)) = Some u"
  "map_option at_userId (getAttempt now' i (markMatched now i u p room s r)) = Some u"
  "map_option at_userId (getAttempt now' i (markNoMatch now i u reason r)) = Some u"
  by (simp_all add: attempt_write_defs getAttempt_write parseAttemptRecord_def Let_def update_conv')

text \<open>
  C38. The attempt log answers with the last thing written, whatever an earlier state of the same
  attempt left in the hash: an integer score survives its trip through text, a proposal, a
  match and a failure read back with their own fields, and no stale field shows through.
\<close>

theorem attempt_reads_back:
  assumes "peer \<noteq> []" "room \<noteq> []"
  shows "map_option toResult (getAttempt t i (setSearching now i u r)) = Some (RSearching 1000 i)
    \<and> map_option toResult (getAttempt t i (markProposed now i u peer (of_int n) fb r)) =
           Some (RProposed i peer (of_int n) fb)
    \<and> map_option toResult (getAttempt t i (markMatched now i u peer room (of_int n) r)) =
           Some (RMatched room peer (of_int n))
    \<and> map_option toResult (getAttempt t i (markNoMatch now i u reason r)) = Some (RNoMatch reason)"
  using assms parse_score_num_str [of n "of_int n"]
  by (simp_all add: attempt_write_defs getAttempt_write parseAttemptRecord_def parse_status_def
      toResult_def Let_def update_conv')

theorem attempt_reads_back_witness:
  "map_option toResult (getAttempt 0 ''a1'' (markMatched 2 ''a1'' ''amy'' ''bob'' ''room9'' (of_int 77)
     (markProposed 1 ''a1'' ''amy'' ''zed'' 12 True redis_empty))) = Some (RMatched ''room9'' ''bob'' (of_int 77))"
  using attempt_reads_back [of "''bob''" "''room9''" 0 "''a1''" 2 "''amy''" _ 77 True] by blast

end
