(* ===== verification/MatchProposal.thy ===== *)
theory MatchProposal
  imports MatchAttempts
begin

text \<open>
  Pair locks and proposals: \<open>pool/lock.ts\<close>, \<open>proposal/proposal.ts\<close>,
  \<open>proposal/skip-peers.ts\<close>, \<open>peers/deprioritized-peers.ts\<close> and the two Lua scripts of
  \<open>core/redis/scripts.ts\<close>, which Redis runs atomically.
\<close>

definition proposalPhaseLockTtlMs :: nat where "proposalPhaseLockTtlMs = 180000"
definition connectFinalizeLockTtlSeconds :: nat where "connectFinalizeLockTtlSeconds = 45"
definition skipPeerListTtlSeconds :: nat where "skipPeerListTtlSeconds = 604800"
definition matchedPeerListTtlSeconds :: nat where "matchedPeerListTtlSeconds = 7776000"

definition orderedUserIds :: "uid \<Rightarrow> uid \<Rightarrow> uid \<times> uid" where
  "orderedUserIds a b = (if a \<le> b then (a, b) else (b, a))"

subsection \<open>The lock script\<close>

definition lockPair_script ::
  "rkey \<Rightarrow> rkey \<Rightarrow> rkey \<Rightarrow> rkey \<Rightarrow> rkey \<Rightarrow> string \<Rightarrow> nat \<Rightarrow> string \<Rightarrow> string \<Rightarrow> redis \<Rightarrow> nat \<times> redis" where
  "lockPair_script userLockA userLockB pairLockKey userStateA userStateB attemptId ttl required target r =
     (if rget pairLockKey r \<noteq> None then (0, r)
      else if rget userLockA r \<noteq> None \<or> rget userLockB r \<noteq> None then (0, r)
      else if rget userStateA r \<noteq> Some required \<or> rget userStateB r \<noteq> Some required then (0, r)
      else case rset_nx userLockA attemptId ttl r of (okA, r1) \<Rightarrow>
        if \<not> okA then (0, r1)
        else case rset_nx userLockB attemptId ttl r1 of (okB, r2) \<Rightarrow>
          if \<not> okB then (0, rdel userLockA r2)
          else case rset_nx pairLockKey attemptId ttl r2 of (okP, r3) \<Rightarrow>
            if \<not> okP then (0, rdel userLockB (rdel userLockA r3))
            else (1, rset userStateB target (rset userStateA target r3)))"

definition tryLockPair :: "uid \<Rightarrow> uid \<Rightarrow> string \<Rightarrow> nat \<Rightarrow> redis \<Rightarrow> bool \<times> redis" where
  "tryLockPair userA userB attemptId ttl r =
     (case orderedUserIds userA userB of (low, high) \<Rightarrow>
        (case lockPair_script (UserLock low) (UserLock high) (pair_lock_key low high)
                (UserState low) (UserState high) attemptId ttl ''searching'' ''locked'' r of
           (result, r') \<Rightarrow> (result = 1, r')))"

definition releasePair :: "uid \<Rightarrow> uid \<Rightarrow> redis \<Rightarrow> redis" where
  "releasePair userA userB r =
     (case orderedUserIds userA userB of (low, high) \<Rightarrow>
        rset (UserState high) ''searching'' (rset (UserState low) ''searching''
          (rdel (UserLock high) (rdel (UserLock low) (rdel (pair_lock_key low high) r)))))"

subsection \<open>Pending proposals\<close>

record pending =
  pd_userLow :: uid
  pd_userHigh :: uid
  pd_attemptLow :: string
  pd_attemptHigh :: string
  pd_matchScore :: rat
  pd_isFallbackMatch :: bool
  pd_roomAttemptId :: string

definition writePending :: "pending \<Rightarrow> redis \<Rightarrow> redis" where
  "writePending p r =
     (let key = pair_pending_key (pd_userLow p) (pd_userHigh p)
      in rexpire key (proposalPhaseLockTtlMs div 1000)
           (rhset key
             [(''userLow'', pd_userLow p), (''userHigh'', pd_userHigh p),
              (''attemptLow'', pd_attemptLow p), (''attemptHigh'', pd_attemptHigh p),
              (''matchScore'', num_str (pd_matchScore p)),
              (''isFallbackMatch'', if pd_isFallbackMatch p then ''1'' else ''0''),
              (''roomAttemptId'', pd_roomAttemptId p), (''connectLow'', []), (''connectHigh'', [])] r))"

definition readPending :: "uid \<Rightarrow> uid \<Rightarrow> redis \<Rightarrow> pending option" where
  "readPending userA userB r =
     (case orderedUserIds userA userB of (low, high) \<Rightarrow>
       (let raw = map_of (hashes r (pair_pending_key low high)) in
        if \<not> truthy (raw ''userLow'') \<or> \<not> truthy (raw ''userHigh'') \<or> \<not> truthy (raw ''attemptLow'')
           \<or> \<not> truthy (raw ''attemptHigh'') then None
        else Some \<lparr>pd_userLow = the (raw ''userLow''), pd_userHigh = the (raw ''userHigh''),
                   pd_attemptLow = the (raw ''attemptLow''), pd_attemptHigh = the (raw ''attemptHigh''),
                   pd_matchScore = (case raw ''matchScore'' of None \<Rightarrow> 0 | Some s \<Rightarrow> nullish_or (js_number s) 0),
                   pd_isFallbackMatch = (raw ''isFallbackMatch'' = Some ''1''),
                   pd_roomAttemptId = nullish_or (raw ''roomAttemptId'') (the (raw ''attemptLow''))\<rparr>))"

definition deletePending :: "uid \<Rightarrow> uid \<Rightarrow> redis \<Rightarrow> redis" where
  "deletePending userA userB r =
     (case orderedUserIds userA userB of (low, high) \<Rightarrow>
        rdel (pair_finalize_key low high) (rdel (pair_pending_key low high) r))"

definition recordProposalConnect_script :: "rkey \<Rightarrow> rkey \<Rightarrow> string \<Rightarrow> nat \<Rightarrow> redis \<Rightarrow> nat \<times> redis" where
  "recordProposalConnect_script pendingKey finalizeKey field finalizeTtl r =
     (let r1 = rhset pendingKey [(field, ''1'')] r;
          c1 = map_of (hashes r1 pendingKey) ''connectLow'';
          c2 = map_of (hashes r1 pendingKey) ''connectHigh''
      in if c1 = Some ''1'' \<and> c2 = Some ''1'' then
           (case rset_nx finalizeKey ''1'' finalizeTtl r1 of (ok, r2) \<Rightarrow> if ok then (2, r2) else (1, r2))
         else (0, r1))"

definition recordConnect :: "uid \<Rightarrow> uid \<Rightarrow> uid \<Rightarrow> redis \<Rightarrow> nat \<times> redis" where
  "recordConnect userA userB connectingUserId r =
     (case orderedUserIds userA userB of (low, high) \<Rightarrow>
        recordProposalConnect_script (pair_pending_key low high) (pair_finalize_key low high)
          (if connectingUserId = low then ''connectLow'' else ''connectHigh'')
          connectFinalizeLockTtlSeconds r)"

subsection \<open>Skipped and known peers\<close>

definition recordSkip :: "uid \<Rightarrow> uid \<Rightarrow> redis \<Rightarrow> redis" where
  "recordSkip by_user peer r =
     rexpire (UserSkipPeers by_user) skipPeerListTtlSeconds (rsadd (UserSkipPeers by_user) peer r)"

definition getSkippedPeerSet :: "uid \<Rightarrow> redis \<Rightarrow> uid set" where
  "getSkippedPeerSet u r = rsets r (UserSkipPeers u)"

definition getPeerSetsForRanking :: "uid \<Rightarrow> redis \<Rightarrow> peer_sets" where
  "getPeerSetsForRanking u r =
     (let skipped = getSkippedPeerSet u r
      in \<lparr>ps_known = (rsets r (UserMatchedPeers u) \<union> rsets r (UserConnectionPeers u)) - skipped,
          ps_skipped = skipped\<rparr>)"

definition recordMatchedPair :: "uid \<Rightarrow> uid \<Rightarrow> redis \<Rightarrow> redis" where
  "recordMatchedPair a b r =
     (if a = b then r
      else let r1 = rexpire (UserMatchedPeers a) matchedPeerListTtlSeconds (rsadd (UserMatchedPeers a) b r)
           in rexpire (UserMatchedPeers b) matchedPeerListTtlSeconds (rsadd (UserMatchedPeers b) a r1))"

subsection \<open>Facts about locks\<close>

lemma pair_lock_key_neq [simp]:
  "pair_lock_key a b \<noteq> UserLock u" "UserLock u \<noteq> pair_lock_key a b"
  "pair_lock_key a b \<noteq> UserState u" "UserState u \<noteq> pair_lock_key a b"
  "pair_lock_key a b \<noteq> UserLastAttempt u" "UserLastAttempt u \<noteq> pair_lock_key a b"
  "pair_lock_key a b \<noteq> AttemptKey i" "AttemptKey i \<noteq> pair_lock_key a b"
  by (simp_all add: pair_lock_key_def)

lemma pair_lock_key_eq:
  "pair_lock_key a b = pair_lock_key c d \<longleftrightarrow> (a = c \<and> b = d) \<or> (a = d \<and> b = c)"
  by (auto simp: pair_lock_key_def)

definition lockable :: "uid \<Rightarrow> redis \<Rightarrow> bool" where
  "lockable u r = (rget (UserLock u) r = None \<and> rget (UserState u) r = Some ''searching'')"

definition pair_open :: "uid \<Rightarrow> uid \<Rightarrow> redis \<Rightarrow> bool" where
  "pair_open a b r = (rget (pair_lock_key a b) r = None)"

lemma lockPair_script_eq:
  assumes "low \<noteq> high"
  shows "lockPair_script (UserLock low) (UserLock high) (pair_lock_key low high) (UserState low)
           (UserState high) i ttl ''searching'' ''locked'' r =
     (if lockable low r \<and> lockable high r \<and> pair_open low high r
      then (1, rset (UserState high) ''locked'' (rset (UserState low) ''locked''
                (rset_ex (pair_lock_key low high) i ttl (rset_ex (UserLock high) i ttl
                  (rset_ex (UserLock low) i ttl r)))))
      else (0, r))"
  using assms
  by (auto simp: lockPair_script_def lockable_def pair_open_def rset_nx_def rget_def rset_ex_def)

lemma lockPair_script_same:
  "lockPair_script (UserLock u) (UserLock u) k (UserState u) (UserState u) i ttl ''searching'' ''locked'' r
     = (0, if rget k r \<noteq> None \<or> \<not> lockable u r then r else rdel (UserLock u) (rset_ex (UserLock u) i ttl r))"
  by (auto simp: lockPair_script_def lockable_def rset_nx_def rget_def rset_ex_def)

lemma tryLockPair_commute: "tryLockPair a b i ttl r = tryLockPair b a i ttl r"
  by (auto simp: tryLockPair_def orderedUserIds_def)

lemma tryLockPair_less:
  "a < b \<Longrightarrow> tryLockPair a b i ttl r =
     (if lockable a r \<and> lockable b r \<and> pair_open a b r
      then (True, rset (UserState b) ''locked'' (rset (UserState a) ''locked''
                (rset_ex (pair_lock_key a b) i ttl (rset_ex (UserLock b) i ttl
                  (rset_ex (UserLock a) i ttl r)))))
      else (False, r))"
  by (simp add: tryLockPair_def orderedUserIds_def lockPair_script_eq less_imp_le less_imp_neq)

lemma pair_open_commute: "pair_open a b r = pair_open b a r"
  by (simp add: pair_open_def pair_keys_commute(1) [of a b])

text \<open>Facts symmetric in the two users need to be shown for one order only.\<close>

lemma pair_wlog:
  assumes "\<And>a b. a < b \<Longrightarrow> P a b" "\<And>a b. P a b \<Longrightarrow> P b a" "a \<noteq> (b :: uid)"
  shows "P a b"
  using assms by (cases a b rule: linorder_cases) auto

lemma tryLockPair_iff:
  "fst (tryLockPair a b i ttl r) \<longleftrightarrow> a \<noteq> b \<and> lockable a r \<and> lockable b r \<and> pair_open a b r"
proof (cases "a = b")
  case True
  then show ?thesis by (simp add: tryLockPair_def orderedUserIds_def lockPair_script_same)
next
  case False
  then show ?thesis
  proof (rule pair_wlog [rotated 2])
    fix a b :: uid assume "a < b"
    then show "fst (tryLockPair a b i ttl r) \<longleftrightarrow> a \<noteq> b \<and> lockable a r \<and> lockable b r \<and> pair_open a b r"
      by (auto simp: tryLockPair_less)
  next
    fix a b assume "fst (tryLockPair a b i ttl r) \<longleftrightarrow> a \<noteq> b \<and> lockable a r \<and> lockable b r \<and> pair_open a b r"
    then show "fst (tryLockPair b a i ttl r) \<longleftrightarrow> b \<noteq> a \<and> lockable b r \<and> lockable a r \<and> pair_open b a r"
      unfolding tryLockPair_commute [of b a] pair_open_commute [of b a] by blast
  qed
qed

lemma tryLockPair_failure:
  assumes "a \<noteq> b" "\<not> fst (tryLockPair a b i ttl r)"
  shows "snd (tryLockPair a b i ttl r) = r"
proof -
  have "\<not> fst (tryLockPair a b i ttl r) \<longrightarrow> snd (tryLockPair a b i ttl r) = r"
    using assms(1) by (rule pair_wlog [rotated 2])
      (simp add: tryLockPair_less, simp only: tryLockPair_commute)
  with assms(2) show ?thesis by simp
qed

lemma tryLockPair_success:
  assumes "fst (tryLockPair a b i ttl r)"
  shows "rget k (snd (tryLockPair a b i ttl r)) =
    (if k = UserState a \<or> k = UserState b then Some ''locked''
     else if k = UserLock a \<or> k = UserLock b \<or> k = pair_lock_key a b then Some i else rget k r)"
    (is "?L a b = ?R a b")
proof -
  have "a \<noteq> b" using assms by (simp add: tryLockPair_iff)
  then have "fst (tryLockPair a b i ttl r) \<longrightarrow> ?L a b = ?R a b"
  proof (rule pair_wlog [rotated 2])
    fix a b :: uid assume "a < b"
    then show "fst (tryLockPair a b i ttl r) \<longrightarrow> ?L a b = ?R a b"
      by (auto simp: tryLockPair_less)
  next
    fix a b assume "fst (tryLockPair a b i ttl r) \<longrightarrow> ?L a b = ?R a b"
    then show "fst (tryLockPair b a i ttl r) \<longrightarrow> ?L b a = ?R b a"
      unfolding tryLockPair_commute [of b a] pair_keys_commute(1) [of b a] by auto
  qed
  with assms show ?thesis by blast
qed

lemma tryLockPair_frame:
  assumes "a \<noteq> b"
  shows "hashes (snd (tryLockPair a b i ttl r)) = hashes r"
    and "zsets (snd (tryLockPair a b i ttl r)) = zsets r"
    and "docs (snd (tryLockPair a b i ttl r)) = docs r"
    and "queues (snd (tryLockPair a b i ttl r)) = queues r"
  using assms by (rule pair_wlog [rotated 2]; simp add: tryLockPair_less tryLockPair_commute)+

lemma releasePair_le:
  "releasePair a b r = (if a \<le> b
     then rset (UserState b) ''searching'' (rset (UserState a) ''searching''
          (rdel (UserLock b) (rdel (UserLock a) (rdel (pair_lock_key a b) r))))
     else rset (UserState a) ''searching'' (rset (UserState b) ''searching''
          (rdel (UserLock a) (rdel (UserLock b) (rdel (pair_lock_key b a) r)))))"
  by (simp add: releasePair_def orderedUserIds_def)

lemma rget_releasePair:
  "rget k (releasePair a b r) =
    (if k = UserState a \<or> k = UserState b then Some ''searching''
     else if k = UserLock a \<or> k = UserLock b \<or> k = pair_lock_key a b then None else rget k r)"
  unfolding releasePair_le pair_keys_commute(1) [of b a] by auto

lemma hashes_releasePair:
  "hashes (releasePair a b r) = (hashes r)(pair_lock_key a b := [], UserLock a := [], UserLock b := [])"
  unfolding releasePair_le pair_keys_commute(1) [of b a] by (auto simp: fun_eq_iff)

lemma queues_releasePair:
  "queues (releasePair a b r) = (queues r)(pair_lock_key a b := [], UserLock a := [], UserLock b := [])"
  unfolding releasePair_le pair_keys_commute(1) [of b a] by (auto simp: fun_eq_iff)

subsection \<open>The locking interface\<close>

text \<open>
  What the orchestrator relies on when it tries one candidate after another: an attempt on two
  different users succeeds exactly when both are free, a failed one changes nothing, and a
  successful one takes both and nobody else.
\<close>

fun run_locks :: "('u \<Rightarrow> 'u \<Rightarrow> 's \<Rightarrow> bool \<times> 's) \<Rightarrow> ('u \<times> 'u) list \<Rightarrow> 's \<Rightarrow> ('u \<times> 'u) list" where
  "run_locks try_lock [] s = []"
| "run_locks try_lock ((a, b) # ps) s =
     (if fst (try_lock a b s) then (a, b) # run_locks try_lock ps (snd (try_lock a b s))
      else run_locks try_lock ps (snd (try_lock a b s)))"

locale pair_locking =
  fixes try_lock :: "'u \<Rightarrow> 'u \<Rightarrow> 's \<Rightarrow> bool \<times> 's"
    and free :: "'u \<Rightarrow> 's \<Rightarrow> bool"
  assumes success_free: "fst (try_lock a b s) \<Longrightarrow> a \<noteq> b \<and> free a s \<and> free b s"
    and success_takes: "fst (try_lock a b s) \<Longrightarrow>
      free u (snd (try_lock a b s)) \<longleftrightarrow> free u s \<and> u \<noteq> a \<and> u \<noteq> b"
    and failure_free: "\<not> fst (try_lock a b s) \<Longrightarrow> free u (snd (try_lock a b s)) = free u s"
begin

lemma run_locks_free: "(a, b) \<in> set (run_locks try_lock ps s) \<Longrightarrow> free a s \<and> free b s \<and> a \<noteq> b"
proof (induction ps arbitrary: s)
  case (Cons p ps)
  obtain c d where p: "p = (c, d)" by (cases p)
  show ?case
  proof (cases "fst (try_lock c d s)")
    case True
    then show ?thesis
      using Cons.prems Cons.IH [of "snd (try_lock c d s)"] success_free [OF True] success_takes [OF True]
      by (auto simp: p)
  next
    case False
    then show ?thesis
      using Cons.prems Cons.IH [of "snd (try_lock c d s)"] failure_free [OF False] by (simp add: p)
  qed
qed simp

lemma run_locks_matching:
  "distinct (concat (map (\<lambda>(a, b). [a, b]) (run_locks try_lock ps s)))"
proof (induction ps arbitrary: s)
  case (Cons p ps)
  obtain c d where p: "p = (c, d)" by (cases p)
  show ?case
  proof (cases "fst (try_lock c d s)")
    case True
    let ?s = "snd (try_lock c d s)"
    have "c \<noteq> d" using success_free [OF True] by simp
    moreover have "x \<noteq> c \<and> x \<noteq> d \<and> y \<noteq> c \<and> y \<noteq> d" if "(x, y) \<in> set (run_locks try_lock ps ?s)" for x y
      using run_locks_free [OF that] success_takes [OF True] by auto
    then have "c \<notin> set (concat (map (\<lambda>(a, b). [a, b]) (run_locks try_lock ps ?s)))"
      "d \<notin> set (concat (map (\<lambda>(a, b). [a, b]) (run_locks try_lock ps ?s)))" by fastforce+
    ultimately show ?thesis using True Cons.IH [of ?s] by (simp add: p)
  next
    case False
    then show ?thesis using Cons.IH by (simp add: p)
  qed
qed simp

end

definition lock_with :: "string \<Rightarrow> uid \<Rightarrow> uid \<Rightarrow> redis \<Rightarrow> bool \<times> redis" where
  "lock_with i a b r = tryLockPair a b i proposalPhaseLockTtlMs r"

lemma rget_same_lock: "rget k (rdel (UserLock u) (rset_ex (UserLock u) i t r)) = (if k = UserLock u then None else rget k r)"
  by simp

interpretation mm_lock: pair_locking "lock_with i" lockable
proof unfold_locales
  fix a b u :: uid and s :: redis
  show "fst (lock_with i a b s) \<Longrightarrow> a \<noteq> b \<and> lockable a s \<and> lockable b s"
    by (simp add: lock_with_def tryLockPair_iff)
  show "fst (lock_with i a b s) \<Longrightarrow> lockable u (snd (lock_with i a b s)) = (lockable u s \<and> u \<noteq> a \<and> u \<noteq> b)"
    by (auto simp: lock_with_def lockable_def tryLockPair_success)
  show "\<not> fst (lock_with i a b s) \<Longrightarrow> lockable u (snd (lock_with i a b s)) = lockable u s"
  proof (cases "a = b")
    case True
    then show "lockable u (snd (lock_with i a b s)) = lockable u s"
      by (auto simp: lock_with_def tryLockPair_def orderedUserIds_def lockPair_script_same lockable_def)
  qed (simp add: lock_with_def tryLockPair_failure)
qed

subsection \<open>Mutual consent\<close>

fun run_connects :: "uid \<Rightarrow> uid \<Rightarrow> uid list \<Rightarrow> redis \<Rightarrow> nat list" where
  "run_connects low high [] r = []"
| "run_connects low high (u # us) r =
     (case recordConnect low high u r of (n, r') \<Rightarrow> n # run_connects low high us r')"

definition connected :: "string \<Rightarrow> uid \<Rightarrow> uid \<Rightarrow> redis \<Rightarrow> bool" where
  "connected field low high r = (map_of (hashes r (pair_pending_key low high)) field = Some ''1'')"

definition finalizing :: "uid \<Rightarrow> uid \<Rightarrow> redis \<Rightarrow> bool" where
  "finalizing low high r = (rget (pair_finalize_key low high) r \<noteq> None)"

lemma pending_key_neq [simp]:
  "pair_pending_key a b \<noteq> pair_finalize_key c d" "pair_finalize_key c d \<noteq> pair_pending_key a b"
  "pair_pending_key a b \<noteq> AttemptKey i" "AttemptKey i \<noteq> pair_pending_key a b"
  "pair_pending_key a b \<noteq> UserLastAttempt i" "pair_finalize_key a b \<noteq> UserLastAttempt i"
  "pair_pending_key a b \<noteq> UserState i" "pair_finalize_key a b \<noteq> UserState i"
  "pair_pending_key a b \<noteq> UserLock i" "pair_finalize_key a b \<noteq> UserLock i"
  "pair_finalize_key a b \<noteq> AttemptKey i" "AttemptKey i \<noteq> pair_finalize_key a b"
  "pair_pending_key a b \<noteq> pair_lock_key c d" "pair_finalize_key a b \<noteq> pair_lock_key c d"
  by (simp_all add: pair_pending_key_def pair_finalize_key_def pair_lock_key_def)

lemma connected_write [simp]:
  "connected f a b (rhset (pair_pending_key a b) [(f', ''1'')] r) \<longleftrightarrow> f = f' \<or> connected f a b r"
  "connected f a b (rset_ex (pair_finalize_key a b) v t r) = connected f a b r"
  by (simp_all add: connected_def update_conv')

lemma finalizing_write [simp]:
  "finalizing a b (rhset (pair_pending_key a b) fs r) = finalizing a b r"
  "finalizing a b (rset_ex (pair_finalize_key a b) v t r)"
  by (simp_all add: finalizing_def)

lemma recordConnect_eq:
  assumes "low < high"
  shows "recordConnect low high u r =
    (let r1 = rhset (pair_pending_key low high) [(if u = low then ''connectLow'' else ''connectHigh'', ''1'')] r
     in if connected ''connectLow'' low high r1 \<and> connected ''connectHigh'' low high r1 then
          if finalizing low high r1 then (1, r1)
          else (2, rset_ex (pair_finalize_key low high) ''1'' connectFinalizeLockTtlSeconds r1)
        else (0, r1))"
  using less_imp_le [OF assms]
  by (simp only: recordConnect_def orderedUserIds_def recordProposalConnect_script_def if_True prod.case
      connected_def [symmetric] Let_def rset_nx_def rget_def [symmetric])
    (auto simp: finalizing_def)

lemma recordConnect_step:
  fixes r :: redis
  assumes "low < high" "u = low \<or> u = high"
  defines "r' \<equiv> snd (recordConnect low high u r)"
  shows "connected ''connectLow'' low high r' \<longleftrightarrow> connected ''connectLow'' low high r \<or> u = low"
    and "connected ''connectHigh'' low high r' \<longleftrightarrow> connected ''connectHigh'' low high r \<or> u = high"
    and "finalizing low high r' \<longleftrightarrow> finalizing low high r
      \<or> (connected ''connectLow'' low high r' \<and> connected ''connectHigh'' low high r')"
    and "fst (recordConnect low high u r) =
      (if connected ''connectLow'' low high r' \<and> connected ''connectHigh'' low high r'
       then (if finalizing low high r then 1 else 2) else 0)"
  using assms(2) less_imp_neq [OF assms(1)]
  unfolding r'_def recordConnect_eq [OF assms(1)] Let_def by (auto split: if_splits)

lemma run_connects_count:
  assumes "low < high" "set us \<subseteq> {low, high}"
    and "finalizing low high r \<longleftrightarrow> connected ''connectLow'' low high r \<and> connected ''connectHigh'' low high r"
  shows "count_list (run_connects low high us r) 2 =
    (if \<not> finalizing low high r
        \<and> (connected ''connectLow'' low high r \<or> low \<in> set us)
        \<and> (connected ''connectHigh'' low high r \<or> high \<in> set us) then 1 else 0)"
  using assms(2,3)
proof (induction us arbitrary: r)
  case (Cons u us)
  then have u: "u = low \<or> u = high" and us: "set us \<subseteq> {low, high}" by auto
  define r' where "r' = snd (recordConnect low high u r)"
  note step = recordConnect_step [OF assms(1) u, of r, folded r'_def]
  have inv: "finalizing low high r' \<longleftrightarrow> connected ''connectLow'' low high r' \<and> connected ''connectHigh'' low high r'"
    using step Cons.prems(2) by blast
  have eq: "run_connects low high (u # us) r = fst (recordConnect low high u r) # run_connects low high us r'"
    by (simp add: r'_def split_beta)
  show ?case
    unfolding eq using Cons.IH [OF us inv] step Cons.prems(2) u assms(1)
    by (auto simp del: run_connects.simps)
qed (use assms(3) in auto)

subsection \<open>Properties\<close>

text \<open>
  C26. Pair locking is all or nothing. It succeeds exactly when the two users differ, both are in
  state searching with no lock, and the pair key is free; then both states read locked and
  the three lock keys hold the attempt; otherwise the store is untouched.
\<close>

theorem lock_all_or_nothing:
  assumes "a \<noteq> b"
  shows "(fst (tryLockPair a b i ttl r) \<longleftrightarrow> lockable a r \<and> lockable b r \<and> pair_open a b r)
    \<and> rget k (snd (tryLockPair a b i ttl r)) =
       (if \<not> fst (tryLockPair a b i ttl r) then rget k r
        else if k \<in> {UserState a, UserState b} then Some ''locked''
        else if k \<in> {UserLock a, UserLock b, pair_lock_key a b} then Some i else rget k r)"
  using assms tryLockPair_success [of a b i ttl r k] tryLockPair_failure [OF assms, of i ttl r]
  by (auto simp: tryLockPair_iff)

theorem lock_all_or_nothing_witness:
  "fst (tryLockPair ''amy'' ''bob'' ''a1'' 9 pool_sample) \<longleftrightarrow>
     lockable ''amy'' pool_sample \<and> lockable ''bob'' pool_sample \<and> pair_open ''amy'' ''bob'' pool_sample"
  using lock_all_or_nothing [of "''amy''" "''bob''" "''a1''" 9 pool_sample PoolGlobal] by simp


text \<open>
  Releasing undoes locking: every string key reads as it did before the pair was locked.
\<close>

theorem release_undoes_lock:
  assumes "fst (tryLockPair a b i ttl r)"
  shows "rget k (releasePair a b (snd (tryLockPair a b i ttl r))) = rget k r"
proof -
  have "lockable a r" "lockable b r" "pair_open a b r" using assms by (simp_all add: tryLockPair_iff)
  then show ?thesis
    by (auto simp: rget_releasePair tryLockPair_success [OF assms] lockable_def pair_open_def)
qed

theorem release_undoes_lock_witness:
  "rget (UserState ''amy'') (releasePair ''amy'' ''bob'' (snd (tryLockPair ''amy'' ''bob'' ''a1'' 9 pool_sample)))
     = rget (UserState ''amy'') pool_sample"
proof -
  have "fst (tryLockPair ''amy'' ''bob'' ''a1'' 9 pool_sample)" by code_simp
  from release_undoes_lock [OF this] show ?thesis .
qed

text \<open>
  C35. Exactly one caller makes the room. Over any sequence of connects by the two users on a
  fresh proposal, the answer 2 (create the room) is given once if both have connected, and
  never otherwise.
\<close>

theorem one_room_creator:
  assumes "pd_userLow p < pd_userHigh p" "set us \<subseteq> {pd_userLow p, pd_userHigh p}"
    and "rget (pair_finalize_key (pd_userLow p) (pd_userHigh p)) r = None"
  shows "count_list (run_connects (pd_userLow p) (pd_userHigh p) us (writePending p r)) 2 =
    (if pd_userLow p \<in> set us \<and> pd_userHigh p \<in> set us then 1 else 0)"
proof -
  let ?r = "writePending p r"
  have "\<not> connected ''connectLow'' (pd_userLow p) (pd_userHigh p) ?r"
    "\<not> connected ''connectHigh'' (pd_userLow p) (pd_userHigh p) ?r"
    "\<not> finalizing (pd_userLow p) (pd_userHigh p) ?r"
    using assms(3) by (simp_all add: writePending_def connected_def finalizing_def Let_def update_conv')
  then show ?thesis using run_connects_count [OF assms(1,2), of ?r] by auto
qed

definition sample_pending :: pending where
  "sample_pending = \<lparr>pd_userLow = ''amy'', pd_userHigh = ''bob'', pd_attemptLow = ''a1'', pd_attemptHigh = ''b1'',
     pd_matchScore = 71, pd_isFallbackMatch = False, pd_roomAttemptId = ''b1''\<rparr>"

theorem one_room_creator_witness:
  "count_list (run_connects ''amy'' ''bob'' [''amy'', ''amy'', ''bob'', ''amy''] (writePending sample_pending redis_empty)) 2 = 1"
proof -
  have "pd_userLow sample_pending < pd_userHigh sample_pending" by code_simp
  moreover have "set [''amy'', ''amy'', ''bob'', ''amy''] \<subseteq> {pd_userLow sample_pending, pd_userHigh sample_pending}"
    by (simp add: sample_pending_def)
  moreover have "rget (pair_finalize_key (pd_userLow sample_pending) (pd_userHigh sample_pending)) redis_empty = None"
    by (simp add: rget_def redis_empty_def)
  ultimately show ?thesis
    using one_room_creator [of sample_pending "[''amy'', ''amy'', ''bob'', ''amy'']" redis_empty]
    by (simp add: sample_pending_def)
qed

text \<open>
  A proposal written for an ordered pair is what both of its users read back, with an
  integer score unchanged, as long as none of its ids is empty.
\<close>

theorem pending_roundtrip:
  assumes "pd_userLow p \<le> pd_userHigh p" "pd_userLow p \<noteq> []" "pd_userHigh p \<noteq> []"
    and "pd_attemptLow p \<noteq> []" "pd_attemptHigh p \<noteq> []" "pd_matchScore p = of_int n"
  shows "readPending (pd_userLow p) (pd_userHigh p) (writePending p r) = Some p
    \<and> readPending (pd_userHigh p) (pd_userLow p) (writePending p r) = Some p"
proof -
  have "readPending (pd_userLow p) (pd_userHigh p) (writePending p r) = Some p"
    using assms by (simp add: readPending_def writePending_def orderedUserIds_def Let_def update_conv'
        num_str_def js_number_int_str)
  moreover have "readPending (pd_userHigh p) (pd_userLow p) s = readPending (pd_userLow p) (pd_userHigh p) s" for s
    by (auto simp: readPending_def orderedUserIds_def)
  ultimately show ?thesis by simp
qed

theorem pending_roundtrip_witness:
  "readPending ''amy'' ''bob'' (writePending sample_pending redis_empty) = Some sample_pending"
proof -
  have "pd_userLow sample_pending \<le> pd_userHigh sample_pending" by code_simp
  then show ?thesis
    using pending_roundtrip [of sample_pending 71 redis_empty] by (simp add: sample_pending_def)
qed

end
