(* ===== verification/Handler.thy ===== *)
theory Handler
  imports MatchProposal
begin

text \<open>
  Handlers of the orchestrator as functions of the Redis state: a handler returns a value or the
  exception it throws (an unreadable snapshot is the only one the code raises itself), the
  state it leaves behind in either case, and the webhooks it fires. \<open>hvalid I m Q\<close> is the
  proof interface: from a state with the invariant \<open>I\<close>, \<open>m\<close> leaves one with \<open>I\<close>, also when
  it throws, and a value it returns satisfies \<open>Q\<close>.
\<close>

datatype webhook =
    WMatchFailed string uid string
  | WMatchProposed uid uid string string rat bool
  | WProposalCancelled uid string string
  | WMatchCompleted string uid uid string rat bool

type_synonym 'a handler = "redis \<Rightarrow> (snapshot_error + 'a) \<times> redis \<times> webhook list"

definition hret :: "'a \<Rightarrow> 'a handler" where
  "hret x = (\<lambda>r. (Inr x, r, []))"

definition hbind :: "'a handler \<Rightarrow> ('a \<Rightarrow> 'b handler) \<Rightarrow> 'b handler" where
  "hbind m f = (\<lambda>r. case m r of
      (Inl e, r', ws) \<Rightarrow> (Inl e, r', ws)
    | (Inr x, r', ws) \<Rightarrow> (case f x r' of (res, r'', ws') \<Rightarrow> (res, r'', ws @ ws')))"

definition hseq :: "unit handler \<Rightarrow> 'b handler \<Rightarrow> 'b handler" where
  "hseq m f = hbind m (\<lambda>_. f)"

definition hget :: "(redis \<Rightarrow> 'a) \<Rightarrow> 'a handler" where
  "hget f = (\<lambda>r. (Inr (f r), r, []))"

definition hmod :: "(redis \<Rightarrow> redis) \<Rightarrow> unit handler" where
  "hmod f = (\<lambda>r. (Inr (), f r, []))"

definition hstate :: "(redis \<Rightarrow> 'a \<times> redis) \<Rightarrow> 'a handler" where
  "hstate f = (\<lambda>r. (Inr (fst (f r)), snd (f r), []))"

definition hresult :: "(redis \<Rightarrow> snapshot_error + 'a) \<Rightarrow> 'a handler" where
  "hresult f = (\<lambda>r. (f r, r, []))"

definition hemit :: "webhook \<Rightarrow> unit handler" where
  "hemit w = (\<lambda>r. (Inr (), r, [w]))"

text \<open>\<open>try { m } finally { f }\<close>: \<open>f\<close> runs also when \<open>m\<close> throws.\<close>

definition hfinally :: "'a handler \<Rightarrow> (redis \<Rightarrow> redis) \<Rightarrow> 'a handler" where
  "hfinally m f = (\<lambda>r. case m r of (res, r', ws) \<Rightarrow> (res, f r', ws))"

definition hfinal_state :: "'a handler \<Rightarrow> redis \<Rightarrow> redis" where
  "hfinal_state m r = fst (snd (m r))"

definition hvalid :: "(redis \<Rightarrow> bool) \<Rightarrow> 'a handler \<Rightarrow> ('a \<Rightarrow> bool) \<Rightarrow> bool" where
  "hvalid I m Q \<longleftrightarrow> (\<forall>r. I r \<longrightarrow> I (fst (snd (m r))) \<and> (\<forall>x. fst (m r) = Inr x \<longrightarrow> Q x))"

lemma hvalid_ret [wf_intros]: "Q x \<Longrightarrow> hvalid I (hret x) Q"
  by (simp add: hvalid_def hret_def)

lemma hvalid_bind:
  "hvalid I m P \<Longrightarrow> (\<And>x. P x \<Longrightarrow> hvalid I (f x) Q) \<Longrightarrow> hvalid I (hbind m f) Q"
  by (fastforce simp: hvalid_def hbind_def split: prod.splits sum.splits)

lemma hvalid_seq [wf_intros]:
  "hvalid I m (\<lambda>_. True) \<Longrightarrow> hvalid I f Q \<Longrightarrow> hvalid I (hseq m f) Q"
  unfolding hseq_def by (rule hvalid_bind)

lemma hvalid_get: "(\<And>r. I r \<Longrightarrow> Q (f r)) \<Longrightarrow> hvalid I (hget f) Q"
  by (simp add: hvalid_def hget_def)

lemma hvalid_get_bind:
  "(\<And>r. I r \<Longrightarrow> hvalid I (g (f r)) Q) \<Longrightarrow> hvalid I (hbind (hget f) g) Q"
  by (fastforce simp: hvalid_def hbind_def hget_def split: prod.splits)

lemma hvalid_mod [wf_intros]: "(\<And>r. I r \<Longrightarrow> I (f r)) \<Longrightarrow> hvalid I (hmod f) (\<lambda>_. True)"
  by (simp add: hvalid_def hmod_def)

lemma hvalid_state:
  "(\<And>r. I r \<Longrightarrow> I (snd (f r)) \<and> Q (fst (f r))) \<Longrightarrow> hvalid I (hstate f) Q"
  by (simp add: hvalid_def hstate_def)

lemma hvalid_result:
  "(\<And>r x. I r \<Longrightarrow> f r = Inr x \<Longrightarrow> Q x) \<Longrightarrow> hvalid I (hresult f) Q"
  by (simp add: hvalid_def hresult_def)

lemma hvalid_emit [wf_intros]: "hvalid I (hemit w) (\<lambda>_. True)"
  by (simp add: hvalid_def hemit_def)

lemma hvalid_finally [wf_intros]:
  "hvalid I m Q \<Longrightarrow> (\<And>r. I r \<Longrightarrow> I (f r)) \<Longrightarrow> hvalid I (hfinally m f) Q"
  by (auto simp: hvalid_def hfinally_def split: prod.splits)

lemma hvalid_weaken: "hvalid I m P \<Longrightarrow> (\<And>x. P x \<Longrightarrow> Q x) \<Longrightarrow> hvalid I m Q"
  by (auto simp: hvalid_def)

lemma hvalid_final: "hvalid I m Q \<Longrightarrow> I r \<Longrightarrow> I (hfinal_state m r)"
  by (auto simp: hvalid_def hfinal_state_def)

lemmas handler_defs =
  hret_def hbind_def hseq_def hget_def hmod_def hstate_def hresult_def hemit_def hfinally_def

end
