(* ===== verification/MatchOrchestrator.thy ===== *)
theory MatchOrchestrator
  imports Handler
begin

text \<open>
  The match orchestrator (\<open>orchestrator.ts\<close>), the search lock and coalescing of \<open>helpers.ts\<close>,
  the job queue (\<open>queue.ts\<close>), room creation (\<open>room.ts\<close>) and one turn of the worker
  (\<open>worker.ts\<close>). What lies outside the service is an argument: the clock, the main API that
  hydrates snapshots, the room service's HTTP reply, and what other clients do to Redis while
  a handler sleeps. Candidates of one scan are scored one after the other; the code starts
  them together and waits for all.
\<close>

record request =
  rq_userId :: uid
  rq_requestId :: string

subsection \<open>Rooms\<close>

datatype http_reply = HttpThrows | HttpReply nat "json option"

datatype room_result = RoomOk string | RoomFailed string

definition pairIdFor :: "uid \<Rightarrow> uid \<Rightarrow> string" where
  "pairIdFor l r = (if l \<le> r then l @ '':'' @ r else r @ '':'' @ l)"

definition nonempty_string :: "json \<Rightarrow> string option" where
  "nonempty_string v = (case v of JStr s \<Rightarrow> if s \<noteq> [] then Some s else None | _ \<Rightarrow> None)"

definition room_id_of :: "json \<Rightarrow> string option" where
  "room_id_of payload =
     nullish (nonempty_string (jget (as_record payload) ''roomId''))
             (nonempty_string (jget (as_record (jget (as_record payload) ''data'')) ''roomId''))"

definition createRoom ::
  "bool \<Rightarrow> (string \<Rightarrow> uid \<Rightarrow> uid \<Rightarrow> http_reply) \<Rightarrow> string \<Rightarrow> uid \<Rightarrow> uid \<Rightarrow> room_result" where
  "createRoom mock_mode post attemptId requesterId peerUserId =
     (if mock_mode then RoomOk (''mock-room:'' @ pairIdFor requesterId peerUserId @ '':'' @ attemptId)
      else case post attemptId requesterId peerUserId of
        HttpThrows \<Rightarrow> RoomFailed ''room_create_timeout_or_network''
      | HttpReply code body \<Rightarrow>
          if \<not> (200 \<le> code \<and> code < 300) then RoomFailed (''room_service_http_'' @ nat_str code)
          else case body of
            None \<Rightarrow> RoomFailed ''room_create_timeout_or_network''
          | Some payload \<Rightarrow>
              if payload = JNull then RoomFailed ''room_create_timeout_or_network''
              else case room_id_of payload of
                None \<Rightarrow> RoomFailed ''room_service_invalid_payload''
              | Some i \<Rightarrow> RoomOk i)"

subsection \<open>Environment\<close>

record match_env =
  me_date_parse :: "string \<Rightarrow> rat option"
  me_now :: int
  me_clock :: "nat \<Rightarrow> int"
  me_ensure :: "uid \<Rightarrow> redis \<Rightarrow> bool \<times> doc option"
  me_others :: "nat \<Rightarrow> redis \<Rightarrow> redis"
  me_jitter :: "nat \<Rightarrow> nat"
  me_guest_policy :: guest_policy
  me_mock_rooms :: bool
  me_room_post :: "string \<Rightarrow> uid \<Rightarrow> uid \<Rightarrow> http_reply"

text \<open>
  The ensure webhook: the main API answers whether it cached the profile, and when it did the
  snapshot key holds what it wrote.
\<close>

definition requestEnsureProfileSnapshot :: "match_env \<Rightarrow> uid \<Rightarrow> redis \<Rightarrow> bool \<times> redis" where
  "requestEnsureProfileSnapshot env u r =
     (case me_ensure env u r of (ok, d) \<Rightarrow>
        (ok, case d of None \<Rightarrow> r | Some v \<Rightarrow> rset_doc (Snapshot u) v r))"

subsection \<open>Job queue\<close>

definition rlpush :: "rkey \<Rightarrow> doc \<Rightarrow> redis \<Rightarrow> redis" where
  "rlpush k v r = r\<lparr>queues := (queues r)(k := v # queues r k)\<rparr>"

definition brpop :: "rkey \<Rightarrow> redis \<Rightarrow> doc option \<times> redis" where
  "brpop k r = (if queues r k = [] then (None, r)
     else (Some (last (queues r k)), r\<lparr>queues := (queues r)(k := butlast (queues r k))\<rparr>))"

definition toQueuePayload :: "request \<Rightarrow> doc" where
  "toQueuePayload q = Json (JObj [(''userId'', JStr (rq_userId q)), (''requestId'', JStr (rq_requestId q))])"

definition parseQueuePayload :: "doc \<Rightarrow> request option" where
  "parseQueuePayload d = (case d of
      BadJson \<Rightarrow> None
    | Json v \<Rightarrow>
        (case (as_string (jget (as_record v) ''userId''), as_string (jget (as_record v) ''requestId'')) of
           (Some u, Some i) \<Rightarrow>
             if js_trim u = [] \<or> js_trim i = [] then None
             else Some \<lparr>rq_userId = js_trim u, rq_requestId = js_trim i\<rparr>
         | _ \<Rightarrow> None))"

definition enqueue_job :: "request \<Rightarrow> redis \<Rightarrow> redis" where
  "enqueue_job q r = rlpush MatchJobQueue (toQueuePayload q) r"

definition dequeue_job :: "redis \<Rightarrow> request option \<times> redis" where
  "dequeue_job r = (case brpop MatchJobQueue r of
      (None, r') \<Rightarrow> (None, r')
    | (Some d, r') \<Rightarrow> (parseQueuePayload d, r'))"

subsection \<open>Starting a search\<close>

definition START_SEARCH_LOCK_TTL_SEC :: nat where "START_SEARCH_LOCK_TTL_SEC = 10"
definition START_SEARCH_LOCK_WAIT_MS :: int where "START_SEARCH_LOCK_WAIT_MS = 3000"
definition START_SEARCH_LOCK_POLL_MS :: int where "START_SEARCH_LOCK_POLL_MS = 25"

definition get_attempt :: "match_env \<Rightarrow> string \<Rightarrow> redis \<Rightarrow> attempt option" where
  "get_attempt env i r = getAttempt (of_int (me_now env)) i r"

definition searchingWithRequestId :: "string \<Rightarrow> match_result" where
  "searchingWithRequestId i = RSearching 1000 i"

definition coalesceActiveSearchOrProposal :: "match_env \<Rightarrow> uid \<Rightarrow> redis \<Rightarrow> match_result option" where
  "coalesceActiveSearchOrProposal env u r =
     (case rget (UserLastAttempt u) r of
        None \<Rightarrow> None
      | Some lastId \<Rightarrow>
          if lastId = [] then None
          else (case get_attempt env lastId r of
                  None \<Rightarrow> None
                | Some last_attempt \<Rightarrow>
                    if at_status last_attempt = Searching then Some (searchingWithRequestId lastId)
                    else if at_status last_attempt = Proposed \<and> truthy (at_peerUserId last_attempt)
                    then Some (toResult last_attempt)
                    else None))"

definition tryAcquireStartSearchLock :: "uid \<Rightarrow> string \<Rightarrow> redis \<Rightarrow> bool \<times> redis" where
  "tryAcquireStartSearchLock u i r = rset_nx (UserStartSearchLock u) i START_SEARCH_LOCK_TTL_SEC r"

definition releaseStartSearchLockIfHolder :: "uid \<Rightarrow> string \<Rightarrow> redis \<Rightarrow> redis" where
  "releaseStartSearchLockIfHolder u i r =
     (if rget (UserStartSearchLock u) r = Some i then rdel (UserStartSearchLock u) r else r)"

definition pool_enqueue :: "match_env \<Rightarrow> uid \<Rightarrow> unit handler" where
  "pool_enqueue env u = (\<lambda>r. case enqueue (me_date_parse env) (me_now env) u r of
      Inl e \<Rightarrow> (Inl e, r, []) | Inr r' \<Rightarrow> (Inr (), r', []))"

definition commitSearchingEnqueue :: "match_env \<Rightarrow> request \<Rightarrow> match_result handler" where
  "commitSearchingEnqueue env q =
     hseq (hmod (setSearching (me_now env) (rq_requestId q) (rq_userId q)))
    (hseq (pool_enqueue env (rq_userId q))
    (hseq (hmod (enqueue_job q))
       (hret (searchingWithRequestId (rq_requestId q)))))"

definition get_snapshot :: "match_env \<Rightarrow> uid \<Rightarrow> snapshot_profile option handler" where
  "get_snapshot env u = hresult (getSnapshotByUserId (me_date_parse env) (of_int (me_now env)) u)"

definition getSnapshotWithHydration :: "match_env \<Rightarrow> uid \<Rightarrow> snapshot_profile option handler" where
  "getSnapshotWithHydration env u =
     hbind (get_snapshot env u) (\<lambda>existing.
       case existing of
         Some p \<Rightarrow> hret (Some p)
       | None \<Rightarrow>
           hbind (hstate (requestEnsureProfileSnapshot env u)) (\<lambda>ok.
             if \<not> ok then hret None else get_snapshot env u))"

definition mark_no_match :: "match_env \<Rightarrow> request \<Rightarrow> string \<Rightarrow> match_result handler" where
  "mark_no_match env q reason =
     hseq (hmod (markNoMatch (me_now env) (rq_requestId q) (rq_userId q) reason)) (hret (RNoMatch reason))"

text \<open>
  The wait for the search lock. The loop is given fuel: \<open>StillWaiting\<close> says it ran out. The
  \<open>i\<close>-th turn reads the clock, and others act while it sleeps at its end.
\<close>

datatype wait_outcome = Got match_result | DeadlinePassed | StillWaiting

fun lock_wait :: "match_env \<Rightarrow> request \<Rightarrow> int \<Rightarrow> nat \<Rightarrow> nat \<Rightarrow> wait_outcome handler" where
  "lock_wait env q deadline i 0 = hret StillWaiting"
| "lock_wait env q deadline i (Suc fuel) =
     (if \<not> (me_clock env (Suc i) < deadline) then hret DeadlinePassed
      else hbind (hget (coalesceActiveSearchOrProposal env (rq_userId q))) (\<lambda>coalesced.
        case coalesced of
          Some res \<Rightarrow> hret (Got res)
        | None \<Rightarrow>
            hbind (hstate (tryAcquireStartSearchLock (rq_userId q) (rq_requestId q))) (\<lambda>acquired.
              if acquired then
                hfinally
                  (hbind (hget (coalesceActiveSearchOrProposal env (rq_userId q))) (\<lambda>again.
                     case again of
                       Some res \<Rightarrow> hret (Got res)
                     | None \<Rightarrow> hbind (commitSearchingEnqueue env q) (\<lambda>res. hret (Got res))))
                  (releaseStartSearchLockIfHolder (rq_userId q) (rq_requestId q))
              else hseq (hmod (me_others env i)) (lock_wait env q deadline (Suc i) fuel))))"

definition locked_answer :: "match_env \<Rightarrow> request \<Rightarrow> redis \<Rightarrow> match_result option" where
  "locked_answer env q r =
     (case rget (UserLastAttempt (rq_userId q)) r of
        None \<Rightarrow> None
      | Some lastId \<Rightarrow>
          if lastId = [] then None
          else (case get_attempt env lastId r of
                  None \<Rightarrow> None
                | Some a \<Rightarrow> if at_status a = Proposed \<and> truthy (at_peerUserId a) then Some (toResult a) else None))"

definition startFindMatch :: "match_env \<Rightarrow> nat \<Rightarrow> request \<Rightarrow> match_result option handler" where
  "startFindMatch env fuel q =
     hbind (hget (get_attempt env (rq_requestId q))) (\<lambda>existing.
       case existing of
         Some a \<Rightarrow> hret (Some (toResult a))
       | None \<Rightarrow>
     hbind (getSnapshotWithHydration env (rq_userId q)) (\<lambda>snap.
       if snap = None then hbind (mark_no_match env q ''snapshot_not_found'') (\<lambda>x. hret (Some x))
       else
     hbind (hget (rget (UserState (rq_userId q)))) (\<lambda>state.
       if state = Some ''locked'' then
         hbind (hget (locked_answer env q)) (\<lambda>idem.
           case idem of
             Some res \<Rightarrow> hret (Some res)
           | None \<Rightarrow> hbind (mark_no_match env q ''user_unavailable'') (\<lambda>x. hret (Some x)))
       else if state = Some ''in_room'' then
         hbind (mark_no_match env q ''user_unavailable'') (\<lambda>x. hret (Some x))
       else
     hbind (hget (coalesceActiveSearchOrProposal env (rq_userId q))) (\<lambda>early.
       case early of
         Some res \<Rightarrow> hret (Some res)
       | None \<Rightarrow>
     hbind (lock_wait env q (me_clock env 0 + START_SEARCH_LOCK_WAIT_MS) 0 fuel) (\<lambda>out.
       case out of
         StillWaiting \<Rightarrow> hret None
       | Got res \<Rightarrow> hret (Some res)
       | DeadlinePassed \<Rightarrow>
     hbind (hget (coalesceActiveSearchOrProposal env (rq_userId q))) (\<lambda>final.
       case final of
         Some res \<Rightarrow> hret (Some res)
       | None \<Rightarrow> hbind (commitSearchingEnqueue env q) (\<lambda>x. hret (Some x))))))))"

definition getMatchResult :: "match_env \<Rightarrow> string \<Rightarrow> redis \<Rightarrow> match_result" where
  "getMatchResult env i r = (case get_attempt env i r of
      None \<Rightarrow> RNoMatch ''attempt_not_found'' | Some a \<Rightarrow> toResult a)"

subsection \<open>Scoring the pool\<close>

definition score_candidate ::
  "match_env \<Rightarrow> snapshot_profile \<Rightarrow> scoring_mode \<Rightarrow> candidate \<Rightarrow> scored_candidate option handler" where
  "score_candidate env req mode c =
     hbind (hget (\<lambda>r. isBlockedWithPeer r (sp_userId req) (fst c))) (\<lambda>blocked.
       if blocked then hret None
       else hbind (getSnapshotWithHydration env (fst c)) (\<lambda>snap.
         case snap of
           None \<Rightarrow> hret None
         | Some cand \<Rightarrow>
             if \<not> areGuestPoolCompatible req cand (me_guest_policy env) then hret None
             else if \<not> isBidirectionallyCompatible req cand then hret None
             else if mode = EligibleOnly \<and> \<not> passesActivityIntentStrictFilter req cand then hret None
             else let matchScore = calculateBidirectionalScore req cand in
               if mode = EligibleOnly \<and> \<not> isScoreEligible matchScore then hret None
               else hret (Some \<lparr>sc_userId = fst c, sc_matchScore = matchScore, sc_poolScore = snd c\<rparr>)))"

fun scorePoolCandidates ::
  "match_env \<Rightarrow> snapshot_profile \<Rightarrow> scoring_mode \<Rightarrow> candidate list \<Rightarrow> scored_candidate list handler" where
  "scorePoolCandidates env req mode [] = hret []"
| "scorePoolCandidates env req mode (c # cs) =
     hbind (score_candidate env req mode c) (\<lambda>row.
       hbind (scorePoolCandidates env req mode cs) (\<lambda>rows.
         hret (case row of None \<Rightarrow> rows | Some x \<Rightarrow> x # rows)))"

subsection \<open>Pairing\<close>

definition propose ::
  "match_env \<Rightarrow> request \<Rightarrow> scored_candidate \<Rightarrow> string \<Rightarrow> bool \<Rightarrow> match_result handler" where
  "propose env q c peerAttemptId isFallback =
     (let u = rq_userId q; v = sc_userId c; score = of_int (sc_matchScore c);
          userLow = (if u \<le> v then u else v); userHigh = (if u \<le> v then v else u);
          attemptLow = (if userLow = u then rq_requestId q else peerAttemptId);
          attemptHigh = (if userHigh = u then rq_requestId q else peerAttemptId)
      in hseq (hmod (writePending
                 \<lparr>pd_userLow = userLow, pd_userHigh = userHigh, pd_attemptLow = attemptLow,
                  pd_attemptHigh = attemptHigh, pd_matchScore = score, pd_isFallbackMatch = isFallback,
                  pd_roomAttemptId = rq_requestId q\<rparr>))
        (hseq (hmod (markProposed (me_now env) (rq_requestId q) u v score isFallback))
        (hseq (hmod (markProposed (me_now env) peerAttemptId v u score isFallback))
        (hseq (hemit (WMatchProposed u v (rq_requestId q) peerAttemptId score isFallback))
           (hret (RProposed (rq_requestId q) v score isFallback))))))"

fun tryPairWithSortedCandidates ::
  "match_env \<Rightarrow> request \<Rightarrow> bool \<Rightarrow> scored_candidate list \<Rightarrow> match_result option handler" where
  "tryPairWithSortedCandidates env q isFallback [] = hret None"
| "tryPairWithSortedCandidates env q isFallback (c # cs) =
     hbind (hstate (tryLockPair (rq_userId q) (sc_userId c) (rq_requestId q) proposalPhaseLockTtlMs)) (\<lambda>locked.
       if \<not> locked then tryPairWithSortedCandidates env q isFallback cs
       else hbind (hget (rget (UserLastAttempt (sc_userId c)))) (\<lambda>peerAttemptId.
         if \<not> truthy peerAttemptId \<or> peerAttemptId = Some (rq_requestId q) then
           hseq (hmod (releasePair (rq_userId q) (sc_userId c)))
          (hseq (if \<not> truthy peerAttemptId then hmod (stripFromPool (sc_userId c)) else hret ())
             (tryPairWithSortedCandidates env q isFallback cs))
         else hbind (hget (get_attempt env (the peerAttemptId))) (\<lambda>peerAttempt.
           if peerAttempt = None \<or> at_userId (the peerAttempt) \<noteq> sc_userId c
              \<or> at_status (the peerAttempt) \<noteq> Searching then
             hseq (hmod (releasePair (rq_userId q) (sc_userId c)))
               (tryPairWithSortedCandidates env q isFallback cs)
           else hbind (propose env q c (the peerAttemptId) isFallback) (\<lambda>res. hret (Some res)))))"

definition rank_for ::
  "strategy \<Rightarrow> uid \<Rightarrow> scored_candidate list \<Rightarrow> redis \<Rightarrow> scored_candidate list" where
  "rank_for strat u rows r =
     orderCandidatesForStrategy strat (rankCandidatesForPairing rows (getPeerSetsForRanking u r))"

definition tryFallbackMatch ::
  "match_env \<Rightarrow> request \<Rightarrow> snapshot_profile \<Rightarrow> strategy \<Rightarrow> match_result option handler" where
  "tryFallbackMatch env q req strat =
     hbind (hget (\<lambda>r. getCandidates r (rq_userId q) req)) (\<lambda>candidates.
     hbind (scorePoolCandidates env req (st_fallbackScoringMode strat) candidates) (\<lambda>rows.
     hbind (hget (rank_for strat (rq_userId q) rows)) (\<lambda>ordered.
       if rows = [] then hret None else tryPairWithSortedCandidates env q True ordered)))"

subsection \<open>The search job\<close>

definition maxRetries :: nat where "maxRetries = 3"
definition retryBackoffMs :: "nat list" where "retryBackoffMs = [500, 1500, 3500]"

definition backoffBase :: "nat \<Rightarrow> nat" where
  "backoffBase i = (if i < length retryBackoffMs then retryBackoffMs ! i
     else if retryBackoffMs \<noteq> [] then last retryBackoffMs else 500)"

record scan =
  sn_result :: "match_result option"
  sn_foundEligible :: bool
  sn_poolHadOthers :: bool

text \<open>
  The retry passes: \<open>left\<close> passes remain after pass \<open>i\<close>, and others act during the backoff,
  which lasts \<open>backoffBase i\<close> and a jitter.
\<close>

fun retry_passes ::
  "match_env \<Rightarrow> request \<Rightarrow> snapshot_profile \<Rightarrow> strategy \<Rightarrow> nat \<Rightarrow> nat \<Rightarrow> bool \<Rightarrow> bool \<Rightarrow> scan handler" where
  "retry_passes env q req strat i left found pool =
     hbind (hget (\<lambda>r. getCandidates r (rq_userId q) req)) (\<lambda>candidates.
     hbind (scorePoolCandidates env req (st_primaryScoringMode strat) candidates) (\<lambda>rows.
     hbind (hget (rank_for strat (rq_userId q) rows)) (\<lambda>ordered.
     hbind (tryPairWithSortedCandidates env q False ordered) (\<lambda>matched.
       let pool' = (pool \<or> candidates \<noteq> []); found' = (found \<or> rows \<noteq> []) in
       case matched of
         Some res \<Rightarrow> hret \<lparr>sn_result = Some res, sn_foundEligible = found', sn_poolHadOthers = pool'\<rparr>
       | None \<Rightarrow>
           (case left of
              0 \<Rightarrow> hret \<lparr>sn_result = None, sn_foundEligible = found', sn_poolHadOthers = pool'\<rparr>
            | Suc left' \<Rightarrow>
                hseq (hmod (me_others env (backoffBase i + me_jitter env i)))
                  (retry_passes env q req strat (Suc i) left' found' pool'))))))"

declare retry_passes.simps [simp del]

definition give_up :: "match_env \<Rightarrow> request \<Rightarrow> bool \<Rightarrow> match_result handler" where
  "give_up env q poolHadOthers =
     (let reason = (if \<not> poolHadOthers then ''pool_empty'' else ''no_compatible_candidate'')
      in hseq (hmod (markNoMatch (me_now env) (rq_requestId q) (rq_userId q) reason))
        (hseq (hmod (remove_user (rq_userId q)))
        (hseq (hemit (WMatchFailed (rq_requestId q) (rq_userId q) reason))
           (hret (RNoMatch reason)))))"

definition processMatchRequest :: "match_env \<Rightarrow> request \<Rightarrow> match_result handler" where
  "processMatchRequest env q =
     hbind (hget (get_attempt env (rq_requestId q))) (\<lambda>existing.
       case existing of
         None \<Rightarrow> hret (RNoMatch ''attempt_not_found'')
       | Some a \<Rightarrow>
           if at_status a \<noteq> Searching then hret (toResult a)
           else
     hbind (getSnapshotWithHydration env (rq_userId q)) (\<lambda>snap.
       case snap of
         None \<Rightarrow>
           hbind (mark_no_match env q ''snapshot_not_found'') (\<lambda>x.
             hseq (hmod (remove_user (rq_userId q))) (hret x))
       | Some req \<Rightarrow>
     (let strat = resolveMatchExecutionStrategy req in
     hbind (hget (rget (UserState (rq_userId q)))) (\<lambda>state.
       if state = Some ''in_room'' then
         hbind (mark_no_match env q ''user_unavailable'') (\<lambda>x.
           hseq (hmod (remove_user (rq_userId q))) (hret x))
       else if state = Some ''locked'' then hret (toResult a)
       else
     hbind (retry_passes env q req strat 0 (maxRetries + st_retryBudget strat) False False) (\<lambda>sc.
       case sn_result sc of
         Some res \<Rightarrow> hret res
       | None \<Rightarrow>
     hbind (if \<not> sn_foundEligible sc then tryFallbackMatch env q req strat else hret None) (\<lambda>fb.
       case fb of
         Some res \<Rightarrow> hret res
       | None \<Rightarrow> give_up env q (sn_poolHadOthers sc)))))))"

subsection \<open>Answering a proposal\<close>

datatype decision = Connect | Skip
datatype respond_result = RespOk | RespErr string

definition userInRoomStateTtlSeconds :: nat where "userInRoomStateTtlSeconds = 7200"

definition markPairInRoom :: "uid \<Rightarrow> uid \<Rightarrow> redis \<Rightarrow> redis" where
  "markPairInRoom a b r =
     rset_ex (UserState b) ''in_room'' userInRoomStateTtlSeconds
       (rset_ex (UserState a) ''in_room'' userInRoomStateTtlSeconds
         (rdel (pair_lock_key a b) (rdel (UserLock b) (rdel (UserLock a)
           (stripFromPool b (stripFromPool a r))))))"

definition teardownProposal ::
  "match_env \<Rightarrow> pending \<Rightarrow> uid option \<Rightarrow> string \<Rightarrow> string \<Rightarrow> unit handler" where
  "teardownProposal env p skipBy reasonLow reasonHigh =
     hseq (if skipBy = Some (pd_userLow p) then hmod (recordSkip (pd_userLow p) (pd_userHigh p))
           else if skipBy = Some (pd_userHigh p) then hmod (recordSkip (pd_userHigh p) (pd_userLow p))
           else hret ())
    (hseq (hmod (deletePending (pd_userLow p) (pd_userHigh p)))
    (hseq (hmod (releasePair (pd_userLow p) (pd_userHigh p)))
    (hseq (hmod (markNoMatch (me_now env) (pd_attemptLow p) (pd_userLow p) reasonLow))
          (hmod (markNoMatch (me_now env) (pd_attemptHigh p) (pd_userHigh p) reasonHigh)))))"

definition notify_cancelled :: "pending \<Rightarrow> string \<Rightarrow> string \<Rightarrow> unit handler" where
  "notify_cancelled p reasonLow reasonHigh =
     hseq (hemit (WProposalCancelled (pd_userLow p) (pd_attemptLow p) reasonLow))
          (hemit (WProposalCancelled (pd_userHigh p) (pd_attemptHigh p) reasonHigh))"

definition skip_proposal :: "match_env \<Rightarrow> uid \<Rightarrow> pending \<Rightarrow> respond_result handler" where
  "skip_proposal env u p =
     (let reasonLow = (if u = pd_userLow p then ''you_skipped'' else ''peer_skipped'');
          reasonHigh = (if u = pd_userHigh p then ''you_skipped'' else ''peer_skipped'')
      in hseq (teardownProposal env p (Some u) reasonLow reasonHigh)
        (hseq (notify_cancelled p reasonLow reasonHigh) (hret RespOk)))"

definition room_failed :: "match_env \<Rightarrow> pending \<Rightarrow> respond_result handler" where
  "room_failed env p =
     hseq (hmod (deletePending (pd_userLow p) (pd_userHigh p)))
    (hseq (hmod (releasePair (pd_userLow p) (pd_userHigh p)))
    (hseq (hmod (markNoMatch (me_now env) (pd_attemptLow p) (pd_userLow p) ''room_create_failed''))
    (hseq (hmod (markNoMatch (me_now env) (pd_attemptHigh p) (pd_userHigh p) ''room_create_failed''))
    (hseq (notify_cancelled p ''room_create_failed'' ''room_create_failed'')
       (hret (RespErr ''room_create_failed''))))))"

definition room_ready :: "match_env \<Rightarrow> pending \<Rightarrow> string \<Rightarrow> respond_result handler" where
  "room_ready env p roomId =
     hseq (hmod (markPairInRoom (pd_userLow p) (pd_userHigh p)))
    (hseq (hmod (markMatched (me_now env) (pd_attemptLow p) (pd_userLow p) (pd_userHigh p) roomId (pd_matchScore p)))
    (hseq (hmod (markMatched (me_now env) (pd_attemptHigh p) (pd_userHigh p) (pd_userLow p) roomId (pd_matchScore p)))
    (hseq (hmod (deletePending (pd_userLow p) (pd_userHigh p)))
    (hseq (hmod (recordMatchedPair (pd_userLow p) (pd_userHigh p)))
    (hseq (hemit (WMatchCompleted (pd_roomAttemptId p) (pd_userLow p) (pd_userHigh p) roomId
                    (pd_matchScore p) (pd_isFallbackMatch p)))
       (hret RespOk))))))"

definition connect_proposal :: "match_env \<Rightarrow> uid \<Rightarrow> uid \<Rightarrow> pending \<Rightarrow> respond_result handler" where
  "connect_proposal env u peer p =
     hbind (hstate (recordConnect u peer u)) (\<lambda>rc.
       if rc = 0 \<or> rc = 1 then hret RespOk
       else case createRoom (me_mock_rooms env) (me_room_post env) (pd_roomAttemptId p)
                   (pd_userLow p) (pd_userHigh p) of
              RoomFailed _ \<Rightarrow> room_failed env p
            | RoomOk roomId \<Rightarrow> room_ready env p roomId)"

definition respondToMatchProposal :: "match_env \<Rightarrow> uid \<Rightarrow> string \<Rightarrow> decision \<Rightarrow> respond_result handler" where
  "respondToMatchProposal env u attemptId d =
     hbind (hget (get_attempt env attemptId)) (\<lambda>attempt.
       case attempt of
         None \<Rightarrow> hret (RespErr ''invalid_attempt'')
       | Some a \<Rightarrow>
           if at_userId a \<noteq> u then hret (RespErr ''invalid_attempt'')
           else if at_status a \<noteq> Proposed \<or> \<not> truthy (at_peerUserId a) then hret (RespErr ''not_in_proposal'')
           else
     (let peer = the (at_peerUserId a) in
     hbind (hget (readPending u peer)) (\<lambda>pend.
       case pend of
         None \<Rightarrow> hret (RespErr ''proposal_expired'')
       | Some p \<Rightarrow>
           if d = Skip then skip_proposal env u p
           else
           connect_proposal env u peer p)))"

subsection \<open>Leaving, cancelling, state\<close>

definition leaveRoom :: "match_env \<Rightarrow> uid \<Rightarrow> unit handler" where
  "leaveRoom env u =
     hbind (hget (rget (UserLastAttempt u))) (\<lambda>requestId.
     hseq (if truthy requestId then
             hbind (hget (get_attempt env (the requestId))) (\<lambda>attempt.
               if map_option at_status attempt = Some Matched
               then hmod (markNoMatch (me_now env) (the requestId) u ''left_room'') else hret ())
           else hret ())
    (hseq (hmod (stripFromPool u))
          (hmod (\<lambda>r. rdel (UserState u) (rdel (UserLock u) r)))))"

datatype user_match_state =
    UIdle | USearching string | UProposed string uid rat bool | UMatched string string

definition getUserMatchState :: "match_env \<Rightarrow> uid \<Rightarrow> redis \<Rightarrow> user_match_state" where
  "getUserMatchState env u r =
     (let requestId = rget (UserLastAttempt u) r in
      if \<not> truthy requestId then UIdle
      else case get_attempt env (the requestId) r of
        None \<Rightarrow> UIdle
      | Some a \<Rightarrow>
          if at_status a = Searching then USearching (the requestId)
          else if at_status a = Proposed \<and> truthy (at_peerUserId a)
          then UProposed (the requestId) (the (at_peerUserId a)) (nullish_or (at_matchScore a) 0) (at_isFallbackMatch a)
          else if at_status a = Matched \<and> truthy (at_roomId a) then UMatched (the requestId) (the (at_roomId a))
          else UIdle)"

definition cancelMatch :: "match_env \<Rightarrow> uid \<Rightarrow> unit handler" where
  "cancelMatch env u =
     hbind (hget (rget (UserLastAttempt u))) (\<lambda>requestId.
     hseq (hmod (remove_user u))
       (if \<not> truthy requestId then hret ()
        else
     hbind (hget (get_attempt env (the requestId))) (\<lambda>attempt.
     hbind (if map_option at_status attempt = Some Proposed \<and> truthy (at_peerUserId (the attempt))
            then hget (readPending u (the (at_peerUserId (the attempt)))) else hret None) (\<lambda>pend.
       case pend of
         Some p \<Rightarrow>
           (let reasonLow = (if u = pd_userLow p then ''cancelled_by_user'' else ''proposal_peer_cancelled'');
                reasonHigh = (if u = pd_userHigh p then ''cancelled_by_user'' else ''proposal_peer_cancelled'')
            in hseq (teardownProposal env p None reasonLow reasonHigh) (notify_cancelled p reasonLow reasonHigh))
       | None \<Rightarrow> hmod (markNoMatch (me_now env) (the requestId) u ''cancelled_by_user'')))))"

subsection \<open>One turn of the worker\<close>

text \<open>The loop catches and logs what a job throws, so a turn always ends normally.\<close>

definition worker_turn :: "match_env \<Rightarrow> redis \<Rightarrow> redis" where
  "worker_turn env r = (case dequeue_job r of
      (None, r') \<Rightarrow> r'
    | (Some q, r') \<Rightarrow> hfinal_state (processMatchRequest env q) r')"

end
