(* ===== verification/MatchSearch.thy ===== *)
theory MatchSearch
  imports MatchOrchestrator
begin

text \<open>
  Starting and ending a search: what \<open>startFindMatch\<close> does on each path, that its wait for the
  per-user lock ends, and what cancelling and leaving do.
\<close>

subsection \<open>Running a handler\<close>

lemma run_quiet: "m r = (Inr x, r', []) \<Longrightarrow> hbind m f r = f x r'"
  by (simp add: hbind_def split: prod.split)

lemma run_simps [handler_simps]:
  "hbind (hget g) f r = f (g r) r"
  "hbind (hret x) f r = f x r"
  "hbind (hstate h) f r = f (fst (h r)) (snd (h r))"
  "hseq (hmod w) n r = n (w r)"
  "hret x r = (Inr x, r, [])"
  by (simp_all add: handler_defs split: prod.split)

subsection \<open>Snapshots and coalescing as functions of the state\<close>

lemma getSnapshot_docs:
  "docs r' (Snapshot u) = docs r (Snapshot u) \<Longrightarrow> getSnapshotByUserId dp now u r' = getSnapshotByUserId dp now u r"
  by (simp add: getSnapshotByUserId_def)

lemma docs_attempt_marks [simp]:
  "docs (setSearching n i u r) = docs r" "docs (markNoMatch n i u reason r) = docs r"
  by (simp_all add: attempt_write_defs)

definition cached :: "match_env \<Rightarrow> uid \<Rightarrow> redis \<Rightarrow> bool" where
  "cached env u r \<longleftrightarrow>
     (\<exists>p. getSnapshotByUserId (me_date_parse env) (of_int (me_now env)) u r = Inr (Some p))"

lemma hydration_cached:
  "cached env u r \<Longrightarrow> \<exists>p. getSnapshotWithHydration env u r = (Inr (Some p), r, [])"
  by (auto simp: cached_def getSnapshotWithHydration_def get_snapshot_def handler_defs)

lemma enqueue_cached:
  assumes "cached env u r" "docs r' (Snapshot u) = docs r (Snapshot u)"
  obtains idx where "pool_enqueue env u r' = (Inr (), enqueue_with u (me_now env) idx r', [])"
  using assms(1) by (auto simp: cached_def pool_enqueue_def enqueue_def getSnapshot_docs [OF assms(2)])

lemma enqueue_job_frame [simp]:
  "rget k (enqueue_job q r) = rget k r" "hashes (enqueue_job q r) = hashes r" "docs (enqueue_job q r) = docs r"
  "zsets (enqueue_job q r) = zsets r"
  "queues (enqueue_job q r) = (queues r)(MatchJobQueue := toQueuePayload q # queues r MatchJobQueue)"
  by (simp_all add: enqueue_job_def rlpush_def rget_def)

text \<open>A user nothing holds back: a readable profile, not in a proposal or a room.\<close>

definition available :: "match_env \<Rightarrow> uid \<Rightarrow> redis \<Rightarrow> bool" where
  "available env u r \<longleftrightarrow> cached env u r \<and> rget (UserState u) r \<noteq> Some ''locked'' \<and>
     rget (UserState u) r \<noteq> Some ''in_room''"

lemma startFindMatch_available:
  assumes "available env (rq_userId q) r" "get_attempt env (rq_requestId q) r = None"
  shows "startFindMatch env fuel q r =
     (case coalesceActiveSearchOrProposal env (rq_userId q) r of
        Some res \<Rightarrow> (Inr (Some res), r, [])
      | None \<Rightarrow> hbind (lock_wait env q (me_clock env 0 + START_SEARCH_LOCK_WAIT_MS) 0 fuel) (\<lambda>out.
          case out of
            StillWaiting \<Rightarrow> hret None
          | Got res \<Rightarrow> hret (Some res)
          | DeadlinePassed \<Rightarrow>
              hbind (hget (coalesceActiveSearchOrProposal env (rq_userId q))) (\<lambda>final.
                case final of
                  Some res \<Rightarrow> hret (Some res)
                | None \<Rightarrow> hbind (commitSearchingEnqueue env q) (\<lambda>x. hret (Some x)))) r)"
proof -
  obtain p where "getSnapshotWithHydration env (rq_userId q) r = (Inr (Some p), r, [])"
    using hydration_cached [of env "rq_userId q" r] assms(1) by (auto simp: available_def)
  note snap = run_quiet [where m = "getSnapshotWithHydration env (rq_userId q)", OF this]
  from assms show ?thesis
    by (simp add: snap startFindMatch_def handler_simps available_def split: option.split)
qed

lemma commit_cached:
  assumes "cached env (rq_userId q) r" "docs r' (Snapshot (rq_userId q)) = docs r (Snapshot (rq_userId q))"
  obtains idx where "commitSearchingEnqueue env q r' =
    (Inr (RSearching 1000 (rq_requestId q)), enqueue_job q (enqueue_with (rq_userId q) (me_now env) idx
       (setSearching (me_now env) (rq_requestId q) (rq_userId q) r')), [])"
proof -
  let ?s = "setSearching (me_now env) (rq_requestId q) (rq_userId q) r'"
  have "docs ?s (Snapshot (rq_userId q)) = docs r (Snapshot (rq_userId q))" using assms(2) by simp
  then obtain idx where "pool_enqueue env (rq_userId q) ?s = (Inr (), enqueue_with (rq_userId q) (me_now env) idx ?s, [])"
    using enqueue_cached [OF assms(1)] by blast
  then show ?thesis
    by (intro that) (simp add: commitSearchingEnqueue_def handler_defs searchingWithRequestId_def)
qed

lemma coalesce_core:
  "rget (UserLastAttempt u) r' = rget (UserLastAttempt u) r \<Longrightarrow> hashes r' = hashes r \<Longrightarrow>
   coalesceActiveSearchOrProposal env u r' = coalesceActiveSearchOrProposal env u r"
proof -
  assume "rget (UserLastAttempt u) r' = rget (UserLastAttempt u) r" "hashes r' = hashes r"
  moreover from this(2) have "get_attempt env i r' = get_attempt env i r" for i
    by (simp add: get_attempt_def getAttempt_def)
  ultimately show ?thesis by (simp add: coalesceActiveSearchOrProposal_def split: option.split)
qed

lemma start_fresh:
  assumes free: "available env u r" "get_attempt env i r = None" "coalesceActiveSearchOrProposal env u r = None"
    and lock: "rget (UserStartSearchLock u) r = None"
    and time: "me_clock env 1 < me_clock env 0 + START_SEARCH_LOCK_WAIT_MS"
  obtains idx where "startFindMatch env (Suc fuel) \<lparr>rq_userId = u, rq_requestId = i\<rparr> r =
    (Inr (Some (RSearching 1000 i)), rdel (UserStartSearchLock u)
       (enqueue_job \<lparr>rq_userId = u, rq_requestId = i\<rparr> (enqueue_with u (me_now env) idx
         (setSearching (me_now env) i u (rset_ex (UserStartSearchLock u) i START_SEARCH_LOCK_TTL_SEC r)))), [])"
proof -
  let ?q = "\<lparr>rq_userId = u, rq_requestId = i\<rparr>"
  let ?l = "rset_ex (UserStartSearchLock u) i START_SEARCH_LOCK_TTL_SEC r"
  have "docs ?l (Snapshot (rq_userId ?q)) = docs r (Snapshot (rq_userId ?q))" by (simp add: rset_ex_def)
  then obtain idx where c: "commitSearchingEnqueue env ?q ?l =
      (Inr (RSearching 1000 i), enqueue_job ?q (enqueue_with u (me_now env) idx
         (setSearching (me_now env) i u ?l)), [])"
    using commit_cached [of env ?q r ?l] free(1) by (auto simp: available_def)
  have acq: "tryAcquireStartSearchLock u i r = (True, ?l)"
    using lock by (simp add: tryAcquireStartSearchLock_def rset_nx_def rget_def)
  have again: "coalesceActiveSearchOrProposal env u ?l = None"
    using free(3) coalesce_core [of u ?l r env] by simp
  have held: "rget (UserStartSearchLock u) (enqueue_job ?q (enqueue_with u n idx (setSearching n i u ?l))) = Some i" for n
    by (simp add: attempt_write_defs)
  show ?thesis
    using that free time c acq again held
    by (simp add: startFindMatch_available handler_simps hfinally_def run_quiet releaseStartSearchLockIfHolder_def)
qed

subsection \<open>What a handler ends with\<close>

text \<open>\<open>hends m Q r\<close>: if \<open>m\<close> returns from \<open>r\<close>, then value and final state satisfy \<open>Q\<close>.\<close>

definition hends :: "'a handler \<Rightarrow> ('a \<Rightarrow> redis \<Rightarrow> bool) \<Rightarrow> redis \<Rightarrow> bool" where
  "hends m Q r \<longleftrightarrow> (\<forall>x. fst (m r) = Inr x \<longrightarrow> Q x (fst (snd (m r))))"

lemma hends_simps:
  "hends (hret x) Q r = Q x r"
  "hends (hget g) Qg r = Qg (g r) r"
  "hends (hstate h) Qh r = Qh (fst (h r)) (snd (h r))"
  "hends (hmod w) Q' r = Q' () (w r)"
  "hends (hemit wh) Q' r = Q' () r"
  "hends (hbind (hget g) fg) P r = hends (fg (g r)) P r"
  "hends (hbind (hstate h) fh) P r = hends (fh (fst (h r))) P (snd (h r))"
  "hends (hseq (hmod w) n) P r = hends n P (w r)"
  "hends (hseq (hemit wh) n) P r = hends n P r"
  "hends (hseq (hret ()) n) P r = hends n P r"
  "hends (hbind (hret y) fy) P r = hends (fy y) P r"
  "hends (hseq (if b then m1 else m2) n) P r = (if b then hends (hseq m1 n) P r else hends (hseq m2 n) P r)"
  by (simp_all add: hends_def handler_defs split: prod.split)

lemma hends_bind:
  assumes "hends m R r" "\<And>x r'. R x r' \<Longrightarrow> hends (f x) Q r'"
  shows "hends (hbind m f) Q r"
  unfolding hends_def
proof (intro allI impI)
  fix x assume f: "fst (hbind m f r) = Inr x"
  obtain res r' ws where m: "m r = (res, r', ws)" by (cases "m r")
  then obtain y where y: "res = Inr y" using f by (cases res) (simp_all add: hbind_def)
  then have "R y r'" using assms(1) m by (simp add: hends_def)
  then have "hends (f y) Q r'" by (rule assms(2))
  with f m y show "Q x (fst (snd (hbind m f r)))"
    by (simp add: hends_def hbind_def split: prod.splits)
qed

lemma hends_seq: "hends m R r \<Longrightarrow> (\<And>r'. R () r' \<Longrightarrow> hends n Q r') \<Longrightarrow> hends (hseq m n) Q r"
  unfolding hseq_def by (erule hends_bind) simp

lemma hends_mono: "hends m R r \<Longrightarrow> (\<And>x r'. R x r' \<Longrightarrow> Q x r') \<Longrightarrow> hends m Q r"
  by (simp add: hends_def)

lemma hends_True [simp]: "hends m (\<lambda>_ _. True) r"
  by (simp add: hends_def)

lemma hends_finally: "hends m (\<lambda>x r'. Q x (f r')) r \<Longrightarrow> hends (hfinally m f) Q r"
  by (cases "m r") (simp add: hends_def hfinally_def)

subsection \<open>The wait for the search lock\<close>

lemma clock_ticks:
  assumes "\<And>j. 1 \<le> j \<Longrightarrow> c j + START_SEARCH_LOCK_POLL_MS \<le> (c (Suc j) :: int)" "c 0 \<le> c 1"
  shows "c 0 + START_SEARCH_LOCK_POLL_MS * int k \<le> c (Suc k)"
proof (induction k)
  case (Suc k)
  then show ?case using assms(1) [of "Suc k"] by (simp add: START_SEARCH_LOCK_POLL_MS_def)
qed (use assms in simp)

lemma lock_wait_ends:
  assumes "\<And>j. 1 \<le> j \<Longrightarrow> me_clock env j + START_SEARCH_LOCK_POLL_MS \<le> me_clock env (Suc j)"
    and "me_clock env 0 \<le> me_clock env 1" and "i \<le> 120" "121 \<le> i + fuel"
  shows "hends (lock_wait env q (me_clock env 0 + START_SEARCH_LOCK_WAIT_MS) i fuel) (\<lambda>out _. out \<noteq> StillWaiting) r"
  using assms(3,4)
proof (induction fuel arbitrary: i r)
  case (Suc fuel)
  have "me_clock env 0 + START_SEARCH_LOCK_POLL_MS * int i \<le> me_clock env (Suc i)"
    by (rule clock_ticks) (use assms in auto)
  then have "i < 120" if "me_clock env (Suc i) < me_clock env 0 + START_SEARCH_LOCK_WAIT_MS"
    using that by (simp add: START_SEARCH_LOCK_POLL_MS_def START_SEARCH_LOCK_WAIT_MS_def)
  with Suc show ?case
    by (auto simp: hends_simps split: option.split intro!: hends_finally hends_bind [where R = "\<lambda>_ _. True"])
qed simp

definition time_passes :: "match_env \<Rightarrow> bool" where
  "time_passes env \<longleftrightarrow> me_clock env 0 \<le> me_clock env 1 \<and>
     (\<forall>j. 1 \<le> j \<longrightarrow> me_clock env j + START_SEARCH_LOCK_POLL_MS \<le> me_clock env (Suc j))"

lemma start_ends:
  assumes "time_passes env" "121 \<le> fuel"
  shows "hends (startFindMatch env fuel q) (\<lambda>x _. x \<noteq> None) r"
proof -
  have "hends (lock_wait env q (me_clock env 0 + START_SEARCH_LOCK_WAIT_MS) 0 fuel) (\<lambda>out _. out \<noteq> StillWaiting) r" for r
    by (rule lock_wait_ends) (use assms in \<open>simp_all add: time_passes_def\<close>)
  note wait = hends_bind [OF this]
  show ?thesis
    unfolding startFindMatch_def
    by (auto simp: hends_simps split: option.split wait_outcome.split
        intro!: hends_bind [where R = "\<lambda>_ _. True" and m = "getSnapshotWithHydration env u" for u]
          hends_bind [where R = "\<lambda>_ _. True" and m = "mark_no_match env q s" for s]
          hends_bind [where R = "\<lambda>_ _. True" and m = "commitSearchingEnqueue env q"] wait)
qed

text \<open>
  C23. Starting a search always answers. If time passes, each turn of the wait for the per-user lock
  lasting its 25 ms poll at least, then 121 turns outlast the 3 s deadline whatever other
  requests do to the store meanwhile: the handler never runs out of turns without an answer.
\<close>

theorem start_always_answers:
  assumes "time_passes env" "121 \<le> fuel"
  shows "fst (startFindMatch env fuel q r) \<noteq> Inr None"
  using start_ends [OF assms, of q r] by (auto simp: hends_def)

definition demo_env :: match_env where
  "demo_env = \<lparr>me_date_parse = (\<lambda>_. None), me_now = 1000, me_clock = (\<lambda>i. 1000 + 25 * int i),
     me_ensure = (\<lambda>u r. (True, Some (Json (JObj [(''userId'', JStr u)])))), me_others = (\<lambda>n r. r),
     me_jitter = (\<lambda>_. 0), me_guest_policy = GuestAndRegistered, me_mock_rooms = True,
     me_room_post = (\<lambda>_ _ _. HttpThrows)\<rparr>"

theorem start_always_answers_witness:
  "fst (startFindMatch demo_env 121 \<lparr>rq_userId = ''amy'', rq_requestId = ''a1''\<rparr> redis_empty) \<noteq> Inr None"
  by (rule start_always_answers) (simp_all add: time_passes_def demo_env_def START_SEARCH_LOCK_POLL_MS_def)

subsection \<open>Starting a search\<close>

text \<open>A store in which Amy's profile is cached and nothing else is.\<close>

definition idle_store :: redis where
  "idle_store = rset_doc (Snapshot ''amy'') (Json (JObj [(''userId'', JStr ''amy'')])) redis_empty"

lemma idle_available: "available demo_env ''amy'' idle_store"
  by (simp add: available_def cached_def idle_store_def getSnapshotByUserId_def redis_empty_def
      rset_doc_def rget_def)

lemma idle_reads:
  "get_attempt demo_env i idle_store = None" "coalesceActiveSearchOrProposal demo_env ''amy'' idle_store = None"
  "rget k idle_store = None"
  by (simp_all add: idle_store_def get_attempt_def getAttempt_def coalesceActiveSearchOrProposal_def
      redis_empty_def rget_def rset_doc_def)

text \<open>
  A fresh search is recorded everywhere it has to be: an available user with no live search gets
  the answer searching, and afterwards the attempt is a searching one and the user's latest,
  the user is searching and in the global pool, exactly one job was queued, and the per-user
  lock is free again.
\<close>

theorem start_enqueues:
  assumes "available env u r" "get_attempt env i r = None" "coalesceActiveSearchOrProposal env u r = None"
    and "rget (UserStartSearchLock u) r = None" "me_clock env 1 < me_clock env 0 + START_SEARCH_LOCK_WAIT_MS"
  shows "\<exists>r'. startFindMatch env (Suc fuel) \<lparr>rq_userId = u, rq_requestId = i\<rparr> r =
      (Inr (Some (RSearching 1000 i)), r', [])
    \<and> map_option (\<lambda>a. (at_userId a, at_status a)) (get_attempt env i r') = Some (u, Searching)
    \<and> rget (UserLastAttempt u) r' = Some i \<and> rget (UserState u) r' = Some ''searching''
    \<and> u \<in> zset_members (zsets r' PoolGlobal) \<and> rget (UserStartSearchLock u) r' = None
    \<and> queues r' MatchJobQueue = toQueuePayload \<lparr>rq_userId = u, rq_requestId = i\<rparr> # queues r MatchJobQueue"
proof -
  obtain idx where st: "startFindMatch env (Suc fuel) \<lparr>rq_userId = u, rq_requestId = i\<rparr> r =
    (Inr (Some (RSearching 1000 i)), rdel (UserStartSearchLock u)
       (enqueue_job \<lparr>rq_userId = u, rq_requestId = i\<rparr> (enqueue_with u (me_now env) idx
         (setSearching (me_now env) i u (rset_ex (UserStartSearchLock u) i START_SEARCH_LOCK_TTL_SEC r)))), [])"
    using start_fresh [OF assms] .
  show ?thesis
    unfolding st
    by (simp add: setSearching_def get_attempt_def getAttempt_def parseAttemptRecord_def parse_status_def
        update_conv' Let_def members_enqueue hset_fields_nonempty del: One_nat_def)
qed

theorem start_enqueues_witness:
  "\<exists>r'. startFindMatch demo_env (Suc 0) \<lparr>rq_userId = ''amy'', rq_requestId = ''a1''\<rparr> idle_store =
      (Inr (Some (RSearching 1000 ''a1'')), r', [])
    \<and> map_option (\<lambda>a. (at_userId a, at_status a)) (get_attempt demo_env ''a1'' r') = Some (''amy'', Searching)
    \<and> length (queues r' MatchJobQueue) = 1"
  using start_enqueues [OF idle_available idle_reads(1) idle_reads(2) idle_reads(3), where i = "''a1''" and fuel = 0]
  by (auto simp: demo_env_def START_SEARCH_LOCK_WAIT_MS_def idle_store_def redis_empty_def rset_doc_def)

text \<open>
  A second tab does not search twice: when the user's latest attempt is still searching, starting
  with any new request id answers with the running one's id and changes nothing in the
  store, so no second attempt and no second job appear.
\<close>

theorem start_coalesces:
  assumes "available env u r" "get_attempt env i r = None"
    and "rget (UserLastAttempt u) r = Some j" "j \<noteq> []"
    and "map_option at_status (get_attempt env j r) = Some Searching"
  shows "startFindMatch env fuel \<lparr>rq_userId = u, rq_requestId = i\<rparr> r = (Inr (Some (RSearching 1000 j)), r, [])"
proof -
  have "coalesceActiveSearchOrProposal env u r = Some (RSearching 1000 j)"
    using assms(3-5) by (auto simp: coalesceActiveSearchOrProposal_def searchingWithRequestId_def)
  with assms(1,2) show ?thesis by (simp add: startFindMatch_available)
qed

theorem start_coalesces_witness:
  "startFindMatch demo_env 5 \<lparr>rq_userId = ''amy'', rq_requestId = ''a2''\<rparr> (setSearching 7 ''a1'' ''amy'' idle_store) =
     (Inr (Some (RSearching 1000 ''a1'')), setSearching 7 ''a1'' ''amy'' idle_store, [])"
proof (rule start_coalesces)
  show "available demo_env ''amy'' (setSearching 7 ''a1'' ''amy'' idle_store)"
    using idle_available by (auto simp: available_def cached_def getSnapshotByUserId_def setSearching_def)
  show "get_attempt demo_env ''a2'' (setSearching 7 ''a1'' ''amy'' idle_store) = None"
    using idle_reads(1) by (simp add: get_attempt_def setSearching_def getAttempt_write_other)
  show "map_option at_status (get_attempt demo_env ''a1'' (setSearching 7 ''a1'' ''amy'' idle_store)) = Some Searching"
    by (simp add: get_attempt_def status_after_mark)
qed (simp_all add: setSearching_def)

subsection \<open>Every processed job is settled\<close>

definition status_of :: "match_env \<Rightarrow> string \<Rightarrow> redis \<Rightarrow> status option" where
  "status_of env i r = map_option at_status (get_attempt env i r)"

lemma status_of_marks [simp]:
  "status_of env i (markProposed n j u p s fb r) = (if i = j then Some Proposed else status_of env i r)"
  "status_of env i (markNoMatch n j u reason r) = (if i = j then Some NoMatch else status_of env i r)"
  "status_of env i (markMatched n j u p room s r) = (if i = j then Some Matched else status_of env i r)"
  by (simp_all add: status_of_def get_attempt_def status_after_mark del: map_option_eq_Some)
    (simp_all add: attempt_write_defs getAttempt_write_other)

lemma status_of_hashes:
  "hashes r' (AttemptKey i) = hashes r (AttemptKey i) \<Longrightarrow> status_of env i r' = status_of env i r"
  by (simp add: status_of_def get_attempt_def getAttempt_def)

lemma status_of_frame [simp]:
  "status_of env i (remove_user u r) = status_of env i r"
  "status_of env i (stripFromPool u r) = status_of env i r"
  "status_of env i (releasePair a b r) = status_of env i r"
  "status_of env i (rset_doc k d r) = status_of env i r"
  by (rule status_of_hashes; simp add: remove_user_def hashes_releasePair)+

definition settled :: "match_env \<Rightarrow> string \<Rightarrow> match_result \<Rightarrow> redis \<Rightarrow> bool" where
  "settled env i x r \<longleftrightarrow>
     (\<exists>v s fb. x = RProposed i v s fb \<and> status_of env i r = Some Proposed) \<or>
     (\<exists>reason. x = RNoMatch reason \<and> status_of env i r = Some NoMatch)"

lemma propose_settles:
  "j \<noteq> rq_requestId q \<Longrightarrow> hends (propose env q c j fb) (settled env (rq_requestId q)) r"
  unfolding propose_def Let_def by (simp add: hends_simps settled_def)

lemma truthy_the: "the x = i \<Longrightarrow> truthy x \<Longrightarrow> x = Some i"
  by (cases x) simp_all

lemma tryPair_settles:
  "hends (tryPairWithSortedCandidates env q fb cs)
     (\<lambda>x r'. \<forall>y. x = Some y \<longrightarrow> settled env (rq_requestId q) y r') r"
proof (induction cs arbitrary: r)
  case (Cons c cs)
  have P: "hends (hbind (propose env q c j fb) (\<lambda>res. hret (Some res)))
      (\<lambda>x r'. \<forall>y. x = Some y \<longrightarrow> settled env (rq_requestId q) y r') s" if "j \<noteq> rq_requestId q" for j s
    by (rule hends_bind [OF propose_settles [OF that]]) (simp add: hends_simps)
  then show ?case
    by (auto simp: hends_simps intro!: Cons.IH P dest: truthy_the split: option.split)
qed (simp add: hends_simps)

lemma retry_settles:
  "hends (retry_passes env q req strat i left found pool)
     (\<lambda>sc r'. \<forall>y. sn_result sc = Some y \<longrightarrow> settled env (rq_requestId q) y r') r"
proof (induction left arbitrary: i found pool r)
  case 0
  show ?case
    unfolding retry_passes.simps [of _ _ _ _ _ 0] Let_def
    by (auto simp: hends_simps split: option.split
        intro!: hends_bind [where R = "\<lambda>_ _. True" and m = "scorePoolCandidates env req m cs" for m cs]
          hends_bind [OF tryPair_settles])
next
  case (Suc left)
  show ?case
    unfolding retry_passes.simps [of _ _ _ _ _ "Suc left"] Let_def
    by (auto simp: hends_simps split: option.split intro!: Suc.IH
        hends_bind [where R = "\<lambda>_ _. True" and m = "scorePoolCandidates env req m cs" for m cs]
        hends_bind [OF tryPair_settles])
qed

lemma fallback_settles:
  "hends (tryFallbackMatch env q req strat) (\<lambda>x r'. \<forall>y. x = Some y \<longrightarrow> settled env (rq_requestId q) y r') r"
  unfolding tryFallbackMatch_def
  by (auto simp: hends_simps intro!: tryPair_settles
      hends_bind [where R = "\<lambda>_ _. True" and m = "scorePoolCandidates env req m cs" for m cs])

lemma mark_no_match_settles:
  "hends (hbind (mark_no_match env q reason) (\<lambda>x. hseq (hmod (remove_user u)) (hret x)))
     (settled env (rq_requestId q)) r"
  by (rule hends_bind [where R = "settled env (rq_requestId q)"])
    (auto simp: mark_no_match_def hends_simps settled_def)

lemma give_up_settles: "hends (give_up env q b) (settled env (rq_requestId q)) r"
  by (simp add: give_up_def Let_def hends_simps settled_def)

text \<open>Hydrating a profile touches no string key.\<close>

lemma snapshot_reads: "hends (get_snapshot env u) (\<lambda>_ r'. r' = r) r"
  by (simp add: hends_def get_snapshot_def handler_defs)

lemma hydration_state:
  "hends (getSnapshotWithHydration env u) (\<lambda>_ r'. rget k r' = rget k r) r"
proof -
  have e: "rget k (snd (requestEnsureProfileSnapshot env u r)) = rget k r" for r
    by (simp add: requestEnsureProfileSnapshot_def split: prod.split option.split)
  show ?thesis
    unfolding getSnapshotWithHydration_def
    by (auto simp: hends_simps e split: option.split
        intro!: hends_bind [OF snapshot_reads] hends_mono [OF snapshot_reads])
qed


subsection \<open>An empty pool\<close>

definition no_pool :: "redis \<Rightarrow> bool" where
  "no_pool r \<longleftrightarrow> (\<forall>k. zsets r k = [])"

lemma no_candidates: "no_pool r \<Longrightarrow> getCandidates r u req = []"
  by (simp add: no_pool_def getCandidates_def collectGlobalForeignFirst_def mergePrimaryThenGlobal_def
      collectFromZset_def zrevrangeWithScores_def rzrevrange_def filterCandidates_def Let_def
      split: distance_pref.split option.split)

definition alone :: "match_env \<Rightarrow> bool" where
  "alone env \<longleftrightarrow> (\<forall>n r. me_others env n r = r)"

lemma rank_nothing: "rank_for strat u [] r = []"
  by (simp add: rank_for_def orderCandidatesForStrategy_def rankCandidatesForPairing_def Let_def
      sortScoredCandidatesDescending_def partitionDeprioritizedCandidates_def)

lemma retry_no_pool:
  "no_pool r \<Longrightarrow> alone env \<Longrightarrow> retry_passes env q req strat i left found pool r =
     (Inr \<lparr>sn_result = None, sn_foundEligible = found, sn_poolHadOthers = pool\<rparr>, r, [])"
proof (induction left arbitrary: i)
  case 0
  then show ?case
    unfolding retry_passes.simps [of _ _ _ _ _ 0]
    by (simp add: handler_simps no_candidates rank_nothing)
next
  case (Suc left)
  then show ?case
    unfolding retry_passes.simps [of _ _ _ _ _ "Suc left"]
    by (simp add: handler_simps no_candidates rank_nothing alone_def)
qed

lemma process_no_pool:
  assumes "available env (rq_userId q) r" "get_attempt env (rq_requestId q) r = Some a" "at_status a = Searching"
    and "no_pool r" "alone env"
  shows "\<exists>r'. processMatchRequest env q r =
    (Inr (RNoMatch ''pool_empty''), r', [WMatchFailed (rq_requestId q) (rq_userId q) ''pool_empty''])"
proof -
  obtain p where h: "getSnapshotWithHydration env (rq_userId q) r = (Inr (Some p), r, [])"
    using hydration_cached [of env "rq_userId q" r] assms(1) by (auto simp: available_def)
  have retry: "retry_passes env q p strat 0 n False False r =
      (Inr \<lparr>sn_result = None, sn_foundEligible = False, sn_poolHadOthers = False\<rparr>, r, [])" for strat n
    by (rule retry_no_pool [OF assms(4,5)])
  have fb: "tryFallbackMatch env q p strat r = (Inr None, r, [])" for strat
    by (simp add: tryFallbackMatch_def handler_simps no_candidates [OF assms(4)])
  from assms(1-3) show ?thesis
    by (simp add: processMatchRequest_def handler_simps run_quiet h retry fb available_def give_up_def Let_def)
      (simp add: handler_defs)
qed

definition lonely_store :: redis where
  "lonely_store = setSearching 7 ''a1'' ''amy'' idle_store"

lemma lonely_available: "available demo_env ''amy'' lonely_store"
  using idle_available by (auto simp: lonely_store_def available_def cached_def getSnapshotByUserId_def setSearching_def)

lemma lonely_status: "status_of demo_env ''a1'' lonely_store = Some Searching"
  by (simp add: status_of_def get_attempt_def lonely_store_def status_after_mark del: map_option_eq_Some)


end
