(* ===== verification/MatchInvariant.thy ===== *)
theory MatchInvariant
  imports MatchSearch
begin

text \<open>
  What every interleaving of the orchestrator's handlers keeps. \<open>mm_steps\<close> is the step
  relation of the service: its handlers, its worker, expiries, and the main API's writes to the
  keys it owns, in any order; while a handler sleeps, the others may make any such steps.
  \<open>core_invariant\<close> is the interface of an invariant over the attempts, the proposals,
  the latest-attempt pointers and the job queue: it is shown once that all handlers keep it.
\<close>

subsection \<open>Ownership\<close>

text \<open>
  Request ids are the client's: \<open>own\<close> says which user makes each. An attempt's hash is sound when
  it names its own id and owner, and its status comes with the fields the answer needs.
\<close>

definition owns :: "(string \<Rightarrow> uid) \<Rightarrow> string \<Rightarrow> uid \<Rightarrow> bool" where
  "owns own i u \<longleftrightarrow> own i = u \<and> u \<noteq> []"

definition attempt_ok :: "(string \<Rightarrow> uid) \<Rightarrow> string \<Rightarrow> hash \<Rightarrow> bool" where
  "attempt_ok own i h \<longleftrightarrow>
     (let f = map_of h in
      f ''attemptId'' = Some i \<and> own i \<noteq> [] \<and> f ''userId'' = Some (own i) \<and>
      (f ''status'' = Some ''searching'' \<or> f ''status'' = Some ''no_match'' \<or>
       (f ''status'' = Some ''proposed'' \<and> truthy (f ''peerUserId'')) \<or>
       (f ''status'' = Some ''matched'' \<and> truthy (f ''peerUserId'') \<and> truthy (f ''roomId''))))"

definition pending_ok :: "(string \<Rightarrow> uid) \<Rightarrow> uid \<Rightarrow> uid \<Rightarrow> hash \<Rightarrow> bool" where
  "pending_ok own low high h \<longleftrightarrow>
     (let f = map_of h in
      truthy (f ''userLow'') \<longrightarrow> truthy (f ''userHigh'') \<longrightarrow>
      truthy (f ''attemptLow'') \<longrightarrow> truthy (f ''attemptHigh'') \<longrightarrow>
      f ''userLow'' = Some low \<and> f ''userHigh'' = Some high \<and>
      owns own (the (f ''attemptLow'')) low \<and> owns own (the (f ''attemptHigh'')) high)"

definition job_ok :: "(string \<Rightarrow> uid) \<Rightarrow> doc \<Rightarrow> bool" where
  "job_ok own d \<longleftrightarrow>
     (case parseQueuePayload d of None \<Rightarrow> True | Some q \<Rightarrow> owns own (rq_requestId q) (rq_userId q))"

definition owned :: "(string \<Rightarrow> uid) \<Rightarrow> redis \<Rightarrow> bool" where
  "owned own r \<longleftrightarrow>
     (\<forall>i. hashes r (AttemptKey i) \<noteq> [] \<longrightarrow> attempt_ok own i (hashes r (AttemptKey i))) \<and>
     (\<forall>u i. rget (UserLastAttempt u) r = Some i \<longrightarrow> owns own i u) \<and>
     (\<forall>a b. pending_ok own a b (hashes r (PairPending a b))) \<and>
     (\<forall>d\<in>set (queues r MatchJobQueue). job_ok own d)"

lemma ownedI:
  "(\<And>i. hashes r (AttemptKey i) \<noteq> [] \<Longrightarrow> attempt_ok own i (hashes r (AttemptKey i))) \<Longrightarrow>
   (\<And>u i. rget (UserLastAttempt u) r = Some i \<Longrightarrow> owns own i u) \<Longrightarrow>
   (\<And>a b. pending_ok own a b (hashes r (PairPending a b))) \<Longrightarrow>
   (\<And>d. d \<in> set (queues r MatchJobQueue) \<Longrightarrow> job_ok own d) \<Longrightarrow> owned own r"
  by (simp add: owned_def)

lemma ownedD:
  assumes "owned own r"
  shows "hashes r (AttemptKey i) \<noteq> [] \<Longrightarrow> attempt_ok own i (hashes r (AttemptKey i))"
    and "rget (UserLastAttempt u) r = Some i \<Longrightarrow> owns own i u"
    and "pending_ok own a b (hashes r (PairPending a b))"
    and "d \<in> set (queues r MatchJobQueue) \<Longrightarrow> job_ok own d"
  using assms by (simp_all add: owned_def)

text \<open>A request the HTTP layer lets through: trimmed non-empty ids, and the user's own request id.\<close>

definition request_ok :: "(string \<Rightarrow> uid) \<Rightarrow> request \<Rightarrow> bool" where
  "request_ok own q \<longleftrightarrow>
     owns own (rq_requestId q) (rq_userId q) \<and> js_trim (rq_userId q) = rq_userId q
     \<and> js_trim (rq_requestId q) = rq_requestId q \<and> rq_requestId q \<noteq> []"

text \<open>What a handler writes to an attempt is sound whatever the hash held before.\<close>

definition sound_fields :: "(string \<Rightarrow> uid) \<Rightarrow> string \<Rightarrow> (string \<times> string) list \<Rightarrow> bool" where
  "sound_fields own i fs \<longleftrightarrow> fs \<noteq> [] \<and> (\<forall>h. attempt_ok own i (hset_fields fs h))"

definition plain_fields :: "(string \<times> string) list \<Rightarrow> bool" where
  "plain_fields fs \<longleftrightarrow> (\<exists>s. map_of (rev fs) ''status'' = Some s \<and> s \<noteq> ''matched'')"

subsection \<open>The part of the store the invariants read\<close>

definition core :: "redis \<Rightarrow> (string \<Rightarrow> hash) \<times> (uid \<Rightarrow> uid \<Rightarrow> hash) \<times> (uid \<Rightarrow> string option) \<times> doc list" where
  "core r = (\<lambda>i. hashes r (AttemptKey i), \<lambda>a b. hashes r (PairPending a b),
     \<lambda>u. rget (UserLastAttempt u) r, queues r MatchJobQueue)"

lemma core_eqI:
  assumes "\<And>i. hashes r' (AttemptKey i) = hashes r (AttemptKey i)"
    and "\<And>a b. hashes r' (PairPending a b) = hashes r (PairPending a b)"
    and "\<And>u. rget (UserLastAttempt u) r' = rget (UserLastAttempt u) r"
    and "queues r' MatchJobQueue = queues r MatchJobQueue"
  shows "core r' = core r"
  using assms by (simp add: core_def)

lemma pair_key_neq_core [simp]:
  "pair_lock_key a b \<noteq> PairPending c d" "PairPending c d \<noteq> pair_lock_key a b"
  "pair_lock_key a b \<noteq> MatchJobQueue" "MatchJobQueue \<noteq> pair_lock_key a b"
  "pair_finalize_key a b \<noteq> PairPending c d" "PairPending c d \<noteq> pair_finalize_key a b"
  "pair_finalize_key a b \<noteq> AttemptKey i" "AttemptKey i \<noteq> pair_finalize_key a b"
  "pair_finalize_key a b \<noteq> UserLastAttempt u" "UserLastAttempt u \<noteq> pair_finalize_key a b"
  "pair_finalize_key a b \<noteq> MatchJobQueue" "MatchJobQueue \<noteq> pair_finalize_key a b"
  "pair_pending_key a b \<noteq> AttemptKey i" "AttemptKey i \<noteq> pair_pending_key a b"
  "pair_pending_key a b \<noteq> UserLastAttempt u" "UserLastAttempt u \<noteq> pair_pending_key a b"
  "pair_pending_key a b \<noteq> MatchJobQueue" "MatchJobQueue \<noteq> pair_pending_key a b"
  "pair_pending_key a b \<noteq> pair_finalize_key c d" "pair_finalize_key c d \<noteq> pair_pending_key a b"
  by (simp_all add: pair_lock_key_def pair_finalize_key_def pair_pending_key_def)

lemma core_strip [simp]: "core (stripFromPool u r) = core r"
  by (rule core_eqI) simp_all

lemma core_remove [simp]: "core (remove_user u r) = core r"
  by (rule core_eqI) (simp_all add: remove_user_def)

lemma core_enqueue_with [simp]: "core (enqueue_with u n idx r) = core r"
  by (rule core_eqI) simp_all

lemma core_enqueue: "enqueue dp n u r = Inr r' \<Longrightarrow> core r' = core r"
  by (auto simp: enqueue_def split: sum.splits)

lemma core_release [simp]: "core (releasePair a b r) = core r"
  by (rule core_eqI) (simp_all add: hashes_releasePair queues_releasePair rget_releasePair)

lemma core_lock [simp]: "core (snd (tryLockPair a b i t r)) = core r"
proof (cases "a = b")
  case True
  then show ?thesis
    by (auto simp: tryLockPair_def orderedUserIds_def lockPair_script_same intro!: core_eqI)
next
  case False
  show ?thesis
  proof (cases "fst (tryLockPair a b i t r)")
    case True
    then show ?thesis
      by (intro core_eqI) (simp_all add: tryLockPair_frame [OF \<open>a \<noteq> b\<close>] tryLockPair_success)
  next
    case no: False
    then show ?thesis using tryLockPair_failure [OF \<open>a \<noteq> b\<close>] by simp
  qed
qed

lemma core_simple_writes [simp]:
  "core (recordSkip a b r) = core r"
  "core (recordMatchedPair a b r) = core r"
  "core (markPairInRoom a b r) = core r"
  "core (rset_doc (Snapshot u) d r) = core r"
  "core (rdel (UserState u) (rdel (UserLock u) r)) = core r"
  "core (snd (tryAcquireStartSearchLock u i r)) = core r"
  "core (releaseStartSearchLockIfHolder u i r) = core r"
  by (rule core_eqI; simp add: recordSkip_def recordMatchedPair_def markPairInRoom_def Let_def
      tryAcquireStartSearchLock_def rset_nx_def releaseStartSearchLockIfHolder_def)+

lemma core_ensure [simp]: "core (snd (requestEnsureProfileSnapshot env u r)) = core r"
  by (simp add: requestEnsureProfileSnapshot_def split: prod.split option.split)

lemma owned_core: "core r' = core r \<Longrightarrow> owned own r \<Longrightarrow> owned own r'"
  by (simp add: owned_def core_def fun_eq_iff)

text \<open>What each write of an attempt puts in the hash.\<close>

lemma sound_fields_marks:
  "owns own i u \<Longrightarrow> sound_fields own i [(''attemptId'', i), (''userId'', u), (''status'', ''searching''),
     (''createdAt'', c), (''updatedAt'', n)]"
  "owns own i u \<Longrightarrow> p \<noteq> [] \<Longrightarrow> sound_fields own i [(''attemptId'', i), (''userId'', u), (''status'', ''proposed''),
     (''peerUserId'', p), (''matchScore'', s), (''isFallbackMatch'', fb), (''updatedAt'', n)]"
  "owns own i u \<Longrightarrow> p \<noteq> [] \<Longrightarrow> room \<noteq> [] \<Longrightarrow>
     sound_fields own i [(''attemptId'', i), (''userId'', u), (''status'', ''matched''),
     (''peerUserId'', p), (''matchScore'', s), (''roomId'', room), (''updatedAt'', n)]"
  "owns own i u \<Longrightarrow> sound_fields own i [(''attemptId'', i), (''userId'', u), (''status'', ''no_match''),
     (''reason'', reason), (''updatedAt'', n)]"
  by (auto simp: owns_def sound_fields_def attempt_ok_def Let_def update_conv')

text \<open>What an owned store answers.\<close>

lemma owned_attempt:
  assumes "owned own r" "get_attempt env i r = Some a"
  shows "owns own i (at_userId a)" "at_attemptId a = i"
    and "at_status a \<in> {Proposed, Matched} \<Longrightarrow> truthy (at_peerUserId a)"
    and "at_status a = Matched \<Longrightarrow> truthy (at_roomId a)"
  using assms by (auto simp: owned_def owns_def get_attempt_def getAttempt_def parseAttemptRecord_def attempt_ok_def
      Let_def parse_status_def split: if_splits)

lemma owned_last: "owned own r \<Longrightarrow> rget (UserLastAttempt u) r = Some i \<Longrightarrow> owns own i u"
  by (simp add: owned_def)

lemma owned_pending:
  assumes "owned own r" "readPending u v r = Some p"
  shows "(pd_userLow p, pd_userHigh p) = orderedUserIds u v"
    and "owns own (pd_attemptLow p) (pd_userLow p)" "owns own (pd_attemptHigh p) (pd_userHigh p)"
proof -
  obtain low high where lh: "orderedUserIds u v = (low, high)" by (cases "orderedUserIds u v")
  then have key: "pair_pending_key low high = PairPending low high"
    by (auto simp: orderedUserIds_def pair_pending_key_def split: if_splits)
  have "pending_ok own low high (hashes r (PairPending low high))"
    using assms(1) by (simp add: owned_def)
  with assms(2) show "(pd_userLow p, pd_userHigh p) = orderedUserIds u v"
    "owns own (pd_attemptLow p) (pd_userLow p)" "owns own (pd_attemptHigh p) (pd_userHigh p)"
    by (auto simp: readPending_def lh key pending_ok_def Let_def split: if_splits)
qed

lemma owned_job: "owned own r \<Longrightarrow> dequeue_job r = (Some q, r') \<Longrightarrow> owns own (rq_requestId q) (rq_userId q)"
  by (auto simp: owned_def dequeue_job_def brpop_def job_ok_def split: if_splits option.splits)

lemma recordConnect_code: "fst (recordConnect u v w r) \<in> {0, 1, 2}"
  by (auto simp: recordConnect_def recordProposalConnect_script_def Let_def split: prod.splits)

lemma room_id_nonempty: "createRoom mock post i u v = RoomOk room \<Longrightarrow> room \<noteq> []"
  by (auto simp: createRoom_def room_id_of_def nonempty_string_def nullish_def
      split: if_splits http_reply.splits option.splits json.splits)

definition own_proposal :: "(string \<Rightarrow> uid) \<Rightarrow> pending \<Rightarrow> bool" where
  "own_proposal own p \<longleftrightarrow> owns own (pd_attemptLow p) (pd_userLow p) \<and> owns own (pd_attemptHigh p) (pd_userHigh p)"

subsection \<open>The interface of an invariant\<close>

subsection \<open>The steps of the service\<close>

text \<open>
  \<open>mm_steps own C r r'\<close>: the service gets from \<open>r\<close> to \<open>r'\<close>, every request made by the
  user \<open>own\<close> gives its id, and only users of \<open>C\<close> answer a proposal with connect.
\<close>

inductive mm_steps :: "(string \<Rightarrow> uid) \<Rightarrow> uid set \<Rightarrow> redis \<Rightarrow> redis \<Rightarrow> bool" for own C where
  none: "mm_steps own C r r"
| start: "mm_steps own C r s \<Longrightarrow> request_ok own q \<Longrightarrow> (\<And>n t. mm_steps own C t (me_others env n t)) \<Longrightarrow>
    mm_steps own C r (hfinal_state (startFindMatch env fuel q) s)"
| work: "mm_steps own C r s \<Longrightarrow> (\<And>n t. mm_steps own C t (me_others env n t)) \<Longrightarrow>
    mm_steps own C r (worker_turn env s)"
| respond: "mm_steps own C r s \<Longrightarrow> d = Skip \<or> u \<in> C \<Longrightarrow>
    mm_steps own C r (hfinal_state (respondToMatchProposal env u i d) s)"
| leave: "mm_steps own C r s \<Longrightarrow> mm_steps own C r (hfinal_state (leaveRoom env u) s)"
| cancel: "mm_steps own C r s \<Longrightarrow> mm_steps own C r (hfinal_state (cancelMatch env u) s)"
| expire: "mm_steps own C r s \<Longrightarrow> mm_steps own C r (expire_key k s)"
| profile: "mm_steps own C r s \<Longrightarrow> mm_steps own C r (rset_doc (Snapshot u) d s)"
| peers: "mm_steps own C r s \<Longrightarrow> k \<in> {BlocksOutgoing u, BlocksIncoming u, UserConnectionPeers u} \<Longrightarrow>
    mm_steps own C r (s\<lparr>rsets := (rsets s)(k := m)\<rparr>)"

lemma core_rsets [simp]: "core (s\<lparr>rsets := m\<rparr>) = core s"
  by (rule core_eqI) (simp_all add: rget_def)

text \<open>A handler that sleeps is sound when what the others do meanwhile keeps the invariant.\<close>

definition patient :: "(redis \<Rightarrow> bool) \<Rightarrow> match_env \<Rightarrow> bool" where
  "patient I env \<longleftrightarrow> (\<forall>n r. I r \<longrightarrow> I (me_others env n r))"

locale core_invariant =
  fixes own :: "string \<Rightarrow> uid"
    and I :: "redis \<Rightarrow> bool"
    and may_connect :: "uid \<Rightarrow> bool"
    and may_match :: "uid \<Rightarrow> bool"
  assumes own_inv: "I r \<Longrightarrow> owned own r"
    and core_cong: "core r' = core r \<Longrightarrow> I r \<Longrightarrow> I r'"
    and mark: "I r \<Longrightarrow> owns own i u \<Longrightarrow> sound_fields own i fs \<Longrightarrow> plain_fields fs \<or> may_match u \<Longrightarrow>
      I (write_attempt i u fs r)"
    and propose_pending: "I r \<Longrightarrow> owns own (pd_attemptLow p) (pd_userLow p) \<Longrightarrow>
      owns own (pd_attemptHigh p) (pd_userHigh p) \<Longrightarrow> pd_userLow p \<le> pd_userHigh p \<Longrightarrow> I (writePending p r)"
    and drop_pending: "I r \<Longrightarrow> I (deletePending a b r)"
    and connect: "I r \<Longrightarrow> may_connect u \<Longrightarrow> I (snd (recordConnect u v u r))"
    and both_connected: "I r \<Longrightarrow> may_connect u \<Longrightarrow> fst (recordConnect u v u r) = 2 \<Longrightarrow> may_match u \<and> may_match v"
    and push_job: "I r \<Longrightarrow> request_ok own q \<Longrightarrow> I (enqueue_job q r)"
    and pop_job: "I r \<Longrightarrow> I (snd (dequeue_job r))"
    and drop_key: "I r \<Longrightarrow> I (expire_key k r)"
begin

lemma marks:
  "I r \<Longrightarrow> owns own i u \<Longrightarrow> I (setSearching n i u r)"
  "I r \<Longrightarrow> owns own i u \<Longrightarrow> p \<noteq> [] \<Longrightarrow> I (markProposed n i u p s fb r)"
  "I r \<Longrightarrow> owns own i u \<Longrightarrow> may_match u \<Longrightarrow> p \<noteq> [] \<Longrightarrow> room \<noteq> [] \<Longrightarrow> I (markMatched n i u p room s r)"
  "I r \<Longrightarrow> owns own i u \<Longrightarrow> I (markNoMatch n i u reason r)"
  by (auto simp: attempt_write_defs plain_fields_def intro!: mark sound_fields_marks)

lemma frame: "(\<And>r. core (f r) = core r) \<Longrightarrow> hvalid I (hmod f) (\<lambda>_. True)"
  by (blast intro: hvalid_mod core_cong)

lemma frame_state: "(\<And>r. core (snd (f r)) = core r) \<Longrightarrow> hvalid I (hstate f) (\<lambda>_. True)"
  by (blast intro: hvalid_state core_cong)

lemma attempt_owner: "get_attempt env i r = Some a \<Longrightarrow> I r \<Longrightarrow> at_userId a = u \<Longrightarrow> owns own i u"
  using owned_attempt(1) [OF own_inv] by metis

lemma last_owner: "I r \<Longrightarrow> truthy (rget (UserLastAttempt u) r) \<Longrightarrow> owns own (the (rget (UserLastAttempt u) r)) u"
  using owned_last [OF own_inv] by (cases "rget (UserLastAttempt u) r") auto

lemma snapshot_valid: "hvalid I (get_snapshot env u) (\<lambda>_. True)"
  unfolding get_snapshot_def by (rule hvalid_result) simp

lemma hydration_valid: "hvalid I (getSnapshotWithHydration env u) (\<lambda>_. True)"
  unfolding getSnapshotWithHydration_def
  by (rule hvalid_bind [OF snapshot_valid])
    (auto split: option.split intro!: hvalid_ret hvalid_bind [OF frame_state] snapshot_valid)

lemma score_valid: "hvalid I (score_candidate env req mode c) (\<lambda>_. True)"
  unfolding score_candidate_def
  by (auto simp: Let_def split: option.split
      intro!: hvalid_get_bind hvalid_ret hvalid_bind [OF hydration_valid])

lemma scores_valid: "hvalid I (scorePoolCandidates env req mode cs) (\<lambda>_. True)"
  by (induction cs)
    (auto intro!: hvalid_ret hvalid_bind [OF score_valid] elim!: hvalid_bind)

lemma no_match_valid:
  "owns own (rq_requestId q) (rq_userId q) \<Longrightarrow> hvalid I (mark_no_match env q reason) (\<lambda>_. True)"
  unfolding mark_no_match_def by (auto intro!: hvalid_seq hvalid_mod hvalid_ret marks)

lemma enqueue_valid: "hvalid I (pool_enqueue env u) (\<lambda>_. True)"
  unfolding hvalid_def pool_enqueue_def
  by (auto split: sum.split dest!: core_enqueue intro: core_cong)

lemma commit_valid: "request_ok own q \<Longrightarrow> hvalid I (commitSearchingEnqueue env q) (\<lambda>_. True)"
  unfolding commitSearchingEnqueue_def
  by (auto simp: request_ok_def intro!: hvalid_seq hvalid_mod enqueue_valid hvalid_ret marks push_job)

lemma propose_valid:
  assumes "owns own (rq_requestId q) (rq_userId q)" "owns own j (sc_userId c)"
  shows "hvalid I (propose env q c j fb) (\<lambda>_. True)"
proof -
  have ne: "rq_userId q \<noteq> []" "sc_userId c \<noteq> []" using assms by (simp_all add: owns_def)
  show ?thesis
    unfolding propose_def Let_def using assms ne
    by (intro hvalid_seq hvalid_mod hvalid_emit hvalid_ret marks propose_pending)
      (auto simp: not_le less_imp_le)
qed

lemma tryPair_valid:
  assumes "owns own (rq_requestId q) (rq_userId q)"
  shows "hvalid I (tryPairWithSortedCandidates env q fb cs) (\<lambda>_. True)"
proof (induction cs)
  case Nil
  then show ?case by (simp add: hvalid_ret)
next
  case (Cons c cs)
  show ?case
    unfolding tryPairWithSortedCandidates.simps
    by (rule hvalid_bind [OF frame_state], simp,
        auto intro!: Cons.IH hvalid_get_bind hvalid_seq hvalid_ret frame
          hvalid_bind [OF propose_valid [OF assms]]) (erule (2) attempt_owner)
qed

lemma fallback_valid:
  "owns own (rq_requestId q) (rq_userId q) \<Longrightarrow> hvalid I (tryFallbackMatch env q req strat) (\<lambda>_. True)"
  unfolding tryFallbackMatch_def
  by (auto intro!: hvalid_get_bind hvalid_bind [OF scores_valid] hvalid_ret tryPair_valid)

lemma give_up_valid:
  "owns own (rq_requestId q) (rq_userId q) \<Longrightarrow> hvalid I (give_up env q b) (\<lambda>_. True)"
  unfolding give_up_def Let_def
  by (auto intro!: hvalid_seq hvalid_mod hvalid_emit hvalid_ret marks core_cong [OF core_remove])

lemma others_valid: "patient I env \<Longrightarrow> hvalid I (hmod (me_others env n)) (\<lambda>_. True)"
  by (rule hvalid_mod) (simp add: patient_def)

lemma retry_valid:
  assumes "owns own (rq_requestId q) (rq_userId q)" "patient I env"
  shows "hvalid I (retry_passes env q req strat i left found pool) (\<lambda>_. True)"
proof (induction left arbitrary: i found pool)
  case 0
  show ?case
    unfolding retry_passes.simps [of _ _ _ _ _ 0] Let_def
    by (auto split: option.split intro!: hvalid_get_bind hvalid_bind [OF scores_valid]
        hvalid_bind [OF tryPair_valid [OF assms(1)]] hvalid_ret)
next
  case (Suc left)
  show ?case
    unfolding retry_passes.simps [of _ _ _ _ _ "Suc left"] Let_def
    by (auto split: option.split intro!: hvalid_get_bind hvalid_bind [OF scores_valid] Suc.IH
        hvalid_bind [OF tryPair_valid [OF assms(1)]] hvalid_ret hvalid_seq others_valid assms(2))
qed

lemma process_valid:
  assumes "owns own (rq_requestId q) (rq_userId q)" "patient I env"
  shows "hvalid I (processMatchRequest env q) (\<lambda>_. True)"
  unfolding processMatchRequest_def Let_def
  by (auto split: option.split intro!: hvalid_get_bind hvalid_ret hvalid_bind [OF hydration_valid]
      hvalid_bind [OF no_match_valid] hvalid_seq frame hvalid_bind [OF retry_valid]
      hvalid_bind [OF fallback_valid] hvalid_bind [OF hvalid_ret] give_up_valid assms)

lemma worker_keeps: "patient I env \<Longrightarrow> I r \<Longrightarrow> I (worker_turn env r)"
  using pop_job [of r] owned_job [OF own_inv]
  by (auto simp: worker_turn_def split: prod.split option.split
      intro!: hvalid_final [OF process_valid])

lemma lock_wait_valid:
  assumes "request_ok own q" "patient I env"
  shows "hvalid I (lock_wait env q deadline i fuel) (\<lambda>_. True)"
proof (induction fuel arbitrary: i)
  case 0
  then show ?case by (simp add: hvalid_ret)
next
  case (Suc fuel)
  show ?case
    unfolding lock_wait.simps
    by (auto split: option.split intro!: hvalid_get_bind hvalid_ret hvalid_bind [OF frame_state]
        hvalid_finally hvalid_bind [OF commit_valid] hvalid_seq others_valid Suc.IH assms
        core_cong [OF core_simple_writes(7)])
qed

lemma start_valid:
  assumes "request_ok own q" "patient I env"
  shows "hvalid I (startFindMatch env fuel q) (\<lambda>_. True)"
proof -
  have own: "owns own (rq_requestId q) (rq_userId q)" using assms(1) by (simp add: request_ok_def)
  show ?thesis
    unfolding startFindMatch_def
    by (auto split: option.split wait_outcome.split intro!: hvalid_get_bind hvalid_ret
        hvalid_bind [OF hydration_valid] hvalid_bind [OF no_match_valid] hvalid_bind [OF lock_wait_valid]
        hvalid_bind [OF commit_valid] own assms)
qed

lemma teardown_valid:
  "own_proposal own p \<Longrightarrow> hvalid I (teardownProposal env p skip rl rh) (\<lambda>_. True)"
  unfolding teardownProposal_def own_proposal_def
  by (auto intro!: hvalid_seq hvalid_mod marks drop_pending hvalid_ret core_cong [OF core_release]
      core_cong [OF core_simple_writes(1)])

lemma notify_valid: "hvalid I (notify_cancelled p rl rh) (\<lambda>_. True)"
  unfolding notify_cancelled_def by (intro hvalid_seq hvalid_emit)

lemma skip_valid: "own_proposal own p \<Longrightarrow> hvalid I (skip_proposal env u p) (\<lambda>_. True)"
  unfolding skip_proposal_def Let_def
  by (intro hvalid_seq teardown_valid notify_valid hvalid_ret) simp_all

lemma room_failed_valid: "own_proposal own p \<Longrightarrow> hvalid I (room_failed env p) (\<lambda>_. True)"
  unfolding room_failed_def own_proposal_def
  by (auto intro!: hvalid_seq hvalid_mod marks drop_pending notify_valid hvalid_ret core_cong [OF core_release])

lemma room_ready_valid:
  assumes "own_proposal own p" "may_match (pd_userLow p)" "may_match (pd_userHigh p)" "room \<noteq> []"
  shows "hvalid I (room_ready env p room) (\<lambda>_. True)"
proof -
  have "pd_userLow p \<noteq> []" "pd_userHigh p \<noteq> []"
    using assms(1) by (simp_all add: own_proposal_def owns_def)
  with assms show ?thesis
    unfolding room_ready_def own_proposal_def
    by (auto intro!: hvalid_seq hvalid_mod marks drop_pending hvalid_emit hvalid_ret
        core_cong [OF core_simple_writes(2)] core_cong [OF core_simple_writes(3)])
qed

lemma connect_valid:
  assumes "own_proposal own p" "may_connect u" "(pd_userLow p, pd_userHigh p) = orderedUserIds u v"
  shows "hvalid I (connect_proposal env u v p) (\<lambda>_. True)"
  unfolding connect_proposal_def
proof (rule hvalid_bind)
  show "hvalid I (hstate (recordConnect u v u)) (\<lambda>rc. rc \<in> {0, 1} \<or> may_match u \<and> may_match v)"
    using recordConnect_code [of u v u] both_connected assms(2)
    by (intro hvalid_state conjI connect) blast+
next
  fix rc assume "rc \<in> {0, 1} \<or> may_match u \<and> may_match v"
  then have "rc = 0 \<or> rc = 1 \<or> may_match (pd_userLow p) \<and> may_match (pd_userHigh p)"
    using assms(3) by (auto simp: orderedUserIds_def split: if_splits)
  then show "hvalid I (if rc = 0 \<or> rc = 1 then hret RespOk
       else case createRoom (me_mock_rooms env) (me_room_post env) (pd_roomAttemptId p)
                   (pd_userLow p) (pd_userHigh p) of
              RoomFailed _ \<Rightarrow> room_failed env p
            | RoomOk roomId \<Rightarrow> room_ready env p roomId) (\<lambda>_. True)"
    using assms(1)
    by (auto split: room_result.split intro!: hvalid_ret room_failed_valid room_ready_valid
        dest: room_id_nonempty)
qed

lemma pending_owner:
  "readPending u v r = Some p \<Longrightarrow> I r \<Longrightarrow> own_proposal own p \<and> (pd_userLow p, pd_userHigh p) = orderedUserIds u v"
  using owned_pending [OF own_inv] by (simp add: own_proposal_def)

lemma respond_valid:
  assumes "d = Skip \<or> may_connect u"
  shows "hvalid I (respondToMatchProposal env u i d) (\<lambda>_. True)"
  unfolding respondToMatchProposal_def Let_def
  using assms pending_owner
  by (auto split: option.split intro!: hvalid_get_bind hvalid_ret skip_valid connect_valid)

lemma leave_valid: "hvalid I (leaveRoom env u) (\<lambda>_. True)"
  unfolding leaveRoom_def
  by (auto intro!: hvalid_get_bind hvalid_seq hvalid_ret hvalid_mod marks last_owner
      core_cong [OF core_strip] core_cong [OF core_simple_writes(5)])

lemma cancel_valid: "hvalid I (cancelMatch env u) (\<lambda>_. True)"
proof -
  have pend: "hvalid I (if map_option at_status attempt = Some Proposed \<and> truthy (at_peerUserId (the attempt))
      then hget (readPending u (the (at_peerUserId (the attempt)))) else hret None)
      (\<lambda>pend. \<forall>p. pend = Some p \<longrightarrow> own_proposal own p)" for attempt
    using pending_owner by (auto intro!: hvalid_get hvalid_ret)
  have tail: "hvalid I (case pend of
      Some p \<Rightarrow> hseq (teardownProposal env p None (rl p) (rh p)) (notify_cancelled p (rl p) (rh p))
    | None \<Rightarrow> hmod (markNoMatch (me_now env) i u reason)) (\<lambda>_. True)"
    if "\<forall>p. pend = Some p \<longrightarrow> own_proposal own p" "owns own i u" for pend i rl rh reason
    using that by (auto split: option.split intro!: hvalid_seq teardown_valid notify_valid hvalid_mod marks)
  show ?thesis
    unfolding cancelMatch_def Let_def
    apply (rule hvalid_get_bind, rule hvalid_seq, rule frame, rule core_remove)
    apply (split if_split, intro conjI impI, rule hvalid_ret, rule TrueI)
    apply (rule hvalid_get_bind, rule hvalid_bind [OF pend], erule tail)
    apply (erule last_owner, simp)
    done
qed

lemma steps_keep:
  assumes "mm_steps own C r r'" "\<And>u. u \<in> C \<Longrightarrow> may_connect u" "I r"
  shows "I r'"
  using assms(1,3)
proof (induction rule: mm_steps.induct)
  case (start r s q env fuel)
  then show ?case by (auto simp: patient_def intro: hvalid_final [OF start_valid])
next
  case (work r s env)
  then show ?case by (auto simp: patient_def intro: worker_keeps)
next
  case (respond r s d u env i)
  then show ?case using assms(2) by (auto intro: hvalid_final [OF respond_valid])
next
  case (leave r s env u)
  then show ?case by (auto intro: hvalid_final [OF leave_valid])
next
  case (cancel r s env u)
  then show ?case by (auto intro: hvalid_final [OF cancel_valid])
next
  case (expire r s k)
  then show ?case by (auto intro: drop_key)
qed (auto intro: core_cong [OF core_simple_writes(4)] core_cong [OF core_rsets])

end

subsection \<open>Ownership is an invariant\<close>

lemma owned_mark: "owned own r \<Longrightarrow> owns own i u \<Longrightarrow> sound_fields own i fs \<Longrightarrow> owned own (write_attempt i u fs r)"
  by (rule ownedI) (auto simp: sound_fields_def dest: ownedD split: if_splits)

lemma pair_pending_le: "a \<le> b \<Longrightarrow> pair_pending_key a b = PairPending a b"
  by (simp add: pair_pending_key_def)

lemma writePending_core:
  assumes "pd_userLow p \<le> pd_userHigh p"
  shows "hashes (writePending p r) (AttemptKey i) = hashes r (AttemptKey i)"
    and "rget k (writePending p r) = rget k r" and "queues (writePending p r) = queues r"
    and "hashes (writePending p r) (PairPending a b) =
      (if a = pd_userLow p \<and> b = pd_userHigh p then hset_fields
             [(''userLow'', pd_userLow p), (''userHigh'', pd_userHigh p),
              (''attemptLow'', pd_attemptLow p), (''attemptHigh'', pd_attemptHigh p),
              (''matchScore'', num_str (pd_matchScore p)),
              (''isFallbackMatch'', if pd_isFallbackMatch p then ''1'' else ''0''),
              (''roomAttemptId'', pd_roomAttemptId p), (''connectLow'', []), (''connectHigh'', [])]
             (hashes r (PairPending a b)) else hashes r (PairPending a b))"
  using assms by (auto simp: writePending_def Let_def pair_pending_le simp del: hset_fields_simps)

lemma pending_ok_written:
  "owns own al low \<Longrightarrow> owns own ah high \<Longrightarrow> pending_ok own low high (hset_fields
     [(''userLow'', low), (''userHigh'', high), (''attemptLow'', al), (''attemptHigh'', ah),
      (''matchScore'', s), (''isFallbackMatch'', fb), (''roomAttemptId'', i),
      (''connectLow'', []), (''connectHigh'', [])] h)"
  by (simp add: pending_ok_def Let_def update_conv')

lemma owned_write_pending:
  "owned own r \<Longrightarrow> owns own (pd_attemptLow p) (pd_userLow p) \<Longrightarrow> owns own (pd_attemptHigh p) (pd_userHigh p) \<Longrightarrow>
   pd_userLow p \<le> pd_userHigh p \<Longrightarrow> owned own (writePending p r)"
  by (rule ownedI) (auto simp: writePending_core ownedD pending_ok_written simp del: hset_fields_simps)

lemma ordered_obtain:
  obtains low high where "orderedUserIds u v = (low, high)" "pair_pending_key low high = PairPending low high"
    "pair_finalize_key low high = PairConnectFinalize low high"
  by (cases "u \<le> v") (auto simp: orderedUserIds_def pair_pending_key_def pair_finalize_key_def not_le less_imp_le)

lemma deletePending_core:
  "hashes (deletePending u v r) (AttemptKey i) = hashes r (AttemptKey i)"
  "rget (UserLastAttempt w) (deletePending u v r) = rget (UserLastAttempt w) r"
  "queues (deletePending u v r) MatchJobQueue = queues r MatchJobQueue"
  "hashes (deletePending u v r) (PairPending a b) =
     (if orderedUserIds u v = (a, b) then [] else hashes r (PairPending a b))"
  by (rule ordered_obtain [of u v], simp add: deletePending_def)+

lemma connect_script_frame:
  "hashes (snd (recordProposalConnect_script k fk f ttl r)) = (hashes r)(k := AList.update f ''1'' (hashes r k))"
  "queues (snd (recordProposalConnect_script k fk f ttl r)) = queues r"
  "k' \<noteq> fk \<Longrightarrow> rget k' (snd (recordProposalConnect_script k fk f ttl r)) = rget k' r"
  by (simp_all add: recordProposalConnect_script_def Let_def rset_nx_def split: prod.split)

lemma recordConnect_core:
  "hashes (snd (recordConnect u v w r)) (AttemptKey i) = hashes r (AttemptKey i)"
  "rget (UserLastAttempt x) (snd (recordConnect u v w r)) = rget (UserLastAttempt x) r"
  "queues (snd (recordConnect u v w r)) = queues r"
  "hashes (snd (recordConnect u v w r)) (PairPending a b) =
     (if orderedUserIds u v = (a, b)
      then AList.update (if w = a then ''connectLow'' else ''connectHigh'') ''1'' (hashes r (PairPending a b))
      else hashes r (PairPending a b))"
  by (rule ordered_obtain [of u v], simp add: recordConnect_def connect_script_frame)+

lemma pending_ok_connect:
  "pending_ok own a b h \<Longrightarrow> pending_ok own a b (AList.update ''connectLow'' v h)"
  "pending_ok own a b h \<Longrightarrow> pending_ok own a b (AList.update ''connectHigh'' v h)"
  by (simp_all add: pending_ok_def Let_def update_conv')

lemma owned_connect: "owned own r \<Longrightarrow> owned own (snd (recordConnect u v w r))"
  by (rule ownedI) (auto simp: recordConnect_core ownedD pending_ok_connect)

lemma pending_ok_Nil [simp]: "pending_ok own a b []"
  by (simp add: pending_ok_def)

lemma owned_delete_pending: "owned own r \<Longrightarrow> owned own (deletePending u v r)"
  by (rule ownedI) (simp_all add: deletePending_core ownedD)

lemma job_roundtrip:
  "js_trim (rq_userId q) = rq_userId q \<Longrightarrow> js_trim (rq_requestId q) = rq_requestId q \<Longrightarrow>
   rq_userId q \<noteq> [] \<Longrightarrow> rq_requestId q \<noteq> [] \<Longrightarrow> parseQueuePayload (toQueuePayload q) = Some q"
  by (simp add: parseQueuePayload_def toQueuePayload_def jget_def)

lemma owned_push: "owned own r \<Longrightarrow> request_ok own q \<Longrightarrow> owned own (enqueue_job q r)"
  by (rule ownedI) (auto simp: enqueue_job_def rlpush_def rget_def request_ok_def owns_def
      job_ok_def [of _ "toQueuePayload q"] job_roundtrip dest: ownedD [unfolded rget_def owns_def])

lemma dequeue_state:
  "snd (dequeue_job r) = (if queues r MatchJobQueue = [] then r
     else r\<lparr>queues := (queues r)(MatchJobQueue := butlast (queues r MatchJobQueue))\<rparr>)"
  by (simp add: dequeue_job_def brpop_def)

lemma owned_pop: "owned own r \<Longrightarrow> owned own (snd (dequeue_job r))"
  by (rule ownedI) (auto simp: dequeue_state rget_def
      dest: in_set_butlastD ownedD [unfolded rget_def] split: if_splits)

lemma owned_expire: "owned own r \<Longrightarrow> owned own (expire_key k r)"
  by (rule ownedI) (auto simp: expire_key_def ownedD split: if_splits)

interpretation ownership: core_invariant own "owned own" "\<lambda>_. True" "\<lambda>_. True" for own
  by unfold_locales (assumption | erule owned_core | rule owned_mark owned_write_pending
      owned_delete_pending owned_connect owned_push owned_pop owned_expire conjI TrueI)+

subsection \<open>No room without consent\<close>

definition consented :: "uid \<Rightarrow> uid \<Rightarrow> uid \<Rightarrow> redis \<Rightarrow> bool" where
  "consented x low high r \<longleftrightarrow>
     (x = low \<and> map_of (hashes r (PairPending low high)) ''connectLow'' = Some ''1'') \<or>
     (x = high \<and> x \<noteq> low \<and> map_of (hashes r (PairPending low high)) ''connectHigh'' = Some ''1'')"

definition uninvolved :: "(string \<Rightarrow> uid) \<Rightarrow> uid \<Rightarrow> redis \<Rightarrow> bool" where
  "uninvolved own x r \<longleftrightarrow> owned own r \<and> (\<forall>a b. \<not> consented x a b r) \<and>
     (\<forall>i. own i = x \<longrightarrow> map_of (hashes r (AttemptKey i)) ''status'' \<noteq> Some ''matched'')"

lemma uninvolved_core: "core r' = core r \<Longrightarrow> uninvolved own x r \<Longrightarrow> uninvolved own x r'"
  by (frule owned_core [of r' r own]) (simp_all add: uninvolved_def consented_def core_def fun_eq_iff)

lemma uninvolved_mark:
  assumes "uninvolved own x r" "owns own i u" "sound_fields own i fs" "plain_fields fs \<or> u \<noteq> x"
  shows "uninvolved own x (write_attempt i u fs r)"
  using assms owned_mark [of own r i u fs]
  by (auto simp: uninvolved_def consented_def owns_def plain_fields_def map_of_hset_fields)

lemma uninvolved_write_pending:
  assumes "uninvolved own x r" "owns own (pd_attemptLow p) (pd_userLow p)"
    "owns own (pd_attemptHigh p) (pd_userHigh p)" "pd_userLow p \<le> pd_userHigh p"
  shows "uninvolved own x (writePending p r)"
  using assms owned_write_pending [of own r p]
  by (simp add: uninvolved_def consented_def writePending_core map_of_hset_fields del: hset_fields_simps)

lemma uninvolved_delete_pending: "uninvolved own x r \<Longrightarrow> uninvolved own x (deletePending u v r)"
  by (simp add: uninvolved_def consented_def deletePending_core owned_delete_pending)

lemma uninvolved_connect:
  assumes "uninvolved own x r" "u \<noteq> x"
  shows "uninvolved own x (snd (recordConnect u v u r))"
  using assms
  by (auto simp: uninvolved_def consented_def recordConnect_core owned_connect update_conv'
      orderedUserIds_def split: if_splits)

lemma connect_both:
  assumes "fst (recordConnect u v u r) = 2" "orderedUserIds u v = (low, high)"
  shows "map_of (hashes (snd (recordConnect u v u r)) (PairPending low high)) ''connectLow'' = Some ''1''
    \<and> map_of (hashes (snd (recordConnect u v u r)) (PairPending low high)) ''connectHigh'' = Some ''1''"
proof -
  have key: "pair_pending_key low high = PairPending low high"
    using assms(2) by (auto simp: orderedUserIds_def pair_pending_key_def split: if_splits)
  show ?thesis
    using assms(1) unfolding recordConnect_def assms(2) prod.case key
    by (simp add: recordProposalConnect_script_def Let_def rset_nx_def split: if_splits)
qed

lemma uninvolved_both:
  assumes "uninvolved own x r" "u \<noteq> x" "fst (recordConnect u v u r) = 2"
  shows "u \<noteq> x \<and> v \<noteq> x"
proof (intro conjI notI)
  assume "v = x"
  obtain low high where lh: "orderedUserIds u v = (low, high)" by (cases "orderedUserIds u v")
  have "\<not> consented x low high (snd (recordConnect u v u r))"
    using uninvolved_connect [OF assms(1,2)] by (simp add: uninvolved_def)
  with connect_both [OF assms(3) lh] lh assms(2) \<open>v = x\<close> show False
    by (auto simp: consented_def orderedUserIds_def split: if_splits)
qed (use assms in simp)

lemma uninvolved_jobs:
  "uninvolved own x r \<Longrightarrow> request_ok own q \<Longrightarrow> uninvolved own x (enqueue_job q r)"
  "uninvolved own x r \<Longrightarrow> uninvolved own x (snd (dequeue_job r))"
  using owned_push [of own r q] owned_pop [of own r]
  by (simp_all add: uninvolved_def consented_def enqueue_job_def rlpush_def dequeue_state split: if_splits)

lemma uninvolved_expire: "uninvolved own x r \<Longrightarrow> uninvolved own x (expire_key k r)"
  using owned_expire [of own r k] by (auto simp: uninvolved_def consented_def expire_key_def)

interpretation consent: core_invariant own "uninvolved own x" "\<lambda>u. u \<noteq> x" "\<lambda>u. u \<noteq> x" for own x
proof unfold_locales
  fix r assume "uninvolved own x r" then show "owned own r" by (simp add: uninvolved_def)
next
  fix r i u fs
  assume "uninvolved own x r" "owns own i u" "sound_fields own i fs" "plain_fields fs \<or> u \<noteq> x"
  then show "uninvolved own x (write_attempt i u fs r)" by (rule uninvolved_mark)
next
  fix r u v assume "uninvolved own x r" "u \<noteq> x" "fst (recordConnect u v u r) = 2"
  then show "u \<noteq> x \<and> v \<noteq> x" by (rule uninvolved_both)
qed (assumption | erule uninvolved_core | rule uninvolved_write_pending uninvolved_delete_pending
      uninvolved_connect uninvolved_jobs uninvolved_expire)+

end
