(* ===== verification/MatchSafety.thy ===== *)
theory MatchSafety
  imports MatchInvariant
begin

text \<open>
  What holds in every state the matching service reaches: consent, ownership of attempts and
  proposals, and what cancelling and leaving do to the two users of a proposal.
\<close>

subsection \<open>A sample run\<close>

definition demo_own :: "string \<Rightarrow> uid" where
  "demo_own i = (if i = ''a1'' then ''amy'' else ''bob'')"

definition demo_amy :: redis where
  "demo_amy = hfinal_state (startFindMatch demo_env 1 \<lparr>rq_userId = ''amy'', rq_requestId = ''a1''\<rparr>) idle_store"

lemma demo_patient: "mm_steps own C t (me_others demo_env n t)"
  by (simp add: demo_env_def mm_steps.none)

lemma demo_steps: "mm_steps demo_own C redis_empty demo_amy"
proof -
  have "js_trim ''amy'' = ''amy''" "js_trim ''a1'' = ''a1''" by code_simp+
  then show ?thesis
    unfolding demo_amy_def idle_store_def
    by (intro mm_steps.start mm_steps.profile mm_steps.none demo_patient)
      (simp_all add: request_ok_def owns_def demo_own_def)
qed

lemma demo_started:
  obtains idx where "demo_amy = rdel (UserStartSearchLock ''amy'')
       (enqueue_job \<lparr>rq_userId = ''amy'', rq_requestId = ''a1''\<rparr> (enqueue_with ''amy'' (me_now demo_env) idx
         (setSearching (me_now demo_env) ''a1'' ''amy'' (rset_ex (UserStartSearchLock ''amy'') ''a1'' START_SEARCH_LOCK_TTL_SEC idle_store))))"
  by (rule start_fresh [OF idle_available idle_reads(1) idle_reads(2) idle_reads(3), where i = "''a1''" and fuel = 0])
    (simp_all add: demo_env_def START_SEARCH_LOCK_WAIT_MS_def demo_amy_def hfinal_state_def)

lemma demo_attempt: "status_of demo_env ''a1'' demo_amy = Some Searching"
proof -
  obtain idx where d: "demo_amy = rdel (UserStartSearchLock ''amy'')
       (enqueue_job \<lparr>rq_userId = ''amy'', rq_requestId = ''a1''\<rparr> (enqueue_with ''amy'' (me_now demo_env) idx
         (setSearching (me_now demo_env) ''a1'' ''amy'' (rset_ex (UserStartSearchLock ''amy'') ''a1'' START_SEARCH_LOCK_TTL_SEC idle_store))))"
    by (rule demo_started)
  have "status_of demo_env ''a1'' demo_amy = status_of demo_env ''a1'' (setSearching (me_now demo_env) ''a1'' ''amy'' idle_store)"
    unfolding d by (rule status_of_hashes) (simp add: setSearching_def idle_store_def)
  then show ?thesis by (simp add: status_of_def get_attempt_def status_after_mark del: map_option_eq_Some)
qed

lemma owned_empty: "owned own redis_empty"
  by (simp add: owned_def redis_empty_def rget_def)

lemma demo_proposal_owned: "owned demo_own (writePending sample_pending redis_empty)"
proof (rule owned_write_pending [OF owned_empty])
  show "pd_userLow sample_pending \<le> pd_userHigh sample_pending" by code_simp
qed (simp_all add: sample_pending_def owns_def demo_own_def)

definition demo_waiting :: redis where
  "demo_waiting = snd (recordConnect ''bob'' ''amy'' ''bob''
     (markProposed 5 ''b1'' ''bob'' ''amy'' 71 False (markProposed 5 ''a1'' ''amy'' ''bob'' 71 False
       (writePending sample_pending redis_empty))))"

lemma demo_waiting_owned: "owned demo_own demo_waiting"
  unfolding demo_waiting_def
  by (intro owned_connect ownership.marks(2) demo_proposal_owned) (simp_all add: owns_def demo_own_def)

lemma amy_bob: "''amy'' \<le> (''bob'' :: string)" "\<not> ''bob'' \<le> (''amy'' :: string)" by code_simp+
lemma demo_pending: "readPending ''amy'' ''bob'' (writePending sample_pending redis_empty) = Some sample_pending"
  using js_number_int_str [of 71]
  by (simp add: readPending_def writePending_def orderedUserIds_def amy_bob sample_pending_def Let_def update_conv' num_str_def)

lemma readPending_connect [simp]: "readPending a b (snd (recordConnect u v w r)) = readPending a b r"
  by (rule ordered_obtain [of a b]) (simp add: readPending_def recordConnect_core Let_def update_conv')

lemma readPending_attempt [simp]: "readPending a b (write_attempt i u fs r) = readPending a b r"
  by (rule ordered_obtain [of a b]) (simp add: readPending_def)

lemma demo_waiting_pending: "readPending ''amy'' ''bob'' demo_waiting = Some sample_pending"
  by (simp add: demo_waiting_def markProposed_def demo_pending)

lemma demo_waiting_attempt:
  "\<exists>a. get_attempt demo_env ''a1'' demo_waiting = Some a \<and> at_userId a = ''amy'' \<and> at_status a = Proposed
     \<and> at_peerUserId a = Some ''bob''"
  by (simp add: get_attempt_def getAttempt_def demo_waiting_def recordConnect_core parseAttemptRecord_def
     parse_status_def markProposed_def Let_def update_conv')

lemma demo_waiting_connect: "fst (recordConnect ''amy'' ''bob'' ''amy'' demo_waiting) = 2"
  by (simp add: recordConnect_def recordProposalConnect_script_def orderedUserIds_def amy_bob Let_def rset_nx_def
     demo_waiting_def update_conv' pair_pending_key_def pair_finalize_key_def markProposed_def writePending_core
     sample_pending_def redis_empty_def rget_def writePending_def write_attempt_def redis_write_defs)
subsection \<open>Properties\<close>

text \<open>
  C1. Nobody is put in a room without having tapped Connect. However the handlers, the worker,
  expiries and the main API's writes interleave from an empty store, a user who never
  answers connect is never shown a match, and no search of theirs is ever answered with one.
\<close>

theorem no_match_without_consent:
  assumes "mm_steps own C redis_empty r" "x \<notin> C"
  shows "getUserMatchState env x r \<noteq> UMatched i room
    \<and> (own i = x \<longrightarrow> getMatchResult env i r \<noteq> RMatched room peer score)"
proof -
  have "uninvolved own x redis_empty"
    by (simp add: uninvolved_def owned_def consented_def redis_empty_def rget_def)
  then have r: "uninvolved own x r" using consent.steps_keep [OF assms(1)] assms(2) by blast
  then have "at_status a \<noteq> Matched" if "get_attempt env j r = Some a" "own j = x" for j a
    using that by (auto simp: uninvolved_def get_attempt_def getAttempt_def parseAttemptRecord_def
        parse_status_def Let_def split: if_splits)
  with consent.last_owner [OF r, of x] show ?thesis
    by (auto simp: getUserMatchState_def getMatchResult_def toResult_def owns_def Let_def
        split: option.splits if_splits)
qed

theorem no_match_without_consent_witness:
  "getUserMatchState demo_env ''amy'' demo_amy \<noteq> UMatched ''a1'' ''mock-room:amy:bob:a1''
   \<and> getMatchResult demo_env ''a1'' demo_amy \<noteq> RMatched ''mock-room:amy:bob:a1'' ''bob'' 29"
  using no_match_without_consent [OF demo_steps, of "''amy''" "{}" demo_env "''a1''" "''mock-room:amy:bob:a1''" "''bob''" 29]
  by (simp add: demo_own_def)

text \<open>
  C34. Attempts never change hands and always answer in full: in every state the service reaches,
  the record of a request names the request and the user who made it, and a result of each
  status carries that status's data, so a matched attempt always has its room and its peer.
\<close>

theorem attempts_keep_owner:
  assumes "mm_steps own UNIV redis_empty r" "get_attempt env i r = Some a"
  shows "at_attemptId a = i \<and> at_userId a = own i
    \<and> (case at_status a of
         Matched \<Rightarrow> \<exists>room peer s. room \<noteq> [] \<and> peer \<noteq> [] \<and> toResult a = RMatched room peer s
       | Proposed \<Rightarrow> \<exists>peer s fb. peer \<noteq> [] \<and> toResult a = RProposed i peer s fb
       | Searching \<Rightarrow> toResult a = RSearching 1000 i
       | NoMatch \<Rightarrow> \<exists>reason. toResult a = RNoMatch reason)"
proof -
  have r: "owned own r" using ownership.steps_keep [OF assms(1)] owned_empty by blast
  note a = owned_attempt [OF r assms(2)]
  then have "truthy (at_peerUserId a) \<Longrightarrow> \<exists>p. p \<noteq> [] \<and> at_peerUserId a = Some p"
    and "truthy (at_roomId a) \<Longrightarrow> \<exists>p. p \<noteq> [] \<and> at_roomId a = Some p"
    by (cases "at_peerUserId a"; simp) (cases "at_roomId a"; simp)
  with a show ?thesis by (auto simp: toResult_def owns_def split: status.split)
qed

theorem attempts_keep_owner_witness:
  "\<exists>a. get_attempt demo_env ''a1'' demo_amy = Some a \<and> at_userId a = ''amy'' \<and> toResult a = RSearching 1000 ''a1''"
proof -
  obtain a where a: "get_attempt demo_env ''a1'' demo_amy = Some a" "at_status a = Searching"
    using demo_attempt by (auto simp: status_of_def)
  then show ?thesis
    using attempts_keep_owner [OF demo_steps a(1)] by (simp add: demo_own_def)
qed

text \<open>
  A proposal belongs to its pair: whatever steps the service takes from a store with sound
  attempts, the proposal two users read is for exactly the two of them, and each side's
  attempt is one that user made.
\<close>

theorem proposals_bind_their_pair:
  assumes "owned own r0" "mm_steps own UNIV r0 r" "readPending u v r = Some p"
  shows "{pd_userLow p, pd_userHigh p} = {u, v} \<and> pd_userLow p \<le> pd_userHigh p
    \<and> own (pd_attemptLow p) = pd_userLow p \<and> own (pd_attemptHigh p) = pd_userHigh p"
proof -
  have "owned own r" using ownership.steps_keep [OF assms(2)] assms(1) by blast
  from owned_pending [OF this assms(3)] show ?thesis
    by (auto simp: orderedUserIds_def owns_def split: if_splits)
qed

theorem proposals_bind_their_pair_witness:
  "\<exists>p. readPending ''amy'' ''bob'' (writePending sample_pending redis_empty) = Some p
     \<and> {pd_userLow p, pd_userHigh p} = {''amy'', ''bob''} \<and> demo_own (pd_attemptHigh p) = pd_userHigh p"
  using proposals_bind_their_pair [OF demo_proposal_owned mm_steps.none demo_pending] demo_pending by blast

lemma no_completion_simps:
  "WMatchCompleted i low high room s fb \<notin> set (snd (snd (skip_proposal env u p r)))"
  "WMatchCompleted i low high room s fb \<notin> set (snd (snd (room_failed env p r)))"
  by (simp_all add: skip_proposal_def room_failed_def teardownProposal_def notify_cancelled_def
      handler_defs Let_def)

lemma completion_room_ready:
  "WMatchCompleted i low high room s fb \<in> set (snd (snd (room_ready env p rm r))) \<longleftrightarrow>
     i = pd_roomAttemptId p \<and> low = pd_userLow p \<and> high = pd_userHigh p \<and> room = rm \<and>
     s = pd_matchScore p \<and> fb = pd_isFallbackMatch p"
  by (auto simp: room_ready_def handler_defs)

text \<open>
  The room itself needs both taps: an answer that announces a completed match is a connect by
  the owner of a proposed attempt, and the other user of the pair had connected before it.
\<close>

theorem completion_needs_both:
  assumes "WMatchCompleted i low high room s fb \<in> set (snd (snd (respondToMatchProposal env u a d r)))"
    and "owned own r"
  shows "d = Connect \<and> own a = u \<and> (u = low \<or> u = high) \<and>
    (\<exists>v. {low, high} = {u, v} \<and> (v \<noteq> u \<longrightarrow> consented v low high r))"
proof -
  obtain x where x: "get_attempt env a r = Some x" "at_userId x = u" "at_status x = Proposed"
    "truthy (at_peerUserId x)" and d: "d = Connect"
    and c: "\<exists>p. readPending u (the (at_peerUserId x)) r = Some p \<and>
      WMatchCompleted i low high room s fb \<in> set (snd (snd (connect_proposal env u (the (at_peerUserId x)) p r)))"
    using assms(1) by (cases d) (auto simp: respondToMatchProposal_def hbind_def hget_def hret_def Let_def
        no_completion_simps split: option.splits if_splits prod.splits)
  let ?v = "the (at_peerUserId x)"
  obtain p where p: "readPending u ?v r = Some p"
    and w: "WMatchCompleted i low high room s fb \<in> set (snd (snd (connect_proposal env u ?v p r)))"
    using c by blast
  have lh: "orderedUserIds u ?v = (low, high)" and two: "fst (recordConnect u ?v u r) = 2"
    using w recordConnect_code [of u ?v u r] owned_pending(1) [OF assms(2) p]
    by (auto simp: connect_proposal_def hbind_def hstate_def hret_def no_completion_simps completion_room_ready
        split: prod.splits if_splits room_result.splits)
  have "own a = u" using owned_attempt(1) [OF assms(2) x(1)] x(2) by (simp add: owns_def)
  moreover have "{low, high} = {u, ?v} \<and> (?v \<noteq> u \<longrightarrow> consented ?v low high r)"
    using connect_both [OF two lh] lh
    by (auto simp: consented_def recordConnect_core update_conv' orderedUserIds_def split: if_splits)
  moreover have "u = low \<or> u = high" using lh by (auto simp: orderedUserIds_def split: if_splits)
  ultimately show ?thesis using d by blast
qed

theorem completion_needs_both_witness:
  "WMatchCompleted ''b1'' ''amy'' ''bob'' ''mock-room:amy:bob:b1'' 71 False
     \<in> set (snd (snd (respondToMatchProposal demo_env ''amy'' ''a1'' Connect demo_waiting)))
   \<and> (\<exists>v. {''amy'', ''bob''} = {''amy'', v} \<and> (v \<noteq> ''amy'' \<longrightarrow> consented v ''amy'' ''bob'' demo_waiting))"
proof -
  obtain a where a: "get_attempt demo_env ''a1'' demo_waiting = Some a" "at_userId a = ''amy''"
    "at_status a = Proposed" "at_peerUserId a = Some ''bob''" using demo_waiting_attempt by blast
  have c: "createRoom True (me_room_post demo_env) ''b1'' ''amy'' ''bob'' = RoomOk ''mock-room:amy:bob:b1''"
    by (simp add: createRoom_def pairIdFor_def amy_bob)
  have "me_mock_rooms demo_env" by (simp add: demo_env_def)
  with a c demo_waiting_pending demo_waiting_connect
  have w: "WMatchCompleted ''b1'' ''amy'' ''bob'' ''mock-room:amy:bob:b1'' 71 False
     \<in> set (snd (snd (respondToMatchProposal demo_env ''amy'' ''a1'' Connect demo_waiting)))"
    by (simp add: respondToMatchProposal_def connect_proposal_def handler_defs Let_def room_ready_def sample_pending_def)
  then show ?thesis using completion_needs_both [OF w demo_waiting_owned] by blast
qed

subsection \<open>Cancelling and leaving\<close>

lemma core_reads:
  assumes "core r' = core r"
  shows "get_attempt env i r' = get_attempt env i r" "readPending u v r' = readPending u v r"
proof -
  show "get_attempt env i r' = get_attempt env i r"
    using assms by (simp add: get_attempt_def getAttempt_def core_def fun_eq_iff)
  show "readPending u v r' = readPending u v r"
    by (rule ordered_obtain [of u v]) (use assms in \<open>simp add: readPending_def core_def fun_eq_iff\<close>)
qed

lemma zsets_release [simp]: "zsets (releasePair a b r) = (zsets r)
   (pair_lock_key a b := [], UserLock a := [], UserLock b := [])"
  unfolding releasePair_le pair_keys_commute(1) [of b a] by (auto simp: fun_eq_iff)

lemma pool_key_neq [simp]:
  "PoolGlobal \<noteq> pair_lock_key a b" "PoolGlobal \<noteq> pair_pending_key a b" "PoolGlobal \<noteq> pair_finalize_key a b"
  "UserState u \<noteq> pair_pending_key a b" "UserState u \<noteq> pair_finalize_key a b"
  by (simp_all add: pair_lock_key_def pair_pending_key_def pair_finalize_key_def)

lemma deletePending_frame [simp]:
  "rget (UserState u) (deletePending a b r) = rget (UserState u) r"
  "zsets (deletePending a b r) PoolGlobal = zsets r PoolGlobal"
  by (simp_all add: deletePending_def split: prod.split)

lemma teardown_state:
  assumes "teardownProposal env p None rl rh r = (res, r', ws)" "pd_attemptLow p \<noteq> pd_attemptHigh p"
  shows "res = Inr ()" "ws = []"
    and "u \<in> {pd_userLow p, pd_userHigh p} \<Longrightarrow> rget (UserState u) r' = Some ''searching''"
    and "status_of env (pd_attemptLow p) r' = Some NoMatch" "status_of env (pd_attemptHigh p) r' = Some NoMatch"
    and "zsets r' PoolGlobal = zsets r PoolGlobal"
proof -
  have r': "r' = markNoMatch (me_now env) (pd_attemptHigh p) (pd_userHigh p) rh
      (markNoMatch (me_now env) (pd_attemptLow p) (pd_userLow p) rl
        (releasePair (pd_userLow p) (pd_userHigh p) (deletePending (pd_userLow p) (pd_userHigh p) r)))"
    and "res = Inr ()" "ws = []"
    using assms(1) by (simp_all add: teardownProposal_def handler_simps)
      (simp_all add: handler_defs)
  then show "res = Inr ()" "ws = []" by simp_all
  show "u \<in> {pd_userLow p, pd_userHigh p} \<Longrightarrow> rget (UserState u) r' = Some ''searching''"
    "zsets r' PoolGlobal = zsets r PoolGlobal"
    unfolding r' by (auto simp: markNoMatch_def rget_releasePair)
  show "status_of env (pd_attemptLow p) r' = Some NoMatch" "status_of env (pd_attemptHigh p) r' = Some NoMatch"
    unfolding r' by simp_all
qed

text \<open>
  Cancelling during a proposal does not leave the canceller idle. \<open>cancelMatch\<close> takes the user
  out of the pool and deletes the user's state, but tearing the proposal down then releases
  the pair, which writes the state searching for both users: afterwards both attempts have
  failed, both users are searching, and the canceller is not in the pool.
\<close>

theorem cancel_leaves_searching:
  assumes "owned own r" "rget (UserLastAttempt u) r = Some i" "i \<noteq> []" "get_attempt env i r = Some a"
    and "at_status a = Proposed" "at_peerUserId a = Some v" "v \<noteq> u" "readPending u v r = Some p"
  shows "\<exists>r'. fst (cancelMatch env u r) = Inr () \<and> r' = hfinal_state (cancelMatch env u) r
    \<and> rget (UserState u) r' = Some ''searching'' \<and> rget (UserState v) r' = Some ''searching''
    \<and> status_of env (pd_attemptLow p) r' = Some NoMatch \<and> status_of env (pd_attemptHigh p) r' = Some NoMatch
    \<and> u \<notin> zset_members (zsets r' PoolGlobal)"
proof -
  note p = owned_pending [OF assms(1,8)]
  have ne: "v \<noteq> []" using owned_attempt(3) [OF assms(1,4)] assms(5,6) by simp
  have two: "pd_attemptLow p \<noteq> pd_attemptHigh p" and uv: "{u, v} = {pd_userLow p, pd_userHigh p}"
    using p assms(7) by (auto simp: orderedUserIds_def owns_def split: if_splits)
  let ?s = "remove_user u r"
  let ?rl = "if u = pd_userLow p then ''cancelled_by_user'' else ''proposal_peer_cancelled''"
  let ?rh = "if u = pd_userHigh p then ''cancelled_by_user'' else ''proposal_peer_cancelled''"
  obtain r' where t: "teardownProposal env p None ?rl ?rh ?s = (Inr (), r', [])"
    using teardown_state(1,2) [OF _ two] by (metis prod_cases3)
  have "cancelMatch env u r = (hseq (teardownProposal env p None ?rl ?rh) (notify_cancelled p ?rl ?rh)) ?s"
    using assms(2-6,8) ne core_reads [OF core_remove]
    by (simp add: cancelMatch_def handler_simps Let_def)
  then have c: "fst (cancelMatch env u r) = Inr ()" "hfinal_state (cancelMatch env u) r = r'"
    by (simp_all add: hseq_def run_quiet t hfinal_state_def notify_cancelled_def)
      (simp_all add: handler_defs)
  have "u \<notin> zset_members (zsets ?s PoolGlobal)"
    by (simp add: remove_user_def members_strip)
  with teardown_state [OF t two] c uv show ?thesis by (metis insertI1 insertI2)
qed

theorem cancel_leaves_searching_witness:
  "rget (UserState ''amy'') (hfinal_state (cancelMatch demo_env ''amy'') demo_waiting) = Some ''searching''"
proof -
  obtain a where a: "get_attempt demo_env ''a1'' demo_waiting = Some a" "at_status a = Proposed"
    "at_peerUserId a = Some ''bob''" using demo_waiting_attempt by blast
  have "rget (UserLastAttempt ''amy'') demo_waiting = Some ''a1''"
    by (simp add: demo_waiting_def recordConnect_core markProposed_def)
  then show ?thesis
    using cancel_leaves_searching [OF demo_waiting_owned _ _ a, of "''amy''"] demo_waiting_pending by auto
qed

text \<open>
  Leaving clears the user's match state: no state, no lock, no place in the pool, and a matched
  latest attempt is recorded as left.
\<close>

theorem leave_clears:
  "let r' = hfinal_state (leaveRoom env u) r in
     fst (leaveRoom env u r) = Inr () \<and> rget (UserState u) r' = None \<and> rget (UserLock u) r' = None
     \<and> u \<notin> zset_members (zsets r' PoolGlobal)
     \<and> getUserMatchState env u r' \<noteq> UMatched i room"
proof -
  let ?L = "rget (UserLastAttempt u) r"
  let ?m = "markNoMatch (me_now env) (the ?L) u ''left_room'' r"
  let ?s = "if truthy ?L \<and> status_of env (the ?L) r = Some Matched then ?m else r"
  have run: "leaveRoom env u r = (Inr (), rdel (UserState u) (rdel (UserLock u) (stripFromPool u ?s)), [])"
    by (auto simp: leaveRoom_def handler_simps status_of_def handler_defs)
  have last: "rget (UserLastAttempt u) ?s = ?L"
    by (cases ?L) (simp_all add: markNoMatch_def)
  have "truthy ?L \<longrightarrow> status_of env (the ?L) ?s \<noteq> Some Matched" by simp
  with run last obtain s where
    s: "leaveRoom env u r = (Inr (), rdel (UserState u) (rdel (UserLock u) (stripFromPool u s)), [])"
    "rget (UserLastAttempt u) s = ?L" "truthy ?L \<longrightarrow> status_of env (the ?L) s \<noteq> Some Matched" by blast
  let ?r' = "rdel (UserState u) (rdel (UserLock u) (stripFromPool u s))"
  have "get_attempt env (the ?L) ?r' = get_attempt env (the ?L) s" "rget (UserLastAttempt u) ?r' = ?L"
    using s(2) by (simp_all add: get_attempt_def getAttempt_def)
  with s(3) have "getUserMatchState env u ?r' \<noteq> UMatched i room"
    by (auto simp: getUserMatchState_def status_of_def Let_def split: option.splits)
  then show ?thesis
    unfolding Let_def hfinal_state_def s(1) by (simp add: members_strip)
qed

end
