(* ===== verification/MatchHttp.thy ===== *)
theory MatchHttp
  imports MatchSearch
begin

text \<open>
  The HTTP layer of the matching service (\<open>match.controller.ts\<close>): each route's body check,
  the call, and the status code of every outcome. A body is what \<open>request.json()\<close> gives,
  or nothing where it throws; a path parameter is taken already decoded.
\<close>

datatype api_body =
    ApiOk
  | ApiResult match_result
  | ApiState user_match_state
  | ApiError string "string option"
  | ApiFailure string string

type_synonym reply = "api_body \<times> nat"

subsection \<open>Errors\<close>

definition occurs_in :: "string \<Rightarrow> string \<Rightarrow> bool" where
  "occurs_in p s = list_ex (\<lambda>i. take (length p) (drop i s) = p) [0..<Suc (length s)]"

text \<open>\<open>String(error)\<close> of the two errors the code throws itself.\<close>

fun error_text :: "snapshot_error \<Rightarrow> string" where
  "error_text (InvalidJson u) = ''Error: Invalid JSON in snapshot key: '' @ render_key (Snapshot u)"
| "error_text (NotAnObject u) = ''Error: Snapshot payload is not an object for key: '' @ render_key (Snapshot u)"

definition redisOrInternalError :: "string \<Rightarrow> reply" where
  "redisOrInternalError detail =
     (let timedOut = occurs_in ''command timed out'' (js_lower detail)
      in (ApiFailure (if timedOut then ''redis_timeout'' else ''internal_error'') detail,
          if timedOut then 503 else 500))"

definition reply_of :: "('a \<Rightarrow> reply) \<Rightarrow> snapshot_error + 'a \<Rightarrow> reply" where
  "reply_of ok res = (case res of Inl e \<Rightarrow> redisOrInternalError (error_text e) | Inr x \<Rightarrow> ok x)"

subsection \<open>Bodies\<close>

definition parseBody :: "json option \<Rightarrow> request option" where
  "parseBody body = (case body of
      None \<Rightarrow> None
    | Some payload \<Rightarrow>
        (case (as_string (jget (as_record payload) ''userId''), as_string (jget (as_record payload) ''requestId'')) of
           (Some u, Some i) \<Rightarrow>
             if js_trim u = [] \<or> js_trim i = [] then None
             else Some \<lparr>rq_userId = js_trim u, rq_requestId = js_trim i\<rparr>
         | _ \<Rightarrow> None))"

text \<open>\<open>typeof body?.f === "string" ? body.f.trim() : ""\<close>.\<close>

definition body_field :: "json \<Rightarrow> string \<Rightarrow> string" where
  "body_field body f = (case as_string (jget (as_record body) f) of Some s \<Rightarrow> js_trim s | None \<Rightarrow> [])"

subsection \<open>Routes\<close>

text \<open>Each route gives its reply, the store it leaves and the webhooks sent.\<close>

type_synonym 'a route = "redis \<Rightarrow> 'a \<times> redis \<times> webhook list"

definition handleFindMatch :: "match_env \<Rightarrow> json option \<Rightarrow> reply option route" where
  "handleFindMatch env body r = (case parseBody body of
      None \<Rightarrow> (Some (ApiError ''invalid_body'' (Some ''expected { userId, requestId }''), 400), r, [])
    | Some q \<Rightarrow>
        (case startFindMatch env 121 q r of
           (Inr None, r', ws) \<Rightarrow> (None, r', ws)
         | (Inr (Some x), r', ws) \<Rightarrow> (Some (ApiResult x, 200), r', ws)
         | (Inl e, r', ws) \<Rightarrow> (Some (redisOrInternalError (error_text e)), r', ws)))"

definition handleGetMatchResult :: "match_env \<Rightarrow> string \<Rightarrow> redis \<Rightarrow> reply" where
  "handleGetMatchResult env requestId r =
     (if js_trim requestId = []
      then (ApiError ''invalid_request_id'' (Some ''expected /match/result/:requestId''), 400)
      else (ApiResult (getMatchResult env requestId r), 200))"

definition handleGetUserMatchState :: "match_env \<Rightarrow> string \<Rightarrow> redis \<Rightarrow> reply" where
  "handleGetUserMatchState env param r =
     (let userId = js_trim param
      in if userId = [] then (ApiError ''invalid_user_id'' None, 400)
         else (ApiState (getUserMatchState env userId r), 200))"

definition handleCancelMatch :: "match_env \<Rightarrow> json option \<Rightarrow> reply route" where
  "handleCancelMatch env body r = (case body of
      None \<Rightarrow> ((ApiError ''invalid_body'' None, 400), r, [])
    | Some b \<Rightarrow>
        (let userId = body_field b ''userId''
         in if userId = [] then ((ApiError ''userId is required'' None, 400), r, [])
            else case cancelMatch env userId r of
              (res, r', ws) \<Rightarrow> (reply_of (\<lambda>_. (ApiOk, 200)) res, r', ws)))"

definition decision_of :: "string \<Rightarrow> decision option" where
  "decision_of s = (if s = ''connect'' then Some Connect else if s = ''skip'' then Some Skip else None)"

definition respond_reply :: "respond_result \<Rightarrow> reply" where
  "respond_reply x = (case x of RespOk \<Rightarrow> (ApiOk, 200) | RespErr e \<Rightarrow> (ApiError e None, 400))"

definition handleMatchRespond :: "match_env \<Rightarrow> json option \<Rightarrow> reply route" where
  "handleMatchRespond env body r = (case body of
      None \<Rightarrow> ((ApiError ''invalid_body'' None, 400), r, [])
    | Some b \<Rightarrow>
        (let userId = body_field b ''userId''; attemptId = body_field b ''attemptId''
         in case decision_of (body_field b ''decision'') of
              Some d \<Rightarrow>
                if userId = [] \<or> attemptId = [] then
                  ((ApiError ''invalid_body'' (Some ''expected { userId, attemptId, decision: connect|skip }''), 400), r, [])
                else (case respondToMatchProposal env userId attemptId d r of
                  (res, r', ws) \<Rightarrow> (reply_of respond_reply res, r', ws))
            | None \<Rightarrow>
                ((ApiError ''invalid_body'' (Some ''expected { userId, attemptId, decision: connect|skip }''), 400), r, [])))"

definition handleLeaveRoom :: "match_env \<Rightarrow> json option \<Rightarrow> reply route" where
  "handleLeaveRoom env body r = (case body of
      None \<Rightarrow> ((ApiError ''invalid_body'' None, 400), r, [])
    | Some b \<Rightarrow>
        (let userId = body_field b ''userId''
         in if userId = [] then ((ApiError ''userId is required'' None, 400), r, [])
            else case leaveRoom env userId r of
              (res, r', ws) \<Rightarrow> (reply_of (\<lambda>_. (ApiOk, 200)) res, r', ws)))"

subsection \<open>Properties\<close>

lemma parseBody_trimmed:
  "parseBody body = Some q \<Longrightarrow> js_trim (rq_userId q) = rq_userId q \<and> rq_userId q \<noteq> []
     \<and> js_trim (rq_requestId q) = rq_requestId q \<and> rq_requestId q \<noteq> []"
  by (auto simp: parseBody_def split: option.splits if_splits)

text \<open>A failed read of a snapshot whose key does not spell a Redis timeout is a plain 500.\<close>

lemma failure_code: "snd (redisOrInternalError d) \<in> {500, 503}"
  by (simp add: redisOrInternalError_def Let_def)

text \<open>
  What a client of the find route sees. If time passes there is always a reply; its code is
  400 exactly when the body lacks a non-blank user id or request id, and then nothing was
  written or sent; a 200 carries a match result, and any other reply is a 500 or 503.
\<close>

theorem find_route_replies:
  assumes "time_passes env"
  shows "\<exists>body code. fst (handleFindMatch env b r) = Some (body, code)
    \<and> (code = 400 \<longleftrightarrow> parseBody b = None)
    \<and> (code = 400 \<longrightarrow> snd (handleFindMatch env b r) = (r, []))
    \<and> (code = 200 \<longrightarrow> (\<exists>x. body = ApiResult x)) \<and> code \<in> {200, 400, 500, 503}"
proof (cases "parseBody b")
  case (Some q)
  obtain res r' ws where run: "startFindMatch env 121 q r = (res, r', ws)" by (cases "startFindMatch env 121 q r")
  then have "res \<noteq> Inr None" using start_ends [OF assms, of 121 q r] by (auto simp: hends_def)
  then consider e where "res = Inl e" | x where "res = Inr (Some x)" by (cases res) auto
  then show ?thesis
  proof cases
    case 1
    then show ?thesis using Some run failure_code [of "error_text e"]
      by (cases "redisOrInternalError (error_text e)") (auto simp: handleFindMatch_def)
  next
    case 2
    then show ?thesis using Some run by (simp add: handleFindMatch_def)
  qed
qed (simp add: handleFindMatch_def)

theorem find_route_replies_witness:
  "\<exists>body code. fst (handleFindMatch demo_env (Some (JObj [(''userId'', JStr ''amy'')])) idle_store) = Some (body, code)
    \<and> code = 400"
proof -
  have "parseBody (Some (JObj [(''userId'', JStr ''amy'')])) = None"
    by (simp add: parseBody_def jget_def)
  moreover have "time_passes demo_env"
    by (simp add: time_passes_def demo_env_def START_SEARCH_LOCK_POLL_MS_def)
  ultimately show ?thesis using find_route_replies [of demo_env "Some (JObj [(''userId'', JStr ''amy'')])" idle_store]
    by blast
qed

end
