(* ===== verification/VoiceScore.thy ===== *)
theory VoiceScore
  imports JsValue
begin

text \<open>
  The score aggregator of the VoiceIQ service (\<open>scoring/aggregator.ts\<close>), with exact rationals
  for the code's doubles.
\<close>

datatype dimension = TopicKnowledge | TopicDepth | Coherence | LanguageQuality | Confidence | Originality

definition dimensions :: "dimension list" where
  "dimensions = [TopicKnowledge, TopicDepth, Coherence, LanguageQuality, Confidence, Originality]"

fun DIMENSION_WEIGHTS :: "dimension \<Rightarrow> rat" where
  "DIMENSION_WEIGHTS TopicKnowledge = 30 / 100"
| "DIMENSION_WEIGHTS TopicDepth = 25 / 100"
| "DIMENSION_WEIGHTS Coherence = 15 / 100"
| "DIMENSION_WEIGHTS LanguageQuality = 15 / 100"
| "DIMENSION_WEIGHTS Confidence = 8 / 100"
| "DIMENSION_WEIGHTS Originality = 7 / 100"

type_synonym window_scores = "dimension \<Rightarrow> rat"

record aggregated =
  ag_dimensions :: "dimension \<Rightarrow> rat"
  ag_intelligenceScore :: rat

definition buildWindowWeights :: "nat \<Rightarrow> rat list" where
  "buildWindowWeights n =
     (if n = 1 then [1]
      else let raw = map (\<lambda>i. of_nat (i + 1) / of_nat n) [0..<n]; total = sum_list raw
           in map (\<lambda>w. w / total) raw)"

text \<open>\<open>Math.round(x * 10) / 10\<close>.\<close>

definition round1 :: "rat \<Rightarrow> rat" where
  "round1 x = of_int (js_round (x * 10)) / 10"

definition aggregateWindows :: "window_scores list \<Rightarrow> aggregated" where
  "aggregateWindows windows =
     (if windows = [] then \<lparr>ag_dimensions = (\<lambda>_. 0), ag_intelligenceScore = 0\<rparr>
      else
       (let windowWeights = buildWindowWeights (length windows);
            dims = (\<lambda>d. round1 (sum_list (map2 (\<lambda>w c. w d * c) windows windowWeights)))
        in \<lparr>ag_dimensions = dims,
            ag_intelligenceScore = round1 (sum_list (map (\<lambda>d. dims d * DIMENSION_WEIGHTS d) dimensions))\<rparr>))"

subsection \<open>Facts\<close>

lemma length_weights [simp]: "length (buildWindowWeights n) = n"
  by (simp add: buildWindowWeights_def Let_def)

lemma weights_nonneg: "x \<in> set (buildWindowWeights n) \<Longrightarrow> 0 \<le> x"
  by (auto simp: buildWindowWeights_def Let_def intro!: divide_nonneg_nonneg mult_nonneg_nonneg sum_list_nonneg split: if_splits)

lemma sum_list_divide: "sum_list (map (\<lambda>w. w / c) xs) = sum_list xs / (c :: rat)"
  by (induction xs) (simp_all add: add_divide_distrib)

lemma weights_sum:
  assumes "0 < n"
  shows "sum_list (buildWindowWeights n) = 1"
proof (cases "n = 1")
  case False
  let ?raw = "map (\<lambda>i. of_nat (i + 1) / of_nat n :: rat) [0..<n]"
  have "of_nat (n - 1 + 1) / of_nat n \<in> set ?raw"
    using assms by (auto intro!: image_eqI [of _ _ "n - 1"])
  moreover have "0 < (of_nat (n - 1 + 1) / of_nat n :: rat)" using assms by simp
  moreover have nonneg: "0 \<le> x" if "x \<in> set ?raw" for x using that by auto
  ultimately have "sum_list ?raw \<noteq> 0"
    using sum_list_nonneg_eq_0_iff [of ?raw, OF nonneg] by (metis less_irrefl)
  moreover have "buildWindowWeights n = map (\<lambda>w. w / sum_list ?raw) ?raw"
    using False by (simp add: buildWindowWeights_def Let_def)
  ultimately show ?thesis by (metis sum_list_divide divide_self)
qed (simp add: buildWindowWeights_def)

lemma weighted_between:
  assumes "length xs = length cs" "\<forall>x\<in>set xs. a \<le> x \<and> x \<le> (b :: rat)" "\<forall>c\<in>set cs. 0 \<le> c"
  shows "a * sum_list cs \<le> sum_list (map2 (*) xs cs) \<and> sum_list (map2 (*) xs cs) \<le> b * sum_list cs"
  using assms
proof (induction xs cs rule: list_induct2)
  case (Cons x xs c cs)
  then show ?case
    using mult_right_mono [of a x c] mult_right_mono [of x b c] by (auto simp: algebra_simps)
qed simp

lemma round1_between: "0 \<le> x \<Longrightarrow> x \<le> 100 \<Longrightarrow> 0 \<le> round1 x \<and> round1 x \<le> 100"
  by (simp add: round1_def js_round_def)

lemma DIMENSION_WEIGHTS_sum: "sum_list (map DIMENSION_WEIGHTS dimensions) = 1"
  by (simp add: dimensions_def)

text \<open>
  A session's result is on the scale of its windows: if every window scored every dimension
  between 0 and 100, so are all aggregated dimensions and the intelligence score, for any
  number of windows, none included.
\<close>

theorem aggregate_on_scale:
  assumes "\<forall>w\<in>set windows. \<forall>d. 0 \<le> w d \<and> w d \<le> 100"
  shows "0 \<le> ag_dimensions (aggregateWindows windows) d \<and> ag_dimensions (aggregateWindows windows) d \<le> 100
    \<and> 0 \<le> ag_intelligenceScore (aggregateWindows windows) \<and> ag_intelligenceScore (aggregateWindows windows) \<le> 100"
proof (cases "windows = []")
  case False
  let ?c = "buildWindowWeights (length windows)"
  let ?dim = "\<lambda>d. round1 (sum_list (map2 (\<lambda>w c. w d * c) windows ?c))"
  have dim: "0 \<le> ?dim d \<and> ?dim d \<le> 100" for d
  proof -
    have "map2 (\<lambda>w c. w d * c) windows ?c = map2 (*) (map (\<lambda>w. w d) windows) ?c"
      by (simp add: zip_map1 case_prod_unfold comp_def)
    moreover have "sum_list ?c = 1" using False by (simp add: weights_sum)
    ultimately show ?thesis
      using weighted_between [of "map (\<lambda>w. w d) windows" ?c 0 100] assms weights_nonneg
      by (intro round1_between) auto
  qed
  have "0 \<le> sum_list (map (\<lambda>d. ?dim d * DIMENSION_WEIGHTS d) dimensions)
      \<and> sum_list (map (\<lambda>d. ?dim d * DIMENSION_WEIGHTS d) dimensions) \<le> 100"
    using dim [of TopicKnowledge] dim [of TopicDepth] dim [of Coherence] dim [of LanguageQuality]
      dim [of Confidence] dim [of Originality]
    by (simp add: dimensions_def)
  with dim show ?thesis
    using False by (simp add: aggregateWindows_def Let_def round1_between)
qed (simp add: aggregateWindows_def)

theorem aggregate_on_scale_witness:
  "0 \<le> ag_intelligenceScore (aggregateWindows [\<lambda>_. 40, \<lambda>_. 80]) \<and> ag_intelligenceScore (aggregateWindows [\<lambda>_. 40, \<lambda>_. 80]) \<le> 100"
  using aggregate_on_scale [of "[\<lambda>_. 40, \<lambda>_. 80]"] by simp

end
