(* ===== verification/VoiceRtp.thy ===== *)
theory VoiceRtp
  imports Prelude "HOL-Library.Word"
begin

text \<open>
  The RTP parser of the VoiceIQ service (\<open>sources/rtp-parser.ts\<close>) over lists of bytes, and
  an encoder of RFC 3550 packets to state what it recovers.
\<close>

unbundle bit_operations_syntax

type_synonym byte = "8 word"

record rtp_packet =
  rt_ssrc :: "32 word"
  rt_sequenceNumber :: "16 word"
  rt_timestamp :: "32 word"
  rt_payloadType :: byte
  rt_payload :: "byte list"

definition readUInt16BE :: "byte list \<Rightarrow> nat \<Rightarrow> 16 word" where
  "readUInt16BE buf i = push_bit 8 (ucast (buf ! i)) OR ucast (buf ! (i + 1))"

definition readUInt32BE :: "byte list \<Rightarrow> nat \<Rightarrow> 32 word" where
  "readUInt32BE buf i = push_bit 24 (ucast (buf ! i)) OR push_bit 16 (ucast (buf ! (i + 1)))
     OR push_bit 8 (ucast (buf ! (i + 2))) OR ucast (buf ! (i + 3))"

definition parseRTP :: "byte list \<Rightarrow> rtp_packet option" where
  "parseRTP buf =
     (if length buf < 12 then None
      else if drop_bit 6 (buf ! 0) AND 3 \<noteq> 2 then None
      else
       (let hasExtension = (drop_bit 4 (buf ! 0) AND 1 \<noteq> 0);
            csrcCount = unat (buf ! 0 AND 15);
            payloadType = buf ! 1 AND 127;
            sequenceNumber = readUInt16BE buf 2;
            timestamp = readUInt32BE buf 4;
            ssrc = readUInt32BE buf 8;
            offset = 12 + csrcCount * 4
        in if hasExtension \<and> length buf < offset + 4 then None
           else
            (let offset' = (if hasExtension then offset + 4 + unat (readUInt16BE buf (offset + 2)) * 4 else offset)
             in if offset' \<ge> length buf then None
                else Some \<lparr>rt_ssrc = ssrc, rt_sequenceNumber = sequenceNumber, rt_timestamp = timestamp,
                           rt_payloadType = payloadType, rt_payload = drop offset' buf\<rparr>)))"

subsection \<open>Packets of RFC 3550\<close>

text \<open>
  A packet as the standard lays it out: padding and marker bits, contributing sources, an
  optional header extension of a profile word and 4-byte words, the fixed fields, the payload.
\<close>

record rtp_fields =
  rf_padding :: bool
  rf_marker :: bool
  rf_csrcs :: "32 word list"
  rf_extension :: "(16 word \<times> 32 word list) option"
  rf_packet :: rtp_packet

definition be16 :: "16 word \<Rightarrow> byte list" where
  "be16 w = [ucast (drop_bit 8 w), ucast w]"

definition be32 :: "32 word \<Rightarrow> byte list" where
  "be32 w = [ucast (drop_bit 24 w), ucast (drop_bit 16 w), ucast (drop_bit 8 w), ucast w]"

definition extension_bytes :: "(16 word \<times> 32 word list) option \<Rightarrow> byte list" where
  "extension_bytes e = (case e of None \<Rightarrow> []
     | Some (profile, ws) \<Rightarrow> be16 profile @ be16 (of_nat (length ws)) @ concat (map be32 ws))"

definition flags_byte :: "rtp_fields \<Rightarrow> byte" where
  "flags_byte f = 128 OR (if rf_padding f then 32 else 0) OR (if rf_extension f = None then 0 else 16)
     OR of_nat (length (rf_csrcs f))"

definition encodeRTP :: "rtp_fields \<Rightarrow> byte list" where
  "encodeRTP f = (let p = rf_packet f in
     [flags_byte f, (if rf_marker f then 128 else 0) OR rt_payloadType p]
     @ be16 (rt_sequenceNumber p) @ be32 (rt_timestamp p) @ be32 (rt_ssrc p)
     @ concat (map be32 (rf_csrcs f)) @ extension_bytes (rf_extension f) @ rt_payload p)"

text \<open>What the field widths allow, and a payload that is not empty.\<close>

definition rtp_ok :: "rtp_fields \<Rightarrow> bool" where
  "rtp_ok f \<longleftrightarrow> length (rf_csrcs f) \<le> 15 \<and> unat (rt_payloadType (rf_packet f)) < 128 \<and>
     (case rf_extension f of None \<Rightarrow> True | Some (_, ws) \<Rightarrow> length ws < 65536) \<and> rt_payload (rf_packet f) \<noteq> []"

subsection \<open>Bytes and words\<close>

lemma read_be16: "xs ! i = ucast (drop_bit 8 w) \<Longrightarrow> xs ! (i + 1) = ucast w \<Longrightarrow> readUInt16BE xs i = w"
  unfolding readUInt16BE_def by (auto intro!: bit_word_eqI simp: bit_simps)

lemma glue_be32:
  fixes w :: "32 word"
  shows "push_bit 24 (ucast (ucast (drop_bit 24 w) :: byte)) OR push_bit 16 (ucast (ucast (drop_bit 16 w) :: byte))
   OR push_bit 8 (ucast (ucast (drop_bit 8 w) :: byte)) OR ucast (ucast w :: byte) = w" (is "?l = w")
proof (rule bit_word_eqI)
  fix n assume "n < LENGTH(32)"
  then consider "n < 8" | "8 \<le> n" "n < 16" | "16 \<le> n" "n < 24" | "24 \<le> n" "n < 32" by force
  then show "bit ?l n = bit w n"
    by cases (auto simp: bit_simps)
qed

lemma read_be32:
  "xs ! i = ucast (drop_bit 24 w) \<Longrightarrow> xs ! (i + 1) = ucast (drop_bit 16 w) \<Longrightarrow>
   xs ! (i + 2) = ucast (drop_bit 8 w) \<Longrightarrow> xs ! (i + 3) = ucast w \<Longrightarrow> readUInt32BE xs i = w"
  unfolding readUInt32BE_def by (simp only: glue_be32)

lemma length_be32s [simp]: "length (concat (map be32 ws)) = 4 * length ws"
  by (induction ws) (simp_all add: be32_def)

lemma length_be [simp]: "length (be16 w) = 2" "length (be32 v) = 4"
  by (simp_all add: be16_def be32_def)

lemma low_bits:
  assumes "n \<le> 15"
  shows "(128 OR (if p then 32 else 0) OR (if e then 16 else 0) OR of_nat n :: byte) AND 15 = of_nat n"
    and "drop_bit 6 (128 OR (if p then 32 else 0) OR (if e then 16 else 0) OR of_nat n :: byte) AND 3 = 2"
    and "(drop_bit 4 (128 OR (if p then 32 else 0) OR (if e then 16 else 0) OR of_nat n :: byte) AND 1 \<noteq> 0) = e"
proof -
  have "n \<in> {0, 1, 2, 3, 4, 5, 6, 7, 8, 9, 10, 11, 12, 13, 14, 15}"
    using assms by (simp only: insert_iff empty_iff) arith
  then show "(128 OR (if p then 32 else 0) OR (if e then 16 else 0) OR of_nat n :: byte) AND 15 = of_nat n"
    "drop_bit 6 (128 OR (if p then 32 else 0) OR (if e then 16 else 0) OR of_nat n :: byte) AND 3 = 2"
    "(drop_bit 4 (128 OR (if p then 32 else 0) OR (if e then 16 else 0) OR of_nat n :: byte) AND 1 \<noteq> 0) = e"
    by (cases p; cases e; auto)+
qed

lemma payload_type: "unat w < 128 \<Longrightarrow> ((if m then 128 else 0) OR w) AND 127 = (w :: byte)"
proof -
  assume "unat w < 128"
  then have "take_bit 7 w = w"
    by (simp add: word_unat_eq_iff unsigned_take_bit_eq take_bit_nat_eq_self)
  then have "w AND 127 = w" by (simp add: take_bit_eq_mask mask_eq_exp_minus_1)
  moreover have "((if m then 128 else 0) OR w) AND 127 = w AND 127"
    by (simp add: bit.conj_disj_distrib2)
  ultimately show ?thesis by simp
qed

lemma encoded_tail:
  "drop (12 + length (concat (map be32 (rf_csrcs f)))) (encodeRTP f) = extension_bytes (rf_extension f) @ rt_payload (rf_packet f)"
proof -
  let ?head = "[flags_byte f, (if rf_marker f then 128 else 0) OR rt_payloadType (rf_packet f)]
     @ be16 (rt_sequenceNumber (rf_packet f)) @ be32 (rt_timestamp (rf_packet f)) @ be32 (rt_ssrc (rf_packet f))"
  let ?cs = "concat (map be32 (rf_csrcs f))"
  have "length (?head @ ?cs) = 12 + length ?cs" by simp
  moreover have "encodeRTP f = (?head @ ?cs) @ (extension_bytes (rf_extension f) @ rt_payload (rf_packet f))"
    by (simp add: encodeRTP_def Let_def)
  ultimately show ?thesis by (metis append_eq_conv_conj)
qed

lemma encoded_extension:
  assumes "rf_extension f = Some (profile, ws)" "length ws < 65536"
  defines "n \<equiv> length (concat (map be32 (rf_csrcs f)))"
  shows "unat (readUInt16BE (encodeRTP f) (12 + n + 2)) = length ws"
    and "drop (12 + n + 4 + length ws * 4) (encodeRTP f) = rt_payload (rf_packet f)"
    and "length (extension_bytes (rf_extension f)) = 4 + length ws * 4"
proof -
  have eb: "extension_bytes (rf_extension f) = be16 profile @ be16 (of_nat (length ws)) @ concat (map be32 ws)"
    using assms(1) by (simp add: extension_bytes_def)
  have "readUInt16BE (encodeRTP f) (12 + n + 2) = of_nat (length ws)"
    by (rule read_be16) (simp_all add: n_def encodeRTP_def Let_def eb be16_def be32_def nth_append)
  then show "unat (readUInt16BE (encodeRTP f) (12 + n + 2)) = length ws" using assms(2) by (simp add: unat_of_nat)
  have "drop (12 + n + 4 + length ws * 4) (encodeRTP f) = drop (4 + length ws * 4) (drop (12 + n) (encodeRTP f))"
    by (simp add: ac_simps)
  also have "\<dots> = rt_payload (rf_packet f)" unfolding n_def by (simp only: encoded_tail) (simp add: eb)
  finally show "drop (12 + n + 4 + length ws * 4) (encodeRTP f) = rt_payload (rf_packet f)" .
  show "length (extension_bytes (rf_extension f)) = 4 + length ws * 4" by (simp add: eb)
qed



end
