(* ===== verification/VoiceBuffer.thy ===== *)
theory VoiceBuffer
  imports JsValue VoiceRtp
begin

text \<open>
  The audio buffer pool of the VoiceIQ service (\<open>sources/audio-buffer.ts\<close>): chunks of each
  participant collect until they hold 30 seconds, then become one window for the scoring
  queue. A duration is a JavaScript number, so a sample rate of zero gives infinity or NaN.
\<close>

datatype js_num = Num rat | Inf | NaN

fun js_div :: "nat \<Rightarrow> nat \<Rightarrow> js_num" where
  "js_div a b = (if b = 0 then if a = 0 then NaN else Inf else Num (of_nat a / of_nat b))"

fun js_add :: "js_num \<Rightarrow> js_num \<Rightarrow> js_num" where
  "js_add (Num a) (Num b) = Num (a + b)"
| "js_add NaN _ = NaN"
| "js_add _ NaN = NaN"
| "js_add _ _ = Inf"

fun js_ge :: "js_num \<Rightarrow> rat \<Rightarrow> bool" where
  "js_ge (Num a) b = (b \<le> a)"
| "js_ge Inf b = True"
| "js_ge NaN b = False"

datatype audio_format = Opus | Pcm16le

fun format_name :: "audio_format \<Rightarrow> string" where
  "format_name Opus = ''opus''"
| "format_name Pcm16le = ''pcm16le''"

record audio_chunk =
  ac_participantId :: string
  ac_sessionId :: string
  ac_data :: "byte list"
  ac_format :: audio_format
  ac_sampleRate :: nat
  ac_timestamp :: int

record transcript_window =
  tw_participantId :: string
  tw_sessionId :: string
  tw_transcript :: string
  tw_embedding :: "rat list"
  tw_rubricId :: "string option"

record buffer_entry =
  be_chunks :: "byte list list"
  be_durationSec :: js_num

text \<open>The pool: its buffers by key, and the windows queued for scoring (and emitted), oldest first.\<close>

record buffer_pool =
  bp_buffers :: "string \<rightharpoonup> buffer_entry"
  bp_windows :: "transcript_window list"

definition pool_init :: buffer_pool where
  "pool_init = \<lparr>bp_buffers = Map.empty, bp_windows = []\<rparr>"

definition windowSeconds :: rat where "windowSeconds = 30"

definition bufferKey :: "string \<Rightarrow> string \<Rightarrow> string" where
  "bufferKey participantId sessionId = sessionId @ '':'' @ participantId"

definition estimateDuration :: "audio_chunk \<Rightarrow> js_num" where
  "estimateDuration chunk =
     (if ac_format chunk = Pcm16le then js_div (length (ac_data chunk)) (ac_sampleRate chunk * 2)
      else js_div (length (ac_data chunk)) 3000)"

definition flush_window :: "string \<Rightarrow> string \<Rightarrow> buffer_entry \<Rightarrow> audio_chunk \<Rightarrow> transcript_window" where
  "flush_window participantId sessionId entry lastChunk =
     \<lparr>tw_participantId = participantId, tw_sessionId = sessionId,
      tw_transcript = ''[audio_buffer:'' @ nat_str (length (concat (be_chunks entry))) @ ''B:''
        @ format_name (ac_format lastChunk) @ ''@'' @ nat_str (ac_sampleRate lastChunk) @ ''Hz]'',
      tw_embedding = [], tw_rubricId = None\<rparr>"

definition push :: "audio_chunk \<Rightarrow> buffer_pool \<Rightarrow> buffer_pool" where
  "push chunk s =
     (let key = bufferKey (ac_participantId chunk) (ac_sessionId chunk);
          old = (case bp_buffers s key of None \<Rightarrow> \<lparr>be_chunks = [], be_durationSec = Num 0\<rparr> | Some e \<Rightarrow> e);
          entry = \<lparr>be_chunks = be_chunks old @ [ac_data chunk],
                   be_durationSec = js_add (be_durationSec old) (estimateDuration chunk)\<rparr>;
          s1 = s\<lparr>bp_buffers := (bp_buffers s)(key \<mapsto> entry)\<rparr>
      in if js_ge (be_durationSec entry) windowSeconds then
           s1\<lparr>bp_windows := bp_windows s1 @ [flush_window (ac_participantId chunk) (ac_sessionId chunk) entry chunk],
              bp_buffers := (bp_buffers s1)(key := None)\<rparr>
         else s1)"

definition pushTranscript :: "transcript_window \<Rightarrow> buffer_pool \<Rightarrow> buffer_pool" where
  "pushTranscript w s = s\<lparr>bp_windows := bp_windows s @ [w]\<rparr>"

definition clear_buffer :: "string \<Rightarrow> string \<Rightarrow> buffer_pool \<Rightarrow> buffer_pool" where
  "clear_buffer participantId sessionId s =
     s\<lparr>bp_buffers := (bp_buffers s)(bufferKey participantId sessionId := None)\<rparr>"

subsection \<open>The specification: one participant's stream cut into windows\<close>

text \<open>
  \<open>segments buf d cs\<close> cuts a stream of chunks, of which \<open>buf\<close> with duration \<open>d\<close> is already
  held: a segment ends at the chunk that brings it to 30 seconds. It gives the finished
  segments, each with its last chunk, and what stays held.
\<close>

fun segments :: "byte list list \<Rightarrow> js_num \<Rightarrow> audio_chunk list \<Rightarrow>
    (byte list list \<times> audio_chunk) list \<times> buffer_entry" where
  "segments buf d [] = ([], \<lparr>be_chunks = buf, be_durationSec = d\<rparr>)"
| "segments buf d (c # cs) =
     (let buf' = buf @ [ac_data c]; d' = js_add d (estimateDuration c)
      in if js_ge d' windowSeconds
         then (case segments [] (Num 0) cs of (done_segs, rest) \<Rightarrow> ((buf', c) # done_segs, rest))
         else segments buf' d' cs)"

definition segment_window :: "string \<Rightarrow> string \<Rightarrow> byte list list \<times> audio_chunk \<Rightarrow> transcript_window" where
  "segment_window p s seg = flush_window p s \<lparr>be_chunks = fst seg, be_durationSec = Num 0\<rparr> (snd seg)"

definition of_speaker :: "string \<Rightarrow> string \<Rightarrow> audio_chunk \<Rightarrow> bool" where
  "of_speaker p s c \<longleftrightarrow> ac_participantId c = p \<and> ac_sessionId c = s"

definition windows_of :: "string \<Rightarrow> string \<Rightarrow> buffer_pool \<Rightarrow> transcript_window list" where
  "windows_of p s pool = filter (\<lambda>w. tw_participantId w = p \<and> tw_sessionId w = s) (bp_windows pool)"

definition held :: "string \<Rightarrow> string \<Rightarrow> buffer_pool \<Rightarrow> buffer_entry" where
  "held p s pool = (case bp_buffers pool (bufferKey p s) of
     None \<Rightarrow> \<lparr>be_chunks = [], be_durationSec = Num 0\<rparr> | Some e \<Rightarrow> e)"

lemma bufferKey_inj:
  assumes "CHR '':'' \<notin> set s" "CHR '':'' \<notin> set s'" "bufferKey p s = bufferKey p' s'"
  shows "p = p' \<and> s = s'"
  using assms
proof (induction s arbitrary: s')
  case Nil
  then show ?case by (cases s') (auto simp: bufferKey_def)
next
  case (Cons a s)
  then show ?case by (cases s') (auto simp: bufferKey_def)
qed

lemma segments_all:
  "segments buf d cs = (segs, rest) \<Longrightarrow> concat (map fst segs) @ be_chunks rest = buf @ map ac_data cs"
proof (induction buf d cs arbitrary: segs rest rule: segments.induct)
  case (2 buf d c cs)
  then show ?case by (fastforce simp: Let_def split: if_splits prod.splits)
qed simp

lemma push_own:
  assumes "of_speaker p s c"
  shows "(windows_of p s (push c pool), held p s (push c pool)) =
    (case segments (be_chunks (held p s pool)) (be_durationSec (held p s pool)) [c] of
       (segs, rest) \<Rightarrow> (windows_of p s pool @ map (segment_window p s) segs, rest))"
  using assms
  by (cases "bp_buffers pool (bufferKey p s)")
    (auto simp: push_def of_speaker_def windows_of_def held_def Let_def segment_window_def flush_window_def)

lemma push_other:
  assumes "\<not> of_speaker p s c" "CHR '':'' \<notin> set s" "CHR '':'' \<notin> set (ac_sessionId c)"
  shows "windows_of p s (push c pool) = windows_of p s pool" "held p s (push c pool) = held p s pool"
proof -
  have "bufferKey (ac_participantId c) (ac_sessionId c) \<noteq> bufferKey p s"
    using bufferKey_inj [of "ac_sessionId c" s "ac_participantId c" p] assms by (auto simp: of_speaker_def)
  then show "windows_of p s (push c pool) = windows_of p s pool" "held p s (push c pool) = held p s pool"
    using assms(1) by (auto simp: push_def Let_def windows_of_def held_def of_speaker_def flush_window_def)
qed

lemma segments_split:
  "segments buf d (c # cs) =
    (case segments buf d [c] of (segs, rest) \<Rightarrow>
      (case segments (be_chunks rest) (be_durationSec rest) cs of (segs', rest') \<Rightarrow> (segs @ segs', rest')))"
  by (simp add: Let_def split: prod.split)

lemma pushes_refine:
  assumes "CHR '':'' \<notin> set s" "\<forall>c\<in>set cs. CHR '':'' \<notin> set (ac_sessionId c)"
  shows "(windows_of p s (fold push cs pool), held p s (fold push cs pool)) =
    (case segments (be_chunks (held p s pool)) (be_durationSec (held p s pool)) (filter (of_speaker p s) cs) of
       (segs, rest) \<Rightarrow> (windows_of p s pool @ map (segment_window p s) segs, rest))"
  using assms(2)
proof (induction cs arbitrary: pool)
  case Nil
  then show ?case by (cases "held p s pool") simp
next
  case (Cons c cs)
  show ?case
  proof (cases "of_speaker p s c")
    case True
    obtain segs rest where seg: "segments (be_chunks (held p s pool)) (be_durationSec (held p s pool)) [c] = (segs, rest)"
      by fastforce
    have "windows_of p s (push c pool) = windows_of p s pool @ map (segment_window p s) segs"
      "held p s (push c pool) = rest"
      using push_own [OF True, of pool] seg by (simp_all del: segments.simps)
    then show ?thesis
      using Cons.IH [of "push c pool"] Cons.prems True seg
      by (simp add: segments_split [of _ _ c "filter (of_speaker p s) cs"] del: segments.simps split: prod.splits)
  next
    case False
    then show ?thesis
      using Cons.IH [of "push c pool"] Cons.prems push_other [OF False assms(1), of pool] by simp
  qed
qed

text \<open>
  C27. The pool implements the cutting of each speaker's stream. However the chunks of many speakers
  and sessions interleave, the windows queued for one of them are exactly the segments of that
  speaker's own chunks, in order, the rest is what the buffer holds, and together they are
  the speaker's audio: nothing is lost, duplicated, reordered or taken from someone else.
\<close>

theorem windows_are_segments:
  assumes "CHR '':'' \<notin> set s" "\<forall>c\<in>set cs. CHR '':'' \<notin> set (ac_sessionId c)"
  shows "\<exists>segs. windows_of p s (fold push cs pool_init) = map (segment_window p s) segs
    \<and> segments [] (Num 0) (filter (of_speaker p s) cs) = (segs, held p s (fold push cs pool_init))
    \<and> concat (map fst segs) @ be_chunks (held p s (fold push cs pool_init)) = map ac_data (filter (of_speaker p s) cs)"
proof -
  obtain segs rest where seg: "segments [] (Num 0) (filter (of_speaker p s) cs) = (segs, rest)" by fastforce
  have "windows_of p s pool_init = []" "held p s pool_init = \<lparr>be_chunks = [], be_durationSec = Num 0\<rparr>"
    by (simp_all add: windows_of_def held_def pool_init_def)
  with pushes_refine [OF assms, of p pool_init] seg segments_all [OF seg] show ?thesis by simp
qed

theorem windows_are_segments_witness:
  "\<exists>segs. windows_of ''p1'' ''s1'' (push \<lparr>ac_participantId = ''p1'', ac_sessionId = ''s1'', ac_data = [1, 2],
       ac_format = Pcm16le, ac_sampleRate = 48000, ac_timestamp = 0\<rparr> pool_init) = map (segment_window ''p1'' ''s1'') segs"
  using windows_are_segments [of "''s1''" "[\<lparr>ac_participantId = ''p1'', ac_sessionId = ''s1'', ac_data = [1, 2],
       ac_format = Pcm16le, ac_sampleRate = 48000, ac_timestamp = 0\<rparr>]" "''p1''"] by auto

end
