(* ===== verification/RtcRegistry.thy ===== *)
theory RtcRegistry
  imports JsValue "HOL-Library.AList"
begin

text \<open>
  The rtc service's rooms: its Redis metadata (\<open>core/redis/keys.ts\<close>, \<open>peer/peer.repository.ts\<close>,
  \<open>room/room.repository.ts\<close>) and the registry of the rooms an instance hosts
  (\<open>room/room-registry.ts\<close>). The Redis store is shared by all instances; what other instances
  do to it between two awaits of \<open>getOrCreateLocalRoom\<close> is an argument, as are the outcomes of
  mediasoup's calls, where \<open>None\<close> is a call that throws.
\<close>

subsection \<open>Redis\<close>

datatype media_event =
    ProducerAdded string string string string
  | ProducerRemoved string string string
  | TapConsumerAdded string string "string option" string string string int

record rtc_redis =
  rr_room :: "string \<Rightarrow> fields"
  rr_owner :: "string \<Rightarrow> string option"
  rr_peers :: "string \<Rightarrow> string list"
  rr_peer :: "string \<Rightarrow> fields"
  rr_active :: "string \<Rightarrow> string option"
  rr_events :: "(string \<times> media_event) list"

definition rtc_redis_empty :: rtc_redis where
  "rtc_redis_empty = \<lparr>rr_room = (\<lambda>_. []), rr_owner = (\<lambda>_. None), rr_peers = (\<lambda>_. []),
     rr_peer = (\<lambda>_. []), rr_active = (\<lambda>_. None), rr_events = []\<rparr>"

record peer_record =
  pe_id :: string
  pe_roomId :: string
  pe_joinedAt :: string
  pe_rtcInstanceId :: "string option"
  pe_socketId :: "string option"

definition savePeer :: "string \<Rightarrow> peer_record \<Rightarrow> rtc_redis \<Rightarrow> rtc_redis" where
  "savePeer instanceId rec r =
     r\<lparr>rr_peer := (rr_peer r)(pe_id rec :=
          set_field ''socketId'' (nullish_or (pe_socketId rec) [])
            (set_field ''rtcInstanceId'' (nullish_or (pe_rtcInstanceId rec) instanceId)
              (set_field ''joinedAt'' (pe_joinedAt rec)
                (set_field ''roomId'' (pe_roomId rec) (rr_peer r (pe_id rec)))))),
       rr_peers := (rr_peers r)(pe_roomId rec := set_add (pe_id rec) (rr_peers r (pe_roomId rec)))\<rparr>"

definition deletePeer :: "string \<Rightarrow> string \<Rightarrow> rtc_redis \<Rightarrow> rtc_redis" where
  "deletePeer peerId roomId r =
     r\<lparr>rr_peer := (rr_peer r)(peerId := []),
       rr_peers := (rr_peers r)(roomId := removeAll peerId (rr_peers r roomId))\<rparr>"

definition clearUserActiveRtcRoomIfMatches :: "string \<Rightarrow> string \<Rightarrow> rtc_redis \<Rightarrow> rtc_redis" where
  "clearUserActiveRtcRoomIfMatches userId roomId r =
     (if rr_active r userId = Some roomId then r\<lparr>rr_active := (rr_active r)(userId := None)\<rparr> else r)"

definition getPeer :: "string \<Rightarrow> rtc_redis \<Rightarrow> peer_record option" where
  "getPeer peerId r =
     (let h = rr_peer r peerId
      in if h = [] then None
         else Some \<lparr>pe_id = peerId, pe_roomId = nullish_or (map_of h ''roomId'') [],
                    pe_joinedAt = nullish_or (map_of h ''joinedAt'') [],
                    pe_rtcInstanceId = map_of h ''rtcInstanceId'',
                    pe_socketId = (if truthy (map_of h ''socketId'') then map_of h ''socketId'' else None)\<rparr>)"

definition listPeerIdsInRoom :: "string \<Rightarrow> rtc_redis \<Rightarrow> string list" where
  "listPeerIdsInRoom roomId r = rr_peers r roomId"

definition publishRoomMediaEvent :: "string \<Rightarrow> media_event \<Rightarrow> rtc_redis \<Rightarrow> rtc_redis" where
  "publishRoomMediaEvent roomId e r = r\<lparr>rr_events := rr_events r @ [(roomId, e)]\<rparr>"

record room_record =
  ro_id :: string
  ro_createdAt :: string
  ro_routerId :: "string option"
  ro_ownerInstanceId :: "string option"
  ro_updatedAt :: "string option"

definition getRoomRecord :: "string \<Rightarrow> rtc_redis \<Rightarrow> room_record option" where
  "getRoomRecord roomId r =
     (let h = rr_room r roomId
      in if h = [] then None
         else Some \<lparr>ro_id = roomId, ro_createdAt = nullish_or (map_of h ''createdAt'') [],
                    ro_routerId = map_of h ''routerId'', ro_ownerInstanceId = map_of h ''ownerInstanceId'',
                    ro_updatedAt = map_of h ''updatedAt''\<rparr>)"

subsection \<open>The registry\<close>

record local_room =
  lr_roomId :: string
  lr_router :: string
  lr_listener :: bool

record registry =
  rg_redis :: rtc_redis
  rg_local :: "string \<Rightarrow> local_room option"
  rg_closed :: "string list"

datatype local_room_result = RoomHere local_room | WrongInstance string | CreateThrew

text \<open>
  What a call finds outside the service: the instance's id, the clock and its ISO text, the
  router mediasoup creates, whether its level observer can be created, and what the other
  instances do to Redis at the first and the second await after the owner was read.
\<close>

record rtc_env =
  rv_instance :: string
  rv_now :: int
  rv_iso :: "int \<Rightarrow> string"
  rv_router :: "string option"
  rv_observer :: bool
  rv_others :: "nat \<Rightarrow> rtc_redis \<Rightarrow> rtc_redis"

definition getLocalRoom :: "string \<Rightarrow> registry \<Rightarrow> local_room option" where
  "getLocalRoom roomId s = rg_local s roomId"

definition teardownLocalRoom :: "string \<Rightarrow> registry \<Rightarrow> registry" where
  "teardownLocalRoom roomId s = (case rg_local s roomId of
      None \<Rightarrow> s
    | Some existing \<Rightarrow>
        s\<lparr>rg_closed := rg_closed s @ [lr_router existing], rg_local := (rg_local s)(roomId := None)\<rparr>)"

definition forceClear :: "string \<Rightarrow> rtc_redis \<Rightarrow> rtc_redis" where
  "forceClear roomId r =
     r\<lparr>rr_owner := (rr_owner r)(roomId := None), rr_room := (rr_room r)(roomId := []),
       rr_peers := (rr_peers r)(roomId := [])\<rparr>"

definition forceClearRoomRedis :: "string \<Rightarrow> registry \<Rightarrow> registry" where
  "forceClearRoomRedis roomId s = s\<lparr>rg_redis := forceClear roomId (rg_redis s)\<rparr>"

definition releaseRoom :: "rtc_env \<Rightarrow> string \<Rightarrow> registry \<Rightarrow> registry" where
  "releaseRoom env roomId s =
     teardownLocalRoom roomId
       (if rr_owner (rg_redis s) roomId = Some (rv_instance env) then forceClearRoomRedis roomId s else s)"

text \<open>\<open>getOrCreateLocalRoom\<close> from the creation of the router on.\<close>

definition create_room :: "rtc_env \<Rightarrow> string \<Rightarrow> registry \<Rightarrow> local_room_result \<times> registry" where
  "create_room env roomId s = (case rv_router env of
      None \<Rightarrow> (CreateThrew, s)
    | Some router \<Rightarrow>
        if \<not> rv_observer env then (CreateThrew, s)
        else
         (let room = \<lparr>lr_roomId = roomId, lr_router = router, lr_listener = False\<rparr>;
              h = rr_room (rg_redis s) roomId;
              createdAtIso = nullish_or (map_of h ''createdAt'') (rv_iso env (rv_now env));
              h' = set_field ''createdAt'' createdAtIso (set_field ''updatedAt'' (int_str (rv_now env))
                     (set_field ''ownerInstanceId'' (rv_instance env) (set_field ''routerId'' router h)))
          in (RoomHere room,
              s\<lparr>rg_local := (rg_local s)(roomId \<mapsto> room),
                rg_redis := (rg_redis s)\<lparr>rr_room := (rr_room (rg_redis s))(roomId := h')\<rparr>\<rparr>)))"

text \<open>The claim of a room whose owner the call found missing or has cleared: \<open>SET NX\<close>, and a second read if it fails.\<close>

definition take_room :: "rtc_env \<Rightarrow> string \<Rightarrow> registry \<Rightarrow> local_room_result \<times> registry" where
  "take_room env roomId s =
     (let s1 = s\<lparr>rg_redis := rv_others env 0 (rg_redis s)\<rparr>
      in if rr_owner (rg_redis s1) roomId = None then
           create_room env roomId
             (s1\<lparr>rg_redis := (rg_redis s1)\<lparr>rr_owner := (rr_owner (rg_redis s1))(roomId \<mapsto> rv_instance env)\<rparr>\<rparr>)
         else
          (let s2 = s1\<lparr>rg_redis := rv_others env 1 (rg_redis s1)\<rparr>; owner = rr_owner (rg_redis s2) roomId
           in if truthy owner \<and> owner \<noteq> Some (rv_instance env) then (WrongInstance (the owner), s2)
              else create_room env roomId s2))"

definition claim_room :: "rtc_env \<Rightarrow> string \<Rightarrow> registry \<Rightarrow> local_room_result \<times> registry" where
  "claim_room env roomId s =
     (let owner = rr_owner (rg_redis s) roomId
      in if truthy owner \<and> owner \<noteq> Some (rv_instance env) then
           if rr_peers (rg_redis s) roomId = [] then take_room env roomId (forceClearRoomRedis roomId s)
           else (WrongInstance (the owner), s)
         else if truthy owner then create_room env roomId s
         else take_room env roomId s)"

definition getOrCreateLocalRoom :: "rtc_env \<Rightarrow> string \<Rightarrow> registry \<Rightarrow> local_room_result \<times> registry" where
  "getOrCreateLocalRoom env roomId s = (case rg_local s roomId of
      None \<Rightarrow> claim_room env roomId s
    | Some cached \<Rightarrow>
        if rr_owner (rg_redis s) roomId = Some (rv_instance env) then (RoomHere cached, s)
        else claim_room env roomId (teardownLocalRoom roomId s))"

end
