(* ===== verification/RtcSpeaker.thy ===== *)
theory RtcSpeaker
  imports JsValue "HOL-Library.AList"
begin

text \<open>
  The dominant-speaker coordinator of the rtc service (\<open>peer/dominant-speaker.ts\<close>). A producer
  is what the service reads of mediasoup's object. Every clock reading of the code is an
  argument.
\<close>

datatype media_kind = Audio | Video
datatype media_source = Camera | Screen

record producer =
  pr_id :: string
  pr_kind :: media_kind
  pr_paused :: bool
  pr_appData :: json

definition mediaSourceFromProducerAppData :: "json \<Rightarrow> media_source" where
  "mediaSourceFromProducerAppData appData =
     (case appData of
        JObj fs \<Rightarrow> (if jget fs ''mediaSource'' = JStr ''screen'' then Screen else Camera)
      | _ \<Rightarrow> Camera)"

definition isMicProducerForDominantUI :: "'a producer_scheme \<Rightarrow> bool" where
  "isMicProducerForDominantUI p =
     (if pr_kind p \<noteq> Audio then False else mediaSourceFromProducerAppData (pr_appData p) \<noteq> Screen)"

record speaking_state =
  ss_currentPeerId :: "string option"
  ss_currentSinceMs :: "int option"
  ss_speakingMsByPeer :: "string \<rightharpoonup> int"

record speaker_payload =
  sk_peerId :: "string option"
  sk_speakingMsByPeer :: "string \<rightharpoonup> int"

record speaker =
  sp_lastPeerIdByRoom :: "string \<rightharpoonup> string option"
  sp_speakingByRoom :: "string \<rightharpoonup> speaking_state"
  sp_sent :: "(string \<times> speaker_payload) list"

definition speaker_init :: speaker where
  "speaker_init = \<lparr>sp_lastPeerIdByRoom = Map.empty, sp_speakingByRoom = Map.empty, sp_sent = []\<rparr>"

text \<open>The producer of the largest volume, the first of several equal ones.\<close>

definition louder :: "string \<times> int \<Rightarrow> string \<times> int \<Rightarrow> string \<times> int" where
  "louder v best = (if snd v > snd best then v else best)"

definition producerIdOfLoudestVolume :: "(string \<times> int) list \<Rightarrow> string option" where
  "producerIdOfLoudestVolume volumes = (case volumes of
      [] \<Rightarrow> None
    | v # vs \<Rightarrow> Some (fst (fold louder vs v)))"

definition speakingMsSnapshot :: "speaking_state \<Rightarrow> int \<Rightarrow> string \<rightharpoonup> int" where
  "speakingMsSnapshot state nowMs =
     (if truthy (ss_currentPeerId state) \<and> ss_currentSinceMs state \<noteq> None
      then (let peerId = the (ss_currentPeerId state);
                extra = max 0 (nowMs - the (ss_currentSinceMs state))
            in (ss_speakingMsByPeer state)(peerId \<mapsto> nullish_or (ss_speakingMsByPeer state peerId) 0 + extra))
      else ss_speakingMsByPeer state)"

definition roomSpeakingState :: "string \<Rightarrow> speaker \<Rightarrow> speaking_state" where
  "roomSpeakingState roomId s = (case sp_speakingByRoom s roomId of
      Some st \<Rightarrow> st
    | None \<Rightarrow> \<lparr>ss_currentPeerId = None, ss_currentSinceMs = None, ss_speakingMsByPeer = Map.empty\<rparr>)"

text \<open>\<open>flushSpeakingSegment\<close>, at its reading of the clock.\<close>

definition flushSpeakingSegment :: "int \<Rightarrow> string \<Rightarrow> speaker \<Rightarrow> speaker" where
  "flushSpeakingSegment now roomId s = (case sp_speakingByRoom s roomId of
      None \<Rightarrow> s
    | Some st \<Rightarrow>
        if \<not> truthy (ss_currentPeerId st) \<or> ss_currentSinceMs st = None then s
        else
          (let elapsed = max 0 (now - the (ss_currentSinceMs st));
               peerId = the (ss_currentPeerId st);
               totalMs = nullish_or (ss_speakingMsByPeer st peerId) 0 + elapsed
           in s\<lparr>sp_speakingByRoom := (sp_speakingByRoom s)(roomId \<mapsto>
                  st\<lparr>ss_speakingMsByPeer := (ss_speakingMsByPeer st)(peerId \<mapsto> totalMs), ss_currentSinceMs := None\<rparr>)\<rparr>))"

definition last_peer :: "string \<Rightarrow> speaker \<Rightarrow> string option" where
  "last_peer roomId s = (case sp_lastPeerIdByRoom s roomId of None \<Rightarrow> None | Some p \<Rightarrow> p)"

text \<open>
  The clock is read when the segment is flushed, when the new one starts and when the totals
  are taken.
\<close>

record clock3 =
  t_flush :: int
  t_since :: int
  t_snap :: int

definition broadcastIfChanged :: "clock3 \<Rightarrow> string \<Rightarrow> string option \<Rightarrow> speaker \<Rightarrow> speaker" where
  "broadcastIfChanged t roomId peerId s =
     (if last_peer roomId s = peerId then s
      else
       (let s1 = flushSpeakingSegment (t_flush t) roomId s;
            st = (roomSpeakingState roomId s1)\<lparr>ss_currentPeerId := peerId,
                   ss_currentSinceMs := (if truthy peerId then Some (t_since t) else None)\<rparr>
        in s1\<lparr>sp_speakingByRoom := (sp_speakingByRoom s1)(roomId \<mapsto> st),
              sp_lastPeerIdByRoom := (sp_lastPeerIdByRoom s1)(roomId \<mapsto> peerId),
              sp_sent := sp_sent s1 @ [(roomId, \<lparr>sk_peerId = peerId, sk_speakingMsByPeer = speakingMsSnapshot st (t_snap t)\<rparr>)]\<rparr>))"

definition clearHighlightIfUser :: "clock3 \<Rightarrow> string \<Rightarrow> string \<Rightarrow> speaker \<Rightarrow> speaker" where
  "clearHighlightIfUser t roomId userId s =
     (if sp_lastPeerIdByRoom s roomId = Some (Some userId) then broadcastIfChanged t roomId None s else s)"

definition currentHighlightedPeerId :: "string \<Rightarrow> speaker \<Rightarrow> string option" where
  "currentHighlightedPeerId roomId s = last_peer roomId s"

definition forgetRoom :: "string \<Rightarrow> speaker \<Rightarrow> speaker" where
  "forgetRoom roomId s =
     s\<lparr>sp_lastPeerIdByRoom := (sp_lastPeerIdByRoom s)(roomId := None),
       sp_speakingByRoom := (sp_speakingByRoom s)(roomId := None)\<rparr>"

text \<open>The observer's two events.\<close>

definition on_volumes ::
  "(string \<Rightarrow> string option) \<Rightarrow> clock3 \<Rightarrow> string \<Rightarrow> (string \<times> int) list \<Rightarrow> speaker \<Rightarrow> speaker" where
  "on_volumes resolvePeerId t roomId volumes s =
     (if volumes = [] then broadcastIfChanged t roomId None s
      else case producerIdOfLoudestVolume volumes of
        None \<Rightarrow> s
      | Some producerId \<Rightarrow>
          if producerId = [] \<or> \<not> truthy (resolvePeerId producerId) then s
          else broadcastIfChanged t roomId (resolvePeerId producerId) s)"

definition on_silence :: "clock3 \<Rightarrow> string \<Rightarrow> speaker \<Rightarrow> speaker" where
  "on_silence t roomId s = broadcastIfChanged t roomId None s"

subsection \<open>The loudest\<close>

lemma louder_eq: "louder v best = v \<or> louder v best = best"
  and louder_ge: "snd best \<le> snd (louder v best)" "snd v \<le> snd (louder v best)"
  by (auto simp: louder_def)

lemma fold_loudest_mem: "fold louder vs v \<in> insert v (set vs)"
proof (induction vs arbitrary: v)
  case (Cons a vs)
  show ?case using Cons.IH [of "louder a v"] louder_eq [of a v] by auto
qed simp

lemma fold_louder_head: "snd v \<le> snd (fold louder vs v)"
proof (induction vs arbitrary: v)
  case (Cons a vs)
  show ?case using Cons.IH [of "louder a v"] louder_ge [where v = a and best = v] by simp
qed simp

lemma fold_loudest_ge: "w \<in> insert v (set vs) \<Longrightarrow> snd w \<le> snd (fold louder vs v)"
proof (induction vs arbitrary: v)
  case (Cons a vs)
  have "snd (louder a v) \<le> snd (fold louder vs (louder a v))" by (rule fold_louder_head)
  then show ?case using Cons.prems Cons.IH [of "louder a v"] louder_ge [where v = a and best = v] by auto
qed simp

lemma loudest_max:
  "producerIdOfLoudestVolume vs = Some p \<Longrightarrow> \<exists>x. (p, x) \<in> set vs \<and> (\<forall>w\<in>set vs. snd w \<le> x)"
proof (cases vs)
  case (Cons v us)
  assume "producerIdOfLoudestVolume vs = Some p"
  then have "fst (fold louder us v) = p" by (simp add: producerIdOfLoudestVolume_def Cons)
  then show ?thesis
    using fold_loudest_mem [of us v] fold_loudest_ge [of _ v us]
    by (intro exI [of _ "snd (fold louder us v)"]) (auto simp: Cons prod_eq_iff)
qed (simp add: producerIdOfLoudestVolume_def)

subsection \<open>Speaking time\<close>

text \<open>
  The reference: a room's highlights as a list of changes, newest last, each with its clock
  readings. A user's speaking time is the sum, over the changes to that user, of the time from
  the start of the segment to the flush at the next change.
\<close>

fun spoken :: "string \<Rightarrow> (clock3 \<times> string option) list \<Rightarrow> int" where
  "spoken p [] = 0"
| "spoken p [_] = 0"
| "spoken p (a # b # cs) =
     (if snd a = Some p then max 0 (t_flush (fst b) - t_since (fst a)) else 0) + spoken p (b # cs)"

text \<open>The changes a sequence of highlight requests makes: those that differ from the one before.\<close>

fun changes :: "string option \<Rightarrow> (clock3 \<times> string option) list \<Rightarrow> (clock3 \<times> string option) list" where
  "changes cur [] = []"
| "changes cur (e # es) = (if snd e = cur then changes cur es else e # changes (snd e) es)"

text \<open>A run of highlight requests over all rooms, and those of one room.\<close>

definition run_highlights :: "(string \<times> clock3 \<times> string option) list \<Rightarrow> speaker \<Rightarrow> speaker" where
  "run_highlights es s = fold (\<lambda>(r, t, p). broadcastIfChanged t r p) es s"

definition in_room :: "string \<Rightarrow> (string \<times> 'a) list \<Rightarrow> 'a list" where
  "in_room roomId es = map snd (filter (\<lambda>e. fst e = roomId) es)"

definition spoken_total :: "string \<Rightarrow> string \<Rightarrow> speaker \<Rightarrow> int" where
  "spoken_total roomId p s = nullish_or (ss_speakingMsByPeer (roomSpeakingState roomId s) p) 0"

definition current :: "(clock3 \<times> string option) list \<Rightarrow> string option" where
  "current cs = (if cs = [] then None else snd (last cs))"

definition since :: "(clock3 \<times> string option) list \<Rightarrow> int option" where
  "since cs = (if truthy (current cs) then Some (t_since (fst (last cs))) else None)"

text \<open>The coordinator's state of a room agrees with the changes made so far.\<close>

definition tracks :: "string \<Rightarrow> (clock3 \<times> string option) list \<Rightarrow> speaker \<Rightarrow> bool" where
  "tracks roomId cs s \<longleftrightarrow>
     last_peer roomId s = current cs \<and>
     (sp_speakingByRoom s roomId = None \<longrightarrow> cs = []) \<and>
     ss_currentPeerId (roomSpeakingState roomId s) = current cs \<and>
     ss_currentSinceMs (roomSpeakingState roomId s) = since cs \<and>
     (\<forall>p. p \<noteq> [] \<longrightarrow> spoken_total roomId p s = spoken p cs)"

lemma spoken_snoc:
  "spoken p (cs @ [e]) = spoken p cs +
     (if cs \<noteq> [] \<and> current cs = Some p then max 0 (t_flush (fst e) - t_since (fst (last cs))) else 0)"
  by (induction p cs rule: spoken.induct) (auto simp: current_def)

lemma changes_snoc:
  "changes cur (es @ [e]) =
     changes cur es @ (if snd e = (if changes cur es = [] then cur else snd (last (changes cur es))) then [] else [e])"
  by (induction cur es rule: changes.induct) auto

lemma changes_current:
  "changes None (es @ [e]) = changes None es @ (if snd e = current (changes None es) then [] else [e])"
  by (simp add: changes_snoc current_def)

lemma in_room_snoc: "in_room r (es @ [e]) = in_room r es @ (if fst e = r then [snd e] else [])"
  by (simp add: in_room_def)

lemma run_highlights_snoc [simp]:
  "run_highlights (es @ [(r, t, p)]) s = broadcastIfChanged t r p (run_highlights es s)"
  by (simp add: run_highlights_def)

lemma broadcast_elsewhere:
  assumes "r' \<noteq> r"
  shows "tracks r cs (broadcastIfChanged t r' p s) = tracks r cs s"
  using assms
  by (simp add: broadcastIfChanged_def flushSpeakingSegment_def tracks_def last_peer_def
      roomSpeakingState_def spoken_total_def Let_def split: option.splits)

lemma truthy_current: "truthy (current cs) \<Longrightarrow> cs \<noteq> [] \<and> (\<exists>q. current cs = Some q \<and> q \<noteq> [])"
  by (cases "current cs") (auto simp: current_def split: if_splits)

text \<open>The flush closes the open segment at its clock reading.\<close>

lemma flush_totals:
  assumes "tracks r cs s" "p \<noteq> []"
  shows "spoken_total r p (flushSpeakingSegment now r s) = spoken p cs +
     (if cs \<noteq> [] \<and> current cs = Some p then max 0 (now - t_since (fst (last cs))) else 0)"
proof (cases "truthy (current cs)")
  case True
  then obtain q where q: "cs \<noteq> []" "current cs = Some q" "q \<noteq> []"
    using truthy_current by blast
  obtain st where st: "sp_speakingByRoom s r = Some st"
    using assms(1) q(1) by (auto simp: tracks_def)
  then have "ss_currentPeerId st = Some q" "ss_currentSinceMs st = Some (t_since (fst (last cs)))"
    "\<And>p. p \<noteq> [] \<Longrightarrow> nullish_or (ss_speakingMsByPeer st p) 0 = spoken p cs"
    using assms(1) q by (auto simp: tracks_def roomSpeakingState_def since_def spoken_total_def)
  then show ?thesis
    using q assms(2) st
    by (simp add: flushSpeakingSegment_def spoken_total_def roomSpeakingState_def Let_def)
next
  case False
  then have "current cs \<noteq> Some p" using assms(2) by auto
  moreover have "flushSpeakingSegment now r s = s"
    using assms(1) False
    by (auto simp: flushSpeakingSegment_def tracks_def roomSpeakingState_def since_def split: option.splits)
  ultimately show ?thesis using assms by (simp add: tracks_def)
qed

lemma broadcast_tracks:
  assumes "tracks r cs s"
  shows "tracks r (if p = current cs then cs else cs @ [(t, p)]) (broadcastIfChanged t r p s)"
proof (cases "p = current cs")
  case True
  then show ?thesis using assms by (simp add: broadcastIfChanged_def tracks_def)
next
  case False
  let ?s = "broadcastIfChanged t r p s"
  let ?f = "flushSpeakingSegment (t_flush t) r s"
  have changed: "last_peer r s \<noteq> p" using assms False by (simp add: tracks_def)
  then have "spoken_total r q ?s = spoken_total r q ?f" for q
    by (simp add: broadcastIfChanged_def spoken_total_def roomSpeakingState_def Let_def split: option.splits)
  then have totals: "q \<noteq> [] \<Longrightarrow> spoken_total r q ?s = spoken q (cs @ [(t, p)])" for q
    by (simp add: flush_totals [OF assms] spoken_snoc)
  have "ss_currentPeerId (roomSpeakingState r ?s) = p"
    "ss_currentSinceMs (roomSpeakingState r ?s) = (if truthy p then Some (t_since t) else None)"
    "sp_speakingByRoom ?s r \<noteq> None" "last_peer r ?s = p"
    using changed by (simp_all add: broadcastIfChanged_def roomSpeakingState_def last_peer_def Let_def)
  with totals False show ?thesis
    by (simp add: tracks_def since_def current_def)
qed

lemma run_tracks: "tracks r (changes None (in_room r es)) (run_highlights es (forgetRoom r s))"
proof (induction es rule: rev_induct)
  case Nil
  then show ?case
    by (simp add: in_room_def run_highlights_def tracks_def forgetRoom_def last_peer_def current_def
        since_def roomSpeakingState_def spoken_total_def)
next
  case (snoc e es)
  obtain r' t p where e: "e = (r', t, p)" by (cases e)
  show ?case
  proof (cases "r' = r")
    case True
    then show ?thesis
      using broadcast_tracks [OF snoc.IH, of p t] e
      by (cases "p = current (changes None (in_room r es))") (simp_all add: in_room_snoc changes_current)
  qed (use snoc.IH e in \<open>simp add: in_room_snoc broadcast_elsewhere\<close>)
qed

lemma broadcast_sent:
  "sp_sent (broadcastIfChanged t r p s) =
     sp_sent s @ (if last_peer r s = p then []
                  else [(r, \<lparr>sk_peerId = p, sk_speakingMsByPeer =
                           speakingMsSnapshot (roomSpeakingState r (broadcastIfChanged t r p s)) (t_snap t)\<rparr>)])"
  by (simp add: broadcastIfChanged_def flushSpeakingSegment_def roomSpeakingState_def Let_def split: option.splits)

lemma run_notifies:
  "\<exists>new. sp_sent (run_highlights es (forgetRoom r s)) = sp_sent s @ new \<and>
     map sk_peerId (in_room r new) = map snd (changes None (in_room r es))"
proof (induction es rule: rev_induct)
  case Nil
  then show ?case by (simp add: run_highlights_def forgetRoom_def in_room_def)
next
  case (snoc e es)
  obtain r' t p where e: "e = (r', t, p)" by (cases e)
  let ?s = "run_highlights es (forgetRoom r s)"
  obtain new where new: "sp_sent ?s = sp_sent s @ new"
    "map sk_peerId (in_room r new) = map snd (changes None (in_room r es))" using snoc.IH by blast
  have "r' = r \<Longrightarrow> last_peer r' ?s = current (changes None (in_room r es))"
    using run_tracks [of r es s] by (simp add: tracks_def)
  with new show ?case
    unfolding e run_highlights_snoc broadcast_sent [of t r' p ?s]
    by (cases "r' = r") (auto simp: in_room_def changes_current)
qed

text \<open>
  C28. The dominant-speaker coordinator is the reference accounting. Whatever highlight requests
  reach a room from the moment it is forgotten, interleaved with any requests of other rooms, the
  milliseconds it has booked for a peer are the sum of that peer's own segments, each from the change
  that highlighted it to the next change, and the room's sockets get one notification for each change
  of the highlight, in order, and none for a request that repeats it.
\<close>

theorem speaking_time_is_sum_of_segments:
  assumes "p \<noteq> []"
  shows "spoken_total r p (run_highlights es (forgetRoom r s)) = spoken p (changes None (in_room r es))
    \<and> map sk_peerId (in_room r (drop (length (sp_sent s)) (sp_sent (run_highlights es (forgetRoom r s)))))
        = map snd (changes None (in_room r es))"
proof -
  obtain new where "sp_sent (run_highlights es (forgetRoom r s)) = sp_sent s @ new"
    "map sk_peerId (in_room r new) = map snd (changes None (in_room r es))"
    using run_notifies by blast
  then show ?thesis using run_tracks [of r es s] assms by (simp add: tracks_def)
qed

definition tick :: "int \<Rightarrow> clock3" where
  "tick n = \<lparr>t_flush = n, t_since = n + 1, t_snap = n + 2\<rparr>"

definition demo_talk :: "(string \<times> clock3 \<times> string option) list" where
  "demo_talk =
     [(''r1'', tick 10, Some ''amy''), (''r2'', tick 15, Some ''bob''), (''r1'', tick 20, Some ''amy''),
      (''r1'', tick 50, Some ''bob''), (''r1'', tick 60, Some ''amy''), (''r1'', tick 100, None)]"

theorem speaking_time_is_sum_of_segments_witness:
  "spoken_total ''r1'' ''amy'' (run_highlights demo_talk (forgetRoom ''r1'' speaker_init)) = 39 + 39"
  using speaking_time_is_sum_of_segments [of "''amy''" "''r1''" demo_talk speaker_init]
  by (simp add: in_room_def demo_talk_def tick_def)

end
