(* ===== verification/RtcTaps.thy ===== *)
theory RtcTaps
  imports RtcRegistry RtcSpeaker
begin

text \<open>
  The VoiceIQ taps of the rtc service (\<open>voiceiq/voiceiq-tap.service.ts\<close> and its two HTTP routes in
  \<open>voiceiq/voiceiq.controller.ts\<close>): a tap is a plain transport of a room's router that forwards
  the room's microphones. What mediasoup answers is an argument; closing is a log entry.
\<close>

record producer_of_transport = producer +
  pr_transportId :: string
  pr_closed :: bool

record tap =
  tp_tapId :: string
  tp_roomId :: string
  tp_sessionId :: "string option"
  tp_transport :: string
  tp_consumers :: "string list"

datatype closed = ConsumerClosed string | TransportClosed string

record taps =
  ta_active :: "string \<Rightarrow> tap option"
  ta_byRoom :: "string \<Rightarrow> string list option"
  ta_closed :: "closed list"

definition taps_init :: taps where
  "taps_init = \<lparr>ta_active = Map.empty, ta_byRoom = Map.empty, ta_closed = []\<rparr>"

record tap_consumer_info =
  tc_consumerId :: string
  tc_producerId :: string
  tc_ssrc :: int
  tc_peerId :: string
  tc_participantId :: string

datatype consume_outcome = CannotConsume | ConsumeThrows | Consumes string "int option"

record tap_env =
  tv_plain :: "(string \<times> string \<times> int) option"
  tv_connect :: bool
  tv_consume :: "string \<Rightarrow> consume_outcome"
  tv_tapId :: string
  tv_string :: "json \<Rightarrow> string"
  tv_producers :: "string \<Rightarrow> producer_of_transport list"

record tap_params =
  tq_roomId :: string
  tq_ip :: string
  tq_port :: rat
  tq_sessionId :: "string option"

record tap_created =
  to_tapId :: string
  to_ip :: string
  to_port :: int
  to_consumers :: "tap_consumer_info list"
  to_sessionId :: "string option"

datatype tap_result =
    TapOk tap_created
  | TapErr string "string option"
  | TapThrew

definition indexTap :: "string \<Rightarrow> string \<Rightarrow> taps \<Rightarrow> taps" where
  "indexTap roomId tapId t =
     t\<lparr>ta_byRoom := (ta_byRoom t)(roomId \<mapsto> set_add tapId (nullish_or (ta_byRoom t roomId) []))\<rparr>"

definition unindexTap :: "string \<Rightarrow> string \<Rightarrow> taps \<Rightarrow> taps" where
  "unindexTap roomId tapId t = (case ta_byRoom t roomId of
      None \<Rightarrow> t
    | Some ids \<Rightarrow>
        (let ids' = removeAll tapId ids
         in t\<lparr>ta_byRoom := (ta_byRoom t)(roomId := (if ids' = [] then None else Some ids'))\<rparr>))"

definition peer_of_producer :: "(json \<Rightarrow> string) \<Rightarrow> 'a producer_scheme \<Rightarrow> string" where
  "peer_of_producer toString p =
     (let userId = (case pr_appData p of JObj fs \<Rightarrow> jget fs ''userId'' | _ \<Rightarrow> JUndefined)
      in if userId = JUndefined \<or> userId = JNull then pr_id p else toString userId)"

definition collectMicAudioProducers :: "(json \<Rightarrow> string) \<Rightarrow> producer_of_transport list \<Rightarrow> (string \<times> string) list" where
  "collectMicAudioProducers toString ps =
     map (\<lambda>p. (pr_id p, peer_of_producer toString p))
       (filter (\<lambda>p. pr_kind p = Audio \<and> \<not> pr_closed p \<and> \<not> pr_paused p \<and> isMicProducerForDominantUI p) ps)"

text \<open>The consumers of a new tap, one for each microphone that can be consumed.\<close>

fun consume_all :: "(string \<Rightarrow> consume_outcome) \<Rightarrow> (string \<times> string) list \<Rightarrow> tap_consumer_info list" where
  "consume_all consume [] = []"
| "consume_all consume ((producerId, peerId) # ps) = (case consume producerId of
      Consumes consumerId ssrc \<Rightarrow>
        \<lparr>tc_consumerId = consumerId, tc_producerId = producerId, tc_ssrc = nullish_or ssrc 0,
         tc_peerId = peerId, tc_participantId = peerId\<rparr> # consume_all consume ps
    | _ \<Rightarrow> consume_all consume ps)"

definition createTap ::
  "rtc_env \<Rightarrow> tap_env \<Rightarrow> tap_params \<Rightarrow> registry \<times> taps \<Rightarrow> tap_result \<times> registry \<times> taps" where
  "createTap env tv q st = (case getOrCreateLocalRoom env (tq_roomId q) (fst st) of
      (WrongInstance owner, s) \<Rightarrow> (TapErr ''wrong_instance'' (Some owner), s, snd st)
    | (CreateThrew, s) \<Rightarrow> (TapThrew, s, snd st)
    | (RoomHere room, s) \<Rightarrow>
       (let t = snd st in case tv_plain tv of
          None \<Rightarrow> (TapErr ''plain_transport_failed'' None, s, t)
        | Some (transport, ip, port) \<Rightarrow>
            if \<not> tv_connect tv then
              (TapErr ''transport_connect_failed'' None, s, t\<lparr>ta_closed := ta_closed t @ [TransportClosed transport]\<rparr>)
            else
             (let infos = consume_all (tv_consume tv)
                            (collectMicAudioProducers (tv_string tv) (tv_producers tv (lr_router room)));
                  tap = \<lparr>tp_tapId = tv_tapId tv, tp_roomId = tq_roomId q, tp_sessionId = tq_sessionId q,
                         tp_transport = transport, tp_consumers = map tc_consumerId infos\<rparr>;
                  t1 = t\<lparr>ta_active := (ta_active t)(tv_tapId tv \<mapsto> tap)\<rparr>
              in (TapOk \<lparr>to_tapId = tv_tapId tv, to_ip = ip, to_port = port, to_consumers = infos,
                         to_sessionId = tq_sessionId q\<rparr>,
                  s, indexTap (tq_roomId q) (tv_tapId tv) t1))))"

text \<open>The transport's \<open>@close\<close> event, with the tap and room ids the listener has captured.\<close>

definition on_tap_closed :: "string \<Rightarrow> string \<Rightarrow> taps \<Rightarrow> taps" where
  "on_tap_closed roomId tapId t = unindexTap roomId tapId (t\<lparr>ta_active := (ta_active t)(tapId := None)\<rparr>)"

definition releaseTap :: "string \<Rightarrow> taps \<Rightarrow> string option \<times> taps" where
  "releaseTap tapId t = (case ta_active t tapId of
      None \<Rightarrow> (Some ''tap_not_found'', t)
    | Some tap \<Rightarrow>
       (let t1 = t\<lparr>ta_closed := ta_closed t @ map ConsumerClosed (tp_consumers tap) @ [TransportClosed (tp_transport tap)]\<rparr>;
            t2 = t1\<lparr>ta_active := (ta_active t1)(tapId := None)\<rparr>
        in (None, unindexTap (tp_roomId tap) tapId t2)))"

definition releaseAllTapsForRoom :: "string \<Rightarrow> taps \<Rightarrow> taps" where
  "releaseAllTapsForRoom roomId t = (case ta_byRoom t roomId of
      None \<Rightarrow> t
    | Some ids \<Rightarrow> fold (\<lambda>tapId t. snd (releaseTap tapId t)) ids t)"

text \<open>One tap's turn when a microphone is added later, and the loop over the room's taps.\<close>

definition tap_consumes ::
  "(string \<Rightarrow> consume_outcome) \<Rightarrow> string \<Rightarrow> string \<Rightarrow> string \<Rightarrow> string \<Rightarrow> registry \<times> taps \<Rightarrow> registry \<times> taps" where
  "tap_consumes consume roomId producerId peerId tapId st =
     (case (ta_active (snd st) tapId, consume tapId) of
        (Some tap, Consumes consumerId ssrc) \<Rightarrow>
          ((fst st)\<lparr>rg_redis := publishRoomMediaEvent roomId
              (TapConsumerAdded roomId tapId (tp_sessionId tap) peerId producerId consumerId (nullish_or ssrc 0))
              (rg_redis (fst st))\<rparr>,
           (snd st)\<lparr>ta_active := (ta_active (snd st))(tapId \<mapsto> tap\<lparr>tp_consumers := tp_consumers tap @ [consumerId]\<rparr>)\<rparr>)
      | _ \<Rightarrow> st)"

definition onMicAudioProducerAdded ::
  "(string \<Rightarrow> consume_outcome) \<Rightarrow> string \<Rightarrow> 'a producer_scheme \<Rightarrow> string \<Rightarrow> registry \<times> taps \<Rightarrow> registry \<times> taps" where
  "onMicAudioProducerAdded consume roomId producer peerId st =
     (if \<not> isMicProducerForDominantUI producer then st
      else case ta_byRoom (snd st) roomId of
        None \<Rightarrow> st
      | Some tapIds \<Rightarrow>
          if getLocalRoom roomId (fst st) = None then st
          else fold (tap_consumes consume roomId (pr_id producer) peerId) tapIds st)"

subsection \<open>The HTTP routes\<close>

datatype tap_reply =
    TapCreated tap_created
  | TapReleased
  | TapFailed string "string option"

definition text_field :: "json option \<Rightarrow> string \<Rightarrow> string option" where
  "text_field body f = (case body of Some (JObj fs) \<Rightarrow> as_string (jget fs f) | _ \<Rightarrow> None)"

definition tap_request :: "json \<Rightarrow> tap_params option" where
  "tap_request body =
     (let roomId = nullish_or (text_field (Some body) ''roomId'') [];
          ip = nullish_or (text_field (Some body) ''voiceiqIp'') [];
          port = (case body of JObj fs \<Rightarrow> (case jget fs ''voiceiqPort'' of JNum n \<Rightarrow> n | _ \<Rightarrow> 0) | _ \<Rightarrow> 0)
      in if roomId = [] \<or> ip = [] \<or> port = 0 then None
         else Some \<lparr>tq_roomId = roomId, tq_ip = ip, tq_port = port, tq_sessionId = text_field (Some body) ''sessionId''\<rparr>)"

text \<open>The reply with its status, or nothing where the handler throws.\<close>

definition handleVoiceIQTap ::
  "rtc_env \<Rightarrow> tap_env \<Rightarrow> json option \<Rightarrow> registry \<times> taps \<Rightarrow> (tap_reply \<times> nat) option \<times> registry \<times> taps" where
  "handleVoiceIQTap env tv body st = (case body of
      None \<Rightarrow> (Some (TapFailed ''invalid_json'' None, 400), st)
    | Some b \<Rightarrow> (case tap_request b of
        None \<Rightarrow> (Some (TapFailed ''roomId, voiceiqIp, voiceiqPort are required'' None, 400), st)
      | Some q \<Rightarrow> (case createTap env tv q st of
          (TapOk c, st') \<Rightarrow> (Some (TapCreated c, 200), st')
        | (TapThrew, st') \<Rightarrow> (None, st')
        | (TapErr e owner, st') \<Rightarrow>
            (Some (TapFailed e owner, if e = ''wrong_instance'' then 409 else 500), st'))))"

definition handleVoiceIQTapRelease :: "string \<Rightarrow> taps \<Rightarrow> (tap_reply \<times> nat) \<times> taps" where
  "handleVoiceIQTapRelease tapId t =
     (if tapId = [] then ((TapFailed ''missing_tap_id'' None, 400), t)
      else case releaseTap tapId t of
        (None, t') \<Rightarrow> ((TapReleased, 200), t')
      | (Some e, t') \<Rightarrow> ((TapFailed e None, 404), t'))"

subsection \<open>The index\<close>

text \<open>A tap is active exactly when its room's index lists it, once, and no index is empty.\<close>

definition room_taps :: "string \<Rightarrow> taps \<Rightarrow> string list" where
  "room_taps r t = nullish_or (ta_byRoom t r) []"

definition taps_ok :: "taps \<Rightarrow> bool" where
  "taps_ok t \<longleftrightarrow>
     (\<forall>i tap. ta_active t i = Some tap \<longrightarrow> tp_tapId tap = i \<and> i \<in> set (room_taps (tp_roomId tap) t)) \<and>
     (\<forall>r. distinct (room_taps r t) \<and> ta_byRoom t r \<noteq> Some []) \<and>
     (\<forall>r. \<forall>i\<in>set (room_taps r t). \<exists>tap. ta_active t i = Some tap \<and> tp_roomId tap = r)"

lemma taps_okD:
  "taps_ok t \<Longrightarrow> ta_active t i = Some tap \<Longrightarrow> tp_tapId tap = i \<and> i \<in> set (room_taps (tp_roomId tap) t)"
  "taps_ok t \<Longrightarrow> i \<in> set (room_taps r t) \<Longrightarrow> \<exists>tap. ta_active t i = Some tap \<and> tp_roomId tap = r"
  unfolding taps_ok_def by blast+

lemma taps_init_ok: "taps_ok taps_init"
  by (simp add: taps_ok_def taps_init_def room_taps_def)

lemma room_taps_upd [simp]:
  "room_taps r (t\<lparr>ta_active := a\<rparr>) = room_taps r t" "room_taps r (t\<lparr>ta_closed := c\<rparr>) = room_taps r t"
  by (simp_all add: room_taps_def)

lemma room_taps_index [simp]:
  "room_taps r (indexTap r' i t) = (if r = r' then set_add i (room_taps r t) else room_taps r t)"
  by (simp add: room_taps_def indexTap_def)

lemma room_taps_unindex [simp]:
  "room_taps r (unindexTap r' i t) = (if r = r' then removeAll i (room_taps r t) else room_taps r t)"
  by (auto simp: room_taps_def unindexTap_def Let_def split: option.split)

lemma unindex_active [simp]: "ta_active (unindexTap r i t) = ta_active t" "ta_active (indexTap r i t) = ta_active t"
  by (simp_all add: unindexTap_def indexTap_def Let_def split: option.split)

lemma unindex_nonempty: "ta_byRoom t r \<noteq> Some [] \<Longrightarrow> ta_byRoom (unindexTap r' i t) r \<noteq> Some []"
  by (auto simp: unindexTap_def Let_def split: option.split)

lemma index_nonempty: "ta_byRoom t r \<noteq> Some [] \<Longrightarrow> ta_byRoom (indexTap r' i t) r \<noteq> Some []"
  by (auto simp: indexTap_def)

text \<open>Dropping a tap, as its release and its transport's close do.\<close>

lemma drop_tap_ok:
  assumes ok: "taps_ok t" and tap: "ta_active t i = Some tap"
  shows "taps_ok (unindexTap (tp_roomId tap) i (t\<lparr>ta_closed := c, ta_active := (ta_active t)(i := None)\<rparr>))"
    (is "taps_ok ?t")
proof -
  have other: "i \<notin> set (room_taps r t)" if "r \<noteq> tp_roomId tap" for r
    using ok tap that unfolding taps_ok_def by fastforce
  have "tp_tapId tap' = j \<and> j \<in> set (room_taps (tp_roomId tap') ?t)" if "ta_active ?t j = Some tap'" for j tap'
    using taps_okD(1) [OF ok, of j tap'] that by (auto split: if_splits)
  moreover have "distinct (room_taps r ?t) \<and> ta_byRoom ?t r \<noteq> Some []" for r
    using ok unfolding taps_ok_def by (simp add: unindex_nonempty distinct_removeAll)
  moreover have "\<exists>tap'. ta_active ?t j = Some tap' \<and> tp_roomId tap' = r" if "j \<in> set (room_taps r ?t)" for j r
    using ok that other unfolding taps_ok_def by (auto split: if_splits)
  ultimately show ?thesis unfolding taps_ok_def by blast
qed

lemma release_ok: "taps_ok t \<Longrightarrow> taps_ok (snd (releaseTap i t))"
  using drop_tap_ok [of t i] by (auto simp: releaseTap_def Let_def split: option.split)

lemma release_room_taps:
  "taps_ok t \<Longrightarrow> room_taps r (snd (releaseTap i t)) = removeAll i (room_taps r t)"
  using taps_okD(2) [of t i r] by (cases "ta_active t i") (auto simp: releaseTap_def Let_def intro: removeAll_id [symmetric])

lemma release_fold:
  "taps_ok t \<Longrightarrow> taps_ok (fold (\<lambda>i t. snd (releaseTap i t)) is t) \<and>
     room_taps r (fold (\<lambda>i t. snd (releaseTap i t)) is t) = filter (\<lambda>j. j \<notin> set is) (room_taps r t)"
proof (induction "is" arbitrary: t)
  case (Cons i "is")
  have "taps_ok (snd (releaseTap i t))" using Cons.prems by (rule release_ok)
  with Cons.IH [of "snd (releaseTap i t)"] release_room_taps [OF Cons.prems, of r i] show ?case
    by (auto simp: removeAll_filter_not_eq intro: filter_cong)
qed simp

lemma release_all_eq:
  "releaseAllTapsForRoom r t = fold (\<lambda>i t. snd (releaseTap i t)) (room_taps r t) t"
  by (auto simp: releaseAllTapsForRoom_def room_taps_def split: option.split)

lemma release_all:
  assumes "taps_ok t"
  shows "taps_ok (releaseAllTapsForRoom r t)" "room_taps r (releaseAllTapsForRoom r t) = []"
    "room_taps r' (releaseAllTapsForRoom r t) = filter (\<lambda>j. j \<notin> set (room_taps r t)) (room_taps r' t)"
  using release_fold [OF assms, where ?is = "room_taps r t"] by (simp_all add: release_all_eq)

lemma create_tap_ok:
  assumes "taps_ok (snd st)" "ta_active (snd st) (tv_tapId tv) = None"
  shows "taps_ok (snd (snd (createTap env tv q st)))"
proof -
  let ?t = "snd st" let ?i = "tv_tapId tv"
  have fresh: "?i \<notin> set (room_taps r ?t)" for r
    using assms unfolding taps_ok_def by fastforce
  have "taps_ok (indexTap (tq_roomId q) ?i (?t\<lparr>ta_active := (ta_active ?t)(?i \<mapsto> tap)\<rparr>))" (is "taps_ok ?t'")
    if tap: "tp_tapId tap = ?i" "tp_roomId tap = tq_roomId q" for tap
  proof -
    have "tp_tapId tap' = j \<and> j \<in> set (room_taps (tp_roomId tap') ?t')" if "ta_active ?t' j = Some tap'" for j tap'
      using taps_okD(1) [OF assms(1), of j tap'] that tap by (auto split: if_splits)
    moreover have "distinct (room_taps r ?t') \<and> ta_byRoom ?t' r \<noteq> Some []" for r
      using assms(1) unfolding taps_ok_def by (simp add: index_nonempty)
    moreover have "\<exists>tap'. ta_active ?t' j = Some tap' \<and> tp_roomId tap' = r" if "j \<in> set (room_taps r ?t')" for j r
      using assms(1) that tap fresh unfolding taps_ok_def by (auto split: if_splits)
    ultimately show ?thesis unfolding taps_ok_def by blast
  qed
  moreover have "taps_ok (?t\<lparr>ta_closed := c\<rparr>)" for c
    using assms(1) by (simp add: taps_ok_def)
  ultimately show ?thesis
    using assms(1) by (auto simp: createTap_def Let_def split: prod.split local_room_result.split option.split)
qed

lemma consumes_ok:
  assumes "taps_ok (snd st)"
  shows "taps_ok (snd (tap_consumes consume r p u i st))"
proof -
  have "taps_ok ((snd st)\<lparr>ta_active := (ta_active (snd st))(i \<mapsto> tap\<lparr>tp_consumers := c\<rparr>)\<rparr>)" (is "taps_ok ?t")
    if tap: "ta_active (snd st) i = Some tap" for tap c
  proof -
    have "tp_tapId tap' = j \<and> j \<in> set (room_taps (tp_roomId tap') ?t)" if "ta_active ?t j = Some tap'" for j tap'
      using taps_okD(1) [OF assms, of j] taps_okD(1) [OF assms tap] that by (auto split: if_splits)
    moreover have "\<exists>tap'. ta_active ?t j = Some tap' \<and> tp_roomId tap' = r" if "j \<in> set (room_taps r ?t)" for j r
      using taps_okD(2) [OF assms, of j r] that tap by auto
    moreover have "distinct (room_taps r ?t) \<and> ta_byRoom ?t r \<noteq> Some []" for r
      using assms by (simp add: taps_ok_def)
    ultimately show ?thesis unfolding taps_ok_def by blast
  qed
  with assms show ?thesis by (simp add: tap_consumes_def split: option.split consume_outcome.split)
qed

lemma mic_added_ok: "taps_ok (snd st) \<Longrightarrow> taps_ok (snd (onMicAudioProducerAdded consume r p u st))"
proof -
  have "taps_ok (snd (fold (tap_consumes consume r i u) ids st))" if "taps_ok (snd st)" for ids i
    using that by (induction ids arbitrary: st) (simp_all add: consumes_ok)
  moreover assume "taps_ok (snd st)"
  ultimately show ?thesis by (simp add: onMicAudioProducerAdded_def split: option.split)
qed

lemma closed_ok:
  assumes "taps_ok t" "ta_active t i = Some tap"
  shows "taps_ok (on_tap_closed (tp_roomId tap) i t)"
  using drop_tap_ok [OF assms, of "ta_closed t"] by (simp add: on_tap_closed_def)

end
