(* ===== verification/RoomTypes.thy ===== *)
theory RoomTypes
  imports JsValue
begin

text \<open>
  What the services share about rooms (\<open>packages/shared/src/room-session.ts\<close>, the server's
  \<open>rooms/types\<close>): the two types of a session, the states of a room's database row, and the errors an
  API service throws.
\<close>

datatype room_session_type = Direct | Space

definition isRoomSessionType :: "json \<Rightarrow> room_session_type option" where
  "isRoomSessionType v = (if v = JStr ''direct'' then Some Direct else if v = JStr ''space'' then Some Space else None)"

definition isGroupRoomSessionType :: "json \<Rightarrow> bool" where
  "isGroupRoomSessionType v \<longleftrightarrow> v = JStr ''space''"

definition normalizeRoomSessionType :: "json \<Rightarrow> room_session_type option" where
  "normalizeRoomSessionType v =
     (if v = JStr ''direct'' then Some Direct else if v = JStr ''space'' then Some Space else None)"

datatype room_db_status = Scheduled | Live | Ended | Cancelled

record api_error =
  er_message :: string
  er_code :: string
  er_status :: nat

type_synonym ('s, 'a) service = "'s \<Rightarrow> (api_error + 'a) \<times> 's"

definition fail :: "string \<Rightarrow> string \<Rightarrow> nat \<Rightarrow> api_error + 'a" where
  "fail message code status = Inl \<lparr>er_message = message, er_code = code, er_status = status\<rparr>"

text \<open>A Redis hash is its list of fields.\<close>

definition hfield :: "fields \<Rightarrow> string \<Rightarrow> string option" where
  "hfield h f = map_of h f"

fun hset_all :: "(string \<times> string) list \<Rightarrow> fields \<Rightarrow> fields" where
  "hset_all [] h = h"
| "hset_all ((f, v) # fvs) h = hset_all fvs (set_field f v h)"

lemma hfield_set [simp]: "hfield (set_field f v h) g = (if g = f then Some v else hfield h g)"
  by (simp add: hfield_def set_field_def update_conv')

lemma hfield_nil [simp]: "hfield [] f = None"
  by (simp add: hfield_def)

end
