(* ===== verification/RtcPeers.thy ===== *)
theory RtcPeers
  imports RtcTaps RoomTypes
begin

text \<open>
  The peer sessions of the rtc service (\<open>peer/peer.service.ts\<close>): who is in which mediasoup room
  with which socket, transports, producers and consumers, and what the sockets are told. Each
  method is one atomic step; what mediasoup answers is an argument, \<open>None\<close> or \<open>False\<close> where the
  call throws. Messages, closings and disconnects are appended to an output log.
\<close>

subsection \<open>State\<close>

record sock =
  so_id :: string
  so_userId :: "string option"
  so_roomId :: "string option"

record session =
  se_userId :: string
  se_roomId :: string
  se_socket :: string
  se_transports :: "string list"
  se_producers :: "(string \<times> producer_of_transport) list"
  se_consumers :: "(string \<times> string) list"

datatype room_event =
    PeerJoined string "string option" "string option"
  | PeerLeft string
  | NewProducer string string media_kind "media_source option"
  | ProducerClosed string string
  | ProducerPaused string string media_kind media_source
  | ProducerResumed string string media_kind media_source
  | DominantSpeaker speaker_payload
  | Kicked string

datatype rtc_out =
    ToOthers string string room_event
  | ToRoom string room_event
  | ToSocket string room_event
  | ObserveMic string string
  | UnobserveMic string string
  | CloseTransport string
  | CloseProducer string
  | Disconnect string

record rtc =
  rt_reg :: registry
  rt_taps :: taps
  rt_sessions :: "string \<Rightarrow> session option"
  rt_members :: "string \<Rightarrow> string list option"
  rt_speaker :: speaker
  rt_names :: "string \<Rightarrow> string option"
  rt_images :: "string \<Rightarrow> string option"
  rt_types :: "string \<Rightarrow> room_session_type option"
  rt_joined :: "(string \<times> string) list"
  rt_out :: "rtc_out list"

record remove_options =
  op_skipRedis :: bool
  op_skipSocketLeave :: bool
  op_releaseRoomIfEmpty :: bool

record existing_producer =
  ep_peerId :: string
  ep_producerId :: string
  ep_kind :: media_kind
  ep_mediaSource :: "media_source option"

record joined =
  jo_room :: local_room
  jo_peerIds :: "string list"
  jo_peerNames :: "(string \<times> string) list"
  jo_peerImages :: "(string \<times> string) list"
  jo_existing :: "existing_producer list"

record consumed =
  co_id :: string
  co_producerId :: string
  co_kind :: media_kind
  co_producerPaused :: bool
  co_paused :: bool
  co_mediaSource :: "media_source option"

text \<open>A method's result: a value, an error code, or a call that throws.\<close>

datatype 'a answer = Answer 'a | Refused string | RefusedOwner string | Throws

subsection \<open>Lookups\<close>

definition members_of :: "string \<Rightarrow> rtc \<Rightarrow> string list" where
  "members_of roomId st = nullish_or (rt_members st roomId) []"

definition emit_out :: "rtc_out \<Rightarrow> rtc \<Rightarrow> rtc" where
  "emit_out x st = st\<lparr>rt_out := rt_out st @ [x]\<rparr>"

definition session_producer :: "rtc \<Rightarrow> string \<Rightarrow> string \<Rightarrow> producer_of_transport option" where
  "session_producer st producerId userId =
     (case rt_sessions st userId of None \<Rightarrow> None | Some s \<Rightarrow> map_of (se_producers s) producerId)"

fun first_some :: "('a \<Rightarrow> 'b option) \<Rightarrow> 'a list \<Rightarrow> 'b option" where
  "first_some f [] = None"
| "first_some f (x # xs) = (case f x of Some y \<Rightarrow> Some y | None \<Rightarrow> first_some f xs)"

definition findProducerInRoom :: "string \<Rightarrow> string \<Rightarrow> rtc \<Rightarrow> producer_of_transport option" where
  "findProducerInRoom roomId producerId st = first_some (session_producer st producerId) (members_of roomId st)"

definition findPeerIdOwningProducer :: "string \<Rightarrow> string \<Rightarrow> rtc \<Rightarrow> string option" where
  "findPeerIdOwningProducer roomId producerId st =
     first_some (\<lambda>uid. if session_producer st producerId uid = None then None else Some uid) (members_of roomId st)"

definition existing_row :: "string \<Rightarrow> producer_of_transport \<Rightarrow> existing_producer" where
  "existing_row uid p =
     \<lparr>ep_peerId = uid, ep_producerId = pr_id p, ep_kind = pr_kind p,
      ep_mediaSource = (if pr_kind p = Video then Some (mediaSourceFromProducerAppData (pr_appData p)) else None)\<rparr>"

definition collectProducersInRoom :: "string \<Rightarrow> string \<Rightarrow> rtc \<Rightarrow> existing_producer list" where
  "collectProducersInRoom roomId excludeUserId st =
     concat (map (\<lambda>uid. if uid = excludeUserId then []
                        else case rt_sessions st uid of
                          None \<Rightarrow> []
                        | Some s \<Rightarrow> map (existing_row uid) (map snd (se_producers s)))
                 (members_of roomId st))"

subsection \<open>The dominant speaker in its room\<close>

definition emitDominantSpeakerToMediasoupRoom :: "string \<Rightarrow> speaker_payload \<Rightarrow> rtc \<Rightarrow> rtc" where
  "emitDominantSpeakerToMediasoupRoom roomId payload st =
     (case members_of roomId st of
        [] \<Rightarrow> st
      | firstId # _ \<Rightarrow>
          if firstId = [] \<or> rt_sessions st firstId = None then st
          else emit_out (ToRoom roomId (DominantSpeaker payload)) st)"

text \<open>A change of the coordinator, followed by the notifications it makes.\<close>

definition with_speaker :: "(speaker \<Rightarrow> speaker) \<Rightarrow> rtc \<Rightarrow> rtc" where
  "with_speaker f st =
     (let sp = f (rt_speaker st); new = drop (length (sp_sent (rt_speaker st))) (sp_sent sp)
      in fold (\<lambda>(roomId, payload). emitDominantSpeakerToMediasoupRoom roomId payload) new (st\<lparr>rt_speaker := sp\<rparr>))"

definition ensureDominantSpeakerListener :: "string \<Rightarrow> rtc \<Rightarrow> rtc" where
  "ensureDominantSpeakerListener roomId st = (case getLocalRoom roomId (rt_reg st) of
      None \<Rightarrow> st
    | Some room \<Rightarrow>
        st\<lparr>rt_reg := (rt_reg st)\<lparr>rg_local := (rg_local (rt_reg st))(roomId \<mapsto> room\<lparr>lr_listener := True\<rparr>)\<rparr>\<rparr>)"

definition registerMicProducerForDominant :: "string \<Rightarrow> string \<Rightarrow> rtc \<Rightarrow> rtc" where
  "registerMicProducerForDominant roomId producerId st =
     (if getLocalRoom roomId (rt_reg st) = None then st else emit_out (ObserveMic roomId producerId) st)"

definition unregisterMicProducerForDominant :: "string \<Rightarrow> string \<Rightarrow> rtc \<Rightarrow> rtc" where
  "unregisterMicProducerForDominant roomId producerId st =
     (if getLocalRoom roomId (rt_reg st) = None then st else emit_out (UnobserveMic roomId producerId) st)"

text \<open>The events of a room's observer, once its listener is attached.\<close>

definition on_room_volumes :: "clock3 \<Rightarrow> string \<Rightarrow> (string \<times> int) list \<Rightarrow> rtc \<Rightarrow> rtc" where
  "on_room_volumes t roomId volumes st =
     with_speaker (on_volumes (\<lambda>producerId. findPeerIdOwningProducer roomId producerId st) t roomId volumes) st"

definition on_room_silence :: "clock3 \<Rightarrow> string \<Rightarrow> rtc \<Rightarrow> rtc" where
  "on_room_silence t roomId st = with_speaker (on_silence t roomId) st"

subsection \<open>Leaving\<close>

definition publish_event :: "string \<Rightarrow> media_event \<Rightarrow> rtc \<Rightarrow> rtc" where
  "publish_event roomId e st =
     st\<lparr>rt_reg := (rt_reg st)\<lparr>rg_redis := publishRoomMediaEvent roomId e (rg_redis (rt_reg st))\<rparr>\<rparr>"

definition with_redis :: "(rtc_redis \<Rightarrow> rtc_redis) \<Rightarrow> rtc \<Rightarrow> rtc" where
  "with_redis f st = st\<lparr>rt_reg := (rt_reg st)\<lparr>rg_redis := f (rg_redis (rt_reg st))\<rparr>\<rparr>"

definition is_mic :: "'a producer_scheme \<Rightarrow> bool" where
  "is_mic p \<longleftrightarrow> pr_kind p = Audio \<and> isMicProducerForDominantUI p"

definition releaseRoomAndTaps :: "rtc_env \<Rightarrow> string \<Rightarrow> rtc \<Rightarrow> rtc" where
  "releaseRoomAndTaps env roomId st =
     st\<lparr>rt_taps := releaseAllTapsForRoom roomId (rt_taps st), rt_reg := releaseRoom env roomId (rt_reg st)\<rparr>"

definition announce_closed :: "session \<Rightarrow> string \<times> producer_of_transport \<Rightarrow> rtc \<Rightarrow> rtc" where
  "announce_closed s e st =
     (let st1 = (if is_mic (snd e) then unregisterMicProducerForDominant (se_roomId s) (fst e) st else st);
          st2 = emit_out (ToOthers (se_socket s) (se_roomId s) (ProducerClosed (se_userId s) (fst e))) st1
      in publish_event (se_roomId s) (ProducerRemoved (se_roomId s) (se_userId s) (fst e)) st2)"

definition forget_peer :: "string \<Rightarrow> rtc \<Rightarrow> rtc" where
  "forget_peer userId st =
     st\<lparr>rt_sessions := (rt_sessions st)(userId := None), rt_names := (rt_names st)(userId := None),
        rt_images := (rt_images st)(userId := None)\<rparr>"

definition remove_member :: "rtc_env \<Rightarrow> bool \<Rightarrow> string \<Rightarrow> string \<Rightarrow> rtc \<Rightarrow> rtc" where
  "remove_member env release roomId userId st = (case rt_members st roomId of
      None \<Rightarrow> st
    | Some ms \<Rightarrow>
       (let ms' = removeAll userId ms
        in if ms' = [] then
            (let st1 = st\<lparr>rt_members := (rt_members st)(roomId := None), rt_speaker := forgetRoom roomId (rt_speaker st)\<rparr>
             in if release then releaseRoomAndTaps env roomId st1 else st1)
           else st\<lparr>rt_members := (rt_members st)(roomId \<mapsto> ms')\<rparr>))"

definition drop_redis :: "string \<Rightarrow> string \<Rightarrow> rtc \<Rightarrow> rtc" where
  "drop_redis userId roomId st =
     with_redis (clearUserActiveRtcRoomIfMatches userId roomId \<circ> deletePeer userId roomId) st"

definition removeSession :: "rtc_env \<Rightarrow> clock3 \<Rightarrow> remove_options \<Rightarrow> string \<Rightarrow> rtc \<Rightarrow> rtc" where
  "removeSession env t opts userId st = (case rt_sessions st userId of
      None \<Rightarrow> st
    | Some s \<Rightarrow>
       (let roomId = se_roomId s;
            st1 = emit_out (ToOthers (se_socket s) roomId (PeerLeft userId)) st;
            wasDominant = (currentHighlightedPeerId roomId (rt_speaker st1) = Some userId);
            st2 = fold (announce_closed s) (se_producers s) st1;
            st3 = fold (\<lambda>tr. emit_out (CloseTransport tr)) (se_transports s) st2;
            st4 = forget_peer userId st3;
            st5 = remove_member env (op_releaseRoomIfEmpty opts) roomId userId st4;
            st6 = (if wasDominant then with_speaker (broadcastIfChanged t roomId None) st5 else st5);
            st7 = (if op_skipRedis opts then st6 else drop_redis userId roomId st6)
        in if op_skipSocketLeave opts then st7
           else st7\<lparr>rt_joined := removeAll (se_socket s, roomId) (rt_joined st7)\<rparr>))"

definition leave_opts :: remove_options where
  "leave_opts = \<lparr>op_skipRedis = False, op_skipSocketLeave = False, op_releaseRoomIfEmpty = True\<rparr>"

definition rtc_leave :: "rtc_env \<Rightarrow> clock3 \<Rightarrow> string \<Rightarrow> rtc \<Rightarrow> rtc" where
  "rtc_leave env t userId st = removeSession env t leave_opts userId st"

definition onSocketDisconnect :: "rtc_env \<Rightarrow> clock3 \<Rightarrow> sock \<Rightarrow> rtc \<Rightarrow> rtc" where
  "onSocketDisconnect env t socket st =
     (if truthy (so_userId socket)
      then removeSession env t (leave_opts\<lparr>op_skipSocketLeave := True\<rparr>) (the (so_userId socket)) st else st)"

definition kickPeer :: "rtc_env \<Rightarrow> clock3 \<Rightarrow> string \<Rightarrow> string \<Rightarrow> rtc \<Rightarrow> bool \<times> rtc" where
  "kickPeer env t roomId targetUserId st = (case rt_sessions st targetUserId of
      None \<Rightarrow> (False, st)
    | Some s \<Rightarrow>
        if se_roomId s \<noteq> roomId then (False, st)
        else (True, emit_out (Disconnect (se_socket s))
                      (removeSession env t leave_opts targetUserId
                        (emit_out (ToSocket (se_socket s) (Kicked roomId)) st))))"

definition forceTeardownMediasoupRoom :: "rtc_env \<Rightarrow> clock3 \<Rightarrow> string \<Rightarrow> rtc \<Rightarrow> nat \<times> rtc" where
  "forceTeardownMediasoupRoom env t roomId st =
     (let userIds = members_of roomId st;
          st1 = fold (removeSession env t leave_opts) userIds st;
          st2 = releaseRoomAndTaps env roomId st1
      in (length userIds, st2\<lparr>rt_reg := forceClearRoomRedis roomId (rt_reg st2)\<rparr>))"

subsection \<open>Joining\<close>

text \<open>The room the joiner gets: a second try once a room nobody else is in has been cleared.\<close>

definition room_for :: "rtc_env \<Rightarrow> rtc_env \<Rightarrow> string \<Rightarrow> string \<Rightarrow> registry \<Rightarrow> local_room_result \<times> registry" where
  "room_for env env2 userId roomId s = (case getOrCreateLocalRoom env roomId s of
      (WrongInstance owner, s1) \<Rightarrow>
        (let peerIds = listPeerIdsInRoom roomId (rg_redis s1)
         in if peerIds = [] \<or> peerIds = [userId]
            then getOrCreateLocalRoom env2 roomId (forceClearRoomRedis roomId s1)
            else (WrongInstance owner, s1))
    | res \<Rightarrow> res)"

definition add_member :: "string \<Rightarrow> string \<Rightarrow> rtc \<Rightarrow> rtc" where
  "add_member roomId userId st =
     st\<lparr>rt_members := (rt_members st)(roomId \<mapsto> set_add userId (members_of roomId st))\<rparr>"

definition set_names :: "string \<Rightarrow> string option \<Rightarrow> string option \<Rightarrow> rtc \<Rightarrow> rtc" where
  "set_names userId displayName img st =
     st\<lparr>rt_names := (if truthy displayName then (rt_names st)(userId := displayName) else rt_names st),
        rt_images := (if truthy img then (rt_images st)(userId := img) else rt_images st)\<rparr>"

definition labels_of :: "(string \<Rightarrow> string option) \<Rightarrow> string list \<Rightarrow> (string \<times> string) list" where
  "labels_of f ids = map (\<lambda>i. (i, the (f i))) (filter (\<lambda>i. truthy (f i)) ids)"

definition open_session :: "rtc_env \<Rightarrow> string \<Rightarrow> string \<Rightarrow> string \<Rightarrow> rtc \<Rightarrow> rtc" where
  "open_session env sockId userId roomId st =
     (let rec = \<lparr>pe_id = userId, pe_roomId = roomId, pe_joinedAt = rv_iso env (rv_now env),
                 pe_rtcInstanceId = Some (rv_instance env), pe_socketId = Some sockId\<rparr>;
          st1 = with_redis (savePeer (rv_instance env) rec) (st\<lparr>rt_joined := set_add (sockId, roomId) (rt_joined st)\<rparr>)
      in st1\<lparr>rt_sessions := (rt_sessions st1)(userId \<mapsto>
              \<lparr>se_userId = userId, se_roomId = roomId, se_socket = sockId, se_transports = [],
               se_producers = [], se_consumers = []\<rparr>)\<rparr>)"

definition rejoin_opts :: remove_options where
  "rejoin_opts = \<lparr>op_skipRedis = True, op_skipSocketLeave = False, op_releaseRoomIfEmpty = False\<rparr>"

definition join ::
  "rtc_env \<Rightarrow> rtc_env \<Rightarrow> clock3 \<Rightarrow> sock \<Rightarrow> string option \<Rightarrow> string option \<Rightarrow> rtc \<Rightarrow> joined answer \<times> rtc" where
  "join env env2 t socket displayName img st =
     (if \<not> truthy (so_userId socket) \<or> \<not> truthy (so_roomId socket) then (Refused ''missing_context'', st)
      else
       (let userId = the (so_userId socket); roomId = the (so_roomId socket);
            st1 = removeSession env t rejoin_opts userId st
        in case room_for env env2 userId roomId (rt_reg st1) of
             (WrongInstance owner, s) \<Rightarrow> (RefusedOwner owner, st1\<lparr>rt_reg := s\<rparr>)
           | (CreateThrew, s) \<Rightarrow> (Throws, st1\<lparr>rt_reg := s\<rparr>)
           | (RoomHere room, s) \<Rightarrow>
               (let st2 = add_member roomId userId (open_session env (so_id socket) userId roomId (st1\<lparr>rt_reg := s\<rparr>));
                    st3 = set_names userId displayName img st2;
                    st4 = emit_out (ToOthers (so_id socket) roomId (PeerJoined userId displayName img)) st3;
                    peerIds = members_of roomId st4
                in (Answer \<lparr>jo_room = room, jo_peerIds = peerIds, jo_peerNames = labels_of (rt_names st4) peerIds,
                            jo_peerImages = labels_of (rt_images st4) peerIds,
                            jo_existing = collectProducersInRoom roomId userId st4\<rparr>,
                    ensureDominantSpeakerListener roomId st4))))"

subsection \<open>Transports\<close>

definition with_session :: "string \<Rightarrow> rtc \<Rightarrow> (session \<Rightarrow> 'a answer \<times> rtc) \<Rightarrow> 'a answer \<times> rtc" where
  "with_session userId st f = (case rt_sessions st userId of None \<Rightarrow> (Refused ''not_joined'', st) | Some s \<Rightarrow> f s)"

definition set_session :: "session \<Rightarrow> string \<Rightarrow> rtc \<Rightarrow> rtc" where
  "set_session s userId st = st\<lparr>rt_sessions := (rt_sessions st)(userId \<mapsto> s)\<rparr>"

definition createWebRtcTransport :: "string \<Rightarrow> string option \<Rightarrow> rtc \<Rightarrow> string answer \<times> rtc" where
  "createWebRtcTransport userId transport st = with_session userId st (\<lambda>s.
     if getLocalRoom (se_roomId s) (rt_reg st) = None then (Refused ''room_missing'', st)
     else case transport of
       None \<Rightarrow> (Throws, st)
     | Some tid \<Rightarrow>
         (Answer tid, set_session (s\<lparr>se_transports := set_add tid (se_transports s)\<rparr>) userId st))"

text \<open>The events of a transport that closes, on the session its listeners hold.\<close>

definition drop_transport :: "string \<Rightarrow> session \<Rightarrow> session" where
  "drop_transport tid s =
     s\<lparr>se_transports := removeAll tid (se_transports s),
       se_producers := filter (\<lambda>(i, p). pr_transportId p \<noteq> tid) (se_producers s),
       se_consumers := filter (\<lambda>(i, tr). tr \<noteq> tid) (se_consumers s)\<rparr>"

definition on_transport_closed :: "string \<Rightarrow> string \<Rightarrow> rtc \<Rightarrow> rtc" where
  "on_transport_closed userId tid st = (case rt_sessions st userId of
      None \<Rightarrow> st
    | Some s \<Rightarrow> set_session (drop_transport tid s) userId st)"

definition connectTransport :: "string \<Rightarrow> string \<Rightarrow> bool \<Rightarrow> rtc \<Rightarrow> unit answer \<times> rtc" where
  "connectTransport userId tid connects st = with_session userId st (\<lambda>s.
     if tid \<notin> set (se_transports s) then (Refused ''transport_not_found'', st)
     else if connects then (Answer (), st) else (Throws, st))"

definition restartIce :: "string \<Rightarrow> string \<Rightarrow> 'ice option \<Rightarrow> rtc \<Rightarrow> 'ice answer \<times> rtc" where
  "restartIce userId tid ice st = with_session userId st (\<lambda>s.
     if tid \<notin> set (se_transports s) then (Refused ''transport_not_found'', st)
     else case ice of None \<Rightarrow> (Throws, st) | Some i \<Rightarrow> (Answer i, st))"

subsection \<open>Producers\<close>

text \<open>\<open>{ ...appData, userId }\<close>.\<close>

fun spread :: "json \<Rightarrow> (string \<times> json) list" where
  "spread (JObj fs) = fs"
| "spread (JArr xs) = zip (map nat_str [0..<length xs]) xs"
| "spread _ = []"

definition producer_app_data :: "json option \<Rightarrow> string \<Rightarrow> json" where
  "producer_app_data appData userId =
     JObj (AList.update ''userId'' (JStr userId) (case appData of None \<Rightarrow> [] | Some j \<Rightarrow> spread j))"

definition offer_to_taps ::
  "(string \<Rightarrow> consume_outcome) \<Rightarrow> string \<Rightarrow> producer_of_transport \<Rightarrow> string \<Rightarrow> rtc \<Rightarrow> rtc" where
  "offer_to_taps consume roomId p userId st =
     (case onMicAudioProducerAdded consume roomId p userId (rt_reg st, rt_taps st) of
        (reg, taps) \<Rightarrow> st\<lparr>rt_reg := reg, rt_taps := taps\<rparr>)"

definition produce ::
  "(string \<Rightarrow> consume_outcome) \<Rightarrow> string \<Rightarrow> string \<Rightarrow> media_kind \<Rightarrow> json option \<Rightarrow> (string \<times> bool) option \<Rightarrow> rtc
     \<Rightarrow> string answer \<times> rtc" where
  "produce consume userId tid kind appData made st = with_session userId st (\<lambda>s.
     if tid \<notin> set (se_transports s) then (Refused ''transport_not_found'', st)
     else case made of
       None \<Rightarrow> (Throws, st)
     | Some (pid, paused) \<Rightarrow>
        (let p = \<lparr>pr_id = pid, pr_kind = kind, pr_paused = paused, pr_appData = producer_app_data appData userId,
                  pr_transportId = tid, pr_closed = False\<rparr>;
             roomId = se_roomId s;
             st1 = set_session (s\<lparr>se_producers := AList.update pid p (se_producers s)\<rparr>) userId st;
             st2 = (if is_mic p \<and> \<not> paused then
                      offer_to_taps consume roomId p userId (registerMicProducerForDominant roomId pid st1)
                    else st1);
             st3 = publish_event roomId (ProducerAdded roomId userId pid (if kind = Audio then ''audio'' else ''video'')) st2;
             source = (if kind = Video
                       then Some (mediaSourceFromProducerAppData (nullish_or appData (pr_appData p))) else None)
         in (Answer pid, emit_out (ToOthers (se_socket s) roomId (NewProducer userId pid kind source)) st3)))"

definition pauseProducer :: "clock3 \<Rightarrow> string \<Rightarrow> string \<Rightarrow> bool \<Rightarrow> rtc \<Rightarrow> unit answer \<times> rtc" where
  "pauseProducer t userId pid pauses st = with_session userId st (\<lambda>s.
     case map_of (se_producers s) pid of
       None \<Rightarrow> (Refused ''producer_not_found'', st)
     | Some p \<Rightarrow>
        (let st1 = (if pauses then set_session (s\<lparr>se_producers := AList.update pid (p\<lparr>pr_paused := True\<rparr>) (se_producers s)\<rparr>) userId st
                    else st);
             st2 = (if is_mic p then
                      with_speaker (clearHighlightIfUser t (se_roomId s) userId)
                        (unregisterMicProducerForDominant (se_roomId s) pid st1)
                    else st1)
         in (Answer (), emit_out (ToOthers (se_socket s) (se_roomId s)
               (ProducerPaused userId pid (pr_kind p) (mediaSourceFromProducerAppData (pr_appData p)))) st2)))"

definition resumeProducer :: "string \<Rightarrow> string \<Rightarrow> bool \<Rightarrow> rtc \<Rightarrow> unit answer \<times> rtc" where
  "resumeProducer userId pid resumes st = with_session userId st (\<lambda>s.
     case map_of (se_producers s) pid of
       None \<Rightarrow> (Refused ''producer_not_found'', st)
     | Some p \<Rightarrow>
        (let st1 = (if resumes then set_session (s\<lparr>se_producers := AList.update pid (p\<lparr>pr_paused := False\<rparr>) (se_producers s)\<rparr>) userId st
                    else st);
             st2 = (if is_mic p then registerMicProducerForDominant (se_roomId s) pid st1 else st1)
         in (Answer (), emit_out (ToOthers (se_socket s) (se_roomId s)
               (ProducerResumed userId pid (pr_kind p) (mediaSourceFromProducerAppData (pr_appData p)))) st2)))"

definition closeProducer :: "clock3 \<Rightarrow> string \<Rightarrow> string \<Rightarrow> rtc \<Rightarrow> unit answer \<times> rtc" where
  "closeProducer t userId pid st = with_session userId st (\<lambda>s.
     case map_of (se_producers s) pid of
       None \<Rightarrow> (Refused ''producer_not_found'', st)
     | Some p \<Rightarrow>
        (let roomId = se_roomId s;
             st1 = emit_out (ToOthers (se_socket s) roomId (ProducerClosed userId pid)) st;
             st2 = (if is_mic p then
                      with_speaker (clearHighlightIfUser t roomId userId) (unregisterMicProducerForDominant roomId pid st1)
                    else st1);
             st3 = emit_out (CloseProducer pid) st2;
             st4 = set_session (s\<lparr>se_producers := AList.delete pid (se_producers s)\<rparr>) userId st3
         in (Answer (), publish_event roomId (ProducerRemoved roomId userId pid) st4)))"

subsection \<open>Consumers\<close>

definition consume ::
  "(string \<Rightarrow> string \<Rightarrow> bool) \<Rightarrow> string \<Rightarrow> string \<Rightarrow> string \<Rightarrow> bool \<Rightarrow> string option \<Rightarrow> rtc \<Rightarrow> consumed answer \<times> rtc" where
  "consume canConsume userId tid pid paused made st = with_session userId st (\<lambda>s.
     if tid \<notin> set (se_transports s) then (Refused ''transport_not_found'', st)
     else case findProducerInRoom (se_roomId s) pid st of
       None \<Rightarrow> (Refused ''producer_not_found'', st)
     | Some p \<Rightarrow>
        (case getLocalRoom (se_roomId s) (rt_reg st) of
           None \<Rightarrow> (Refused ''room_missing'', st)
         | Some room \<Rightarrow>
            if \<not> canConsume (lr_router room) pid then (Refused ''cannot_consume'', st)
            else (case made of
                None \<Rightarrow> (Throws, st)
              | Some cid \<Rightarrow>
                  (Answer \<lparr>co_id = cid, co_producerId = pid, co_kind = pr_kind p, co_producerPaused = pr_paused p,
                           co_paused = paused,
                           co_mediaSource = (if pr_kind p = Video
                             then Some (mediaSourceFromProducerAppData (pr_appData p)) else None)\<rparr>,
                   set_session (s\<lparr>se_consumers := AList.update cid tid (se_consumers s)\<rparr>) userId st))))"

definition resumeConsumer :: "string \<Rightarrow> string \<Rightarrow> bool \<Rightarrow> rtc \<Rightarrow> unit answer \<times> rtc" where
  "resumeConsumer userId cid resumes st = with_session userId st (\<lambda>s.
     if map_of (se_consumers s) cid = None then (Refused ''consumer_not_found'', st)
     else if resumes then (Answer (), st) else (Throws, st))"

subsection \<open>The room's type\<close>

definition setRoomTypeForRoomPeers :: "string \<Rightarrow> room_session_type \<Rightarrow> rtc \<Rightarrow> nat \<times> rtc" where
  "setRoomTypeForRoomPeers roomId roomType st =
     (let live = filter (\<lambda>uid. rt_sessions st uid \<noteq> None) (members_of roomId st)
      in (length live,
          st\<lparr>rt_types := fold (\<lambda>uid m. m(se_socket (the (rt_sessions st uid)) \<mapsto> roomType)) live (rt_types st)\<rparr>))"

end
