(* ===== verification/RtcRoster.thy ===== *)
theory RtcRoster
  imports RtcPeers
begin

text \<open>
  The rtc service's steps as a relation, and what every reachable state keeps: the roster
  (sessions and room members agree), the sessions' own maps, the taps' index, and that the
  highlighted speaker of a room is one of its members.
\<close>

subsection \<open>Which parts of the state an operation touches\<close>

definition who :: "rtc \<Rightarrow> (string \<Rightarrow> session option) \<times> (string \<Rightarrow> string list option) \<times>
    (string \<Rightarrow> string option) \<times> (string \<Rightarrow> string option)" where
  "who st = (rt_sessions st, rt_members st, rt_names st, rt_images st)"

lemma who_eq:
  "who a = who b \<longleftrightarrow> rt_sessions a = rt_sessions b \<and> rt_members a = rt_members b
     \<and> rt_names a = rt_names b \<and> rt_images a = rt_images b"
  by (simp add: who_def)

lemma emit_keeps [simp]:
  "who (emit_out x st) = who st" "rt_speaker (emit_out x st) = rt_speaker st"
  "rt_taps (emit_out x st) = rt_taps st" "rt_reg (emit_out x st) = rt_reg st"
  "rt_joined (emit_out x st) = rt_joined st" "rt_sessions (emit_out x st) = rt_sessions st"
  "rt_members (emit_out x st) = rt_members st"
  by (simp_all add: emit_out_def who_def)

lemma publish_keeps [simp]:
  "who (publish_event r e st) = who st" "rt_speaker (publish_event r e st) = rt_speaker st"
  "rt_taps (publish_event r e st) = rt_taps st" "rt_sessions (publish_event r e st) = rt_sessions st"
  "rt_joined (publish_event r e st) = rt_joined st"
  by (simp_all add: publish_event_def who_def)

lemma with_redis_keeps [simp]:
  "who (with_redis f st) = who st" "rt_speaker (with_redis f st) = rt_speaker st"
  "rt_taps (with_redis f st) = rt_taps st" "rt_joined (with_redis f st) = rt_joined st"
  "rg_redis (rt_reg (with_redis f st)) = f (rg_redis (rt_reg st))"
  by (simp_all add: with_redis_def who_def)

lemma mic_keeps [simp]:
  "who (registerMicProducerForDominant r p st) = who st"
  "rt_speaker (registerMicProducerForDominant r p st) = rt_speaker st"
  "rt_taps (registerMicProducerForDominant r p st) = rt_taps st"
  "rt_reg (registerMicProducerForDominant r p st) = rt_reg st"
  "who (unregisterMicProducerForDominant r p st) = who st"
  "rt_speaker (unregisterMicProducerForDominant r p st) = rt_speaker st"
  "rt_taps (unregisterMicProducerForDominant r p st) = rt_taps st"
  "rt_joined (unregisterMicProducerForDominant r p st) = rt_joined st"
  "rt_reg (unregisterMicProducerForDominant r p st) = rt_reg st"
  by (simp_all add: registerMicProducerForDominant_def unregisterMicProducerForDominant_def)

lemma emit_dominant_keeps [simp]:
  "who (emitDominantSpeakerToMediasoupRoom r x st) = who st"
  "rt_speaker (emitDominantSpeakerToMediasoupRoom r x st) = rt_speaker st"
  "rt_taps (emitDominantSpeakerToMediasoupRoom r x st) = rt_taps st"
  "rt_reg (emitDominantSpeakerToMediasoupRoom r x st) = rt_reg st"
  "rt_joined (emitDominantSpeakerToMediasoupRoom r x st) = rt_joined st"
  by (simp_all add: emitDominantSpeakerToMediasoupRoom_def split: list.split)

lemma fold_keeps:
  assumes "\<And>x st. f (g x st) = f st"
  shows "f (fold g xs st) = f st"
  by (induction xs arbitrary: st) (simp_all add: assms)

lemma with_speaker_keeps [simp]:
  "who (with_speaker f st) = who st" "rt_speaker (with_speaker f st) = f (rt_speaker st)"
  "rt_taps (with_speaker f st) = rt_taps st" "rt_reg (with_speaker f st) = rt_reg st"
  "rt_joined (with_speaker f st) = rt_joined st"
  by (simp_all add: with_speaker_def Let_def case_prod_beta who_def [of "st\<lparr>rt_speaker := _\<rparr>"]
      fold_keeps [where f = who] fold_keeps [where f = rt_speaker] fold_keeps [where f = rt_taps]
      fold_keeps [where f = rt_reg] fold_keeps [where f = rt_joined]) (simp_all add: who_def)

lemma announce_keeps [simp]:
  "who (announce_closed s e st) = who st" "rt_speaker (announce_closed s e st) = rt_speaker st"
  "rt_taps (announce_closed s e st) = rt_taps st" "rt_joined (announce_closed s e st) = rt_joined st"
  by (simp_all add: announce_closed_def Let_def)

lemmas fold_announce [simp] =
  fold_keeps [where f = who and g = "announce_closed s" for s, OF announce_keeps(1)]
  fold_keeps [where f = rt_speaker and g = "announce_closed s" for s, OF announce_keeps(2)]
  fold_keeps [where f = rt_taps and g = "announce_closed s" for s, OF announce_keeps(3)]
  fold_keeps [where f = rt_joined and g = "announce_closed s" for s, OF announce_keeps(4)]

lemma fold_emit [simp]:
  "who (fold (\<lambda>x. emit_out (f x)) xs st) = who st"
  "rt_speaker (fold (\<lambda>x. emit_out (f x)) xs st) = rt_speaker st"
  "rt_taps (fold (\<lambda>x. emit_out (f x)) xs st) = rt_taps st"
  "rt_joined (fold (\<lambda>x. emit_out (f x)) xs st) = rt_joined st"
  by (induction xs arbitrary: st) simp_all

lemma who_fields:
  "who a = who b \<Longrightarrow> rt_sessions a = rt_sessions b" "who a = who b \<Longrightarrow> rt_members a = rt_members b"
  "who a = who b \<Longrightarrow> members_of r a = members_of r b"
  by (simp_all add: who_eq members_of_def)

subsection \<open>The roster\<close>

definition in_session :: "rtc \<Rightarrow> string \<Rightarrow> string \<Rightarrow> bool" where
  "in_session st r u \<longleftrightarrow> (\<exists>s. rt_sessions st u = Some s \<and> se_roomId s = r)"

definition roster :: "rtc \<Rightarrow> bool" where
  "roster st \<longleftrightarrow>
     (\<forall>r u. u \<in> set (members_of r st) \<longleftrightarrow> in_session st r u) \<and>
     (\<forall>u s. rt_sessions st u = Some s \<longrightarrow> se_userId s = u) \<and>
     (\<forall>r. distinct (members_of r st) \<and> rt_members st r \<noteq> Some []) \<and>
     (\<forall>u. rt_names st u \<noteq> None \<or> rt_images st u \<noteq> None \<longrightarrow> rt_sessions st u \<noteq> None)"

lemma roster_cong: "who a = who b \<Longrightarrow> roster a = roster b"
  by (simp add: who_eq roster_def members_of_def in_session_def)

lemma rosterD:
  assumes "roster st"
  shows "u \<in> set (members_of r st) \<longleftrightarrow> in_session st r u"
    and "rt_sessions st u = Some s \<Longrightarrow> se_userId s = u"
    and "distinct (members_of r st)" and "rt_members st r \<noteq> Some []"
    and "rt_names st u \<noteq> None \<or> rt_images st u \<noteq> None \<Longrightarrow> rt_sessions st u \<noteq> None"
  using assms unfolding roster_def by blast+

lemma rosterI:
  assumes "\<And>r u. u \<in> set (members_of r st) \<longleftrightarrow> in_session st r u"
    and "\<And>u s. rt_sessions st u = Some s \<Longrightarrow> se_userId s = u"
    and "\<And>r. distinct (members_of r st)" and "\<And>r. rt_members st r \<noteq> Some []"
    and "\<And>u. rt_names st u \<noteq> None \<or> rt_images st u \<noteq> None \<Longrightarrow> rt_sessions st u \<noteq> None"
  shows "roster st"
  using assms unfolding roster_def by blast

lemma release_room_keeps [simp]:
  "who (releaseRoomAndTaps env r st) = who st" "rt_speaker (releaseRoomAndTaps env r st) = rt_speaker st"
  "rt_joined (releaseRoomAndTaps env r st) = rt_joined st"
  by (simp_all add: releaseRoomAndTaps_def who_def)

lemma remove_member_fields:
  "rt_sessions (remove_member env b r u st) = rt_sessions st"
  "rt_names (remove_member env b r u st) = rt_names st"
  "rt_images (remove_member env b r u st) = rt_images st"
  "rt_joined (remove_member env b r u st) = rt_joined st"
  "members_of q (remove_member env b r u st) = (if q = r then removeAll u (members_of r st) else members_of q st)"
  "rt_members st q \<noteq> Some [] \<Longrightarrow> rt_members (remove_member env b r u st) q \<noteq> Some []"
  by (auto simp: remove_member_def Let_def members_of_def releaseRoomAndTaps_def split: option.split)

lemma forget_peer_fields [simp]:
  "rt_sessions (forget_peer u st) = (rt_sessions st)(u := None)"
  "rt_names (forget_peer u st) = (rt_names st)(u := None)"
  "rt_images (forget_peer u st) = (rt_images st)(u := None)"
  "members_of r (forget_peer u st) = members_of r st" "rt_members (forget_peer u st) = rt_members st"
  "rt_speaker (forget_peer u st) = rt_speaker st" "rt_taps (forget_peer u st) = rt_taps st"
  "rt_joined (forget_peer u st) = rt_joined st" "rt_reg (forget_peer u st) = rt_reg st"
  by (simp_all add: forget_peer_def members_of_def)

lemma roster_removed:
  assumes ok: "roster st" and s: "rt_sessions st u = Some s"
  shows "roster (remove_member env b (se_roomId s) u (forget_peer u st))" (is "roster ?st")
proof (rule rosterI)
  fix r v
  have "v \<in> set (members_of r ?st) \<longleftrightarrow> v \<in> set (members_of r st) \<and> (r = se_roomId s \<longrightarrow> v \<noteq> u)"
    by (simp add: remove_member_fields)
  also have "\<dots> \<longleftrightarrow> in_session ?st r v"
    using s by (auto simp: rosterD(1) [OF ok] in_session_def remove_member_fields)
  finally show "v \<in> set (members_of r ?st) \<longleftrightarrow> in_session ?st r v" .
qed (use rosterD(2-5) [OF ok] in \<open>auto simp: remove_member_fields distinct_removeAll split: if_splits\<close>)

lemma roster_added:
  assumes ok: "roster st" and "rt_sessions st u = None"
  shows "roster (add_member r u (open_session env i u r st))" (is "roster ?st")
proof (rule rosterI)
  have f: "rt_sessions ?st = (rt_sessions st)(u \<mapsto> \<lparr>se_userId = u, se_roomId = r, se_socket = i, se_transports = [],
      se_producers = [], se_consumers = []\<rparr>)" "rt_names ?st = rt_names st" "rt_images ?st = rt_images st"
    "members_of q ?st = (if q = r then set_add u (members_of r st) else members_of q st)"
    "rt_members st q \<noteq> Some [] \<Longrightarrow> rt_members ?st q \<noteq> Some []" for q
    by (simp_all add: add_member_def open_session_def with_redis_def members_of_def Let_def)
  fix q v
  show "v \<in> set (members_of q ?st) \<longleftrightarrow> in_session ?st q v"
    using assms(2) by (auto simp: f rosterD(1) [OF ok] in_session_def)
  show "distinct (members_of q ?st)" "rt_members ?st q \<noteq> Some []"
    using rosterD(3,4) [OF ok] by (simp_all add: f)
  show "rt_names ?st v \<noteq> None \<or> rt_images ?st v \<noteq> None \<Longrightarrow> rt_sessions ?st v \<noteq> None"
    using rosterD(5) [OF ok, of v] by (auto simp: f)
  show "rt_sessions ?st v = Some x \<Longrightarrow> se_userId x = v" for x
    using rosterD(2) [OF ok, of v x] by (auto simp: f split: if_splits)
qed

lemma roster_set_session:
  assumes ok: "roster st" and "rt_sessions st u = Some s" "se_userId s' = u" "se_roomId s' = se_roomId s"
  shows "roster (set_session s' u st)" (is "roster ?st")
proof (rule rosterI)
  have f: "rt_sessions ?st = (rt_sessions st)(u \<mapsto> s')" "rt_names ?st = rt_names st" "rt_images ?st = rt_images st"
    "members_of q ?st = members_of q st" "rt_members ?st = rt_members st" for q
    by (simp_all add: set_session_def members_of_def)
  fix q v
  show "v \<in> set (members_of q ?st) \<longleftrightarrow> in_session ?st q v"
    using assms(2,4) by (auto simp: f rosterD(1) [OF ok] in_session_def)
  show "distinct (members_of q ?st)" "rt_members ?st q \<noteq> Some []"
    using rosterD(3,4) [OF ok] by (simp_all add: f)
  show "rt_names ?st v \<noteq> None \<or> rt_images ?st v \<noteq> None \<Longrightarrow> rt_sessions ?st v \<noteq> None"
    using rosterD(5) [OF ok, of v] by (auto simp: f)
  show "rt_sessions ?st v = Some x \<Longrightarrow> se_userId x = v" for x
    using rosterD(2) [OF ok, of v x] assms(3) by (auto simp: f split: if_splits)
qed

subsection \<open>The invariant\<close>

text \<open>A session's own maps: keys name their object, and every object has a live transport.\<close>

definition session_ok :: "session \<Rightarrow> bool" where
  "session_ok s \<longleftrightarrow> distinct (se_transports s) \<and> distinct (map fst (se_producers s)) \<and>
     distinct (map fst (se_consumers s)) \<and>
     (\<forall>(i, p)\<in>set (se_producers s). pr_id p = i \<and> pr_transportId p \<in> set (se_transports s)) \<and>
     (\<forall>(i, tid)\<in>set (se_consumers s). tid \<in> set (se_transports s))"

definition rtc_ok :: "rtc \<Rightarrow> bool" where
  "rtc_ok st \<longleftrightarrow> roster st \<and> (\<forall>u s. rt_sessions st u = Some s \<longrightarrow> session_ok s) \<and>
     (\<forall>r p. last_peer r (rt_speaker st) = Some p \<longrightarrow> p \<in> set (members_of r st)) \<and> taps_ok (rt_taps st)"

lemma rtc_okI:
  assumes "roster st" "\<And>u s. rt_sessions st u = Some s \<Longrightarrow> session_ok s"
    and "\<And>r p. last_peer r (rt_speaker st) = Some p \<Longrightarrow> p \<in> set (members_of r st)" "taps_ok (rt_taps st)"
  shows "rtc_ok st"
  using assms unfolding rtc_ok_def by blast

lemma rtc_okD:
  assumes "rtc_ok st"
  shows "roster st" and "rt_sessions st u = Some s \<Longrightarrow> session_ok s"
    and "last_peer r (rt_speaker st) = Some p \<Longrightarrow> p \<in> set (members_of r st)" and "taps_ok (rt_taps st)"
  using assms unfolding rtc_ok_def by blast+

lemma rtc_ok_cong:
  assumes "who a = who b" "\<And>r. last_peer r (rt_speaker a) = last_peer r (rt_speaker b)" "rt_taps a = rt_taps b"
  shows "rtc_ok a = rtc_ok b"
  using assms(2,3) roster_cong [OF assms(1)] who_fields [OF assms(1)] by (simp add: rtc_ok_def)

lemma rtc_ok_quiet:
  assumes "who a = who b" "rt_speaker a = rt_speaker b" "rt_taps a = rt_taps b"
  shows "rtc_ok a = rtc_ok b"
  using rtc_ok_cong [OF assms(1) _ assms(3)] assms(2) by simp

lemma last_peer_broadcast [simp]:
  "last_peer q (broadcastIfChanged t r p s) = (if q = r then p else last_peer q s)"
  by (auto simp: broadcastIfChanged_def flushSpeakingSegment_def last_peer_def Let_def split: option.split)

lemma last_peer_forget [simp]:
  "last_peer q (forgetRoom r s) = (if q = r then None else last_peer q s)"
  by (simp add: forgetRoom_def last_peer_def)

lemma last_peer_clear:
  "last_peer q (clearHighlightIfUser t r u s) = (if q = r \<and> last_peer r s = Some u then None else last_peer q s)"
proof -
  have "sp_lastPeerIdByRoom s r = Some (Some u) \<longleftrightarrow> last_peer r s = Some u"
    by (simp add: last_peer_def split: option.split)
  then show ?thesis by (simp add: clearHighlightIfUser_def)
qed

lemma remove_member_parts:
  "rt_speaker (remove_member env b r u st) =
     (if rt_members st r \<noteq> None \<and> removeAll u (members_of r st) = [] then forgetRoom r (rt_speaker st) else rt_speaker st)"
  "rt_taps (remove_member env b r u st) =
     (if rt_members st r \<noteq> None \<and> removeAll u (members_of r st) = [] \<and> b
      then releaseAllTapsForRoom r (rt_taps st) else rt_taps st)"
  by (auto simp: remove_member_def members_of_def Let_def releaseRoomAndTaps_def split: option.split)

lemma who_forget: "who a = who b \<Longrightarrow> who (forget_peer u a) = who (forget_peer u b)"
  by (simp add: who_eq forget_peer_def)

lemma who_remove_member: "who a = who b \<Longrightarrow> who (remove_member env c r u a) = who (remove_member env c r u b)"
  by (auto simp: who_eq remove_member_def Let_def releaseRoomAndTaps_def split: option.split)

lemma drop_redis_keeps [simp]:
  "who (drop_redis u r st) = who st" "rt_speaker (drop_redis u r st) = rt_speaker st"
  "rt_taps (drop_redis u r st) = rt_taps st" "rt_joined (drop_redis u r st) = rt_joined st"
  by (simp_all add: drop_redis_def)

lemma who_joined [simp]: "who (st\<lparr>rt_joined := j\<rparr>) = who st" "who (st\<lparr>rt_reg := g\<rparr>) = who st"
  by (simp_all add: who_def)

text \<open>What removing a session does to the sessions, the speaker and the taps.\<close>

lemma removeSession_none: "rt_sessions st u = None \<Longrightarrow> removeSession env t opts u st = st"
  by (simp add: removeSession_def)

lemma removeSession_parts:
  assumes "rt_sessions st u = Some s"
  shows "who (removeSession env t opts u st) =
      who (remove_member env (op_releaseRoomIfEmpty opts) (se_roomId s) u (forget_peer u st))"
    and "last_peer q (rt_speaker (removeSession env t opts u st)) =
      (if q = se_roomId s \<and> (last_peer q (rt_speaker st) = Some u \<or>
            rt_members st q \<noteq> None \<and> removeAll u (members_of q st) = [])
       then None else last_peer q (rt_speaker st))"
    and "rt_taps (removeSession env t opts u st) =
      (if rt_members st (se_roomId s) \<noteq> None \<and> removeAll u (members_of (se_roomId s) st) = []
          \<and> op_releaseRoomIfEmpty opts then releaseAllTapsForRoom (se_roomId s) (rt_taps st) else rt_taps st)"
proof -
  let ?st3 = "fold (\<lambda>tr. emit_out (CloseTransport tr)) (se_transports s)
    (fold (announce_closed s) (se_producers s) (emit_out (ToOthers (se_socket s) (se_roomId s) (PeerLeft u)) st))"
  have w: "who ?st3 = who st" "rt_speaker ?st3 = rt_speaker st" "rt_taps ?st3 = rt_taps st" by simp_all
  note m = who_fields [OF w(1)]
  show "who (removeSession env t opts u st) =
      who (remove_member env (op_releaseRoomIfEmpty opts) (se_roomId s) u (forget_peer u st))"
    using who_remove_member [OF who_forget [OF w(1)]] assms by (simp add: removeSession_def Let_def)
  show "last_peer q (rt_speaker (removeSession env t opts u st)) =
      (if q = se_roomId s \<and> (last_peer q (rt_speaker st) = Some u \<or>
            rt_members st q \<noteq> None \<and> removeAll u (members_of q st) = [])
       then None else last_peer q (rt_speaker st))"
    using assms
    by (auto simp: removeSession_def Let_def remove_member_parts currentHighlightedPeerId_def w m)
  show "rt_taps (removeSession env t opts u st) =
      (if rt_members st (se_roomId s) \<noteq> None \<and> removeAll u (members_of (se_roomId s) st) = []
          \<and> op_releaseRoomIfEmpty opts then releaseAllTapsForRoom (se_roomId s) (rt_taps st) else rt_taps st)"
    using assms by (auto simp: removeSession_def Let_def remove_member_parts w m)
qed

lemma removed_sessions [simp]: "rt_sessions (removeSession env t opts u st) = (rt_sessions st)(u := None)"
proof (cases "rt_sessions st u")
  case None
  then show ?thesis by (simp add: removeSession_none fun_upd_idem)
next
  case (Some s)
  then show ?thesis
    using who_fields(1) [OF removeSession_parts(1) [OF Some, where env = env and t = t and opts = opts]] by (simp add: remove_member_fields)
qed

lemma removeSession_ok:
  assumes ok: "rtc_ok st"
  shows "rtc_ok (removeSession env t opts u st)"
proof (cases "rt_sessions st u")
  case None
  then show ?thesis using ok by (simp add: removeSession_none)
next
  case (Some s)
  let ?st = "removeSession env t opts u st" let ?r = "se_roomId s"
  note parts = removeSession_parts [OF Some, where env = env and t = t and opts = opts]
  show ?thesis
  proof (rule rtc_okI)
    show "roster ?st"
      using roster_removed [OF rtc_okD(1) [OF ok] Some] roster_cong [OF parts(1)] by simp
    show "rt_sessions ?st v = Some x \<Longrightarrow> session_ok x" for v x
      using rtc_okD(2) [OF ok, of v x] by (simp split: if_splits)
    show "p \<in> set (members_of q ?st)" if "last_peer q (rt_speaker ?st) = Some p" for q p
      using that rtc_okD(3) [OF ok, of q p]
      by (auto simp: parts(2) who_fields(3) [OF parts(1)] remove_member_fields split: if_splits)
    show "taps_ok (rt_taps ?st)"
      using rtc_okD(4) [OF ok] release_all(1) by (simp add: parts(3))
  qed
qed

subsection \<open>Every method keeps it\<close>

lemma set_session_ok:
  assumes ok: "rtc_ok st" and "rt_sessions st u = Some s" "se_userId s' = se_userId s" "se_roomId s' = se_roomId s"
    and "session_ok s'"
  shows "rtc_ok (set_session s' u st)"
proof (rule rtc_okI)
  show "roster (set_session s' u st)"
    using roster_set_session [OF rtc_okD(1) [OF ok] assms(2)] rosterD(2) [OF rtc_okD(1) [OF ok] assms(2)] assms(3,4)
    by simp
  show "rt_sessions (set_session s' u st) v = Some x \<Longrightarrow> session_ok x" for v x
    using rtc_okD(2) [OF ok, of v x] assms(5) by (auto simp: set_session_def split: if_splits)
  show "last_peer r (rt_speaker (set_session s' u st)) = Some p \<Longrightarrow> p \<in> set (members_of r (set_session s' u st))" for r p
    using rtc_okD(3) [OF ok, of r p] by (simp add: set_session_def members_of_def)
qed (use rtc_okD(4) [OF ok] in \<open>simp add: set_session_def\<close>)

lemma set_session_fields [simp]:
  "rt_sessions (set_session s u st) = (rt_sessions st)(u \<mapsto> s)" "rt_speaker (set_session s u st) = rt_speaker st"
  "rt_taps (set_session s u st) = rt_taps st" "rt_reg (set_session s u st) = rt_reg st"
  "members_of r (set_session s u st) = members_of r st"
  by (simp_all add: set_session_def members_of_def)

lemma ensure_keeps [simp]:
  "who (ensureDominantSpeakerListener r st) = who st"
  "rt_speaker (ensureDominantSpeakerListener r st) = rt_speaker st"
  "rt_taps (ensureDominantSpeakerListener r st) = rt_taps st"
  by (simp_all add: ensureDominantSpeakerListener_def split: option.split)

lemma quiet_ok [simp]:
  "rtc_ok (emit_out x st) = rtc_ok st" "rtc_ok (publish_event r e st) = rtc_ok st"
  "rtc_ok (with_redis f st) = rtc_ok st" "rtc_ok (st\<lparr>rt_reg := g\<rparr>) = rtc_ok st"
  "rtc_ok (registerMicProducerForDominant r p st) = rtc_ok st"
  "rtc_ok (unregisterMicProducerForDominant r p st) = rtc_ok st"
  "rtc_ok (ensureDominantSpeakerListener r st) = rtc_ok st"
  by (rule rtc_ok_quiet; simp)+

lemma with_speaker_ok:
  assumes ok: "rtc_ok st"
    and "\<And>r p. last_peer r (f (rt_speaker st)) = Some p \<Longrightarrow> p \<in> set (members_of r st)"
  shows "rtc_ok (with_speaker f st)"
  using rtc_okD [OF ok] assms(2) roster_cong [OF with_speaker_keeps(1) [of f st]]
    who_fields [OF with_speaker_keeps(1) [of f st]]
  by (intro rtc_okI) simp_all

lemma clear_ok: "rtc_ok st \<Longrightarrow> rtc_ok (with_speaker (clearHighlightIfUser t r u) st)"
  using rtc_okD(3) [of st] by (intro with_speaker_ok) (auto simp: last_peer_clear split: if_splits)

lemma silence_ok: "rtc_ok st \<Longrightarrow> rtc_ok (on_room_silence t r st)"
  using rtc_okD(3) [of st]
  by (auto simp: on_room_silence_def on_silence_def [abs_def] intro!: with_speaker_ok split: if_splits)

lemma first_someD: "first_some f xs = Some y \<Longrightarrow> \<exists>x\<in>set xs. f x = Some y"
  by (induction xs) (auto split: option.splits)

lemma owner_member: "findPeerIdOwningProducer r pid st = Some u \<Longrightarrow> u \<in> set (members_of r st)"
  by (auto simp: findPeerIdOwningProducer_def dest!: first_someD split: if_splits)

lemma last_peer_volumes:
  "last_peer q (on_volumes f t r vs s) = Some p \<Longrightarrow> last_peer q s = Some p \<or> q = r \<and> (\<exists>i. f i = Some p)"
  by (auto simp: on_volumes_def split: if_splits option.splits)

lemma volumes_ok: "rtc_ok st \<Longrightarrow> rtc_ok (on_room_volumes t r vs st)"
  using rtc_okD(3) [of st] owner_member [of r _ st]
  by (auto simp: on_room_volumes_def intro!: with_speaker_ok dest!: last_peer_volumes)

lemma joined_ok:
  assumes ok: "rtc_ok st" and "rt_sessions st u = None"
  shows "rtc_ok (set_names u dn img (add_member r u (open_session env i u r st)))" (is "rtc_ok ?st")
proof (rule rtc_okI)
  let ?a = "add_member r u (open_session env i u r st)"
  have f: "rt_sessions ?a = (rt_sessions st)(u \<mapsto> \<lparr>se_userId = u, se_roomId = r, se_socket = i, se_transports = [],
      se_producers = [], se_consumers = []\<rparr>)" "rt_speaker ?a = rt_speaker st" "rt_taps ?a = rt_taps st"
    "members_of q ?a = (if q = r then set_add u (members_of r st) else members_of q st)" for q
    by (simp_all add: add_member_def open_session_def with_redis_def members_of_def Let_def)
  have n: "rt_sessions ?st = rt_sessions ?a" "rt_speaker ?st = rt_speaker ?a" "rt_taps ?st = rt_taps ?a"
    "members_of q ?st = members_of q ?a" "rt_members ?st = rt_members ?a" for q
    by (simp_all add: set_names_def members_of_def)
  have a: "roster ?a" using roster_added [OF rtc_okD(1) [OF ok] assms(2)] .
  show "roster ?st"
  proof (rule rosterI)
    show "rt_names ?st v \<noteq> None \<or> rt_images ?st v \<noteq> None \<Longrightarrow> rt_sessions ?st v \<noteq> None" for v
      using rosterD(5) [OF a, of v] unfolding n by (auto simp: set_names_def f(1) split: if_splits)
    show "v \<in> set (members_of q ?st) \<longleftrightarrow> in_session ?st q v" for q v
      using rosterD(1) [OF a] by (simp add: n in_session_def)
  qed (use rosterD(2-4) [OF a] in \<open>simp_all add: n\<close>)
  show "rt_sessions ?st v = Some x \<Longrightarrow> session_ok x" for v x
    using rtc_okD(2) [OF ok, of v x] by (auto simp: n f session_ok_def split: if_splits)
  show "last_peer q (rt_speaker ?st) = Some p \<Longrightarrow> p \<in> set (members_of q ?st)" for q p
    using rtc_okD(3) [OF ok, of q p] by (auto simp: n f)
qed (use rtc_okD(4) [OF ok] in \<open>simp add: set_names_def add_member_def open_session_def with_redis_def Let_def\<close>)

definition fresh_session :: "string \<Rightarrow> string \<Rightarrow> string \<Rightarrow> session" where
  "fresh_session i u r = \<lparr>se_userId = u, se_roomId = r, se_socket = i, se_transports = [], se_producers = [], se_consumers = []\<rparr>"

lemma join_session:
  assumes "so_userId so = Some u" "u \<noteq> []" "so_roomId so = Some r" "r \<noteq> []"
    and "room_for env env2 u r (rt_reg (removeSession env t rejoin_opts u st)) = (RoomHere room, g)"
  shows "rt_sessions (snd (join env env2 t so dn img st)) = (rt_sessions st)(u \<mapsto> fresh_session (so_id so) u r)"
proof -
  let ?a = "add_member r u (open_session env (so_id so) u r ((removeSession env t rejoin_opts u st)\<lparr>rt_reg := g\<rparr>))"
  have "rt_sessions (set_names u dn img ?a) = (rt_sessions st)(u \<mapsto> fresh_session (so_id so) u r)"
    by (simp add: set_names_def add_member_def open_session_def with_redis_def fresh_session_def Let_def)
  moreover have "rt_sessions (ensureDominantSpeakerListener r x) = rt_sessions x" for x
    using who_fields(1) [OF ensure_keeps(1)] .
  ultimately show ?thesis using assms by (simp add: join_def Let_def)
qed

lemma join_ok: "rtc_ok st \<Longrightarrow> rtc_ok (snd (join env env2 t so dn img st))"
  using joined_ok [of "removeSession env t rejoin_opts (the (so_userId so)) st\<lparr>rt_reg := _\<rparr>"]
  by (auto simp: join_def Let_def removeSession_ok split: prod.split local_room_result.split)

lemma with_session_ok:
  "rtc_ok st \<Longrightarrow> (\<And>s. rt_sessions st u = Some s \<Longrightarrow> session_ok s \<Longrightarrow> rtc_ok (snd (f s))) \<Longrightarrow> rtc_ok (snd (with_session u st f))"
  using rtc_okD(2) [of st u] by (simp add: with_session_def split: option.split)

lemma create_transport_ok: "rtc_ok st \<Longrightarrow> rtc_ok (snd (createWebRtcTransport u tr st))"
  unfolding createWebRtcTransport_def
  by (rule with_session_ok, assumption)
    (auto intro!: set_session_ok simp: session_ok_def split: option.split)

lemma transport_closed_ok: "rtc_ok st \<Longrightarrow> rtc_ok (on_transport_closed u tid st)"
  using rtc_okD(2) [of st u]
  by (auto simp: on_transport_closed_def drop_transport_def session_ok_def distinct_removeAll
      intro!: set_session_ok distinct_map_filter split: option.split)

lemma session_ok_update:
  assumes "session_ok s" "pr_id p = i" "pr_transportId p \<in> set (se_transports s)"
  shows "session_ok (s\<lparr>se_producers := AList.update i p (se_producers s)\<rparr>)"
proof -
  have "set (AList.update i p xs) \<subseteq> insert (i, p) (set xs)" for xs
    by (induction xs) auto
  with assms show ?thesis by (fastforce simp: session_ok_def distinct_update)
qed

lemma offer_ok:
  assumes "rtc_ok st"
  shows "rtc_ok (offer_to_taps c r p u st)"
proof -
  let ?st = "offer_to_taps c r p u st"
  have w: "who ?st = who st" "rt_speaker ?st = rt_speaker st"
    by (simp_all add: offer_to_taps_def who_def split: prod.split)
  have "taps_ok (rt_taps ?st)"
    using mic_added_ok [of "(rt_reg st, rt_taps st)" c r p u] rtc_okD(4) [OF assms]
    by (auto simp: offer_to_taps_def split: prod.split)
  then show ?thesis
    using rtc_okD [OF assms] roster_cong [OF w(1)] who_fields [OF w(1)] w(2) by (intro rtc_okI) simp_all
qed

lemma produced_ok:
  assumes "rtc_ok st"
  shows "rtc_ok (snd (produce c u tid k ad made st))"
  unfolding produce_def
proof (rule with_session_ok [OF assms], goal_cases)
  case (1 s)
  let ?p = "\<lambda>pid paused. \<lparr>pr_id = pid, pr_kind = k, pr_paused = paused, pr_appData = producer_app_data ad u,
    pr_transportId = tid, pr_closed = False\<rparr>"
  have "rtc_ok (set_session (s\<lparr>se_producers := AList.update pid (?p pid paused) (se_producers s)\<rparr>) u st)"
    if "tid \<in> set (se_transports s)" for pid paused
    by (rule set_session_ok [OF assms 1(1)]) (use session_ok_update [OF 1(2), of "?p pid paused"] that in simp_all)
  with assms show ?case
    by (auto simp: Let_def offer_ok split: option.split prod.split)
qed

lemma session_ok_producer:
  "session_ok s \<Longrightarrow> map_of (se_producers s) pid = Some p \<Longrightarrow> pr_id p = pid \<and> pr_transportId p \<in> set (se_transports s)"
  by (fastforce simp: session_ok_def dest: map_of_SomeD)

lemma paused_ok:
  assumes "rtc_ok st" "rt_sessions st u = Some s" "map_of (se_producers s) pid = Some p"
  shows "rtc_ok (set_session (s\<lparr>se_producers := AList.update pid (p\<lparr>pr_paused := b\<rparr>) (se_producers s)\<rparr>) u st)"
  using session_ok_producer [OF rtc_okD(2) [OF assms(1,2)] assms(3)] rtc_okD(2) [OF assms(1,2)]
  by (intro set_session_ok [OF assms(1,2)] session_ok_update) simp_all

lemma pause_ok: "rtc_ok st \<Longrightarrow> rtc_ok (snd (pauseProducer t u pid b st))"
  unfolding pauseProducer_def
  by (rule with_session_ok, assumption) (auto simp: Let_def paused_ok intro!: clear_ok split: option.split)

lemma resume_ok: "rtc_ok st \<Longrightarrow> rtc_ok (snd (resumeProducer u pid b st))"
  unfolding resumeProducer_def
  by (rule with_session_ok, assumption) (auto simp: Let_def paused_ok split: option.split)

lemma close_ok:
  assumes "rtc_ok st"
  shows "rtc_ok (snd (closeProducer t u pid st))"
  unfolding closeProducer_def
proof (rule with_session_ok [OF assms], goal_cases)
  case (1 s)
  have del: "rtc_ok (set_session (s\<lparr>se_producers := AList.delete pid (se_producers s)\<rparr>) u x)"
    if "rtc_ok x" "rt_sessions x = rt_sessions st" for x
    using 1 that(2)
    by (intro set_session_ok [OF that(1)])
      (auto simp: session_ok_def AList.delete_eq intro: distinct_map_filter)
  have sp: "rt_sessions (with_speaker f x) = rt_sessions x" for f x
    using who_fields(1) [OF with_speaker_keeps(1)] .
  have un: "rt_sessions (unregisterMicProducerForDominant r i x) = rt_sessions x" for r i x
    using who_fields(1) [OF mic_keeps(5)] .
  show ?case using assms by (auto simp: Let_def sp un clear_ok intro!: del split: option.split)
qed

lemma consume_ok:
  assumes "rtc_ok st"
  shows "rtc_ok (snd (consume cc u tid pid b made st))"
  unfolding consume_def
proof (rule with_session_ok [OF assms], goal_cases)
  case (1 s)
  have "set (AList.update i tid xs) \<subseteq> insert (i, tid) (set xs)" for i and xs :: "(string \<times> string) list"
    by (induction xs) auto
  then have "session_ok (s\<lparr>se_consumers := AList.update i tid (se_consumers s)\<rparr>)"
    if "tid \<in> set (se_transports s)" for i
    using 1(2) that by (fastforce simp: session_ok_def distinct_update)
  then show ?case
    using assms 1(1) by (auto intro!: set_session_ok split: option.split)
qed

lemma unchanged_ok:
  "rtc_ok st \<Longrightarrow> rtc_ok (snd (connectTransport u tid b st))" "rtc_ok st \<Longrightarrow> rtc_ok (snd (restartIce u tid ice st))"
  "rtc_ok st \<Longrightarrow> rtc_ok (snd (resumeConsumer u cid b st))"
  by (auto simp: connectTransport_def restartIce_def resumeConsumer_def with_session_def split: option.split)

lemma release_room_ok: "rtc_ok st \<Longrightarrow> rtc_ok (releaseRoomAndTaps env r st)"
  using rtc_okD [of st] roster_cong [OF release_room_keeps(1) [of env r st]]
    who_fields [OF release_room_keeps(1) [of env r st]] release_all(1)
  by (intro rtc_okI) (simp_all add: releaseRoomAndTaps_def)

lemma teardown_ok: "rtc_ok st \<Longrightarrow> rtc_ok (snd (forceTeardownMediasoupRoom env t r st))"
proof -
  have "rtc_ok st \<Longrightarrow> rtc_ok (fold (removeSession env t leave_opts) us st)" for us
    by (induction us arbitrary: st) (simp_all add: removeSession_ok)
  then show "rtc_ok st \<Longrightarrow> rtc_ok (snd (forceTeardownMediasoupRoom env t r st))"
    by (simp add: forceTeardownMediasoupRoom_def Let_def release_room_ok)
qed

lemma kick_ok: "rtc_ok st \<Longrightarrow> rtc_ok (snd (kickPeer env t r u st))"
  by (auto simp: kickPeer_def removeSession_ok split: option.split)

lemma taps_change_ok:
  assumes "rtc_ok st" "taps_ok taps"
  shows "rtc_ok (st\<lparr>rt_taps := taps\<rparr>)" (is "rtc_ok ?st") and "rtc_ok (st\<lparr>rt_reg := g, rt_taps := taps\<rparr>)"
proof -
  have w: "who ?st = who st" by (simp add: who_def)
  show ok: "rtc_ok ?st"
    using rtc_okD [OF assms(1)] assms(2) roster_cong [OF w] who_fields [OF w] by (intro rtc_okI) simp_all
  have "st\<lparr>rt_reg := g, rt_taps := taps\<rparr> = ?st\<lparr>rt_reg := g\<rparr>" by simp
  then show "rtc_ok (st\<lparr>rt_reg := g, rt_taps := taps\<rparr>)" using ok by (metis quiet_ok(4))
qed

lemma types_ok: "rtc_ok st \<Longrightarrow> rtc_ok (snd (setRoomTypeForRoomPeers r ty st))"
  by (rule iffD2 [OF rtc_ok_quiet [of _ st]]) (simp_all add: setRoomTypeForRoomPeers_def who_def Let_def)

subsection \<open>Reachable states\<close>

text \<open>
  One step of the service: a signalling message, an internal webhook, an event of mediasoup or
  of a socket, or a change of Redis by another process. A new tap has a fresh id.
\<close>

inductive rtc_step :: "rtc \<Rightarrow> rtc \<Rightarrow> bool" where
  join: "rtc_step st (snd (join env env2 t so dn img st))"
| leave: "rtc_step st (rtc_leave env t u st)"
| disconnect: "rtc_step st (onSocketDisconnect env t so st)"
| kick: "rtc_step st (snd (kickPeer env t r u st))"
| teardown: "rtc_step st (snd (forceTeardownMediasoupRoom env t r st))"
| room_type: "rtc_step st (snd (setRoomTypeForRoomPeers r ty st))"
| transport: "rtc_step st (snd (createWebRtcTransport u tr st))"
| transport_closed: "rtc_step st (on_transport_closed u tid st)"
| connect: "rtc_step st (snd (connectTransport u tid b st))"
| restart: "rtc_step st (snd (restartIce u tid (ice :: string option) st))"
| produce: "rtc_step st (snd (produce c u tid k ad made st))"
| pause: "rtc_step st (snd (pauseProducer t u pid b st))"
| resume: "rtc_step st (snd (resumeProducer u pid b st))"
| close: "rtc_step st (snd (closeProducer t u pid st))"
| consume: "rtc_step st (snd (consume cc u tid pid b made st))"
| resume_consumer: "rtc_step st (snd (resumeConsumer u cid b st))"
| volumes: "rtc_step st (on_room_volumes t r vs st)"
| silence: "rtc_step st (on_room_silence t r st)"
| tap: "ta_active (rt_taps st) (tv_tapId tv) = None \<Longrightarrow> createTap env tv q (rt_reg st, rt_taps st) = (res, reg, taps) \<Longrightarrow>
    rtc_step st (st\<lparr>rt_reg := reg, rt_taps := taps\<rparr>)"
| tap_released: "rtc_step st (st\<lparr>rt_taps := snd (releaseTap i (rt_taps st))\<rparr>)"
| tap_closed: "ta_active (rt_taps st) i = Some tp \<Longrightarrow>
    rtc_step st (st\<lparr>rt_taps := on_tap_closed (tp_roomId tp) i (rt_taps st)\<rparr>)"
| elsewhere: "rtc_step st (with_redis f st)"

definition rtc_init :: "rtc_redis \<Rightarrow> rtc" where
  "rtc_init r =
     \<lparr>rt_reg = \<lparr>rg_redis = r, rg_local = Map.empty, rg_closed = []\<rparr>, rt_taps = taps_init, rt_sessions = Map.empty,
      rt_members = Map.empty, rt_speaker = speaker_init, rt_names = Map.empty, rt_images = Map.empty,
      rt_types = Map.empty, rt_joined = [], rt_out = []\<rparr>"

inductive rtc_steps :: "rtc_redis \<Rightarrow> rtc \<Rightarrow> bool" for r where
  start: "rtc_steps r (rtc_init r)"
| step: "rtc_steps r st \<Longrightarrow> rtc_step st st' \<Longrightarrow> rtc_steps r st'"

lemma init_ok: "rtc_ok (rtc_init r)"
  by (rule rtc_okI)
    (simp_all add: rtc_init_def roster_def members_of_def in_session_def speaker_init_def last_peer_def taps_init_ok)

lemma step_ok: "rtc_step st st' \<Longrightarrow> rtc_ok st \<Longrightarrow> rtc_ok st'"
proof (induction rule: rtc_step.induct)
  case (tap st tv env q res reg taps)
  then have "taps_ok taps"
    using create_tap_ok [of "(rt_reg st, rt_taps st)" tv env q] rtc_okD(4) [OF tap.prems] by simp
  then show ?case using tap by (simp add: taps_change_ok)
next
  case (disconnect st env t so)
  then show ?case by (simp add: onSocketDisconnect_def removeSession_ok)
qed (simp_all add: join_ok removeSession_ok rtc_leave_def kick_ok teardown_ok types_ok create_transport_ok
    transport_closed_ok unchanged_ok produced_ok pause_ok resume_ok close_ok consume_ok volumes_ok silence_ok
    taps_change_ok release_ok closed_ok rtc_okD(4))

lemma reachable_ok: "rtc_steps r st \<Longrightarrow> rtc_ok st"
  by (induction rule: rtc_steps.induct) (simp_all add: init_ok step_ok)

text \<open>
  C2. Sessions and rooms agree in every state the service reaches, whatever messages, webhooks,
  media events and disconnects arrive in whatever order: a user is a member of exactly the
  room their session is in, so of at most one; no room is kept without members; a name or an
  image is only kept for a user with a session; every producer and consumer of a session
  belongs to one of its open transports; and the highlighted speaker of a room is a member.
\<close>

theorem sessions_and_rooms_agree:
  assumes "rtc_steps r0 st"
  shows "(u \<in> set (members_of r st) \<longleftrightarrow> (\<exists>s. rt_sessions st u = Some s \<and> se_userId s = u \<and> se_roomId s = r))
    \<and> distinct (members_of r st) \<and> rt_members st r \<noteq> Some []
    \<and> (rt_names st u \<noteq> None \<or> rt_images st u \<noteq> None \<longrightarrow> rt_sessions st u \<noteq> None)
    \<and> (\<forall>s. rt_sessions st u = Some s \<longrightarrow>
         (\<forall>(i, p)\<in>set (se_producers s). pr_id p = i \<and> pr_transportId p \<in> set (se_transports s)) \<and>
         (\<forall>(i, tid)\<in>set (se_consumers s). tid \<in> set (se_transports s)))
    \<and> (\<forall>p. currentHighlightedPeerId r (rt_speaker st) = Some p \<longrightarrow> p \<in> set (members_of r st))"
proof -
  note ok = reachable_ok [OF assms]
  note R = rosterD [OF rtc_okD(1) [OF ok]]
  have "u \<in> set (members_of r st) \<longleftrightarrow> (\<exists>s. rt_sessions st u = Some s \<and> se_userId s = u \<and> se_roomId s = r)"
    using R(1,2) by (auto simp: in_session_def)
  then show ?thesis
    using R(3-5) rtc_okD(2,3) [OF ok] by (auto simp: session_ok_def currentHighlightedPeerId_def)
qed

definition demo_rtc_env :: rtc_env where
  "demo_rtc_env = \<lparr>rv_instance = ''rtc-1'', rv_now = 1000, rv_iso = (\<lambda>n. ''1970''), rv_router = Some ''router'',
     rv_observer = True, rv_others = (\<lambda>n r. r)\<rparr>"

definition demo_sock :: "string \<Rightarrow> string \<Rightarrow> string \<Rightarrow> sock" where
  "demo_sock i u r = \<lparr>so_id = i, so_userId = Some u, so_roomId = Some r\<rparr>"

definition demo_join :: "sock \<Rightarrow> rtc \<Rightarrow> rtc" where
  "demo_join so st = snd (join demo_rtc_env demo_rtc_env (tick 0) so (Some ''Name'') None st)"

lemma demo_room:
  "room_for demo_rtc_env demo_rtc_env u r \<lparr>rg_redis = rtc_redis_empty, rg_local = Map.empty, rg_closed = c\<rparr> =
     (RoomHere \<lparr>lr_roomId = r, lr_router = ''router'', lr_listener = False\<rparr>,
      snd (create_room demo_rtc_env r \<lparr>rg_redis = rtc_redis_empty\<lparr>rr_owner := [r \<mapsto> ''rtc-1'']\<rparr>, rg_local = Map.empty, rg_closed = c\<rparr>))"
  by (simp add: room_for_def getOrCreateLocalRoom_def claim_room_def take_room_def create_room_def demo_rtc_env_def
      rtc_redis_empty_def Let_def)

lemma demo_join_session:
  assumes "u \<noteq> []" "r \<noteq> []"
  shows "rt_sessions (demo_join (demo_sock i u r) (rtc_init rtc_redis_empty)) = [u \<mapsto> fresh_session i u r]"
proof -
  have "removeSession demo_rtc_env (tick 0) rejoin_opts u (rtc_init rtc_redis_empty) = rtc_init rtc_redis_empty"
    by (rule removeSession_none) (simp add: rtc_init_def)
  moreover have "rt_reg (rtc_init rtc_redis_empty) = \<lparr>rg_redis = rtc_redis_empty, rg_local = Map.empty, rg_closed = []\<rparr>"
    "rt_sessions (rtc_init rtc_redis_empty) = Map.empty"
    by (simp_all add: rtc_init_def)
  ultimately show ?thesis
    unfolding demo_join_def
    by (subst join_session [OF _ assms(1) _ assms(2) trans [OF arg_cong [where f = "room_for _ _ _ _"] demo_room]])
      (simp_all add: demo_sock_def)
qed

lemma demo_join_reachable: "rtc_steps rtc_redis_empty (demo_join so (rtc_init rtc_redis_empty))"
  unfolding demo_join_def by (rule rtc_steps.step [OF rtc_steps.start rtc_step.join])

theorem sessions_and_rooms_agree_witness:
  "''amy'' \<in> set (members_of ''r1'' (demo_join (demo_sock ''s1'' ''amy'' ''r1'') (rtc_init rtc_redis_empty)))"
proof -
  let ?st = "demo_join (demo_sock ''s1'' ''amy'' ''r1'') (rtc_init rtc_redis_empty)"
  have "rt_sessions ?st ''amy'' = Some (fresh_session ''s1'' ''amy'' ''r1'')"
    using demo_join_session [of "''amy''" "''r1''" "''s1''"] by simp
  then show ?thesis
    using sessions_and_rooms_agree [OF demo_join_reachable, of "''amy''" "''r1''" "demo_sock ''s1'' ''amy'' ''r1''"]
    by (auto simp: fresh_session_def)
qed

end
