(* ===== verification/RtcSafety.thy ===== *)
theory RtcSafety
  imports RtcRoster
begin

text \<open>
  What the rtc service guarantees its peers, and where it does not: consuming stays in the room,
  leaving leaves nothing behind, a room with peers is not taken by another instance, while a
  late disconnect of an old socket, a change of room and a claim without a peer go wrong.
\<close>

subsection \<open>The registry under removal\<close>

text \<open>A registry without its log of published events.\<close>

definition unlogged :: "registry \<Rightarrow> registry" where
  "unlogged g = g\<lparr>rg_redis := (rg_redis g)\<lparr>rr_events := []\<rparr>\<rparr>"

lemma unlogged_publish [simp]: "unlogged (rt_reg (publish_event r e st)) = unlogged (rt_reg st)"
  by (simp add: unlogged_def publish_event_def publishRoomMediaEvent_def)

lemma unlogged_announce: "unlogged (rt_reg (announce_closed s e st)) = unlogged (rt_reg st)"
  by (simp add: announce_closed_def Let_def)

lemma unlogged_closing:
  "unlogged (rt_reg (fold (\<lambda>tr. emit_out (CloseTransport tr)) trs (fold (announce_closed s) ps (emit_out x st)))) =
   unlogged (rt_reg st)"
proof -
  have "rt_reg (fold (\<lambda>tr. emit_out (CloseTransport tr)) trs st) = rt_reg st" for st
    by (induction trs arbitrary: st) simp_all
  then show ?thesis
    using fold_keeps [where f = "\<lambda>st. unlogged (rt_reg st)" and g = "announce_closed s", OF unlogged_announce]
    by simp
qed

lemma release_unlogged: "unlogged (releaseRoom env r g) = releaseRoom env r (unlogged g)"
  by (simp add: releaseRoom_def teardownLocalRoom_def forceClearRoomRedis_def forceClear_def unlogged_def
      split: option.split)

definition drop_peer :: "string \<Rightarrow> string \<Rightarrow> registry \<Rightarrow> registry" where
  "drop_peer u r g = g\<lparr>rg_redis := clearUserActiveRtcRoomIfMatches u r (deletePeer u r (rg_redis g))\<rparr>"

lemma drop_unlogged: "unlogged (drop_peer u r g) = drop_peer u r (unlogged g)"
  by (simp add: drop_peer_def unlogged_def clearUserActiveRtcRoomIfMatches_def deletePeer_def)

definition last_in :: "rtc \<Rightarrow> string \<Rightarrow> string \<Rightarrow> bool" where
  "last_in st r u \<longleftrightarrow> rt_members st r \<noteq> None \<and> removeAll u (members_of r st) = []"

lemma removed_reg:
  assumes "rt_sessions st u = Some s"
  shows "unlogged (rt_reg (removeSession env t opts u st)) =
     (let g = (if last_in st (se_roomId s) u \<and> op_releaseRoomIfEmpty opts
               then releaseRoom env (se_roomId s) (unlogged (rt_reg st)) else unlogged (rt_reg st))
      in if op_skipRedis opts then g else drop_peer u (se_roomId s) g)"
proof -
  let ?st3 = "fold (\<lambda>tr. emit_out (CloseTransport tr)) (se_transports s)
    (fold (announce_closed s) (se_producers s) (emit_out (ToOthers (se_socket s) (se_roomId s) (PeerLeft u)) st))"
  have w: "who ?st3 = who st" by simp
  have reg: "unlogged (rt_reg ?st3) = unlogged (rt_reg st)" by (rule unlogged_closing)
  have member: "rt_reg (remove_member env b (se_roomId s) u (forget_peer u ?st3)) =
      (if last_in st (se_roomId s) u \<and> b then releaseRoom env (se_roomId s) (rt_reg ?st3) else rt_reg ?st3)" for b
    using who_fields [OF w]
    by (auto simp: remove_member_def last_in_def releaseRoomAndTaps_def members_of_def Let_def split: option.split)
  have drop: "rt_reg (drop_redis u r x) = drop_peer u r (rt_reg x)" for r x
    by (simp add: drop_redis_def with_redis_def drop_peer_def)
  show ?thesis
    using assms by (simp add: removeSession_def Let_def drop drop_unlogged member release_unlogged reg)
qed

lemma left_room:
  assumes "rt_sessions st u = Some s" "rtc_ok st"
  shows "members_of r (removeSession env t opts u st) =
     (if r = se_roomId s then removeAll u (members_of r st) else members_of r st)"
  using who_fields(3) [OF removeSession_parts(1) [OF assms(1), where env = env and t = t and opts = opts]]
  by (simp add: remove_member_fields)

lemma last_in_members:
  assumes "rtc_ok st" "rt_sessions st u = Some s"
  shows "last_in st (se_roomId s) u \<longleftrightarrow> set (members_of (se_roomId s) st) = {u}"
proof -
  have u: "u \<in> set (members_of (se_roomId s) st)"
    using rosterD(1) [OF rtc_okD(1) [OF assms(1)]] assms(2) by (simp add: in_session_def)
  then have "rt_members st (se_roomId s) \<noteq> None"
    by (cases "rt_members st (se_roomId s)") (simp_all add: members_of_def)
  moreover have "removeAll u ms = [] \<longleftrightarrow> set ms \<subseteq> {u}" for ms
    by (induction ms) auto
  ultimately show ?thesis
    using u unfolding last_in_def by blast
qed

lemma unlogged_view:
  "rr_peer (rg_redis (unlogged g)) = rr_peer (rg_redis g)" "rr_peers (rg_redis (unlogged g)) = rr_peers (rg_redis g)"
  "rr_active (rg_redis (unlogged g)) = rr_active (rg_redis g)" "rr_owner (rg_redis (unlogged g)) = rr_owner (rg_redis g)"
  "rg_local (unlogged g) = rg_local g"
  by (simp_all add: unlogged_def)

lemmas logged = unlogged_view [symmetric]

lemma left_reg:
  assumes "rt_sessions st u = Some s"
  shows "unlogged (rt_reg (rtc_leave env t u st)) = drop_peer u (se_roomId s)
     (if last_in st (se_roomId s) u then releaseRoom env (se_roomId s) (unlogged (rt_reg st)) else unlogged (rt_reg st))"
  unfolding rtc_leave_def removed_reg [OF assms] by (simp add: leave_opts_def)

lemmas registry_defs = drop_peer_def releaseRoom_def teardownLocalRoom_def forceClearRoomRedis_def forceClear_def
  clearUserActiveRtcRoomIfMatches_def deletePeer_def

lemma left_redis:
  assumes "rt_sessions st u = Some s"
  shows "rr_peer (rg_redis (rt_reg (rtc_leave env t u st))) u = []"
    "u \<notin> set (rr_peers (rg_redis (rt_reg (rtc_leave env t u st))) (se_roomId s))"
    "rr_active (rg_redis (rt_reg (rtc_leave env t u st))) u \<noteq> Some (se_roomId s)"
  unfolding logged [of "rt_reg (rtc_leave env t u st)"] left_reg [OF assms]
  by (simp_all add: registry_defs)

lemma left_last:
  assumes ok: "rtc_ok st" and s: "rt_sessions st u = Some s" and last: "last_in st (se_roomId s) u"
  shows "rt_members (rtc_leave env t u st) (se_roomId s) = None"
    and "room_taps (se_roomId s) (rt_taps (rtc_leave env t u st)) = []"
    and "rg_local (rt_reg (rtc_leave env t u st)) (se_roomId s) = None"
    and "currentHighlightedPeerId (se_roomId s) (rt_speaker (rtc_leave env t u st)) = None"
    and "rr_owner (rg_redis (rt_reg st)) (se_roomId s) = Some (rv_instance env) \<Longrightarrow>
         rr_owner (rg_redis (rt_reg (rtc_leave env t u st))) (se_roomId s) = None"
proof -
  let ?st = "rtc_leave env t u st" let ?r = "se_roomId s"
  have ok': "rtc_ok ?st" unfolding rtc_leave_def using removeSession_ok [OF ok] .
  have none: "members_of ?r ?st = []"
    using left_room [OF s ok] last unfolding rtc_leave_def last_in_def by simp
  then show "rt_members ?st ?r = None"
    using rosterD(4) [OF rtc_okD(1) [OF ok'], of ?r] by (cases "rt_members ?st ?r") (simp_all add: members_of_def)
  show "room_taps ?r (rt_taps ?st) = []"
    using removeSession_parts(3) [OF s, of env t leave_opts] last release_all(2) [OF rtc_okD(4) [OF ok]]
    unfolding rtc_leave_def last_in_def by (simp add: leave_opts_def)
  show "currentHighlightedPeerId ?r (rt_speaker ?st) = None"
    using rtc_okD(3) [OF ok', of ?r] none
    by (cases "last_peer ?r (rt_speaker ?st)") (auto simp: currentHighlightedPeerId_def)
  have reg: "unlogged (rt_reg ?st) = drop_peer u ?r (releaseRoom env ?r (unlogged (rt_reg st)))"
    using left_reg [OF s] last by simp
  show "rg_local (rt_reg ?st) ?r = None"
    unfolding logged [of "rt_reg ?st"] reg by (simp add: registry_defs split: option.split)
  show "rr_owner (rg_redis (rt_reg ?st)) ?r = None" if "rr_owner (rg_redis (rt_reg st)) ?r = Some (rv_instance env)"
    unfolding logged [of "rt_reg ?st"] reg using that
    by (simp add: registry_defs unlogged_view split: option.split)
qed

lemma left_others:
  assumes s: "rt_sessions st u = Some s" and others: "\<not> last_in st (se_roomId s) u"
  shows "rt_taps (rtc_leave env t u st) = rt_taps st"
    and "rg_local (rt_reg (rtc_leave env t u st)) = rg_local (rt_reg st)"
    and "rr_owner (rg_redis (rt_reg (rtc_leave env t u st))) = rr_owner (rg_redis (rt_reg st))"
    and "rr_peers (rg_redis (rt_reg (rtc_leave env t u st))) (se_roomId s) =
         removeAll u (rr_peers (rg_redis (rt_reg st)) (se_roomId s))"
proof -
  show "rt_taps (rtc_leave env t u st) = rt_taps st"
    using removeSession_parts(3) [OF s, of env t leave_opts] others unfolding rtc_leave_def last_in_def by auto
  have reg: "unlogged (rt_reg (rtc_leave env t u st)) = drop_peer u (se_roomId s) (unlogged (rt_reg st))"
    using left_reg [OF s] others by simp
  show "rg_local (rt_reg (rtc_leave env t u st)) = rg_local (rt_reg st)"
    "rr_owner (rg_redis (rt_reg (rtc_leave env t u st))) = rr_owner (rg_redis (rt_reg st))"
    "rr_peers (rg_redis (rt_reg (rtc_leave env t u st))) (se_roomId s) =
       removeAll u (rr_peers (rg_redis (rt_reg st)) (se_roomId s))"
    unfolding logged [of "rt_reg (rtc_leave env t u st)"] reg by (simp_all add: registry_defs unlogged_view)
qed



subsection \<open>Consuming\<close>

lemma found_producer:
  assumes "roster st" "findProducerInRoom r pid st = Some p"
  shows "\<exists>v s. rt_sessions st v = Some s \<and> se_roomId s = r \<and> map_of (se_producers s) pid = Some p"
proof -
  obtain v where "v \<in> set (members_of r st)" "session_producer st pid v = Some p"
    using first_someD assms(2) unfolding findProducerInRoom_def by fast
  then show ?thesis
    using rosterD(1) [OF assms(1), of v r] by (intro exI [of _ v]) (auto simp: in_session_def session_producer_def)
qed

text \<open>
  C24. Nobody consumes media of another room. In any reachable state a consume that is answered comes
  from a user with a session and an open transport of it, and the producer it taps belongs to a
  user whose session is in the same room of this instance, one the room's router can serve; the
  answer carries that producer's kind and pause state, and the only thing that changes is the
  consumer's entry in the caller's own session.
\<close>

theorem consume_stays_in_room:
  assumes "rtc_steps r0 st" "consume can u tid pid paused made st = (Answer c, st')"
  shows "\<exists>s v q p room. rt_sessions st u = Some s \<and> tid \<in> set (se_transports s)
    \<and> rt_sessions st v = Some q \<and> se_roomId q = se_roomId s \<and> map_of (se_producers q) pid = Some p
    \<and> getLocalRoom (se_roomId s) (rt_reg st) = Some room \<and> can (lr_router room) pid
    \<and> co_producerId c = pid \<and> co_kind c = pr_kind p \<and> co_producerPaused c = pr_paused p \<and> made = Some (co_id c)
    \<and> st' = st\<lparr>rt_sessions := (rt_sessions st)(u \<mapsto> s\<lparr>se_consumers := AList.update (co_id c) tid (se_consumers s)\<rparr>)\<rparr>"
proof -
  obtain s where s: "rt_sessions st u = Some s" "tid \<in> set (se_transports s)"
    using assms(2) by (auto simp: consume_def with_session_def split: option.splits if_splits)
  obtain p where p: "findProducerInRoom (se_roomId s) pid st = Some p"
    using assms(2) s by (auto simp: consume_def with_session_def split: option.splits)
  obtain v q where "rt_sessions st v = Some q" "se_roomId q = se_roomId s" "map_of (se_producers q) pid = Some p"
    using found_producer [OF rtc_okD(1) [OF reachable_ok [OF assms(1)]] p] by blast
  then show ?thesis
    using assms(2) s p
    by (fastforce simp: consume_def with_session_def set_session_def split: option.splits if_splits)
qed

definition demo_call :: rtc where
  "demo_call =
     (let st1 = demo_join (demo_sock ''s1'' ''amy'' ''r1'') (rtc_init rtc_redis_empty);
          st2 = snd (createWebRtcTransport ''amy'' (Some ''t1'') st1);
          st3 = snd (produce (\<lambda>i. CannotConsume) ''amy'' ''t1'' Audio None (Some (''p1'', False)) st2)
      in st3)"

lemma demo_call_reachable: "rtc_steps rtc_redis_empty demo_call"
  unfolding demo_call_def Let_def
  by (rule rtc_steps.step [OF rtc_steps.step [OF demo_join_reachable rtc_step.transport] rtc_step.produce])

lemma demo_consumes:
  "fst (consume (\<lambda>_ _. True) ''amy'' ''t1'' ''p1'' False (Some ''c1'') demo_call) =
     Answer \<lparr>co_id = ''c1'', co_producerId = ''p1'', co_kind = Audio, co_producerPaused = False, co_paused = False,
             co_mediaSource = None\<rparr>"
  by code_simp

theorem consume_stays_in_room_witness:
  "\<exists>s v q. rt_sessions demo_call ''amy'' = Some s \<and> rt_sessions demo_call v = Some q \<and> se_roomId q = se_roomId s
     \<and> map_of (se_producers q) ''p1'' \<noteq> None"
proof -
  obtain c st' where "consume (\<lambda>_ _. True) ''amy'' ''t1'' ''p1'' False (Some ''c1'') demo_call = (Answer c, st')"
    using demo_consumes by (metis prod.collapse)
  from consume_stays_in_room [OF demo_call_reachable this] show ?thesis by blast
qed

subsection \<open>Claims of a room\<close>

text \<open>
  A room in use is never taken over. Whatever Redis does meanwhile, an instance asked for a room
  that another one owns and that has peers answers with the owner's id, changes nothing in
  Redis and hosts no such room; and when no other instance interferes, an instance that is
  given a room owns it in Redis, hosts it, and did not take it from an owner with peers.
\<close>

theorem room_in_use_is_not_taken:
  assumes "rv_instance env \<noteq> []"
  shows "(\<forall>o_id. rr_owner (rg_redis s) r = Some o_id \<and> o_id \<noteq> [] \<and> o_id \<noteq> rv_instance env \<and> rr_peers (rg_redis s) r \<noteq> [] \<longrightarrow>
       (\<exists>s'. getOrCreateLocalRoom env r s = (WrongInstance o_id, s') \<and> rg_redis s' = rg_redis s \<and> rg_local s' r = None))
    \<and> (\<forall>room s'. rv_others env = (\<lambda>n x. x) \<and> rr_owner (rg_redis s) r \<noteq> Some [] \<and>
         getOrCreateLocalRoom env r s = (RoomHere room, s') \<longrightarrow>
         rr_owner (rg_redis s') r = Some (rv_instance env) \<and> rg_local s' r = Some room \<and>
         (rr_owner (rg_redis s) r \<noteq> None \<and> rr_owner (rg_redis s) r \<noteq> Some (rv_instance env) \<longrightarrow> rr_peers (rg_redis s) r = []))"
proof (intro conjI allI impI)
  fix o_id
  assume a: "rr_owner (rg_redis s) r = Some o_id \<and> o_id \<noteq> [] \<and> o_id \<noteq> rv_instance env \<and> rr_peers (rg_redis s) r \<noteq> []"
  then show "\<exists>s'. getOrCreateLocalRoom env r s = (WrongInstance o_id, s') \<and> rg_redis s' = rg_redis s \<and> rg_local s' r = None"
    by (cases "rg_local s r") (auto simp: getOrCreateLocalRoom_def claim_room_def teardownLocalRoom_def)
next
  fix room s'
  let ?o = "rr_owner (rg_redis s) r"
  assume a: "rv_others env = (\<lambda>n x. x) \<and> ?o \<noteq> Some [] \<and> getOrCreateLocalRoom env r s = (RoomHere room, s')"
  have created: "rr_owner (rg_redis x') r = rr_owner (rg_redis x) r \<and> rg_local x' r = Some room'"
    if "create_room env r x = (RoomHere room', x')" for x x' room'
    using that by (auto simp: create_room_def Let_def split: option.splits if_splits)
  have taken: "rr_owner (rg_redis x') r = Some (rv_instance env) \<and> rg_local x' r = Some room'"
    if "take_room env r x = (RoomHere room', x')" "rr_owner (rg_redis x) r = None" for x x' room'
    using that a created by (fastforce simp: take_room_def Let_def)
  have claimed: "rr_owner (rg_redis x') r = Some (rv_instance env) \<and> rg_local x' r = Some room' \<and>
      (rr_owner (rg_redis x) r \<noteq> None \<and> rr_owner (rg_redis x) r \<noteq> Some (rv_instance env) \<longrightarrow> rr_peers (rg_redis x) r = [])"
    if "claim_room env r x = (RoomHere room', x')" "rr_owner (rg_redis x) r \<noteq> Some []" for x x' room'
    using that taken [of "forceClearRoomRedis r x"] taken [of x] created [of x] assms
    by (cases "rr_owner (rg_redis x) r")
      (auto simp: claim_room_def Let_def forceClearRoomRedis_def forceClear_def split: if_splits)
  have "rg_redis (teardownLocalRoom r s) = rg_redis s"
    by (simp add: teardownLocalRoom_def split: option.split)
  then show "rr_owner (rg_redis s') r = Some (rv_instance env)" "rg_local s' r = Some room"
    "?o \<noteq> None \<and> ?o \<noteq> Some (rv_instance env) \<Longrightarrow> rr_peers (rg_redis s) r = []"
    using a claimed [of s] claimed [of "teardownLocalRoom r s"]
    by (auto simp: getOrCreateLocalRoom_def split: option.splits if_splits)
qed

theorem room_in_use_is_not_taken_witness:
  "\<exists>s'. getOrCreateLocalRoom demo_rtc_env ''r1''
      \<lparr>rg_redis = rtc_redis_empty\<lparr>rr_owner := [''r1'' \<mapsto> ''rtc-2''], rr_peers := (\<lambda>r. [''bob''])\<rparr>, rg_local = Map.empty,
       rg_closed = []\<rparr> = (WrongInstance ''rtc-2'', s')"
proof -
  have "rv_instance demo_rtc_env \<noteq> []" by (simp add: demo_rtc_env_def)
  from room_in_use_is_not_taken [OF this, of "\<lparr>rg_redis = rtc_redis_empty\<lparr>rr_owner := [''r1'' \<mapsto> ''rtc-2''],
      rr_peers := (\<lambda>r. [''bob''])\<rparr>, rg_local = Map.empty, rg_closed = []\<rparr>" "''r1''"]
  show ?thesis by (auto simp: demo_rtc_env_def)
qed

text \<open>
  A claim without a peer is not a claim. Between the moment an instance is given a fresh room and
  the moment its first peer is saved, any other instance that is asked for the room clears the
  claim and takes the room too: both host it, and Redis names the second as the owner.
\<close>

theorem fresh_room_is_taken_twice:
  assumes "rv_others a = (\<lambda>n x. x)" "rv_others b = (\<lambda>n x. x)" "rv_instance a \<noteq> []" "rv_instance b \<noteq> rv_instance a"
    and "rv_router a = Some ra" "rv_observer a" "rv_router b = Some rb" "rv_observer b"
    and "rr_owner (rg_redis sa) r = None" "rr_peers (rg_redis sa) r = []" "rg_local sa r = None" "rg_local sb r = None"
  shows "\<exists>sa' sb' room_a room_b. getOrCreateLocalRoom a r sa = (RoomHere room_a, sa')
    \<and> getOrCreateLocalRoom b r (sb\<lparr>rg_redis := rg_redis sa'\<rparr>) = (RoomHere room_b, sb')
    \<and> rg_local sa' r = Some room_a \<and> rg_local sb' r = Some room_b
    \<and> rr_owner (rg_redis sb') r = Some (rv_instance b)"
  using assms
  by (simp add: getOrCreateLocalRoom_def claim_room_def take_room_def create_room_def forceClearRoomRedis_def
      forceClear_def Let_def)

theorem fresh_room_is_taken_twice_witness:
  "\<exists>sa' sb' room_a room_b.
     getOrCreateLocalRoom demo_rtc_env ''r1'' \<lparr>rg_redis = rtc_redis_empty, rg_local = Map.empty, rg_closed = []\<rparr> = (RoomHere room_a, sa')
   \<and> getOrCreateLocalRoom (demo_rtc_env\<lparr>rv_instance := ''rtc-2''\<rparr>) ''r1''
       (\<lparr>rg_redis = rtc_redis_empty, rg_local = Map.empty, rg_closed = []\<rparr>\<lparr>rg_redis := rg_redis sa'\<rparr>) = (RoomHere room_b, sb')
   \<and> rg_local sa' ''r1'' = Some room_a \<and> rg_local sb' ''r1'' = Some room_b
   \<and> rr_owner (rg_redis sb') ''r1'' = Some (rv_instance (demo_rtc_env\<lparr>rv_instance := ''rtc-2''\<rparr>))"
  by (rule fresh_room_is_taken_twice) (simp_all add: demo_rtc_env_def rtc_redis_empty_def)

subsection \<open>Old sockets and old rooms\<close>

text \<open>
  The disconnect of an old socket evicts the user's live session. A user who has reconnected with
  a new socket is in the room under that one, but when the old socket's disconnect arrives
  afterwards, the handler looks only at the user id: the session of the new socket is removed,
  the peer's Redis record with it, and the others are told that the peer left, while the new
  socket itself stays joined to the room's broadcasts.
\<close>

theorem stale_disconnect_evicts:
  assumes "rt_sessions st u = Some s" "so_userId old = Some u" "u \<noteq> []" "so_id old \<noteq> se_socket s"
    and "(se_socket s, se_roomId s) \<in> set (rt_joined st)"
  shows "rt_sessions (onSocketDisconnect env t old st) u = None
    \<and> rr_peer (rg_redis (rt_reg (onSocketDisconnect env t old st))) u = []
    \<and> (se_socket s, se_roomId s) \<in> set (rt_joined (onSocketDisconnect env t old st))"
proof -
  let ?o = "leave_opts\<lparr>op_skipSocketLeave := True\<rparr>"
  have d: "onSocketDisconnect env t old st = removeSession env t ?o u st"
    using assms(2,3) by (simp add: onSocketDisconnect_def)
  have "rr_peer (rg_redis (rt_reg (removeSession env t ?o u st))) u = []"
    unfolding logged [of "rt_reg (removeSession env t ?o u st)"] removed_reg [OF assms(1)]
    by (simp add: registry_defs leave_opts_def Let_def)
  moreover have "rt_joined (removeSession env t ?o u st) = rt_joined st"
    using assms(1) by (simp add: removeSession_def Let_def remove_member_fields)
  ultimately show ?thesis using assms(5) by (simp add: d)
qed

theorem stale_disconnect_evicts_witness:
  "let st = demo_join (demo_sock ''new'' ''amy'' ''r1'') (rtc_init rtc_redis_empty)
   in rt_sessions (onSocketDisconnect demo_rtc_env (tick 5) (demo_sock ''old'' ''amy'' ''r1'') st) ''amy'' = None"
proof -
  have "(''new'', ''r1'') \<in> set (rt_joined (demo_join (demo_sock ''new'' ''amy'' ''r1'') (rtc_init rtc_redis_empty)))"
    by code_simp
  then show ?thesis
  using stale_disconnect_evicts [of "demo_join (demo_sock ''new'' ''amy'' ''r1'') (rtc_init rtc_redis_empty)" "''amy''"
      "fresh_session ''new'' ''amy'' ''r1''" "demo_sock ''old'' ''amy'' ''r1''" demo_rtc_env "tick 5"]
  by (simp add: demo_join_session fresh_session_def demo_sock_def [of "''old''"] Let_def)
qed

text \<open>What the registry holds of a room is not touched by a claim of another.\<close>

definition room_view :: "string \<Rightarrow> registry \<Rightarrow> string list \<times> string option \<times> local_room option" where
  "room_view q g = (rr_peers (rg_redis g) q, rr_owner (rg_redis g) q, rg_local g q)"

lemma claim_elsewhere:
  assumes "rv_others env = (\<lambda>n x. x)" "r \<noteq> q"
  shows "room_view q (snd (getOrCreateLocalRoom env r g)) = room_view q g"
proof -
  have create: "room_view q (snd (create_room env r x)) = room_view q x" for x
    using assms(2) by (simp add: create_room_def room_view_def Let_def split: option.split)
  have take: "room_view q (snd (take_room env r x)) = room_view q x" for x
    using assms create by (simp add: take_room_def Let_def) (simp add: room_view_def)
  have claim: "room_view q (snd (claim_room env r x)) = room_view q x" for x
    using assms(2) create take
    by (simp add: claim_room_def Let_def) (simp add: room_view_def forceClearRoomRedis_def forceClear_def)
  have "room_view q (teardownLocalRoom r g) = room_view q g"
    using assms(2) by (simp add: teardownLocalRoom_def room_view_def split: option.split)
  with claim show ?thesis by (simp add: getOrCreateLocalRoom_def split: option.split)
qed

lemma room_for_elsewhere:
  assumes "rv_others env = (\<lambda>n x. x)" "rv_others env2 = (\<lambda>n x. x)" "r \<noteq> q"
  shows "room_view q (snd (room_for env env2 u r g)) = room_view q g"
proof -
  have "room_view q (forceClearRoomRedis r x) = room_view q x" for x
    using assms(3) by (simp add: room_view_def forceClearRoomRedis_def forceClear_def)
  then show ?thesis
    using claim_elsewhere [OF assms(1,3), of g] claim_elsewhere [OF assms(2,3)]
    by (auto simp: room_for_def Let_def split: prod.split local_room_result.split)
qed

lemma join_elsewhere:
  assumes "rv_others env = (\<lambda>n x. x)" "rv_others env2 = (\<lambda>n x. x)"
    and "so_userId so = Some u" "so_roomId so = Some r" "r \<noteq> q" "u \<noteq> []"
  shows "room_view q (rt_reg (snd (join env env2 t so dn img st))) =
      room_view q (rt_reg (removeSession env t rejoin_opts u st)) \<or> r = []"
    and "members_of q (snd (join env env2 t so dn img st)) = members_of q (removeSession env t rejoin_opts u st) \<or> r = []"
proof -
  let ?st = "removeSession env t rejoin_opts u st"
  have reg: "rt_reg (set_names u dn img (add_member r u (open_session env i u r x))) =
      (rt_reg x)\<lparr>rg_redis := savePeer (rv_instance env) \<lparr>pe_id = u, pe_roomId = r, pe_joinedAt = rv_iso env (rv_now env),
         pe_rtcInstanceId = Some (rv_instance env), pe_socketId = Some i\<rparr> (rg_redis (rt_reg x))\<rparr>" for i x
    by (simp add: set_names_def add_member_def open_session_def with_redis_def Let_def)
  have save: "room_view q (g\<lparr>rg_redis := savePeer n \<lparr>pe_id = u, pe_roomId = r, pe_joinedAt = d, pe_rtcInstanceId = m,
      pe_socketId = i\<rparr> (rg_redis g)\<rparr>) = room_view q g" for g n d m i
    using assms(5) by (simp add: room_view_def savePeer_def)
  have ens: "room_view q (rt_reg (ensureDominantSpeakerListener r x)) = room_view q (rt_reg x)"
    "members_of q (ensureDominantSpeakerListener r x) = members_of q x" for x
    using assms(5) by (simp_all add: ensureDominantSpeakerListener_def room_view_def members_of_def split: option.split)
  have mem: "members_of q (emit_out e (set_names u dn img (add_member r u (open_session env i u r (?st\<lparr>rt_reg := g\<rparr>))))) =
      members_of q ?st" for e i g
    using assms(5)
    by (simp add: members_of_def set_names_def add_member_def open_session_def with_redis_def emit_out_def Let_def)
  show "room_view q (rt_reg (snd (join env env2 t so dn img st))) = room_view q (rt_reg ?st) \<or> r = []"
    using room_for_elsewhere [OF assms(1,2,5), of u "rt_reg ?st"] assms(3,4,6)
    by (auto simp: join_def Let_def reg save ens split: prod.split local_room_result.split)
  show "members_of q (snd (join env env2 t so dn img st)) = members_of q ?st \<or> r = []"
    using assms(3,4,6)
    by (auto simp: join_def Let_def ens mem split: prod.split local_room_result.split) (simp_all add: members_of_def)
qed

text \<open>
  Moving to another room leaves the old one claimed. When the only peer of a room joins a different
  room, the rejoin removes the session without touching Redis and without releasing the room:
  no member is left, but the set of peers still lists the user, and the local room and its
  owner key stay, so other instances go on being told that the room is in use here.
\<close>

theorem moving_rooms_keeps_old_claim:
  assumes "rtc_steps r0 st" "rt_sessions st u = Some s" "se_roomId s = q" "members_of q st = [u]"
    and "u \<in> set (rr_peers (rg_redis (rt_reg st)) q)"
    and "rv_others env = (\<lambda>n x. x)" "rv_others env2 = (\<lambda>n x. x)"
    and "so_userId so = Some u" "u \<noteq> []" "so_roomId so = Some r" "r \<noteq> q" "r \<noteq> []"
    and "st' = snd (join env env2 t so dn img st)"
  shows "members_of q st' = [] \<and> u \<in> set (rr_peers (rg_redis (rt_reg st')) q)
    \<and> rr_owner (rg_redis (rt_reg st')) q = rr_owner (rg_redis (rt_reg st)) q
    \<and> rg_local (rt_reg st') q = rg_local (rt_reg st) q"
proof -
  let ?st = "removeSession env t rejoin_opts u st"
  have "unlogged (rt_reg ?st) = unlogged (rt_reg st)"
    unfolding removed_reg [OF assms(2)] by (simp add: rejoin_opts_def)
  then have "room_view q (rt_reg ?st) = room_view q (rt_reg st)"
    unfolding room_view_def by (metis unlogged_view(2,4,5))
  moreover have "members_of q ?st = []"
    using left_room [OF assms(2) reachable_ok [OF assms(1)]] assms(3,4) by simp
  ultimately show ?thesis
    using join_elsewhere [OF assms(6-8,10,11,9), of t dn img st] assms(5,12,13) by (auto simp: room_view_def)
qed

theorem moving_rooms_keeps_old_claim_witness:
  "let st = demo_join (demo_sock ''s1'' ''amy'' ''r1'') (rtc_init rtc_redis_empty);
       st' = snd (join demo_rtc_env demo_rtc_env (tick 3) (demo_sock ''s2'' ''amy'' ''r2'') None None st)
   in members_of ''r1'' st' = [] \<and> ''amy'' \<in> set (rr_peers (rg_redis (rt_reg st')) ''r1'')"
proof -
  let ?st = "demo_join (demo_sock ''s1'' ''amy'' ''r1'') (rtc_init rtc_redis_empty)"
  have s: "rt_sessions ?st ''amy'' = Some (fresh_session ''s1'' ''amy'' ''r1'')" by (simp add: demo_join_session)
  have m: "members_of ''r1'' ?st = [''amy'']" by code_simp
  have p: "''amy'' \<in> set (rr_peers (rg_redis (rt_reg ?st)) ''r1'')" by code_simp
  show ?thesis
    using moving_rooms_keeps_old_claim [OF demo_join_reachable s _ m p, of demo_rtc_env demo_rtc_env
        "demo_sock ''s2'' ''amy'' ''r2''" "''r2''" _ "tick 3" None None]
    by (simp add: fresh_session_def demo_rtc_env_def demo_sock_def Let_def)
qed

end
