(* ===== verification/RtcSignaling.thy ===== *)
theory RtcSignaling
  imports RtcRoster
begin

text \<open>
  The edge of the rtc service: the socket's authentication (\<open>middleware/socket-jwt.middleware.ts\<close>),
  the payload checks (\<open>signaling/socket-payloads.ts\<close>), the twelve socket handlers
  (\<open>signaling/mediasoup-events.ts\<close>) and the internal webhooks (\<open>internal/room-webhooks.ts\<close>). The
  verification of a token's signature is a parameter.
\<close>

subsection \<open>Authentication\<close>

definition field_of :: "json \<Rightarrow> string \<Rightarrow> json" where
  "field_of j f = (case j of JObj fs \<Rightarrow> jget fs f | _ \<Rightarrow> JUndefined)"

definition extractToken :: "json \<Rightarrow> json \<Rightarrow> string option" where
  "extractToken auth query =
     (case field_of auth ''token'' of
        JStr t \<Rightarrow> if t \<noteq> [] then Some t
          else (case field_of query ''token'' of
            JStr q \<Rightarrow> if q \<noteq> [] then Some q else None
          | JArr (JStr q # _) \<Rightarrow> Some q
          | _ \<Rightarrow> None)
      | _ \<Rightarrow> (case field_of query ''token'' of
            JStr q \<Rightarrow> if q \<noteq> [] then Some q else None
          | JArr (JStr q # _) \<Rightarrow> Some q
          | _ \<Rightarrow> None))"

text \<open>\<open>jwtVerify\<close> gives a verified token's claims, or throws. The socket's data, or \<open>Unauthorized\<close>.\<close>

definition authenticate ::
  "(string \<Rightarrow> json option) \<Rightarrow> string \<Rightarrow> json \<Rightarrow> json \<Rightarrow> (sock \<times> room_session_type) option" where
  "authenticate jwtVerify sockId auth query =
     (if \<not> truthy (extractToken auth query) then None
      else case jwtVerify (the (extractToken auth query)) of
        None \<Rightarrow> None
      | Some payload \<Rightarrow>
         (let userId = as_string (field_of payload ''sub''); roomId = as_string (field_of payload ''roomId'')
          in if \<not> truthy userId \<or> \<not> truthy roomId then None
             else case isRoomSessionType (field_of payload ''roomType'') of
               None \<Rightarrow> None
             | Some ty \<Rightarrow> Some (\<lparr>so_id = sockId, so_userId = userId, so_roomId = roomId\<rparr>, ty)))"

subsection \<open>Payloads\<close>

text \<open>Whether a value is truthy in TypeScript; a number read from JSON is never NaN.\<close>

definition js_true :: "json \<Rightarrow> bool" where
  "js_true v = (case v of JUndefined \<Rightarrow> False | JNull \<Rightarrow> False | JBool b \<Rightarrow> b | JNum n \<Rightarrow> n \<noteq> 0 | JStr s \<Rightarrow> s \<noteq> [] | _ \<Rightarrow> True)"

datatype direction = Send | Recv

definition parseCreateWebRtcTransportPayload :: "json \<Rightarrow> direction" where
  "parseCreateWebRtcTransportPayload payload =
     (if field_of payload ''direction'' = JStr ''recv'' then Recv else Send)"

definition parseConnectTransportPayload :: "json \<Rightarrow> (string \<times> json) option" where
  "parseConnectTransportPayload payload =
     (case as_string (field_of payload ''transportId'') of
        None \<Rightarrow> None
      | Some t \<Rightarrow> if js_true (field_of payload ''dtlsParameters'') then Some (t, field_of payload ''dtlsParameters'') else None)"

definition parseRestartIcePayload :: "json \<Rightarrow> string option" where
  "parseRestartIcePayload payload = as_string (field_of payload ''transportId'')"

record produce_payload =
  pp_transportId :: string
  pp_kind :: media_kind
  pp_rtpParameters :: json
  pp_appData :: "json option"

definition media_kind_of :: "json \<Rightarrow> media_kind option" where
  "media_kind_of v = (if v = JStr ''audio'' then Some Audio else if v = JStr ''video'' then Some Video else None)"

definition is_object :: "json \<Rightarrow> bool" where
  "is_object v = (case v of JObj _ \<Rightarrow> True | JArr _ \<Rightarrow> True | _ \<Rightarrow> False)"

definition parseProducePayload :: "json \<Rightarrow> produce_payload option" where
  "parseProducePayload payload =
     (case (as_string (field_of payload ''transportId''), media_kind_of (field_of payload ''kind'')) of
        (Some t, Some k) \<Rightarrow>
          if js_true (field_of payload ''rtpParameters'')
          then Some \<lparr>pp_transportId = t, pp_kind = k, pp_rtpParameters = field_of payload ''rtpParameters'',
                     pp_appData = (if is_object (field_of payload ''appData'') then Some (field_of payload ''appData'') else None)\<rparr>
          else None
      | _ \<Rightarrow> None)"

record consume_payload =
  cp_transportId :: string
  cp_producerId :: string
  cp_rtpCapabilities :: json
  cp_paused :: bool

definition parseConsumePayload :: "json \<Rightarrow> consume_payload option" where
  "parseConsumePayload payload =
     (case (as_string (field_of payload ''transportId''), as_string (field_of payload ''producerId'')) of
        (Some t, Some p) \<Rightarrow>
          if js_true (field_of payload ''rtpCapabilities'')
          then Some \<lparr>cp_transportId = t, cp_producerId = p, cp_rtpCapabilities = field_of payload ''rtpCapabilities'',
                     cp_paused = js_true (field_of payload ''paused'')\<rparr>
          else None
      | _ \<Rightarrow> None)"

definition parseResumeConsumerPayload :: "json \<Rightarrow> string option" where
  "parseResumeConsumerPayload payload = as_string (field_of payload ''consumerId'')"

definition parsePauseResumeProducerPayload :: "json \<Rightarrow> string option" where
  "parsePauseResumeProducerPayload payload = as_string (field_of payload ''producerId'')"

definition parseCloseProducerPayload :: "json \<Rightarrow> string option" where
  "parseCloseProducerPayload payload = parsePauseResumeProducerPayload payload"

subsection \<open>The socket handlers\<close>

datatype detail = NoDetail | OwnerInstance string | Message

datatype ack =
    AckOk
  | AckJoined joined string
  | AckTransport string
  | AckIce string
  | AckProducer string
  | AckConsumed consumed
  | AckError string detail

datatype message =
    MJoin json
  | MCreateTransport json
  | MConnectTransport json
  | MRestartIce json
  | MProduce json
  | MPauseProducer json
  | MResumeProducer json
  | MCloseProducer json
  | MConsume json
  | MResumeConsumer json
  | MLeave

text \<open>What mediasoup and the clock answer to one message.\<close>

record media =
  md_env :: rtc_env
  md_env2 :: rtc_env
  md_clock :: clock3
  md_transport :: "string option"
  md_done :: bool
  md_ice :: "string option"
  md_producer :: "(string \<times> bool) option"
  md_taps :: "string \<Rightarrow> consume_outcome"
  md_canConsume :: "string \<Rightarrow> string \<Rightarrow> json \<Rightarrow> bool"
  md_consumer :: "string option"

text \<open>The reply to a method's result; \<open>failed\<close> is the code of the handler's catch block.\<close>

definition reply_to :: "string \<Rightarrow> ('a \<Rightarrow> ack) \<Rightarrow> 'a answer \<Rightarrow> ack" where
  "reply_to failed ok a = (case a of
      Answer x \<Rightarrow> ok x
    | Refused c \<Rightarrow> AckError c NoDetail
    | RefusedOwner o_id \<Rightarrow> AckError ''WRONG_INSTANCE'' (OwnerInstance o_id)
    | Throws \<Rightarrow> AckError failed Message)"

definition optional_text :: "json \<Rightarrow> string \<Rightarrow> string option" where
  "optional_text payload f = (case as_string (field_of payload f) of
      Some s \<Rightarrow> if s = [] then None else Some s
    | None \<Rightarrow> None)"

definition on_join :: "media \<Rightarrow> sock \<Rightarrow> json \<Rightarrow> rtc \<Rightarrow> ack \<times> rtc" where
  "on_join m so payload st =
     (case join (md_env m) (md_env2 m) (md_clock m) so (optional_text payload ''displayName'')
             (optional_text payload ''image'') st of
        (a, st') \<Rightarrow> (reply_to ''join_failed'' (\<lambda>j. AckJoined j (rv_instance (md_env m))) a, st'))"

definition authorized :: "sock \<Rightarrow> rtc \<Rightarrow> (string \<Rightarrow> ack \<times> rtc) \<Rightarrow> ack \<times> rtc" where
  "authorized so st f =
     (if truthy (so_userId so) then f (the (so_userId so)) else (AckError ''unauthorized'' NoDetail, st))"

definition parsed :: "'p option \<Rightarrow> rtc \<Rightarrow> ('p \<Rightarrow> ack \<times> rtc) \<Rightarrow> ack \<times> rtc" where
  "parsed p st f = (case p of None \<Rightarrow> (AckError ''invalid_payload'' NoDetail, st) | Some x \<Rightarrow> f x)"

definition answered :: "string \<Rightarrow> ('a \<Rightarrow> ack) \<Rightarrow> 'a answer \<times> rtc \<Rightarrow> ack \<times> rtc" where
  "answered failed ok r = (reply_to failed ok (fst r), snd r)"

text \<open>A producer or consumer id is also tested for being non-empty.\<close>

definition some_id :: "string option \<Rightarrow> string option" where
  "some_id i = (if truthy i then i else None)"

definition on_createWebRtcTransport :: "media \<Rightarrow> sock \<Rightarrow> json \<Rightarrow> rtc \<Rightarrow> ack \<times> rtc" where
  "on_createWebRtcTransport m so payload st = authorized so st (\<lambda>u.
     answered ''create_transport_failed'' AckTransport (createWebRtcTransport u (md_transport m) st))"

definition on_connectTransport :: "media \<Rightarrow> sock \<Rightarrow> json \<Rightarrow> rtc \<Rightarrow> ack \<times> rtc" where
  "on_connectTransport m so payload st = authorized so st (\<lambda>u.
     parsed (parseConnectTransportPayload payload) st (\<lambda>p.
       answered ''connect_transport_failed'' (\<lambda>_. AckOk) (connectTransport u (fst p) (md_done m) st)))"

definition on_restartIce :: "media \<Rightarrow> sock \<Rightarrow> json \<Rightarrow> rtc \<Rightarrow> ack \<times> rtc" where
  "on_restartIce m so payload st = authorized so st (\<lambda>u.
     parsed (parseRestartIcePayload payload) st (\<lambda>t.
       answered ''restart_ice_failed'' AckIce (restartIce u t (md_ice m) st)))"

definition on_produce :: "media \<Rightarrow> sock \<Rightarrow> json \<Rightarrow> rtc \<Rightarrow> ack \<times> rtc" where
  "on_produce m so payload st = authorized so st (\<lambda>u.
     parsed (parseProducePayload payload) st (\<lambda>p.
       answered ''produce_failed'' AckProducer
         (produce (md_taps m) u (pp_transportId p) (pp_kind p) (pp_appData p) (md_producer m) st)))"

definition on_pauseProducer :: "media \<Rightarrow> sock \<Rightarrow> json \<Rightarrow> rtc \<Rightarrow> ack \<times> rtc" where
  "on_pauseProducer m so payload st = authorized so st (\<lambda>u.
     parsed (some_id (parsePauseResumeProducerPayload payload)) st (\<lambda>p.
       answered ''pause_producer_failed'' (\<lambda>_. AckOk) (pauseProducer (md_clock m) u p (md_done m) st)))"

definition on_resumeProducer :: "media \<Rightarrow> sock \<Rightarrow> json \<Rightarrow> rtc \<Rightarrow> ack \<times> rtc" where
  "on_resumeProducer m so payload st = authorized so st (\<lambda>u.
     parsed (some_id (parsePauseResumeProducerPayload payload)) st (\<lambda>p.
       answered ''resume_producer_failed'' (\<lambda>_. AckOk) (resumeProducer u p (md_done m) st)))"

definition on_closeProducer :: "media \<Rightarrow> sock \<Rightarrow> json \<Rightarrow> rtc \<Rightarrow> ack \<times> rtc" where
  "on_closeProducer m so payload st = authorized so st (\<lambda>u.
     parsed (some_id (parseCloseProducerPayload payload)) st (\<lambda>p.
       answered ''close_producer_failed'' (\<lambda>_. AckOk) (closeProducer (md_clock m) u p st)))"

definition on_consume :: "media \<Rightarrow> sock \<Rightarrow> json \<Rightarrow> rtc \<Rightarrow> ack \<times> rtc" where
  "on_consume m so payload st = authorized so st (\<lambda>u.
     parsed (parseConsumePayload payload) st (\<lambda>p.
       answered ''consume_failed'' AckConsumed
         (consume (\<lambda>router pid. md_canConsume m router pid (cp_rtpCapabilities p)) u (cp_transportId p) (cp_producerId p)
            (cp_paused p) (md_consumer m) st)))"

definition on_resumeConsumer :: "media \<Rightarrow> sock \<Rightarrow> json \<Rightarrow> rtc \<Rightarrow> ack \<times> rtc" where
  "on_resumeConsumer m so payload st = authorized so st (\<lambda>u.
     parsed (some_id (parseResumeConsumerPayload payload)) st (\<lambda>c.
       answered ''resume_consumer_failed'' (\<lambda>_. AckOk) (resumeConsumer u c (md_done m) st)))"

definition on_leave :: "media \<Rightarrow> sock \<Rightarrow> rtc \<Rightarrow> ack \<times> rtc" where
  "on_leave m so st = authorized so st (\<lambda>u. (AckOk, rtc_leave (md_env m) (md_clock m) u st))"

fun handle_message :: "media \<Rightarrow> sock \<Rightarrow> message \<Rightarrow> rtc \<Rightarrow> ack \<times> rtc" where
  "handle_message m so (MJoin p) st = on_join m so p st"
| "handle_message m so (MCreateTransport p) st = on_createWebRtcTransport m so p st"
| "handle_message m so (MConnectTransport p) st = on_connectTransport m so p st"
| "handle_message m so (MRestartIce p) st = on_restartIce m so p st"
| "handle_message m so (MProduce p) st = on_produce m so p st"
| "handle_message m so (MPauseProducer p) st = on_pauseProducer m so p st"
| "handle_message m so (MResumeProducer p) st = on_resumeProducer m so p st"
| "handle_message m so (MCloseProducer p) st = on_closeProducer m so p st"
| "handle_message m so (MConsume p) st = on_consume m so p st"
| "handle_message m so (MResumeConsumer p) st = on_resumeConsumer m so p st"
| "handle_message m so MLeave st = on_leave m so st"

subsection \<open>The internal webhooks\<close>

datatype hook_reply =
    HookKicked bool
  | HookTornDown nat
  | HookUpdated nat
  | HookError string

definition body_text :: "json \<Rightarrow> string \<Rightarrow> string" where
  "body_text body f = nullish_or (as_string (field_of body f)) []"

definition handleKickPeer :: "rtc_env \<Rightarrow> clock3 \<Rightarrow> json option \<Rightarrow> rtc \<Rightarrow> (hook_reply \<times> nat) \<times> rtc" where
  "handleKickPeer env t body st = (case body of
      None \<Rightarrow> ((HookError ''invalid_json'', 400), st)
    | Some b \<Rightarrow>
       (let roomId = body_text b ''roomId''; target = body_text b ''targetUserId''
        in if roomId = [] \<or> target = [] then ((HookError ''validation'', 400), st)
           else case kickPeer env t roomId target st of (removed, st') \<Rightarrow> ((HookKicked removed, 200), st')))"

definition handleRoomSfuTeardown :: "rtc_env \<Rightarrow> clock3 \<Rightarrow> json option \<Rightarrow> rtc \<Rightarrow> (hook_reply \<times> nat) \<times> rtc" where
  "handleRoomSfuTeardown env t body st = (case body of
      None \<Rightarrow> ((HookError ''invalid_json'', 400), st)
    | Some b \<Rightarrow>
       (let roomId = body_text b ''roomId''
        in if roomId = [] then ((HookError ''validation'', 400), st)
           else case forceTeardownMediasoupRoom env t roomId st of (n, st') \<Rightarrow> ((HookTornDown n, 200), st')))"

definition handleRoomRoomType :: "json option \<Rightarrow> rtc \<Rightarrow> (hook_reply \<times> nat) \<times> rtc" where
  "handleRoomRoomType body st = (case body of
      None \<Rightarrow> ((HookError ''invalid_json'', 400), st)
    | Some b \<Rightarrow>
       (let roomId = body_text b ''roomId''
        in case isRoomSessionType (field_of b ''roomType'') of
             None \<Rightarrow> ((HookError ''validation'', 400), st)
           | Some ty \<Rightarrow>
               if roomId = [] then ((HookError ''validation'', 400), st)
               else case setRoomTypeForRoomPeers roomId ty st of (n, st') \<Rightarrow> ((HookUpdated n, 200), st')))"

text \<open>The guard in front of them.\<close>

definition internalApiGuard :: "string \<Rightarrow> string option \<Rightarrow> bool" where
  "internalApiGuard internalApiKey header = (internalApiKey = [] \<or> nullish_or header [] = internalApiKey)"

subsection \<open>Properties\<close>

text \<open>The message was one step of the service, or was refused without effect.\<close>

definition step_or_refused :: "rtc \<Rightarrow> ack \<times> rtc \<Rightarrow> bool" where
  "step_or_refused st r \<longleftrightarrow> rtc_step st (snd r) \<or> snd r = st \<and> (\<exists>code. fst r = AckError code NoDetail)"

lemma answered_step: "rtc_step st (snd r) \<Longrightarrow> step_or_refused st (answered code ok r)"
  by (simp add: step_or_refused_def answered_def)

lemma authorized_step: "(\<And>u. step_or_refused st (f u)) \<Longrightarrow> step_or_refused st (authorized so st f)"
  by (simp add: authorized_def) (simp add: step_or_refused_def)

lemma parsed_step: "(\<And>x. step_or_refused st (f x)) \<Longrightarrow> step_or_refused st (parsed p st f)"
  by (simp add: parsed_def split: option.split) (simp add: step_or_refused_def)

lemma join_step: "step_or_refused st (on_join m so p st)"
  by (simp add: on_join_def step_or_refused_def rtc_step.join case_prod_beta)

lemma leave_step: "step_or_refused st (AckOk, rtc_leave env t u st)"
  by (simp add: step_or_refused_def rtc_step.leave)

lemmas on_defs = on_createWebRtcTransport_def on_connectTransport_def on_restartIce_def on_produce_def
  on_pauseProducer_def on_resumeProducer_def on_closeProducer_def on_consume_def on_resumeConsumer_def on_leave_def


definition demo_media :: media where
  "demo_media = \<lparr>md_env = demo_rtc_env, md_env2 = demo_rtc_env, md_clock = tick 0, md_transport = Some ''t1'', md_done = True,
     md_ice = None, md_producer = None, md_taps = (\<lambda>i. CannotConsume), md_canConsume = (\<lambda>r p c. True), md_consumer = None\<rparr>"


text \<open>
  Only a verified user of a known kind of room gets a socket. A connection is accepted exactly when
  the token it presents, from the handshake or else from the query, is not empty, verifies, and
  claims a user, a room and the type direct or space; the socket then carries these claims.
\<close>

theorem socket_authentication:
  "authenticate jwtVerify i auth query = Some (so, ty) \<longleftrightarrow>
     (\<exists>token payload u r. extractToken auth query = Some token \<and> token \<noteq> [] \<and> jwtVerify token = Some payload
        \<and> field_of payload ''sub'' = JStr u \<and> u \<noteq> [] \<and> field_of payload ''roomId'' = JStr r \<and> r \<noteq> []
        \<and> (field_of payload ''roomType'' = JStr ''direct'' \<and> ty = Direct
           \<or> field_of payload ''roomType'' = JStr ''space'' \<and> ty = Space)
        \<and> so = \<lparr>so_id = i, so_userId = Some u, so_roomId = Some r\<rparr>)"
proof -
  have str: "as_string j = Some s \<longleftrightarrow> j = JStr s" for j s by (cases j) auto
  have t: "truthy x \<longleftrightarrow> (\<exists>s. x = Some s \<and> s \<noteq> [])" for x by (cases x) auto
  have ty: "isRoomSessionType j = Some ty \<longleftrightarrow> j = JStr ''direct'' \<and> ty = Direct \<or> j = JStr ''space'' \<and> ty = Space" for j
    by (auto simp: isRoomSessionType_def)
  show ?thesis
    unfolding ty [symmetric]
    by (auto simp: authenticate_def Let_def t str split: option.split)
qed

end
