(* ===== verification/ServerChess.thy ===== *)
theory ServerChess
  imports RoomTypes
begin

text \<open>
  Chess in a direct call (the main API's \<open>rooms/services/activity/chess-activity.service.ts\<close> and its guard
  \<open>room-activity.service.ts\<close>): invites, the game of a room, moves, draws. The rows of the database are an
  argument. A Redis hash is its list of fields; a number the service stores in one is an integer,
  written as its decimal text. What other requests do between the check for a pending invite and
  its claim is an argument.
\<close>

subsection \<open>The guard\<close>

record room_rows =
  rw_room :: "string \<Rightarrow> (room_db_status \<times> room_session_type) option"
  rw_isParticipant :: "string \<Rightarrow> string \<Rightarrow> bool"
  rw_active :: "string \<Rightarrow> string list"

definition ensureDirectRoomActivityContext :: "room_rows \<Rightarrow> string \<Rightarrow> string \<Rightarrow> api_error + string" where
  "ensureDirectRoomActivityContext db roomId userId = (case rw_room db roomId of
      None \<Rightarrow> fail ''Room not found'' ''ROOM_NOT_FOUND'' 404
    | Some (status, roomType) \<Rightarrow>
        if status \<noteq> Live then fail ''Room is not live'' ''ROOM_NOT_LIVE'' 400
        else if roomType \<noteq> Direct then fail ''Activities are available only in direct calls'' ''NOT_DIRECT'' 400
        else if \<not> rw_isParticipant db roomId userId then fail ''You are not in this room'' ''NOT_PARTICIPANT'' 403
        else case find (\<lambda>i. i \<noteq> userId) (rw_active db roomId) of
          None \<Rightarrow> fail ''No active peer found in this direct call'' ''PEER_NOT_FOUND'' 400
        | Some peer \<Rightarrow>
            if peer = [] then fail ''No active peer found in this direct call'' ''PEER_NOT_FOUND'' 400 else Inr peer)"

definition toChessError :: "api_error \<Rightarrow> api_error" where
  "toChessError e =
     (if er_code e = ''NOT_DIRECT'' then e\<lparr>er_message := ''Chess is available only in direct calls''\<rparr> else e)"

subsection \<open>State\<close>

datatype colour = White | Black
datatype chess_result = Checkmate | Stalemate | Draw | Resign

fun colour_text :: "colour \<Rightarrow> string" where
  "colour_text White = ''w''"
| "colour_text Black = ''b''"

record chess_move =
  mv_from :: string
  mv_to :: string
  mv_san :: string
  mv_fen :: string
  mv_turn :: colour
  mv_isGameOver :: bool
  mv_winnerUserId :: "string option"
  mv_result :: chess_result

datatype chess_event =
    ChessInvite string string string string int
  | ChessDeclined string string string
  | ChessStarted string string string string string int
  | ChessMoved string string string chess_move int int
  | ChessEnded string string string int rat "string option" chess_result
  | ChessDrawOffered string string string
  | ChessDrawRejected string string string

record chess_store =
  cs_invites :: "string \<Rightarrow> fields"
  cs_pending :: "string \<Rightarrow> string option"
  cs_active :: "string \<Rightarrow> fields"
  cs_draws :: "string \<times> string \<Rightarrow> fields"
  cs_sent :: "(string \<times> chess_event) list"

record chess_env =
  ce_now :: int
  ce_id :: string
  ce_label :: "string \<Rightarrow> string"
  ce_others :: "chess_store \<Rightarrow> chess_store"

definition CHESS_INITIAL_FEN :: string where
  "CHESS_INITIAL_FEN = ''rnbqkbnr/pppppppp/8/8/8/8/PPPPPPPP/RNBQKBNR w KQkq - 0 1''"

definition toUnixMs :: "int \<Rightarrow> string option \<Rightarrow> rat" where
  "toUnixMs now raw = (case raw of
      None \<Rightarrow> of_int now
    | Some s \<Rightarrow> (case js_number s of None \<Rightarrow> of_int now | Some n \<Rightarrow> n))"

definition toMoveNumber :: "string option \<Rightarrow> rat" where
  "toMoveNumber raw = (case raw of
      None \<Rightarrow> 0
    | Some s \<Rightarrow> (case js_number s of None \<Rightarrow> 0 | Some n \<Rightarrow> if n > 0 then n else 0))"

text \<open>Only this service writes the field, always with an integer, so that its next value is one too.\<close>

definition next_move_number :: "string option \<Rightarrow> int" where
  "next_move_number raw = \<lfloor>toMoveNumber raw + 1\<rfloor>"

definition notify :: "string list \<Rightarrow> chess_event \<Rightarrow> chess_store \<Rightarrow> chess_store" where
  "notify users e s = s\<lparr>cs_sent := cs_sent s @ map (\<lambda>u. (u, e)) users\<rparr>"

definition set_invite :: "string \<Rightarrow> (string \<times> string) list \<Rightarrow> chess_store \<Rightarrow> chess_store" where
  "set_invite i fvs s = s\<lparr>cs_invites := (cs_invites s)(i := hset_all fvs (cs_invites s i))\<rparr>"

definition set_active :: "string \<Rightarrow> (string \<times> string) list \<Rightarrow> chess_store \<Rightarrow> chess_store" where
  "set_active r fvs s = s\<lparr>cs_active := (cs_active s)(r := hset_all fvs (cs_active s r))\<rparr>"

definition del_active :: "string \<Rightarrow> chess_store \<Rightarrow> chess_store" where
  "del_active r s = s\<lparr>cs_active := (cs_active s)(r := [])\<rparr>"

definition del_pending :: "string \<Rightarrow> chess_store \<Rightarrow> chess_store" where
  "del_pending r s = s\<lparr>cs_pending := (cs_pending s)(r := None)\<rparr>"

text \<open>The guard, its error as a chess error, then the body.\<close>

definition guarded :: "room_rows \<Rightarrow> string \<Rightarrow> string \<Rightarrow> (string \<Rightarrow> (chess_store, 'a) service) \<Rightarrow> (chess_store, 'a) service" where
  "guarded db roomId userId body s = (case ensureDirectRoomActivityContext db roomId userId of
      Inl e \<Rightarrow> (Inl (toChessError e), s)
    | Inr peer \<Rightarrow> body peer s)"

subsection \<open>Invites\<close>

record chess_invited =
  ci_requestId :: string
  ci_inviteeUserId :: string

definition createDirectRoomChessInvite ::
  "chess_env \<Rightarrow> room_rows \<Rightarrow> string \<Rightarrow> string \<Rightarrow> (chess_store, chess_invited) service" where
  "createDirectRoomChessInvite env db roomId inviter = guarded db roomId inviter (\<lambda>invitee s.
     if truthy (cs_pending s roomId) then (fail ''A chess invite is already pending'' ''INVITE_PENDING'' 409, s)
     else if truthy (hfield (cs_active s roomId) ''gameId'')
     then (fail ''A chess game is already active'' ''GAME_ALREADY_ACTIVE'' 409, s)
     else
      (let s1 = ce_others env s; requestId = ce_id env
       in if cs_pending s1 roomId \<noteq> None then (fail ''A chess invite is already pending'' ''INVITE_PENDING'' 409, s1)
          else
           (let s2 = s1\<lparr>cs_pending := (cs_pending s1)(roomId \<mapsto> requestId)\<rparr>;
                s3 = set_invite requestId
                       [(''requestId'', requestId), (''roomId'', roomId), (''inviterUserId'', inviter),
                        (''inviteeUserId'', invitee), (''status'', ''pending''), (''createdAt'', int_str (ce_now env))] s2
            in (Inr \<lparr>ci_requestId = requestId, ci_inviteeUserId = invitee\<rparr>,
                notify [invitee] (ChessInvite requestId roomId inviter (ce_label env inviter) (ce_now env)) s3))))"

record chess_responded =
  cr_roomId :: string
  cr_started :: bool
  cr_gameId :: "string option"

definition start_game :: "chess_env \<Rightarrow> string \<Rightarrow> string \<Rightarrow> string \<Rightarrow> string \<Rightarrow> (chess_store, chess_responded) service" where
  "start_game env roomId requestId inviter invitee s =
     (let gameId = ce_id env; startedAt = ce_now env;
          s1 = set_active roomId
                 [(''gameId'', gameId), (''roomId'', roomId), (''whiteUserId'', inviter), (''blackUserId'', invitee),
                  (''startedByUserId'', invitee), (''startedAt'', int_str startedAt), (''fen'', CHESS_INITIAL_FEN),
                  (''turn'', ''w''), (''turnUserId'', inviter), (''moveNumber'', ''0'')] s;
          s2 = set_invite requestId
                 [(''status'', ''accepted''), (''gameId'', gameId), (''respondedAt'', int_str startedAt)] s1
      in (Inr \<lparr>cr_roomId = roomId, cr_started = True, cr_gameId = Some gameId\<rparr>,
          notify [inviter, invitee] (ChessStarted gameId roomId inviter invitee invitee startedAt) (del_pending roomId s2)))"

definition respondDirectRoomChessInvite ::
  "chess_env \<Rightarrow> room_rows \<Rightarrow> string \<Rightarrow> string \<Rightarrow> string \<Rightarrow> bool \<Rightarrow> (chess_store, chess_responded) service" where
  "respondDirectRoomChessInvite env db roomId requestId invitee accept = guarded db roomId invitee (\<lambda>_ s.
     let invite = cs_invites s requestId; inviter = hfield invite ''inviterUserId'' in
     if \<not> truthy (hfield invite ''requestId'') then (fail ''Invite not found'' ''INVITE_NOT_FOUND'' 404, s)
     else if hfield invite ''roomId'' \<noteq> Some roomId
     then (fail ''Invite does not belong to this room'' ''INVITE_NOT_FOUND'' 404, s)
     else if hfield invite ''inviteeUserId'' \<noteq> Some invitee then (fail ''This invite is not for you'' ''NOT_YOUR_INVITE'' 403, s)
     else if hfield invite ''status'' \<noteq> Some ''pending''
     then (fail ''This invite is no longer pending'' ''INVITE_NOT_PENDING'' 409, s)
     else if \<not> truthy inviter then (fail ''Invite does not have a valid inviter'' ''INVITE_NOT_FOUND'' 404, s)
     else if \<not> accept then
       (let s1 = set_invite requestId [(''status'', ''declined''), (''respondedAt'', int_str (ce_now env))] s
        in (Inr \<lparr>cr_roomId = roomId, cr_started = False, cr_gameId = None\<rparr>,
            notify [the inviter] (ChessDeclined requestId roomId invitee) (del_pending roomId s1)))
     else if truthy (hfield (cs_active s roomId) ''gameId'')
     then (fail ''A chess game is already active'' ''GAME_ALREADY_ACTIVE'' 409, s)
     else start_game env roomId requestId (the inviter) invitee s)"

subsection \<open>The game\<close>

text \<open>
  The checks that resigning, moving and offering a draw share, which give the two players.
\<close>

definition players_of_game ::
  "string \<Rightarrow> string \<Rightarrow> string \<Rightarrow> chess_store \<Rightarrow> api_error + (string \<times> string)" where
  "players_of_game roomId gameId userId s =
     (let active = cs_active s roomId; white = hfield active ''whiteUserId''; black = hfield active ''blackUserId''
      in if \<not> truthy (hfield active ''gameId'') then fail ''No active chess game found'' ''GAME_NOT_ACTIVE'' 404
         else if hfield active ''roomId'' \<noteq> Some roomId \<or> hfield active ''gameId'' \<noteq> Some gameId
         then fail ''Game id does not match active chess game'' ''GAME_MISMATCH'' 409
         else if \<not> truthy white \<or> \<not> truthy black \<or> (white \<noteq> Some userId \<and> black \<noteq> Some userId)
         then fail ''You are not in this chess game'' ''NOT_PARTICIPANT'' 403
         else Inr (the white, the black))"

definition endDirectRoomChessGame ::
  "chess_env \<Rightarrow> room_rows \<Rightarrow> string \<Rightarrow> string \<Rightarrow> string \<Rightarrow> (chess_store, bool) service" where
  "endDirectRoomChessGame env db roomId gameId userId = guarded db roomId userId (\<lambda>_ s.
     case players_of_game roomId gameId userId s of
       Inl e \<Rightarrow> (Inl e, s)
     | Inr (white, black) \<Rightarrow>
         (Inr True,
          notify [white, black]
            (ChessEnded roomId gameId userId (ce_now env) (toUnixMs (ce_now env) (hfield (cs_active s roomId) ''startedAt''))
               (Some (if userId = white then black else white)) Resign)
            (del_active roomId s)))"

record chess_moved =
  cm_moveNumber :: int
  cm_fen :: string
  cm_turn :: colour
  cm_isGameOver :: bool

definition moveDirectRoomChessGame ::
  "chess_env \<Rightarrow> room_rows \<Rightarrow> string \<Rightarrow> string \<Rightarrow> string \<Rightarrow> chess_move \<Rightarrow> (chess_store, chess_moved) service" where
  "moveDirectRoomChessGame env db roomId gameId userId move = guarded db roomId userId (\<lambda>_ s.
     case players_of_game roomId gameId userId s of
       Inl e \<Rightarrow> (Inl e, s)
     | Inr (white, black) \<Rightarrow>
        (let active = cs_active s roomId; turnUserId = hfield active ''turnUserId'';
             next = (if mv_turn move = White then white else black);
             moveNumber = next_move_number (hfield active ''moveNumber'')
         in if truthy turnUserId \<and> turnUserId \<noteq> Some userId then (fail ''Not your turn'' ''NOT_YOUR_TURN'' 409, s)
            else if mv_isGameOver move then
              (Inr \<lparr>cm_moveNumber = moveNumber, cm_fen = mv_fen move, cm_turn = mv_turn move, cm_isGameOver = True\<rparr>,
               notify [white, black]
                 (ChessEnded roomId gameId userId (ce_now env) (toUnixMs (ce_now env) (hfield active ''startedAt''))
                    (mv_winnerUserId move) (mv_result move))
                 (del_active roomId s))
            else
              (Inr \<lparr>cm_moveNumber = moveNumber, cm_fen = mv_fen move, cm_turn = mv_turn move, cm_isGameOver = False\<rparr>,
               notify [white, black] (ChessMoved roomId gameId userId move moveNumber (ce_now env))
                 (set_active roomId
                    [(''fen'', mv_fen move), (''turn'', colour_text (mv_turn move)), (''turnUserId'', next),
                     (''moveNumber'', int_str moveNumber), (''lastMoveSan'', mv_san move),
                     (''lastMoveAt'', int_str (ce_now env))] s))))"

subsection \<open>Draws\<close>

definition offerDirectRoomChessDraw ::
  "chess_env \<Rightarrow> room_rows \<Rightarrow> string \<Rightarrow> string \<Rightarrow> string \<Rightarrow> (chess_store, bool) service" where
  "offerDirectRoomChessDraw env db roomId gameId userId = guarded db roomId userId (\<lambda>_ s.
     case players_of_game roomId gameId userId s of
       Inl e \<Rightarrow> (Inl e, s)
     | Inr (white, black) \<Rightarrow>
         if truthy (hfield (cs_draws s (roomId, gameId)) ''offeredByUserId'')
         then (fail ''Draw offer already pending'' ''DRAW_ALREADY_PENDING'' 409, s)
         else
          (let target = (if userId = white then black else white);
               h = hset_all [(''roomId'', roomId), (''gameId'', gameId), (''offeredByUserId'', userId),
                             (''targetUserId'', target), (''createdAt'', int_str (ce_now env))] (cs_draws s (roomId, gameId))
           in (Inr True,
               notify [target] (ChessDrawOffered roomId gameId userId)
                 (s\<lparr>cs_draws := (cs_draws s)((roomId, gameId) := h)\<rparr>))))"

definition respondDirectRoomChessDraw ::
  "chess_env \<Rightarrow> room_rows \<Rightarrow> string \<Rightarrow> string \<Rightarrow> string \<Rightarrow> bool \<Rightarrow> (chess_store, bool) service" where
  "respondDirectRoomChessDraw env db roomId gameId userId accept = guarded db roomId userId (\<lambda>_ s.
     let offer = cs_draws s (roomId, gameId); offeredBy = hfield offer ''offeredByUserId'' in
     if \<not> truthy offeredBy then (fail ''No pending draw offer'' ''DRAW_NOT_PENDING'' 404, s)
     else if hfield offer ''targetUserId'' \<noteq> Some userId then (fail ''Draw offer is not for you'' ''DRAW_NOT_FOR_YOU'' 403, s)
     else
      (let s1 = s\<lparr>cs_draws := (cs_draws s)((roomId, gameId) := [])\<rparr>; active = cs_active s1 roomId;
           white = hfield active ''whiteUserId''; black = hfield active ''blackUserId''
       in if \<not> accept then (Inr False, notify [the offeredBy] (ChessDrawRejected roomId gameId userId) s1)
          else if hfield active ''gameId'' = Some gameId \<and> truthy white \<and> truthy black then
            (Inr True,
             notify [the white, the black]
               (ChessEnded roomId gameId userId (ce_now env) (toUnixMs (ce_now env) (hfield active ''startedAt'')) None Draw)
               (del_active roomId s1))
          else (Inr True, s1)))"

end
