(* ===== verification/ServerChessRules.thy ===== *)
theory ServerChessRules
  imports ServerChess
begin

text \<open>
  The rules that chess in a call keeps in every reachable store, and the one it does not: who is to
  move is decided by the client.
\<close>

subsection \<open>Fields\<close>

lemma store_fields [simp]:
  "cs_active (notify us e s) = cs_active s" "cs_invites (notify us e s) = cs_invites s"
  "cs_draws (notify us e s) = cs_draws s" "cs_pending (notify us e s) = cs_pending s"
  "cs_active (set_invite i fvs s) = cs_active s" "cs_draws (set_invite i fvs s) = cs_draws s"
  "cs_invites (set_invite i fvs s) = (cs_invites s)(i := hset_all fvs (cs_invites s i))"
  "cs_invites (set_active r fvs s) = cs_invites s" "cs_draws (set_active r fvs s) = cs_draws s"
  "cs_active (set_active r fvs s) = (cs_active s)(r := hset_all fvs (cs_active s r))"
  "cs_active (del_active r s) = (cs_active s)(r := [])" "cs_invites (del_active r s) = cs_invites s"
  "cs_draws (del_active r s) = cs_draws s" "cs_active (del_pending r s) = cs_active s"
  "cs_invites (del_pending r s) = cs_invites s" "cs_draws (del_pending r s) = cs_draws s"
  by (simp_all add: notify_def set_invite_def set_active_def del_active_def del_pending_def)

subsection \<open>The invariant\<close>

text \<open>A game of a room: two different players, one of them to move, with the colour the turn names.\<close>

definition plays :: "fields \<Rightarrow> string \<Rightarrow> string \<Rightarrow> bool" where
  "plays h w b \<longleftrightarrow> hfield h ''whiteUserId'' = Some w \<and> hfield h ''blackUserId'' = Some b \<and> w \<noteq> [] \<and> b \<noteq> [] \<and> w \<noteq> b"

definition game_ok :: "string \<Rightarrow> fields \<Rightarrow> bool" where
  "game_ok r h \<longleftrightarrow> (truthy (hfield h ''gameId'') \<longrightarrow> hfield h ''roomId'' = Some r \<and>
     (\<exists>w b. plays h w b \<and>
        (hfield h ''turnUserId'' = Some w \<and> hfield h ''turn'' = Some ''w'' \<or>
         hfield h ''turnUserId'' = Some b \<and> hfield h ''turn'' = Some ''b'')))"

definition invite_ok :: "fields \<Rightarrow> bool" where
  "invite_ok h \<longleftrightarrow> (truthy (hfield h ''requestId'') \<longrightarrow>
     (\<exists>a b. hfield h ''inviterUserId'' = Some a \<and> hfield h ''inviteeUserId'' = Some b \<and> a \<noteq> b \<and> b \<noteq> []))"

definition draw_ok :: "fields \<Rightarrow> string \<Rightarrow> fields \<Rightarrow> bool" where
  "draw_ok h g d \<longleftrightarrow> (hfield h ''gameId'' = Some g \<and> truthy (hfield d ''offeredByUserId'') \<longrightarrow>
     (\<exists>w b. plays h w b \<and>
        (hfield d ''offeredByUserId'' = Some w \<and> hfield d ''targetUserId'' = Some b \<or>
         hfield d ''offeredByUserId'' = Some b \<and> hfield d ''targetUserId'' = Some w)))"

definition chess_ok :: "chess_store \<Rightarrow> bool" where
  "chess_ok s \<longleftrightarrow> (\<forall>r. game_ok r (cs_active s r)) \<and> (\<forall>i. invite_ok (cs_invites s i)) \<and>
     (\<forall>r g. g \<noteq> [] \<longrightarrow> draw_ok (cs_active s r) g (cs_draws s (r, g)))"

lemma empty_ok [simp]: "game_ok r []" "invite_ok []" "draw_ok [] g d" "draw_ok h g []"
  by (simp_all add: game_ok_def invite_ok_def draw_ok_def)

lemma chess_okI:
  assumes "chess_ok s"
    and "\<And>r. cs_active s' r = cs_active s r \<or> game_ok r (cs_active s' r)"
    and "\<And>i. cs_invites s' i = cs_invites s i \<or> invite_ok (cs_invites s' i)"
    and "\<And>r g. g \<noteq> [] \<Longrightarrow> cs_active s' r = cs_active s r \<and> cs_draws s' (r, g) = cs_draws s (r, g)
         \<or> draw_ok (cs_active s' r) g (cs_draws s' (r, g))"
  shows "chess_ok s'"
  using assms unfolding chess_ok_def by metis

lemma chess_okD:
  assumes "chess_ok s"
  shows "game_ok r (cs_active s r)" "invite_ok (cs_invites s i)"
    and "g \<noteq> [] \<Longrightarrow> draw_ok (cs_active s r) g (cs_draws s (r, g))"
  using assms by (simp_all add: chess_ok_def)

lemma peer_differs:
  assumes "ensureDirectRoomActivityContext db r u = Inr peer"
  shows "peer \<noteq> u" "peer \<noteq> []"
proof -
  have "find (\<lambda>i. i \<noteq> u) (rw_active db r) = Some peer \<and> peer \<noteq> []"
    using assms by (auto simp: ensureDirectRoomActivityContext_def fail_def split: option.splits if_splits)
  then show "peer \<noteq> u" "peer \<noteq> []" by (auto simp: find_Some_iff)
qed

lemma guarded_ok:
  assumes "chess_ok s" "\<And>peer. peer \<noteq> u \<Longrightarrow> peer \<noteq> [] \<Longrightarrow> chess_ok (snd (body peer s))"
  shows "chess_ok (snd (guarded db r u body s))"
  using assms peer_differs [of db r u] by (simp add: guarded_def split: sum.split)

lemma players:
  assumes "players_of_game r g u s = Inr (w, b)" "chess_ok s"
  shows "hfield (cs_active s r) ''gameId'' = Some g" "g \<noteq> []" "plays (cs_active s r) w b" "u = w \<or> u = b"
proof -
  show g: "hfield (cs_active s r) ''gameId'' = Some g" "g \<noteq> []" "u = w \<or> u = b"
    using assms(1) by (auto simp: players_of_game_def fail_def Let_def split: if_splits)
  then show "plays (cs_active s r) w b"
    using assms(1) chess_okD(1) [OF assms(2), of r]
    by (auto simp: players_of_game_def fail_def Let_def game_ok_def plays_def split: if_splits)
qed

subsection \<open>Every request keeps it\<close>

lemma create_ok:
  assumes "chess_ok s" "chess_ok (ce_others env s)"
  shows "chess_ok (snd (createDirectRoomChessInvite env db r u s))"
  unfolding createDirectRoomChessInvite_def
proof (rule guarded_ok [OF assms(1)], goal_cases)
  case (1 peer)
  show ?case
    using assms 1 by (auto simp: Let_def fail_def intro!: chess_okI [OF assms(2)]) (auto simp: invite_ok_def)
qed

lemma started_ok:
  assumes ok: "chess_ok s" and "\<not> truthy (hfield (cs_active s r) ''gameId'')" "a \<noteq> b" "a \<noteq> []" "b \<noteq> []"
    and "\<And>g. g = ce_id env \<Longrightarrow> cs_draws s (r, g) = []"
  shows "chess_ok (snd (start_game env r i a b s))"
proof -
  let ?s = "snd (start_game env r i a b s)"
  have act: "game_ok r (cs_active ?s r)" "hfield (cs_active ?s r) ''gameId'' = Some (ce_id env)"
    "cs_draws ?s = cs_draws s" "q \<noteq> r \<Longrightarrow> cs_active ?s q = cs_active s q" for q
    using assms(3-5) by (simp_all add: start_game_def Let_def game_ok_def plays_def)
  have inv: "invite_ok (cs_invites ?s j)" for j
    using chess_okD(2) [OF ok, of j] by (auto simp: start_game_def Let_def invite_ok_def)
  show ?thesis
  proof (rule chess_okI [OF ok])
    fix q g
    show "cs_active ?s q = cs_active s q \<or> game_ok q (cs_active ?s q)" using act(1,4) by (cases "q = r") auto
    show "cs_active ?s q = cs_active s q \<and> cs_draws ?s (q, g) = cs_draws s (q, g) \<or> draw_ok (cs_active ?s q) g (cs_draws ?s (q, g))"
      using act(2-4) assms(6) by (cases "q = r") (auto simp: draw_ok_def)
  qed (use inv in blast)
qed

lemma respond_ok:
  assumes "chess_ok s" "cs_draws s (r, ce_id env) = []"
  shows "chess_ok (snd (respondDirectRoomChessInvite env db r i u acc s))"
  unfolding respondDirectRoomChessInvite_def
proof (rule guarded_ok [OF assms(1)], goal_cases)
  case (1 peer)
  have inv: "invite_ok (hset_all [(''status'', v), (''respondedAt'', t)] (cs_invites s i))" for v t
    using chess_okD(2) [OF assms(1), of i] by (auto simp: invite_ok_def)
  have "chess_ok (set_invite i [(''status'', v), (''respondedAt'', t)] s)" for v t
    by (rule chess_okI [OF assms(1)]) (use inv in auto)
  then have declined: "chess_ok (notify us e (del_pending r (set_invite i [(''status'', v), (''respondedAt'', t)] s)))" for us e v t
    by (simp add: chess_ok_def)
  have "hfield (cs_invites s i) ''inviterUserId'' = Some a \<Longrightarrow> hfield (cs_invites s i) ''inviteeUserId'' = Some u \<Longrightarrow>
      truthy (hfield (cs_invites s i) ''requestId'') \<Longrightarrow> a \<noteq> u \<and> u \<noteq> []" for a
    using chess_okD(2) [OF assms(1), of i] by (auto simp: invite_ok_def)
  then show ?case
    using assms declined by (auto simp: Let_def fail_def truthy_def intro!: started_ok split: option.splits)
qed

lemma del_active_ok: "chess_ok s \<Longrightarrow> chess_ok (notify us e (del_active r s))"
  by (auto intro!: chess_okI [of s])

lemma end_ok: "chess_ok s \<Longrightarrow> chess_ok (snd (endDirectRoomChessGame env db r g u s))"
  unfolding endDirectRoomChessGame_def
  by (rule guarded_ok) (auto intro!: del_active_ok split: sum.split)

lemma move_ok:
  assumes ok: "chess_ok s"
  shows "chess_ok (snd (moveDirectRoomChessGame env db r g u m s))"
  unfolding moveDirectRoomChessGame_def
proof (rule guarded_ok [OF ok], goal_cases)
  case (1 peer)
  have moved: "chess_ok (notify us e (set_active r [(''fen'', f), (''turn'', colour_text c), (''turnUserId'', if c = White then w else b),
      (''moveNumber'', n), (''lastMoveSan'', l), (''lastMoveAt'', t)] s))" (is "chess_ok ?s")
    if p: "players_of_game r g u s = Inr (w, b)" for w b f c n l t us e
  proof (rule chess_okI [OF ok])
    note q = players [OF p ok]
    have old: "hfield (cs_active s r) ''roomId'' = Some r" using chess_okD(1) [OF ok, of r] q(1,2) by (simp add: game_ok_def)
    show "cs_active ?s r' = cs_active s r' \<or> game_ok r' (cs_active ?s r')" for r'
      using q(1-3) old by (cases c) (auto simp: game_ok_def plays_def)
    show "cs_active ?s r' = cs_active s r' \<and> cs_draws ?s (r', g') = cs_draws s (r', g')
        \<or> draw_ok (cs_active ?s r') g' (cs_draws ?s (r', g'))" if "g' \<noteq> []" for r' g'
      using chess_okD(3) [OF ok that, of r'] by (auto simp: draw_ok_def plays_def)
  qed simp
  show ?case
    using ok moved by (auto simp: Let_def fail_def intro!: del_active_ok split: sum.split)
qed

lemma offer_draw_ok:
  assumes ok: "chess_ok s"
  shows "chess_ok (snd (offerDirectRoomChessDraw env db r g u s))"
  unfolding offerDirectRoomChessDraw_def
proof (rule guarded_ok [OF ok], goal_cases)
  case (1 peer)
  have "chess_ok (notify us e (s\<lparr>cs_draws := (cs_draws s)((r, g) := hset_all [(''roomId'', r), (''gameId'', g), (''offeredByUserId'', u),
      (''targetUserId'', if u = w then b else w), (''createdAt'', t)] (cs_draws s (r, g)))\<rparr>))"
    if p: "players_of_game r g u s = Inr (w, b)" for w b t us e
    using players [OF p ok] by (intro chess_okI [OF ok]) (auto simp: draw_ok_def plays_def)
  then show ?case using ok by (auto simp: Let_def fail_def split: sum.split)
qed

lemma respond_draw_ok: "chess_ok s \<Longrightarrow> chess_ok (snd (respondDirectRoomChessDraw env db r g u acc s))"
  unfolding respondDirectRoomChessDraw_def
  by (rule guarded_ok) (auto simp: Let_def fail_def intro!: chess_okI [of s])

subsection \<open>Reachable stores\<close>

datatype chess_request =
    CreateInvite string string
  | RespondInvite string string string bool
  | EndGame string string string
  | Move string string string chess_move
  | OfferDraw string string string
  | RespondDraw string string string bool

fun serve :: "chess_env \<Rightarrow> room_rows \<Rightarrow> chess_request \<Rightarrow> chess_store \<Rightarrow> chess_store" where
  "serve env db (CreateInvite r u) s = snd (createDirectRoomChessInvite env db r u s)"
| "serve env db (RespondInvite r i u acc) s = snd (respondDirectRoomChessInvite env db r i u acc s)"
| "serve env db (EndGame r g u) s = snd (endDirectRoomChessGame env db r g u s)"
| "serve env db (Move r g u m) s = snd (moveDirectRoomChessGame env db r g u m s)"
| "serve env db (OfferDraw r g u) s = snd (offerDirectRoomChessDraw env db r g u s)"
| "serve env db (RespondDraw r g u acc) s = snd (respondDirectRoomChessDraw env db r g u acc s)"

definition chess_init :: chess_store where
  "chess_init = \<lparr>cs_invites = (\<lambda>_. []), cs_pending = Map.empty, cs_active = (\<lambda>_. []), cs_draws = (\<lambda>_. []), cs_sent = []\<rparr>"

text \<open>
  Requests and expiries of keys, in any order. A random id has not been used for a game before;
  the requests that slip in before an invite's claim lead to a reachable store as well.
\<close>

inductive chess_reach :: "chess_store \<Rightarrow> bool" where
  start: "chess_reach chess_init"
| request: "chess_reach s \<Longrightarrow> chess_reach (ce_others env s) \<Longrightarrow> (\<And>r. cs_draws s (r, ce_id env) = []) \<Longrightarrow>
    chess_reach (serve env db q s)"
| invite_expires: "chess_reach s \<Longrightarrow> chess_reach (s\<lparr>cs_invites := (cs_invites s)(i := [])\<rparr>)"
| pending_expires: "chess_reach s \<Longrightarrow> chess_reach (s\<lparr>cs_pending := (cs_pending s)(r := None)\<rparr>)"
| game_expires: "chess_reach s \<Longrightarrow> chess_reach (s\<lparr>cs_active := (cs_active s)(r := [])\<rparr>)"
| draw_expires: "chess_reach s \<Longrightarrow> chess_reach (s\<lparr>cs_draws := (cs_draws s)(d := [])\<rparr>)"

lemma reach_ok: "chess_reach s \<Longrightarrow> chess_ok s"
proof (induction rule: chess_reach.induct)
  case start
  show ?case by (simp add: chess_init_def chess_ok_def)
next
  case (request s env db q)
  then show ?case
    by (cases q) (simp_all add: create_ok respond_ok end_ok move_ok offer_draw_ok respond_draw_ok)
next
  case (invite_expires s i)
  show ?case by (rule chess_okI [OF invite_expires.IH]) auto
next
  case (pending_expires s r)
  show ?case by (rule chess_okI [OF pending_expires.IH]) auto
next
  case (game_expires s r)
  show ?case by (rule chess_okI [OF game_expires.IH]) auto
next
  case (draw_expires s d)
  show ?case by (rule chess_okI [OF draw_expires.IH]) auto
qed

subsection \<open>A game\<close>

definition demo_rows :: room_rows where
  "demo_rows = \<lparr>rw_room = (\<lambda>r. if r = ''r'' then Some (Live, Direct) else None), rw_isParticipant = (\<lambda>_ _. True),
     rw_active = (\<lambda>_. [''a'', ''b''])\<rparr>"

definition demo_env :: "string \<Rightarrow> chess_env" where
  "demo_env i = \<lparr>ce_now = 1000, ce_id = i, ce_label = (\<lambda>u. u), ce_others = (\<lambda>s. s)\<rparr>"

definition demo_move :: "colour \<Rightarrow> bool \<Rightarrow> chess_move" where
  "demo_move c final = \<lparr>mv_from = ''e2'', mv_to = ''e4'', mv_san = ''e4'', mv_fen = ''fen'', mv_turn = c, mv_isGameOver = final,
     mv_winnerUserId = None, mv_result = Draw\<rparr>"

definition demo_game :: chess_store where
  "demo_game = serve (demo_env ''G'') demo_rows (RespondInvite ''r'' ''I'' ''b'' True)
     (serve (demo_env ''I'') demo_rows (CreateInvite ''r'' ''a'') chess_init)"

lemma demo_request:
  assumes "chess_reach s" "\<And>r. cs_draws s (r, i) = []"
  shows "chess_reach (serve (demo_env i) demo_rows q s)"
  by (rule chess_reach.request) (use assms in \<open>simp_all add: demo_env_def\<close>)

lemma create_keeps_draws: "cs_draws (serve (demo_env i) db (CreateInvite r u) s) = cs_draws s"
  by (simp add: demo_env_def createDirectRoomChessInvite_def guarded_def Let_def fail_def split: sum.split)

lemma demo_reach: "chess_reach demo_game"
  unfolding demo_game_def
  by (intro demo_request chess_reach.start) (simp_all add: create_keeps_draws chess_init_def del: serve.simps)

subsection \<open>Moves\<close>

lemma guarded_answer:
  assumes "guarded db r u body s = (Inr x, s')"
  obtains peer where "body peer s = (Inr x, s')" "ensureDirectRoomActivityContext db r u = Inr peer"
  using assms by (auto simp: guarded_def split: sum.splits)

lemma move_answer:
  assumes "moveDirectRoomChessGame env db r g u m s = (Inr x, s')" "chess_ok s"
  obtains w b where "players_of_game r g u s = Inr (w, b)" "plays (cs_active s r) w b"
    "hfield (cs_active s r) ''turnUserId'' = Some u"
    "cm_moveNumber x = next_move_number (hfield (cs_active s r) ''moveNumber'')"
    "mv_isGameOver m \<Longrightarrow> cs_active s' = (cs_active s)(r := [])"
    "\<not> mv_isGameOver m \<Longrightarrow> cs_active s' = (cs_active s)(r := hset_all
       [(''fen'', mv_fen m), (''turn'', colour_text (mv_turn m)), (''turnUserId'', if mv_turn m = White then w else b),
        (''moveNumber'', int_str (cm_moveNumber x)), (''lastMoveSan'', mv_san m), (''lastMoveAt'', int_str (ce_now env))]
       (cs_active s r))"
    "map fst (drop (length (cs_sent s)) (cs_sent s')) = [w, b]"
proof -
  obtain peer where peer: "ensureDirectRoomActivityContext db r u = Inr peer"
    using assms(1) unfolding moveDirectRoomChessGame_def by (rule guarded_answer)
  obtain w b where p: "players_of_game r g u s = Inr (w, b)"
  proof (cases "players_of_game r g u s")
    case (Inl e)
    then show ?thesis using assms(1) by (simp add: moveDirectRoomChessGame_def guarded_def peer)
  next
    case (Inr wb)
    then show ?thesis using that by (cases wb) simp
  qed
  note q = players [OF p assms(2)]
  have turn: "truthy (hfield (cs_active s r) ''turnUserId'')"
    using chess_okD(1) [OF assms(2), of r] q(1-3) by (auto simp: game_ok_def plays_def)
  have own: "hfield (cs_active s r) ''turnUserId'' = Some u"
  proof (rule ccontr)
    assume "hfield (cs_active s r) ''turnUserId'' \<noteq> Some u"
    then show False
      using assms(1) turn by (simp add: moveDirectRoomChessGame_def guarded_def peer p Let_def fail_def)
  qed
  let ?n = "next_move_number (hfield (cs_active s r) ''moveNumber'')"
  show ?thesis
  proof (cases "mv_isGameOver m")
    case True
    then have "cm_moveNumber x = ?n" "s' = notify [w, b] (ChessEnded r g u (ce_now env)
        (toUnixMs (ce_now env) (hfield (cs_active s r) ''startedAt'')) (mv_winnerUserId m) (mv_result m)) (del_active r s)"
      using assms(1) own by (auto simp: moveDirectRoomChessGame_def guarded_def peer p Let_def)
    with True show ?thesis by (intro that [OF p q(3) own]) (simp_all add: notify_def del_active_def)
  next
    case False
    then have "cm_moveNumber x = ?n" "s' = notify [w, b] (ChessMoved r g u m ?n (ce_now env)) (set_active r
        [(''fen'', mv_fen m), (''turn'', colour_text (mv_turn m)), (''turnUserId'', if mv_turn m = White then w else b),
         (''moveNumber'', int_str ?n), (''lastMoveSan'', mv_san m), (''lastMoveAt'', int_str (ce_now env))] s)"
      using assms(1) own by (auto simp: moveDirectRoomChessGame_def guarded_def peer p Let_def)
    with False show ?thesis by (intro that [OF p q(3) own]) (simp_all add: notify_def set_active_def)
  qed
qed

text \<open>
  C4. Only the player to move moves. In any reachable store a move that is accepted is for the room's
  active game and from the one of its two players whose turn it is; the move number is the next one, both players are told, and either the game is over and gone or it goes on between the
  same two with the position the move gives and the player of the colour it names to move.
\<close>

theorem only_the_player_to_move_moves:
  assumes "chess_reach s" "moveDirectRoomChessGame env db r g u m s = (Inr x, s')"
  shows "\<exists>w b. plays (cs_active s r) w b \<and> (u = w \<or> u = b) \<and> hfield (cs_active s r) ''gameId'' = Some g
    \<and> hfield (cs_active s r) ''turnUserId'' = Some u
    \<and> cm_moveNumber x = next_move_number (hfield (cs_active s r) ''moveNumber'')
    \<and> map fst (drop (length (cs_sent s)) (cs_sent s')) = [w, b]
    \<and> (if mv_isGameOver m then cs_active s' r = []
       else plays (cs_active s' r) w b \<and> hfield (cs_active s' r) ''gameId'' = Some g
         \<and> hfield (cs_active s' r) ''fen'' = Some (mv_fen m)
         \<and> hfield (cs_active s' r) ''moveNumber'' = Some (int_str (cm_moveNumber x))
         \<and> hfield (cs_active s' r) ''turnUserId'' = Some (if mv_turn m = White then w else b))"
proof -
  note ok = reach_ok [OF assms(1)]
  obtain w b where a: "players_of_game r g u s = Inr (w, b)" "plays (cs_active s r) w b"
    "hfield (cs_active s r) ''turnUserId'' = Some u"
    "cm_moveNumber x = next_move_number (hfield (cs_active s r) ''moveNumber'')"
    "map fst (drop (length (cs_sent s)) (cs_sent s')) = [w, b]"
    and over: "mv_isGameOver m \<Longrightarrow> cs_active s' = (cs_active s)(r := [])"
    and moved: "\<not> mv_isGameOver m \<Longrightarrow> cs_active s' = (cs_active s)(r := hset_all
       [(''fen'', mv_fen m), (''turn'', colour_text (mv_turn m)), (''turnUserId'', if mv_turn m = White then w else b),
        (''moveNumber'', int_str (cm_moveNumber x)), (''lastMoveSan'', mv_san m), (''lastMoveAt'', int_str (ce_now env))]
       (cs_active s r))"
    using move_answer [OF assms(2) ok] by metis
  note q = players [OF a(1) ok]
  show ?thesis
    using a(2-5) q over moved by (intro exI [of _ w] exI [of _ b]) (simp add: plays_def)
qed

definition demo_moved :: "chess_store \<Rightarrow> string \<Rightarrow> chess_move \<Rightarrow> (api_error + chess_moved) \<times> chess_store" where
  "demo_moved s u m = moveDirectRoomChessGame (demo_env ''G'') demo_rows ''r'' ''G'' u m s"

lemma demo_moves:
  "fst (demo_moved demo_game ''a'' (demo_move Black False))
   = Inr \<lparr>cm_moveNumber = 1, cm_fen = ''fen'', cm_turn = Black, cm_isGameOver = False\<rparr>"
  "fst (demo_moved demo_game ''a'' (demo_move White False))
   = Inr \<lparr>cm_moveNumber = 1, cm_fen = ''fen'', cm_turn = White, cm_isGameOver = False\<rparr>"
  by code_simp+

lemma only_the_player_to_move_moves_witness:
  "chess_reach demo_game \<and> fst (demo_moved demo_game ''a'' (demo_move Black False))
     = Inr \<lparr>cm_moveNumber = 1, cm_fen = ''fen'', cm_turn = Black, cm_isGameOver = False\<rparr> \<and>
   hfield (cs_active demo_game ''r'') ''turnUserId'' = Some ''a''"
proof -
  have "demo_moved demo_game ''a'' (demo_move Black False) = (Inr \<lparr>cm_moveNumber = 1, cm_fen = ''fen'', cm_turn = Black,
      cm_isGameOver = False\<rparr>, snd (demo_moved demo_game ''a'' (demo_move Black False)))"
    using demo_moves(1) by (simp add: prod_eq_iff)
  from only_the_player_to_move_moves [OF demo_reach this [unfolded demo_moved_def]] demo_reach demo_moves(1)
  show ?thesis by blast
qed

text \<open>
  The client decides who moves next. After an accepted move the turn goes to the player of the colour
  the request names, without a check that it is the other one: a player who names their own
  colour may move again at once, and again, while the opponent is refused.
\<close>

theorem mover_can_keep_the_turn:
  assumes "chess_reach s" "moveDirectRoomChessGame env db r g u m s = (Inr x, s')"
    and "hfield (cs_active s r) ''turn'' = Some (colour_text (mv_turn m))" "\<not> mv_isGameOver m" "\<not> mv_isGameOver m2"
  shows "(\<exists>x2 s2. moveDirectRoomChessGame env db r g u m2 s' = (Inr x2, s2)) \<and>
    (\<forall>v x2 s2. v \<noteq> u \<longrightarrow> moveDirectRoomChessGame env db r g v m2 s' \<noteq> (Inr x2, s2))"
proof -
  note ok = reach_ok [OF assms(1)]
  obtain w b where a: "players_of_game r g u s = Inr (w, b)" "plays (cs_active s r) w b"
    "hfield (cs_active s r) ''turnUserId'' = Some u"
    and moved: "cs_active s' = (cs_active s)(r := hset_all
       [(''fen'', mv_fen m), (''turn'', colour_text (mv_turn m)), (''turnUserId'', if mv_turn m = White then w else b),
        (''moveNumber'', int_str (cm_moveNumber x)), (''lastMoveSan'', mv_san m), (''lastMoveAt'', int_str (ce_now env))]
       (cs_active s r))"
    using move_answer [OF assms(2) ok] assms(4) by metis
  note q = players [OF a(1) ok]
  have turn: "(if mv_turn m = White then w else b) = u"
    using chess_okD(1) [OF ok, of r] q(1-3) a(2,3) assms(3) by (cases "mv_turn m") (auto simp: game_ok_def plays_def)
  obtain peer where peer: "ensureDirectRoomActivityContext db r u = Inr peer"
    using assms(2) unfolding moveDirectRoomChessGame_def by (rule guarded_answer)
  have "players_of_game r g u s' = Inr (w, b)"
    using a(1) moved by (simp add: players_of_game_def Let_def fail_def split: if_splits)
  then have "\<exists>x2 s2. moveDirectRoomChessGame env db r g u m2 s' = (Inr x2, s2)"
    using moved turn assms(5) by (simp add: moveDirectRoomChessGame_def guarded_def peer Let_def)
  moreover have "moveDirectRoomChessGame env db r g v m2 s' \<noteq> (Inr x2, s2)" if "v \<noteq> u" for v x2 s2
  proof
    assume v: "moveDirectRoomChessGame env db r g v m2 s' = (Inr x2, s2)"
    have "chess_ok s'" using move_ok [OF ok, of env db r g u m] assms(2) by simp
    then have "hfield (cs_active s' r) ''turnUserId'' = Some v" using move_answer [OF v] by metis
    then show False using moved turn that by simp
  qed
  ultimately show ?thesis by blast
qed

lemma mover_can_keep_the_turn_witness:
  "chess_reach demo_game \<and>
   (\<exists>x s'. demo_moved demo_game ''a'' (demo_move White False) = (Inr x, s') \<and>
      (\<exists>x2 s2. demo_moved s' ''a'' (demo_move Black False) = (Inr x2, s2)) \<and>
      (\<forall>x2 s2. demo_moved s' ''b'' (demo_move Black False) \<noteq> (Inr x2, s2)))"
proof -
  define s' where "s' = snd (demo_moved demo_game ''a'' (demo_move White False))"
  have m: "demo_moved demo_game ''a'' (demo_move White False) = (Inr \<lparr>cm_moveNumber = 1, cm_fen = ''fen'', cm_turn = White,
      cm_isGameOver = False\<rparr>, s')"
    using demo_moves(2) by (simp add: s'_def prod_eq_iff)
  have t: "hfield (cs_active demo_game ''r'') ''turn'' = Some (colour_text (mv_turn (demo_move White False)))" by code_simp
  have f: "\<not> mv_isGameOver (demo_move c False)" for c by (simp add: demo_move_def)
  note k = mover_can_keep_the_turn [OF demo_reach m [unfolded demo_moved_def] t f f [of Black], folded demo_moved_def]
  have b: "demo_moved s' ''b'' (demo_move Black False) \<noteq> (Inr x2, s2)" for x2 s2
    using k [THEN conjunct2, rule_format, of "''b''" x2 s2] by simp
  show ?thesis
    by (rule conjI [OF demo_reach], intro exI, rule conjI [OF m], rule conjI [OF k [THEN conjunct1]], intro allI, rule b)
qed

subsection \<open>The end of a game\<close>

lemma resigned_game:
  assumes "chess_reach s" "hfield (cs_active s r) ''gameId'' = Some g"
    and "hfield (cs_active (snd (endDirectRoomChessGame env db r' g' u s)) r) ''gameId'' \<noteq> Some g"
  shows "r' = r \<and> g' = g \<and> (\<exists>w b. plays (cs_active s r) w b \<and> (u = w \<or> u = b))"
proof -
  have changed: "cs_active (snd (endDirectRoomChessGame env db r' g' u s)) r \<noteq> cs_active s r" using assms(2,3) by auto
  obtain peer where peer: "ensureDirectRoomActivityContext db r' u = Inr peer"
    using changed by (cases "ensureDirectRoomActivityContext db r' u") (simp_all add: endDirectRoomChessGame_def guarded_def)
  obtain w b where p: "players_of_game r' g' u s = Inr (w, b)"
    using changed by (cases "players_of_game r' g' u s") (auto simp: endDirectRoomChessGame_def guarded_def peer)
  have "r' = r"
    using changed by (auto simp: endDirectRoomChessGame_def guarded_def peer p split: if_splits)
  with players [OF p reach_ok [OF assms(1)]] assms(2) show ?thesis by auto
qed

lemma moved_out_game:
  assumes "chess_reach s" "hfield (cs_active s r) ''gameId'' = Some g"
    and "hfield (cs_active (snd (moveDirectRoomChessGame env db r' g' u m s)) r) ''gameId'' \<noteq> Some g"
  shows "r' = r \<and> g' = g \<and> mv_isGameOver m \<and> hfield (cs_active s r) ''turnUserId'' = Some u \<and>
    (\<exists>w b. plays (cs_active s r) w b \<and> (u = w \<or> u = b))"
proof -
  obtain x s' where a: "moveDirectRoomChessGame env db r' g' u m s = (Inr x, s')"
  proof (cases "fst (moveDirectRoomChessGame env db r' g' u m s)")
    case (Inl e)
    then have "snd (moveDirectRoomChessGame env db r' g' u m s) = s"
      by (auto simp: moveDirectRoomChessGame_def guarded_def Let_def fail_def split: sum.splits if_splits)
    then show ?thesis using assms(2,3) by simp
  qed (metis that prod.collapse)
  obtain w b where "players_of_game r' g' u s = Inr (w, b)"
    and t: "hfield (cs_active s r') ''turnUserId'' = Some u"
    and over: "mv_isGameOver m \<Longrightarrow> cs_active s' = (cs_active s)(r' := [])"
    and moved: "\<not> mv_isGameOver m \<Longrightarrow> cs_active s' = (cs_active s)(r' := hset_all
       [(''fen'', mv_fen m), (''turn'', colour_text (mv_turn m)), (''turnUserId'', if mv_turn m = White then w else b),
        (''moveNumber'', int_str (cm_moveNumber x)), (''lastMoveSan'', mv_san m), (''lastMoveAt'', int_str (ce_now env))]
       (cs_active s r'))"
    using move_answer [OF a reach_ok [OF assms(1)]] by metis
  note q = players [OF this(1) reach_ok [OF assms(1)]]
  have "r' = r \<and> mv_isGameOver m" using assms(2,3) a over moved by (cases "mv_isGameOver m") (auto split: if_splits)
  then show ?thesis using q assms(2) t by auto
qed

lemma drawn_game:
  assumes "chess_reach s" "hfield (cs_active s r) ''gameId'' = Some g" "g \<noteq> []"
    and "hfield (cs_active (snd (respondDirectRoomChessDraw env db r' g' u acc s)) r) ''gameId'' \<noteq> Some g"
  shows "r' = r \<and> g' = g \<and> acc \<and> (\<exists>w b v. plays (cs_active s r) w b \<and>
    hfield (cs_draws s (r, g)) ''offeredByUserId'' = Some v \<and> (v = w \<and> u = b \<or> v = b \<and> u = w))"
proof -
  have r: "r' = r" "g' = g" "acc" "truthy (hfield (cs_draws s (r, g)) ''offeredByUserId'')"
    "hfield (cs_draws s (r, g)) ''targetUserId'' = Some u"
    using assms(2,4)
    by (auto simp: respondDirectRoomChessDraw_def guarded_def Let_def fail_def split: sum.splits if_splits)
  then show ?thesis using chess_okD(3) [OF reach_ok [OF assms(1)] assms(3), of r] assms(2) by (auto simp: draw_ok_def)
qed

text \<open>
  C3. A game ends by the rules. In any reachable store, if a request leaves a room's active game no longer
  active, then it is the resignation of one of its two players, a move by the player to move
  that is declared final, or a player's acceptance of a draw that the other player offered.
\<close>

theorem games_end_by_the_rules:
  assumes "chess_reach s" "hfield (cs_active s r) ''gameId'' = Some g" "g \<noteq> []"
    and "cs_active (ce_others env s) r = cs_active s r"
    and "hfield (cs_active (serve env db q s) r) ''gameId'' \<noteq> Some g"
  shows "\<exists>w b u. plays (cs_active s r) w b \<and> (u = w \<or> u = b) \<and>
    (q = EndGame r g u
     \<or> (\<exists>m. q = Move r g u m \<and> mv_isGameOver m \<and> hfield (cs_active s r) ''turnUserId'' = Some u)
     \<or> (\<exists>v. q = RespondDraw r g u True \<and> hfield (cs_draws s (r, g)) ''offeredByUserId'' = Some v \<and> v \<noteq> u \<and> (v = w \<or> v = b)))"
proof (cases q)
  case (CreateInvite r' u)
  then have False
    using assms(2,4,5) by (auto simp: createDirectRoomChessInvite_def guarded_def Let_def fail_def split: sum.splits if_splits)
  then show ?thesis ..
next
  case (RespondInvite r' i u acc)
  then have False
    using assms(2,3,5)
    by (auto simp: respondDirectRoomChessInvite_def guarded_def start_game_def Let_def fail_def split: sum.splits if_splits)
  then show ?thesis ..
next
  case (OfferDraw r' g' u)
  then have False
    using assms(2,5) by (auto simp: offerDirectRoomChessDraw_def guarded_def Let_def fail_def split: sum.splits if_splits)
  then show ?thesis ..
next
  case (EndGame r' g' u)
  then show ?thesis using resigned_game [OF assms(1,2)] assms(5) by auto
next
  case (Move r' g' u m)
  then show ?thesis using moved_out_game [OF assms(1,2)] assms(5) by auto
next
  case (RespondDraw r' g' u acc)
  then have d: "r' = r \<and> g' = g \<and> acc \<and> (\<exists>w b v. plays (cs_active s r) w b \<and>
      hfield (cs_draws s (r, g)) ''offeredByUserId'' = Some v \<and> (v = w \<and> u = b \<or> v = b \<and> u = w))"
    using drawn_game [OF assms(1-3), of env db r' g' u acc] assms(5) by simp
  then obtain w b v where "plays (cs_active s r) w b" "hfield (cs_draws s (r, g)) ''offeredByUserId'' = Some v"
    "v = w \<and> u = b \<or> v = b \<and> u = w" by blast
  then show ?thesis using RespondDraw d by (intro exI [of _ w] exI [of _ b] exI [of _ u]) (auto simp: plays_def)
qed

lemma games_end_by_the_rules_witness:
  "chess_reach demo_game \<and> hfield (cs_active demo_game ''r'') ''gameId'' = Some ''G'' \<and>
   hfield (cs_active (serve (demo_env ''H'') demo_rows (EndGame ''r'' ''G'' ''b'') demo_game) ''r'') ''gameId'' = None \<and>
   (\<exists>w b. plays (cs_active demo_game ''r'') w b \<and> (''b'' = w \<or> ''b'' = b))"
proof -
  have g: "hfield (cs_active demo_game ''r'') ''gameId'' = Some ''G''"
    and e: "hfield (cs_active (serve (demo_env ''H'') demo_rows (EndGame ''r'' ''G'' ''b'') demo_game) ''r'') ''gameId'' = None"
    by code_simp+
  have "ce_others (demo_env ''H'') demo_game = demo_game" by (simp add: demo_env_def)
  with games_end_by_the_rules [OF demo_reach g, of "demo_env ''H''" demo_rows "EndGame ''r'' ''G'' ''b''"] e g demo_reach
  show ?thesis by auto
qed

end
