(* ===== verification/RoomExpiry.thy ===== *)
theory RoomExpiry
  imports RoomTypes
begin

text \<open>
  When a room's session is over (the main API's \<open>rooms/lib/expiry/room-expiry.ts\<close>,
  \<open>rooms/lib/session/reconcile-room-session-eval.ts\<close>, the options of \<open>core/database/schema/rooms.ts\<close> and the
  condition by which \<open>room-sessions.repository.ts\<close> selects rooms for the background sweep). A \<open>Date\<close> is its
  number of milliseconds; every reading of the clock is an argument.
\<close>

subsection \<open>Options\<close>

record advanced_options =
  ao_shouldHostStartMeeting :: "bool option"
  ao_shouldMeetingAutoStart :: "bool option"
  ao_spaceExpirationMinutes :: "int option"
  ao_deleteSpaceAfterCall :: "bool option"
  ao_hostControlsActiveSpeaker :: "bool option"

definition defaultRoomAdvancedOptions :: advanced_options where
  "defaultRoomAdvancedOptions = \<lparr>ao_shouldHostStartMeeting = Some False, ao_shouldMeetingAutoStart = Some True,
     ao_spaceExpirationMinutes = None, ao_deleteSpaceAfterCall = Some False, ao_hostControlsActiveSpeaker = Some False\<rparr>"

definition applyMeetingStartExclusivity :: "advanced_options \<Rightarrow> advanced_options" where
  "applyMeetingStartExclusivity opts =
     (let hostOn = (ao_shouldHostStartMeeting opts \<noteq> Some False); autoOn = (ao_shouldMeetingAutoStart opts = Some True);
          hostOn1 = (if autoOn then False else hostOn); autoOn1 = (if hostOn1 then False else autoOn)
      in opts\<lparr>ao_shouldHostStartMeeting := Some hostOn1, ao_shouldMeetingAutoStart := Some autoOn1\<rparr>)"

text \<open>A field the stored options leave out is the default's.\<close>

fun stored_or :: "'a option \<Rightarrow> 'a option \<Rightarrow> 'a option" where
  "stored_or (Some v) d = Some v"
| "stored_or None d = d"

definition mergeRoomAdvancedOptions :: "advanced_options option \<Rightarrow> advanced_options" where
  "mergeRoomAdvancedOptions stored = applyMeetingStartExclusivity (case stored of
      None \<Rightarrow> defaultRoomAdvancedOptions
    | Some o1 \<Rightarrow> (let d = defaultRoomAdvancedOptions in
        \<lparr>ao_shouldHostStartMeeting = stored_or (ao_shouldHostStartMeeting o1) (ao_shouldHostStartMeeting d),
         ao_shouldMeetingAutoStart = stored_or (ao_shouldMeetingAutoStart o1) (ao_shouldMeetingAutoStart d),
         ao_spaceExpirationMinutes = stored_or (ao_spaceExpirationMinutes o1) (ao_spaceExpirationMinutes d),
         ao_deleteSpaceAfterCall = stored_or (ao_deleteSpaceAfterCall o1) (ao_deleteSpaceAfterCall d),
         ao_hostControlsActiveSpeaker = stored_or (ao_hostControlsActiveSpeaker o1) (ao_hostControlsActiveSpeaker d)\<rparr>))"

definition resolveSpaceExpirationMinutes :: "advanced_options \<Rightarrow> int option" where
  "resolveSpaceExpirationMinutes opts = ao_spaceExpirationMinutes opts"

definition resolveDeleteSpaceAfterCall :: "advanced_options \<Rightarrow> bool" where
  "resolveDeleteSpaceAfterCall opts \<longleftrightarrow> ao_deleteSpaceAfterCall opts = Some True"

subsection \<open>Limits\<close>

definition DIRECT_SESSION_MAX_MS :: int where "DIRECT_SESSION_MAX_MS = 2 * 60 * 60 * 1000"
definition SPACE_SESSION_MAX_MS :: int where "SPACE_SESSION_MAX_MS = 3 * 60 * 60 * 1000"
definition SCHEDULED_EMPTY_ROOM_GRACE_MS :: int where "SCHEDULED_EMPTY_ROOM_GRACE_MS = 2 * 60 * 60 * 1000"
definition SCHEDULED_JOIN_GRACE_AFTER_START_MINUTES :: int where "SCHEDULED_JOIN_GRACE_AFTER_START_MINUTES = 120"
definition GUEST_CALL_MAX_DURATION_MS :: int where "GUEST_CALL_MAX_DURATION_MS = 10 * 60 * 1000"

definition addMinutes :: "int \<Rightarrow> int \<Rightarrow> int" where
  "addMinutes d minutes = d + minutes * 60000"

definition addMs :: "int \<Rightarrow> int \<Rightarrow> int" where
  "addMs d ms = d + ms"

definition computeGuestMatchRoomSessionExpiresAt :: "int \<Rightarrow> int" where
  "computeGuestMatchRoomSessionExpiresAt liveStartedAt = liveStartedAt + GUEST_CALL_MAX_DURATION_MS"

subsection \<open>Deadlines\<close>

record room_times =
  tm_status :: room_db_status
  tm_roomType :: room_session_type
  tm_startedAt :: "int option"
  tm_scheduledStartAt :: "int option"
  tm_scheduledEndAt :: "int option"
  tm_advancedOptions :: "advanced_options option"

definition computeCalendarEndForScheduledRoom :: "'a room_times_scheme \<Rightarrow> int option" where
  "computeCalendarEndForScheduledRoom input = (case tm_scheduledEndAt input of
      Some e \<Rightarrow> Some e
    | None \<Rightarrow> (case (tm_scheduledStartAt input, resolveSpaceExpirationMinutes (mergeRoomAdvancedOptions (tm_advancedOptions input))) of
        (Some start, Some expMins) \<Rightarrow> if expMins > 0 then Some (addMinutes start expMins) else None
      | _ \<Rightarrow> None))"

definition computeSessionCapDeadline :: "int \<Rightarrow> room_session_type \<Rightarrow> int" where
  "computeSessionCapDeadline liveStartedAt roomType =
     addMs liveStartedAt (if roomType = Direct then DIRECT_SESSION_MAX_MS else SPACE_SESSION_MAX_MS)"

definition computeRoomExpiresAt :: "'a room_times_scheme \<Rightarrow> int option" where
  "computeRoomExpiresAt input =
     (let byEnd = (case tm_scheduledEndAt input of Some e \<Rightarrow> [e] | None \<Rightarrow> []);
          byStart = (if tm_status input = Scheduled then
              (case (tm_scheduledStartAt input, resolveSpaceExpirationMinutes (mergeRoomAdvancedOptions (tm_advancedOptions input))) of
                (Some start, Some expMins) \<Rightarrow> if expMins > 0 then [addMinutes start expMins] else []
              | _ \<Rightarrow> [])
            else []);
          deadlines = byEnd @ byStart
      in if deadlines = [] then None else Some (Min (set deadlines)))"

definition computeLiveSessionExpiresAt :: "'a room_times_scheme \<Rightarrow> int option" where
  "computeLiveSessionExpiresAt input = (case tm_startedAt input of
      None \<Rightarrow> computeRoomExpiresAt input
    | Some startedAt \<Rightarrow>
        if tm_status input \<noteq> Live then computeRoomExpiresAt input
        else
         (let sessionCap = computeSessionCapDeadline startedAt (tm_roomType input) in
          if tm_roomType input = Direct \<or> tm_scheduledStartAt input = None then Some sessionCap
          else case computeCalendarEndForScheduledRoom input of
            None \<Rightarrow> Some sessionCap
          | Some calendarEnd \<Rightarrow> Some (min sessionCap calendarEnd)))"

definition isPastDeadline :: "int option \<Rightarrow> int \<Rightarrow> bool" where
  "isPastDeadline deadline now = (case deadline of None \<Rightarrow> False | Some d \<Rightarrow> d \<le> now)"

definition isLiveSessionCapExceeded :: "int \<Rightarrow> room_session_type \<Rightarrow> int \<Rightarrow> bool" where
  "isLiveSessionCapExceeded liveStartedAt roomType now =
     isPastDeadline (Some (computeSessionCapDeadline liveStartedAt roomType)) now"

definition computeIsExpired :: "int option \<Rightarrow> int \<Rightarrow> bool" where
  "computeIsExpired expiresAt now = (case expiresAt of None \<Rightarrow> False | Some e \<Rightarrow> e < now)"

definition computeRoomExpiryFields :: "'a room_times_scheme \<Rightarrow> int \<Rightarrow> int option \<times> bool" where
  "computeRoomExpiryFields input now =
     (let expiresAt = computeRoomExpiresAt input in (expiresAt, computeIsExpired expiresAt now))"

definition computeLiveRoomExpiryFields :: "'a room_times_scheme \<Rightarrow> int \<Rightarrow> int option \<times> bool" where
  "computeLiveRoomExpiryFields input now =
     (let expiresAt = computeLiveSessionExpiresAt input in (expiresAt, computeIsExpired expiresAt now))"

definition computeExpiryFieldsForRoom :: "'a room_times_scheme \<Rightarrow> int \<Rightarrow> int option \<times> bool" where
  "computeExpiryFieldsForRoom room now =
     (if tm_status room = Live \<and> tm_startedAt room \<noteq> None then computeLiveRoomExpiryFields room now
      else computeRoomExpiryFields room now)"

text \<open>The upgrade of a direct call: the row's current deadline, when it went live, and the schedule.\<close>

definition computeExpiresAtAfterSpaceUpgrade :: "int option \<Rightarrow> int \<Rightarrow> 'a room_times_scheme \<Rightarrow> int \<Rightarrow> int" where
  "computeExpiresAtAfterSpaceUpgrade currentExpiresAt liveStartedAt params now =
     (let live = computeLiveSessionExpiresAt (params\<lparr>tm_status := Live, tm_roomType := Space, tm_startedAt := Some liveStartedAt\<rparr>)
      in Max (set (computeSessionCapDeadline now Space # List.map_filter id [live, currentExpiresAt])))"

definition isDbRoomSessionClosed :: "room_db_status \<Rightarrow> bool \<Rightarrow> int option \<Rightarrow> int \<Rightarrow> bool" where
  "isDbRoomSessionClosed status isExpired expiresAt now \<longleftrightarrow>
     status = Ended \<or> status = Cancelled \<or> isExpired \<or> computeIsExpired expiresAt now"

subsection \<open>Why a session ends\<close>

datatype end_reason =
    Host_end_for_everyone | Expires_at_past | Join_grace_missed | Session_cap | Calendar_end | Empty_room_2h
  | Delete_space_after_call | Match_finalized | Connection_call_ended | Reconciled_on_access

record presence =
  pr_activeCount :: nat
  pr_lastLeftAt :: "int option"

definition joinGraceDeadline :: "int \<Rightarrow> int" where
  "joinGraceDeadline scheduledStartAt = scheduledStartAt + SCHEDULED_JOIN_GRACE_AFTER_START_MINUTES * 60000"

definition empty_too_long :: "'a room_times_scheme \<Rightarrow> presence \<Rightarrow> int \<Rightarrow> bool" where
  "empty_too_long room presence now \<longleftrightarrow> pr_activeCount presence = 0 \<and>
     \<not> (case tm_scheduledStartAt room of Some s \<Rightarrow> now < s | None \<Rightarrow> False) \<and>
     (case stored_or (pr_lastLeftAt presence) (tm_startedAt room) of
        None \<Rightarrow> False
      | Some emptySince \<Rightarrow> now - emptySince \<ge> SCHEDULED_EMPTY_ROOM_GRACE_MS)"

definition evaluateRoomSessionEndReason ::
  "'a room_times_scheme \<Rightarrow> bool \<Rightarrow> int option \<Rightarrow> presence \<Rightarrow> int \<Rightarrow> end_reason option" where
  "evaluateRoomSessionEndReason room isExpired expiresAt presence now =
     (if tm_status room = Scheduled \<and> tm_roomType room = Space \<and>
         (case tm_scheduledStartAt room of Some s \<Rightarrow> now \<ge> joinGraceDeadline s | None \<Rightarrow> False) then Some Join_grace_missed
      else if tm_status room \<noteq> Live then None
      else if isExpired \<or> computeIsExpired expiresAt now then Some Expires_at_past
      else if (case tm_startedAt room of Some s \<Rightarrow> isLiveSessionCapExceeded s (tm_roomType room) now | None \<Rightarrow> False)
      then Some Session_cap
      else if tm_roomType room = Space \<and> tm_scheduledStartAt room \<noteq> None \<and>
         isPastDeadline (computeCalendarEndForScheduledRoom room) now then Some Calendar_end
      else if empty_too_long room presence now then Some Empty_room_2h
      else None)"

text \<open>The dash of the first message is a hyphen here, as strings are 8-bit.\<close>

definition roomSessionClosedMessage :: "end_reason option \<Rightarrow> string" where
  "roomSessionClosedMessage reason = (case reason of
      Some Empty_room_2h \<Rightarrow> ''This space has ended - no one has been in the call for over 2 hours.''
    | Some Session_cap \<Rightarrow> ''This call has reached its time limit.''
    | Some Calendar_end \<Rightarrow> ''This scheduled meeting has ended.''
    | Some Join_grace_missed \<Rightarrow> ''This scheduled space is no longer available.''
    | _ \<Rightarrow> ''This room session is no longer available.'')"

definition isScheduledSpaceBeforeStartTime :: "'a room_times_scheme \<Rightarrow> int \<Rightarrow> bool" where
  "isScheduledSpaceBeforeStartTime room now \<longleftrightarrow> tm_roomType room = Space \<and> tm_status room = Scheduled \<and>
     (case tm_scheduledStartAt room of None \<Rightarrow> False | Some s \<Rightarrow> now < s)"

text \<open>The rows the sweep selects; the two nested conditions of a live row are named.\<close>

definition cap_passed :: "'a room_times_scheme \<Rightarrow> int \<Rightarrow> bool" where
  "cap_passed room now = (case tm_startedAt room of
      None \<Rightarrow> False
    | Some s \<Rightarrow> (tm_roomType room = Direct \<and> s + DIRECT_SESSION_MAX_MS \<le> now) \<or>
                (tm_roomType room = Space \<and> s + SPACE_SESSION_MAX_MS \<le> now))"

definition empty_passed :: "'a room_times_scheme \<Rightarrow> presence \<Rightarrow> int \<Rightarrow> bool" where
  "empty_passed room presence now \<longleftrightarrow> pr_activeCount presence = 0 \<and>
     (case stored_or (pr_lastLeftAt presence) (tm_startedAt room) of
        None \<Rightarrow> False
      | Some t \<Rightarrow> t + SCHEDULED_EMPTY_ROOM_GRACE_MS \<le> now) \<and>
     (case tm_scheduledStartAt room of None \<Rightarrow> True | Some s \<Rightarrow> s \<le> now)"

definition roomSessionSweepCandidatesWhere :: "'a room_times_scheme \<Rightarrow> bool \<Rightarrow> int option \<Rightarrow> presence \<Rightarrow> int \<Rightarrow> bool" where
  "roomSessionSweepCandidatesWhere room isExpired expiresAt presence now \<longleftrightarrow>
     (tm_roomType room = Space \<and> tm_status room = Scheduled \<and>
        (case tm_scheduledStartAt room of
           None \<Rightarrow> False
         | Some s \<Rightarrow> s + SCHEDULED_JOIN_GRACE_AFTER_START_MINUTES * 60000 \<le> now)) \<or>
     (tm_status room = Live \<and>
        (isExpired \<or> isPastDeadline expiresAt now \<or> cap_passed room now \<or> empty_passed room presence now))"

subsection \<open>Seats\<close>

definition countReservedRoomSeats :: "string list \<Rightarrow> string list \<Rightarrow> nat" where
  "countReservedRoomSeats activeUserIds pendingInviteeIds = card (set activeUserIds \<union> set pendingInviteeIds)"

definition canInviteWithoutExceedingCapacity :: "string list \<Rightarrow> string list \<Rightarrow> nat \<Rightarrow> string \<Rightarrow> bool" where
  "canInviteWithoutExceedingCapacity activeUserIds pendingInviteeIds maxParticipants inviteeUserId =
     (let seats = set activeUserIds \<union> set pendingInviteeIds
      in if inviteeUserId \<in> seats then card seats \<le> maxParticipants else card seats + 1 \<le> maxParticipants)"

subsection \<open>Properties\<close>

lemma merged_exclusive:
  "\<not> (ao_shouldHostStartMeeting (mergeRoomAdvancedOptions s) = Some True
      \<and> ao_shouldMeetingAutoStart (mergeRoomAdvancedOptions s) = Some True)"
  by (simp add: mergeRoomAdvancedOptions_def applyMeetingStartExclusivity_def Let_def)

text \<open>
  A deadline of a live session is bounded. A live room that has started has a deadline, at most two hours
  (direct) or three (space) after its start; a scheduled space's is also no later than its
  calendar end; and upgrading a call never moves the deadline earlier, nor below three hours from
  the upgrade.
\<close>

theorem live_deadline_bounds:
  assumes "tm_status room = Live" "tm_startedAt room = Some s"
  shows "\<exists>d. computeLiveSessionExpiresAt room = Some d \<and>
      d \<le> s + (if tm_roomType room = Direct then DIRECT_SESSION_MAX_MS else SPACE_SESSION_MAX_MS) \<and>
      (tm_roomType room = Space \<and> tm_scheduledStartAt room \<noteq> None \<longrightarrow>
         (\<forall>c. computeCalendarEndForScheduledRoom room = Some c \<longrightarrow> d \<le> c)) \<and>
      computeExpiresAtAfterSpaceUpgrade (Some d) s room now \<ge> d \<and>
      computeExpiresAtAfterSpaceUpgrade (Some d) s room now \<ge> now + SPACE_SESSION_MAX_MS"
proof -
  have up: "computeExpiresAtAfterSpaceUpgrade (Some d) s room now \<ge> d"
    "computeExpiresAtAfterSpaceUpgrade (Some d) s room now \<ge> now + SPACE_SESSION_MAX_MS" for d
    by (simp_all add: computeExpiresAtAfterSpaceUpgrade_def computeSessionCapDeadline_def addMs_def Let_def
        List.map_filter_def le_max_iff_disj)
  show ?thesis
    using assms up
    by (cases "tm_roomType room"; cases "tm_scheduledStartAt room"; cases "computeCalendarEndForScheduledRoom room")
      (simp_all add: computeLiveSessionExpiresAt_def computeSessionCapDeadline_def addMs_def)
qed

lemma live_deadline_bounds_witness:
  "\<exists>d. computeLiveSessionExpiresAt \<lparr>tm_status = Live, tm_roomType = Space, tm_startedAt = Some 1000,
      tm_scheduledStartAt = Some 500, tm_scheduledEndAt = Some 2000, tm_advancedOptions = None\<rparr> = Some d \<and> d \<le> 2000"
  using live_deadline_bounds [of "\<lparr>tm_status = Live, tm_roomType = Space, tm_startedAt = Some 1000,
      tm_scheduledStartAt = Some 500, tm_scheduledEndAt = Some 2000, tm_advancedOptions = None\<rparr>" 1000 0]
  by (auto simp: computeCalendarEndForScheduledRoom_def)

text \<open>
  C39. The sweep finds what is due. The database condition that selects rooms for the background sweep holds
  exactly when the evaluation on access would end the session, but for two cases: at the very
  millisecond of the recorded deadline it holds early, and a live space past its calendar end is
  left out when no recorded deadline, cap or empty room selects it.
\<close>

theorem sweep_selects_due:
  "roomSessionSweepCandidatesWhere room isExpired expiresAt presence now \<longleftrightarrow>
     (case evaluateRoomSessionEndReason room isExpired expiresAt presence now of
        None \<Rightarrow> tm_status room = Live \<and> expiresAt = Some now
      | Some Calendar_end \<Rightarrow> expiresAt = Some now \<or> empty_too_long room presence now
      | Some _ \<Rightarrow> True)"
proof -
  have e: "empty_passed room presence now = empty_too_long room presence now"
    by (auto simp: empty_passed_def empty_too_long_def split: option.splits)
  have c: "cap_passed room now \<longleftrightarrow> (case tm_startedAt room of Some s \<Rightarrow> isLiveSessionCapExceeded s (tm_roomType room) now | None \<Rightarrow> False)"
    by (cases "tm_roomType room") (auto simp: cap_passed_def isLiveSessionCapExceeded_def isPastDeadline_def
        computeSessionCapDeadline_def addMs_def split: option.splits)
  have x: "isPastDeadline expiresAt now \<longleftrightarrow> computeIsExpired expiresAt now \<or> expiresAt = Some now"
    by (auto simp: isPastDeadline_def computeIsExpired_def split: option.splits)
  show ?thesis
    unfolding roomSessionSweepCandidatesWhere_def evaluateRoomSessionEndReason_def e c x
    by (cases "tm_status room"; cases "tm_scheduledStartAt room")
      (auto simp: joinGraceDeadline_def split: if_splits)
qed

text \<open>
  The calendar end is missed. A live scheduled space whose length is given in minutes, not as an end time,
  carries no recorded deadline after it went live; once its calendar end has passed it is due, but
  as long as someone is in the call and the three hours have not passed the sweep does not select
  it.
\<close>

theorem sweep_misses_calendar_end:
  assumes "tm_status room = Live" "tm_roomType room = Space" "tm_scheduledEndAt room = None"
    and "tm_startedAt room = Some s" "now < s + SPACE_SESSION_MAX_MS" "0 < pr_activeCount presence"
    and "tm_scheduledStartAt room = Some t" "computeCalendarEndForScheduledRoom room = Some c" "c \<le> now"
  shows "computeRoomExpiryFields room s = (None, False) \<and>
      evaluateRoomSessionEndReason room False None presence now = Some Calendar_end \<and>
      \<not> roomSessionSweepCandidatesWhere room False None presence now"
  using assms
  by (auto simp: computeRoomExpiryFields_def computeRoomExpiresAt_def computeIsExpired_def Let_def
      evaluateRoomSessionEndReason_def isLiveSessionCapExceeded_def isPastDeadline_def computeSessionCapDeadline_def addMs_def
      roomSessionSweepCandidatesWhere_def cap_passed_def empty_passed_def)

definition late_room :: room_times where
  "late_room = \<lparr>tm_status = Live, tm_roomType = Space, tm_startedAt = Some 0, tm_scheduledStartAt = Some 0,
     tm_scheduledEndAt = None,
     tm_advancedOptions = Some (defaultRoomAdvancedOptions\<lparr>ao_spaceExpirationMinutes := Some 30\<rparr>)\<rparr>"

lemma sweep_misses_calendar_end_witness:
  "evaluateRoomSessionEndReason late_room False None \<lparr>pr_activeCount = 2, pr_lastLeftAt = None\<rparr> 3600000 = Some Calendar_end \<and>
   \<not> roomSessionSweepCandidatesWhere late_room False None \<lparr>pr_activeCount = 2, pr_lastLeftAt = None\<rparr> 3600000"
proof -
  have c: "computeCalendarEndForScheduledRoom late_room = Some 1800000" by code_simp
  have "computeRoomExpiryFields late_room 0 = (None, False) \<and>
      evaluateRoomSessionEndReason late_room False None \<lparr>pr_activeCount = 2, pr_lastLeftAt = None\<rparr> 3600000 = Some Calendar_end \<and>
      \<not> roomSessionSweepCandidatesWhere late_room False None \<lparr>pr_activeCount = 2, pr_lastLeftAt = None\<rparr> 3600000"
    by (rule sweep_misses_calendar_end [OF _ _ _ _ _ _ _ c]) (simp_all add: late_room_def SPACE_SESSION_MAX_MS_def)
  then show ?thesis by blast
qed

end
