(* ===== verification/RoomStore.thy ===== *)
theory RoomStore
  imports RoomExpiry
begin

text \<open>
  The main API's store of rooms: the rows of \<open>rooms\<close>, \<open>room_participants\<close>, \<open>room_friend_invites\<close> and
  \<open>room_restricted_users\<close>, the Redis keys of a room's session, of a user's last RTC token and of connection
  calls, and what was sent to users and to the other services; and the operations of \<open>rooms/repositories\<close>. A
  statement of SQL is one atomic step; its \<open>NOW()\<close> is the request's clock.
\<close>

subsection \<open>Rows\<close>

datatype session_kind = MatchKind | ConnectionCallKind | SpaceKind
datatype visibility = Private | Public
datatype part_role = HostRole | ParticipantRole
datatype invite_status = PendingInvite | AcceptedInvite | DeclinedInvite | CancelledInvite

fun session_kind_text :: "session_kind \<Rightarrow> string" where
  "session_kind_text MatchKind = ''match''"
| "session_kind_text ConnectionCallKind = ''connection_call''"
| "session_kind_text SpaceKind = ''space''"

record room_row = room_times +
  rr_hostUserId :: string
  rr_sessionKind :: session_kind
  rr_endedAt :: "int option"
  rr_expiresAt :: "int option"
  rr_isExpired :: bool
  rr_maxParticipants :: nat
  rr_visibility :: visibility
  rr_title :: string
  rr_rtcRoomId :: "string option"

record part_row =
  pt_userId :: string
  pt_role :: part_role
  pt_joinedAt :: int
  pt_leftAt :: "int option"

record friend_invite =
  fi_id :: string
  fi_roomId :: string
  fi_inviterUserId :: string
  fi_inviteeUserId :: string
  fi_status :: invite_status

datatype call_status = Completed | MissedCall | DeclinedCall | CancelledCall

record call_meta =
  cl_conversationId :: string
  cl_callerUserId :: string
  cl_calleeUserId :: string
  cl_video :: bool
  cl_acceptedAt :: int
  cl_requestId :: string

text \<open>A call's invite as it is read back; its status is the text of the field.\<close>

record call_invite =
  iv_requestId :: string
  iv_roomId :: string
  iv_conversationId :: string
  iv_callerUserId :: string
  iv_calleeUserId :: string
  iv_video :: bool
  iv_status :: "string option"
  iv_createdAt :: string

datatype room_event =
    SfuTeardown string
  | RtcKick string string
  | RtcRoomType string room_session_type
  | OpenedForJoin string string
  | SpaceStarted string string
  | HostEnded string string
  | ParticipantRemoved string string "nat option"
  | TitleUpdated string string string
  | InviteReceived string string string
  | InviteRefused string string string
  | BecameSpace string string
  | PauseOpenToConnect string
  | RestoreOpenToConnect string
  | LeaveMatchEngine string
  | MatchPeerLeft string string
  | CallRing string call_invite
  | CallAccepted string string
  | CallDeclined string string
  | CallCancelled string string
  | CallMissed string string
  | CallPeerEnded string string
  | CallHistory string string bool call_status "int option"

record main_store =
  db_rooms :: "string \<Rightarrow> room_row option"
  db_parts :: "string \<Rightarrow> part_row list"
  db_invites :: "friend_invite list"
  db_restricted :: "(string \<times> string) list"
  db_strikes :: "string \<Rightarrow> nat"
  db_banned :: "string list"
  rd_session :: "string \<Rightarrow> fields"
  rd_active :: "string \<Rightarrow> string option"
  rd_nsfw :: "string \<Rightarrow> string \<Rightarrow> bool"
  cc_invite :: "string \<Rightarrow> fields"
  cc_pendingForCallee :: "string \<Rightarrow> string option"
  cc_pendingByRoom :: "string \<Rightarrow> string option"
  cc_activeByRoom :: "string \<Rightarrow> call_meta option"
  cc_historyLogged :: "string \<Rightarrow> bool"
  cc_historyLoggedForRequest :: "string \<Rightarrow> bool"
  out :: "room_event list"

definition say :: "room_event list \<Rightarrow> main_store \<Rightarrow> main_store" where
  "say es s = s\<lparr>out := out s @ es\<rparr>"

definition put_room :: "string \<Rightarrow> room_row \<Rightarrow> main_store \<Rightarrow> main_store" where
  "put_room r row s = s\<lparr>db_rooms := (db_rooms s)(r \<mapsto> row)\<rparr>"

definition put_parts :: "string \<Rightarrow> part_row list \<Rightarrow> main_store \<Rightarrow> main_store" where
  "put_parts r ps s = s\<lparr>db_parts := (db_parts s)(r := ps)\<rparr>"

subsection \<open>Participants\<close>

definition is_active :: "part_row \<Rightarrow> bool" where
  "is_active p \<longleftrightarrow> pt_leftAt p = None"

definition listActiveParticipantUserIds :: "string \<Rightarrow> main_store \<Rightarrow> string list" where
  "listActiveParticipantUserIds r s = map pt_userId (filter is_active (db_parts s r))"

definition isUserRoomParticipant :: "string \<Rightarrow> string \<Rightarrow> main_store \<Rightarrow> bool" where
  "isUserRoomParticipant r u s \<longleftrightarrow> u \<in> set (listActiveParticipantUserIds r s)"

definition findRoomParticipant :: "string \<Rightarrow> string \<Rightarrow> main_store \<Rightarrow> part_row option" where
  "findRoomParticipant r u s = find (\<lambda>p. pt_userId p = u) (db_parts s r)"

definition wasUserRoomParticipant :: "string \<Rightarrow> string \<Rightarrow> main_store \<Rightarrow> bool" where
  "wasUserRoomParticipant r u s \<longleftrightarrow> findRoomParticipant r u s \<noteq> None"

definition listParticipantUserIds :: "string \<Rightarrow> main_store \<Rightarrow> string list" where
  "listParticipantUserIds r s = map pt_userId (db_parts s r)"

definition listAllParticipantUserIds :: "string \<Rightarrow> main_store \<Rightarrow> string list" where
  "listAllParticipantUserIds r s = rev (remdups (rev (map pt_userId (db_parts s r))))"

definition countActiveParticipants :: "string \<Rightarrow> main_store \<Rightarrow> nat" where
  "countActiveParticipants r s = length (filter is_active (db_parts s r))"

text \<open>An insert that updates the row of the same room and user instead.\<close>

definition upsert_part :: "part_row \<Rightarrow> (part_row \<Rightarrow> part_row) \<Rightarrow> part_row list \<Rightarrow> part_row list" where
  "upsert_part new upd ps =
     (if pt_userId new \<in> pt_userId ` set ps then map (\<lambda>p. if pt_userId p = pt_userId new then upd p else p) ps
      else ps @ [new])"

definition addOrReactivateParticipantRow :: "int \<Rightarrow> string \<Rightarrow> string \<Rightarrow> main_store \<Rightarrow> main_store" where
  "addOrReactivateParticipantRow now r u s = put_parts r
     (upsert_part \<lparr>pt_userId = u, pt_role = ParticipantRole, pt_joinedAt = now, pt_leftAt = None\<rparr>
        (\<lambda>p. p\<lparr>pt_leftAt := None, pt_joinedAt := now\<rparr>) (db_parts s r)) s"

definition addOrReactivateHostRow :: "int \<Rightarrow> string \<Rightarrow> string \<Rightarrow> main_store \<Rightarrow> main_store" where
  "addOrReactivateHostRow now r u s = put_parts r
     (upsert_part \<lparr>pt_userId = u, pt_role = HostRole, pt_joinedAt = now, pt_leftAt = None\<rparr>
        (\<lambda>p. p\<lparr>pt_leftAt := None, pt_joinedAt := now, pt_role := HostRole\<rparr>) (db_parts s r)) s"

definition leave_row :: "int \<Rightarrow> part_row \<Rightarrow> part_row" where
  "leave_row now p = (if is_active p then p\<lparr>pt_leftAt := Some now\<rparr> else p)"

definition markParticipantLeft :: "int \<Rightarrow> string \<Rightarrow> string \<Rightarrow> main_store \<Rightarrow> main_store" where
  "markParticipantLeft now r u s = put_parts r (map (\<lambda>p. if pt_userId p = u then leave_row now p else p) (db_parts s r)) s"

definition loadParticipantPresence :: "string \<Rightarrow> main_store \<Rightarrow> presence" where
  "loadParticipantPresence r s =
     (let left = List.map_filter pt_leftAt (db_parts s r)
      in \<lparr>pr_activeCount = countActiveParticipants r s, pr_lastLeftAt = (if left = [] then None else Some (Max (set left)))\<rparr>)"

subsection \<open>Rooms\<close>

definition findRoomById :: "string \<Rightarrow> main_store \<Rightarrow> room_row option" where
  "findRoomById r s = db_rooms s r"

definition row_closed :: "int \<Rightarrow> room_row \<Rightarrow> bool" where
  "row_closed now row = isDbRoomSessionClosed (tm_status row) (rr_isExpired row) (rr_expiresAt row) now"

text \<open>An update of the room's row under a condition, with whether it matched.\<close>

definition update_room ::
  "string \<Rightarrow> (room_row \<Rightarrow> bool) \<Rightarrow> (room_row \<Rightarrow> room_row) \<Rightarrow> main_store \<Rightarrow> bool \<times> main_store" where
  "update_room r cond upd s = (case db_rooms s r of
      None \<Rightarrow> (False, s)
    | Some row \<Rightarrow> if cond row then (True, put_room r (upd row) s) else (False, s))"

definition end_row :: "int \<Rightarrow> room_row \<Rightarrow> room_row" where
  "end_row now row = row\<lparr>tm_status := Ended, rr_endedAt := Some now, rr_expiresAt := Some now, rr_isExpired := True\<rparr>"

definition markRoomLive :: "string \<Rightarrow> int \<Rightarrow> main_store \<Rightarrow> bool \<times> main_store" where
  "markRoomLive r startedAt = update_room r (\<lambda>row. tm_status row = Scheduled) (\<lambda>row.
     let (expiresAt, isExpired) = computeRoomExpiryFields (row\<lparr>tm_status := Live\<rparr>) startedAt
     in row\<lparr>tm_status := Live, tm_startedAt := Some startedAt, rr_rtcRoomId := Some r, rr_expiresAt := expiresAt,
          rr_isExpired := isExpired\<rparr>)"

definition past_due_for_sync :: "int \<Rightarrow> room_row \<Rightarrow> bool" where
  "past_due_for_sync now row \<longleftrightarrow> tm_roomType row = Space \<and> (tm_status row = Live \<or> tm_status row = Scheduled) \<and>
     \<not> rr_isExpired row \<and>
     (computeIsExpired (rr_expiresAt row) now \<or>
      tm_status row = Scheduled \<and> (case tm_scheduledStartAt row of None \<Rightarrow> False | Some t \<Rightarrow> joinGraceDeadline t < now))"

definition syncSpaceRoomExpiryIfPastDue :: "int \<Rightarrow> string \<Rightarrow> main_store \<Rightarrow> bool \<times> main_store" where
  "syncSpaceRoomExpiryIfPastDue now r = update_room r (past_due_for_sync now) (\<lambda>row. row\<lparr>rr_isExpired := True\<rparr>)"

text \<open>All rooms at once; which ids it reports is up to the rows that exist, an argument.\<close>

definition syncPastDueSpaceRoomExpiry :: "int \<Rightarrow> string list \<Rightarrow> main_store \<Rightarrow> string list \<times> main_store" where
  "syncPastDueSpaceRoomExpiry now rows s =
     (filter (\<lambda>r. case db_rooms s r of None \<Rightarrow> False | Some row \<Rightarrow> past_due_for_sync now row) rows,
      fold (\<lambda>r. snd \<circ> syncSpaceRoomExpiryIfPastDue now r) rows s)"

definition restartLiveSessionClockIfNoActiveParticipants :: "int \<Rightarrow> string \<Rightarrow> main_store \<Rightarrow> main_store" where
  "restartLiveSessionClockIfNoActiveParticipants now r s = (case db_rooms s r of
      None \<Rightarrow> s
    | Some row \<Rightarrow>
        if tm_status row \<noteq> Live \<or> countActiveParticipants r s > 0 then s
        else put_room r (row\<lparr>tm_startedAt := Some now,
               rr_expiresAt := computeLiveSessionExpiresAt (row\<lparr>tm_startedAt := Some now\<rparr>), rr_isExpired := False\<rparr>) s)"

definition applyExpiresAtCapIfSooner :: "string \<Rightarrow> int \<Rightarrow> main_store \<Rightarrow> main_store" where
  "applyExpiresAtCapIfSooner r capExpiresAt s = (case db_rooms s r of
      None \<Rightarrow> s
    | Some row \<Rightarrow>
        if (case rr_expiresAt row of None \<Rightarrow> False | Some e \<Rightarrow> e \<le> capExpiresAt) then s
        else put_room r (row\<lparr>rr_expiresAt := Some capExpiresAt, rr_isExpired := False\<rparr>) s)"

definition refreshLiveSpaceExpiryAfterParticipantJoin :: "int \<Rightarrow> string \<Rightarrow> main_store \<Rightarrow> main_store" where
  "refreshLiveSpaceExpiryAfterParticipantJoin now r s = snd (update_room r
     (\<lambda>row. tm_roomType row = Space \<and> tm_status row = Live)
     (\<lambda>row. let (expiresAt, isExpired) = computeRoomExpiryFields row now
        in row\<lparr>rr_expiresAt := expiresAt, rr_isExpired := isExpired\<rparr>) s)"

definition expireScheduledJoinGraceMissed :: "int \<Rightarrow> string \<Rightarrow> main_store \<Rightarrow> bool \<times> main_store" where
  "expireScheduledJoinGraceMissed now r = update_room r
     (\<lambda>row. tm_roomType row = Space \<and> tm_status row = Scheduled \<and>
        (case tm_scheduledStartAt row of None \<Rightarrow> False | Some t \<Rightarrow> joinGraceDeadline t < now))
     (\<lambda>row. row\<lparr>rr_isExpired := True\<rparr>)"

definition endLiveRoomSessionTx :: "int \<Rightarrow> string \<Rightarrow> room_row \<Rightarrow> bool \<Rightarrow> main_store \<Rightarrow> bool \<times> main_store" where
  "endLiveRoomSessionTx now r room preserveScheduledSlot s =
     (let s1 = put_parts r (map (leave_row now) (db_parts s r)) s
      in if tm_roomType room = Space \<and> preserveScheduledSlot then
          (let (expiresAt, isExpired) = computeRoomExpiryFields (room\<lparr>tm_status := Scheduled\<rparr>) now;
               (updated, s2) = update_room r (\<lambda>row. tm_roomType row = Space \<and> tm_status row = Live)
                 (\<lambda>row. row\<lparr>tm_status := Scheduled, rr_endedAt := None, tm_startedAt := None, rr_rtcRoomId := None,
                    rr_expiresAt := expiresAt, rr_isExpired := isExpired\<rparr>) s1
           in (updated,
               if updated then put_parts r (map (\<lambda>p. if pt_userId p = rr_hostUserId room then p\<lparr>pt_leftAt := None\<rparr> else p)
                 (db_parts s2 r)) s2
               else s2))
         else update_room r (\<lambda>row. tm_status row = Live) (end_row now) s1)"

definition leaveAndMaybeEndRoomTx :: "string \<Rightarrow> string \<Rightarrow> int \<Rightarrow> bool \<Rightarrow> main_store \<Rightarrow> (bool \<times> bool) \<times> main_store" where
  "leaveAndMaybeEndRoomTx r u now deleteSpaceAfterCall s =
     (let s1 = markParticipantLeft now r u s
      in if countActiveParticipants r s1 > 0 then ((False, False), s1)
         else if deleteSpaceAfterCall then
          (let (ended, s2) = update_room r (\<lambda>row. tm_roomType row = Space \<and> tm_status row = Live) (end_row now) s1
           in ((True, ended), s2))
         else ((True, False), s1))"

definition updateLiveRoomTitle :: "string \<Rightarrow> string \<Rightarrow> main_store \<Rightarrow> bool \<times> main_store" where
  "updateLiveRoomTitle r title = update_room r (\<lambda>row. tm_status row = Live) (\<lambda>row. row\<lparr>rr_title := title\<rparr>)"

definition cancelScheduledSpaceByHost :: "string \<Rightarrow> string \<Rightarrow> main_store \<Rightarrow> bool \<times> main_store" where
  "cancelScheduledSpaceByHost r host = update_room r
     (\<lambda>row. rr_hostUserId row = host \<and> tm_roomType row = Space \<and> tm_status row = Scheduled)
     (\<lambda>row. row\<lparr>tm_status := Cancelled\<rparr>)"

text \<open>A room made for a call between two users who are online now, with the users who are in it at first.\<close>

definition direct_row :: "int \<Rightarrow> string \<Rightarrow> string \<Rightarrow> string \<Rightarrow> session_kind \<Rightarrow> room_row" where
  "direct_row now r host title kind = \<lparr>tm_status = Live, tm_roomType = Direct, tm_startedAt = Some now,
     tm_scheduledStartAt = None, tm_scheduledEndAt = None, tm_advancedOptions = Some (mergeRoomAdvancedOptions None),
     rr_hostUserId = host, rr_sessionKind = kind, rr_endedAt = None, rr_expiresAt = None, rr_isExpired = False,
     rr_maxParticipants = 2, rr_visibility = Private, rr_title = title, rr_rtcRoomId = Some r\<rparr>"

definition createMatchPairRoom :: "int \<Rightarrow> string \<Rightarrow> string \<Rightarrow> string \<Rightarrow> main_store \<Rightarrow> main_store" where
  "createMatchPairRoom now r host peer s =
     put_parts r [\<lparr>pt_userId = host, pt_role = HostRole, pt_joinedAt = now, pt_leftAt = None\<rparr>,
                  \<lparr>pt_userId = peer, pt_role = ParticipantRole, pt_joinedAt = now, pt_leftAt = None\<rparr>]
       (put_room r (direct_row now r host ''Match'' MatchKind) s)"

definition createConnectionCallRoom :: "int \<Rightarrow> string \<Rightarrow> string \<Rightarrow> string \<Rightarrow> main_store \<Rightarrow> main_store" where
  "createConnectionCallRoom now r host title s =
     put_parts r [\<lparr>pt_userId = host, pt_role = HostRole, pt_joinedAt = now, pt_leftAt = None\<rparr>]
       (put_room r (direct_row now r host title ConnectionCallKind) s)"

subsection \<open>Invites and restrictions\<close>

definition standing :: "friend_invite \<Rightarrow> bool" where
  "standing i \<longleftrightarrow> fi_status i = PendingInvite \<or> fi_status i = AcceptedInvite"

definition findFriendInvite :: "string \<Rightarrow> string \<Rightarrow> main_store \<Rightarrow> friend_invite option" where
  "findFriendInvite r u s = find (\<lambda>i. fi_roomId i = r \<and> fi_inviteeUserId i = u \<and> standing i) (db_invites s)"

definition findFriendInviteByRoomAndInvitee :: "string \<Rightarrow> string \<Rightarrow> main_store \<Rightarrow> friend_invite option" where
  "findFriendInviteByRoomAndInvitee r u s = find (\<lambda>i. fi_roomId i = r \<and> fi_inviteeUserId i = u) (db_invites s)"

definition findFriendInviteById :: "string \<Rightarrow> main_store \<Rightarrow> friend_invite option" where
  "findFriendInviteById i s = find (\<lambda>x. fi_id x = i) (db_invites s)"

definition upsertPendingFriendInvite :: "string \<Rightarrow> string \<Rightarrow> string \<Rightarrow> string \<Rightarrow> main_store \<Rightarrow> string \<times> main_store" where
  "upsertPendingFriendInvite newId r inviter invitee s = (case findFriendInviteByRoomAndInvitee r invitee s of
      None \<Rightarrow> (newId, s\<lparr>db_invites := db_invites s @ [\<lparr>fi_id = newId, fi_roomId = r, fi_inviterUserId = inviter,
                  fi_inviteeUserId = invitee, fi_status = PendingInvite\<rparr>]\<rparr>)
    | Some i \<Rightarrow> (fi_id i, s\<lparr>db_invites := map (\<lambda>x. if fi_roomId x = r \<and> fi_inviteeUserId x = invitee
                  then x\<lparr>fi_inviterUserId := inviter, fi_status := PendingInvite\<rparr> else x) (db_invites s)\<rparr>))"

definition set_invite_status :: "string \<Rightarrow> invite_status \<Rightarrow> main_store \<Rightarrow> main_store" where
  "set_invite_status i st s = s\<lparr>db_invites := map (\<lambda>x. if fi_id x = i then x\<lparr>fi_status := st\<rparr> else x) (db_invites s)\<rparr>"

definition cancelFriendInviteForRoomInvitee :: "string \<Rightarrow> string \<Rightarrow> main_store \<Rightarrow> main_store" where
  "cancelFriendInviteForRoomInvitee r u s = s\<lparr>db_invites := map (\<lambda>x. if fi_roomId x = r \<and> fi_inviteeUserId x = u \<and>
     standing x then x\<lparr>fi_status := CancelledInvite\<rparr> else x) (db_invites s)\<rparr>"

definition isRoomRestrictedUser :: "string \<Rightarrow> string \<Rightarrow> main_store \<Rightarrow> bool" where
  "isRoomRestrictedUser r u s \<longleftrightarrow> (r, u) \<in> set (db_restricted s)"

definition addRoomRestrictedUser :: "string \<Rightarrow> string \<Rightarrow> main_store \<Rightarrow> main_store" where
  "addRoomRestrictedUser r u s = s\<lparr>db_restricted := List.insert (r, u) (db_restricted s)\<rparr>"

definition EXPANDED_MAX :: nat where "EXPANDED_MAX = 8"

text \<open>The rooms' part of the transaction; the conversation it adds the invitee to is a part of its own in \<open>ServerChat\<close>.\<close>

definition runExpandDirectAcceptTransaction :: "int \<Rightarrow> string \<Rightarrow> string \<Rightarrow> string \<Rightarrow> nat \<Rightarrow> main_store \<Rightarrow> bool \<times> main_store" where
  "runExpandDirectAcceptTransaction now r inviteId invitee currentMax s =
     (let (updated, s1) = update_room r (\<lambda>row. tm_roomType row = Direct)
            (\<lambda>row. row\<lparr>tm_roomType := Space, rr_sessionKind := SpaceKind, rr_maxParticipants := max currentMax EXPANDED_MAX\<rparr>) s
      in if \<not> updated then (False, s)
         else (True, put_parts r
            (upsert_part \<lparr>pt_userId = invitee, pt_role = ParticipantRole, pt_joinedAt = now, pt_leftAt = None\<rparr>
               (\<lambda>p. p\<lparr>pt_leftAt := None, pt_joinedAt := now, pt_role := ParticipantRole\<rparr>) (db_parts s1 r))
            (set_invite_status inviteId AcceptedInvite s1)))"

end
