(* ===== verification/RoomRedis.thy ===== *)
theory RoomRedis
  imports RoomStore
begin

text \<open>
  The main API's Redis keys of rooms (\<open>rooms/services/rtc/session-room-redis.service.ts\<close>,
  \<open>user-active-rtc-room-redis.service.ts\<close>) and the history of connection calls
  (\<open>connections/services/connection-call-history.service.ts\<close>). A hash without fields does not exist.
\<close>

subsection \<open>The session's hash\<close>

definition set_session :: "string \<Rightarrow> (string \<times> string) list \<Rightarrow> main_store \<Rightarrow> main_store" where
  "set_session r fvs s = s\<lparr>rd_session := (rd_session s)(r := hset_all fvs (rd_session s r))\<rparr>"

fun room_type_text :: "room_session_type \<Rightarrow> string" where
  "room_type_text Direct = ''direct''"
| "room_type_text Space = ''space''"

definition provisionSessionRoomRedis :: "int \<Rightarrow> string \<Rightarrow> string \<Rightarrow> room_session_type \<Rightarrow> string \<Rightarrow> bool \<Rightarrow> main_store \<Rightarrow> main_store" where
  "provisionSessionRoomRedis now r host roomType title lobbyGateActive = set_session r
     [(''sessionKind'', ''space''), (''roomId'', r), (''hostUserId'', host), (''roomType'', room_type_text roomType),
      (''title'', title), (''createdAt'', int_str now), (''lobbyGateActive'', if lobbyGateActive then ''1'' else ''0'')]"

definition provisionConnectionCallSessionRoomRedis :: "int \<Rightarrow> string \<Rightarrow> string \<Rightarrow> string \<Rightarrow> string \<Rightarrow> main_store \<Rightarrow> main_store" where
  "provisionConnectionCallSessionRoomRedis now r host title conversationId = set_session r
     [(''sessionKind'', ''connection_call''), (''roomId'', r), (''hostUserId'', host), (''roomType'', ''direct''),
      (''title'', title), (''conversationId'', conversationId), (''createdAt'', int_str now), (''lobbyGateActive'', ''0'')]"

definition patch_session :: "string \<Rightarrow> (string \<times> string) list \<Rightarrow> main_store \<Rightarrow> main_store" where
  "patch_session r fvs s = (if rd_session s r = [] then s else set_session r fvs s)"

definition patchSessionRoomRedisRoomType :: "string \<Rightarrow> room_session_type \<Rightarrow> main_store \<Rightarrow> main_store" where
  "patchSessionRoomRedisRoomType r roomType = patch_session r [(''roomType'', room_type_text roomType)]"

definition patchSessionRoomRedisSpaceExpand :: "string \<Rightarrow> main_store \<Rightarrow> main_store" where
  "patchSessionRoomRedisSpaceExpand r = patch_session r [(''roomType'', ''space''), (''sessionKind'', ''space'')]"

definition patchSessionRoomRedisTitle :: "string \<Rightarrow> string \<Rightarrow> main_store \<Rightarrow> main_store" where
  "patchSessionRoomRedisTitle r title = patch_session r [(''title'', title)]"

definition clearSpaceLobbyGateInRedis :: "string \<Rightarrow> main_store \<Rightarrow> bool \<times> main_store" where
  "clearSpaceLobbyGateInRedis r s = (rd_session s r \<noteq> [], patch_session r [(''lobbyGateActive'', ''0'')] s)"

definition deleteSessionRoomRedis :: "string \<Rightarrow> main_store \<Rightarrow> main_store" where
  "deleteSessionRoomRedis r s = s\<lparr>rd_session := (rd_session s)(r := [])\<rparr>"

definition deleteSessionRoomRedisMany :: "string list \<Rightarrow> main_store \<Rightarrow> main_store" where
  "deleteSessionRoomRedisMany rs s = s\<lparr>rd_session := (\<lambda>r. if r \<in> set rs then [] else rd_session s r)\<rparr>"

subsection \<open>The user's token\<close>

definition setUserActiveRtcRoom :: "string \<Rightarrow> string \<Rightarrow> main_store \<Rightarrow> main_store" where
  "setUserActiveRtcRoom u r s = say [PauseOpenToConnect u] (s\<lparr>rd_active := (rd_active s)(u \<mapsto> r)\<rparr>)"

definition getUserActiveRtcRoomId :: "string \<Rightarrow> main_store \<Rightarrow> string option" where
  "getUserActiveRtcRoomId u s = (case rd_active s u of None \<Rightarrow> None | Some r \<Rightarrow> if r = [] then None else Some r)"

definition clearUserActiveRtcRoom :: "string \<Rightarrow> main_store \<Rightarrow> main_store" where
  "clearUserActiveRtcRoom u s = say [RestoreOpenToConnect u] (s\<lparr>rd_active := (rd_active s)(u := None)\<rparr>)"

text \<open>The cache of a user's calls, read by other users: who is connected is the rtc service's key, an argument.\<close>

definition getUsersActiveRtcRooms ::
  "(string \<Rightarrow> string list) \<Rightarrow> string list \<Rightarrow> main_store \<Rightarrow> (string \<Rightarrow> string option) \<times> main_store" where
  "getUsersActiveRtcRooms rtcPeers users s =
     (let token = (\<lambda>u. if u \<in> set users then getUserActiveRtcRoomId u s else None);
          verified = (\<lambda>u. case token u of None \<Rightarrow> None | Some r \<Rightarrow> if u \<in> set (rtcPeers r) then Some r else None);
          stale = (\<lambda>u. case token u of None \<Rightarrow> False | Some r \<Rightarrow> u \<notin> set (rtcPeers r) \<and> rtcPeers r = [])
      in (verified, s\<lparr>rd_active := (\<lambda>u. if stale u then None else rd_active s u)\<rparr>))"

subsection \<open>The history of connection calls\<close>

definition recordConnectionCallHistory :: "string \<Rightarrow> string \<Rightarrow> bool \<Rightarrow> call_status \<Rightarrow> int option \<Rightarrow> main_store \<Rightarrow> main_store" where
  "recordConnectionCallHistory conversationId caller video status durationSec =
     say [CallHistory conversationId caller video status durationSec]"

definition setActiveConnectionCall :: "string \<Rightarrow> call_meta \<Rightarrow> main_store \<Rightarrow> main_store" where
  "setActiveConnectionCall r meta s = s\<lparr>cc_activeByRoom := (cc_activeByRoom s)(r \<mapsto> meta)\<rparr>"

definition clearActiveConnectionCall :: "string \<Rightarrow> main_store \<Rightarrow> main_store" where
  "clearActiveConnectionCall r s = s\<lparr>cc_activeByRoom := (cc_activeByRoom s)(r := None)\<rparr>"

text \<open>Whether publishing the message fails is an argument; the flag stays set when it does.\<close>

definition finalizeConnectionCallHistory :: "int \<Rightarrow> bool \<Rightarrow> string \<Rightarrow> main_store \<Rightarrow> main_store" where
  "finalizeConnectionCallHistory now publishFails r s = (case cc_activeByRoom s r of
      None \<Rightarrow> s
    | Some meta \<Rightarrow>
        if cc_historyLogged s r then s
        else
         (let s1 = s\<lparr>cc_historyLogged := (cc_historyLogged s)(r := True)\<rparr>;
              durationSec = max 0 ((now - cl_acceptedAt meta) div 1000)
          in if publishFails then s1
             else clearActiveConnectionCall r (recordConnectionCallHistory (cl_conversationId meta) (cl_callerUserId meta)
               (cl_video meta) Completed (if durationSec > 0 then Some durationSec else None) s1)))"

end
