(* ===== verification/RoomSessions.thy ===== *)
theory RoomSessions
  imports RoomRedis
begin

text \<open>
  The life of a room's session: ending it, the check on every access, the background sweep, starting a
  scheduled room, the cap of a guest's call (\<open>rooms/services/session\<close>, \<open>rooms/services/direct/finalize-*.ts\<close>).
  A service is a function from the store to an error or an answer, and the new store. The request's clock
  and whether a user is a guest are arguments.
\<close>

record room_env =
  re_now :: int
  re_isGuest :: "string \<Rightarrow> bool"

subsection \<open>Ending\<close>

record end_options =
  eo_preserveScheduledSlot :: "bool option"
  eo_notifyParticipants :: "bool option"
  eo_excludeUserIdFromNotify :: "string option"

record end_result =
  es_ended :: bool
  es_alreadyClosed :: bool

definition shouldPreserveScheduledSlot :: "room_row \<Rightarrow> end_reason \<Rightarrow> end_options \<Rightarrow> bool" where
  "shouldPreserveScheduledSlot room reason options = (case eo_preserveScheduledSlot options of
      Some p \<Rightarrow> p
    | None \<Rightarrow>
        if tm_roomType room \<noteq> Space \<or> tm_scheduledStartAt room = None then False
        else reason \<noteq> Delete_space_after_call \<and> reason \<noteq> Match_finalized)"

definition notifySpaceParticipantsToLeave :: "string \<Rightarrow> string \<Rightarrow> string option \<Rightarrow> main_store \<Rightarrow> main_store" where
  "notifySpaceParticipantsToLeave r host excludeUserId s =
     say (map (\<lambda>u. HostEnded u r) (filter (\<lambda>u. \<not> (u = host \<or> Some u = excludeUserId)) (listAllParticipantUserIds r s))) s"

definition clear_all_active :: "string list \<Rightarrow> main_store \<Rightarrow> main_store" where
  "clear_all_active us s = fold clearUserActiveRtcRoom us s"

definition endLiveRoomSession :: "room_env \<Rightarrow> string \<Rightarrow> end_reason \<Rightarrow> end_options \<Rightarrow> main_store \<Rightarrow> end_result \<times> main_store" where
  "endLiveRoomSession env r reason options s = (case findRoomById r s of
      None \<Rightarrow> (\<lparr>es_ended = False, es_alreadyClosed = True\<rparr>, s)
    | Some room \<Rightarrow>
       (let participantUserIds = listAllParticipantUserIds r s in
        if row_closed (re_now env) room \<or> tm_status room \<noteq> Live then
          (\<lparr>es_ended = False, es_alreadyClosed = True\<rparr>, clear_all_active participantUserIds (deleteSessionRoomRedis r s))
        else
         (let (transitioned, s1) =
                endLiveRoomSessionTx (re_now env) r room (shouldPreserveScheduledSlot room reason options) s;
              s2 = clear_all_active participantUserIds (deleteSessionRoomRedis r s1);
              shouldNotify = (case eo_notifyParticipants options of
                  Some n \<Rightarrow> n
                | None \<Rightarrow> tm_roomType room = Space \<and> reason \<noteq> Match_finalized);
              s3 = (if \<not> transitioned then s2
                    else if shouldNotify \<and> tm_roomType room = Space
                    then notifySpaceParticipantsToLeave r (rr_hostUserId room) (eo_excludeUserIdFromNotify options)
                           (say [SfuTeardown r] s2)
                    else say [SfuTeardown r] s2)
          in (\<lparr>es_ended = transitioned, es_alreadyClosed = \<not> transitioned\<rparr>, s3))))"

definition direct_end_options :: end_options where
  "direct_end_options = \<lparr>eo_preserveScheduledSlot = Some False, eo_notifyParticipants = Some False, eo_excludeUserIdFromNotify = None\<rparr>"

definition finalizeDirectMatchRoomSession :: "room_env \<Rightarrow> string \<Rightarrow> main_store \<Rightarrow> main_store" where
  "finalizeDirectMatchRoomSession env r s = snd (endLiveRoomSession env r Match_finalized direct_end_options s)"

definition finalizeConnectionCallRoomSession :: "room_env \<Rightarrow> bool \<Rightarrow> string \<Rightarrow> main_store \<Rightarrow> main_store" where
  "finalizeConnectionCallRoomSession env publishFails r s =
     snd (endLiveRoomSession env r Connection_call_ended direct_end_options
       (finalizeConnectionCallHistory (re_now env) publishFails r s))"

subsection \<open>The check on access\<close>

record reconcile_result =
  rc_closed :: bool
  rc_alreadyWasClosed :: bool
  rc_reason :: "end_reason option"

definition reconcileRoomSessionOnAccess :: "room_env \<Rightarrow> string \<Rightarrow> main_store \<Rightarrow> reconcile_result \<times> main_store" where
  "reconcileRoomSessionOnAccess env r s = (case findRoomById r s of
      None \<Rightarrow> (\<lparr>rc_closed = False, rc_alreadyWasClosed = True, rc_reason = None\<rparr>, s)
    | Some room \<Rightarrow>
        if tm_status room = Ended \<or> tm_status room = Cancelled then
          (\<lparr>rc_closed = True, rc_alreadyWasClosed = True, rc_reason = None\<rparr>, deleteSessionRoomRedis r s)
        else (case evaluateRoomSessionEndReason room (rr_isExpired room) (rr_expiresAt room)
                     (loadParticipantPresence r s) (re_now env) of
          None \<Rightarrow>
            if row_closed (re_now env) room \<and> tm_status room \<noteq> Live then
              (\<lparr>rc_closed = True, rc_alreadyWasClosed = True, rc_reason = Some Expires_at_past\<rparr>, deleteSessionRoomRedis r s)
            else (\<lparr>rc_closed = False, rc_alreadyWasClosed = False, rc_reason = None\<rparr>, s)
        | Some endReason \<Rightarrow>
            if endReason = Join_grace_missed then
              (let (expired, s1) = expireScheduledJoinGraceMissed (re_now env) r s
               in (\<lparr>rc_closed = expired, rc_alreadyWasClosed = \<not> expired, rc_reason = if expired then Some endReason else None\<rparr>,
                   if expired then deleteSessionRoomRedis r s1 else s1))
            else
              (let (res, s1) = endLiveRoomSession env r endReason
                     \<lparr>eo_preserveScheduledSlot = None, eo_notifyParticipants = Some (tm_roomType room = Space),
                      eo_excludeUserIdFromNotify = None\<rparr> s;
                   closed = es_ended res \<or> es_alreadyClosed res
               in (\<lparr>rc_closed = closed, rc_alreadyWasClosed = es_alreadyClosed res \<and> \<not> es_ended res,
                    rc_reason = if closed then Some endReason else None\<rparr>, s1))))"

definition assertRoomSessionOpenOnAccess ::
  "room_env \<Rightarrow> string \<Rightarrow> main_store \<Rightarrow> (string \<times> end_reason option) option \<times> main_store" where
  "assertRoomSessionOpenOnAccess env r s =
     (let (result, s1) = reconcileRoomSessionOnAccess env r s
      in (if \<not> rc_closed result then None else Some (roomSessionClosedMessage (rc_reason result), rc_reason result), s1))"

subsection \<open>The sweep\<close>

text \<open>
  The candidates are a selection of at most \<open>maxRooms\<close> of the rows that satisfy the condition, in an order
  the database does not promise: it is an argument.
\<close>

definition is_candidate :: "room_env \<Rightarrow> main_store \<Rightarrow> string \<Rightarrow> bool" where
  "is_candidate env s r = (case db_rooms s r of
      None \<Rightarrow> False
    | Some row \<Rightarrow> roomSessionSweepCandidatesWhere row (rr_isExpired row) (rr_expiresAt row) (loadParticipantPresence r s) (re_now env))"

definition listRoomIdsDueForSessionSweep :: "room_env \<Rightarrow> string list \<Rightarrow> nat \<Rightarrow> main_store \<Rightarrow> string list" where
  "listRoomIdsDueForSessionSweep env rows limit s = take limit (filter (is_candidate env s) rows)"

fun sweep_rooms :: "room_env \<Rightarrow> string list \<Rightarrow> main_store \<Rightarrow> string list \<times> main_store" where
  "sweep_rooms env [] s = ([], s)"
| "sweep_rooms env (r # rs) s =
     (let (result, s1) = reconcileRoomSessionOnAccess env r s; (ended, s2) = sweep_rooms env rs s1
      in (if rc_closed result \<and> \<not> rc_alreadyWasClosed result then r # ended else ended, s2))"

definition sweepDueRoomSessions :: "room_env \<Rightarrow> string list \<Rightarrow> nat option \<Rightarrow> main_store \<Rightarrow> (nat \<times> string list) \<times> main_store" where
  "sweepDueRoomSessions env rows maxRooms s =
     (let candidateIds = listRoomIdsDueForSessionSweep env rows (case maxRooms of Some n \<Rightarrow> n | None \<Rightarrow> 100) s;
          (endedIds, s1) = sweep_rooms env candidateIds s
      in ((length candidateIds, endedIds), s1))"

definition syncSpaceRoomExpiryFromClockIfDue :: "room_env \<Rightarrow> string \<Rightarrow> main_store \<Rightarrow> main_store" where
  "syncSpaceRoomExpiryFromClockIfDue env r s =
     (let (did, s1) = syncSpaceRoomExpiryIfPastDue (re_now env) r s
      in if did then deleteSessionRoomRedis r s1 else s1)"

subsection \<open>Starting\<close>

definition emitSpaceOpenedForJoin :: "string \<Rightarrow> string option \<Rightarrow> main_store \<Rightarrow> main_store" where
  "emitSpaceOpenedForJoin r excludeUserId s =
     say (map (\<lambda>u. OpenedForJoin u r)
       (filter (\<lambda>u. \<not> ((case excludeUserId of None \<Rightarrow> False | Some e \<Rightarrow> e \<noteq> []) \<and> Some u = excludeUserId))
         (listActiveParticipantUserIds r s))) s"

definition runLiveSpaceAfterMarkLive ::
  "room_env \<Rightarrow> string \<Rightarrow> string \<Rightarrow> room_session_type \<Rightarrow> string \<Rightarrow> bool \<Rightarrow> bool \<Rightarrow> main_store \<Rightarrow> main_store" where
  "runLiveSpaceAfterMarkLive env r host roomType title notifyInvitees lobbyGateActive s =
     (let s1 = provisionSessionRoomRedis (re_now env) r host roomType title lobbyGateActive s;
          s2 = (if lobbyGateActive then s1 else emitSpaceOpenedForJoin r (Some host) s1)
      in if notifyInvitees then say [SpaceStarted r host] s2 else s2)"

definition maybeAutoStartScheduledSpaceFromDb :: "room_env \<Rightarrow> string \<Rightarrow> main_store \<Rightarrow> main_store" where
  "maybeAutoStartScheduledSpaceFromDb env r s = (case findRoomById r s of
      None \<Rightarrow> s
    | Some room \<Rightarrow>
       (let opts = mergeRoomAdvancedOptions (tm_advancedOptions room) in
        if tm_roomType room \<noteq> Space then s
        else if tm_status room \<noteq> Scheduled then s
        else if row_closed (re_now env) room then s
        else if ao_shouldHostStartMeeting opts = Some True then s
        else if ao_shouldMeetingAutoStart opts \<noteq> Some True then s
        else (case tm_scheduledStartAt room of
          None \<Rightarrow> s
        | Some start \<Rightarrow>
            if re_now env < start then s
            else (let (marked, s1) = markRoomLive r (re_now env) s in
              if \<not> marked then s1
              else runLiveSpaceAfterMarkLive env r (rr_hostUserId room) (tm_roomType room) (rr_title room) True False s1))))"

definition startRoomSessionService :: "room_env \<Rightarrow> string \<Rightarrow> string \<Rightarrow> (main_store, room_row) service" where
  "startRoomSessionService env host r s =
     (let (access, s1) = assertRoomSessionOpenOnAccess env r s in
      case access of
        Some (message, _) \<Rightarrow> (fail message ''INVALID_STATE'' 400, s1)
      | None \<Rightarrow> (case findRoomById r s1 of
          None \<Rightarrow> (fail ''Room not found'' ''ROOM_NOT_FOUND'' 404, s1)
        | Some existing \<Rightarrow>
            if rr_hostUserId existing \<noteq> host then (fail ''Only the host can start this room'' ''NOT_HOST'' 403, s1)
            else if tm_status existing \<noteq> Scheduled
            then (fail ''Room is not scheduled or already started'' ''INVALID_STATE'' 400, s1)
            else
             (let (marked, s2) = markRoomLive r (re_now env) s1;
                  adv = mergeRoomAdvancedOptions (tm_advancedOptions existing)
              in case (marked, findRoomById r s2) of
                   (True, Some row) \<Rightarrow>
                     (Inr row, runLiveSpaceAfterMarkLive env r host (tm_roomType row) (rr_title existing) True
                        (ao_shouldHostStartMeeting adv \<noteq> Some False) s2)
                 | _ \<Rightarrow> (fail ''Room could not be started (already live or ended)'' ''INVALID_STATE'' 400, s2))))"

subsection \<open>A guest's call\<close>

definition syncGuestMatchRoomSessionCap :: "room_env \<Rightarrow> string \<Rightarrow> main_store \<Rightarrow> main_store" where
  "syncGuestMatchRoomSessionCap env r s = (case findRoomById r s of
      None \<Rightarrow> s
    | Some room \<Rightarrow> (case tm_startedAt room of
        None \<Rightarrow> s
      | Some startedAt \<Rightarrow>
          if tm_roomType room \<noteq> Direct \<or> rr_sessionKind room \<noteq> MatchKind \<or> tm_status room \<noteq> Live then s
          else if \<not> list_ex (re_isGuest env) (listParticipantUserIds r s) then s
          else applyExpiresAtCapIfSooner r (computeGuestMatchRoomSessionExpiresAt startedAt) s))"

text \<open>The match engine asks for the room of a matched pair.\<close>

definition handleCreateRoom :: "room_env \<Rightarrow> string \<Rightarrow> string \<Rightarrow> string \<Rightarrow> string \<Rightarrow> string \<Rightarrow> main_store \<Rightarrow> main_store" where
  "handleCreateRoom env r attemptId pairId userA userB s =
     set_session r [(''sessionKind'', ''match''), (''roomId'', r), (''attemptId'', attemptId), (''pairId'', pairId),
                    (''userA'', userA), (''userB'', userB), (''createdAt'', int_str (re_now env))]
       (syncGuestMatchRoomSessionCap env r (createMatchPairRoom (re_now env) r userA userB s))"

end
