(* ===== verification/RoomAccess.thy ===== *)
theory RoomAccess
  imports RoomSessions
begin

text \<open>
  Getting into a room (\<open>rooms/services/access\<close>): joining, the token for the rtc service, opening the
  lobby. Joining and issuing a token each run as one atomic step.
\<close>

subsection \<open>Joining\<close>

definition isGuestAllowedRoomAccess :: "room_row \<Rightarrow> bool" where
  "isGuestAllowedRoomAccess room \<longleftrightarrow> tm_roomType room = Direct \<and> rr_sessionKind room = MatchKind"

definition assertGuestMayAccessRoom :: "room_env \<Rightarrow> string \<Rightarrow> room_row \<Rightarrow> api_error option" where
  "assertGuestMayAccessRoom env u room =
     (if \<not> re_isGuest env u then None
      else if isGuestAllowedRoomAccess room then None
      else Some \<lparr>er_message = ''Sign up or log in to join spaces and connection calls.'', er_code = ''GUEST_NOT_ALLOWED'',
                 er_status = 403\<rparr>)"

definition readMatchPairFromRedis :: "string \<Rightarrow> main_store \<Rightarrow> (string \<times> string) option" where
  "readMatchPairFromRedis r s =
     (let raw = rd_session s r in
      if \<not> truthy (hfield raw ''roomId'') \<or> hfield raw ''sessionKind'' \<noteq> Some ''match'' then None
      else if \<not> truthy (hfield raw ''userA'') \<or> \<not> truthy (hfield raw ''userB'') then None
      else Some (the (hfield raw ''userA''), the (hfield raw ''userB'')))"

definition not_allowed :: "api_error + 'a" where
  "not_allowed = fail ''You are not allowed to join this room'' ''NOT_ALLOWED'' 403"

definition ensureDirectRoomParticipation :: "room_env \<Rightarrow> string \<Rightarrow> string \<Rightarrow> room_row \<Rightarrow> (main_store, unit) service" where
  "ensureDirectRoomParticipation env u r room s =
     (let host = addOrReactivateHostRow (re_now env) r u s; part = addOrReactivateParticipantRow (re_now env) r u s in
      if rr_hostUserId room = u then (Inr (), host)
      else (case findRoomParticipant r u s of
        Some row \<Rightarrow> (Inr (), if pt_leftAt row = None then s else if pt_role row = HostRole then host else part)
      | None \<Rightarrow>
         (case readMatchPairFromRedis r s of
            Some (userA, userB) \<Rightarrow>
              if userA = u then (Inr (), host)
              else if userB = u then (Inr (), part)
              else if rr_visibility room = Private \<and> findFriendInvite r u s \<noteq> None then (Inr (), part) else (not_allowed, s)
          | None \<Rightarrow>
              if rr_visibility room = Private \<and> findFriendInvite r u s \<noteq> None then (Inr (), part) else (not_allowed, s))))"

definition ensureSpaceRoomParticipation :: "room_env \<Rightarrow> string \<Rightarrow> string \<Rightarrow> room_row \<Rightarrow> (main_store, unit) service" where
  "ensureSpaceRoomParticipation env u r room s =
     (let part = addOrReactivateParticipantRow (re_now env) r u s in
      if rr_hostUserId room = u then (Inr (), addOrReactivateHostRow (re_now env) r u s)
      else if isRoomRestrictedUser r u s then (fail ''You are not allowed to rejoin this space'' ''RESTRICTED'' 403, s)
      else if wasUserRoomParticipant r u s then (Inr (), part)
      else if countActiveParticipants r s \<ge> rr_maxParticipants room
      then (fail (''This space is full ('' @ int_str (int (rr_maxParticipants room)) @ '' seats including the host).'') ''ROOM_FULL'' 400, s)
      else if rr_visibility room = Public then (Inr (), part)
      else if findFriendInvite r u s = None then (not_allowed, s)
      else (Inr (), part))"

record join_result =
  jn_rtcEligible :: bool
  jn_room :: room_row

definition join_lobby :: "room_env \<Rightarrow> string \<Rightarrow> string \<Rightarrow> room_row \<Rightarrow> (main_store, join_result) service" where
  "join_lobby env u r room s =
     (if u \<noteq> rr_hostUserId room \<and> isRoomRestrictedUser r u s
      then (fail ''You are not allowed to rejoin this space'' ''RESTRICTED'' 403, s)
      else if isUserRoomParticipant r u s then (Inr \<lparr>jn_rtcEligible = False, jn_room = room\<rparr>, s)
      else (case ensureSpaceRoomParticipation env u r room s of
        (Inl e, s1) \<Rightarrow> (Inl e, s1)
      | (Inr _, s1) \<Rightarrow> (Inr \<lparr>jn_rtcEligible = False, jn_room = room\<rparr>, s1)))"

definition join_live :: "room_env \<Rightarrow> string \<Rightarrow> string \<Rightarrow> room_row \<Rightarrow> (main_store, join_result) service" where
  "join_live env u r room s =
     (if tm_status room \<noteq> Live then (fail ''Room is not live yet'' ''ROOM_NOT_LIVE'' 400, s)
      else if isUserRoomParticipant r u s then (Inr \<lparr>jn_rtcEligible = True, jn_room = room\<rparr>, s)
      else if tm_roomType room = Direct then
        (case ensureDirectRoomParticipation env u r room s of
           (Inl e, s1) \<Rightarrow> (Inl e, s1)
         | (Inr _, s1) \<Rightarrow> (Inr \<lparr>jn_rtcEligible = True, jn_room = room\<rparr>, s1))
      else
        (case ensureSpaceRoomParticipation env u r room s of
           (Inl e, s1) \<Rightarrow> (Inl e, s1)
         | (Inr _, s1) \<Rightarrow> (Inr \<lparr>jn_rtcEligible = True, jn_room = room\<rparr>,
             refreshLiveSpaceExpiryAfterParticipantJoin (re_now env) r s1)))"

text \<open>A scheduled space is promoted first if its time has come.\<close>

definition auto_started :: "room_env \<Rightarrow> string \<Rightarrow> room_row \<Rightarrow> main_store \<Rightarrow> main_store" where
  "auto_started env r room s =
     (if tm_roomType room = Space \<and> tm_status room = Scheduled then maybeAutoStartScheduledSpaceFromDb env r s else s)"

definition joinRoomService :: "room_env \<Rightarrow> string \<Rightarrow> string \<Rightarrow> (main_store, join_result) service" where
  "joinRoomService env u r s = (case findRoomById r s of
      None \<Rightarrow> (fail ''Room not found'' ''ROOM_NOT_FOUND'' 404, s)
    | Some room0 \<Rightarrow> (case assertGuestMayAccessRoom env u room0 of
        Some e \<Rightarrow> (Inl e, s)
      | None \<Rightarrow>
         (let s1 = auto_started env r room0 s in
          case findRoomById r s1 of
            None \<Rightarrow> (fail ''Room not found'' ''ROOM_NOT_FOUND'' 404, s1)
          | Some room1 \<Rightarrow>
             (let (access, s2) = assertRoomSessionOpenOnAccess env r s1 in
              case access of
                Some (message, _) \<Rightarrow> (fail message ''ROOM_EXPIRED'' 410, s2)
              | None \<Rightarrow>
                 (let room = (case findRoomById r s2 of Some x \<Rightarrow> x | None \<Rightarrow> room1) in
                  if tm_roomType room = Space \<and> tm_status room \<noteq> Live then join_lobby env u r room s2
                  else join_live env u r room s2)))))"

subsection \<open>The token\<close>

record rtc_token =
  tk_userId :: string
  tk_roomId :: string
  tk_roomType :: room_session_type

text \<open>
  The conversation of the room and the guest's trial, which the last step also updates, are not part of
  this store. Signing is the token's content.
\<close>

definition finalizeRtcTokenIssue :: "room_env \<Rightarrow> string \<Rightarrow> string \<Rightarrow> room_row \<Rightarrow> (main_store, rtc_token) service" where
  "finalizeRtcTokenIssue env u r room s =
     (Inr \<lparr>tk_userId = u, tk_roomId = r, tk_roomType = tm_roomType room\<rparr>,
      setUserActiveRtcRoom u r (syncGuestMatchRoomSessionCap env r s))"

text \<open>The second half, from the room row on; \<open>afterJoin\<close> leaves out what joining has checked.\<close>

definition issue_for_row :: "room_env \<Rightarrow> string \<Rightarrow> string \<Rightarrow> bool \<Rightarrow> room_row \<Rightarrow> (main_store, rtc_token) service" where
  "issue_for_row env u r afterJoin room s =
     (let isHost = (rr_hostUserId room = u); adv = mergeRoomAdvancedOptions (tm_advancedOptions room) in
      if isScheduledSpaceBeforeStartTime room (re_now env)
      then (fail ''This space has not opened yet. Try again after the scheduled start time.'' ''LOBBY_NOT_READY'' 400, s)
      else if tm_status room \<noteq> Live then (fail ''Room is not live yet'' ''ROOM_NOT_LIVE'' 400, s)
      else
       (let s1 = restartLiveSessionClockIfNoActiveParticipants (re_now env) r s in
        if tm_roomType room = Space \<and> \<not> isHost \<and> isRoomRestrictedUser r u s1
        then (fail ''You are not allowed to rejoin this space'' ''RESTRICTED'' 403, s1)
        else if \<not> afterJoin \<and> \<not> (isHost \<or> findRoomParticipant r u s1 \<noteq> None) then (not_allowed, s1)
        else if tm_roomType room = Space \<and> ao_shouldHostStartMeeting adv = Some True \<and> \<not> isHost \<and>
                hfield (rd_session s1 r) ''lobbyGateActive'' = Some ''1''
        then (fail ''The host has not opened the space yet.'' ''LOBBY_WAITING_FOR_HOST'' 403, s1)
        else finalizeRtcTokenIssue env u r room s1))"

definition issueRtcTokenService :: "room_env \<Rightarrow> string \<Rightarrow> string \<Rightarrow> (main_store, rtc_token) service" where
  "issueRtcTokenService env u r s = (case findRoomById r s of
      None \<Rightarrow> (fail ''Room not found'' ''ROOM_NOT_FOUND'' 404, s)
    | Some room0 \<Rightarrow> (case assertGuestMayAccessRoom env u room0 of
        Some e \<Rightarrow> (Inl e, s)
      | None \<Rightarrow>
         (let s1 = auto_started env r room0 s;
              room1 = (case findRoomById r s1 of Some x \<Rightarrow> x | None \<Rightarrow> room0);
              (access, s2) = assertRoomSessionOpenOnAccess env r s1 in
          case access of
            Some (message, _) \<Rightarrow> (fail message ''ROOM_EXPIRED'' 410, s2)
          | None \<Rightarrow> issue_for_row env u r False (case findRoomById r s2 of Some x \<Rightarrow> x | None \<Rightarrow> room1) s2)))"

text \<open>The join route: the token is issued from the row that joining has seen.\<close>

definition handleJoinRoom :: "room_env \<Rightarrow> string \<Rightarrow> string \<Rightarrow> (main_store, rtc_token option) service" where
  "handleJoinRoom env u r s = (case joinRoomService env u r s of
      (Inl e, s1) \<Rightarrow> (Inl e, s1)
    | (Inr joined, s1) \<Rightarrow>
        if \<not> jn_rtcEligible joined then (Inr None, s1)
        else (case issue_for_row env u r True (jn_room joined) s1 of
          (Inl e, s2) \<Rightarrow> (Inl e, s2)
        | (Inr token, s2) \<Rightarrow> (Inr (Some token), s2)))"

subsection \<open>The lobby\<close>

definition openSpaceMeetingService :: "room_env \<Rightarrow> string \<Rightarrow> string \<Rightarrow> (main_store, unit) service" where
  "openSpaceMeetingService env u r s =
     (let (access, s1) = assertRoomSessionOpenOnAccess env r s in
      case access of
        Some (message, _) \<Rightarrow> (fail message ''INVALID_STATE'' 410, s1)
      | None \<Rightarrow> (case findRoomById r s1 of
          None \<Rightarrow> (fail ''Room not found'' ''ROOM_NOT_FOUND'' 404, s1)
        | Some room \<Rightarrow>
            if tm_roomType room \<noteq> Space then (fail ''Not a space room'' ''INVALID_STATE'' 400, s1)
            else if rr_hostUserId room \<noteq> u then (fail ''Only the host can open this space'' ''NOT_HOST'' 403, s1)
            else if tm_status room \<noteq> Live then
              (if isScheduledSpaceBeforeStartTime room (re_now env)
               then (fail ''This space has not opened yet. Try again after the scheduled start time.'' ''LOBBY_NOT_READY'' 400, s1)
               else (fail ''Room is not live yet'' ''INVALID_STATE'' 400, s1))
            else
             (let (ok, s2) = clearSpaceLobbyGateInRedis r s1 in
              if \<not> ok then (fail ''Room session is not ready yet. Try again in a moment.'' ''SESSION_NOT_READY'' 503, s2)
              else (Inr (), emitSpaceOpenedForJoin r (Some u) s2))))"

end
