(* ===== verification/RoomLeaving.thy ===== *)
theory RoomLeaving
  imports RoomAccess
begin

text \<open>
  Leaving a room, being removed from one and growing one (\<open>rooms/services/participation\<close>, \<open>rooms/services/moderation\<close>,
  \<open>rooms/services/direct/expand-direct-room.service.ts\<close>, \<open>rooms/services/space/update-live-room-title.service.ts\<close>).
\<close>

subsection \<open>Leaving\<close>

definition leaveSpaceRtcSessionForUser :: "room_env \<Rightarrow> string \<Rightarrow> string \<Rightarrow> bool \<Rightarrow> (main_store, bool) service" where
  "leaveSpaceRtcSessionForUser env u r httpStrict s =
     (let gone = clearUserActiveRtcRoom u in
      case findRoomById r s of
        None \<Rightarrow> (if httpStrict then fail ''Room not found'' ''ROOM_NOT_FOUND'' 404 else Inr False, s)
      | Some room \<Rightarrow>
          if tm_roomType room \<noteq> Space
          then (if httpStrict then fail ''Room not found'' ''ROOM_NOT_FOUND'' 404 else Inr False, s)
          else if row_closed (re_now env) room then (Inr False, gone (deleteSessionRoomRedis r s))
          else if tm_status room = Scheduled then
            (Inr False, gone (if isUserRoomParticipant r u s then markParticipantLeft (re_now env) r u s else s))
          else if tm_status room \<noteq> Live then
            (if httpStrict then (fail ''Room is not live'' ''ROOM_NOT_LIVE'' 400, s) else (Inr False, gone s))
          else if \<not> isUserRoomParticipant r u s then
            (if httpStrict \<and> \<not> wasUserRoomParticipant r u s
             then (fail ''You are not in this call'' ''NOT_ACTIVE_PARTICIPANT'' 403, gone s)
             else (Inr False, gone s))
          else
           (let adv = mergeRoomAdvancedOptions (tm_advancedOptions room);
                ((lastParticipantLeft, roomEnded), s1) =
                  leaveAndMaybeEndRoomTx r u (re_now env) (resolveDeleteSpaceAfterCall adv) s;
                s2 = gone s1;
                s3 = (if roomEnded then deleteSessionRoomRedis r s2 else s2)
            in (Inr roomEnded, if lastParticipantLeft then say [SfuTeardown r] s3 else s3)))"

definition leaveSpaceRtcSessionInternal :: "room_env \<Rightarrow> string \<Rightarrow> string \<Rightarrow> main_store \<Rightarrow> main_store" where
  "leaveSpaceRtcSessionInternal env u r s = snd (leaveSpaceRtcSessionForUser env u r False s)"

definition notifyConnectionCallPeerEnded :: "string \<Rightarrow> string \<Rightarrow> main_store \<Rightarrow> main_store" where
  "notifyConnectionCallPeerEnded r leaving s = (case findRoomById r s of
      None \<Rightarrow> s
    | Some room \<Rightarrow>
        if rr_sessionKind room \<noteq> ConnectionCallKind then s
        else (case find (\<lambda>i. i \<noteq> leaving) (listActiveParticipantUserIds r s) of
          None \<Rightarrow> s
        | Some peer \<Rightarrow> if peer = [] then s else say [CallPeerEnded peer r] s))"

text \<open>
  What \<open>trim\<close> makes of an explicit room id is the argument here. If the match engine's answer is an error, the
  rest still runs and the error is thrown after it. Whether publishing the history fails is an
  argument.
\<close>

definition leaveDirectRoomService ::
  "room_env \<Rightarrow> api_error option \<Rightarrow> bool \<Rightarrow> string \<Rightarrow> string option \<Rightarrow> (main_store, unit) service" where
  "leaveDirectRoomService env engineError publishFails u explicitRoomId s =
     (let roomId = (if truthy explicitRoomId then explicitRoomId else getUserActiveRtcRoomId u s);
          room = (case roomId of None \<Rightarrow> None | Some r \<Rightarrow> findRoomById r s);
          isConnectionCall = (case room of None \<Rightarrow> False | Some row \<Rightarrow> rr_sessionKind row = ConnectionCallKind);
          s1 = (case (roomId, room) of
              (Some r, Some row) \<Rightarrow>
                if tm_roomType row = Direct \<and> rr_sessionKind row = MatchKind then say [MatchPeerLeft r u] s else s
            | _ \<Rightarrow> s);
          s2 = (if isConnectionCall then s1 else say [LeaveMatchEngine u] s1);
          s3 = (case (roomId, room) of
              (Some r, Some row) \<Rightarrow>
                if tm_roomType row = Space then leaveSpaceRtcSessionInternal env u r s2
                else if rr_sessionKind row = ConnectionCallKind then
                  finalizeConnectionCallRoomSession env publishFails r
                    (markParticipantLeft (re_now env) r u (notifyConnectionCallPeerEnded r u s2))
                else finalizeDirectMatchRoomSession env r s2
            | _ \<Rightarrow> s2)
      in (case engineError of Some e \<Rightarrow> if isConnectionCall then Inr () else Inl e | None \<Rightarrow> Inr (), clearUserActiveRtcRoom u s3))"

definition hostEndSpaceForEveryoneService :: "room_env \<Rightarrow> string \<Rightarrow> string \<Rightarrow> (main_store, end_result) service" where
  "hostEndSpaceForEveryoneService env u r s = (case findRoomById r s of
      None \<Rightarrow> (fail ''Room not found'' ''ROOM_NOT_FOUND'' 404, s)
    | Some room \<Rightarrow>
        if tm_roomType room \<noteq> Space then (fail ''Room not found'' ''ROOM_NOT_FOUND'' 404, s)
        else if rr_hostUserId room \<noteq> u then (fail ''Only the host can end this space for everyone'' ''NOT_HOST'' 403, s)
        else if row_closed (re_now env) room then
          (Inr \<lparr>es_ended = False, es_alreadyClosed = True\<rparr>, clearUserActiveRtcRoom u (deleteSessionRoomRedis r s))
        else if tm_status room \<noteq> Live then (fail ''Room is not live'' ''INVALID_STATE'' 400, s)
        else
         (let (result, s1) = endLiveRoomSession env r Host_end_for_everyone
                \<lparr>eo_preserveScheduledSlot = Some (tm_scheduledStartAt room \<noteq> None), eo_notifyParticipants = Some True,
                 eo_excludeUserIdFromNotify = Some u\<rparr> s
          in (Inr result, clearUserActiveRtcRoom u s1)))"

subsection \<open>Being removed\<close>

record removed_result =
  rm_removed :: bool
  rm_restricted :: bool

definition removeSpaceParticipantFromLive ::
  "room_env \<Rightarrow> string \<Rightarrow> string \<Rightarrow> bool \<Rightarrow> nat option \<Rightarrow> main_store \<Rightarrow> removed_result \<times> main_store" where
  "removeSpaceParticipantFromLive env r target restrict strikeCount s =
     (let skipped = \<lparr>rm_removed = False, rm_restricted = False\<rparr> in
      case findRoomById r s of
        None \<Rightarrow> (skipped, s)
      | Some room \<Rightarrow>
          if tm_roomType room \<noteq> Space then (skipped, s)
          else if row_closed (re_now env) room then (skipped, clearUserActiveRtcRoom target s)
          else if tm_status room \<noteq> Live then (skipped, s)
          else if \<not> isUserRoomParticipant r target s then (skipped, s)
          else
           (let s1 = say [RtcKick r target] (clearUserActiveRtcRoom target (markParticipantLeft (re_now env) r target s));
                s2 = say [ParticipantRemoved target r strikeCount] (cancelFriendInviteForRoomInvitee r target s1)
            in (\<lparr>rm_removed = True, rm_restricted = restrict\<rparr>, if restrict then addRoomRestrictedUser r target s2 else s2)))"

definition kickSpaceParticipantService :: "room_env \<Rightarrow> string \<Rightarrow> string \<Rightarrow> string \<Rightarrow> bool \<Rightarrow> (main_store, removed_result) service" where
  "kickSpaceParticipantService env host r target restrict s = (case findRoomById r s of
      None \<Rightarrow> (fail ''Room not found'' ''ROOM_NOT_FOUND'' 404, s)
    | Some room \<Rightarrow>
        if tm_roomType room \<noteq> Space then (fail ''Room not found'' ''ROOM_NOT_FOUND'' 404, s)
        else if rr_hostUserId room \<noteq> host then (fail ''Only the host can remove participants'' ''NOT_HOST'' 403, s)
        else if target = host then (fail ''You cannot remove yourself from the space'' ''CANNOT_REMOVE_SELF'' 400, s)
        else if target = rr_hostUserId room then (fail ''The host cannot be removed'' ''CANNOT_REMOVE_HOST'' 400, s)
        else if tm_status room \<noteq> Live then (fail ''Room is not live'' ''INVALID_STATE'' 400, s)
        else if \<not> isUserRoomParticipant r target s then (fail ''Participant is not in this call'' ''TARGET_NOT_FOUND'' 404, s)
        else (let (result, s1) = removeSpaceParticipantFromLive env r target restrict None s in (Inr result, s1)))"

record nsfw_result =
  nv_removed :: bool
  nv_strikeCount :: nat
  nv_accountBanned :: bool

definition reportSpaceNsfwViolationService :: "room_env \<Rightarrow> string \<Rightarrow> string \<Rightarrow> (main_store, nsfw_result) service" where
  "reportSpaceNsfwViolationService env u r s = (case findRoomById r s of
      None \<Rightarrow> (fail ''Room not found'' ''ROOM_NOT_FOUND'' 404, s)
    | Some room \<Rightarrow>
        if tm_roomType room \<noteq> Space then (fail ''Room not found'' ''ROOM_NOT_FOUND'' 404, s)
        else if tm_status room \<noteq> Live then (fail ''Room is not live'' ''INVALID_STATE'' 400, s)
        else if \<not> isUserRoomParticipant r u s then (fail ''You are not in this call'' ''NOT_IN_CALL'' 403, s)
        else if rd_nsfw s u r then (fail ''Violation already reported for this session'' ''RATE_LIMITED'' 429, s)
        else
         (let s1 = s\<lparr>rd_nsfw := (rd_nsfw s)(u := (rd_nsfw s u)(r := True)), db_strikes := (db_strikes s)(u := db_strikes s u + 1)\<rparr>;
              strikeCount = db_strikes s1 u; accountBanned = (strikeCount \<ge> 2);
              s2 = (if accountBanned then s1\<lparr>db_banned := List.insert u (db_banned s1)\<rparr> else s1);
              (res, s3) = removeSpaceParticipantFromLive env r u True (Some strikeCount) s2
          in (Inr \<lparr>nv_removed = rm_removed res, nv_strikeCount = strikeCount, nv_accountBanned = accountBanned\<rparr>, s3)))"

subsection \<open>The title of a grown call\<close>

text \<open>The ellipsis that marks a cut name is the one character 133 here.\<close>

definition TITLE_MAX :: nat where "TITLE_MAX = 160"

definition firstNameFromLabel :: "string \<Rightarrow> string" where
  "firstNameFromLabel label =
     (let token = takeWhile (\<lambda>c. \<not> js_space c) (js_trim label) in if token = [] then ''Member'' else token)"

fun comma_join :: "string list \<Rightarrow> string" where
  "comma_join [] = []"
| "comma_join [p] = p"
| "comma_join (p # ps) = p @ '', '' @ comma_join ps"

text \<open>The heads are tried from the longest on.\<close>

fun first_fitting :: "string list \<Rightarrow> nat \<Rightarrow> string option" where
  "first_fitting parts 0 = None"
| "first_fitting parts (Suc k) =
     (let n = Suc k; head = comma_join (take n parts); extra = length parts - n;
          candidate = (if extra > 0 then head @ '', +'' @ int_str (int extra) else head)
      in if length candidate \<le> TITLE_MAX then Some candidate else first_fitting parts k)"

definition formatSpaceTitleFromDisplayLabels :: "string list \<Rightarrow> string" where
  "formatSpaceTitleFromDisplayLabels labels =
     (if labels = [] then ''Space''
      else let parts = map firstNameFromLabel labels; joined = comma_join parts in
        if length joined \<le> TITLE_MAX then joined
        else case first_fitting parts (length parts) of
          Some t \<Rightarrow> t
        | None \<Rightarrow> take (max 1 (TITLE_MAX - 1)) (parts ! 0) @ [CHR 0x85])"

text \<open>The labels of the users in the call, in the order the locale sorts them, are an argument.\<close>

definition syncSpaceRoomTitleFromParticipants :: "(string list \<Rightarrow> string list) \<Rightarrow> string \<Rightarrow> main_store \<Rightarrow> main_store" where
  "syncSpaceRoomTitleFromParticipants sortedLabels r s =
     (let title = formatSpaceTitleFromDisplayLabels (sortedLabels (listActiveParticipantUserIds r s))
      in patchSessionRoomRedisTitle r title (snd (updateLiveRoomTitle r title s)))"

text \<open>
  A title fits. The title that a grown call takes from its participants' names is never empty and at
  most 160 characters long.
\<close>

theorem space_title_fits:
  "formatSpaceTitleFromDisplayLabels labels \<noteq> [] \<and> length (formatSpaceTitleFromDisplayLabels labels) \<le> TITLE_MAX"
proof -
  have name: "firstNameFromLabel l \<noteq> []" for l by (simp add: firstNameFromLabel_def Let_def)
  have join: "ps \<noteq> [] \<Longrightarrow> (\<forall>p\<in>set ps. p \<noteq> []) \<Longrightarrow> comma_join ps \<noteq> []" for ps by (cases ps rule: comma_join.cases) auto
  have fit: "length t \<le> TITLE_MAX \<and> (parts \<noteq> [] \<and> (\<forall>p\<in>set parts. p \<noteq> []) \<longrightarrow> t \<noteq> [])"
    if "first_fitting parts n = Some t" for parts n t
    using that
  proof (induction n)
    case (Suc k)
    have "set (take (Suc k) parts) \<subseteq> set parts" by (rule set_take_subset)
    then have "parts \<noteq> [] \<Longrightarrow> \<forall>p\<in>set parts. p \<noteq> [] \<Longrightarrow> comma_join (take (Suc k) parts) \<noteq> []"
      by (intro join) auto
    with Suc show ?case by (auto simp: Let_def split: if_splits)
  qed simp
  show ?thesis
  proof (cases "labels = []")
    case True
    then show ?thesis by (simp add: formatSpaceTitleFromDisplayLabels_def TITLE_MAX_def)
  next
    case False
    then have parts: "map firstNameFromLabel labels \<noteq> []" "\<forall>p\<in>set (map firstNameFromLabel labels). p \<noteq> []"
      using name by auto
    show ?thesis
      using False join [OF parts] fit [of "map firstNameFromLabel labels"] parts
      by (auto simp: formatSpaceTitleFromDisplayLabels_def Let_def TITLE_MAX_def split: option.split)
  qed
qed

subsection \<open>Inviting\<close>

text \<open>Who are connections, who allows invites from whom, who is online and in which live room, and a new row's id.\<close>

record invite_env =
  ie_peers :: "string \<Rightarrow> string list"
  ie_allows :: "string \<Rightarrow> string \<Rightarrow> bool"
  ie_online :: "string \<Rightarrow> bool"
  ie_liveRoom :: "string \<Rightarrow> string option"
  ie_newId :: string

definition createRoomInviteService :: "invite_env \<Rightarrow> string \<Rightarrow> string \<Rightarrow> string \<Rightarrow> (main_store, string) service" where
  "createRoomInviteService ie inviter r invitee s =
     (if invitee = inviter then (fail ''Invalid invitee'' ''NOT_CONNECTION'' 400, s)
      else case findRoomById r s of
        None \<Rightarrow> (fail ''Room not found'' ''ROOM_NOT_FOUND'' 404, s)
      | Some room \<Rightarrow>
          if tm_status room \<noteq> Live then (fail ''Room is not live'' ''ROOM_NOT_LIVE'' 400, s)
          else if \<not> isUserRoomParticipant r inviter s then (fail ''You are not in this room'' ''NOT_PARTICIPANT'' 403, s)
          else if invitee \<notin> set (ie_peers ie inviter)
          then (fail ''You are not connected with this person'' ''NOT_CONNECTION'' 403, s)
          else if \<not> ie_allows ie invitee inviter
          then (fail ''This person does not accept invites from you'' ''INVITE_BLOCKED'' 403, s)
          else if \<not> ie_online ie invitee then (fail ''User is offline'' ''INVITEE_OFFLINE'' 400, s)
          else if truthy (ie_liveRoom ie invitee) \<and> ie_liveRoom ie invitee \<noteq> Some r
          then (fail ''User is already in another call'' ''INVITEE_BUSY'' 400, s)
          else if isUserRoomParticipant r invitee s then (fail ''User is already in this room'' ''ALREADY_IN_ROOM'' 400, s)
          else (case findFriendInviteByRoomAndInvitee r invitee s of
            Some i \<Rightarrow>
              if fi_status i = PendingInvite then (Inr (fi_id i), say [InviteReceived invitee (fi_id i) r] s)
              else (let (i', s1) = upsertPendingFriendInvite (ie_newId ie) r inviter invitee s
                    in (Inr i', say [InviteReceived invitee i' r] s1))
          | None \<Rightarrow>
              (let (i', s1) = upsertPendingFriendInvite (ie_newId ie) r inviter invitee s
               in (Inr i', say [InviteReceived invitee i' r] s1))))"

definition respondRoomInviteService :: "room_env \<Rightarrow> (string list \<Rightarrow> string list) \<Rightarrow> string \<Rightarrow> string \<Rightarrow> bool \<Rightarrow> (main_store, string \<times> bool) service" where
  "respondRoomInviteService env sortedLabels invitee inviteId accept s = (case findFriendInviteById inviteId s of
      None \<Rightarrow> (fail ''Invite not found'' ''INVITE_NOT_FOUND'' 404, s)
    | Some invite \<Rightarrow>
       (let r = fi_roomId invite in
        if fi_inviteeUserId invite \<noteq> invitee then (fail ''This invite is not for you'' ''NOT_YOUR_INVITE'' 403, s)
        else if fi_status invite \<noteq> PendingInvite
        then (fail ''This invite is no longer pending'' ''INVITE_NOT_PENDING'' 400, s)
        else if \<not> accept then
          (Inr (r, False), say [InviteRefused (fi_inviterUserId invite) inviteId r] (set_invite_status inviteId DeclinedInvite s))
        else (case findRoomById r s of
          None \<Rightarrow> (fail ''Room is no longer available'' ''ROOM_NOT_LIVE'' 400, s)
        | Some room \<Rightarrow>
            if tm_status room \<noteq> Live then (fail ''Room is no longer available'' ''ROOM_NOT_LIVE'' 400, s)
            else if tm_roomType room = Space then (Inr (r, True), set_invite_status inviteId AcceptedInvite s)
            else
             (let (expanded, s1) = runExpandDirectAcceptTransaction (re_now env) r inviteId invitee (rr_maxParticipants room) s in
              if \<not> expanded then (fail ''This call was already expanded'' ''ROOM_CHANGED'' 409, s1)
              else
               (let s2 = say [RtcRoomType r Space] (syncSpaceRoomTitleFromParticipants sortedLabels r (patchSessionRoomRedisSpaceExpand r s1))
                in (Inr (r, True), say (map (\<lambda>u. BecameSpace u r) (listActiveParticipantUserIds r s2)) s2))))))"

text \<open>The route: the room of the path is compared after the answer has been recorded.\<close>

definition handleRoomInviteRespond :: "room_env \<Rightarrow> (string list \<Rightarrow> string list) \<Rightarrow> string \<Rightarrow> string \<Rightarrow> string \<Rightarrow> bool \<Rightarrow> (main_store, string \<times> bool) service" where
  "handleRoomInviteRespond env sortedLabels u pathRoomId inviteId accept s = (case respondRoomInviteService env sortedLabels u inviteId accept s of
      (Inl e, s1) \<Rightarrow> (Inl e, s1)
    | (Inr (r, expanded), s1) \<Rightarrow>
        if r \<noteq> pathRoomId then (fail ''Invite does not match this room'' ''ROOM_MISMATCH'' 400, s1) else (Inr (r, expanded), s1))"

subsection \<open>Renaming\<close>

definition updateLiveRoomTitleService :: "string \<Rightarrow> string \<Rightarrow> string \<Rightarrow> (main_store, string) service" where
  "updateLiveRoomTitleService u r rawTitle s =
     (let title = js_trim rawTitle in
      if title = [] \<or> length title > 160 then (fail ''Title must be 1-160 characters'' ''INVALID_TITLE'' 400, s)
      else case findRoomById r s of
        None \<Rightarrow> (fail ''Room not found'' ''ROOM_NOT_FOUND'' 404, s)
      | Some room \<Rightarrow>
          if tm_status room \<noteq> Live then (fail ''Room is not live'' ''ROOM_NOT_LIVE'' 400, s)
          else if tm_roomType room \<noteq> Space then (fail ''Only space rooms can be renamed'' ''NOT_SPACE'' 400, s)
          else if rr_hostUserId room \<noteq> u then (fail ''Only the host can rename this space'' ''NOT_HOST'' 403, s)
          else
           (let (updated, s1) = updateLiveRoomTitle r title s in
            if \<not> updated then (fail ''Could not update title'' ''ROOM_NOT_FOUND'' 404, s1)
            else
             (let s2 = patchSessionRoomRedisTitle r title s1
              in (Inr title, say (map (\<lambda>u. TitleUpdated u r title) (listAllParticipantUserIds r s2)) s2))))"

end
