(* ===== verification/RoomPlanning.thy ===== *)
theory RoomPlanning
  imports RoomLeaving
begin

text \<open>
  Making and changing spaces ahead of time (\<open>createRoomWithHostAndInvites\<close> of
  \<open>rooms/repositories/room-creation.repository.ts\<close>, \<open>rooms/repositories/room-scheduled-spaces.repository.ts\<close>). New ids are
  arguments; a field that a patch leaves out is \<open>None\<close>, one that it sets to null is \<open>Some None\<close>.
\<close>

record new_space =
  ns_hostUserId :: string
  ns_title :: string
  ns_visibility :: visibility
  ns_maxParticipants :: nat
  ns_scheduledStartAt :: "int option"
  ns_scheduledEndAt :: "int option"
  ns_status :: room_db_status
  ns_startedAt :: "int option"
  ns_advancedOptions :: advanced_options
  ns_inviteeUserIds :: "string list"
  ns_roomType :: room_session_type

fun add_invites :: "(string \<Rightarrow> string) \<Rightarrow> string \<Rightarrow> string \<Rightarrow> string list \<Rightarrow> friend_invite list \<Rightarrow> friend_invite list" where
  "add_invites newId r host [] is = is"
| "add_invites newId r host (u # us) is = add_invites newId r host us
     (if \<exists>i\<in>set is. fi_roomId i = r \<and> fi_inviteeUserId i = u then is
      else is @ [\<lparr>fi_id = newId u, fi_roomId = r, fi_inviterUserId = host, fi_inviteeUserId = u, fi_status = PendingInvite\<rparr>])"

definition createRoomWithHostAndInvites :: "int \<Rightarrow> string \<Rightarrow> (string \<Rightarrow> string) \<Rightarrow> new_space \<Rightarrow> main_store \<Rightarrow> main_store" where
  "createRoomWithHostAndInvites now r newId ns s =
     (let times = \<lparr>tm_status = ns_status ns, tm_roomType = ns_roomType ns, tm_startedAt = ns_startedAt ns,
            tm_scheduledStartAt = ns_scheduledStartAt ns, tm_scheduledEndAt = ns_scheduledEndAt ns,
            tm_advancedOptions = Some (ns_advancedOptions ns)\<rparr>;
          (expiresAt, isExpired) = computeRoomExpiryFields times now;
          row = \<lparr>tm_status = ns_status ns, tm_roomType = ns_roomType ns, tm_startedAt = ns_startedAt ns,
            tm_scheduledStartAt = ns_scheduledStartAt ns, tm_scheduledEndAt = ns_scheduledEndAt ns,
            tm_advancedOptions = Some (ns_advancedOptions ns), rr_hostUserId = ns_hostUserId ns,
            rr_sessionKind = (if ns_roomType ns = Space then SpaceKind else MatchKind), rr_endedAt = None, rr_expiresAt = expiresAt,
            rr_isExpired = isExpired, rr_maxParticipants = ns_maxParticipants ns, rr_visibility = ns_visibility ns,
            rr_title = ns_title ns, rr_rtcRoomId = if ns_status ns = Live then Some r else None\<rparr>;
          s1 = put_parts r [\<lparr>pt_userId = ns_hostUserId ns, pt_role = HostRole, pt_joinedAt = now, pt_leftAt = None\<rparr>] (put_room r row s)
      in s1\<lparr>db_invites := add_invites newId r (ns_hostUserId ns) (ns_inviteeUserIds ns) (db_invites s1)\<rparr>)"

record space_patch =
  sp_title :: "string option"
  sp_visibility :: "visibility option"
  sp_maxParticipants :: "nat option"
  sp_scheduledStartAt :: "int option"
  sp_scheduledEndAt :: "int option option"
  sp_advanced :: "advanced_options \<Rightarrow> advanced_options"
  sp_hasAdvanced :: bool
  sp_invitedUserIds :: "string list option"

datatype update_result = Updated string "int option" | NotFound | InvalidSchedule | InvalidEnd | RoomFull

definition no_options :: advanced_options where
  "no_options = \<lparr>ao_shouldHostStartMeeting = None, ao_shouldMeetingAutoStart = None, ao_spaceExpirationMinutes = None,
     ao_deleteSpaceAfterCall = None, ao_hostControlsActiveSpeaker = None\<rparr>"

definition sync_invites :: "(string \<Rightarrow> string) \<Rightarrow> string \<Rightarrow> string \<Rightarrow> string list option \<Rightarrow> main_store \<Rightarrow> main_store" where
  "sync_invites newId r host ids s = (case ids of
      None \<Rightarrow> s
    | Some us \<Rightarrow> s\<lparr>db_invites := add_invites newId r host us
        (filter (\<lambda>i. \<not> (fi_roomId i = r \<and> fi_status i = PendingInvite \<and> fi_inviteeUserId i \<notin> set us)) (db_invites s))\<rparr>)"

text \<open>The category, description and invite code, which only listings read, are left out.\<close>

definition updateScheduledSpaceByHost ::
  "int \<Rightarrow> (string \<Rightarrow> string) \<Rightarrow> string \<Rightarrow> string \<Rightarrow> space_patch \<Rightarrow> main_store \<Rightarrow> update_result \<times> main_store" where
  "updateScheduledSpaceByHost now newId r host p s = (case db_rooms s r of
      None \<Rightarrow> (NotFound, s)
    | Some room \<Rightarrow>
        if rr_hostUserId room \<noteq> host \<or> tm_roomType room \<noteq> Space \<or> tm_status room \<noteq> Scheduled then (NotFound, s)
        else if (case sp_maxParticipants p of None \<Rightarrow> False | Some m \<Rightarrow> countActiveParticipants r s > m) then (RoomFull, s)
        else
         (let nextTitle = (case sp_title p of Some t \<Rightarrow> js_trim t | None \<Rightarrow> rr_title room);
              nextStart = stored_or (sp_scheduledStartAt p) (tm_scheduledStartAt room);
              nextEnd = nullish_or (sp_scheduledEndAt p) (tm_scheduledEndAt room)
          in (case nextStart of
                None \<Rightarrow> (InvalidSchedule, s)
              | Some start \<Rightarrow>
                  if start \<le> now then (InvalidSchedule, s)
                  else if (case nextEnd of None \<Rightarrow> False | Some e \<Rightarrow> e \<le> start) then (InvalidEnd, s)
                  else
                   (let nextAdvanced = (if sp_hasAdvanced p
                          then Some (mergeRoomAdvancedOptions (Some (sp_advanced p (nullish_or (tm_advancedOptions room) no_options))))
                          else tm_advancedOptions room);
                        row1 = room\<lparr>tm_scheduledStartAt := nextStart, tm_scheduledEndAt := nextEnd, tm_advancedOptions := nextAdvanced,
                          rr_title := nextTitle, rr_visibility := nullish_or (sp_visibility p) (rr_visibility room),
                          rr_maxParticipants := nullish_or (sp_maxParticipants p) (rr_maxParticipants room)\<rparr>;
                        (expiresAt, isExpired) = computeRoomExpiryFields row1 now
                    in (Updated nextTitle nextStart,
                        sync_invites newId r host (sp_invitedUserIds p)
                          (put_room r (row1\<lparr>rr_expiresAt := expiresAt, rr_isExpired := isExpired\<rparr>) s))))))"

end
