(* ===== verification/ServerCalls.thy ===== *)
theory ServerCalls
  imports RoomLeaving
begin

text \<open>
  Calls between connections (\<open>connections/services/connection-call.service.ts\<close>): ringing, answering,
  cancelling, and the three ways a ring times out. Each of the latter reads the invite, checks it and then
  acts on what it has read; the two halves are definitions of their own, so that other requests can run
  between them. What is outside the store (the conversation, who is connected with whom, who is online, the
  rtc service's peer sets, new ids) is an argument.
\<close>

subsection \<open>Invites\<close>

definition resolveDmPeerUserId :: "bool \<times> string list \<Rightarrow> string \<Rightarrow> string option" where
  "resolveDmPeerUserId conv callerUserId =
     (if fst conv then None
      else case filter (\<lambda>p. p \<noteq> callerUserId) (snd conv) of [peer] \<Rightarrow> Some peer | _ \<Rightarrow> None)"

definition readInvite :: "int \<Rightarrow> string \<Rightarrow> main_store \<Rightarrow> call_invite option" where
  "readInvite now requestId s =
     (let raw = cc_invite s requestId; text = (\<lambda>f. nullish_or (hfield raw f) []) in
      if \<not> truthy (hfield raw ''requestId'') \<or> \<not> truthy (hfield raw ''roomId'') then None
      else Some \<lparr>iv_requestId = text ''requestId'', iv_roomId = text ''roomId'', iv_conversationId = text ''conversationId'',
        iv_callerUserId = text ''callerUserId'', iv_calleeUserId = text ''calleeUserId'',
        iv_video = (hfield raw ''mode'' = Some ''video''), iv_status = hfield raw ''status'',
        iv_createdAt = nullish_or (hfield raw ''createdAt'') (int_str now)\<rparr>)"

definition set_call_invite :: "string \<Rightarrow> (string \<times> string) list \<Rightarrow> main_store \<Rightarrow> main_store" where
  "set_call_invite i fvs s = s\<lparr>cc_invite := (cc_invite s)(i := hset_all fvs (cc_invite s i))\<rparr>"

definition cleanupInvite :: "call_invite \<Rightarrow> main_store \<Rightarrow> main_store" where
  "cleanupInvite call s = s\<lparr>cc_invite := (cc_invite s)(iv_requestId call := []),
     cc_pendingForCallee := (cc_pendingForCallee s)(iv_calleeUserId call := None),
     cc_pendingByRoom := (cc_pendingByRoom s)(iv_roomId call := None)\<rparr>"

definition finalizeDeclinedRoom :: "room_env \<Rightarrow> string \<Rightarrow> main_store \<Rightarrow> main_store" where
  "finalizeDeclinedRoom env r s = snd (endLiveRoomSession env r Connection_call_ended direct_end_options (clearActiveConnectionCall r s))"

definition recordPendingCallOutcome :: "bool \<Rightarrow> call_invite \<Rightarrow> call_status \<Rightarrow> main_store \<Rightarrow> main_store" where
  "recordPendingCallOutcome publishFails call status s =
     (if iv_conversationId call = [] then s
      else if cc_historyLoggedForRequest s (iv_requestId call) then s
      else if publishFails then s
      else recordConnectionCallHistory (iv_conversationId call) (iv_callerUserId call) (iv_video call) status None
        (s\<lparr>cc_historyLoggedForRequest := (cc_historyLoggedForRequest s)(iv_requestId call := True)\<rparr>))"

subsection \<open>Ringing\<close>

record call_env =
  ca_room :: room_env
  ca_conversation :: "(bool \<times> string list) option"
  ca_peers :: "string list"
  ca_online :: "string \<Rightarrow> bool"
  ca_rtcPeers :: "string \<Rightarrow> string list"
  ca_category :: bool
  ca_requestId :: string
  ca_roomId :: string
  ca_others :: "main_store \<Rightarrow> main_store"

record call_started =
  st_requestId :: string
  st_roomId :: string
  st_conversationId :: string
  st_calleeUserId :: string
  st_video :: bool

definition started_for :: "call_invite \<Rightarrow> string \<Rightarrow> call_started" where
  "started_for call callee = \<lparr>st_requestId = iv_requestId call, st_roomId = iv_roomId call,
     st_conversationId = iv_conversationId call, st_calleeUserId = callee, st_video = iv_video call\<rparr>"

text \<open>From the new room on: other requests run before the claim of the callee.\<close>

definition ring :: "call_env \<Rightarrow> string \<Rightarrow> string \<Rightarrow> string \<Rightarrow> bool \<Rightarrow> (main_store, call_started) service" where
  "ring ce caller callee conversationId video s =
     (let now = re_now (ca_room ce); r = ca_roomId ce; i = ca_requestId ce;
          s1 = provisionConnectionCallSessionRoomRedis now r caller ''Call'' conversationId (createConnectionCallRoom now r caller ''Call'' s);
          s2 = ca_others ce s1
      in if cc_pendingForCallee s2 callee \<noteq> None then
           (fail ''They already have an incoming call'' ''INVITE_PENDING'' 409, finalizeDeclinedRoom (ca_room ce) r s2)
         else
          (let call = \<lparr>iv_requestId = i, iv_roomId = r, iv_conversationId = conversationId, iv_callerUserId = caller,
                      iv_calleeUserId = callee, iv_video = video, iv_status = Some ''pending'', iv_createdAt = int_str now\<rparr>;
               s3 = s2\<lparr>cc_pendingForCallee := (cc_pendingForCallee s2)(callee \<mapsto> i),
                       cc_pendingByRoom := (cc_pendingByRoom s2)(r \<mapsto> i)\<rparr>;
               s4 = set_call_invite i [(''requestId'', i), (''roomId'', r), (''conversationId'', conversationId),
                      (''callerUserId'', caller), (''calleeUserId'', callee), (''mode'', if video then ''video'' else ''audio''),
                      (''status'', ''pending''), (''createdAt'', int_str now)] s3
           in (Inr (started_for call callee), say [CallRing callee call] s4)))"

definition initiateConnectionCallService :: "call_env \<Rightarrow> string \<Rightarrow> string \<Rightarrow> bool \<Rightarrow> (main_store, call_started) service" where
  "initiateConnectionCallService ce caller conversationId video s = (case ca_conversation ce of
      None \<Rightarrow> (fail ''Conversation not found'' ''NOT_DIRECT_DM'' 404, s)
    | Some conv \<Rightarrow> (case resolveDmPeerUserId conv caller of
        None \<Rightarrow> (fail ''Calls are only available in direct messages'' ''NOT_DIRECT_DM'' 400, s)
      | Some callee \<Rightarrow>
          if callee = [] then (fail ''Calls are only available in direct messages'' ''NOT_DIRECT_DM'' 400, s)
          else if callee \<notin> set (ca_peers ce) then (fail ''You can only call accepted connections'' ''NOT_CONNECTION'' 403, s)
          else if \<not> ca_online ce callee then (fail ''They are offline right now'' ''CALLEE_OFFLINE'' 400, s)
          else
           (let (live, s1) = getUsersActiveRtcRooms (ca_rtcPeers ce) [caller, callee] s in
            if live caller \<noteq> None then (fail ''You are already in a call'' ''CALLER_BUSY'' 409, s1)
            else if live callee \<noteq> None then (fail ''They are already in a call'' ''CALLEE_BUSY'' 409, s1)
            else (case cc_pendingForCallee s1 callee of
              Some p \<Rightarrow>
                if p \<noteq> [] then
                  (case readInvite (re_now (ca_room ce)) p s1 of
                     Some call \<Rightarrow>
                       if iv_status call = Some ''pending'' \<and> iv_callerUserId call = caller
                       then (Inr (started_for call callee), say [CallRing callee call] s1)
                       else (fail ''They already have an incoming call'' ''INVITE_PENDING'' 409, s1)
                   | None \<Rightarrow> (fail ''They already have an incoming call'' ''INVITE_PENDING'' 409, s1))
                else if \<not> ca_category ce then (fail ''Call category not configured'' ''ROOM_NOT_FOUND'' 503, s1)
                else ring ce caller callee conversationId video s1
            | None \<Rightarrow>
                if \<not> ca_category ce then (fail ''Call category not configured'' ''ROOM_NOT_FOUND'' 503, s1)
                else ring ce caller callee conversationId video s1))))"

subsection \<open>Answering and giving up\<close>

definition checked_invite ::
  "room_env \<Rightarrow> (call_invite \<Rightarrow> bool) \<Rightarrow> string \<Rightarrow> string \<Rightarrow> main_store \<Rightarrow> api_error + call_invite" where
  "checked_invite env mine notMine requestId s = (case readInvite (re_now env) requestId s of
      None \<Rightarrow> fail ''Call invite not found or expired'' ''INVITE_NOT_FOUND'' 404
    | Some call \<Rightarrow>
        if \<not> mine call then fail notMine ''NOT_YOUR_INVITE'' 403
        else if iv_status call \<noteq> Some ''pending'' then fail ''This invite is no longer pending'' ''INVITE_NOT_PENDING'' 409
        else Inr call)"

definition set_status :: "call_invite \<Rightarrow> string \<Rightarrow> main_store \<Rightarrow> main_store" where
  "set_status call status = set_call_invite (iv_requestId call) [(''status'', status)]"

text \<open>A ring that ends without a call: the status, the history, the keys, the room.\<close>

definition no_call :: "room_env \<Rightarrow> bool \<Rightarrow> call_invite \<Rightarrow> string \<Rightarrow> call_status \<Rightarrow> main_store \<Rightarrow> main_store" where
  "no_call env publishFails call status outcome s =
     finalizeDeclinedRoom env (iv_roomId call)
       (cleanupInvite call (recordPendingCallOutcome publishFails call outcome (set_status call status s)))"

definition declined :: "room_env \<Rightarrow> bool \<Rightarrow> call_invite \<Rightarrow> main_store \<Rightarrow> main_store" where
  "declined env publishFails call s =
     say [CallDeclined (iv_callerUserId call) (iv_requestId call)] (no_call env publishFails call ''declined'' DeclinedCall s)"

definition accepted :: "room_env \<Rightarrow> call_invite \<Rightarrow> main_store \<Rightarrow> main_store" where
  "accepted env call s =
     (let s1 = addOrReactivateParticipantRow (re_now env) (iv_roomId call) (iv_calleeUserId call) s;
          s2 = cleanupInvite call (set_status call ''accepted'' s1);
          s3 = setActiveConnectionCall (iv_roomId call) \<lparr>cl_conversationId = iv_conversationId call,
                 cl_callerUserId = iv_callerUserId call, cl_calleeUserId = iv_calleeUserId call, cl_video = iv_video call,
                 cl_acceptedAt = re_now env, cl_requestId = iv_requestId call\<rparr> s2
      in say [CallAccepted (iv_callerUserId call) (iv_requestId call)] s3)"

definition missed :: "room_env \<Rightarrow> bool \<Rightarrow> call_invite \<Rightarrow> main_store \<Rightarrow> main_store" where
  "missed env publishFails call s =
     say [CallMissed (iv_callerUserId call) (iv_requestId call), CallMissed (iv_calleeUserId call) (iv_requestId call)]
       (no_call env publishFails call ''missed'' MissedCall s)"

definition cancelled :: "room_env \<Rightarrow> bool \<Rightarrow> call_invite \<Rightarrow> main_store \<Rightarrow> main_store" where
  "cancelled env publishFails call s =
     say [CallCancelled (iv_calleeUserId call) (iv_requestId call)] (no_call env publishFails call ''cancelled'' CancelledCall s)"

definition respondConnectionCallService ::
  "room_env \<Rightarrow> bool \<Rightarrow> string \<Rightarrow> string \<Rightarrow> bool \<Rightarrow> (main_store, call_invite \<times> bool) service" where
  "respondConnectionCallService env publishFails callee requestId accept s =
     (case checked_invite env (\<lambda>call. iv_calleeUserId call = callee) ''This invite is not for you'' requestId s of
        Inl e \<Rightarrow> (Inl e, s)
      | Inr call \<Rightarrow> (Inr (call, accept), if accept then accepted env call s else declined env publishFails call s))"

definition cancelConnectionCallService ::
  "room_env \<Rightarrow> bool \<Rightarrow> string \<Rightarrow> string \<Rightarrow> bool \<Rightarrow> (main_store, unit) service" where
  "cancelConnectionCallService env publishFails caller requestId noAnswer s =
     (case checked_invite env (\<lambda>call. iv_callerUserId call = caller) ''This invite is not yours'' requestId s of
        Inl e \<Rightarrow> (Inl e, s)
      | Inr call \<Rightarrow> (Inr (), if noAnswer then missed env publishFails call s else cancelled env publishFails call s))"

definition markConnectionCallMissedService :: "room_env \<Rightarrow> bool \<Rightarrow> string \<Rightarrow> string \<Rightarrow> (main_store, unit) service" where
  "markConnectionCallMissedService env publishFails u requestId s =
     (case checked_invite env (\<lambda>call. u = iv_callerUserId call \<or> u = iv_calleeUserId call) ''This invite is not for you'' requestId s of
        Inl e \<Rightarrow> (Inl e, s)
      | Inr call \<Rightarrow> (Inr (), missed env publishFails call s))"

definition expireConnectionCallInvite :: "room_env \<Rightarrow> bool \<Rightarrow> string \<Rightarrow> main_store \<Rightarrow> main_store" where
  "expireConnectionCallInvite env publishFails requestId s = (case readInvite (re_now env) requestId s of
      None \<Rightarrow> s
    | Some call \<Rightarrow> if iv_status call = Some ''pending'' then missed env publishFails call s else s)"

end
