(* ===== verification/RoomLifecycle.thy ===== *)
theory RoomLifecycle
  imports RoomPlanning ServerCalls
begin

text \<open>
  The life of a room as an automaton of four phases, and that every request follows it. A store evolves
  well when each room keeps its host, a space stays a space and the phase moves as the automaton allows,
  when a user who was shut out of a space stays out, and when rows stay well-formed. Evolving well is a preorder, so a request does if
  each of its writes does.
\<close>

subsection \<open>Phases\<close>

datatype phase = Waiting | Running | Overdue | Over

definition phase :: "int \<Rightarrow> room_row \<Rightarrow> phase" where
  "phase t row = (case tm_status row of
      Ended \<Rightarrow> Over
    | Cancelled \<Rightarrow> Over
    | Scheduled \<Rightarrow> Waiting
    | Live \<Rightarrow> if row_closed t row then Overdue else Running)"

text \<open>A live session that is overdue, and one that is over, stays so.\<close>

fun phase_step :: "phase \<Rightarrow> phase \<Rightarrow> bool" where
  "phase_step Waiting p = True"
| "phase_step Running p = True"
| "phase_step Overdue p = (p = Overdue)"
| "phase_step Over p = (p = Over)"

lemma phase_step_refl [simp]: "phase_step p p"
  by (cases p) simp_all

lemma phase_step_trans: "phase_step p q \<Longrightarrow> phase_step q r \<Longrightarrow> phase_step p r"
  by (cases p) auto

text \<open>
  A row is well-formed when a live session has a start, only spaces are planned or called off, and the
  kind of the session says whether the room is a space.
\<close>

definition row_ok :: "room_row \<Rightarrow> bool" where
  "row_ok row \<longleftrightarrow> (tm_status row = Live \<longrightarrow> tm_startedAt row \<noteq> None) \<and>
     (tm_status row = Scheduled \<or> tm_status row = Cancelled \<longrightarrow> tm_roomType row = Space) \<and>
     (rr_sessionKind row = SpaceKind \<longleftrightarrow> tm_roomType row = Space)"

definition allowed :: "int \<Rightarrow> room_row \<Rightarrow> room_row \<Rightarrow> bool" where
  "allowed t row row' \<longleftrightarrow> rr_hostUserId row' = rr_hostUserId row \<and> (tm_roomType row = Space \<longrightarrow> tm_roomType row' = Space) \<and>
     phase_step (phase t row) (phase t row') \<and> (row_ok row \<longrightarrow> row_ok row')"

lemma allowed_refl [simp]: "allowed t row row"
  by (simp add: allowed_def)

lemma allowed_trans: "allowed t a b \<Longrightarrow> allowed t b c \<Longrightarrow> allowed t a c"
  unfolding allowed_def using phase_step_trans by metis

text \<open>The rows that a request may change in any way: those not overdue and not over.\<close>

definition open_row :: "int \<Rightarrow> room_row \<Rightarrow> bool" where
  "open_row t row \<longleftrightarrow> phase t row = Waiting \<or> phase t row = Running"

lemma open_scheduled [simp]: "tm_status row = Scheduled \<Longrightarrow> open_row t row"
  by (simp add: open_row_def phase_def)

lemma open_live: "tm_status row = Live \<Longrightarrow> open_row t row \<longleftrightarrow> \<not> row_closed t row"
  by (simp add: open_row_def phase_def)

lemma allowed_open:
  "open_row t row \<Longrightarrow> rr_hostUserId row' = rr_hostUserId row \<Longrightarrow> (tm_roomType row = Space \<Longrightarrow> tm_roomType row' = Space) \<Longrightarrow>
   (row_ok row \<Longrightarrow> row_ok row') \<Longrightarrow> allowed t row row'"
  by (auto simp: allowed_def open_row_def)

lemma allowed_same_times:
  "tm_status row' = tm_status row \<Longrightarrow> rr_isExpired row' = rr_isExpired row \<Longrightarrow> rr_expiresAt row' = rr_expiresAt row \<Longrightarrow>
   rr_hostUserId row' = rr_hostUserId row \<Longrightarrow> (tm_roomType row = Space \<Longrightarrow> tm_roomType row' = Space) \<Longrightarrow>
   (row_ok row \<Longrightarrow> row_ok row') \<Longrightarrow> allowed t row row'"
  by (simp add: allowed_def phase_def row_closed_def)

lemma allowed_expire: "allowed t row (row\<lparr>rr_isExpired := True\<rparr>)"
  by (cases "tm_status row") (auto simp: allowed_def phase_def row_closed_def isDbRoomSessionClosed_def row_ok_def)

subsection \<open>Evolving well\<close>

definition evolves :: "int \<Rightarrow> main_store \<Rightarrow> main_store \<Rightarrow> bool" where
  "evolves t s s' \<longleftrightarrow> (\<forall>r row. db_rooms s r = Some row \<longrightarrow> (\<exists>row'. db_rooms s' r = Some row' \<and> allowed t row row'))"

text \<open>Who was shut out of a space is not in it, unless they host it.\<close>

definition shut_out :: "string \<Rightarrow> string \<Rightarrow> main_store \<Rightarrow> bool" where
  "shut_out r u s \<longleftrightarrow> (\<exists>row. db_rooms s r = Some row \<and> tm_roomType row = Space \<and>
     (u = rr_hostUserId row \<or> \<not> isUserRoomParticipant r u s))"

definition fenced :: "main_store \<Rightarrow> bool" where
  "fenced s \<longleftrightarrow> (\<forall>r u. isRoomRestrictedUser r u s \<longrightarrow> shut_out r u s)"

definition kept_out :: "main_store \<Rightarrow> main_store \<Rightarrow> bool" where
  "kept_out s s' \<longleftrightarrow> set (db_restricted s) \<subseteq> set (db_restricted s')"

text \<open>Every row is well-formed, and nobody has two rows in a room.\<close>

definition sound :: "main_store \<Rightarrow> bool" where
  "sound s \<longleftrightarrow> (\<forall>r row. db_rooms s r = Some row \<longrightarrow> row_ok row) \<and> (\<forall>r. distinct (map pt_userId (db_parts s r)))"

definition well :: "int \<Rightarrow> main_store \<Rightarrow> main_store \<Rightarrow> bool" where
  "well t s s' \<longleftrightarrow> evolves t s s' \<and> kept_out s s' \<and> (fenced s \<longrightarrow> fenced s') \<and> (sound s \<longrightarrow> sound s')"

lemma evolves_refl [simp]: "evolves t s s"
  by (simp add: evolves_def)

lemma evolves_trans: "evolves t a b \<Longrightarrow> evolves t b c \<Longrightarrow> evolves t a c"
  unfolding evolves_def using allowed_trans by metis

lemma well_refl [simp]: "well t s s"
  by (simp add: well_def kept_out_def)

lemma well_trans: "well t a b \<Longrightarrow> well t b c \<Longrightarrow> well t a c"
  unfolding well_def kept_out_def using evolves_trans by blast

lemma well_evolves: "well t s s' \<Longrightarrow> evolves t s s'"
  by (simp add: well_def)

lemma well_quiet:
  "db_rooms s' = db_rooms s \<Longrightarrow> db_parts s' = db_parts s \<Longrightarrow> db_restricted s' = db_restricted s \<Longrightarrow> well t s s'"
  by (simp add: well_def evolves_def kept_out_def fenced_def shut_out_def isRoomRestrictedUser_def isUserRoomParticipant_def
      listActiveParticipantUserIds_def sound_def)

lemma store_parts [simp]: "db_parts (put_room r row s) = db_parts s" "db_parts (put_parts r ps s) = (db_parts s)(r := ps)"
  by (simp_all add: put_room_def put_parts_def)

lemma store_puts [simp]:
  "db_rooms (put_room r row s) = (db_rooms s)(r \<mapsto> row)" "db_rooms (put_parts r ps s) = db_rooms s"
  "isUserRoomParticipant q u (put_room r row s) = isUserRoomParticipant q u s"
  "isRoomRestrictedUser q u (put_room r row s) = isRoomRestrictedUser q u s"
  "isRoomRestrictedUser q u (put_parts r ps s) = isRoomRestrictedUser q u s"
  "db_restricted (put_room r row s) = db_restricted s" "db_restricted (put_parts r ps s) = db_restricted s"
  "isUserRoomParticipant q u (put_parts r ps s) =
     (if q = r then u \<in> pt_userId ` set (filter is_active ps) else isUserRoomParticipant q u s)"
  by (auto simp: put_room_def put_parts_def isUserRoomParticipant_def listActiveParticipantUserIds_def isRoomRestrictedUser_def)

lemma well_room:
  assumes "db_rooms s r = Some row" "allowed t row row'"
  shows "well t s (put_room r row' s)"
proof -
  have "evolves t s (put_room r row' s)" using assms by (auto simp: evolves_def)
  moreover have "fenced (put_room r row' s)" if f: "fenced s"
    unfolding fenced_def
  proof (intro allI impI)
    fix q u assume "isRoomRestrictedUser q u (put_room r row' s)"
    then have "shut_out q u s" using f by (simp add: fenced_def)
    then show "shut_out q u (put_room r row' s)" using assms by (cases "q = r") (auto simp: shut_out_def allowed_def)
  qed
  moreover have "sound (put_room r row' s)" if "sound s"
    using that assms by (auto simp: sound_def allowed_def)
  ultimately show ?thesis by (simp add: well_def kept_out_def)
qed

lemma well_update:
  assumes "\<And>row. db_rooms s r = Some row \<Longrightarrow> cond row \<Longrightarrow> allowed t row (upd row)"
  shows "well t s (snd (update_room r cond upd s))"
  using assms by (auto simp: update_room_def intro!: well_room split: option.split)

lemma well_parts:
  assumes "\<And>u. isRoomRestrictedUser r u s \<Longrightarrow> shut_out r u s \<Longrightarrow> shut_out r u (put_parts r ps s)"
    and "distinct (map pt_userId (db_parts s r)) \<Longrightarrow> distinct (map pt_userId ps)"
  shows "well t s (put_parts r ps s)"
proof -
  have "fenced (put_parts r ps s)" if f: "fenced s"
    unfolding fenced_def
  proof (intro allI impI)
    fix q u assume "isRoomRestrictedUser q u (put_parts r ps s)"
    then have "isRoomRestrictedUser q u s" by simp
    moreover from this f have "shut_out q u s" by (simp add: fenced_def)
    ultimately show "shut_out q u (put_parts r ps s)"
      using assms(1) [of u] by (cases "q = r") (auto simp: shut_out_def)
  qed
  moreover have "sound (put_parts r ps s)" if "sound s"
    using that assms(2) by (simp add: sound_def)
  ultimately show ?thesis by (simp add: well_def evolves_def kept_out_def)
qed

lemma active_map:
  assumes "u \<in> pt_userId ` set (filter is_active (map f ps))" "\<And>p. pt_userId (f p) = pt_userId p"
    and "\<And>p. is_active (f p) \<Longrightarrow> is_active p \<or> pt_userId p = h"
  shows "u = h \<or> u \<in> pt_userId ` set (filter is_active ps)"
proof -
  obtain p where "p \<in> set ps" "is_active (f p)" "pt_userId p = u" using assms(1,2) by auto
  then show ?thesis using assms(3) [of p] by auto
qed

text \<open>Nobody but the host comes back.\<close>

lemma well_map_parts:
  assumes "\<And>p. pt_userId (f p) = pt_userId p"
    and "\<And>p row. db_rooms s r = Some row \<Longrightarrow> is_active (f p) \<Longrightarrow> is_active p \<or> pt_userId p = rr_hostUserId row"
  shows "well t s (put_parts r (map f (db_parts s r)) s)"
proof (rule well_parts)
  fix u assume "shut_out r u s"
  then obtain row where row: "db_rooms s r = Some row" "tm_roomType row = Space"
    "u = rr_hostUserId row \<or> u \<notin> pt_userId ` set (filter is_active (db_parts s r))"
    by (auto simp: shut_out_def isUserRoomParticipant_def listActiveParticipantUserIds_def)
  then have "u = rr_hostUserId row \<or> u \<notin> pt_userId ` set (filter is_active (map f (db_parts s r)))"
    using active_map [of u f "db_parts s r" "rr_hostUserId row"] assms by blast
  with row show "shut_out r u (put_parts r (map f (db_parts s r)) s)"
    by (auto simp: shut_out_def)
next
  have "map pt_userId (map f (db_parts s r)) = map pt_userId (db_parts s r)" using assms(1) by simp
  then show "distinct (map pt_userId (map f (db_parts s r)))" if "distinct (map pt_userId (db_parts s r))"
    using that by (simp only:)
qed

lemma in_upsert: "u \<in> pt_userId ` set (filter is_active (upsert_part new upd ps)) \<Longrightarrow>
    (\<And>p. pt_userId (upd p) = pt_userId p) \<Longrightarrow> u = pt_userId new \<or> u \<in> pt_userId ` set (filter is_active ps)"
  by (auto simp: upsert_part_def split: if_splits)

lemma distinct_upsert:
  assumes "\<And>p. pt_userId (upd p) = pt_userId p" "distinct (map pt_userId ps)"
  shows "distinct (map pt_userId (upsert_part new upd ps))"
proof -
  have "map pt_userId (map (\<lambda>p. if pt_userId p = pt_userId new then upd p else p) ps) = map pt_userId ps"
    using assms(1) by simp
  then show ?thesis using assms(2) by (simp only: upsert_part_def split: if_split) auto
qed

lemma well_admit:
  assumes "\<And>row. db_rooms s r = Some row \<Longrightarrow>
      tm_roomType row = Direct \<or> pt_userId new = rr_hostUserId row \<or> \<not> isRoomRestrictedUser r (pt_userId new) s"
    and "\<And>p. pt_userId (upd p) = pt_userId p"
  shows "well t s (put_parts r (upsert_part new upd (db_parts s r)) s)"
proof (rule well_parts)
  fix u assume u: "isRoomRestrictedUser r u s" "shut_out r u s"
  then obtain row where row: "db_rooms s r = Some row" "tm_roomType row = Space"
    "u = rr_hostUserId row \<or> u \<notin> pt_userId ` set (filter is_active (db_parts s r))"
    by (auto simp: shut_out_def isUserRoomParticipant_def listActiveParticipantUserIds_def)
  then have "u = rr_hostUserId row \<or> u \<notin> pt_userId ` set (filter is_active (upsert_part new upd (db_parts s r)))"
    using assms(1) [OF row(1)] u(1) in_upsert [OF _ assms(2), of u new "db_parts s r"] by auto
  with row show "shut_out r u (put_parts r (upsert_part new upd (db_parts s r)) s)"
    by (auto simp: shut_out_def)
qed (rule distinct_upsert [OF assms(2)])

lemma sound_upsert:
  "sound s \<Longrightarrow> (\<And>p. pt_userId (upd p) = pt_userId p) \<Longrightarrow> sound (put_parts r (upsert_part new upd (db_parts s r)) s)"
  using distinct_upsert [of upd "db_parts s r" new] by (simp add: sound_def)

lemma evolves_parts [simp]: "evolves t s (put_parts r ps s)"
  by (simp add: evolves_def)

text \<open>A room made under a new id.\<close>

lemma well_create:
  assumes "db_rooms s r = None" "row_ok row" "distinct (map pt_userId ps)"
  shows "well t s (put_parts r ps (put_room r row s))"
proof -
  have "fenced (put_parts r ps (put_room r row s))" if f: "fenced s"
    unfolding fenced_def
  proof (intro allI impI)
    fix q u assume "isRoomRestrictedUser q u (put_parts r ps (put_room r row s))"
    then have "shut_out q u s" using f by (simp add: fenced_def)
    moreover from this have "q \<noteq> r" using assms by (auto simp: shut_out_def)
    ultimately show "shut_out q u (put_parts r ps (put_room r row s))" by (auto simp: shut_out_def)
  qed
  moreover have "sound (put_parts r ps (put_room r row s))" if "sound s"
    using that assms by (auto simp: sound_def)
  ultimately show ?thesis using assms by (auto simp: well_def evolves_def kept_out_def)
qed

lemma well_restrict:
  assumes "shut_out r u s"
  shows "well t s (addRoomRestrictedUser r u s)"
  using assms by (auto simp: well_def evolves_def kept_out_def fenced_def shut_out_def addRoomRestrictedUser_def isRoomRestrictedUser_def
      isUserRoomParticipant_def listActiveParticipantUserIds_def sound_def)

end
