(* ===== verification/RoomRequests.thy ===== *)
theory RoomRequests
  imports RoomLifecycle
begin

text \<open>
  Every request of \<open>rooms/services\<close> makes the store evolve well, and every connection call makes the rooms
  follow the automaton: one lemma per write, then one per service.
\<close>

subsection \<open>Writes that leave rooms, participants and restrictions alone\<close>

lemma say_quiet [simp]:
  "db_rooms (say es s) = db_rooms s" "db_parts (say es s) = db_parts s" "db_restricted (say es s) = db_restricted s"
  by (simp_all add: say_def)

lemma set_session_quiet [simp]:
  "db_rooms (set_session r fvs s) = db_rooms s" "db_parts (set_session r fvs s) = db_parts s" "db_restricted (set_session r fvs s) = db_restricted s"
  by (simp_all add: set_session_def)

lemma patch_session_quiet [simp]:
  "db_rooms (patch_session r fvs s) = db_rooms s" "db_parts (patch_session r fvs s) = db_parts s" "db_restricted (patch_session r fvs s) = db_restricted s"
  by (simp_all add: patch_session_def)

lemma delete_session_quiet [simp]:
  "db_rooms (deleteSessionRoomRedis r s) = db_rooms s" "db_parts (deleteSessionRoomRedis r s) = db_parts s" "db_restricted (deleteSessionRoomRedis r s) = db_restricted s"
  by (simp_all add: deleteSessionRoomRedis_def)

lemma set_active_room_quiet [simp]:
  "db_rooms (setUserActiveRtcRoom u r s) = db_rooms s" "db_parts (setUserActiveRtcRoom u r s) = db_parts s" "db_restricted (setUserActiveRtcRoom u r s) = db_restricted s"
  by (simp_all add: setUserActiveRtcRoom_def)

lemma clear_active_room_quiet [simp]:
  "db_rooms (clearUserActiveRtcRoom u s) = db_rooms s" "db_parts (clearUserActiveRtcRoom u s) = db_parts s" "db_restricted (clearUserActiveRtcRoom u s) = db_restricted s"
  by (simp_all add: clearUserActiveRtcRoom_def)

lemma emit_opened_quiet [simp]:
  "db_rooms (emitSpaceOpenedForJoin r x s) = db_rooms s" "db_parts (emitSpaceOpenedForJoin r x s) = db_parts s" "db_restricted (emitSpaceOpenedForJoin r x s) = db_restricted s"
  by (simp_all add: emitSpaceOpenedForJoin_def)

lemma notify_leave_quiet [simp]:
  "db_rooms (notifySpaceParticipantsToLeave r h x s) = db_rooms s" "db_parts (notifySpaceParticipantsToLeave r h x s) = db_parts s" "db_restricted (notifySpaceParticipantsToLeave r h x s) = db_restricted s"
  by (simp_all add: notifySpaceParticipantsToLeave_def)

lemma invite_status_quiet [simp]:
  "db_rooms (set_invite_status i st s) = db_rooms s" "db_parts (set_invite_status i st s) = db_parts s" "db_restricted (set_invite_status i st s) = db_restricted s"
  by (simp_all add: set_invite_status_def)

lemma cancel_invite_quiet [simp]:
  "db_rooms (cancelFriendInviteForRoomInvitee r u s) = db_rooms s" "db_parts (cancelFriendInviteForRoomInvitee r u s) = db_parts s" "db_restricted (cancelFriendInviteForRoomInvitee r u s) = db_restricted s"
  by (simp_all add: cancelFriendInviteForRoomInvitee_def)

lemma provision_quiet [simp]:
  "db_rooms (provisionSessionRoomRedis now r h ty title gate s) = db_rooms s" "db_parts (provisionSessionRoomRedis now r h ty title gate s) = db_parts s" "db_restricted (provisionSessionRoomRedis now r h ty title gate s) = db_restricted s"
  by (simp_all add: provisionSessionRoomRedis_def)

lemma provision_call_quiet [simp]:
  "db_rooms (provisionConnectionCallSessionRoomRedis now r h title c s) = db_rooms s" "db_parts (provisionConnectionCallSessionRoomRedis now r h title c s) = db_parts s" "db_restricted (provisionConnectionCallSessionRoomRedis now r h title c s) = db_restricted s"
  by (simp_all add: provisionConnectionCallSessionRoomRedis_def)

lemma patch_expand_quiet [simp]:
  "db_rooms (patchSessionRoomRedisSpaceExpand r s) = db_rooms s" "db_parts (patchSessionRoomRedisSpaceExpand r s) = db_parts s" "db_restricted (patchSessionRoomRedisSpaceExpand r s) = db_restricted s"
  by (simp_all add: patchSessionRoomRedisSpaceExpand_def)

lemma patch_title_quiet [simp]:
  "db_rooms (patchSessionRoomRedisTitle r title s) = db_rooms s" "db_parts (patchSessionRoomRedisTitle r title s) = db_parts s" "db_restricted (patchSessionRoomRedisTitle r title s) = db_restricted s"
  by (simp_all add: patchSessionRoomRedisTitle_def)

lemma clear_gate_quiet [simp]:
  "db_rooms (snd (clearSpaceLobbyGateInRedis r s)) = db_rooms s" "db_parts (snd (clearSpaceLobbyGateInRedis r s)) = db_parts s" "db_restricted (snd (clearSpaceLobbyGateInRedis r s)) = db_restricted s"
  by (simp_all add: clearSpaceLobbyGateInRedis_def)

lemma call_history_quiet [simp]:
  "db_rooms (recordConnectionCallHistory c u v st d s) = db_rooms s" "db_parts (recordConnectionCallHistory c u v st d s) = db_parts s" "db_restricted (recordConnectionCallHistory c u v st d s) = db_restricted s"
  by (simp_all add: recordConnectionCallHistory_def)

lemma set_call_quiet [simp]:
  "db_rooms (setActiveConnectionCall r m s) = db_rooms s" "db_parts (setActiveConnectionCall r m s) = db_parts s" "db_restricted (setActiveConnectionCall r m s) = db_restricted s"
  by (simp_all add: setActiveConnectionCall_def)

lemma clear_call_quiet [simp]:
  "db_rooms (clearActiveConnectionCall r s) = db_rooms s" "db_parts (clearActiveConnectionCall r s) = db_parts s" "db_restricted (clearActiveConnectionCall r s) = db_restricted s"
  by (simp_all add: clearActiveConnectionCall_def)

lemma live_after_quiet [simp]:
  "db_rooms (runLiveSpaceAfterMarkLive env r h ty title n gate s) = db_rooms s" "db_parts (runLiveSpaceAfterMarkLive env r h ty title n gate s) = db_parts s" "db_restricted (runLiveSpaceAfterMarkLive env r h ty title n gate s) = db_restricted s"
  by (simp_all add: runLiveSpaceAfterMarkLive_def Let_def)

lemma call_invite_quiet [simp]:
  "db_rooms (set_call_invite i fvs s) = db_rooms s" "db_parts (set_call_invite i fvs s) = db_parts s" "db_restricted (set_call_invite i fvs s) = db_restricted s"
  by (simp_all add: set_call_invite_def)

lemma cleanup_quiet [simp]:
  "db_rooms (cleanupInvite call s) = db_rooms s" "db_parts (cleanupInvite call s) = db_parts s" "db_restricted (cleanupInvite call s) = db_restricted s"
  by (simp_all add: cleanupInvite_def)

lemma call_status_quiet [simp]:
  "db_rooms (set_status call st s) = db_rooms s" "db_parts (set_status call st s) = db_parts s" "db_restricted (set_status call st s) = db_restricted s"
  by (simp_all add: set_status_def)

lemma sync_invites_quiet [simp]:
  "db_rooms (sync_invites newId r h us s) = db_rooms s" "db_parts (sync_invites newId r h us s) = db_parts s" "db_restricted (sync_invites newId r h us s) = db_restricted s"
  by (simp_all add: sync_invites_def split: option.split)


lemma clear_all_quiet [simp]:
  "db_rooms (clear_all_active us s) = db_rooms s" "db_parts (clear_all_active us s) = db_parts s"
  "db_restricted (clear_all_active us s) = db_restricted s"
proof -
  have "db_rooms (clear_all_active us s) = db_rooms s \<and> db_parts (clear_all_active us s) = db_parts s
      \<and> db_restricted (clear_all_active us s) = db_restricted s"
    unfolding clear_all_active_def by (induction us arbitrary: s) simp_all
  then show "db_rooms (clear_all_active us s) = db_rooms s" "db_parts (clear_all_active us s) = db_parts s"
    "db_restricted (clear_all_active us s) = db_restricted s" by simp_all
qed

lemma finalize_history_quiet [simp]:
  "db_rooms (finalizeConnectionCallHistory now f r s) = db_rooms s"
  "db_parts (finalizeConnectionCallHistory now f r s) = db_parts s"
  "db_restricted (finalizeConnectionCallHistory now f r s) = db_restricted s"
  by (simp_all add: finalizeConnectionCallHistory_def Let_def split: option.split)

lemma pending_outcome_quiet [simp]:
  "db_rooms (recordPendingCallOutcome f call st s) = db_rooms s"
  "db_parts (recordPendingCallOutcome f call st s) = db_parts s"
  "db_restricted (recordPendingCallOutcome f call st s) = db_restricted s"
  by (simp_all add: recordPendingCallOutcome_def)

lemma same_rows [simp]:
  "isUserRoomParticipant r u (s\<lparr>db_invites := i\<rparr>) = isUserRoomParticipant r u s"
  by (simp add: isUserRoomParticipant_def listActiveParticipantUserIds_def)

lemma well_after:
  "well t s s1 \<Longrightarrow> db_rooms s' = db_rooms s1 \<Longrightarrow> db_parts s' = db_parts s1 \<Longrightarrow> db_restricted s' = db_restricted s1 \<Longrightarrow> well t s s'"
  using well_trans well_quiet by blast

subsection \<open>Writes to the rows\<close>

lemma mark_left_well: "well t s (markParticipantLeft now r u s)"
  unfolding markParticipantLeft_def by (rule well_map_parts) (auto simp: leave_row_def is_active_def split: if_splits)

lemma all_left_well: "well t s (put_parts r (map (leave_row now) (db_parts s r)) s)"
  by (rule well_map_parts) (auto simp: leave_row_def is_active_def split: if_splits)

lemma add_participant_well:
  assumes "\<And>row. db_rooms s r = Some row \<Longrightarrow> tm_roomType row = Direct \<or> u = rr_hostUserId row \<or> \<not> isRoomRestrictedUser r u s"
  shows "well t s (addOrReactivateParticipantRow now r u s)"
  unfolding addOrReactivateParticipantRow_def by (rule well_admit) (use assms in auto)

lemma add_host_well:
  assumes "\<And>row. db_rooms s r = Some row \<Longrightarrow> tm_roomType row = Direct \<or> u = rr_hostUserId row \<or> \<not> isRoomRestrictedUser r u s"
  shows "well t s (addOrReactivateHostRow now r u s)"
  unfolding addOrReactivateHostRow_def by (rule well_admit) (use assms in auto)

lemma mark_live_well: "well t s (snd (markRoomLive r now s))"
  unfolding markRoomLive_def by (rule well_update) (auto intro!: allowed_open simp: Let_def row_ok_def split: prod.split)

lemma sync_expiry_well: "well t s (snd (syncSpaceRoomExpiryIfPastDue t r s))"
  unfolding syncSpaceRoomExpiryIfPastDue_def by (rule well_update) (rule allowed_expire)

lemma join_grace_well: "well t s (snd (expireScheduledJoinGraceMissed now r s))"
  unfolding expireScheduledJoinGraceMissed_def by (rule well_update) (rule allowed_expire)

lemma title_well: "well t s (snd (updateLiveRoomTitle r title s))"
  unfolding updateLiveRoomTitle_def by (rule well_update, rule allowed_same_times) (simp_all add: row_ok_def)

lemma cancel_scheduled_well: "well t s (snd (cancelScheduledSpaceByHost r h s))"
  unfolding cancelScheduledSpaceByHost_def by (rule well_update) (auto intro!: allowed_open simp: row_ok_def)

text \<open>The writes that would revive an overdue session: they happen only to a session that is not.\<close>

definition open_at :: "int \<Rightarrow> string \<Rightarrow> main_store \<Rightarrow> bool" where
  "open_at t r s \<longleftrightarrow> (\<forall>row. db_rooms s r = Some row \<longrightarrow> open_row t row)"

lemma restart_well: "open_at t r s \<Longrightarrow> well t s (restartLiveSessionClockIfNoActiveParticipants now r s)"
  by (auto simp: restartLiveSessionClockIfNoActiveParticipants_def open_at_def row_ok_def intro!: well_room allowed_open split: option.split)

lemma cap_well: "open_at t r s \<Longrightarrow> well t s (applyExpiresAtCapIfSooner r cap s)"
  by (auto simp: applyExpiresAtCapIfSooner_def open_at_def row_ok_def intro!: well_room allowed_open split: option.split)

lemma refresh_well: "open_at t r s \<Longrightarrow> well t s (refreshLiveSpaceExpiryAfterParticipantJoin now r s)"
  unfolding refreshLiveSpaceExpiryAfterParticipantJoin_def
  by (rule well_update) (auto simp: open_at_def row_ok_def intro!: allowed_open split: prod.split)

lemma guest_cap_well: "open_at t r s \<Longrightarrow> well t s (syncGuestMatchRoomSessionCap env r s)"
  by (auto simp: syncGuestMatchRoomSessionCap_def intro!: cap_well split: option.split)

lemma end_tx_well:
  assumes room: "db_rooms s r = Some room" and "open_row t room"
  shows "well t s (snd (endLiveRoomSessionTx now r room preserve s))"
proof -
  let ?s1 = "put_parts r (map (leave_row now) (db_parts s r)) s"
  have s1: "well t s ?s1" by (rule all_left_well)
  have upd: "well t ?s1 (snd (update_room r c u ?s1))"
    if "\<And>row. rr_hostUserId (u row) = rr_hostUserId row" "\<And>row. tm_roomType (u row) = tm_roomType row"
      "\<And>row. c row \<Longrightarrow> row_ok row \<Longrightarrow> row_ok (u row)" for c u
    by (rule well_update) (use assms that in \<open>auto intro!: allowed_open\<close>)
  show ?thesis
  proof (cases "tm_roomType room = Space \<and> preserve")
    case False
    then have "endLiveRoomSessionTx now r room preserve s = update_room r (\<lambda>row. tm_status row = Live) (end_row now) ?s1"
      by (auto simp: endLiveRoomSessionTx_def Let_def)
    then show ?thesis using well_trans [OF s1 upd [of "end_row now"]] by (simp add: end_row_def row_ok_def)
  next
    case True
    obtain e x where ex: "computeRoomExpiryFields (room\<lparr>tm_status := Scheduled\<rparr>) now = (e, x)" by (cases "computeRoomExpiryFields (room\<lparr>tm_status := Scheduled\<rparr>) now")
    let ?c = "\<lambda>row. tm_roomType row = Space \<and> tm_status row = Live"
    let ?u = "\<lambda>row. row\<lparr>tm_status := Scheduled, rr_endedAt := None, tm_startedAt := None, rr_rtcRoomId := None,
        rr_expiresAt := e, rr_isExpired := x\<rparr>"
    obtain b s2 where s2: "update_room r ?c ?u ?s1 = (b, s2)" by (cases "update_room r ?c ?u ?s1")
    have w2: "well t s s2" using well_trans [OF s1 upd [of ?u ?c]] s2 by (simp add: row_ok_def)
    have h: "rr_hostUserId room = rr_hostUserId row" if "db_rooms s2 r = Some row" for row
      using s2 room that by (auto simp: update_room_def split: if_splits)
    have "well t s2 (put_parts r (map (\<lambda>p. if pt_userId p = rr_hostUserId room then p\<lparr>pt_leftAt := None\<rparr> else p) (db_parts s2 r)) s2)"
      by (rule well_map_parts) (use h in \<open>auto split: if_splits\<close>)
    with w2 show ?thesis
      using True well_trans by (auto simp: endLiveRoomSessionTx_def Let_def ex s2)
  qed
qed

subsection \<open>Sessions\<close>

lemma end_live_well: "well (re_now env) s (snd (endLiveRoomSession env r reason options s))"
proof (cases "db_rooms s r")
  case None
  then show ?thesis by (simp add: endLiveRoomSession_def findRoomById_def)
next
  case (Some room)
  show ?thesis
  proof (cases "row_closed (re_now env) room \<or> tm_status room \<noteq> Live")
    case True
    then show ?thesis using Some by (auto simp: endLiveRoomSession_def findRoomById_def intro: well_quiet)
  next
    case False
    then have "open_row (re_now env) room" by (simp add: open_live)
    note w = end_tx_well [OF Some this, of "re_now env" "shouldPreserveScheduledSlot room reason options"]
    obtain b s1 where "endLiveRoomSessionTx (re_now env) r room (shouldPreserveScheduledSlot room reason options) s = (b, s1)"
      by fastforce
    with False Some w show ?thesis
      by (auto simp: endLiveRoomSession_def findRoomById_def Let_def split: option.split intro: well_after)
  qed
qed

lemma end_result_exclusive: "es_alreadyClosed (fst (endLiveRoomSession env r reason options s))
    \<longleftrightarrow> \<not> es_ended (fst (endLiveRoomSession env r reason options s))"
  by (auto simp: endLiveRoomSession_def Let_def split: option.split prod.split)

lemma reconcile_well: "well (re_now env) s (snd (reconcileRoomSessionOnAccess env r s))"
proof -
  have "well (re_now env) s (deleteSessionRoomRedis r s)" by (rule well_quiet) simp_all
  moreover have "well (re_now env) s (if b then deleteSessionRoomRedis r s1 else s1)"
    if "expireScheduledJoinGraceMissed (re_now env) r s = (b, s1)" for b s1
    using join_grace_well [of "re_now env" s "re_now env" r] that by (auto intro: well_after)
  ultimately show ?thesis
    using end_live_well [of env s r]
    by (auto simp: reconcileRoomSessionOnAccess_def Let_def split: option.split prod.split dest!: sym [of "(_, _)"]) (metis snd_conv)+
qed

text \<open>A session that the check lets pass is not overdue and not over.\<close>

lemma reconcile_open:
  assumes "reconcileRoomSessionOnAccess env r s = (res, s1)" "\<not> rc_closed res"
  shows "open_at (re_now env) r s1" "s1 = s"
proof -
  have "open_at (re_now env) r s1 \<and> s1 = s"
  proof (cases "db_rooms s r")
    case None
    then show ?thesis using assms by (auto simp: reconcileRoomSessionOnAccess_def findRoomById_def open_at_def)
  next
    case (Some room)
    then have live: "tm_status room \<noteq> Ended" "tm_status room \<noteq> Cancelled"
      using assms by (auto simp: reconcileRoomSessionOnAccess_def findRoomById_def)
    let ?e = "evaluateRoomSessionEndReason room (rr_isExpired room) (rr_expiresAt room) (loadParticipantPresence r s) (re_now env)"
    show ?thesis
    proof (cases ?e)
      case None
      then have "s1 = s" using assms Some live by (auto simp: reconcileRoomSessionOnAccess_def findRoomById_def split: if_splits)
      moreover have "open_row (re_now env) room"
        using None live by (cases "tm_status room") (auto simp: evaluateRoomSessionEndReason_def open_row_def phase_def row_closed_def
            isDbRoomSessionClosed_def split: if_splits)
      ultimately show ?thesis using Some by (simp add: open_at_def)
    next
      case (Some reason)
      show ?thesis
      proof (cases "reason = Join_grace_missed")
        case True
        have "tm_status room = Scheduled" using Some True
          by (auto simp: evaluateRoomSessionEndReason_def split: if_splits)
        moreover have "s1 = s"
          using assms \<open>db_rooms s r = Some room\<close> Some True live
          by (auto simp: reconcileRoomSessionOnAccess_def findRoomById_def Let_def expireScheduledJoinGraceMissed_def update_room_def
              split: if_splits)
        ultimately show ?thesis using \<open>db_rooms s r = Some room\<close> by (simp add: open_at_def)
      next
        case False
        let ?o = "\<lparr>eo_preserveScheduledSlot = None, eo_notifyParticipants = Some (tm_roomType room = Space),
            eo_excludeUserIdFromNotify = None\<rparr>"
        obtain e s2 where "endLiveRoomSession env r reason ?o s = (e, s2)" by fastforce
        with False show ?thesis
          using assms \<open>db_rooms s r = Some room\<close> Some live end_result_exclusive [of env r reason ?o s]
          by (simp add: reconcileRoomSessionOnAccess_def findRoomById_def Let_def) auto
      qed
    qed
  qed
  then show "open_at (re_now env) r s1" "s1 = s" by blast+
qed

lemma assert_open:
  assumes "assertRoomSessionOpenOnAccess env r s = (None, s1)"
  shows "open_at (re_now env) r s1" "s1 = s"
  using assms reconcile_open [of env r s] by (auto simp: assertRoomSessionOpenOnAccess_def Let_def split: prod.splits if_splits)

lemma assert_well: "well (re_now env) s (snd (assertRoomSessionOpenOnAccess env r s))"
  using reconcile_well [of env s r] by (auto simp: assertRoomSessionOpenOnAccess_def Let_def split: prod.split)

lemma sweep_well: "well (re_now env) s (snd (sweep_rooms env rs s))"
proof (induction rs arbitrary: s)
  case (Cons r rs)
  obtain res s1 where r: "reconcileRoomSessionOnAccess env r s = (res, s1)" by fastforce
  obtain e s2 where "sweep_rooms env rs s1 = (e, s2)" by fastforce
  with r Cons [of s1] reconcile_well [of env s r] show ?case by (auto intro: well_trans)
qed simp

lemma sweep_due_well: "well (re_now env) s (snd (sweepDueRoomSessions env rows m s))"
  using sweep_well by (auto simp: sweepDueRoomSessions_def Let_def split: prod.split dest!: sym [of "(_, _)"]) (metis snd_conv)

lemma auto_start_well: "well (re_now env) s (maybeAutoStartScheduledSpaceFromDb env r s)"
proof -
  obtain b s1 where m: "markRoomLive r (re_now env) s = (b, s1)" by fastforce
  have w: "well (re_now env) s s1" using mark_live_well [of "re_now env" s r "re_now env"] m by simp
  then have "well (re_now env) s (runLiveSpaceAfterMarkLive env r h ty title n g s1)" for h ty title n g
    by (rule well_after) simp_all
  with w show ?thesis by (simp add: maybeAutoStartScheduledSpaceFromDb_def Let_def m split: option.split)
qed

lemma start_well: "well (re_now env) s (snd (startRoomSessionService env h r s))"
proof -
  obtain a s1 where a: "assertRoomSessionOpenOnAccess env r s = (a, s1)" by fastforce
  obtain b s2 where m: "markRoomLive r (re_now env) s1 = (b, s2)" by fastforce
  have w1: "well (re_now env) s s1" using assert_well [of env s r] a by simp
  moreover from this have w2: "well (re_now env) s s2" using mark_live_well [of "re_now env" s1 r "re_now env"] m well_trans by auto
  moreover have "well (re_now env) s (runLiveSpaceAfterMarkLive env r h ty title n g s2)" for h ty title n g
    by (rule well_after [OF w2]) simp_all
  ultimately show ?thesis
    by (auto simp: startRoomSessionService_def a m Let_def fail_def split: option.split bool.split)
qed

lemma match_room_well: "db_rooms s r = None \<Longrightarrow> a \<noteq> b \<Longrightarrow> well (re_now env) s (handleCreateRoom env r attempt pid a b s)"
proof -
  assume new: "db_rooms s r = None" and ab: "a \<noteq> b"
  have "open_at (re_now env) r (createMatchPairRoom (re_now env) r a b s)"
    by (simp add: open_at_def createMatchPairRoom_def direct_row_def open_live row_closed_def isDbRoomSessionClosed_def computeIsExpired_def)
  moreover have "well (re_now env) s (createMatchPairRoom (re_now env) r a b s)"
    unfolding createMatchPairRoom_def by (rule well_create [OF new]) (use ab in \<open>simp_all add: row_ok_def direct_row_def\<close>)
  ultimately have "well (re_now env) s (syncGuestMatchRoomSessionCap env r (createMatchPairRoom (re_now env) r a b s))"
    using guest_cap_well well_trans by blast
  then show ?thesis unfolding handleCreateRoom_def by (rule well_after) simp_all
qed

end
