(* ===== verification/RoomTraffic.thy ===== *)
theory RoomTraffic
  imports RoomRequests
begin

text \<open>
  Every request that moves people: joining, tokens, the lobby, leaving, kicking, inviting, planning and
  calling. Each makes the store evolve well.
\<close>

subsection \<open>Coming in\<close>

lemma added [simp]:
  "isUserRoomParticipant r u (addOrReactivateParticipantRow now r u s)" "isUserRoomParticipant r u (addOrReactivateHostRow now r u s)"
  unfolding addOrReactivateParticipantRow_def addOrReactivateHostRow_def by (auto simp: upsert_part_def is_active_def image_iff)

lemma added_rooms [simp]:
  "db_rooms (addOrReactivateParticipantRow now r u s) = db_rooms s" "db_rooms (addOrReactivateHostRow now r u s) = db_rooms s"
  by (simp_all add: addOrReactivateParticipantRow_def addOrReactivateHostRow_def)

lemma in_call: "isUserRoomParticipant r u s \<Longrightarrow> countActiveParticipants r s > 0"
  by (auto simp: isUserRoomParticipant_def listActiveParticipantUserIds_def countActiveParticipants_def filter_empty_conv)

lemma active_row: "findRoomParticipant r u s = Some p \<Longrightarrow> pt_leftAt p = None \<Longrightarrow> isUserRoomParticipant r u s"
  by (auto simp: findRoomParticipant_def find_Some_iff isUserRoomParticipant_def listActiveParticipantUserIds_def is_active_def)

lemma admit_well:
  assumes "db_rooms s r = Some room" "tm_roomType room = Direct \<or> u = rr_hostUserId room \<or> \<not> isRoomRestrictedUser r u s"
  shows "well t s (addOrReactivateParticipantRow now r u s)" "well t s (addOrReactivateHostRow now r u s)"
  using assms by (auto intro!: add_participant_well add_host_well)

lemma ensure_direct:
  assumes room: "db_rooms s r = Some room" "tm_roomType room = Direct"
  shows "well t s (snd (ensureDirectRoomParticipation env u r room s))"
    and "db_rooms (snd (ensureDirectRoomParticipation env u r room s)) = db_rooms s"
    and "fst (ensureDirectRoomParticipation env u r room s) = Inr () \<Longrightarrow>
      isUserRoomParticipant r u (snd (ensureDirectRoomParticipation env u r room s))"
proof -
  have w: "well t s (addOrReactivateParticipantRow (re_now env) r u s)" "well t s (addOrReactivateHostRow (re_now env) r u s)"
    using room by (simp_all add: admit_well)
  show "well t s (snd (ensureDirectRoomParticipation env u r room s))"
    using w by (simp add: ensureDirectRoomParticipation_def Let_def split: option.split)
  show "db_rooms (snd (ensureDirectRoomParticipation env u r room s)) = db_rooms s"
    by (simp add: ensureDirectRoomParticipation_def Let_def split: option.split)
  show "isUserRoomParticipant r u (snd (ensureDirectRoomParticipation env u r room s))"
    if "fst (ensureDirectRoomParticipation env u r room s) = Inr ()"
    using that active_row [of r u s]
    by (auto simp: ensureDirectRoomParticipation_def Let_def not_allowed_def fail_def split: option.splits if_splits)
qed

lemma ensure_space:
  assumes room: "db_rooms s r = Some room"
  shows "well t s (snd (ensureSpaceRoomParticipation env u r room s))"
    and "db_rooms (snd (ensureSpaceRoomParticipation env u r room s)) = db_rooms s"
    and "fst (ensureSpaceRoomParticipation env u r room s) = Inr () \<Longrightarrow>
      isUserRoomParticipant r u (snd (ensureSpaceRoomParticipation env u r room s))"
proof -
  show "well t s (snd (ensureSpaceRoomParticipation env u r room s))"
    using admit_well [OF room, of u] by (simp add: ensureSpaceRoomParticipation_def Let_def)
  show "db_rooms (snd (ensureSpaceRoomParticipation env u r room s)) = db_rooms s"
    by (simp add: ensureSpaceRoomParticipation_def Let_def)
  show "isUserRoomParticipant r u (snd (ensureSpaceRoomParticipation env u r room s))"
    if "fst (ensureSpaceRoomParticipation env u r room s) = Inr ()"
    using that by (auto simp: ensureSpaceRoomParticipation_def Let_def not_allowed_def fail_def split: if_splits)
qed

text \<open>The direct call, if it is one, is not overdue.\<close>

definition direct_open :: "int \<Rightarrow> string \<Rightarrow> main_store \<Rightarrow> bool" where
  "direct_open t r s \<longleftrightarrow> (\<forall>row. db_rooms s r = Some row \<longrightarrow> tm_roomType row = Direct \<longrightarrow> open_row t row)"

lemma direct_open: "open_at t r s \<Longrightarrow> direct_open t r s"
  by (simp add: direct_open_def open_at_def)

lemma guest_cap_direct: "direct_open t r s \<Longrightarrow> well t s (syncGuestMatchRoomSessionCap env r s)"
  by (auto simp: syncGuestMatchRoomSessionCap_def direct_open_def findRoomById_def open_at_def intro!: cap_well split: option.split)

lemma join_lobby_well:
  assumes "db_rooms s r = Some room"
  shows "well t s (snd (join_lobby env u r room s))"
  using ensure_space(1) [OF assms, of t env u] by (auto simp: join_lobby_def fail_def split: prod.split sum.split dest!: sym [of "(_, _)"])

lemma join_live:
  assumes room: "db_rooms s r = Some room" and "open_at (re_now env) r s"
  shows "well (re_now env) s (snd (join_live env u r room s))"
    and "fst (join_live env u r room s) = Inr j \<Longrightarrow> isUserRoomParticipant r u (snd (join_live env u r room s)) \<and>
      direct_open (re_now env) r (snd (join_live env u r room s)) \<and> tm_status room = Live \<and> jn_room j = room \<and> jn_rtcEligible j"
proof -
  let ?P = "\<lambda>x. well (re_now env) s (snd x) \<and> (\<forall>j. fst x = Inr j \<longrightarrow> isUserRoomParticipant r u (snd x) \<and>
      direct_open (re_now env) r (snd x) \<and> tm_status room = Live \<and> jn_room j = room \<and> jn_rtcEligible j)"
  have "?P (join_live env u r room s)"
  proof (cases "tm_status room \<noteq> Live \<or> isUserRoomParticipant r u s")
    case True
    then show ?thesis using assms by (auto simp: join_live_def fail_def direct_open)
  next
    case False
    show ?thesis
    proof (cases "tm_roomType room")
      case Direct
      obtain x s1 where e: "ensureDirectRoomParticipation env u r room s = (x, s1)" by fastforce
      then have "direct_open (re_now env) r s1"
        using ensure_direct(2) [OF room Direct, of env u] assms(2) by (simp add: direct_open_def open_at_def)
      then show ?thesis
        using False Direct e ensure_direct(1) [OF room Direct, of _ env u] ensure_direct(3) [OF room Direct, of env u]
        by (auto simp: join_live_def fail_def split: sum.split)
    next
      case Space
      obtain x s1 where e: "ensureSpaceRoomParticipation env u r room s = (x, s1)" by fastforce
      note es = ensure_space(1) [OF room, of _ env u] ensure_space(2,3) [OF room, of env u]
      have o1: "open_at (re_now env) r s1" using assms(2) es(2) e by (simp add: open_at_def)
      let ?s2 = "refreshLiveSpaceExpiryAfterParticipantJoin (re_now env) r s1"
      have "direct_open (re_now env) r ?s2"
        using es(2) e room Space by (auto simp: direct_open_def refreshLiveSpaceExpiryAfterParticipantJoin_def update_room_def split: prod.splits)
      moreover have "isUserRoomParticipant r u ?s2 = isUserRoomParticipant r u s1"
        by (simp add: refreshLiveSpaceExpiryAfterParticipantJoin_def update_room_def split: option.split prod.split)
      moreover have "well (re_now env) s s1" using es(1) e by simp
      ultimately show ?thesis
        using False Space e es(3) refresh_well [OF o1, of "re_now env"] well_trans
        by (auto simp: join_live_def fail_def split: sum.split)
    qed
  qed
  then show "well (re_now env) s (snd (join_live env u r room s))"
    and "fst (join_live env u r room s) = Inr j \<Longrightarrow> isUserRoomParticipant r u (snd (join_live env u r room s)) \<and>
      direct_open (re_now env) r (snd (join_live env u r room s)) \<and> tm_status room = Live \<and> jn_room j = room \<and> jn_rtcEligible j"
    by blast+
qed

lemma join_lobby_in: "db_rooms s r = Some room \<Longrightarrow> fst (join_lobby env u r room s) = Inr j \<Longrightarrow>
    \<not> jn_rtcEligible j \<and> isUserRoomParticipant r u (snd (join_lobby env u r room s))"
  using ensure_space(3) [of s r room env u] by (auto simp: join_lobby_def fail_def split: if_splits prod.splits sum.splits)

lemma auto_started_well: "well (re_now env) s (auto_started env r room s)"
  by (simp add: auto_started_def auto_start_well)

text \<open>What joining promises: the user is in, and a room that calls is live and may run on.\<close>

definition has_joined :: "int \<Rightarrow> string \<Rightarrow> string \<Rightarrow> join_result \<Rightarrow> main_store \<Rightarrow> bool" where
  "has_joined t r u j s \<longleftrightarrow> isUserRoomParticipant r u s \<and> (jn_rtcEligible j \<longrightarrow> tm_status (jn_room j) = Live \<and> direct_open t r s)"

lemma join_service:
  shows "well (re_now env) s (snd (joinRoomService env u r s))"
    and "fst (joinRoomService env u r s) = Inr j \<Longrightarrow> has_joined (re_now env) r u j (snd (joinRoomService env u r s))"
proof -
  let ?P = "\<lambda>x. well (re_now env) s (snd x) \<and> (\<forall>j. fst x = Inr j \<longrightarrow> has_joined (re_now env) r u j (snd x))"
  have failing: "?P (fail a b c, s')" if "well (re_now env) s s'" for a b c s'
    using that by (simp add: fail_def)
  have "?P (joinRoomService env u r s)"
  proof (cases "findRoomById r s")
    case None
    then show ?thesis by (simp add: joinRoomService_def fail_def)
  next
    case (Some room0)
    let ?s1 = "auto_started env r room0 s"
    have w1: "well (re_now env) s ?s1" by (rule auto_started_well)
    show ?thesis
    proof (cases "assertGuestMayAccessRoom env u room0")
      case (Some e)
      with \<open>findRoomById r s = Some room0\<close> show ?thesis by (simp add: joinRoomService_def)
    next
      case None
      show ?thesis
      proof (cases "findRoomById r ?s1")
        case None
        with \<open>findRoomById r s = Some room0\<close> \<open>assertGuestMayAccessRoom env u room0 = None\<close> w1
        show ?thesis by (simp add: joinRoomService_def fail_def Let_def)
      next
        case (Some room1)
        obtain a s2 where a: "assertRoomSessionOpenOnAccess env r ?s1 = (a, s2)" by fastforce
        note start = \<open>findRoomById r s = Some room0\<close> \<open>assertGuestMayAccessRoom env u room0 = None\<close> Some a
        show ?thesis
        proof (cases a)
          case (Some m)
          have "well (re_now env) s s2" using assert_well [of env ?s1 r] a w1 well_trans by auto
          with start Some show ?thesis by (cases m) (simp add: joinRoomService_def Let_def fail_def)
        next
          case None
          then have s2: "s2 = ?s1" "open_at (re_now env) r ?s1" using assert_open [of env r ?s1 s2] a by auto
          then have row: "db_rooms s2 r = Some room1" using \<open>findRoomById r ?s1 = Some room1\<close> by (simp add: findRoomById_def)
          have w2: "well (re_now env) s s2" using w1 s2(1) by simp
          have "joinRoomService env u r s =
              (if tm_roomType room1 = Space \<and> tm_status room1 \<noteq> Live then join_lobby env u r room1 s2 else join_live env u r room1 s2)"
            using start None s2(1) by (simp add: joinRoomService_def Let_def)
          moreover have "?P (join_lobby env u r room1 s2)"
            using join_lobby_well [OF row, of "re_now env" env u] join_lobby_in [OF row] w2 well_trans by (auto simp: has_joined_def)
          moreover have "?P (join_live env u r room1 s2)"
            using join_live [OF row, of env u] s2 w2 well_trans by (auto simp: has_joined_def)
          ultimately show ?thesis by simp
        qed
      qed
    qed
  qed
  then show "well (re_now env) s (snd (joinRoomService env u r s))"
    and "fst (joinRoomService env u r s) = Inr j \<Longrightarrow> has_joined (re_now env) r u j (snd (joinRoomService env u r s))"
    by blast+
qed

subsection \<open>Tokens\<close>

lemma restart_same [simp]:
  "db_parts (restartLiveSessionClockIfNoActiveParticipants now r s) = db_parts s"
  "db_restricted (restartLiveSessionClockIfNoActiveParticipants now r s) = db_restricted s"
  by (simp_all add: restartLiveSessionClockIfNoActiveParticipants_def put_room_def split: option.split)

lemma restart_direct:
  "direct_open t r s \<Longrightarrow> direct_open t r (restartLiveSessionClockIfNoActiveParticipants t r s)"
  by (auto simp: direct_open_def restartLiveSessionClockIfNoActiveParticipants_def open_live row_closed_def isDbRoomSessionClosed_def
      computeIsExpired_def computeLiveSessionExpiresAt_def computeSessionCapDeadline_def DIRECT_SESSION_MAX_MS_def addMs_def split: option.split)

text \<open>The room may run on, or somebody is in it.\<close>

definition issuable :: "int \<Rightarrow> string \<Rightarrow> main_store \<Rightarrow> bool" where
  "issuable t r s \<longleftrightarrow> direct_open t r s \<and> (open_at t r s \<or> countActiveParticipants r s > 0)"

lemma restart_issuable:
  "issuable t r s \<Longrightarrow> well t s (restartLiveSessionClockIfNoActiveParticipants t r s)"
  by (auto simp: issuable_def restart_well) (auto simp: restartLiveSessionClockIfNoActiveParticipants_def split: option.split)

lemma issue_well:
  assumes "issuable (re_now env) r s"
  shows "well (re_now env) s (snd (issue_for_row env u r after room s))"
proof -
  let ?s1 = "restartLiveSessionClockIfNoActiveParticipants (re_now env) r s"
  have w: "well (re_now env) s ?s1" using assms by (rule restart_issuable)
  have "well (re_now env) ?s1 (syncGuestMatchRoomSessionCap env r ?s1)"
    using assms by (intro guest_cap_direct restart_direct) (simp add: issuable_def)
  with w have "well (re_now env) s (snd (finalizeRtcTokenIssue env u r room ?s1))"
    by (auto simp: finalizeRtcTokenIssue_def intro: well_after well_trans)
  with w show ?thesis by (simp add: issue_for_row_def Let_def fail_def not_allowed_def)
qed

lemma issue_token_well: "well (re_now env) s (snd (issueRtcTokenService env u r s))"
proof (cases "findRoomById r s")
  case None
  then show ?thesis by (simp add: issueRtcTokenService_def fail_def)
next
  case (Some room0)
  let ?s1 = "auto_started env r room0 s"
  have w1: "well (re_now env) s ?s1" by (rule auto_started_well)
  obtain a s2 where a: "assertRoomSessionOpenOnAccess env r ?s1 = (a, s2)" by fastforce
  have w2: "well (re_now env) s s2" using assert_well [of env ?s1 r] a w1 well_trans by auto
  show ?thesis
  proof (cases a)
    case None
    then have "issuable (re_now env) r s2" using assert_open [of env r ?s1 s2] a by (auto simp: issuable_def direct_open)
    then have "well (re_now env) s (snd (issue_for_row env u r False room s2))" for room
      using issue_well [of env r s2] w2 well_trans by blast
    with Some None a show ?thesis by (simp add: issueRtcTokenService_def Let_def split: option.split)
  next
    case (Some m)
    with \<open>findRoomById r s = Some room0\<close> a w2 show ?thesis
      by (cases m) (auto simp: issueRtcTokenService_def Let_def fail_def split: option.split)
  qed
qed

lemma join_route_well: "well (re_now env) s (snd (handleJoinRoom env u r s))"
proof -
  obtain x s1 where j: "joinRoomService env u r s = (x, s1)" by fastforce
  have w: "well (re_now env) s s1" using join_service(1) [of env s u r] j by simp
  show ?thesis
  proof (cases x)
    case (Inl e)
    with j w show ?thesis by (simp add: handleJoinRoom_def)
  next
    case (Inr k)
    show ?thesis
    proof (cases "jn_rtcEligible k")
      case True
      then have "issuable (re_now env) r s1"
        using join_service(2) [of env u r s k] j Inr by (auto simp: has_joined_def issuable_def dest: in_call)
      then have "well (re_now env) s (snd (issue_for_row env u r True (jn_room k) s1))"
        using issue_well w well_trans by blast
      with j Inr True show ?thesis by (auto simp: handleJoinRoom_def split: prod.split sum.split)
    qed (use j Inr w in \<open>simp add: handleJoinRoom_def\<close>)
  qed
qed

lemma open_meeting_well: "well (re_now env) s (snd (openSpaceMeetingService env u r s))"
proof -
  obtain a s1 where a: "assertRoomSessionOpenOnAccess env r s = (a, s1)" by fastforce
  have w: "well (re_now env) s s1" using assert_well [of env s r] a by simp
  obtain ok s2 where g: "clearSpaceLobbyGateInRedis r s1 = (ok, s2)" by fastforce
  have w2: "well (re_now env) s s2" by (rule well_after [OF w]) (use clear_gate_quiet [of r s1] g in simp_all)
  then have "well (re_now env) s (emitSpaceOpenedForJoin r (Some u) s2)" by (rule well_after) simp_all
  with w w2 show ?thesis
    by (auto simp: openSpaceMeetingService_def a g Let_def fail_def split: option.split)
qed

end
