(* ===== verification/RoomDepartures.thy ===== *)
theory RoomDepartures
  imports RoomTraffic
begin

text \<open>
  The requests that take people out, bring them together and plan: leaving, kicking, inviting, renaming and
  planning make the store evolve well; a connection call makes the rooms follow the automaton.
\<close>

subsection \<open>Leaving\<close>

lemma in_filter_map: "u \<in> g ` set (filter P (map f xs)) \<Longrightarrow> \<exists>x\<in>set xs. P (f x) \<and> g (f x) = u"
  by auto

lemma left_out: "\<not> isUserRoomParticipant r u (markParticipantLeft now r u s)"
proof
  let ?f = "\<lambda>p. if pt_userId p = u then leave_row now p else p"
  assume "isUserRoomParticipant r u (markParticipantLeft now r u s)"
  then have "u \<in> pt_userId ` set (filter is_active (map ?f (db_parts s r)))"
    by (simp only: markParticipantLeft_def store_puts simp_thms if_True)
  from in_filter_map [OF this] obtain p where "is_active (?f p)" "pt_userId (?f p) = u" by (elim bexE conjE)
  then show False
    by (cases "pt_userId p = u"; cases "is_active p") (simp_all add: leave_row_def, simp add: is_active_def)
qed

lemma mark_left_rooms [simp]:
  "db_rooms (markParticipantLeft now r u s) = db_rooms s" "db_restricted (markParticipantLeft now r u s) = db_restricted s"
  by (simp_all add: markParticipantLeft_def)

lemma leave_tx_well:
  assumes "db_rooms s r = Some room" "open_row t room"
  shows "well t s (snd (leaveAndMaybeEndRoomTx r u now del s))"
proof -
  let ?s1 = "markParticipantLeft now r u s"
  have w: "well t s ?s1" by (rule mark_left_well)
  have "well t ?s1 (snd (update_room r c (end_row now) ?s1))" for c
    by (rule well_update) (use assms in \<open>auto simp: end_row_def row_ok_def intro!: allowed_open\<close>)
  with w well_trans show ?thesis by (auto simp: leaveAndMaybeEndRoomTx_def Let_def split: prod.split) (metis snd_conv)
qed

lemma leave_space_well: "well (re_now env) s (snd (leaveSpaceRtcSessionForUser env u r strict s))"
proof (cases "db_rooms s r")
  case None
  then show ?thesis by (simp add: leaveSpaceRtcSessionForUser_def findRoomById_def fail_def)
next
  case (Some room)
  have quiet: "well (re_now env) s (clearUserActiveRtcRoom u s)"
      "well (re_now env) s (clearUserActiveRtcRoom u (deleteSessionRoomRedis r s))"
    by (rule well_quiet; simp)+
  have left: "well (re_now env) s (clearUserActiveRtcRoom u (markParticipantLeft (re_now env) r u s))"
    by (rule well_after [OF mark_left_well]) simp_all
  obtain l e s1 where tx: "leaveAndMaybeEndRoomTx r u (re_now env) (resolveDeleteSpaceAfterCall (mergeRoomAdvancedOptions
      (tm_advancedOptions room))) s = ((l, e), s1)" by (metis prod.exhaust)
  show ?thesis
  proof (cases "tm_status room = Live \<and> \<not> row_closed (re_now env) room")
    case True
    then have w: "well (re_now env) s s1"
      using leave_tx_well [OF Some, of "re_now env" u "re_now env"] tx by (metis open_live snd_conv)
    have "well (re_now env) s s'" if "db_rooms s' = db_rooms s1" "db_parts s' = db_parts s1" "db_restricted s' = db_restricted s1" for s'
      using well_after [OF w that] .
    with Some True quiet show ?thesis by (simp add: leaveSpaceRtcSessionForUser_def findRoomById_def fail_def Let_def tx)
  next
    case False
    with Some quiet left show ?thesis by (simp add: leaveSpaceRtcSessionForUser_def findRoomById_def fail_def Let_def tx)
  qed
qed

lemma finalize_call_well: "well (re_now env) s (finalizeConnectionCallRoomSession env f r s)"
  unfolding finalizeConnectionCallRoomSession_def
  by (rule well_trans [OF _ end_live_well]) (rule well_quiet; simp)

lemma finalize_match_well: "well (re_now env) s (finalizeDirectMatchRoomSession env r s)"
  unfolding finalizeDirectMatchRoomSession_def by (rule end_live_well)

lemma peer_ended_quiet [simp]:
  "db_rooms (notifyConnectionCallPeerEnded r u s) = db_rooms s" "db_parts (notifyConnectionCallPeerEnded r u s) = db_parts s"
  "db_restricted (notifyConnectionCallPeerEnded r u s) = db_restricted s"
  by (simp_all add: notifyConnectionCallPeerEnded_def split: option.split)

lemma hang_up_well:
  "well (re_now env) s (finalizeConnectionCallRoomSession env f r
     (markParticipantLeft (re_now env) r u (notifyConnectionCallPeerEnded r u s)))"
  by (rule well_trans [OF well_trans [OF _ mark_left_well] finalize_call_well]) (rule well_quiet; simp)

lemma leave_direct_well: "well (re_now env) s (snd (leaveDirectRoomService env eng f u explicit s))"
proof -
  have say: "well (re_now env) s (say es s')" if "well (re_now env) s s'" for es s'
    by (rule well_after [OF that]) simp_all
  have out: "well (re_now env) s (clearUserActiveRtcRoom u s')" if "well (re_now env) s s'" for s'
    by (rule well_after [OF that]) simp_all
  have sp: "well (re_now env) s (leaveSpaceRtcSessionInternal env u r s')" if "well (re_now env) s s'" for r s'
    unfolding leaveSpaceRtcSessionInternal_def by (rule well_trans [OF that leave_space_well])
  have hang: "well (re_now env) s (finalizeConnectionCallRoomSession env f r
      (markParticipantLeft (re_now env) r u (notifyConnectionCallPeerEnded r u s')))" if "well (re_now env) s s'" for r s'
    by (rule well_trans [OF that hang_up_well])
  have fin: "well (re_now env) s (finalizeDirectMatchRoomSession env r s')" if "well (re_now env) s s'" for r s'
    by (rule well_trans [OF that finalize_match_well])
  show ?thesis
    unfolding leaveDirectRoomService_def Let_def
    by (auto split: option.split intro!: out sp hang fin say)
qed

lemma host_end_well: "well (re_now env) s (snd (hostEndSpaceForEveryoneService env u r s))"
proof -
  have "well (re_now env) s (clearUserActiveRtcRoom u (deleteSessionRoomRedis r s))" by (rule well_quiet) simp_all
  moreover have "well (re_now env) s (clearUserActiveRtcRoom u (snd (endLiveRoomSession env r reason opts s)))" for reason opts
    by (rule well_after [OF end_live_well]) simp_all
  ultimately show ?thesis
    by (auto simp: hostEndSpaceForEveryoneService_def fail_def Let_def split: option.split prod.split) (metis snd_conv)
qed

subsection \<open>Being removed\<close>

lemma cancel_friend_active [simp]:
  "isUserRoomParticipant q v (cancelFriendInviteForRoomInvitee r u s) = isUserRoomParticipant q v s"
  "isUserRoomParticipant q v (say es s) = isUserRoomParticipant q v s"
  "isUserRoomParticipant q v (clearUserActiveRtcRoom u s) = isUserRoomParticipant q v s"
  by (simp_all add: isUserRoomParticipant_def listActiveParticipantUserIds_def)

lemma remove_well: "well (re_now env) s (snd (removeSpaceParticipantFromLive env r u restrict n s))"
proof (cases "db_rooms s r")
  case None
  then show ?thesis by (simp add: removeSpaceParticipantFromLive_def findRoomById_def)
next
  case (Some room)
  let ?s1 = "say [RtcKick r u] (clearUserActiveRtcRoom u (markParticipantLeft (re_now env) r u s))"
  let ?s2 = "say [ParticipantRemoved u r n] (cancelFriendInviteForRoomInvitee r u ?s1)"
  have w: "well (re_now env) s ?s2" by (rule well_after [OF mark_left_well]) simp_all
  have "shut_out r u ?s2" if "tm_roomType room = Space"
    using Some that left_out [of r u "re_now env" s] by (simp add: shut_out_def)
  then have "well (re_now env) ?s2 (addRoomRestrictedUser r u ?s2)" if "tm_roomType room = Space"
    using that well_restrict by blast
  then have w2: "well (re_now env) s (addRoomRestrictedUser r u ?s2)" if "tm_roomType room = Space"
    using that w well_trans by blast
  have "well (re_now env) s (clearUserActiveRtcRoom u s)" by (rule well_quiet) simp_all
  with w w2 Some show ?thesis by (simp add: removeSpaceParticipantFromLive_def findRoomById_def Let_def)
qed

lemma kick_well: "well (re_now env) s (snd (kickSpaceParticipantService env h r u restrict s))"
  using remove_well [of env s r u restrict None]
  by (auto simp: kickSpaceParticipantService_def fail_def split: option.split prod.split)

lemma nsfw_well: "well (re_now env) s (snd (reportSpaceNsfwViolationService env u r s))"
proof -
  have "well (re_now env) s s'" if "removeSpaceParticipantFromLive env r u True n s1 = (x, s')"
      "db_rooms s1 = db_rooms s" "db_parts s1 = db_parts s" "db_restricted s1 = db_restricted s" for n s1 x s'
    using well_trans [OF well_quiet [OF that(2,3,4)] remove_well [of env s1 r u True n]] that(1) by simp
  then show ?thesis
    by (auto simp: reportSpaceNsfwViolationService_def fail_def Let_def split: option.split prod.split)
qed

subsection \<open>Inviting and renaming\<close>

lemma add_invites_quiet [simp]:
  "db_rooms (s\<lparr>db_invites := i\<rparr>) = db_rooms s" "db_parts (s\<lparr>db_invites := i\<rparr>) = db_parts s" "db_restricted (s\<lparr>db_invites := i\<rparr>) = db_restricted s"
  by simp_all

lemma upsert_invite_quiet [simp]:
  "db_rooms (snd (upsertPendingFriendInvite i r u v s)) = db_rooms s" "db_parts (snd (upsertPendingFriendInvite i r u v s)) = db_parts s"
  "db_restricted (snd (upsertPendingFriendInvite i r u v s)) = db_restricted s"
  by (simp_all add: upsertPendingFriendInvite_def split: option.split)

lemma invite_well: "well t s (snd (createRoomInviteService ie u r v s))"
proof -
  have "well t s (say es (snd (upsertPendingFriendInvite i r u v s)))" "well t s (say es s)" for es i
    by (rule well_quiet; simp)+
  then show ?thesis
    by (simp add: createRoomInviteService_def fail_def case_prod_unfold Let_def split: option.split)
qed

text \<open>A direct call grows: nobody was shut out of it, so its new member was not.\<close>

lemma expand_well: "well t s (snd (runExpandDirectAcceptTransaction now r i v m s))"
proof (cases "db_rooms s r")
  case None
  then show ?thesis by (simp add: runExpandDirectAcceptTransaction_def update_room_def)
next
  case (Some room)
  show ?thesis
  proof (cases "tm_roomType room = Direct")
    case False
    with Some show ?thesis by (simp add: runExpandDirectAcceptTransaction_def update_room_def)
  next
    case True
    let ?row = "room\<lparr>tm_roomType := Space, rr_sessionKind := SpaceKind, rr_maxParticipants := max m EXPANDED_MAX\<rparr>"
    let ?s1 = "set_invite_status i AcceptedInvite (put_room r ?row s)"
    let ?ps = "upsert_part \<lparr>pt_userId = v, pt_role = ParticipantRole, pt_joinedAt = now, pt_leftAt = None\<rparr>
               (\<lambda>p. p\<lparr>pt_leftAt := None, pt_joinedAt := now, pt_role := ParticipantRole\<rparr>) (db_parts ?s1 r)"
    have w1: "well t s ?s1"
      by (rule well_after [OF well_room [OF Some allowed_same_times, of ?row]]) (simp_all add: row_ok_def)
    have "snd (runExpandDirectAcceptTransaction now r i v m s) = put_parts r ?ps ?s1"
      using Some True by (simp add: runExpandDirectAcceptTransaction_def update_room_def)
    moreover have "well t s (put_parts r ?ps ?s1)"
    proof (cases "isRoomRestrictedUser r v ?s1")
      case False
      then have "well t ?s1 (put_parts r ?ps ?s1)" by (intro well_admit) simp_all
      then show ?thesis by (rule well_trans [OF w1])
    next
      case r: True
      then have "isRoomRestrictedUser r v s" by (simp add: isRoomRestrictedUser_def)
      moreover have "\<not> shut_out r v s" using Some True by (simp add: shut_out_def)
      ultimately have "\<not> fenced s" by (auto simp: fenced_def)
      moreover have "evolves t s (put_parts r ?ps ?s1)"
        using w1 by (intro evolves_trans [OF _ evolves_parts]) (simp add: well_def)
      moreover have "sound (put_parts r ?ps ?s1)" if "sound s"
        by (rule sound_upsert) (use that w1 in \<open>simp_all add: well_def\<close>)
      ultimately show ?thesis using w1 by (simp add: well_def kept_out_def)
    qed
    ultimately show ?thesis by simp
  qed
qed

lemma sync_title_well: "well t s (syncSpaceRoomTitleFromParticipants labels r s)"
  unfolding syncSpaceRoomTitleFromParticipants_def Let_def by (rule well_after [OF title_well]) simp_all

lemma respond_invite_well: "well (re_now env) s (snd (respondRoomInviteService env labels v i accept s))"
proof -
  have st: "well (re_now env) s (set_invite_status i x s)" "well (re_now env) s (say es (set_invite_status i x s))" for x es
    by (rule well_quiet; simp)+
  have grown: "well (re_now env) s (say es (say es' (syncSpaceRoomTitleFromParticipants labels r (patchSessionRoomRedisSpaceExpand r s1))))"
    if "well (re_now env) s s1" for es es' r s1
  proof -
    have "well (re_now env) s (patchSessionRoomRedisSpaceExpand r s1)" by (rule well_after [OF that]) simp_all
    then have "well (re_now env) s (syncSpaceRoomTitleFromParticipants labels r (patchSessionRoomRedisSpaceExpand r s1))"
      by (rule well_trans [OF _ sync_title_well])
    then show ?thesis by (rule well_after) simp_all
  qed
  show ?thesis
    using st grown [OF expand_well] expand_well
    by (simp add: respondRoomInviteService_def Let_def fail_def case_prod_unfold split: option.split)
qed

lemma invite_route_well: "well (re_now env) s (snd (handleRoomInviteRespond env labels v path i accept s))"
  using respond_invite_well [of env s labels v i accept]
  by (auto simp: handleRoomInviteRespond_def fail_def split: prod.splits sum.split)

lemma rename_well: "well t s (snd (updateLiveRoomTitleService u r raw s))"
proof -
  have "well t s (say es (patchSessionRoomRedisTitle r x (snd (updateLiveRoomTitle r y s))))" for es x y
    by (rule well_after [OF title_well]) simp_all
  then show ?thesis
    by (simp add: updateLiveRoomTitleService_def Let_def fail_def case_prod_unfold title_well split: option.split)
qed

subsection \<open>Planning\<close>

lemma create_well:
  assumes "db_rooms s r = None" "ns_status ns = Live \<Longrightarrow> ns_startedAt ns \<noteq> None" "ns_roomType ns = Space"
  shows "well t s (createRoomWithHostAndInvites now r newId ns s)"
proof -
  obtain e x where "computeRoomExpiryFields \<lparr>tm_status = ns_status ns, tm_roomType = ns_roomType ns, tm_startedAt = ns_startedAt ns,
            tm_scheduledStartAt = ns_scheduledStartAt ns, tm_scheduledEndAt = ns_scheduledEndAt ns,
            tm_advancedOptions = Some (ns_advancedOptions ns)\<rparr> now = (e, x)" by fastforce
  then show ?thesis
    unfolding createRoomWithHostAndInvites_def Let_def
    by (simp only: prod.case) (rule well_after [OF well_create [OF assms(1)]]; use assms(2,3) in \<open>simp add: row_ok_def\<close>)
qed

lemma well_if: "well t s (snd a) \<Longrightarrow> well t s (snd b) \<Longrightarrow> well t s (snd (if c then a else b))"
  by simp

lemma well_option: "well t s (snd a) \<Longrightarrow> (\<And>x. well t s (snd (f x))) \<Longrightarrow> well t s (snd (case v of None \<Rightarrow> a | Some x \<Rightarrow> f x))"
  by (cases v) simp_all

lemma update_scheduled_well: "well t s (snd (updateScheduledSpaceByHost now newId r h p s))"
proof (cases "db_rooms s r")
  case None
  then show ?thesis by (simp add: updateScheduledSpaceByHost_def)
next
  case (Some room)
  have put: "well t s (sync_invites newId r h us (put_room r (row'\<lparr>rr_expiresAt := e, rr_isExpired := x\<rparr>) s))"
    if "tm_status room = Scheduled" "rr_hostUserId row' = rr_hostUserId room" "tm_roomType row' = tm_roomType room"
      "tm_status row' = tm_status room" "rr_sessionKind row' = rr_sessionKind room" for row' us e x
    by (rule well_after [OF well_room [OF Some allowed_open]]) (use that in \<open>simp_all add: row_ok_def\<close>)
  show ?thesis
  proof (cases "rr_hostUserId room \<noteq> h \<or> tm_roomType room \<noteq> Space \<or> tm_status room \<noteq> Scheduled")
    case True
    with Some show ?thesis by (simp only: updateScheduledSpaceByHost_def option.case if_True snd_conv well_refl)
  next
    case False
    have "tm_status room = Scheduled" using False by simp
    note put = put [OF this]
    show ?thesis
      unfolding updateScheduledSpaceByHost_def Some option.case Let_def case_prod_unfold
      using False by (simp only: if_False) (intro well_if well_option; simp only: snd_conv well_refl; rule put; simp)
  qed
qed

end
