(* ===== verification/RoomRules.thy ===== *)
theory RoomRules
  imports RoomDepartures
begin

text \<open>
  The requests of the room routes and of connection calls as one type, the store that each leaves behind,
  and what holds after any number of them: rooms follow the automaton, and who is shut out of a space stays
  out of it.
\<close>

subsection \<open>Calls\<close>

lemma end_declined_well: "well (re_now env) s (finalizeDeclinedRoom env r s)"
  unfolding finalizeDeclinedRoom_def by (rule well_trans [OF _ end_live_well]) (rule well_quiet; simp)

lemma no_call_well: "well (re_now env) s (no_call env f call status outcome s)"
  unfolding no_call_def by (rule well_trans [OF _ end_declined_well]) (rule well_quiet; simp)

lemma call_over_well:
  "well (re_now env) s (declined env f call s)" "well (re_now env) s (missed env f call s)" "well (re_now env) s (cancelled env f call s)"
  unfolding declined_def missed_def cancelled_def by (rule well_after [OF no_call_well]; simp)+

text \<open>Answering lets the callee in whoever was shut out: the rooms alone follow the rules.\<close>

lemma accepted_evolves: "evolves t s (accepted env call s)"
  by (simp add: evolves_def accepted_def Let_def)

lemma respond_call_evolves: "evolves (re_now env) s (snd (respondConnectionCallService env f u i accept s))"
  using call_over_well [of env s f] accepted_evolves [of "re_now env" s env]
  by (auto simp: respondConnectionCallService_def intro: well_evolves split: sum.split)

lemma give_up_well:
  "well (re_now env) s (snd (cancelConnectionCallService env f u i noAnswer s))"
  "well (re_now env) s (snd (markConnectionCallMissedService env f u i s))"
  "well (re_now env) s (expireConnectionCallInvite env f i s)"
  using call_over_well [of env s f]
  by (auto simp: cancelConnectionCallService_def markConnectionCallMissedService_def expireConnectionCallInvite_def
      split: sum.split option.split)

lemma peers_quiet [simp]:
  "db_rooms (snd (getUsersActiveRtcRooms p us s)) = db_rooms s" "db_parts (snd (getUsersActiveRtcRooms p us s)) = db_parts s"
  "db_restricted (snd (getUsersActiveRtcRooms p us s)) = db_restricted s"
  by (simp_all add: getUsersActiveRtcRooms_def Let_def case_prod_unfold)

definition others_evolve :: "call_env \<Rightarrow> bool" where
  "others_evolve ce \<longleftrightarrow> (\<forall>s. evolves (re_now (ca_room ce)) s (ca_others ce s))"

lemma ring_evolves:
  assumes "db_rooms s (ca_roomId ce) = None" "others_evolve ce"
  shows "evolves (re_now (ca_room ce)) s (snd (ring ce caller callee conv video s))"
proof -
  let ?t = "re_now (ca_room ce)"
  let ?s1 = "provisionConnectionCallSessionRoomRedis ?t (ca_roomId ce) caller ''Call'' conv
      (createConnectionCallRoom ?t (ca_roomId ce) caller ''Call'' s)"
  have "well ?t s (createConnectionCallRoom ?t (ca_roomId ce) caller ''Call'' s)"
    unfolding createConnectionCallRoom_def by (rule well_create [OF assms(1)]) (simp_all add: row_ok_def direct_row_def)
  then have "well ?t s ?s1" by (rule well_after) simp_all
  then have s2: "evolves ?t s (ca_others ce ?s1)"
    using assms(2) unfolding others_evolve_def by (blast intro: evolves_trans well_evolves)
  show ?thesis
  proof (cases "cc_pendingForCallee (ca_others ce ?s1) callee")
    case None
    then have "db_rooms (snd (ring ce caller callee conv video s)) = db_rooms (ca_others ce ?s1)"
      by (simp add: ring_def Let_def)
    with s2 show ?thesis by (simp add: evolves_def)
  next
    case (Some p)
    then have "snd (ring ce caller callee conv video s) = finalizeDeclinedRoom (ca_room ce) (ca_roomId ce) (ca_others ce ?s1)"
      by (simp add: ring_def Let_def fail_def)
    then show ?thesis by (simp only:) (rule evolves_trans [OF s2 well_evolves [OF end_declined_well]])
  qed
qed

lemma initiate_evolves:
  assumes "db_rooms s (ca_roomId ce) = None" "others_evolve ce"
  shows "evolves (re_now (ca_room ce)) s (snd (initiateConnectionCallService ce caller conv video s))"
proof (cases "ca_conversation ce")
  case None
  then show ?thesis by (simp add: initiateConnectionCallService_def fail_def)
next
  case conv: (Some c)
  show ?thesis
  proof (cases "resolveDmPeerUserId c caller")
    case None
    with conv show ?thesis by (simp add: initiateConnectionCallService_def fail_def)
  next
    case (Some callee)
    let ?s1 = "snd (getUsersActiveRtcRooms (ca_rtcPeers ce) [caller, callee] s)"
    have same: "evolves (re_now (ca_room ce)) s s'" if "db_rooms s' = db_rooms s" for s'
      using that by (simp add: evolves_def)
    have "evolves (re_now (ca_room ce)) s (snd (ring ce caller callee conv' video ?s1))" for conv'
      using ring_evolves [of ?s1 ce caller callee conv' video] assms by (simp add: evolves_def)
    with conv Some same show ?thesis
      by (auto simp: initiateConnectionCallService_def fail_def Let_def case_prod_unfold split: option.split)
  qed
qed

subsection \<open>Requests\<close>

datatype room_request =
    AccessRoom string
  | SweepRooms "string list" "nat option"
  | StartRoom string string
  | MatchPair string string string string string
  | JoinRoom string string
  | IssueToken string string
  | OpenLobby string string
  | LeaveSpace string string bool
  | LeaveDirect "api_error option" bool string "string option"
  | EndForEveryone string string
  | KickParticipant string string string bool
  | ReportNsfw string string
  | InviteFriend invite_env string string string
  | AnswerInvite "string list \<Rightarrow> string list" string string string bool
  | RenameSpace string string string
  | CreateSpace string "string \<Rightarrow> string" new_space
  | ChangeSpace "string \<Rightarrow> string" string string space_patch
  | CancelSpace string string

datatype call_request =
    PlaceCall call_env string string bool
  | AnswerCall bool string string bool
  | CancelCall bool string string bool
  | MissCall bool string string
  | ExpireCall bool string

datatype server_request = Rooms room_request | Calls call_request

fun room_handler :: "room_env \<Rightarrow> room_request \<Rightarrow> main_store \<Rightarrow> main_store" where
  "room_handler env (AccessRoom r) s = snd (assertRoomSessionOpenOnAccess env r s)"
| "room_handler env (SweepRooms rows m) s = snd (sweepDueRoomSessions env rows m s)"
| "room_handler env (StartRoom h r) s = snd (startRoomSessionService env h r s)"
| "room_handler env (MatchPair r attempt pid a b) s = handleCreateRoom env r attempt pid a b s"
| "room_handler env (JoinRoom u r) s = snd (handleJoinRoom env u r s)"
| "room_handler env (IssueToken u r) s = snd (issueRtcTokenService env u r s)"
| "room_handler env (OpenLobby u r) s = snd (openSpaceMeetingService env u r s)"
| "room_handler env (LeaveSpace u r strict) s = snd (leaveSpaceRtcSessionForUser env u r strict s)"
| "room_handler env (LeaveDirect e f u r) s = snd (leaveDirectRoomService env e f u r s)"
| "room_handler env (EndForEveryone u r) s = snd (hostEndSpaceForEveryoneService env u r s)"
| "room_handler env (KickParticipant h r u b) s = snd (kickSpaceParticipantService env h r u b s)"
| "room_handler env (ReportNsfw u r) s = snd (reportSpaceNsfwViolationService env u r s)"
| "room_handler env (InviteFriend ie u r v) s = snd (createRoomInviteService ie u r v s)"
| "room_handler env (AnswerInvite labels u path i b) s = snd (handleRoomInviteRespond env labels u path i b s)"
| "room_handler env (RenameSpace u r t) s = snd (updateLiveRoomTitleService u r t s)"
| "room_handler env (CreateSpace r newId ns) s = createRoomWithHostAndInvites (re_now env) r newId ns s"
| "room_handler env (ChangeSpace newId r h p) s = snd (updateScheduledSpaceByHost (re_now env) newId r h p s)"
| "room_handler env (CancelSpace r h) s = snd (cancelScheduledSpaceByHost r h s)"

fun call_handler :: "room_env \<Rightarrow> call_request \<Rightarrow> main_store \<Rightarrow> main_store" where
  "call_handler env (PlaceCall ce u c video) s = snd (initiateConnectionCallService ce u c video s)"
| "call_handler env (AnswerCall f u i b) s = snd (respondConnectionCallService env f u i b s)"
| "call_handler env (CancelCall f u i b) s = snd (cancelConnectionCallService env f u i b s)"
| "call_handler env (MissCall f u i) s = snd (markConnectionCallMissedService env f u i s)"
| "call_handler env (ExpireCall f i) s = expireConnectionCallInvite env f i s"

fun handler :: "room_env \<Rightarrow> server_request \<Rightarrow> main_store \<Rightarrow> main_store" where
  "handler env (Rooms q) = room_handler env q"
| "handler env (Calls q) = call_handler env q"

text \<open>
  A new room has a new id, a match is of two users, a space that is made live has a start, and the requests that
  run while a call is placed keep the rules.
\<close>

fun admissible :: "room_env \<Rightarrow> server_request \<Rightarrow> main_store \<Rightarrow> bool" where
  "admissible env (Rooms (MatchPair r _ _ a b)) s \<longleftrightarrow> db_rooms s r = None \<and> a \<noteq> b"
| "admissible env (Rooms (CreateSpace r _ ns)) s \<longleftrightarrow> db_rooms s r = None \<and> (ns_status ns = Live \<longrightarrow> ns_startedAt ns \<noteq> None) \<and>
     ns_roomType ns = Space"
| "admissible env (Calls (PlaceCall ce _ _ _)) s \<longleftrightarrow> db_rooms s (ca_roomId ce) = None \<and> others_evolve ce \<and> ca_room ce = env"
| "admissible env q s \<longleftrightarrow> True"

lemma room_handler_well: "admissible env (Rooms q) s \<Longrightarrow> well (re_now env) s (room_handler env q s)"
  by (cases q) (simp_all add: assert_well sweep_due_well start_well match_room_well join_route_well issue_token_well open_meeting_well
      leave_space_well leave_direct_well host_end_well kick_well nsfw_well invite_well invite_route_well rename_well create_well
      update_scheduled_well cancel_scheduled_well)

lemma call_handler_evolves: "admissible env (Calls q) s \<Longrightarrow> evolves (re_now env) s (call_handler env q s)"
  by (cases q) (auto simp: respond_call_evolves give_up_well well_evolves dest: initiate_evolves)

lemma handler_evolves: "admissible env q s \<Longrightarrow> evolves (re_now env) s (handler env q s)"
  by (cases q) (simp_all add: room_handler_well well_evolves call_handler_evolves)

subsection \<open>After any number of requests\<close>

text \<open>A store with one live space, of the host ''h'' with the participant ''u''.\<close>

definition small_space :: "int \<Rightarrow> main_store" where
  "small_space deadline = \<lparr>
     db_rooms = [''r'' \<mapsto> \<lparr>tm_status = Live, tm_roomType = Space, tm_startedAt = Some 0, tm_scheduledStartAt = None,
       tm_scheduledEndAt = None, tm_advancedOptions = None, rr_hostUserId = ''h'', rr_sessionKind = SpaceKind, rr_endedAt = None,
       rr_expiresAt = Some deadline, rr_isExpired = False, rr_maxParticipants = 8, rr_visibility = Public, rr_title = ''t'',
       rr_rtcRoomId = Some ''r''\<rparr>],
     db_parts = (\<lambda>q. if q = ''r'' then [\<lparr>pt_userId = ''h'', pt_role = HostRole, pt_joinedAt = 0, pt_leftAt = None\<rparr>,
       \<lparr>pt_userId = ''u'', pt_role = ParticipantRole, pt_joinedAt = 0, pt_leftAt = None\<rparr>] else []),
     db_invites = [], db_restricted = [], db_strikes = (\<lambda>_. 0), db_banned = [], rd_session = (\<lambda>_. []), rd_active = (\<lambda>_. None),
     rd_nsfw = (\<lambda>_ _. False), cc_invite = (\<lambda>_. []), cc_pendingForCallee = (\<lambda>_. None), cc_pendingByRoom = (\<lambda>_. None),
     cc_activeByRoom = (\<lambda>_. None), cc_historyLogged = (\<lambda>_. False), cc_historyLoggedForRequest = (\<lambda>_. False), out = []\<rparr>"

definition at_time :: "int \<Rightarrow> room_env" where
  "at_time t = \<lparr>re_now = t, re_isGuest = (\<lambda>_. False)\<rparr>"

text \<open>Requests are served one after the other; the clock does not go back.\<close>

inductive served :: "(server_request \<Rightarrow> bool) \<Rightarrow> int \<times> main_store \<Rightarrow> int \<times> main_store \<Rightarrow> bool" for kind where
  idle: "served kind a a"
| serve: "served kind a (t, s) \<Longrightarrow> t \<le> re_now env \<Longrightarrow> kind q \<Longrightarrow> admissible env q s \<Longrightarrow>
    served kind a (re_now env, handler env q s)"

definition any_request :: "server_request \<Rightarrow> bool" where
  "any_request q = True"

definition room_only :: "server_request \<Rightarrow> bool" where
  "room_only q = (case q of Rooms _ \<Rightarrow> True | Calls _ \<Rightarrow> False)"

lemma served_time: "served kind a b \<Longrightarrow> fst a \<le> fst b"
  by (induction rule: served.induct) auto

lemma closed_later: "row_closed t row \<Longrightarrow> t \<le> t' \<Longrightarrow> row_closed t' row"
  by (auto simp: row_closed_def isDbRoomSessionClosed_def computeIsExpired_def split: option.splits)

lemma phase_later: "t \<le> t' \<Longrightarrow> phase_step (phase t row) (phase t' row)"
  using closed_later by (cases "tm_status row") (auto simp: phase_def)

text \<open>What a room is now, against what it was.\<close>

definition follows :: "int \<Rightarrow> room_row \<Rightarrow> int \<Rightarrow> room_row \<Rightarrow> bool" where
  "follows t row t' row' \<longleftrightarrow> rr_hostUserId row' = rr_hostUserId row \<and> (tm_roomType row = Space \<longrightarrow> tm_roomType row' = Space) \<and>
     phase_step (phase t row) (phase t' row')"

lemma follows_step: "follows t row t1 row1 \<Longrightarrow> t1 \<le> t2 \<Longrightarrow> allowed t2 row1 row2 \<Longrightarrow> follows t row t2 row2"
  unfolding follows_def allowed_def using phase_later phase_step_trans by metis

lemma served_follows:
  "served kind a b \<Longrightarrow> db_rooms (snd a) r = Some row \<Longrightarrow>
   \<exists>row'. db_rooms (snd b) r = Some row' \<and> follows (fst a) row (fst b) row'"
proof (induction rule: served.induct)
  case (serve a t s env q)
  then obtain row1 where row1: "db_rooms s r = Some row1" "follows (fst a) row t row1" by auto
  then obtain row2 where "db_rooms (handler env q s) r = Some row2" "allowed (re_now env) row1 row2"
    using handler_evolves [OF serve.hyps(4)] by (auto simp: evolves_def)
  then show ?case using follows_step [OF row1(2) serve.hyps(2)] by auto
qed (simp add: follows_def)

lemma served_kept:
  "served room_only a b \<Longrightarrow> (fenced (snd a) \<longrightarrow> fenced (snd b)) \<and> (sound (snd a) \<longrightarrow> sound (snd b)) \<and>
   set (db_restricted (snd a)) \<subseteq> set (db_restricted (snd b))"
proof (induction rule: served.induct)
  case (serve a t s env q)
  then obtain p where "q = Rooms p" by (cases q) (auto simp: room_only_def)
  with serve room_handler_well [of env p s] show ?case by (auto simp: well_def kept_out_def)
qed simp

text \<open>
  C5. Rooms follow their life cycle. Whatever requests and calls are served, a room keeps its host, a space
  stays a space, and its phase moves as the automaton allows: in particular a room that is over never
  lives again.
\<close>

theorem rooms_follow_lifecycle:
  assumes "served kind (t, s) (t', s')" "db_rooms s r = Some row"
  shows "\<exists>row'. db_rooms s' r = Some row' \<and> rr_hostUserId row' = rr_hostUserId row \<and>
    (tm_roomType row = Space \<longrightarrow> tm_roomType row' = Space) \<and> phase_step (phase t row) (phase t' row')"
  using served_follows [OF assms(1)] assms(2) by (auto simp: follows_def)

text \<open>
  C32. The store stays well-formed. Whatever requests of the room routes are served, a live room has a start, only
  spaces are planned or called off, the kind of a session says whether its room is a space, and
  nobody has two rows in a room.
\<close>

theorem store_stays_sound:
  assumes "served room_only (t, s) (t', s')" "sound s"
  shows "distinct (map pt_userId (db_parts s' r)) \<and>
    (\<forall>row. db_rooms s' r = Some row \<longrightarrow> (tm_status row = Live \<longrightarrow> tm_startedAt row \<noteq> None) \<and>
       (tm_status row = Scheduled \<or> tm_status row = Cancelled \<longrightarrow> tm_roomType row = Space) \<and>
       (rr_sessionKind row = SpaceKind \<longleftrightarrow> tm_roomType row = Space))"
proof -
  have "sound s'" using served_kept [OF assms(1)] assms(2) by simp
  then show ?thesis unfolding sound_def row_ok_def by blast
qed

text \<open>
  An overdue session never ends. Once a live room has passed its deadline, it is live and past its
  deadline after any further requests: no access, sweep, leave or host ends it.
\<close>

theorem overdue_rooms_never_end:
  assumes "served kind (t, s) (t', s')" "db_rooms s r = Some row" "tm_status row = Live" "row_closed t row"
  shows "\<exists>row'. db_rooms s' r = Some row' \<and> tm_status row' = Live \<and> row_closed t' row'"
proof -
  have "phase t row = Overdue" using assms(3,4) by (simp add: phase_def)
  moreover obtain row' where "db_rooms s' r = Some row'" "phase_step (phase t row) (phase t' row')"
    using served_follows [OF assms(1)] assms(2) by (auto simp: follows_def)
  ultimately show ?thesis by (auto simp: phase_def split: room_db_status.splits if_splits)
qed

subsection \<open>Overdue sessions\<close>

definition overdue :: "int \<Rightarrow> string \<Rightarrow> main_store \<Rightarrow> bool" where
  "overdue t r s \<longleftrightarrow> (\<exists>row. db_rooms s r = Some row \<and> tm_status row = Live \<and> row_closed t row)"

text \<open>Nothing has happened to rooms and participants, and only the discovery setting of users was restored.\<close>

definition same_session :: "main_store \<Rightarrow> main_store \<Rightarrow> bool" where
  "same_session s s' \<longleftrightarrow> db_rooms s' = db_rooms s \<and> db_parts s' = db_parts s \<and> (\<exists>us. out s' = out s @ map RestoreOpenToConnect us)"

lemma same_session_refl [simp]: "same_session s s"
  by (simp add: same_session_def)

lemma same_session_trans: "same_session a b \<Longrightarrow> same_session b c \<Longrightarrow> same_session a c"
  unfolding same_session_def by (metis append.assoc map_append)

lemma same_session_delete [simp]: "same_session s (deleteSessionRoomRedis r s)"
  by (auto simp: same_session_def deleteSessionRoomRedis_def intro: exI [of _ "[]"])

lemma same_session_clear [simp]: "same_session s (clearUserActiveRtcRoom u s)"
  by (auto simp: same_session_def clearUserActiveRtcRoom_def say_def intro: exI [of _ "[u]"])

lemma same_session_clear_all [simp]: "same_session s (clear_all_active us s)"
  unfolding clear_all_active_def by (induction us arbitrary: s) (auto intro: same_session_trans same_session_clear)

lemma overdue_same: "same_session s s' \<Longrightarrow> overdue t r s' = overdue t r s"
  by (simp add: overdue_def same_session_def)

lemma candidate_same: "same_session s s' \<Longrightarrow> is_candidate env s' r = is_candidate env s r"
  by (simp add: is_candidate_def same_session_def loadParticipantPresence_def countActiveParticipants_def split: option.split)

lemma end_overdue:
  assumes "overdue (re_now env) r s"
  shows "fst (endLiveRoomSession env r reason options s) = \<lparr>es_ended = False, es_alreadyClosed = True\<rparr>"
    and "same_session s (snd (endLiveRoomSession env r reason options s))"
  using assms same_session_trans [OF same_session_delete same_session_clear_all]
  by (auto simp: overdue_def endLiveRoomSession_def findRoomById_def Let_def)

lemma reconcile_overdue:
  assumes "overdue (re_now env) r s"
  shows "rc_alreadyWasClosed (fst (reconcileRoomSessionOnAccess env r s))"
    and "same_session s (snd (reconcileRoomSessionOnAccess env r s))"
proof -
  obtain row where row: "db_rooms s r = Some row" "tm_status row = Live" "row_closed (re_now env) row"
    using assms by (auto simp: overdue_def)
  then have "evaluateRoomSessionEndReason row (rr_isExpired row) (rr_expiresAt row) p (re_now env) = Some Expires_at_past" for p
    by (simp add: evaluateRoomSessionEndReason_def isDbRoomSessionClosed_def row_closed_def)
  then show "rc_alreadyWasClosed (fst (reconcileRoomSessionOnAccess env r s))"
    "same_session s (snd (reconcileRoomSessionOnAccess env r s))"
    using row end_overdue [OF assms]
    by (simp_all add: reconcileRoomSessionOnAccess_def findRoomById_def Let_def case_prod_unfold)
qed

lemma sweep_overdue:
  "\<forall>r\<in>set rs. overdue (re_now env) r s \<Longrightarrow>
   fst (sweep_rooms env rs s) = [] \<and> same_session s (snd (sweep_rooms env rs s))"
proof (induction rs arbitrary: s)
  case (Cons r rs)
  then have r: "overdue (re_now env) r s" by simp
  obtain x s1 where x: "reconcileRoomSessionOnAccess env r s = (x, s1)" by fastforce
  have s1: "same_session s s1" using reconcile_overdue(2) [OF r] x by simp
  then have "fst (sweep_rooms env rs s1) = [] \<and> same_session s1 (snd (sweep_rooms env rs s1))"
    using Cons.prems by (intro Cons.IH) (simp add: overdue_same)
  with s1 show ?case
    using reconcile_overdue(1) [OF r] x same_session_trans by (auto simp: case_prod_unfold)
qed simp

text \<open>
  C40. Overdue sessions starve the sweep. When the batch that the sweep's query returns holds only rooms past
  their deadline, the sweep ends none of them: it reports no ended session, changes no room and no
  participant, tells neither the rtc service nor a user that a session is over, and the same query
  returns the same batch again.
\<close>

theorem overdue_sessions_starve_the_sweep:
  assumes "\<forall>r\<in>set (listRoomIdsDueForSessionSweep env rows n s). overdue (re_now env) r s"
  shows "fst (sweepDueRoomSessions env rows (Some n) s) = (length (listRoomIdsDueForSessionSweep env rows n s), []) \<and>
    same_session s (snd (sweepDueRoomSessions env rows (Some n) s)) \<and>
    listRoomIdsDueForSessionSweep env rows n (snd (sweepDueRoomSessions env rows (Some n) s)) =
      listRoomIdsDueForSessionSweep env rows n s"
proof -
  let ?ids = "listRoomIdsDueForSessionSweep env rows n s"
  obtain e s1 where e: "sweep_rooms env ?ids s = (e, s1)" by fastforce
  then have "e = []" "same_session s s1" using sweep_overdue [OF assms] by simp_all
  moreover from this have "listRoomIdsDueForSessionSweep env rows n s1 = ?ids"
    by (simp add: listRoomIdsDueForSessionSweep_def candidate_same cong: filter_cong)
  ultimately show ?thesis using e by (simp add: sweepDueRoomSessions_def Let_def)
qed

text \<open>
  An overdue space holds its people. Leaving a live space that is past its deadline answers that the room did
  not end, and leaves everybody who was in it in it; its host ending it for everyone is told that
  it is closed already, and as little happens.
\<close>

theorem overdue_space_holds_people:
  assumes "overdue (re_now env) r s" "\<forall>row. db_rooms s r = Some row \<longrightarrow> tm_roomType row = Space"
  shows "fst (leaveSpaceRtcSessionForUser env u r strict s) = Inr False \<and>
    same_session s (snd (leaveSpaceRtcSessionForUser env u r strict s)) \<and>
    (\<forall>row. db_rooms s r = Some row \<longrightarrow>
       fst (hostEndSpaceForEveryoneService env (rr_hostUserId row) r s) = Inr \<lparr>es_ended = False, es_alreadyClosed = True\<rparr> \<and>
       same_session s (snd (hostEndSpaceForEveryoneService env (rr_hostUserId row) r s)))"
  using assms same_session_trans [OF same_session_delete same_session_clear]
  by (auto simp: overdue_def leaveSpaceRtcSessionForUser_def hostEndSpaceForEveryoneService_def findRoomById_def)

subsection \<open>Tokens\<close>

lemma restart_core:
  "map_option (\<lambda>row. (tm_status row, tm_roomType row, rr_hostUserId row)) (db_rooms (restartLiveSessionClockIfNoActiveParticipants t r s) r) =
   map_option (\<lambda>row. (tm_status row, tm_roomType row, rr_hostUserId row)) (db_rooms s r)"
  by (simp add: restartLiveSessionClockIfNoActiveParticipants_def split: option.split)

lemma guest_cap_core:
  "map_option (\<lambda>row. (tm_status row, tm_roomType row, rr_hostUserId row)) (db_rooms (syncGuestMatchRoomSessionCap env r s) r) =
   map_option (\<lambda>row. (tm_status row, tm_roomType row, rr_hostUserId row)) (db_rooms s r)"
  by (simp add: syncGuestMatchRoomSessionCap_def applyExpiresAtCapIfSooner_def split: option.split)

lemma issue_token:
  assumes "fst (issue_for_row env u r after room s) = Inr tk" "db_rooms s r = Some room"
  shows "tk = \<lparr>tk_userId = u, tk_roomId = r, tk_roomType = tm_roomType room\<rparr>" "tm_status room = Live"
    and "tm_roomType room = Space \<Longrightarrow> u \<noteq> rr_hostUserId room \<Longrightarrow> \<not> isRoomRestrictedUser r u s"
    and "after \<or> u = rr_hostUserId room \<or> wasUserRoomParticipant r u s"
    and "rd_active (snd (issue_for_row env u r after room s)) u = Some r"
    and "\<exists>row. db_rooms (snd (issue_for_row env u r after room s)) r = Some row \<and> tm_status row = Live \<and>
      tm_roomType row = tm_roomType room \<and> rr_hostUserId row = rr_hostUserId room"
  using assms(1) restart_core [of "re_now env" r s] guest_cap_core [of env r "restartLiveSessionClockIfNoActiveParticipants (re_now env) r s"]
    assms(2)
  by (auto simp: issue_for_row_def Let_def fail_def not_allowed_def finalizeRtcTokenIssue_def isRoomRestrictedUser_def
      wasUserRoomParticipant_def findRoomParticipant_def setUserActiveRtcRoom_def say_def split: if_splits)

lemma auto_started_same [simp]:
  "db_parts (auto_started env r room s) = db_parts s" "db_restricted (auto_started env r room s) = db_restricted s"
  by (simp_all add: auto_started_def maybeAutoStartScheduledSpaceFromDb_def markRoomLive_def update_room_def put_room_def Let_def
      split: option.split)

lemma auto_started_row:
  assumes "db_rooms s r = Some room"
  shows "\<exists>row. db_rooms (auto_started env r room s) r = Some row \<and> rr_hostUserId row = rr_hostUserId room \<and>
    tm_roomType row = tm_roomType room \<and> rr_sessionKind row = rr_sessionKind room \<and>
    (tm_status room \<noteq> Scheduled \<longrightarrow> row = room)"
  using assms by (auto simp: auto_started_def maybeAutoStartScheduledSpaceFromDb_def markRoomLive_def update_room_def Let_def
      findRoomById_def split: option.split prod.split)

lemma issue_service:
  assumes "fst (issueRtcTokenService env u r s) = Inr tk"
  obtains room row where "db_rooms s r = Some room" "assertGuestMayAccessRoom env u room = None"
    "db_rooms (auto_started env r room s) r = Some row" "open_row (re_now env) row"
    "rr_hostUserId row = rr_hostUserId room" "tm_roomType row = tm_roomType room" "tm_status room = Scheduled \<or> row = room"
    "issueRtcTokenService env u r s = issue_for_row env u r False row (auto_started env r room s)"
proof -
  obtain room where room: "db_rooms s r = Some room" "assertGuestMayAccessRoom env u room = None"
    using assms by (auto simp: issueRtcTokenService_def findRoomById_def fail_def split: option.splits)
  obtain row where row: "db_rooms (auto_started env r room s) r = Some row" "rr_hostUserId row = rr_hostUserId room"
    "tm_roomType row = tm_roomType room" "tm_status room = Scheduled \<or> row = room"
    using auto_started_row [OF room(1), of env] by auto
  obtain a s2 where a: "assertRoomSessionOpenOnAccess env r (auto_started env r room s) = (a, s2)" by fastforce
  have none: "a = None"
    using assms room row(1) a by (cases a) (auto simp: issueRtcTokenService_def findRoomById_def Let_def fail_def)
  then have s2: "s2 = auto_started env r room s" "open_at (re_now env) r (auto_started env r room s)"
    using assert_open [of env r "auto_started env r room s" s2] a by auto
  have "issueRtcTokenService env u r s = issue_for_row env u r False row (auto_started env r room s)"
    using room row(1) a none s2(1) by (simp add: issueRtcTokenService_def findRoomById_def Let_def)
  with that room row s2(2) show ?thesis by (auto simp: open_at_def)
qed

text \<open>
  C31. A token is earned. Who is given a token for the rtc service hosts the room or has been in it and is, for
  a space, not shut out of it; a guest gets one only for a match call; the room was neither over nor past its
  deadline and is live; the token names the user and the room with its type, and the room becomes the
  one that the user is calling in.
\<close>

theorem token_is_earned:
  assumes "fst (issueRtcTokenService env u r s) = Inr tk"
  shows "\<exists>room row. db_rooms s r = Some room \<and> open_row (re_now env) room \<and>
    db_rooms (snd (issueRtcTokenService env u r s)) r = Some row \<and> tm_status row = Live \<and>
    tk = \<lparr>tk_userId = u, tk_roomId = r, tk_roomType = tm_roomType row\<rparr> \<and>
    (u = rr_hostUserId room \<or> wasUserRoomParticipant r u s) \<and>
    (tm_roomType room = Space \<and> u \<noteq> rr_hostUserId room \<longrightarrow> \<not> isRoomRestrictedUser r u s) \<and>
    (re_isGuest env u \<longrightarrow> tm_roomType room = Direct \<and> rr_sessionKind room = MatchKind) \<and>
    rd_active (snd (issueRtcTokenService env u r s)) u = Some r"
proof -
  from assms obtain room row where room: "db_rooms s r = Some room" "assertGuestMayAccessRoom env u room = None"
    and row: "db_rooms (auto_started env r room s) r = Some row" "open_row (re_now env) row"
      "rr_hostUserId row = rr_hostUserId room" "tm_roomType row = tm_roomType room" "tm_status room = Scheduled \<or> row = room"
    and eq: "issueRtcTokenService env u r s = issue_for_row env u r False row (auto_started env r room s)"
    by (rule issue_service)
  note tk = issue_token [OF assms [unfolded eq] row(1)]
  have "open_row (re_now env) room" using row(2,5) by auto
  moreover have "wasUserRoomParticipant r u (auto_started env r room s) = wasUserRoomParticipant r u s"
    "isRoomRestrictedUser r u (auto_started env r room s) = isRoomRestrictedUser r u s"
    by (simp_all add: wasUserRoomParticipant_def findRoomParticipant_def isRoomRestrictedUser_def)
  moreover have "re_isGuest env u \<longrightarrow> tm_roomType room = Direct \<and> rr_sessionKind room = MatchKind"
    using room(2) by (auto simp: assertGuestMayAccessRoom_def isGuestAllowedRoomAccess_def split: if_splits)
  ultimately show ?thesis
    using room row tk by (auto simp: eq)
qed

text \<open>
  A refused request restarts the clock. When nobody is in a live space, a user who has no place in it is refused a token,
  yet the request moves the start of the session to now and takes its deadline from there.
\<close>

theorem denied_token_restarts_clock:
  assumes "db_rooms s r = Some room" "tm_status room = Live" "tm_roomType room = Space"
    and "fst (assertRoomSessionOpenOnAccess env r s) = None" "countActiveParticipants r s = 0"
    and "\<not> re_isGuest env u" "u \<noteq> rr_hostUserId room" "\<not> wasUserRoomParticipant r u s"
  shows "isl (fst (issueRtcTokenService env u r s)) \<and>
    db_rooms (snd (issueRtcTokenService env u r s)) r = Some (room\<lparr>tm_startedAt := Some (re_now env),
      rr_expiresAt := computeLiveSessionExpiresAt (room\<lparr>tm_startedAt := Some (re_now env)\<rparr>), rr_isExpired := False\<rparr>)"
proof -
  obtain s2 where "assertRoomSessionOpenOnAccess env r s = (None, s2)" using assms(4) by (metis prod.collapse)
  then have "assertRoomSessionOpenOnAccess env r s = (None, s)" using assert_open(2) by blast
  moreover have "auto_started env r room s = s" using assms(2) by (simp add: auto_started_def)
  moreover have "assertGuestMayAccessRoom env u room = None" using assms(6) by (simp add: assertGuestMayAccessRoom_def)
  ultimately have "issueRtcTokenService env u r s = issue_for_row env u r False room s"
    using assms(1) by (simp add: issueRtcTokenService_def findRoomById_def Let_def)
  moreover have "\<not> isScheduledSpaceBeforeStartTime room (re_now env)"
    using assms(2) by (simp add: isScheduledSpaceBeforeStartTime_def)
  moreover have "findRoomParticipant r u (put_room r row s) = None" for row
    using assms(8) by (simp add: wasUserRoomParticipant_def findRoomParticipant_def put_room_def)
  ultimately show ?thesis
    using assms(1,2,5,7) by (simp add: issue_for_row_def Let_def fail_def not_allowed_def restartLiveSessionClockIfNoActiveParticipants_def)
qed

subsection \<open>Shut out\<close>

lemma join_refused:
  assumes "fenced s" "isRoomRestrictedUser r u s" "db_rooms s r = Some row" "u \<noteq> rr_hostUserId row"
  shows "isl (fst (joinRoomService env u r s))"
proof (rule ccontr)
  assume "\<not> ?thesis"
  then obtain j where "fst (joinRoomService env u r s) = Inr j" by (metis isl_def sum.exhaust)
  then have "isUserRoomParticipant r u (snd (joinRoomService env u r s))"
    using join_service(2) by (auto simp: has_joined_def)
  moreover have "well (re_now env) s (snd (joinRoomService env u r s))" by (rule join_service(1))
  ultimately show False
    using assms by (fastforce simp: well_def kept_out_def evolves_def fenced_def shut_out_def isRoomRestrictedUser_def allowed_def)
qed

text \<open>
  C6. Who is shut out stays out. Once a user other than the host has been removed from a space for good, no
  later request of the room routes brings them back into it, and joining it and asking for its token
  are both refused.
\<close>

theorem restricted_stay_out:
  assumes "served room_only (t0, s0) (t, s)" "db_restricted s0 = []"
    and "isRoomRestrictedUser r u s" "db_rooms s r = Some row" "u \<noteq> rr_hostUserId row"
    and "served room_only (t, s) (t', s')"
  shows "\<not> isUserRoomParticipant r u s' \<and> isl (fst (handleJoinRoom env u r s')) \<and> isl (fst (issueRtcTokenService env u r s'))"
proof -
  have "fenced s0" using assms(2) by (simp add: fenced_def isRoomRestrictedUser_def)
  then have fenced: "fenced s'" "isRoomRestrictedUser r u s'"
    using served_kept [OF assms(1)] served_kept [OF assms(6)] assms(3) by (auto simp: isRoomRestrictedUser_def)
  obtain row' where row': "db_rooms s' r = Some row'" "u \<noteq> rr_hostUserId row'"
    using served_follows [OF assms(6), of r row] assms(4,5) by (auto simp: follows_def)
  have "shut_out r u s'" using fenced by (simp add: fenced_def)
  with row' have out: "\<not> isUserRoomParticipant r u s'" "tm_roomType row' = Space"
    by (auto simp: shut_out_def)
  have "isl (fst (joinRoomService env u r s'))" using join_refused [OF fenced row'] .
  then have "isl (fst (handleJoinRoom env u r s'))"
    by (auto simp: handleJoinRoom_def isl_def split: prod.split sum.split)
  moreover have "isl (fst (issueRtcTokenService env u r s'))"
  proof (rule ccontr)
    assume "\<not> ?thesis"
    then obtain tk where tk: "fst (issueRtcTokenService env u r s') = Inr tk" by (metis isl_def sum.exhaust)
    then obtain room row1 where "db_rooms s' r = Some room" "db_rooms (auto_started env r room s') r = Some row1"
        "rr_hostUserId row1 = rr_hostUserId room" "tm_roomType row1 = tm_roomType room"
        "issueRtcTokenService env u r s' = issue_for_row env u r False row1 (auto_started env r room s')"
      by (rule issue_service)
    with issue_token(3) [of env u r False row1 "auto_started env r room s'" tk] tk row' out(2) fenced(2)
    show False by (auto simp: isRoomRestrictedUser_def)
  qed
  ultimately show ?thesis using out(1) by simp
qed

subsection \<open>Witnesses\<close>

lemma one_request:
  "kind q \<Longrightarrow> admissible (at_time t) q s \<Longrightarrow> t0 \<le> t \<Longrightarrow> served kind (t0, s) (t, handler (at_time t) q s)"
  using serve [OF idle, of t0 "at_time t" kind q s] by (simp add: at_time_def)

lemmas run_small = small_space_def at_time_def any_request_def room_only_def kickSpaceParticipantService_def findRoomById_def
  removeSpaceParticipantFromLive_def row_closed_def isDbRoomSessionClosed_def computeIsExpired_def isUserRoomParticipant_def
  listActiveParticipantUserIds_def is_active_def markParticipantLeft_def leave_row_def put_parts_def clearUserActiveRtcRoom_def
  say_def cancelFriendInviteForRoomInvitee_def addRoomRestrictedUser_def isRoomRestrictedUser_def Let_def

lemma rooms_follow_lifecycle_witness:
  "\<exists>row'. db_rooms (handler (at_time 5) (Rooms (KickParticipant ''h'' ''r'' ''u'' True)) (small_space 9)) ''r'' = Some row' \<and>
     phase_step Running (phase 5 row')"
  using rooms_follow_lifecycle [OF one_request [of any_request "Rooms (KickParticipant ''h'' ''r'' ''u'' True)" 5 "small_space 9" 0],
      of "''r''"]
  by (auto simp: any_request_def small_space_def phase_def row_closed_def isDbRoomSessionClosed_def computeIsExpired_def)

lemma store_stays_sound_witness:
  "distinct (map pt_userId (db_parts (handler (at_time 5) (Rooms (JoinRoom ''x'' ''r'')) (small_space 9)) ''r''))"
proof -
  have "sound (small_space 9)" by (simp add: sound_def row_ok_def small_space_def)
  then show ?thesis
    using store_stays_sound [OF one_request [of room_only "Rooms (JoinRoom ''x'' ''r'')" 5 "small_space 9" 0], of "''r''"]
    by (simp add: room_only_def)
qed

lemma overdue_rooms_never_end_witness:
  "\<exists>row'. db_rooms (handler (at_time 5) (Rooms (EndForEveryone ''h'' ''r'')) (small_space 1)) ''r'' = Some row' \<and> tm_status row' = Live"
  using overdue_rooms_never_end [OF one_request [of any_request "Rooms (EndForEveryone ''h'' ''r'')" 5 "small_space 1" 5], of "''r''"]
  by (auto simp: any_request_def small_space_def row_closed_def isDbRoomSessionClosed_def computeIsExpired_def)

lemma small_overdue: "overdue (re_now (at_time 5)) ''r'' (small_space 1)"
  by (simp add: overdue_def small_space_def at_time_def row_closed_def isDbRoomSessionClosed_def computeIsExpired_def)

lemma overdue_sessions_starve_the_sweep_witness:
  "fst (sweepDueRoomSessions (at_time 5) [''r''] (Some 100) (small_space 1)) = (1, [])"
proof -
  have "listRoomIdsDueForSessionSweep (at_time 5) [''r''] 100 (small_space 1) = [''r'']"
    by (simp add: listRoomIdsDueForSessionSweep_def is_candidate_def small_space_def at_time_def roomSessionSweepCandidatesWhere_def
        isPastDeadline_def)
  then show ?thesis
    using overdue_sessions_starve_the_sweep [of "at_time 5" "[''r'']" 100 "small_space 1"] small_overdue by simp
qed

lemma overdue_space_holds_people_witness:
  "fst (leaveSpaceRtcSessionForUser (at_time 5) ''u'' ''r'' True (small_space 1)) = Inr False"
  using overdue_space_holds_people [OF small_overdue, of "''u''" True] by (simp add: small_space_def)

lemma token_is_earned_witness:
  "\<exists>tk. fst (issueRtcTokenService (at_time 5) ''u'' ''r'' (small_space 9)) = Inr tk \<and> tk_userId tk = ''u''"
proof -
  have "\<not> isl (fst (issueRtcTokenService (at_time 5) ''u'' ''r'' (small_space 9)))" by code_simp
  then have "\<exists>tk. fst (issueRtcTokenService (at_time 5) ''u'' ''r'' (small_space 9)) = Inr tk" by (metis isl_def sum.exhaust)
  then show ?thesis using token_is_earned [of "at_time 5" "''u''" "''r''" "small_space 9"] by auto
qed

lemma denied_token_restarts_clock_witness:
  "let s = markParticipantLeft 2 ''r'' ''h'' (markParticipantLeft 2 ''r'' ''u'' (small_space 9)) in
   \<exists>row. db_rooms (snd (issueRtcTokenService (at_time 5) ''x'' ''r'' s)) ''r'' = Some row \<and> tm_startedAt row = Some 5"
proof -
  let ?s = "markParticipantLeft 2 ''r'' ''h'' (markParticipantLeft 2 ''r'' ''u'' (small_space 9))"
  have "fst (assertRoomSessionOpenOnAccess (at_time 5) ''r'' ?s) = None" by code_simp
  moreover have "countActiveParticipants ''r'' ?s = 0" "\<not> wasUserRoomParticipant ''r'' ''x'' ?s" by code_simp+
  moreover obtain room where "db_rooms ?s ''r'' = Some room" "tm_status room = Live" "tm_roomType room = Space" "rr_hostUserId room = ''h''"
    by (simp add: small_space_def)
  ultimately show ?thesis
    using denied_token_restarts_clock [of ?s "''r''" room "at_time 5" "''x''"] by (simp add: at_time_def Let_def)
qed

lemma restricted_stay_out_witness:
  "\<exists>s. isRoomRestrictedUser ''r'' ''u'' s \<and> isl (fst (handleJoinRoom (at_time 7) ''u'' ''r'' s))"
proof -
  let ?s = "handler (at_time 5) (Rooms (KickParticipant ''h'' ''r'' ''u'' True)) (small_space 9)"
  have "served room_only (0, small_space 9) (5, ?s)" by (rule one_request) (simp_all add: room_only_def)
  moreover have "isRoomRestrictedUser ''r'' ''u'' ?s" by (simp add: run_small)
  moreover have "\<exists>row. db_rooms ?s ''r'' = Some row \<and> ''u'' \<noteq> rr_hostUserId row" by (simp add: run_small)
  ultimately show ?thesis
    using restricted_stay_out [of 0 "small_space 9" 5 ?s "''r''" "''u''"] idle [of room_only "(5, ?s)"]
    by (fastforce simp: small_space_def)
qed

end
