(* ===== verification/CallOutcomes.thy ===== *)
theory CallOutcomes
  imports RoomRules
begin

text \<open>
  How a ring can end. Declining, cancelling, missing and answering each read the invite before they act, so
  several of them can act on what they have read: the effects are run here one after the other, in any
  order and number, on the same invite.
\<close>

datatype ending = Declines | Misses | Cancels | Answers

fun run_ending :: "call_invite \<Rightarrow> room_env \<times> bool \<times> ending \<Rightarrow> main_store \<Rightarrow> main_store" where
  "run_ending call (env, fails, Declines) = declined env fails call"
| "run_ending call (env, fails, Misses) = missed env fails call"
| "run_ending call (env, fails, Cancels) = cancelled env fails call"
| "run_ending call (env, fails, Answers) = accepted env call"

fun status_of :: "ending \<Rightarrow> call_status" where
  "status_of Declines = DeclinedCall"
| "status_of Misses = MissedCall"
| "status_of Cancels = CancelledCall"
| "status_of Answers = Completed"

fun is_history :: "room_event \<Rightarrow> bool" where
  "is_history (CallHistory c u v st d) = True"
| "is_history _ = False"

definition histories :: "main_store \<Rightarrow> room_event list" where
  "histories s = filter is_history (out s)"

definition logged :: "call_invite \<Rightarrow> main_store \<Rightarrow> bool" where
  "logged call s \<longleftrightarrow> cc_historyLoggedForRequest s (iv_requestId call)"

subsection \<open>What leaves the history alone\<close>

definition same_history :: "main_store \<Rightarrow> main_store \<Rightarrow> bool" where
  "same_history s s' \<longleftrightarrow> histories s' = histories s \<and> cc_historyLoggedForRequest s' = cc_historyLoggedForRequest s"

lemma same_history_refl [simp]: "same_history s s"
  by (simp add: same_history_def)

lemma same_history_trans: "same_history a b \<Longrightarrow> same_history b c \<Longrightarrow> same_history a c"
  by (simp add: same_history_def)

lemma same_history_out:
  "out s' = out s \<Longrightarrow> cc_historyLoggedForRequest s' = cc_historyLoggedForRequest s \<Longrightarrow> same_history s s'"
  by (simp add: same_history_def histories_def)

lemma same_history_say: "filter is_history es = [] \<Longrightarrow> same_history s (say es s)"
  by (simp add: same_history_def histories_def say_def)

lemma same_history_clear_all: "same_history s (clear_all_active us s)"
  unfolding clear_all_active_def
proof (induction us arbitrary: s)
  case (Cons u us)
  have "same_history s (clearUserActiveRtcRoom u s)"
    by (simp add: same_history_def histories_def clearUserActiveRtcRoom_def say_def)
  with Cons [of "clearUserActiveRtcRoom u s"] show ?case by (auto intro: same_history_trans)
qed simp

lemma update_room_out [simp]: "out (snd (update_room r c f s)) = out s"
  "cc_historyLoggedForRequest (snd (update_room r c f s)) = cc_historyLoggedForRequest s"
  by (simp_all add: update_room_def put_room_def split: option.split)

lemma end_tx_out: "out (snd (endLiveRoomSessionTx now r room p s)) = out s"
  "cc_historyLoggedForRequest (snd (endLiveRoomSessionTx now r room p s)) = cc_historyLoggedForRequest s"
proof -
  let ?s1 = "put_parts r (map (leave_row now) (db_parts s r)) s"
  have [simp]: "out (put_parts q ps s') = out s'" "cc_historyLoggedForRequest (put_parts q ps s') = cc_historyLoggedForRequest s'"
    for q ps s' by (simp_all add: put_parts_def)
  show "out (snd (endLiveRoomSessionTx now r room p s)) = out s"
    "cc_historyLoggedForRequest (snd (endLiveRoomSessionTx now r room p s)) = cc_historyLoggedForRequest s"
    by (simp_all add: endLiveRoomSessionTx_def Let_def case_prod_unfold)
qed

lemma told_left: "filter is_history (map (\<lambda>u. HostEnded u r) us) = []"
  by (simp add: filter_empty_conv)

lemma end_live_history: "same_history s (snd (endLiveRoomSession env r reason opts s))"
proof (cases "db_rooms s r")
  case None
  then show ?thesis by (simp add: endLiveRoomSession_def findRoomById_def)
next
  case (Some room)
  obtain b s1 where b: "endLiveRoomSessionTx (re_now env) r room (shouldPreserveScheduledSlot room reason opts) s = (b, s1)" by fastforce
  have del: "same_history s2 (clear_all_active us (deleteSessionRoomRedis r s2))" for us s2
    by (rule same_history_trans [OF same_history_out same_history_clear_all]) (simp_all add: deleteSessionRoomRedis_def)
  have "same_history s s1" using end_tx_out [of "re_now env" r room _ s] b by (metis same_history_out snd_conv)
  then have s2: "same_history s (clear_all_active us (deleteSessionRoomRedis r s1))" for us using del same_history_trans by blast
  have sfu: "same_history s (say [SfuTeardown r] s')" if "same_history s s'" for s'
    by (rule same_history_trans [OF that same_history_say]) simp
  have "same_history s (notifySpaceParticipantsToLeave r h x (say [SfuTeardown r] s'))" if "same_history s s'" for s' h x
    unfolding notifySpaceParticipantsToLeave_def
    by (rule same_history_trans [OF sfu [OF that] same_history_say]) (rule told_left)
  with Some del s2 sfu b show ?thesis by (auto simp: endLiveRoomSession_def findRoomById_def Let_def)
qed

subsection \<open>One effect\<close>

lemma cleanup_history:
  "same_history s (finalizeDeclinedRoom env r (cleanupInvite call s))"
  unfolding finalizeDeclinedRoom_def
  by (rule same_history_trans [OF same_history_out end_live_history]) (simp_all add: cleanupInvite_def clearActiveConnectionCall_def)

lemma record_history:
  assumes "iv_conversationId call \<noteq> []"
  shows "histories (recordPendingCallOutcome fails call st s) =
      (if logged call s \<or> fails then histories s
       else histories s @ [CallHistory (iv_conversationId call) (iv_callerUserId call) (iv_video call) st None])"
    and "logged call (recordPendingCallOutcome fails call st s) \<longleftrightarrow> logged call s \<or> \<not> fails"
  using assms by (auto simp: recordPendingCallOutcome_def histories_def logged_def recordConnectionCallHistory_def say_def)

lemma no_call_history:
  assumes "iv_conversationId call \<noteq> []"
  shows "histories (no_call env fails call text st s) =
      (if logged call s \<or> fails then histories s
       else histories s @ [CallHistory (iv_conversationId call) (iv_callerUserId call) (iv_video call) st None])"
    and "logged call (no_call env fails call text st s) \<longleftrightarrow> logged call s \<or> \<not> fails"
proof -
  let ?s1 = "set_status call text s"
  have "same_history s ?s1" by (rule same_history_out) (simp_all add: set_status_def set_call_invite_def)
  moreover have "same_history (recordPendingCallOutcome fails call st ?s1) (no_call env fails call text st s)"
    unfolding no_call_def by (rule cleanup_history)
  ultimately show "histories (no_call env fails call text st s) =
      (if logged call s \<or> fails then histories s
       else histories s @ [CallHistory (iv_conversationId call) (iv_callerUserId call) (iv_video call) st None])"
    "logged call (no_call env fails call text st s) \<longleftrightarrow> logged call s \<or> \<not> fails"
    using record_history [OF assms, of fails st ?s1] by (simp_all add: same_history_def logged_def)
qed

lemma accepted_history: "same_history s (accepted env call s)"
  by (simp add: accepted_def Let_def same_history_def histories_def say_def addOrReactivateParticipantRow_def put_parts_def cleanupInvite_def
      set_status_def set_call_invite_def setActiveConnectionCall_def)

definition counts :: "room_env \<times> bool \<times> ending \<Rightarrow> bool" where
  "counts e \<longleftrightarrow> \<not> fst (snd e) \<and> snd (snd e) \<noteq> Answers"

lemma run_ending_history:
  assumes "iv_conversationId call \<noteq> []"
  shows "histories (run_ending call e s) =
      (if logged call s \<or> \<not> counts e then histories s
       else histories s @ [CallHistory (iv_conversationId call) (iv_callerUserId call) (iv_video call) (status_of (snd (snd e))) None])"
    and "logged call (run_ending call e s) \<longleftrightarrow> logged call s \<or> counts e"
proof -
  have said: "histories (say es s') = histories s'" "logged call (say es s') = logged call s'" if "filter is_history es = []" for es s'
    using same_history_say [OF that] by (simp_all add: same_history_def logged_def)
  obtain env fails w where e: "e = (env, fails, w)" by (cases e) auto
  note over = no_call_history [OF assms]
  have "histories (run_ending call (env, fails, w) s) =
      (if logged call s \<or> \<not> counts (env, fails, w) then histories s
       else histories s @ [CallHistory (iv_conversationId call) (iv_callerUserId call) (iv_video call) (status_of w) None]) \<and>
    (logged call (run_ending call (env, fails, w) s) \<longleftrightarrow> logged call s \<or> counts (env, fails, w))"
  proof (cases w)
    case Declines
    then show ?thesis using over [of env fails "''declined''" DeclinedCall s] by (simp add: said counts_def declined_def)
  next
    case Misses
    then show ?thesis using over [of env fails "''missed''" MissedCall s] by (simp add: said counts_def missed_def)
  next
    case Cancels
    then show ?thesis using over [of env fails "''cancelled''" CancelledCall s] by (simp add: said counts_def cancelled_def)
  next
    case Answers
    then show ?thesis using accepted_history [of s env call] by (simp add: counts_def same_history_def logged_def)
  qed
  then show "histories (run_ending call e s) =
      (if logged call s \<or> \<not> counts e then histories s
       else histories s @ [CallHistory (iv_conversationId call) (iv_callerUserId call) (iv_video call) (status_of (snd (snd e))) None])"
    "logged call (run_ending call e s) \<longleftrightarrow> logged call s \<or> counts e"
    unfolding e by simp_all
qed


definition a_ring :: call_invite where
  "a_ring = \<lparr>iv_requestId = ''i'', iv_roomId = ''r'', iv_conversationId = ''c'', iv_callerUserId = ''h'', iv_calleeUserId = ''u'',
     iv_video = False, iv_status = Some ''pending'', iv_createdAt = ''0''\<rparr>"


text \<open>
  A ring can be answered after it was missed. When the expiry of a ring and the callee's answer have both
  read the invite, and the expiry acts first, the answer still puts the callee in the call's room as an
  active participant and tells the caller that the call was accepted, but the room is over.
\<close>

theorem answer_after_missed:
  assumes "db_rooms s (iv_roomId call) = Some row" "tm_status row = Live" "\<not> row_closed (re_now env) row"
  shows "let s' = accepted env' call (missed env fails call s) in
    isUserRoomParticipant (iv_roomId call) (iv_calleeUserId call) s' \<and>
    last (out s') = CallAccepted (iv_callerUserId call) (iv_requestId call) \<and>
    cc_activeByRoom s' (iv_roomId call) \<noteq> None \<and>
    (\<exists>row'. db_rooms s' (iv_roomId call) = Some row' \<and> tm_status row' = Ended)"
proof -
  let ?r = "iv_roomId call"
  let ?s0 = "clearActiveConnectionCall ?r (cleanupInvite call (recordPendingCallOutcome fails call MissedCall (set_status call ''missed'' s)))"
  have row: "db_rooms ?s0 ?r = Some row" using assms(1) by simp
  have "\<exists>row'. db_rooms (snd (endLiveRoomSession env ?r Connection_call_ended direct_end_options ?s0)) ?r = Some row' \<and> tm_status row' = Ended"
    using row assms(2,3)
    by (simp add: endLiveRoomSession_def findRoomById_def Let_def case_prod_unfold shouldPreserveScheduledSlot_def direct_end_options_def
        endLiveRoomSessionTx_def update_room_def end_row_def)
  then have "\<exists>row'. db_rooms (missed env fails call s) ?r = Some row' \<and> tm_status row' = Ended"
    by (simp add: missed_def no_call_def finalizeDeclinedRoom_def)
  moreover have "db_rooms (accepted env' call s1) = db_rooms s1" "isUserRoomParticipant ?r (iv_calleeUserId call) (accepted env' call s1)"
    "last (out (accepted env' call s1)) = CallAccepted (iv_callerUserId call) (iv_requestId call)"
    "cc_activeByRoom (accepted env' call s1) ?r \<noteq> None" for s1
    using added(1) [of ?r "iv_calleeUserId call" "re_now env'" s1]
    by (simp_all add: accepted_def Let_def setActiveConnectionCall_def cleanupInvite_def set_status_def set_call_invite_def say_def
        isUserRoomParticipant_def listActiveParticipantUserIds_def)
  ultimately show ?thesis by (simp add: Let_def)
qed

lemma answer_after_missed_witness:
  "\<exists>row. db_rooms (accepted (at_time 6) a_ring (missed (at_time 5) False a_ring (small_space 9))) ''r'' = Some row \<and> tm_status row = Ended"
proof -
  obtain row where "db_rooms (small_space 9) (iv_roomId a_ring) = Some row" "tm_status row = Live" "\<not> row_closed (re_now (at_time 5)) row"
    by (simp add: small_space_def row_closed_def isDbRoomSessionClosed_def computeIsExpired_def at_time_def a_ring_def)
  from answer_after_missed [OF this, of "at_time 6" False, unfolded Let_def]
  have "\<exists>row. db_rooms (accepted (at_time 6) a_ring (missed (at_time 5) False a_ring (small_space 9))) (iv_roomId a_ring) = Some row \<and>
      tm_status row = Ended" by (elim conjE)
  then show ?thesis by (simp only: a_ring_def call_invite.simps)
qed

end
