(* ===== verification/ServerPeople.thy ===== *)
theory ServerPeople
  imports RoomTypes
begin

text \<open>
  Who is connected with whom and who has blocked whom (\<open>connections\<close>, \<open>blocks\<close> and
  \<open>matching/services/sync-matching-connection-peers.service.ts\<close> of the main API): the rows of \<open>user_connections\<close> and
  \<open>user_blocks\<close>, the Redis sets that the matching service reads, and what users are told. A statement of SQL
  and a pipeline of Redis commands are atomic, and so is a service; a new row's id is an argument.
\<close>

subsection \<open>Rows\<close>

datatype connection_status = PendingConnection | AcceptedConnection | RejectedConnection | CancelledConnection

record connection_row =
  cn_id :: string
  cn_requesterId :: string
  cn_addresseeId :: string
  cn_status :: connection_status

datatype people_event =
    ConnectionUpdated string string string string
  | RequestReceivedNote string string string "string option"
  | RequestAcceptedNote string string string
  | MessagingBlock string string string bool

record people =
  pe_connections :: "connection_row list"
  pe_blocks :: "(string \<times> string) list"
  pe_peers :: "string \<Rightarrow> string set"
  pe_blockOut :: "string \<Rightarrow> string set"
  pe_blockIn :: "string \<Rightarrow> string set"
  pe_out :: "people_event list"

definition tell :: "people_event list \<Rightarrow> people \<Rightarrow> people" where
  "tell es s = s\<lparr>pe_out := pe_out s @ es\<rparr>"

definition on_connections :: "(connection_row list \<Rightarrow> connection_row list) \<Rightarrow> people \<Rightarrow> people" where
  "on_connections f s = s\<lparr>pe_connections := f (pe_connections s)\<rparr>"

subsection \<open>Connections\<close>

definition between :: "string \<Rightarrow> string \<Rightarrow> connection_row \<Rightarrow> bool" where
  "between a b c \<longleftrightarrow> (cn_requesterId c = a \<and> cn_addresseeId c = b) \<or> (cn_requesterId c = b \<and> cn_addresseeId c = a)"

definition findAllBetween :: "string \<Rightarrow> string \<Rightarrow> people \<Rightarrow> connection_row list" where
  "findAllBetween a b s = filter (between a b) (pe_connections s)"

definition findConnectionById :: "string \<Rightarrow> people \<Rightarrow> connection_row option" where
  "findConnectionById i s = find (\<lambda>c. cn_id c = i) (pe_connections s)"

definition set_connection_status :: "(connection_row \<Rightarrow> bool) \<Rightarrow> connection_status \<Rightarrow> people \<Rightarrow> people" where
  "set_connection_status P st = on_connections (map (\<lambda>c. if P c then c\<lparr>cn_status := st\<rparr> else c))"

definition updateStatusById :: "string \<Rightarrow> connection_status \<Rightarrow> people \<Rightarrow> people" where
  "updateStatusById i = set_connection_status (\<lambda>c. cn_id c = i)"

definition deleteConnectionById :: "string \<Rightarrow> people \<Rightarrow> people" where
  "deleteConnectionById i = on_connections (filter (\<lambda>c. cn_id c \<noteq> i))"

definition setAsPendingRequest :: "string \<Rightarrow> string \<Rightarrow> string \<Rightarrow> people \<Rightarrow> people" where
  "setAsPendingRequest i requester addressee = on_connections (map (\<lambda>c. if cn_id c = i
     then c\<lparr>cn_requesterId := requester, cn_addresseeId := addressee, cn_status := PendingConnection\<rparr> else c))"

definition insertPendingRequest :: "string \<Rightarrow> string \<Rightarrow> string \<Rightarrow> people \<Rightarrow> people" where
  "insertPendingRequest i requester addressee = on_connections (\<lambda>cs. cs @
     [\<lparr>cn_id = i, cn_requesterId = requester, cn_addresseeId = addressee, cn_status = PendingConnection\<rparr>])"

definition cancelAcceptedConnectionAsPeer :: "string \<Rightarrow> string \<Rightarrow> people \<Rightarrow> people" where
  "cancelAcceptedConnectionAsPeer i viewer = set_connection_status
     (\<lambda>c. cn_id c = i \<and> (cn_requesterId c = viewer \<or> cn_addresseeId c = viewer)) CancelledConnection"

definition cancelPendingOutgoingRequest :: "string \<Rightarrow> string \<Rightarrow> people \<Rightarrow> people" where
  "cancelPendingOutgoingRequest i requester = set_connection_status (\<lambda>c. cn_id c = i \<and> cn_requesterId c = requester) CancelledConnection"

definition other_of :: "string \<Rightarrow> connection_row \<Rightarrow> string" where
  "other_of u c = (if cn_requesterId c = u then cn_addresseeId c else cn_requesterId c)"

definition emitConnectionUpdatedToPeer :: "string \<Rightarrow> connection_row \<Rightarrow> string \<Rightarrow> people \<Rightarrow> people" where
  "emitConnectionUpdatedToPeer actor c status = tell [ConnectionUpdated (other_of actor c) actor (cn_id c) status]"

definition mine :: "string \<Rightarrow> connection_row \<Rightarrow> bool" where
  "mine u c \<longleftrightarrow> cn_requesterId c = u \<or> cn_addresseeId c = u"

definition getAcceptedPeerIdsForUser :: "string \<Rightarrow> people \<Rightarrow> string set" where
  "getAcceptedPeerIdsForUser u s = other_of u ` set (filter (\<lambda>c. mine u c \<and> cn_status c = AcceptedConnection) (pe_connections s))"

definition listPeerIdsWithPendingOrAcceptedConnection :: "string \<Rightarrow> people \<Rightarrow> string list" where
  "listPeerIdsWithPendingOrAcceptedConnection u s = rev (remdups (rev (map (other_of u)
     (filter (\<lambda>c. mine u c \<and> (cn_status c = PendingConnection \<or> cn_status c = AcceptedConnection)) (pe_connections s)))))"

datatype list_filter = AcceptedList | PendingIncoming | PendingOutgoing

fun whereConnectionsListFilter :: "string \<Rightarrow> list_filter \<Rightarrow> connection_row \<Rightarrow> bool" where
  "whereConnectionsListFilter u AcceptedList c \<longleftrightarrow> mine u c \<and> cn_status c = AcceptedConnection"
| "whereConnectionsListFilter u PendingIncoming c \<longleftrightarrow> cn_status c = PendingConnection \<and> cn_addresseeId c = u"
| "whereConnectionsListFilter u PendingOutgoing c \<longleftrightarrow> cn_status c = PendingConnection \<and> cn_requesterId c = u"

definition pendingIncomingCountForUser :: "string \<Rightarrow> people \<Rightarrow> nat" where
  "pendingIncomingCountForUser u s = length (filter (whereConnectionsListFilter u PendingIncoming) (pe_connections s))"

text \<open>The peers that the matching service deprioritises.\<close>

definition add_peer :: "string \<Rightarrow> string \<Rightarrow> people \<Rightarrow> people" where
  "add_peer u peer s = (if u = peer then s else s\<lparr>pe_peers := (pe_peers s)(u := insert peer (pe_peers s u))\<rparr>)"

definition remove_peer :: "string \<Rightarrow> string \<Rightarrow> people \<Rightarrow> people" where
  "remove_peer u peer s = s\<lparr>pe_peers := (pe_peers s)(u := pe_peers s u - {peer})\<rparr>"

definition addMatchingConnectionPeers :: "string \<Rightarrow> string \<Rightarrow> people \<Rightarrow> people" where
  "addMatchingConnectionPeers a b s = add_peer b a (add_peer a b s)"

definition removeMatchingConnectionPeers :: "string \<Rightarrow> string \<Rightarrow> people \<Rightarrow> people" where
  "removeMatchingConnectionPeers a b s = remove_peer b a (remove_peer a b s)"

definition syncMatchingConnectionPeersFromDatabase :: "string \<Rightarrow> people \<Rightarrow> people" where
  "syncMatchingConnectionPeersFromDatabase u s = s\<lparr>pe_peers := (pe_peers s)(u := getAcceptedPeerIdsForUser u s)\<rparr>"

subsection \<open>Blocks\<close>

definition isBlockedBy :: "string \<Rightarrow> string \<Rightarrow> people \<Rightarrow> bool" where
  "isBlockedBy blocker blocked s \<longleftrightarrow> (blocker, blocked) \<in> set (pe_blocks s)"

definition isEitherBlocked :: "string \<Rightarrow> string \<Rightarrow> people \<Rightarrow> bool" where
  "isEitherBlocked a b s \<longleftrightarrow> isBlockedBy a b s \<or> isBlockedBy b a s"

definition createBlock :: "string \<Rightarrow> string \<Rightarrow> people \<Rightarrow> people" where
  "createBlock a b s = (if isBlockedBy a b s then s else s\<lparr>pe_blocks := pe_blocks s @ [(a, b)]\<rparr>)"

definition removeBlock :: "string \<Rightarrow> string \<Rightarrow> people \<Rightarrow> bool \<times> people" where
  "removeBlock a b s = (isBlockedBy a b s, s\<lparr>pe_blocks := filter (\<lambda>p. p \<noteq> (a, b)) (pe_blocks s)\<rparr>)"

definition listBlockedUserIds :: "string \<Rightarrow> people \<Rightarrow> string list" where
  "listBlockedUserIds u s = map snd (filter (\<lambda>p. fst p = u) (pe_blocks s))"

definition listBlockerUserIds :: "string \<Rightarrow> people \<Rightarrow> string list" where
  "listBlockerUserIds u s = map fst (filter (\<lambda>p. snd p = u) (pe_blocks s))"

definition listAllBlockedPeerIds :: "string \<Rightarrow> people \<Rightarrow> string list" where
  "listAllBlockedPeerIds u s = rev (remdups (rev (listBlockedUserIds u s @ listBlockerUserIds u s)))"

definition redisAddUserBlock :: "string \<Rightarrow> string \<Rightarrow> people \<Rightarrow> people" where
  "redisAddUserBlock a b s = s\<lparr>pe_blockOut := (pe_blockOut s)(a := insert b (pe_blockOut s a)),
     pe_blockIn := (pe_blockIn s)(b := insert a (pe_blockIn s b))\<rparr>"

definition redisRemoveUserBlock :: "string \<Rightarrow> string \<Rightarrow> people \<Rightarrow> people" where
  "redisRemoveUserBlock a b s = s\<lparr>pe_blockOut := (pe_blockOut s)(a := pe_blockOut s a - {b}),
     pe_blockIn := (pe_blockIn s)(b := pe_blockIn s b - {a})\<rparr>"

definition syncUserBlocksToRedis :: "string \<Rightarrow> people \<Rightarrow> people" where
  "syncUserBlocksToRedis u s = s\<lparr>pe_blockOut := (pe_blockOut s)(u := set (listBlockedUserIds u s)),
     pe_blockIn := (pe_blockIn s)(u := set (listBlockerUserIds u s))\<rparr>"

definition isBlockedWithPeerInRedis :: "string \<Rightarrow> string \<Rightarrow> people \<Rightarrow> bool" where
  "isBlockedWithPeerInRedis a b s \<longleftrightarrow> b \<in> pe_blockOut s a \<or> b \<in> pe_blockIn s a"

text \<open>Every row between the two as it was read first.\<close>

fun cancel_row :: "string \<Rightarrow> connection_row \<Rightarrow> people \<Rightarrow> people" where
  "cancel_row viewer c s =
     (if cn_status c = AcceptedConnection
      then emitConnectionUpdatedToPeer viewer c ''none'' (cancelAcceptedConnectionAsPeer (cn_id c) viewer s)
      else if cn_status c \<noteq> PendingConnection then s
      else emitConnectionUpdatedToPeer viewer c ''none''
        (if cn_requesterId c = viewer then cancelPendingOutgoingRequest (cn_id c) viewer s
         else updateStatusById (cn_id c) RejectedConnection s))"

definition cancelPeerConnectionsOnBlock :: "string \<Rightarrow> string \<Rightarrow> people \<Rightarrow> people" where
  "cancelPeerConnectionsOnBlock viewer target s = fold (cancel_row viewer) (findAllBetween viewer target s) s"

definition notifyMessagingBlockChanged :: "string \<Rightarrow> string \<Rightarrow> bool \<Rightarrow> people \<Rightarrow> people" where
  "notifyMessagingBlockChanged a b blocked = tell [MessagingBlock a a b blocked, MessagingBlock b a b blocked]"

definition blockUserService :: "string \<Rightarrow> string \<Rightarrow> people \<Rightarrow> (string + bool) \<times> people" where
  "blockUserService viewer target s =
     (if viewer = target then (Inl ''SELF'', s)
      else (Inr (isBlockedBy viewer target s),
        notifyMessagingBlockChanged viewer target True
          (cancelPeerConnectionsOnBlock viewer target (redisAddUserBlock viewer target (createBlock viewer target s)))))"

definition unblockUserService :: "string \<Rightarrow> string \<Rightarrow> people \<Rightarrow> (string + unit) \<times> people" where
  "unblockUserService viewer target s =
     (let (removed, s1) = removeBlock viewer target s in
      if \<not> removed then (Inl ''NOT_FOUND'', s1)
      else (Inr (), notifyMessagingBlockChanged viewer target False (redisRemoveUserBlock viewer target s1)))"

datatype block_reason = YouBlocked | BlockedYou

definition resolveMessagingBlockStatus :: "string \<Rightarrow> string \<Rightarrow> people \<Rightarrow> block_reason option" where
  "resolveMessagingBlockStatus viewer peer s =
     (if isBlockedBy viewer peer s then Some YouBlocked
      else if isBlockedBy peer viewer s then Some BlockedYou else None)"

text \<open>A conversation is whether it is a space's and who takes part in it.\<close>

definition getDmPeerUserId :: "bool \<times> string list \<Rightarrow> string \<Rightarrow> string option" where
  "getDmPeerUserId conv viewer =
     (if fst conv then None else case filter (\<lambda>u. u \<noteq> viewer) (snd conv) of [u] \<Rightarrow> Some u | _ \<Rightarrow> None)"

definition assertCanMessageInConversation :: "(bool \<times> string list) option \<Rightarrow> string \<Rightarrow> people \<Rightarrow> string option" where
  "assertCanMessageInConversation conv sender s = (case conv of
      None \<Rightarrow> Some ''NOT_FOUND''
    | Some c \<Rightarrow> (case getDmPeerUserId c sender of
        None \<Rightarrow> None
      | Some peer \<Rightarrow>
          if peer = [] then None
          else if resolveMessagingBlockStatus sender peer s \<noteq> None then Some ''MESSAGING_BLOCKED'' else None))"

subsection \<open>Asking and answering\<close>

definition isStaleRow :: "connection_row \<Rightarrow> bool" where
  "isStaleRow c \<longleftrightarrow> cn_status c = RejectedConnection \<or> cn_status c = CancelledConnection"

record request_answer =
  ra_accepted :: bool
  ra_connectionId :: "string option"

definition asked :: "string \<Rightarrow> string \<Rightarrow> string \<Rightarrow> string option \<Rightarrow> people \<Rightarrow> (string + request_answer) \<times> people" where
  "asked viewer target i salt s =
     (Inr \<lparr>ra_accepted = False, ra_connectionId = Some i\<rparr>, tell [RequestReceivedNote target viewer i salt] s)"

definition reopen_or_insert :: "string \<Rightarrow> string \<Rightarrow> string \<Rightarrow> string \<Rightarrow> people \<Rightarrow> (string + request_answer) \<times> people" where
  "reopen_or_insert now newId viewer target s =
     (let rows = findAllBetween viewer target s;
          direct = find (\<lambda>c. cn_requesterId c = viewer \<and> cn_addresseeId c = target) rows;
          reverse = find (\<lambda>c. cn_requesterId c = target \<and> cn_addresseeId c = viewer) rows;
          stale = (\<lambda>r. case r of None \<Rightarrow> False | Some c \<Rightarrow> isStaleRow c) in
      if stale direct \<and> stale reverse then
        asked viewer target (cn_id (the direct)) (Some (''merged-'' @ now))
          (updateStatusById (cn_id (the direct)) PendingConnection (deleteConnectionById (cn_id (the reverse)) s))
      else if stale direct then
        asked viewer target (cn_id (the direct)) (Some (''retry-'' @ now)) (updateStatusById (cn_id (the direct)) PendingConnection s)
      else if stale reverse then
        asked viewer target (cn_id (the reverse)) (Some (''retry-flip-'' @ now)) (setAsPendingRequest (cn_id (the reverse)) viewer target s)
      else asked viewer target newId None (insertPendingRequest newId viewer target s))"

definition requestConnectionService :: "string \<Rightarrow> string \<Rightarrow> string \<Rightarrow> string \<Rightarrow> people \<Rightarrow> (string + request_answer) \<times> people" where
  "requestConnectionService now newId viewer target s =
     (if viewer = target then (Inl ''SELF'', s)
      else if isEitherBlocked viewer target s then (Inl ''BLOCKED'', s)
      else
       (let rows = findAllBetween viewer target s in
        if \<exists>c\<in>set rows. cn_status c = AcceptedConnection then (Inl ''ALREADY_CONNECTED'', s)
        else (case find (\<lambda>c. cn_status c = PendingConnection) rows of
          Some c \<Rightarrow>
            if cn_requesterId c = target \<and> cn_addresseeId c = viewer then
              (Inr \<lparr>ra_accepted = True, ra_connectionId = Some (cn_id c)\<rparr>,
               tell [ConnectionUpdated target viewer (cn_id c) ''accepted'']
                 (addMatchingConnectionPeers viewer target (updateStatusById (cn_id c) AcceptedConnection s)))
            else (Inr \<lparr>ra_accepted = False, ra_connectionId = Some (cn_id c)\<rparr>, s)
        | None \<Rightarrow> reopen_or_insert now newId viewer target s)))"

definition gateAddresseePending :: "connection_row option \<Rightarrow> string \<Rightarrow> string + connection_row" where
  "gateAddresseePending row viewer = (case row of
      None \<Rightarrow> Inl ''NOT_FOUND''
    | Some c \<Rightarrow>
        if cn_addresseeId c \<noteq> viewer then Inl ''FORBIDDEN''
        else if cn_status c \<noteq> PendingConnection then Inl ''INVALID_STATE'' else Inr c)"

definition acceptIncomingConnectionService :: "string \<Rightarrow> string \<Rightarrow> people \<Rightarrow> (string + unit) \<times> people" where
  "acceptIncomingConnectionService viewer i s = (case gateAddresseePending (findConnectionById i s) viewer of
      Inl e \<Rightarrow> (Inl e, s)
    | Inr c \<Rightarrow>
       (let s1 = updateStatusById i AcceptedConnection s in
        (Inr (), if cn_requesterId c = [] then s1
         else tell [RequestAcceptedNote (cn_requesterId c) viewer i, ConnectionUpdated (cn_requesterId c) viewer i ''accepted'']
           (addMatchingConnectionPeers (cn_requesterId c) viewer s1))))"

definition rejectIncomingConnectionService :: "string \<Rightarrow> string \<Rightarrow> people \<Rightarrow> (string + unit) \<times> people" where
  "rejectIncomingConnectionService viewer i s = (case gateAddresseePending (findConnectionById i s) viewer of
      Inl e \<Rightarrow> (Inl e, s)
    | Inr c \<Rightarrow>
       (let s1 = updateStatusById i RejectedConnection s in
        (Inr (), if cn_requesterId c = [] then s1
         else tell [ConnectionUpdated (cn_requesterId c) viewer i ''rejected''] s1)))"

definition withdrawConnectionRequestService :: "string \<Rightarrow> string \<Rightarrow> people \<Rightarrow> (string + unit) \<times> people" where
  "withdrawConnectionRequestService viewer i s = (case findConnectionById i s of
      None \<Rightarrow> (Inl ''NOT_FOUND'', s)
    | Some c \<Rightarrow>
        if cn_requesterId c \<noteq> viewer then (Inl ''FORBIDDEN'', s)
        else if cn_status c \<noteq> PendingConnection then (Inl ''INVALID_STATE'', s)
        else (Inr (), tell [ConnectionUpdated (cn_addresseeId c) viewer (cn_id c) ''none''] (cancelPendingOutgoingRequest i viewer s)))"

definition disconnectConnectionService :: "string \<Rightarrow> string \<Rightarrow> people \<Rightarrow> (string + unit) \<times> people" where
  "disconnectConnectionService viewer i s = (case findConnectionById i s of
      None \<Rightarrow> (Inl ''NOT_FOUND'', s)
    | Some c \<Rightarrow>
        if \<not> mine viewer c then (Inl ''FORBIDDEN'', s)
        else if cn_status c \<noteq> AcceptedConnection then (Inl ''INVALID_STATE'', s)
        else (Inr (), emitConnectionUpdatedToPeer viewer c ''none''
          (removeMatchingConnectionPeers viewer (other_of viewer c) (cancelAcceptedConnectionAsPeer i viewer s))))"

end
