(* ===== verification/PeopleRules.thy ===== *)
theory PeopleRules
  imports ServerPeople MatchPool
begin

text \<open>
  The rules that hold between people whatever they ask, answer and block: at most one request or connection
  between two users, none across a block, and Redis sets that say what the rows say.
\<close>

subsection \<open>Rows that agree\<close>

definition active_row_c :: "connection_row \<Rightarrow> bool" where
  "active_row_c c \<longleftrightarrow> cn_status c = PendingConnection \<or> cn_status c = AcceptedConnection"

definition proper :: "connection_row \<Rightarrow> bool" where
  "proper c \<longleftrightarrow> cn_requesterId c \<noteq> cn_addresseeId c \<and> cn_requesterId c \<noteq> [] \<and> cn_addresseeId c \<noteq> []"

definition rows_ok :: "(string \<Rightarrow> string \<Rightarrow> bool) \<Rightarrow> connection_row list \<Rightarrow> bool" where
  "rows_ok blocked cs \<longleftrightarrow> distinct (map cn_id cs) \<and> (\<forall>c\<in>set cs. proper c) \<and>
     (\<forall>c\<in>set cs. \<forall>d\<in>set cs. cn_requesterId c = cn_requesterId d \<and> cn_addresseeId c = cn_addresseeId d \<longrightarrow> c = d) \<and>
     (\<forall>c\<in>set cs. \<forall>d\<in>set cs. active_row_c c \<and> active_row_c d \<and> between (cn_requesterId c) (cn_addresseeId c) d \<longrightarrow> c = d) \<and>
     (\<forall>c\<in>set cs. active_row_c c \<longrightarrow> \<not> blocked (cn_requesterId c) (cn_addresseeId c))"

lemma same_id: "rows_ok B cs \<Longrightarrow> c \<in> set cs \<Longrightarrow> d \<in> set cs \<Longrightarrow> cn_id c = cn_id d \<Longrightarrow> c = d"
  by (auto simp: rows_ok_def distinct_map inj_on_def)

lemma rows_ok_D:
  assumes "rows_ok B cs" "c \<in> set cs"
  shows "proper c"
    and "d \<in> set cs \<Longrightarrow> cn_requesterId c = cn_requesterId d \<Longrightarrow> cn_addresseeId c = cn_addresseeId d \<Longrightarrow> c = d"
    and "d \<in> set cs \<Longrightarrow> active_row_c c \<Longrightarrow> active_row_c d \<Longrightarrow> between (cn_requesterId c) (cn_addresseeId c) d \<Longrightarrow> c = d"
    and "active_row_c c \<Longrightarrow> \<not> B (cn_requesterId c) (cn_addresseeId c)"
  using assms by (auto simp: rows_ok_def)

text \<open>A new status for some rows: a row that becomes active has nobody else active, and no block, between its users.\<close>

lemma restatus_ok:
  assumes ok: "rows_ok B cs"
    and st: "\<And>c d. c \<in> set cs \<Longrightarrow> P c \<Longrightarrow> st = PendingConnection \<or> st = AcceptedConnection \<Longrightarrow>
      \<not> B (cn_requesterId c) (cn_addresseeId c) \<and>
      (d \<in> set cs \<longrightarrow> between (cn_requesterId c) (cn_addresseeId c) d \<longrightarrow> active_row_c d \<or> P d \<longrightarrow> d = c)"
  shows "rows_ok B (map (\<lambda>c. if P c then c\<lparr>cn_status := st\<rparr> else c) cs)"
proof -
  let ?f = "\<lambda>c. if P c then c\<lparr>cn_status := st\<rparr> else c"
  have keep: "cn_id (?f c) = cn_id c" "cn_requesterId (?f c) = cn_requesterId c" "cn_addresseeId (?f c) = cn_addresseeId c" for c
    by simp_all
  have btw: "between a b (?f c) = between a b c" "proper (?f c) = proper c" for a b c by (simp_all add: between_def proper_def)
  have act: "active_row_c (?f c) \<longleftrightarrow> (if P c then st = PendingConnection \<or> st = AcceptedConnection else active_row_c c)" for c
    by (simp add: active_row_c_def)
  have "map cn_id (map ?f cs) = map cn_id cs" by simp
  moreover have "?f c = ?f d" if "c \<in> set cs" "d \<in> set cs" "active_row_c (?f c)" "active_row_c (?f d)"
      "between (cn_requesterId c) (cn_addresseeId c) d" for c d
  proof -
    have sym: "between (cn_requesterId d) (cn_addresseeId d) c" using that(5) by (auto simp: between_def)
    have "c = d"
    proof (cases "P c")
      case True
      with st [OF that(1) True, of d] that act [of c] act [of d] show ?thesis by (auto split: if_splits)
    next
      case F: False
      show ?thesis
      proof (cases "P d")
        case True
        with st [OF that(2) True, of c] sym that act [of c] act [of d] F show ?thesis by (auto split: if_splits)
      next
        case False
        with F that act [of c] act [of d] rows_ok_D(3) [OF ok that(1,2)] show ?thesis by simp
      qed
    qed
    then show ?thesis by simp
  qed
  moreover have "\<not> B (cn_requesterId c) (cn_addresseeId c)" if "c \<in> set cs" "active_row_c (?f c)" for c
    using that st [OF that(1), of c] act [of c] rows_ok_D(4) [OF ok that(1)] by (auto split: if_splits)
  moreover have "distinct (map cn_id cs)" using ok by (simp add: rows_ok_def)
  ultimately show ?thesis
    using rows_ok_D(1,2) [OF ok] unfolding rows_ok_def set_map ball_simps keep btw by (simp only: keep btw) blast
qed

lemma deactivate_ok:
  "rows_ok B cs \<Longrightarrow> st = RejectedConnection \<or> st = CancelledConnection \<Longrightarrow>
   rows_ok B (map (\<lambda>c. if P c then c\<lparr>cn_status := st\<rparr> else c) cs)"
  by (rule restatus_ok) auto

text \<open>Some rows stop being active, and the rest is not blocked.\<close>

lemma rows_ok_fewer:
  assumes ok: "rows_ok B cs"
    and keep: "\<And>c. cn_id (f c) = cn_id c" "\<And>c. cn_requesterId (f c) = cn_requesterId c" "\<And>c. cn_addresseeId (f c) = cn_addresseeId c"
    and stay: "\<And>c. c \<in> set cs \<Longrightarrow> active_row_c (f c) \<Longrightarrow> f c = c"
    and free: "\<And>c. c \<in> set cs \<Longrightarrow> active_row_c (f c) \<Longrightarrow> \<not> B' (cn_requesterId c) (cn_addresseeId c)"
  shows "rows_ok B' (map f cs)"
proof -
  have "map cn_id (map f cs) = map cn_id cs" using keep(1) by simp
  moreover have "distinct (map cn_id cs)" using ok by (simp add: rows_ok_def)
  ultimately have dist: "distinct (map cn_id (map f cs))" by (simp only:)
  have prp: "proper (f c) = proper c" for c by (simp add: proper_def keep)
  have one: "f c = f d" if "c \<in> set cs" "d \<in> set cs" "cn_requesterId c = cn_requesterId d" "cn_addresseeId c = cn_addresseeId d" for c d
    using rows_ok_D(2) [OF ok that(1,2)] that by simp
  have act: "f c = f d" if "c \<in> set cs" "d \<in> set cs" "active_row_c (f c)" "active_row_c (f d)"
      "between (cn_requesterId c) (cn_addresseeId c) (f d)" for c d
  proof -
    have "f c = c" "f d = d" using stay that by blast+
    then show ?thesis using rows_ok_D(3) [OF ok that(1,2)] that(3,4,5) by simp
  qed
  show ?thesis
    unfolding rows_ok_def set_map ball_simps keep prp
    by (intro conjI, rule dist) (use rows_ok_D(1) [OF ok] one act free in blast)+
qed

lemma rows_ok_filter: "rows_ok B cs \<Longrightarrow> rows_ok B (filter P cs)"
  by (auto simp: rows_ok_def distinct_map inj_on_def)

lemma rows_ok_insert:
  assumes "rows_ok B cs" "cn_id c \<notin> cn_id ` set cs" "proper c" "\<not> B (cn_requesterId c) (cn_addresseeId c)"
    and "\<forall>d\<in>set cs. \<not> between (cn_requesterId c) (cn_addresseeId c) d"
  shows "rows_ok B (cs @ [c])"
  using assms unfolding rows_ok_def by (auto simp: between_def)

text \<open>A row turned round: there is none the other way.\<close>

lemma rows_ok_flip:
  assumes ok: "rows_ok B cs" and row: "c \<in> set cs" "cn_requesterId c = b" "cn_addresseeId c = a"
    and alone: "\<forall>d\<in>set cs. between a b d \<longrightarrow> d = c" and "\<not> B a b"
  shows "rows_ok B (map (\<lambda>d. if cn_id d = cn_id c then d\<lparr>cn_requesterId := a, cn_addresseeId := b, cn_status := PendingConnection\<rparr> else d) cs)"
proof -
  let ?c = "c\<lparr>cn_requesterId := a, cn_addresseeId := b, cn_status := PendingConnection\<rparr>"
  have map: "map (\<lambda>d. if cn_id d = cn_id c then d\<lparr>cn_requesterId := a, cn_addresseeId := b, cn_status := PendingConnection\<rparr> else d) cs =
      map (\<lambda>d. if d = c then ?c else d) cs"
    using same_id [OF ok _ row(1)] by auto
  have "map cn_id (map (\<lambda>d. if d = c then ?c else d) cs) = map cn_id cs" by simp
  moreover have "distinct (map cn_id cs)" using ok by (simp add: rows_ok_def)
  ultimately have dist: "distinct (map cn_id (map (\<lambda>d. if d = c then ?c else d) cs))" by (simp only:)
  have set: "set (map (\<lambda>d. if d = c then ?c else d) cs) = insert ?c (set cs - {c})"
    using row(1) by auto
  have "proper ?c" using rows_ok_D(1) [OF ok row(1)] row by (auto simp: proper_def)
  moreover have "\<not> between a b d" if "d \<in> set cs - {c}" for d using alone that by auto
  moreover from this have "between (cn_requesterId d) (cn_addresseeId d) ?c \<Longrightarrow> d \<notin> set cs - {c}" for d by (auto simp: between_def)
  ultimately show ?thesis
    using ok \<open>\<not> B a b\<close> unfolding map rows_ok_def set by (intro conjI) (rule dist, auto simp: between_def)
qed

subsection \<open>The store\<close>

definition blocks_ok :: "people \<Rightarrow> bool" where
  "blocks_ok s \<longleftrightarrow> (\<forall>u. pe_blockOut s u = {v. isBlockedBy u v s} \<and> pe_blockIn s u = {v. isBlockedBy v u s})"

definition peers_ok :: "people \<Rightarrow> bool" where
  "peers_ok s \<longleftrightarrow> (\<forall>c\<in>set (pe_connections s). cn_status c = AcceptedConnection \<longrightarrow>
     cn_addresseeId c \<in> pe_peers s (cn_requesterId c) \<and> cn_requesterId c \<in> pe_peers s (cn_addresseeId c))"

definition people_ok :: "people \<Rightarrow> bool" where
  "people_ok s \<longleftrightarrow> rows_ok (\<lambda>a b. isEitherBlocked a b s) (pe_connections s) \<and> blocks_ok s \<and> peers_ok s"

lemma tell_simps [simp]:
  "pe_connections (tell es s) = pe_connections s" "pe_blocks (tell es s) = pe_blocks s" "pe_peers (tell es s) = pe_peers s"
  "pe_blockOut (tell es s) = pe_blockOut s" "pe_blockIn (tell es s) = pe_blockIn s"
  by (simp_all add: tell_def)

lemma on_connections_simps [simp]:
  "pe_connections (on_connections f s) = f (pe_connections s)" "pe_blocks (on_connections f s) = pe_blocks s"
  "pe_peers (on_connections f s) = pe_peers s" "pe_blockOut (on_connections f s) = pe_blockOut s"
  "pe_blockIn (on_connections f s) = pe_blockIn s"
  by (simp_all add: on_connections_def)

lemma peers_simps [simp]:
  "pe_connections (addMatchingConnectionPeers a b s) = pe_connections s" "pe_blocks (addMatchingConnectionPeers a b s) = pe_blocks s"
  "pe_blockOut (addMatchingConnectionPeers a b s) = pe_blockOut s" "pe_blockIn (addMatchingConnectionPeers a b s) = pe_blockIn s"
  "pe_connections (removeMatchingConnectionPeers a b s) = pe_connections s" "pe_blocks (removeMatchingConnectionPeers a b s) = pe_blocks s"
  "pe_blockOut (removeMatchingConnectionPeers a b s) = pe_blockOut s" "pe_blockIn (removeMatchingConnectionPeers a b s) = pe_blockIn s"
  by (simp_all add: addMatchingConnectionPeers_def removeMatchingConnectionPeers_def add_peer_def remove_peer_def)

lemma peers_added: "a \<noteq> b \<Longrightarrow> v \<in> pe_peers (addMatchingConnectionPeers a b s) u \<longleftrightarrow> v \<in> pe_peers s u \<or> (u = a \<and> v = b) \<or> (u = b \<and> v = a)"
  by (auto simp: addMatchingConnectionPeers_def add_peer_def)

lemma peers_removed: "v \<in> pe_peers (removeMatchingConnectionPeers a b s) u \<longleftrightarrow> v \<in> pe_peers s u \<and> \<not> (u = a \<and> v = b) \<and> \<not> (u = b \<and> v = a)"
  by (auto simp: removeMatchingConnectionPeers_def remove_peer_def)

lemma block_rows: "pe_blocks s' = pe_blocks s \<Longrightarrow> isBlockedBy a b s' = isBlockedBy a b s" "pe_blocks s' = pe_blocks s \<Longrightarrow> isEitherBlocked a b s' = isEitherBlocked a b s"
  by (simp_all add: isBlockedBy_def isEitherBlocked_def)

lemma people_ok_tell [simp]: "people_ok (tell es s) = people_ok s"
  by (simp add: people_ok_def blocks_ok_def peers_ok_def isEitherBlocked_def isBlockedBy_def)

lemma people_ok_emit [simp]: "people_ok (emitConnectionUpdatedToPeer u c st s) = people_ok s"
  by (simp add: emitConnectionUpdatedToPeer_def)

text \<open>A row that stops being active.\<close>

lemma deactivate_people:
  assumes "people_ok s" "st = RejectedConnection \<or> st = CancelledConnection"
  shows "people_ok (set_connection_status P st s)"
  using assms deactivate_ok [of "\<lambda>a b. isEitherBlocked a b s" "pe_connections s" st P]
  by (auto simp: people_ok_def blocks_ok_def peers_ok_def isEitherBlocked_def isBlockedBy_def set_connection_status_def)

text \<open>A pending row that is accepted, with both users told to the matching service.\<close>

lemma accept_people:
  assumes ok: "people_ok s" and c: "c \<in> set (pe_connections s)" "cn_status c = PendingConnection"
    and ab: "(a = cn_requesterId c \<and> b = cn_addresseeId c) \<or> (a = cn_addresseeId c \<and> b = cn_requesterId c)"
  shows "people_ok (addMatchingConnectionPeers a b (updateStatusById (cn_id c) AcceptedConnection s))"
proof -
  let ?B = "\<lambda>a b. isEitherBlocked a b s" and ?cs = "pe_connections s"
  have rows: "rows_ok ?B ?cs" using ok by (simp add: people_ok_def)
  have only: "d = c" if "d \<in> set ?cs" "cn_id d = cn_id c" for d using same_id [OF rows that(1) c(1)] that(2) .
  have act: "active_row_c c" using c(2) by (simp add: active_row_c_def)
  have "rows_ok ?B (map (\<lambda>d. if cn_id d = cn_id c then d\<lparr>cn_status := AcceptedConnection\<rparr> else d) ?cs)"
  proof (rule restatus_ok [OF rows], intro conjI impI)
    fix e d assume e: "e \<in> set ?cs" "cn_id e = cn_id c"
    then have ec: "e = c" by (rule only)
    show "\<not> ?B (cn_requesterId e) (cn_addresseeId e)" using rows_ok_D(4) [OF rows c(1) act] ec by simp
    assume d: "d \<in> set ?cs" "between (cn_requesterId e) (cn_addresseeId e) d" "active_row_c d \<or> cn_id d = cn_id c"
    then show "d = e" using rows_ok_D(3) [OF rows c(1) d(1) act] only ec by metis
  qed
  moreover have ne: "a \<noteq> b" using ab rows_ok_D(1) [OF rows c(1)] by (auto simp: proper_def)
  moreover have "peers_ok (addMatchingConnectionPeers a b (updateStatusById (cn_id c) AcceptedConnection s))"
    unfolding peers_ok_def
  proof
    fix d assume "d \<in> set (pe_connections (addMatchingConnectionPeers a b (updateStatusById (cn_id c) AcceptedConnection s)))"
    then obtain e where e: "e \<in> set ?cs" "d = (if cn_id e = cn_id c then e\<lparr>cn_status := AcceptedConnection\<rparr> else e)"
      by (auto simp: updateStatusById_def set_connection_status_def)
    have peers: "pe_peers (updateStatusById (cn_id c) AcceptedConnection s) = pe_peers s"
      by (simp add: updateStatusById_def set_connection_status_def)
    show "cn_status d = AcceptedConnection \<longrightarrow>
        cn_addresseeId d \<in> pe_peers (addMatchingConnectionPeers a b (updateStatusById (cn_id c) AcceptedConnection s)) (cn_requesterId d) \<and>
        cn_requesterId d \<in> pe_peers (addMatchingConnectionPeers a b (updateStatusById (cn_id c) AcceptedConnection s)) (cn_addresseeId d)"
    proof (cases "cn_id e = cn_id c")
      case True
      then have "cn_requesterId d = cn_requesterId c" "cn_addresseeId d = cn_addresseeId c" using only [OF e(1)] e(2) by simp_all
      with ab show ?thesis by (auto simp: peers_added [OF ne])
    next
      case False
      then show ?thesis using e ok by (simp add: people_ok_def peers_ok_def peers_added [OF ne] peers)
    qed
  qed
  ultimately show ?thesis
    using ok by (simp add: people_ok_def blocks_ok_def isEitherBlocked_def isBlockedBy_def updateStatusById_def set_connection_status_def)
qed

text \<open>A block, and the end of what was between the two.\<close>

definition cancel_one :: "string \<Rightarrow> connection_row \<Rightarrow> connection_row \<Rightarrow> connection_row" where
  "cancel_one v c d = (if active_row_c c \<and> cn_id d = cn_id c \<and> (cn_status c = AcceptedConnection \<longrightarrow> mine v d) \<and>
       (cn_status c = PendingConnection \<longrightarrow> cn_requesterId c = v \<longrightarrow> cn_requesterId d = v)
     then d\<lparr>cn_status := (if cn_status c = PendingConnection \<and> cn_requesterId c \<noteq> v then RejectedConnection else CancelledConnection)\<rparr> else d)"

lemma cancel_row_connections: "pe_connections (cancel_row v c s) = map (cancel_one v c) (pe_connections s)"
proof (cases "active_row_c c")
  case True
  then show ?thesis
    by (auto simp: cancel_one_def active_row_c_def emitConnectionUpdatedToPeer_def cancelAcceptedConnectionAsPeer_def
        cancelPendingOutgoingRequest_def updateStatusById_def set_connection_status_def mine_def)
next
  case False
  then have "cancel_one v c = id" by (auto simp: cancel_one_def fun_eq_iff)
  with False show ?thesis by (simp add: active_row_c_def)
qed

lemma cancel_row_same [simp]:
  "pe_blocks (cancel_row v c s) = pe_blocks s" "pe_peers (cancel_row v c s) = pe_peers s"
  "pe_blockOut (cancel_row v c s) = pe_blockOut s" "pe_blockIn (cancel_row v c s) = pe_blockIn s"
  by (simp_all add: emitConnectionUpdatedToPeer_def cancelAcceptedConnectionAsPeer_def cancelPendingOutgoingRequest_def
      updateStatusById_def set_connection_status_def)

declare cancel_row.simps [simp del]

lemma cancel_all_same:
  "pe_blocks (fold (cancel_row v) cs s) = pe_blocks s" "pe_peers (fold (cancel_row v) cs s) = pe_peers s"
  "pe_blockOut (fold (cancel_row v) cs s) = pe_blockOut s" "pe_blockIn (fold (cancel_row v) cs s) = pe_blockIn s"
  by (induction cs arbitrary: s) simp_all

text \<open>What a row is after the ones read first have been cancelled.\<close>

definition cancelled_by :: "string \<Rightarrow> connection_row list \<Rightarrow> connection_row \<Rightarrow> connection_row" where
  "cancelled_by v cs d = (if d \<in> set cs \<and> active_row_c d
     then d\<lparr>cn_status := (if cn_status d = PendingConnection \<and> cn_requesterId d \<noteq> v then RejectedConnection else CancelledConnection)\<rparr> else d)"

lemma cancel_all_connections:
  assumes "distinct (map cn_id (pe_connections s))" "set cs \<subseteq> set (pe_connections s)" "distinct cs" "\<forall>c\<in>set cs. mine v c"
  shows "pe_connections (fold (cancel_row v) cs s) = map (cancelled_by v cs) (pe_connections s)"
  using assms(2,3,4)
proof (induction cs rule: rev_induct)
  case Nil
  then show ?case by (simp add: cancelled_by_def)
next
  case (snoc c cs)
  let ?s1 = "fold (cancel_row v) cs s"
  have IH: "pe_connections ?s1 = map (cancelled_by v cs) (pe_connections s)" using snoc by simp
  have id: "cn_id (cancelled_by v cs d) = cn_id d" "mine u (cancelled_by v cs d) = mine u d"
    "cn_requesterId (cancelled_by v cs d) = cn_requesterId d" for d u
    by (simp_all add: cancelled_by_def mine_def)
  have c: "c \<in> set (pe_connections s)" "c \<notin> set cs" "mine v c" using snoc.prems by auto
  have only: "d = c" if "d \<in> set (pe_connections s)" "cn_id d = cn_id c" for d
    using assms(1) that c(1) by (auto simp: distinct_map inj_on_def)
  have "cancel_one v c (cancelled_by v cs d) = cancelled_by v (cs @ [c]) d" if d: "d \<in> set (pe_connections s)" for d
  proof (cases "d = c")
    case True
    then show ?thesis using c by (auto simp: cancel_one_def cancelled_by_def active_row_c_def)
  next
    case False
    then have "cn_id d \<noteq> cn_id c" using only [OF d] by blast
    then show ?thesis using False by (simp add: cancel_one_def id) (simp add: cancelled_by_def)
  qed
  then show ?case by (simp add: cancel_row_connections IH)
qed

lemma block_connections:
  assumes "people_ok s" "v \<noteq> t"
  shows "pe_connections (cancelPeerConnectionsOnBlock v t s) = map (cancelled_by v (filter (between v t) (pe_connections s))) (pe_connections s)"
proof -
  have "distinct (map cn_id (pe_connections s))" using assms by (simp add: people_ok_def rows_ok_def)
  moreover from this have "distinct (pe_connections s)" by (simp add: distinct_map)
  ultimately show ?thesis
    unfolding cancelPeerConnectionsOnBlock_def findAllBetween_def
    by (intro cancel_all_connections) (auto simp: between_def mine_def)
qed

lemma block_people:
  assumes ok: "people_ok s" and "v \<noteq> t"
  shows "people_ok (cancelPeerConnectionsOnBlock v t (redisAddUserBlock v t (createBlock v t s)))"
proof -
  let ?s1 = "redisAddUserBlock v t (createBlock v t s)"
  let ?f = "cancelled_by v (filter (between v t) (pe_connections s))"
  let ?s2 = "cancelPeerConnectionsOnBlock v t ?s1"
  have conns: "pe_connections ?s1 = pe_connections s" by (simp add: redisAddUserBlock_def createBlock_def)
  have blocked: "isBlockedBy a b ?s1 \<longleftrightarrow> isBlockedBy a b s \<or> (a, b) = (v, t)" for a b
    by (auto simp: redisAddUserBlock_def createBlock_def isBlockedBy_def)
  have same: "pe_blocks ?s2 = pe_blocks ?s1" "pe_peers ?s2 = pe_peers s" "pe_blockOut ?s2 = pe_blockOut ?s1" "pe_blockIn ?s2 = pe_blockIn ?s1"
    by (simp_all add: cancelPeerConnectionsOnBlock_def cancel_all_same) (simp add: redisAddUserBlock_def createBlock_def)
  have rows: "rows_ok (\<lambda>a b. isEitherBlocked a b s) (pe_connections s)" using ok by (simp add: people_ok_def)
  have dist: "distinct (map cn_id (pe_connections s))" "distinct (pe_connections s)"
    using rows by (simp_all add: rows_ok_def distinct_map)
  have conns2: "pe_connections ?s2 = map ?f (pe_connections s)"
    unfolding cancelPeerConnectionsOnBlock_def findAllBetween_def conns
    by (subst cancel_all_connections) (use dist in \<open>auto simp: conns between_def mine_def\<close>)
  have f: "cn_id (?f c) = cn_id c" "cn_requesterId (?f c) = cn_requesterId c" "cn_addresseeId (?f c) = cn_addresseeId c"
    "between a b (?f c) = between a b c" for a b c by (simp_all add: cancelled_by_def between_def)
  have act: "active_row_c (?f c) \<longleftrightarrow> active_row_c c \<and> \<not> between v t c" if "c \<in> set (pe_connections s)" for c
    using that by (auto simp: cancelled_by_def active_row_c_def)
  have stay: "?f c = c" if "c \<in> set (pe_connections s)" "active_row_c (?f c)" for c
    using that by (auto simp: cancelled_by_def active_row_c_def)
  have either: "isEitherBlocked a b ?s2 \<longleftrightarrow> isEitherBlocked a b s \<or> (a = v \<and> b = t) \<or> (a = t \<and> b = v)" for a b
    using blocked same(1) by (auto simp: isEitherBlocked_def isBlockedBy_def)
  have "rows_ok (\<lambda>a b. isEitherBlocked a b ?s2) (map ?f (pe_connections s))"
    by (rule rows_ok_fewer [OF rows f(1,2,3) stay]) (use act rows_ok_D(4) [OF rows] either in \<open>auto simp: between_def\<close>)
  moreover have "blocks_ok ?s2"
  proof -
    have "pe_blockOut ?s2 u = (if u = v then insert t (pe_blockOut s u) else pe_blockOut s u)"
      "pe_blockIn ?s2 u = (if u = t then insert v (pe_blockIn s u) else pe_blockIn s u)" for u
      unfolding same by (simp_all add: redisAddUserBlock_def createBlock_def)
    moreover have "isBlockedBy a b ?s2 \<longleftrightarrow> isBlockedBy a b s \<or> (a = v \<and> b = t)" for a b
      using blocked block_rows(1) [OF same(1)] by simp
    moreover have "pe_blockOut s u = {v. isBlockedBy u v s}" "pe_blockIn s u = {v. isBlockedBy v u s}" for u
      using ok by (simp_all add: people_ok_def blocks_ok_def)
    ultimately show ?thesis unfolding blocks_ok_def by auto
  qed
  moreover have "peers_ok ?s2"
  proof -
    have "cn_status c = AcceptedConnection" if "c \<in> set (pe_connections s)" "cn_status (?f c) = AcceptedConnection" for c
      using stay [of c] that by (metis active_row_c_def)
    then show ?thesis using ok unfolding people_ok_def peers_ok_def conns2 same(2) set_map ball_simps f by blast
  qed
  ultimately show ?thesis by (simp add: people_ok_def conns2)
qed

subsection \<open>Asking again\<close>

lemma accept_service_people: "people_ok s \<Longrightarrow> people_ok (snd (acceptIncomingConnectionService v i s))"
proof -
  assume ok: "people_ok s"
  show ?thesis
  proof (cases "gateAddresseePending (findConnectionById i s) v")
    case (Inl e)
    with ok show ?thesis by (simp add: acceptIncomingConnectionService_def)
  next
    case (Inr c)
    then have c: "c \<in> set (pe_connections s)" "cn_id c = i" "cn_addresseeId c = v" "cn_status c = PendingConnection"
      by (auto simp: gateAddresseePending_def findConnectionById_def find_Some_iff split: option.splits if_splits)
    have full: "people_ok (addMatchingConnectionPeers (cn_requesterId c) v (updateStatusById i AcceptedConnection s))"
      using accept_people [OF ok c(1,4), of "cn_requesterId c" v] c(2,3) by simp
    show ?thesis
    proof (cases "cn_requesterId c = []")
      case False
      with full Inr show ?thesis by (simp add: acceptIncomingConnectionService_def Let_def)
    next
      case True
      then show ?thesis using ok c(1) rows_ok_D(1) by (auto simp: people_ok_def proper_def)
    qed
  qed
qed

lemma people_rows: "people_ok s \<Longrightarrow> rows_ok (\<lambda>a b. isEitherBlocked a b s) (pe_connections s)"
  by (simp add: people_ok_def)

text \<open>New rows under the same blocks and with no more accepted ones.\<close>

lemma people_ok_rows:
  assumes "people_ok s" "rows_ok (\<lambda>a b. isEitherBlocked a b s) (f (pe_connections s))"
    and "\<And>c. c \<in> set (f (pe_connections s)) \<Longrightarrow> cn_status c = AcceptedConnection \<Longrightarrow> c \<in> set (pe_connections s)"
  shows "people_ok (on_connections f s)"
  using assms by (auto simp: people_ok_def blocks_ok_def peers_ok_def isEitherBlocked_def isBlockedBy_def)

lemma reopen_people:
  assumes ok: "people_ok s" and c: "c \<in> set (pe_connections s)" "between v t c" and "\<not> isEitherBlocked v t s"
    and "\<forall>d\<in>set (pe_connections s). between v t d \<longrightarrow> \<not> active_row_c d"
  shows "people_ok (updateStatusById (cn_id c) PendingConnection s)"
  unfolding updateStatusById_def set_connection_status_def
proof (rule people_ok_rows [OF ok])
  have only: "d = c" if "d \<in> set (pe_connections s)" "cn_id d = cn_id c" for d
    using same_id [OF people_rows [OF ok] that(1) c(1)] that(2) .
  have free: "\<not> isEitherBlocked (cn_requesterId c) (cn_addresseeId c) s"
    using assms(4) c(2) by (auto simp: between_def isEitherBlocked_def)
  have pair: "between (cn_requesterId c) (cn_addresseeId c) d = between v t d" for d
    using c(2) by (auto simp: between_def)
  show "rows_ok (\<lambda>a b. isEitherBlocked a b s)
      (map (\<lambda>d. if cn_id d = cn_id c then d\<lparr>cn_status := PendingConnection\<rparr> else d) (pe_connections s))"
  proof (rule restatus_ok [OF people_rows [OF ok]], intro conjI impI)
    fix e d assume e: "e \<in> set (pe_connections s)" "cn_id e = cn_id c"
    then have ec: "e = c" by (rule only)
    show "\<not> isEitherBlocked (cn_requesterId e) (cn_addresseeId e) s" using free ec by simp
    assume "d \<in> set (pe_connections s)" "between (cn_requesterId e) (cn_addresseeId e) d" "active_row_c d \<or> cn_id d = cn_id c"
    then show "d = e" using assms(5) only pair ec by metis
  qed
qed (auto split: if_splits)

lemma flip_people:
  assumes ok: "people_ok s" and c: "c \<in> set (pe_connections s)" "cn_requesterId c = t" "cn_addresseeId c = v"
    and "\<not> isEitherBlocked v t s" "\<forall>d\<in>set (pe_connections s). between v t d \<longrightarrow> d = c"
  shows "people_ok (setAsPendingRequest (cn_id c) v t s)"
  unfolding setAsPendingRequest_def
  by (rule people_ok_rows [OF ok], rule rows_ok_flip [OF people_rows [OF ok] c]) (use assms(5,6) in \<open>auto split: if_splits\<close>)

lemma delete_people: "people_ok s \<Longrightarrow> people_ok (deleteConnectionById i s)"
  unfolding deleteConnectionById_def
  by (rule people_ok_rows) (auto intro: rows_ok_filter people_rows)

lemma insert_people:
  assumes "people_ok s" "i \<notin> cn_id ` set (pe_connections s)" "v \<noteq> t" "v \<noteq> []" "t \<noteq> []" "\<not> isEitherBlocked v t s"
    and "\<forall>d\<in>set (pe_connections s). \<not> between v t d"
  shows "people_ok (insertPendingRequest i v t s)"
  unfolding insertPendingRequest_def
  by (rule people_ok_rows [OF assms(1)], rule rows_ok_insert [OF people_rows [OF assms(1)]]) (use assms in \<open>auto simp: proper_def\<close>)

lemma asked_people [simp]: "people_ok (snd (asked v t i salt s)) = people_ok s"
  by (simp add: asked_def)

lemma reopen_or_insert_people:
  assumes ok: "people_ok s" and new: "i \<notin> cn_id ` set (pe_connections s)" "v \<noteq> t" "v \<noteq> []" "t \<noteq> []" "\<not> isEitherBlocked v t s"
    and none: "\<forall>d\<in>set (pe_connections s). between v t d \<longrightarrow> \<not> active_row_c d"
  shows "people_ok (snd (reopen_or_insert now i v t s))"
proof -
  let ?rows = "findAllBetween v t s"
  let ?direct = "find (\<lambda>c. cn_requesterId c = v \<and> cn_addresseeId c = t) ?rows"
  let ?reverse = "find (\<lambda>c. cn_requesterId c = t \<and> cn_addresseeId c = v) ?rows"
  have stale: "isStaleRow c" if "c \<in> set (pe_connections s)" "between v t c" for c
    using none that by (cases "cn_status c") (auto simp: isStaleRow_def active_row_c_def)
  have D: "c \<in> set (pe_connections s)" "cn_requesterId c = v" "cn_addresseeId c = t" "between v t c" if "?direct = Some c" for c
    using that by (auto simp: find_Some_iff findAllBetween_def dest!: nth_mem)
  have R: "c \<in> set (pe_connections s)" "cn_requesterId c = t" "cn_addresseeId c = v" "between v t c" if "?reverse = Some c" for c
    using that by (auto simp: find_Some_iff findAllBetween_def dest!: nth_mem)
  have D0: "\<not> (cn_requesterId d = v \<and> cn_addresseeId d = t)" if "?direct = None" "d \<in> set (pe_connections s)" for d
    using that by (auto simp: find_None_iff findAllBetween_def between_def)
  have R0: "\<not> (cn_requesterId d = t \<and> cn_addresseeId d = v)" if "?reverse = None" "d \<in> set (pe_connections s)" for d
    using that by (auto simp: find_None_iff findAllBetween_def between_def)
  show ?thesis
  proof (cases ?direct)
    case (Some c)
    note c = D [OF Some] and st = stale [OF D(1) [OF Some] D(4) [OF Some]]
    show ?thesis
    proof (cases ?reverse)
      case None
      then show ?thesis using Some st reopen_people [OF ok c(1,4) new(5) none]
        by (simp add: reopen_or_insert_def Let_def)
    next
      case R': (Some d)
      note d = R [OF R']
      have "cn_id c \<noteq> cn_id d" using same_id [OF people_rows [OF ok] c(1) d(1)] c d new(2) by auto
      then have "people_ok (updateStatusById (cn_id c) PendingConnection (deleteConnectionById (cn_id d) s))"
        using none new(5) c by (intro reopen_people [OF delete_people [OF ok], where v = v and t = t])
          (auto simp: deleteConnectionById_def isEitherBlocked_def isBlockedBy_def)
      then show ?thesis using Some R' st stale [OF d(1,4)] by (simp add: reopen_or_insert_def Let_def)
    qed
  next
    case None
    show ?thesis
    proof (cases ?reverse)
      case R': (Some d)
      note d = R [OF R']
      have "e = d" if "e \<in> set (pe_connections s)" "between v t e" for e
        using that D0 [OF None that(1)] rows_ok_D(2) [OF people_rows [OF ok] that(1) d(1)] d by (auto simp: between_def)
      then show ?thesis using None R' stale [OF d(1,4)] flip_people [OF ok d(1,2,3) new(5)]
        by (simp add: reopen_or_insert_def Let_def)
    next
      case R': None
      have "\<not> between v t e" if "e \<in> set (pe_connections s)" for e
        using D0 [OF None that] R0 [OF R' that] by (auto simp: between_def)
      then show ?thesis using None R' insert_people [OF ok new] by (simp add: reopen_or_insert_def Let_def)
    qed
  qed
qed

lemma request_people:
  assumes ok: "people_ok s" and new: "i \<notin> cn_id ` set (pe_connections s)" "v \<noteq> []" "t \<noteq> []"
  shows "people_ok (snd (requestConnectionService now i v t s))"
proof (cases "v = t \<or> isEitherBlocked v t s \<or> (\<exists>c\<in>set (findAllBetween v t s). cn_status c = AcceptedConnection)")
  case True
  then show ?thesis using ok by (auto simp: requestConnectionService_def Let_def)
next
  case False
  show ?thesis
  proof (cases "find (\<lambda>c. cn_status c = PendingConnection) (findAllBetween v t s)")
    case None
    then have "\<forall>d\<in>set (pe_connections s). between v t d \<longrightarrow> \<not> active_row_c d"
      using False by (auto simp: find_None_iff findAllBetween_def active_row_c_def)
    then have "people_ok (snd (reopen_or_insert now i v t s))"
      using False new by (intro reopen_or_insert_people [OF ok]) auto
    then show ?thesis using False None by (simp add: requestConnectionService_def Let_def)
  next
    case (Some c)
    then have c: "c \<in> set (pe_connections s)" "cn_status c = PendingConnection"
      by (auto simp: find_Some_iff findAllBetween_def dest!: nth_mem)
    show ?thesis
    proof (cases "cn_requesterId c = t \<and> cn_addresseeId c = v")
      case True
      then have "people_ok (addMatchingConnectionPeers v t (updateStatusById (cn_id c) AcceptedConnection s))"
        by (intro accept_people [OF ok c]) auto
      then show ?thesis using False Some True by (auto simp: requestConnectionService_def Let_def)
    next
      case F: False
      then show ?thesis using False Some ok by (auto simp: requestConnectionService_def Let_def)
    qed
  qed
qed

lemma reject_people: "people_ok s \<Longrightarrow> people_ok (snd (rejectIncomingConnectionService v i s))"
  using deactivate_people [of s RejectedConnection]
  by (auto simp: rejectIncomingConnectionService_def updateStatusById_def Let_def split: sum.split)

lemma withdraw_people: "people_ok s \<Longrightarrow> people_ok (snd (withdrawConnectionRequestService v i s))"
  using deactivate_people [of s CancelledConnection]
  by (auto simp: withdrawConnectionRequestService_def cancelPendingOutgoingRequest_def split: option.split)

text \<open>The end of a connection: no other row of the two is accepted.\<close>

lemma disconnect_people:
  assumes ok: "people_ok s"
  shows "people_ok (snd (disconnectConnectionService v i s))"
proof (cases "findConnectionById i s")
  case None
  then show ?thesis using ok by (simp add: disconnectConnectionService_def)
next
  case (Some c)
  show ?thesis
  proof (cases "mine v c \<and> cn_status c = AcceptedConnection")
    case False
    then show ?thesis using ok Some by (auto simp: disconnectConnectionService_def)
  next
    case True
    have c: "c \<in> set (pe_connections s)" "cn_id c = i" using Some by (auto simp: findConnectionById_def find_Some_iff)
    let ?s1 = "cancelAcceptedConnectionAsPeer i v s"
    have ok1: "people_ok ?s1" unfolding cancelAcceptedConnectionAsPeer_def by (rule deactivate_people [OF ok]) simp
    have "\<not> between (cn_requesterId c) (cn_addresseeId c) d" if d: "d \<in> set (pe_connections ?s1)" "cn_status d = AcceptedConnection" for d
    proof
      assume b: "between (cn_requesterId c) (cn_addresseeId c) d"
      from d obtain e where e: "e \<in> set (pe_connections s)" "d = (if cn_id e = i \<and> (cn_requesterId e = v \<or> cn_addresseeId e = v)
          then e\<lparr>cn_status := CancelledConnection\<rparr> else e)"
        by (auto simp: cancelAcceptedConnectionAsPeer_def set_connection_status_def)
      then have de: "d = e" using d(2) by (auto split: if_splits)
      then have "c = e" using rows_ok_D(3) [OF people_rows [OF ok] c(1) e(1)] True b d(2) by (simp add: active_row_c_def)
      then have "d = e\<lparr>cn_status := CancelledConnection\<rparr>" using e(2) True c(2) by (simp add: mine_def)
      then show False using d(2) by simp
    qed
    then have "people_ok (removeMatchingConnectionPeers v (other_of v c) ?s1)"
      using ok1 True by (auto simp: people_ok_def blocks_ok_def peers_ok_def isEitherBlocked_def isBlockedBy_def peers_removed other_of_def
          between_def mine_def)
    with True Some show ?thesis by (simp add: disconnectConnectionService_def)
  qed
qed

lemma block_service_people: "people_ok s \<Longrightarrow> people_ok (snd (blockUserService v t s))"
  using block_people [of s v t] by (simp add: blockUserService_def notifyMessagingBlockChanged_def)

lemma unblock_people:
  assumes ok: "people_ok s"
  shows "people_ok (snd (unblockUserService v t s))"
proof -
  have mono: "rows_ok B' (pe_connections s)" if "\<And>a b. B' a b \<Longrightarrow> isEitherBlocked a b s" for B'
    using people_rows [OF ok] that by (auto simp: rows_ok_def)
  let ?s1 = "s\<lparr>pe_blocks := filter (\<lambda>p. p \<noteq> (v, t)) (pe_blocks s)\<rparr>"
  show ?thesis
  proof (cases "isBlockedBy v t s")
    case False
    then have "filter (\<lambda>p. p \<noteq> (v, t)) (pe_blocks s) = pe_blocks s"
      by (auto simp: isBlockedBy_def filter_id_conv)
    with ok False show ?thesis by (simp add: unblockUserService_def removeBlock_def)
  next
    case True
    have "rows_ok (\<lambda>a b. isEitherBlocked a b (redisRemoveUserBlock v t ?s1)) (pe_connections s)"
      by (rule mono) (auto simp: isEitherBlocked_def isBlockedBy_def redisRemoveUserBlock_def)
    moreover have "blocks_ok (redisRemoveUserBlock v t ?s1)"
      using ok by (auto simp: people_ok_def blocks_ok_def redisRemoveUserBlock_def isBlockedBy_def)
    moreover have "peers_ok (redisRemoveUserBlock v t ?s1)"
      using ok by (simp add: people_ok_def peers_ok_def redisRemoveUserBlock_def)
    ultimately have "people_ok (redisRemoveUserBlock v t ?s1)" by (simp add: people_ok_def redisRemoveUserBlock_def)
    with True show ?thesis by (simp add: unblockUserService_def removeBlock_def notifyMessagingBlockChanged_def)
  qed
qed

lemma sync_people:
  assumes ok: "people_ok s"
  shows "people_ok (syncMatchingConnectionPeersFromDatabase u s)" "people_ok (syncUserBlocksToRedis u s)"
proof -
  have got: "cn_addresseeId c \<in> getAcceptedPeerIdsForUser (cn_requesterId c) s" "cn_requesterId c \<in> getAcceptedPeerIdsForUser (cn_addresseeId c) s"
    if "c \<in> set (pe_connections s)" "cn_status c = AcceptedConnection" for c
    using that rows_ok_D(1) [OF people_rows [OF ok] that(1)] by (force simp: getAcceptedPeerIdsForUser_def other_of_def mine_def proper_def)+
  have "x \<in> pe_peers (syncMatchingConnectionPeersFromDatabase u s) w"
    if "x \<in> getAcceptedPeerIdsForUser w s" "x \<in> pe_peers s w" for x w
    using that by (auto simp: syncMatchingConnectionPeersFromDatabase_def)
  moreover have "pe_connections (syncMatchingConnectionPeersFromDatabase u s) = pe_connections s"
    by (simp add: syncMatchingConnectionPeersFromDatabase_def)
  ultimately have "peers_ok (syncMatchingConnectionPeersFromDatabase u s)"
    using ok got by (simp add: people_ok_def peers_ok_def)
  then show "people_ok (syncMatchingConnectionPeersFromDatabase u s)"
    using ok by (simp add: people_ok_def blocks_ok_def syncMatchingConnectionPeersFromDatabase_def isEitherBlocked_def isBlockedBy_def)
  show "people_ok (syncUserBlocksToRedis u s)"
    using ok by (auto simp: people_ok_def blocks_ok_def peers_ok_def syncUserBlocksToRedis_def isEitherBlocked_def isBlockedBy_def
        listBlockedUserIds_def listBlockerUserIds_def image_iff)
qed

subsection \<open>Any number of requests\<close>

datatype people_request =
    AskConnection string string string string
  | AcceptConnection string string
  | RejectConnection string string
  | WithdrawRequest string string
  | DisconnectPeer string string
  | BlockUser string string
  | UnblockUser string string
  | SyncPeers string
  | SyncBlocks string

fun people_handler :: "people_request \<Rightarrow> people \<Rightarrow> people" where
  "people_handler (AskConnection now i v t) s = snd (requestConnectionService now i v t s)"
| "people_handler (AcceptConnection v i) s = snd (acceptIncomingConnectionService v i s)"
| "people_handler (RejectConnection v i) s = snd (rejectIncomingConnectionService v i s)"
| "people_handler (WithdrawRequest v i) s = snd (withdrawConnectionRequestService v i s)"
| "people_handler (DisconnectPeer v i) s = snd (disconnectConnectionService v i s)"
| "people_handler (BlockUser v t) s = snd (blockUserService v t s)"
| "people_handler (UnblockUser v t) s = snd (unblockUserService v t s)"
| "people_handler (SyncPeers u) s = syncMatchingConnectionPeersFromDatabase u s"
| "people_handler (SyncBlocks u) s = syncUserBlocksToRedis u s"

text \<open>Users have a name, and a new row a new id.\<close>

fun people_request_ok :: "people_request \<Rightarrow> people \<Rightarrow> bool" where
  "people_request_ok (AskConnection now i v t) s \<longleftrightarrow> i \<notin> cn_id ` set (pe_connections s) \<and> v \<noteq> [] \<and> t \<noteq> []"
| "people_request_ok q s \<longleftrightarrow> True"

definition nobody :: people where
  "nobody = \<lparr>pe_connections = [], pe_blocks = [], pe_peers = (\<lambda>_. {}), pe_blockOut = (\<lambda>_. {}), pe_blockIn = (\<lambda>_. {}), pe_out = []\<rparr>"

inductive people_reach :: "people \<Rightarrow> bool" where
  start: "people_reach nobody"
| request: "people_reach s \<Longrightarrow> people_request_ok q s \<Longrightarrow> people_reach (people_handler q s)"

lemma nobody_ok: "people_ok nobody"
  by (simp add: nobody_def people_ok_def rows_ok_def blocks_ok_def peers_ok_def isBlockedBy_def)

lemma handler_people: "people_ok s \<Longrightarrow> people_request_ok q s \<Longrightarrow> people_ok (people_handler q s)"
  by (cases q) (simp_all add: request_people accept_service_people reject_people withdraw_people disconnect_people block_service_people
      unblock_people sync_people)

lemma reach_people: "people_reach s \<Longrightarrow> people_ok s"
  by (induction rule: people_reach.induct) (simp_all add: nobody_ok handler_people)

text \<open>
  C7. Connections and blocks agree. In every reachable store two users have at most one request or
  connection with each other, users of whom one has blocked the other have none, the Redis block sets
  say exactly who has blocked whom, and connected users are known to the matching service as peers.
\<close>

theorem people_stay_consistent:
  assumes "people_reach s"
  shows "(\<forall>c\<in>set (pe_connections s). \<forall>d\<in>set (pe_connections s). active_row_c c \<and> active_row_c d \<and>
        between (cn_requesterId c) (cn_addresseeId c) d \<longrightarrow> c = d) \<and>
    (\<forall>c\<in>set (pe_connections s). active_row_c c \<longrightarrow> \<not> isEitherBlocked (cn_requesterId c) (cn_addresseeId c) s) \<and>
    (\<forall>a b. isBlockedWithPeerInRedis a b s \<longleftrightarrow> isEitherBlocked a b s) \<and>
    (\<forall>c\<in>set (pe_connections s). cn_status c = AcceptedConnection \<longrightarrow>
       cn_addresseeId c \<in> pe_peers s (cn_requesterId c) \<and> cn_requesterId c \<in> pe_peers s (cn_addresseeId c))"
proof -
  have ok: "people_ok s" using reach_people [OF assms] .
  note rows = people_rows [OF ok]
  have "isBlockedWithPeerInRedis a b s \<longleftrightarrow> isEitherBlocked a b s" for a b
    using ok by (simp add: people_ok_def blocks_ok_def isBlockedWithPeerInRedis_def isEitherBlocked_def)
  moreover have "peers_ok s" using ok by (simp add: people_ok_def)
  ultimately show ?thesis using rows_ok_D(3,4) [OF rows] unfolding peers_ok_def by blast
qed

text \<open>Who makes a request.\<close>

fun requester_of :: "people_request \<Rightarrow> string option" where
  "requester_of (AskConnection now i v t) = Some v"
| "requester_of (AcceptConnection v i) = Some v"
| "requester_of (RejectConnection v i) = Some v"
| "requester_of (WithdrawRequest v i) = Some v"
| "requester_of (DisconnectPeer v i) = Some v"
| "requester_of (BlockUser v t) = Some v"
| "requester_of (UnblockUser v t) = Some v"
| "requester_of (SyncPeers u) = None"
| "requester_of (SyncBlocks u) = None"

definition fresh_accept :: "people \<Rightarrow> people \<Rightarrow> connection_row \<Rightarrow> bool" where
  "fresh_accept s s' c \<longleftrightarrow> c \<in> set (pe_connections s') \<and> cn_status c = AcceptedConnection \<and> c \<notin> set (pe_connections s)"

text \<open>The writes that make no new accepted row.\<close>

lemma no_accept_status:
  "st \<noteq> AcceptedConnection \<Longrightarrow> fresh_accept s (set_connection_status P st s) c \<Longrightarrow> False"
  by (auto simp: fresh_accept_def set_connection_status_def split: if_splits)

lemma no_accept_rows: "pe_connections s' = pe_connections s \<Longrightarrow> \<not> fresh_accept s s' c"
  by (simp add: fresh_accept_def)

lemma fresh_accept_simps [simp]:
  "fresh_accept s (tell es s') c = fresh_accept s s' c"
  "fresh_accept s (addMatchingConnectionPeers a b s') c = fresh_accept s s' c"
  "fresh_accept s (removeMatchingConnectionPeers a b s') c = fresh_accept s s' c"
  "fresh_accept s (emitConnectionUpdatedToPeer u d st s') c = fresh_accept s s' c"
  by (simp_all add: fresh_accept_def emitConnectionUpdatedToPeer_def)

lemma accepted_by_id:
  assumes ok: "people_ok s" and d: "d \<in> set (pe_connections s)" and "fresh_accept s (updateStatusById (cn_id d) AcceptedConnection s) c"
  shows "c = d\<lparr>cn_status := AcceptedConnection\<rparr>"
proof -
  from assms(3) obtain e where "e \<in> set (pe_connections s)" "cn_id e = cn_id d" "c = e\<lparr>cn_status := AcceptedConnection\<rparr>"
    by (auto simp: fresh_accept_def updateStatusById_def set_connection_status_def split: if_splits)
  then show ?thesis using same_id [OF people_rows [OF ok] _ d] by blast
qed

lemma reopen_no_accept: "\<not> fresh_accept s (snd (reopen_or_insert now i v t s)) c"
proof -
  have "\<not> fresh_accept s (updateStatusById j PendingConnection (deleteConnectionById k s)) c"
    "\<not> fresh_accept s (updateStatusById j PendingConnection s) c" "\<not> fresh_accept s (setAsPendingRequest j v t s) c"
    "\<not> fresh_accept s (insertPendingRequest i v t s) c" for j k
    by (auto simp: fresh_accept_def updateStatusById_def set_connection_status_def deleteConnectionById_def setAsPendingRequest_def
        insertPendingRequest_def split: if_splits)
  then show ?thesis by (simp add: reopen_or_insert_def Let_def asked_def)
qed

lemma cancel_all_accepted:
  "c \<in> set (pe_connections (fold (cancel_row v) cs s)) \<Longrightarrow> cn_status c = AcceptedConnection \<Longrightarrow> c \<in> set (pe_connections s)"
proof (induction cs arbitrary: s)
  case (Cons d cs)
  then have "c \<in> set (pe_connections (cancel_row v d s))" by simp
  then have "c \<in> set (map (cancel_one v d) (pe_connections s))" by (simp only: cancel_row_connections)
  then show ?case using Cons.prems(2) by (auto simp: cancel_one_def split: if_splits)
qed simp

lemma cancel_no_accept: "pe_connections s = pe_connections s0 \<Longrightarrow> \<not> fresh_accept s0 (cancelPeerConnectionsOnBlock v t s) c"
  using cancel_all_accepted [of c v "findAllBetween v t s" s] by (auto simp: fresh_accept_def cancelPeerConnectionsOnBlock_def)

text \<open>
  C8. A connection needs both. When a request makes a connection accepted, the row was a pending request
  before, the other user had made it, and the user it was made to is the one who acts now.
\<close>

theorem connection_needs_both:
  assumes "people_reach s" "c \<in> set (pe_connections (people_handler q s))" "cn_status c = AcceptedConnection" "c \<notin> set (pe_connections s)"
  shows "\<exists>d\<in>set (pe_connections s). c = d\<lparr>cn_status := AcceptedConnection\<rparr> \<and> cn_status d = PendingConnection \<and>
    requester_of q = Some (cn_addresseeId d)"
proof -
  have ok: "people_ok s" using reach_people [OF assms(1)] .
  have fresh: "fresh_accept s (people_handler q s) c" using assms(2-4) by (simp add: fresh_accept_def)
  show ?thesis
  proof (cases q)
    case (AskConnection now i v t)
    obtain d where d: "find (\<lambda>c. cn_status c = PendingConnection) (findAllBetween v t s) = Some d" "cn_requesterId d = t" "cn_addresseeId d = v"
      "fresh_accept s (updateStatusById (cn_id d) AcceptedConnection s) c"
      using fresh reopen_no_accept no_accept_rows [of s s c]
      by (auto simp: AskConnection requestConnectionService_def Let_def split: if_splits option.splits)
    then have "d \<in> set (pe_connections s)" "cn_status d = PendingConnection" by (auto simp: find_Some_iff findAllBetween_def dest!: nth_mem)
    then show ?thesis using accepted_by_id [OF ok _ d(4)] d(3) AskConnection by auto
  next
    case (AcceptConnection v i)
    obtain d where d: "gateAddresseePending (findConnectionById i s) v = Inr d" "fresh_accept s (updateStatusById i AcceptedConnection s) c"
      using fresh no_accept_rows [of s s c]
      by (auto simp: AcceptConnection acceptIncomingConnectionService_def Let_def split: if_splits sum.splits)
    then have "d \<in> set (pe_connections s)" "cn_id d = i" "cn_addresseeId d = v" "cn_status d = PendingConnection"
      by (auto simp: gateAddresseePending_def findConnectionById_def find_Some_iff split: option.splits if_splits dest!: nth_mem)
    then show ?thesis using accepted_by_id [OF ok, of d c] d(2) AcceptConnection by auto
  next
    case (RejectConnection v i)
    then show ?thesis using fresh no_accept_rows [of s s c] no_accept_status [of RejectedConnection s]
      by (auto simp: rejectIncomingConnectionService_def updateStatusById_def Let_def split: sum.splits if_splits)
  next
    case (WithdrawRequest v i)
    then show ?thesis using fresh no_accept_rows [of s s c] no_accept_status [of CancelledConnection s]
      by (auto simp: withdrawConnectionRequestService_def cancelPendingOutgoingRequest_def split: option.splits if_splits)
  next
    case (DisconnectPeer v i)
    then show ?thesis using fresh no_accept_rows [of s s c] no_accept_status [of CancelledConnection s]
      by (auto simp: disconnectConnectionService_def cancelAcceptedConnectionAsPeer_def split: option.splits if_splits)
  next
    case (BlockUser v t)
    then show ?thesis using fresh no_accept_rows [of s s c] cancel_no_accept [of "redisAddUserBlock v t (createBlock v t s)" s v t c]
      by (auto simp: blockUserService_def notifyMessagingBlockChanged_def redisAddUserBlock_def createBlock_def split: if_splits)
  next
    case (UnblockUser v t)
    then show ?thesis using fresh
      by (auto simp: unblockUserService_def notifyMessagingBlockChanged_def redisRemoveUserBlock_def removeBlock_def fresh_accept_def
          split: if_splits)
  next
    case (SyncPeers u)
    then show ?thesis using fresh by (auto simp: syncMatchingConnectionPeersFromDatabase_def fresh_accept_def)
  next
    case (SyncBlocks u)
    then show ?thesis using fresh by (auto simp: syncUserBlocksToRedis_def fresh_accept_def)
  qed
qed

subsection \<open>What the matching service reads\<close>

text \<open>
  A block reaches the matching. When the matching service reads the block sets that the main API
  has written, its test for a blocked peer holds exactly when one of two different users has blocked the other, so
  what it takes for a good peer is never across a block.
\<close>

theorem blocks_reach_matching:
  assumes "people_reach s" "\<And>u. rsets r (BlocksOutgoing u) = pe_blockOut s u" "\<And>u. rsets r (BlocksIncoming u) = pe_blockIn s u"
  shows "(isBlockedWithPeer r a b \<longleftrightarrow> a \<noteq> b \<and> isEitherBlocked a b s) \<and>
    (a \<noteq> b \<and> good_peer r a b \<longrightarrow> \<not> isEitherBlocked a b s)"
proof -
  have "blocks_ok s" using reach_people [OF assms(1)] by (simp add: people_ok_def)
  then have "isBlockedWithPeer r a b \<longleftrightarrow> a \<noteq> b \<and> isEitherBlocked a b s"
    using assms(2,3) by (simp add: isBlockedWithPeer_def blocks_ok_def isEitherBlocked_def)
  then show ?thesis by (auto simp: good_peer_def)
qed

text \<open>
  A block leaves the peers. Blocking a connected user ends the connection, but both stay known to the
  matching service as connected peers.
\<close>

theorem block_leaves_known_peer:
  assumes "people_reach s" "c \<in> set (pe_connections s)" "cn_status c = AcceptedConnection" "between v t c" "v \<noteq> t"
  shows "t \<in> pe_peers (people_handler (BlockUser v t) s) v \<and> v \<in> pe_peers (people_handler (BlockUser v t) s) t \<and>
    getAcceptedPeerIdsForUser v (people_handler (BlockUser v t) s) \<inter> {t} = {}"
proof -
  have ok: "people_ok s" using reach_people [OF assms(1)] .
  then have "t \<in> pe_peers s v" "v \<in> pe_peers s t" using assms(2-4) by (auto simp: people_ok_def peers_ok_def between_def)
  moreover have "pe_peers (people_handler (BlockUser v t) s) = pe_peers s"
    using assms(5) by (simp add: blockUserService_def notifyMessagingBlockChanged_def cancelPeerConnectionsOnBlock_def cancel_all_same)
      (simp add: redisAddUserBlock_def createBlock_def)
  moreover have "t \<notin> getAcceptedPeerIdsForUser v (people_handler (BlockUser v t) s)"
  proof
    let ?s = "people_handler (BlockUser v t) s"
    assume "t \<in> getAcceptedPeerIdsForUser v ?s"
    then obtain d where d: "d \<in> set (pe_connections ?s)" "mine v d" "cn_status d = AcceptedConnection" "other_of v d = t"
      by (auto simp: getAcceptedPeerIdsForUser_def)
    have ok': "people_ok ?s" by (rule handler_people [OF ok]) simp
    have "isEitherBlocked v t ?s"
      using assms(5) by (simp add: blockUserService_def notifyMessagingBlockChanged_def cancelPeerConnectionsOnBlock_def cancel_all_same
          isEitherBlocked_def isBlockedBy_def) (simp add: redisAddUserBlock_def createBlock_def isBlockedBy_def)
    then show False
      using rows_ok_D(4) [OF people_rows [OF ok'] d(1)] d by (auto simp: active_row_c_def other_of_def mine_def isEitherBlocked_def split: if_splits)
  qed
  ultimately show ?thesis by simp
qed

subsection \<open>Witnesses\<close>

definition friends :: people where
  "friends = people_handler (AcceptConnection ''b'' ''1'') (people_handler (AskConnection ''0'' ''1'' ''a'' ''b'') nobody)"

lemma friends_reach: "people_reach friends"
  unfolding friends_def by (intro people_reach.intros) (simp_all add: nobody_def)

lemma friends_rows: "pe_connections friends = [\<lparr>cn_id = ''1'', cn_requesterId = ''a'', cn_addresseeId = ''b'', cn_status = AcceptedConnection\<rparr>]"
  by code_simp

lemma people_stay_consistent_witness: "''b'' \<in> pe_peers friends ''a'' \<and> \<not> isEitherBlocked ''a'' ''b'' friends"
  using people_stay_consistent [OF friends_reach] by (simp add: friends_rows active_row_c_def)

definition asked_people :: people where
  "asked_people = people_handler (AskConnection ''0'' ''1'' ''a'' ''b'') nobody"

lemma asked_people_reach: "people_reach asked_people"
  unfolding asked_people_def by (intro people_reach.intros) (simp_all add: nobody_def)

lemma asked_people_rows: "pe_connections asked_people = [\<lparr>cn_id = ''1'', cn_requesterId = ''a'', cn_addresseeId = ''b'', cn_status = PendingConnection\<rparr>]"
  by code_simp

lemma friends_step: "people_handler (AcceptConnection ''b'' ''1'') asked_people = friends"
  by (simp only: friends_def asked_people_def)

lemma connection_needs_both_witness:
  "\<exists>d\<in>set (pe_connections asked_people). cn_status d = PendingConnection \<and> requester_of (AcceptConnection ''b'' ''1'') = Some (cn_addresseeId d)"
  using connection_needs_both [OF asked_people_reach, of "hd (pe_connections friends)" "AcceptConnection ''b'' ''1''"]
  by (auto simp only: friends_step friends_rows asked_people_rows list.sel list.set insert_iff empty_iff connection_row.simps connection_status.simps)

definition blocks_seen :: "people \<Rightarrow> redis" where
  "blocks_seen s = redis_empty\<lparr>rsets := (\<lambda>k. case k of BlocksOutgoing u \<Rightarrow> pe_blockOut s u | BlocksIncoming u \<Rightarrow> pe_blockIn s u | _ \<Rightarrow> {})\<rparr>"

definition fallen_out :: people where
  "fallen_out = people_handler (BlockUser ''b'' ''a'') friends"

lemma fallen_out_reach: "people_reach fallen_out"
  unfolding fallen_out_def by (intro people_reach.request friends_reach) simp

lemma blocks_reach_matching_witness:
  "isBlockedWithPeer (blocks_seen fallen_out) ''a'' ''b'' = isEitherBlocked ''a'' ''b'' fallen_out"
  using blocks_reach_matching [OF fallen_out_reach, of "blocks_seen fallen_out" "''a''" "''b''"] by (simp add: blocks_seen_def)

lemma block_leaves_known_peer_witness: "''a'' \<in> pe_peers (people_handler (BlockUser ''b'' ''a'') friends) ''b''"
  using block_leaves_known_peer [OF friends_reach, of "hd (pe_connections friends)" "''b''" "''a''"]
  by (simp add: friends_rows between_def)

end
