(* ===== verification/OpenConnect.thy ===== *)
theory OpenConnect
  imports RoomSessions ServerPeople MatchSnapshot
begin

text \<open>
  Open to connect (\<open>modules/open-to-connect\<close>) and presence of the main API: who is online, who lets others find
  them, and the Redis index from which they are found. A service is one atomic step with one reading of the clock; the
  answers of the matching service, the catalog of activities and new ids are arguments. A Redis hash without
  fields does not exist, and an expiry is a step of its own.
\<close>

subsection \<open>State\<close>

datatype otc_source = ManualSource | PostNoMatchSource

record open_status =
  os_open :: bool
  os_updatedAt :: "int option"
  os_source :: "otc_source option"
  os_headline :: "string option"
  os_paused :: bool
  os_moodIds :: "string list"
  os_activityIds :: "string list"

record open_profile =
  op_id :: string
  op_isGuest :: bool
  op_interestIds :: "string list"
  op_status :: "open_status option"

record user_name =
  un_displayName :: "string option"
  un_name :: string

datatype request_status = PendingAsk | AcceptedAsk | RejectedAsk | CancelledAsk | ExpiredAsk

record connect_request =
  cq_id :: string
  cq_requesterUserId :: string
  cq_targetUserId :: string
  cq_status :: request_status
  cq_message :: "string option"
  cq_roomId :: "string option"
  cq_createdAt :: int
  cq_respondedAt :: "int option"
  cq_expiresAt :: int

datatype otc_event =
    RequestReceived string string string "string option" int
  | RequestResponded string string bool "string option" string
  | RequestCancelled string string
  | FeedUserAvailable string string
  | FeedUserUnavailable string string
  | OtcCallEnded string string string
  | EngineCancel string
  | MatchState string string "string option" "string option"

record engine_state =
  en_status :: string
  en_requestId :: "string option"
  en_roomId :: "string option"

record otc =
  ot_main :: main_store
  ot_people :: people
  ot_users :: "string \<Rightarrow> user_name option"
  ot_profiles :: "string \<Rightarrow> open_profile option"
  ot_requests :: "connect_request list"
  ot_presence :: "string \<Rightarrow> fields"
  ot_onlineUsers :: "string list"
  ot_lastSeen :: "string \<Rightarrow> int option"
  ot_online :: "string list"
  ot_user :: "string \<Rightarrow> fields"
  ot_activity :: "string \<Rightarrow> string list"
  ot_noMatch :: "string \<Rightarrow> string option"
  ot_rate :: "string \<Rightarrow> nat"
  ot_graceTimers :: "(nat \<times> string) list"
  ot_graceTracked :: "string \<Rightarrow> nat option"
  ot_restoredAt :: "string \<Rightarrow> int option"
  ot_out :: "otc_event list"

text \<open>
  What the rest of the system answers: \<open>oe_match\<close> is the matching service's state of a user, \<open>oe_cancelFails\<close> that
  its route for cancelling is unavailable, \<open>oe_validate\<close> the catalog's answer to a selection of activities, \<open>oe_labels\<close> the
  name of an interest.
\<close>

record otc_env =
  oe_room :: room_env
  oe_iso :: "int \<Rightarrow> string"
  oe_dateParse :: "string \<Rightarrow> rat option"
  oe_localeCompare :: "string \<Rightarrow> string \<Rightarrow> rat"
  oe_match :: "string \<Rightarrow> engine_state"
  oe_cancelFails :: bool
  oe_validate :: "string list \<Rightarrow> api_error + string list"
  oe_labels :: "string \<Rightarrow> string option"
  oe_newId :: string
  oe_roomId :: string
  oe_hasCategory :: bool

abbreviation oe_now :: "otc_env \<Rightarrow> int" where
  "oe_now env \<equiv> re_now (oe_room env)"

definition emit :: "otc_event list \<Rightarrow> otc \<Rightarrow> otc" where
  "emit es s = s\<lparr>ot_out := ot_out s @ es\<rparr>"

subsection \<open>Who is online\<close>

definition isUserOnline :: "string \<Rightarrow> otc \<Rightarrow> bool" where
  "isUserOnline u s \<longleftrightarrow> ot_presence s u \<noteq> []"

definition retainLiveOnlineUserIds :: "string list \<Rightarrow> otc \<Rightarrow> string list \<times> otc" where
  "retainLiveOnlineUserIds us s =
     (filter (\<lambda>u. u \<noteq> [] \<and> isUserOnline u s) us,
      s\<lparr>ot_onlineUsers := filter (\<lambda>u. \<not> (u \<in> set us \<and> u \<noteq> [] \<and> \<not> isUserOnline u s)) (ot_onlineUsers s)\<rparr>)"

definition listLiveOnlineUserIds :: "otc \<Rightarrow> string list \<times> otc" where
  "listLiveOnlineUserIds s = retainLiveOnlineUserIds (ot_onlineUsers s) s"

definition onlinePeopleCountForUser :: "string \<Rightarrow> otc \<Rightarrow> nat" where
  "onlinePeopleCountForUser viewer s =
     (let live = fst (listLiveOnlineUserIds s) in if viewer \<in> set live then length live - 1 else length live)"

subsection \<open>The index\<close>

text \<open>JavaScript's \<open>split\<close> and \<open>join\<close> with a separator of one character.\<close>

fun js_split :: "char \<Rightarrow> string \<Rightarrow> string list" where
  "js_split c [] = [[]]"
| "js_split c (x # xs) = (if x = c then [] # js_split c xs
     else (case js_split c xs of [] \<Rightarrow> [[x]] | w # ws \<Rightarrow> (x # w) # ws))"

fun js_join :: "char \<Rightarrow> string list \<Rightarrow> string" where
  "js_join c [] = []"
| "js_join c [w] = w"
| "js_join c (w # ws) = w @ c # js_join c ws"

definition parseActivityIdsFromHash :: "string option \<Rightarrow> string list" where
  "parseActivityIdsFromHash raw = (case raw of
      None \<Rightarrow> []
    | Some t \<Rightarrow> if js_trim t = [] then [] else filter (\<lambda>i. i \<noteq> []) (map js_trim (js_split CHR '','' t)))"

record open_tags =
  tg_profileId :: string
  tg_userId :: string
  tg_displayName :: "string option"
  tg_headline :: "string option"
  tg_activityIds :: "string list"
  tg_moodIds :: "string list"
  tg_interestIds :: "string list"
  tg_updatedAt :: string

text \<open>The field \<open>tagsJson\<close>, which nothing reads, is left out.\<close>

definition syncUserToIndex :: "open_tags \<Rightarrow> otc \<Rightarrow> otc" where
  "syncUserToIndex tags s =
     (let u = tg_userId tags; activityIds = unique (tg_activityIds tags) in
      s\<lparr>ot_online := set_add u (ot_online s),
        ot_user := (ot_user s)(u := hset_all
          [(''profileId'', tg_profileId tags), (''userId'', u), (''displayName'', nullish_or (tg_displayName tags) []),
           (''headline'', nullish_or (tg_headline tags) []), (''activityIds'', js_join CHR '','' activityIds),
           (''moodIds'', js_join CHR '','' (tg_moodIds tags)), (''interestIds'', js_join CHR '','' (tg_interestIds tags)),
           (''updatedAt'', tg_updatedAt tags)] (ot_user s u)),
        ot_activity := (\<lambda>a. if a \<in> set activityIds then set_add u (ot_activity s a) else ot_activity s a)\<rparr>)"

definition removeUserFromIndex :: "string \<Rightarrow> otc \<Rightarrow> otc" where
  "removeUserFromIndex u s =
     (let activityIds = parseActivityIdsFromHash (hfield (ot_user s u) ''activityIds'') in
      s\<lparr>ot_online := removeAll u (ot_online s), ot_user := (ot_user s)(u := []),
        ot_activity := (\<lambda>a. if a \<in> set activityIds then removeAll u (ot_activity s a) else ot_activity s a)\<rparr>)"

definition isUserVisibleInDiscovery :: "string \<Rightarrow> otc \<Rightarrow> bool" where
  "isUserVisibleInDiscovery u s \<longleftrightarrow> isUserOnline u s \<and> ot_user s u \<noteq> []"

definition listIndexedUserIds :: "string option \<Rightarrow> otc \<Rightarrow> string list" where
  "listIndexedUserIds activityId s = (if truthy activityId then ot_activity s (the activityId) else ot_online s)"

definition filterStillVisibleUserIds :: "string list \<Rightarrow> otc \<Rightarrow> string list \<times> otc" where
  "filterStillVisibleUserIds us s =
     (let known = filter (\<lambda>u. u \<noteq> []) us;
          stale = filter (\<lambda>u. \<not> isUserVisibleInDiscovery u s) known;
          s1 = fold removeUserFromIndex stale s
      in (filter (\<lambda>u. isUserVisibleInDiscovery u s) known,
          s1\<lparr>ot_onlineUsers := filter (\<lambda>u. \<not> (u \<in> set stale \<and> \<not> isUserOnline u s)) (ot_onlineUsers s1)\<rparr>))"

definition none_if_blank :: "string option \<Rightarrow> string option" where
  "none_if_blank t = (case t of None \<Rightarrow> None | Some x \<Rightarrow> if js_trim x = [] then None else Some (js_trim x))"

definition read_tags :: "otc_env \<Rightarrow> string \<Rightarrow> otc \<Rightarrow> open_tags option" where
  "read_tags env u s =
     (let h = ot_user s u in
      if h = [] \<or> (\<not> truthy (hfield h ''profileId'') \<and> \<not> truthy (hfield h ''userId'')) then None
      else Some \<lparr>tg_profileId = nullish_or (hfield h ''profileId'') [], tg_userId = u,
        tg_displayName = none_if_blank (hfield h ''displayName''), tg_headline = none_if_blank (hfield h ''headline''),
        tg_activityIds = parseActivityIdsFromHash (hfield h ''activityIds''),
        tg_moodIds = parseActivityIdsFromHash (hfield h ''moodIds''),
        tg_interestIds = parseActivityIdsFromHash (hfield h ''interestIds''),
        tg_updatedAt = nullish_or (hfield h ''updatedAt'') (oe_iso env (oe_now env))\<rparr>)"

definition readTagsForUsers :: "otc_env \<Rightarrow> string list \<Rightarrow> otc \<Rightarrow> open_tags list" where
  "readTagsForUsers env us s = List.map_filter (\<lambda>u. read_tags env u s) (filter (\<lambda>u. u \<noteq> []) (unique us))"

subsection \<open>What viewers are told\<close>

definition has_profile :: "string \<Rightarrow> otc \<Rightarrow> bool" where
  "has_profile u s \<longleftrightarrow> ot_users s u \<noteq> None \<and> ot_profiles s u \<noteq> None"

definition listViewerIdsForOpenUser :: "string \<Rightarrow> otc \<Rightarrow> string list \<times> otc" where
  "listViewerIdsForOpenUser u s =
     (let (live, s1) = listLiveOnlineUserIds s; blocked = listAllBlockedPeerIds u (ot_people s) in
      (filter (\<lambda>v. v \<noteq> u \<and> v \<notin> set blocked) live, s1))"

definition notifyUserAvailable :: "otc_env \<Rightarrow> string \<Rightarrow> otc \<Rightarrow> otc" where
  "notifyUserAvailable env u s =
     (if \<not> isUserVisibleInDiscovery u s \<or> readTagsForUsers env [u] s = [] \<or> \<not> has_profile u s then s
      else (let (viewers, s1) = listViewerIdsForOpenUser u s in emit (map (\<lambda>v. FeedUserAvailable v u) viewers) s1))"

definition notifyUserUnavailable :: "string \<Rightarrow> otc \<Rightarrow> otc" where
  "notifyUserUnavailable u s =
     (let (live, s1) = listLiveOnlineUserIds s in
      emit (map (\<lambda>v. FeedUserUnavailable v u) (filter (\<lambda>v. v \<noteq> u) live)) s1)"

subsection \<open>The user's choice\<close>

definition set_profile :: "string \<Rightarrow> open_profile \<Rightarrow> otc \<Rightarrow> otc" where
  "set_profile u p s = s\<lparr>ot_profiles := (ot_profiles s)(u \<mapsto> p)\<rparr>"

definition findByUserId :: "string \<Rightarrow> otc \<Rightarrow> (open_profile \<times> open_status) option" where
  "findByUserId u s = (case ot_profiles s u of
      None \<Rightarrow> None
    | Some p \<Rightarrow> (case op_status p of None \<Rightarrow> None | Some st \<Rightarrow> Some (p, st)))"

definition fresh_status :: "int \<Rightarrow> bool \<Rightarrow> open_status" where
  "fresh_status now opn = \<lparr>os_open = opn, os_updatedAt = (if opn then Some now else None), os_source = None, os_headline = None,
     os_paused = False, os_moodIds = [], os_activityIds = []\<rparr>"

definition getOrCreateProfile :: "otc_env \<Rightarrow> string \<Rightarrow> otc \<Rightarrow> otc" where
  "getOrCreateProfile env u s = (case ot_profiles s u of
      Some p \<Rightarrow> s
    | None \<Rightarrow> set_profile u \<lparr>op_id = oe_newId env, op_isGuest = False, op_interestIds = [],
        op_status = Some (fresh_status (oe_now env) True)\<rparr> s)"

definition setOpenState :: "otc_env \<Rightarrow> string \<Rightarrow> bool \<Rightarrow> otc_source option \<Rightarrow> string option \<Rightarrow> otc \<Rightarrow> otc" where
  "setOpenState env u opn source headline s = (case ot_profiles s u of
      None \<Rightarrow> s
    | Some p \<Rightarrow>
       (let st = nullish_or (op_status p) (fresh_status (oe_now env) opn) in
        set_profile u (p\<lparr>op_status := Some (st\<lparr>os_open := opn, os_updatedAt := if opn then Some (oe_now env) else None,
          os_source := if opn then source else None, os_headline := if opn then headline else None, os_paused := False\<rparr>)\<rparr>) s))"

definition update_status :: "(open_status \<Rightarrow> open_status) \<Rightarrow> string \<Rightarrow> otc \<Rightarrow> otc" where
  "update_status f u s = (case ot_profiles s u of
      None \<Rightarrow> s
    | Some p \<Rightarrow> set_profile u (p\<lparr>op_status := map_option f (op_status p)\<rparr>) s)"

definition replaceActivities :: "string list \<Rightarrow> string \<Rightarrow> otc \<Rightarrow> otc" where
  "replaceActivities ids = update_status (\<lambda>st. st\<lparr>os_activityIds := ids\<rparr>)"

definition setPausedForRoom :: "bool \<Rightarrow> string \<Rightarrow> otc \<Rightarrow> otc" where
  "setPausedForRoom paused = update_status (\<lambda>st. st\<lparr>os_paused := paused\<rparr>)"

definition buildTagsForUser :: "otc_env \<Rightarrow> string \<Rightarrow> otc \<Rightarrow> open_tags option" where
  "buildTagsForUser env u s = (case findByUserId u s of
      None \<Rightarrow> None
    | Some (p, st) \<Rightarrow>
        if \<not> os_open st \<or> os_paused st \<or> op_isGuest p then None
        else Some \<lparr>tg_profileId = op_id p, tg_userId = u,
          tg_displayName = (case ot_users s u of None \<Rightarrow> None | Some n \<Rightarrow> Some (nullish_or (un_displayName n) (un_name n))),
          tg_headline = os_headline st, tg_activityIds = os_activityIds st, tg_moodIds = os_moodIds st,
          tg_interestIds = op_interestIds p, tg_updatedAt = oe_iso env (nullish_or (os_updatedAt st) (oe_now env))\<rparr>)"

definition syncOpenToConnectIndexIfEnabled :: "otc_env \<Rightarrow> string \<Rightarrow> otc \<Rightarrow> otc" where
  "syncOpenToConnectIndexIfEnabled env u s = (case buildTagsForUser env u s of
      None \<Rightarrow> removeUserFromIndex u s
    | Some tags \<Rightarrow>
        if \<not> isUserOnline u s then removeUserFromIndex u s
        else notifyUserAvailable env u (syncUserToIndex tags s))"

definition disableOpenToConnectForUser :: "otc_env \<Rightarrow> string \<Rightarrow> otc \<Rightarrow> otc" where
  "disableOpenToConnectForUser env u s =
     notifyUserUnavailable u (removeUserFromIndex u (setOpenState env u False None None (getOrCreateProfile env u s)))"

definition pauseOpenToConnectForRoom :: "string \<Rightarrow> otc \<Rightarrow> otc" where
  "pauseOpenToConnectForRoom u s = (case findByUserId u s of
      None \<Rightarrow> s
    | Some (p, st) \<Rightarrow>
        if \<not> os_open st \<or> os_paused st then s
        else notifyUserUnavailable u (removeUserFromIndex u (setPausedForRoom True u s)))"

definition restoreOpenToConnectAfterRoom :: "otc_env \<Rightarrow> string \<Rightarrow> otc \<Rightarrow> otc" where
  "restoreOpenToConnectAfterRoom env u s = (case findByUserId u s of
      None \<Rightarrow> s
    | Some (p, st) \<Rightarrow>
        if \<not> os_paused st then s
        else syncOpenToConnectIndexIfEnabled env u (setPausedForRoom False u s))"

text \<open>The token of a user is written together with the pause, and removed together with the restoring.\<close>

definition setActiveRoomAndPause :: "string \<Rightarrow> string \<Rightarrow> otc \<Rightarrow> otc" where
  "setActiveRoomAndPause u r s = pauseOpenToConnectForRoom u (s\<lparr>ot_main := setUserActiveRtcRoom u r (ot_main s)\<rparr>)"

definition clearActiveRoomAndRestore :: "otc_env \<Rightarrow> string \<Rightarrow> otc \<Rightarrow> otc" where
  "clearActiveRoomAndRestore env u s = restoreOpenToConnectAfterRoom env u (s\<lparr>ot_main := clearUserActiveRtcRoom u (ot_main s)\<rparr>)"

definition match_engine_down :: api_error where
  "match_engine_down = \<lparr>er_message = ''Matching is temporarily unavailable'', er_code = ''SERVICE_UNAVAILABLE'', er_status = 503\<rparr>"

definition cancelMatchService :: "otc_env \<Rightarrow> string \<Rightarrow> otc \<Rightarrow> api_error option \<times> otc" where
  "cancelMatchService env u s =
     (if oe_cancelFails env then Some match_engine_down else None,
      clearActiveRoomAndRestore env u (emit [EngineCancel u] s))"

definition searching_or_proposed :: "engine_state \<Rightarrow> bool" where
  "searching_or_proposed e \<longleftrightarrow> en_status e = ''searching'' \<or> en_status e = ''proposed''"

definition matched_in_room :: "engine_state \<Rightarrow> bool" where
  "matched_in_room e \<longleftrightarrow> en_status e = ''matched'' \<and> truthy (en_roomId e)"

definition cancel_if_searching :: "otc_env \<Rightarrow> string \<Rightarrow> otc \<Rightarrow> api_error option \<times> otc" where
  "cancel_if_searching env u s = (if searching_or_proposed (oe_match env u) then cancelMatchService env u s else (None, s))"

definition assertCanEnableOpenToConnect :: "otc_env \<Rightarrow> string \<Rightarrow> (otc, unit) service" where
  "assertCanEnableOpenToConnect env u s =
     (if matched_in_room (oe_match env u) then (fail ''Leave your current session before going open'' ''CONFLICT'' 409, s)
      else (let (err, s1) = cancel_if_searching env u s in case err of
          Some e \<Rightarrow> (Inl e, s1)
        | None \<Rightarrow>
            if \<not> isUserOnline u s1 then (fail ''You must be online to let people find you'' ''CONFLICT'' 409, s1)
            else (Inr (), s1)))"

record open_me =
  om_openToConnect :: bool
  om_pausedForRoom :: bool
  om_source :: "otc_source option"
  om_headline :: "string option"
  om_updatedAt :: "string option"
  om_activityIds :: "string list"
  om_moodIds :: "string list"
  om_interestIds :: "string list"
  om_visibleInDiscovery :: bool

definition getOpenToConnectMeService :: "otc_env \<Rightarrow> string \<Rightarrow> otc \<Rightarrow> open_me" where
  "getOpenToConnectMeService env u s = (case findByUserId u s of
      None \<Rightarrow> \<lparr>om_openToConnect = False, om_pausedForRoom = False, om_source = None, om_headline = None, om_updatedAt = None,
        om_activityIds = [], om_moodIds = [], om_interestIds = [], om_visibleInDiscovery = False\<rparr>
    | Some (p, st) \<Rightarrow> \<lparr>om_openToConnect = os_open st, om_pausedForRoom = os_paused st, om_source = os_source st,
        om_headline = os_headline st, om_updatedAt = map_option (oe_iso env) (os_updatedAt st),
        om_activityIds = os_activityIds st, om_moodIds = os_moodIds st, om_interestIds = op_interestIds p,
        om_visibleInDiscovery = (os_open st \<and> \<not> os_paused st \<and> isUserVisibleInDiscovery u s)\<rparr>)"

record enable_body =
  eb_source :: otc_source
  eb_headline :: "string option"
  eb_activitySelections :: "string list option"

definition select_activities :: "otc_env \<Rightarrow> string \<Rightarrow> string list option \<Rightarrow> (otc, unit) service" where
  "select_activities env u selections s = (case selections of
      None \<Rightarrow> (Inr (), s)
    | Some ids \<Rightarrow> (case oe_validate env ids of
        Inl e \<Rightarrow> (Inl e, s)
      | Inr validated \<Rightarrow> (Inr (), if findByUserId u s = None then s else replaceActivities validated u s)))"

definition go_open :: "otc_env \<Rightarrow> string \<Rightarrow> enable_body \<Rightarrow> otc \<Rightarrow> otc" where
  "go_open env u body s =
     (let s1 = setOpenState env u True (Some (eb_source body)) (none_if_blank (eb_headline body)) s;
          active = getUserActiveRtcRoomId u (ot_main s1);
          s2 = (case buildTagsForUser env u s1 of
                  None \<Rightarrow> s1
                | Some tags \<Rightarrow> (let s' = syncUserToIndex tags s1 in if active = None then notifyUserAvailable env u s' else s'))
      in if active \<noteq> None then pauseOpenToConnectForRoom u s2 else s2)"

definition enableOpenToConnectService :: "otc_env \<Rightarrow> string \<Rightarrow> enable_body \<Rightarrow> (otc, open_me) service" where
  "enableOpenToConnectService env u body s =
     (case assertCanEnableOpenToConnect env u s of
        (Inl e, s1) \<Rightarrow> (Inl e, s1)
      | (Inr _, s1) \<Rightarrow> (case select_activities env u (eb_activitySelections body) (getOrCreateProfile env u s1) of
          (Inl e, s2) \<Rightarrow> (Inl e, s2)
        | (Inr _, s2) \<Rightarrow> (let s3 = go_open env u body s2 in (Inr (getOpenToConnectMeService env u s3), s3))))"

definition disableOpenToConnectService :: "otc_env \<Rightarrow> string \<Rightarrow> otc \<Rightarrow> open_me \<times> otc" where
  "disableOpenToConnectService env u s =
     (let s1 = disableOpenToConnectForUser env u s in (getOpenToConnectMeService env u s1, s1))"

end
