(* ===== verification/ConnectRequests.thy ===== *)
theory ConnectRequests
  imports OpenConnect
begin

text \<open>
  Requests to people who are open to connect (\<open>connect-requests.service.ts\<close> and its repository), the room that an
  accepted one gets, and the feed in which people are found (\<open>open-to-connect-feed.service.ts\<close>). Answering is
  split into what it reads and what it does, since other requests act in between.
\<close>

subsection \<open>Rows\<close>

definition CONNECT_REQUEST_TTL_MS :: int where "CONNECT_REQUEST_TTL_MS = 5 * 60 * 1000"
definition CONNECT_REQUEST_MAX_INBOUND_PENDING :: nat where "CONNECT_REQUEST_MAX_INBOUND_PENDING = 3"
definition CONNECT_REQUEST_OUTBOUND_RATE_LIMIT :: nat where "CONNECT_REQUEST_OUTBOUND_RATE_LIMIT = 10"
definition CONNECT_REQUEST_REJECT_COOLDOWN_MS :: int where "CONNECT_REQUEST_REJECT_COOLDOWN_MS = 15 * 60 * 1000"
definition SEARCH_SUGGESTIONS_LIMIT :: nat where "SEARCH_SUGGESTIONS_LIMIT = 5"

definition findRequestById :: "string \<Rightarrow> otc \<Rightarrow> connect_request option" where
  "findRequestById i s = find (\<lambda>q. cq_id q = i) (ot_requests s)"

definition findPendingBetween :: "string \<Rightarrow> string \<Rightarrow> otc \<Rightarrow> connect_request option" where
  "findPendingBetween requester target s = find (\<lambda>q. cq_requesterUserId q = requester \<and> cq_targetUserId q = target \<and>
     cq_status q = PendingAsk) (ot_requests s)"

definition inbound_pending :: "string \<Rightarrow> int \<Rightarrow> connect_request \<Rightarrow> bool" where
  "inbound_pending target now q \<longleftrightarrow> cq_targetUserId q = target \<and> cq_status q = PendingAsk \<and> now \<le> cq_expiresAt q"

definition countInboundPending :: "string \<Rightarrow> int \<Rightarrow> otc \<Rightarrow> nat" where
  "countInboundPending target now s = length (filter (inbound_pending target now) (ot_requests s))"

definition findRecentRejected :: "string \<Rightarrow> string \<Rightarrow> int \<Rightarrow> otc \<Rightarrow> connect_request option" where
  "findRecentRejected requester target since s = find (\<lambda>q. cq_requesterUserId q = requester \<and> cq_targetUserId q = target \<and>
     cq_status q = RejectedAsk \<and> (case cq_respondedAt q of None \<Rightarrow> False | Some t \<Rightarrow> since \<le> t)) (ot_requests s)"

definition createPending :: "otc_env \<Rightarrow> string \<Rightarrow> string \<Rightarrow> string option \<Rightarrow> int \<Rightarrow> otc \<Rightarrow> connect_request \<times> otc" where
  "createPending env requester target message expiresAt s =
     (let row = \<lparr>cq_id = oe_newId env, cq_requesterUserId = requester, cq_targetUserId = target, cq_status = PendingAsk,
                 cq_message = message, cq_roomId = None, cq_createdAt = oe_now env, cq_respondedAt = None, cq_expiresAt = expiresAt\<rparr>
      in (row, s\<lparr>ot_requests := ot_requests s @ [row]\<rparr>))"

text \<open>The newest first; the order of rows of the same time is not fixed by SQL, here it is that of their making.\<close>

definition newest_first :: "connect_request list \<Rightarrow> connect_request list" where
  "newest_first = js_sort (\<lambda>a b. cq_createdAt b - cq_createdAt a)"

definition listInboundPending :: "string \<Rightarrow> int \<Rightarrow> otc \<Rightarrow> connect_request list" where
  "listInboundPending target now s =
     take CONNECT_REQUEST_MAX_INBOUND_PENDING (newest_first (filter (inbound_pending target now) (ot_requests s)))"

definition listOutboundRecent :: "string \<Rightarrow> otc \<Rightarrow> connect_request list" where
  "listOutboundRecent requester s = take 20 (newest_first (filter (\<lambda>q. cq_requesterUserId q = requester) (ot_requests s)))"

text \<open>Only a pending row is changed.\<close>

definition respond_row :: "string \<Rightarrow> request_status \<Rightarrow> string option \<Rightarrow> int \<Rightarrow> connect_request \<Rightarrow> connect_request" where
  "respond_row i st roomId now q = (if cq_id q = i \<and> cq_status q = PendingAsk
     then q\<lparr>cq_status := st, cq_roomId := roomId, cq_respondedAt := Some now\<rparr> else q)"

definition respond :: "string \<Rightarrow> request_status \<Rightarrow> string option \<Rightarrow> int \<Rightarrow> otc \<Rightarrow> bool \<times> otc" where
  "respond i st roomId now s = (\<exists>q\<in>set (ot_requests s). cq_id q = i \<and> cq_status q = PendingAsk,
     s\<lparr>ot_requests := map (respond_row i st roomId now) (ot_requests s)\<rparr>)"

subsection \<open>Asking\<close>

definition is_busy :: "otc_env \<Rightarrow> string \<Rightarrow> otc \<Rightarrow> bool" where
  "is_busy env u s \<longleftrightarrow> getUserActiveRtcRoomId u (ot_main s) \<noteq> None \<or> matched_in_room (oe_match env u)"

definition assertUserNotBusy :: "otc_env \<Rightarrow> string \<Rightarrow> string \<Rightarrow> otc \<Rightarrow> api_error option" where
  "assertUserNotBusy env u label s =
     (if is_busy env u s then Some \<lparr>er_message = label @ '' is in a call right now'', er_code = ''CONFLICT'', er_status = 409\<rparr> else None)"

definition assertTargetIsOpen :: "string \<Rightarrow> otc \<Rightarrow> api_error option" where
  "assertTargetIsOpen u s = (if isUserVisibleInDiscovery u s then None
     else Some \<lparr>er_message = ''That person is not open to connect right now'', er_code = ''VALIDATION_ERROR'', er_status = 400\<rparr>)"

definition assertOutboundRateLimit :: "string \<Rightarrow> otc \<Rightarrow> api_error option \<times> otc" where
  "assertOutboundRateLimit u s =
     (let n = Suc (ot_rate s u) in
      (if n \<le> CONNECT_REQUEST_OUTBOUND_RATE_LIMIT then None
       else Some \<lparr>er_message = ''Too many requests'', er_code = ''RATE_LIMIT_EXCEEDED'', er_status = 429\<rparr>,
       s\<lparr>ot_rate := (ot_rate s)(u := n)\<rparr>))"

text \<open>The first error of a list of checks.\<close>

fun first_error :: "api_error option list \<Rightarrow> api_error option" where
  "first_error [] = None"
| "first_error (None # es) = first_error es"
| "first_error (Some e # es) = Some e"

definition error_if :: "bool \<Rightarrow> string \<Rightarrow> string \<Rightarrow> nat \<Rightarrow> api_error option" where
  "error_if b message code status = (if b then Some \<lparr>er_message = message, er_code = code, er_status = status\<rparr> else None)"

definition may_ask :: "otc_env \<Rightarrow> string \<Rightarrow> string \<Rightarrow> otc \<Rightarrow> api_error option" where
  "may_ask env requester target s = first_error
     [error_if (target = requester) ''You cannot request yourself'' ''VALIDATION_ERROR'' 400,
      error_if (isEitherBlocked requester target (ot_people s)) ''You cannot connect with this person'' ''UNAUTHORIZED'' 403,
      assertUserNotBusy env requester ''You'' s, assertUserNotBusy env target ''They'' s, assertTargetIsOpen target s]"

definition may_ask_again :: "otc_env \<Rightarrow> string \<Rightarrow> string \<Rightarrow> otc \<Rightarrow> api_error option" where
  "may_ask_again env requester target s = first_error
     [error_if (findRecentRejected requester target (oe_now env - CONNECT_REQUEST_REJECT_COOLDOWN_MS) s \<noteq> None)
        ''They declined recently'' ''CONFLICT'' 409,
      error_if (findPendingBetween requester target s \<noteq> None) ''You already have a pending request to this person'' ''CONFLICT'' 409,
      error_if (CONNECT_REQUEST_MAX_INBOUND_PENDING \<le> countInboundPending target (oe_now env) s)
        ''They have too many pending requests right now'' ''CONFLICT'' 409]"

definition send_request :: "otc_env \<Rightarrow> string \<Rightarrow> string \<Rightarrow> string option \<Rightarrow> (otc, connect_request) service" where
  "send_request env requester target message s =
     (case assertOutboundRateLimit requester s of
        (Some e, s1) \<Rightarrow> (Inl e, s1)
      | (None, s1) \<Rightarrow>
         (let expiresAt = oe_now env + CONNECT_REQUEST_TTL_MS;
              (row, s2) = createPending env requester target (none_if_blank message) expiresAt s1
          in if ot_users s2 requester = None \<or> ot_users s2 target = None then (fail ''User not found'' ''NOT_FOUND'' 404, s2)
             else (Inr row, emit [RequestReceived target (cq_id row) requester (none_if_blank message) expiresAt] s2)))"

definition createConnectRequestService :: "otc_env \<Rightarrow> string \<Rightarrow> string \<Rightarrow> string option \<Rightarrow> (otc, connect_request) service" where
  "createConnectRequestService env requester rawTarget message s =
     (let target = js_trim rawTarget in
      case may_ask env requester target s of
        Some e \<Rightarrow> (Inl e, s)
      | None \<Rightarrow> (case cancel_if_searching env requester s of
          (Some e, s1) \<Rightarrow> (Inl e, s1)
        | (None, s1) \<Rightarrow> (case may_ask_again env requester target s1 of
            Some e \<Rightarrow> (Inl e, s1)
          | None \<Rightarrow> send_request env requester target message s1)))"

definition listInboundConnectRequestsService :: "otc_env \<Rightarrow> string \<Rightarrow> otc \<Rightarrow> connect_request list" where
  "listInboundConnectRequestsService env target s =
     filter (\<lambda>q. ot_users s (cq_requesterUserId q) \<noteq> None) (listInboundPending target (oe_now env) s)"

definition listOutboundConnectRequestsService :: "string \<Rightarrow> otc \<Rightarrow> connect_request list" where
  "listOutboundConnectRequestsService requester s =
     filter (\<lambda>q. ot_users s (cq_targetUserId q) \<noteq> None) (listOutboundRecent requester s)"

definition no_longer_pending :: "api_error + 'a" where
  "no_longer_pending = fail ''Request is no longer pending'' ''CONFLICT'' 409"

definition cancelConnectRequestService :: "otc_env \<Rightarrow> string \<Rightarrow> string \<Rightarrow> (otc, unit) service" where
  "cancelConnectRequestService env requester i s = (case findRequestById i s of
      None \<Rightarrow> (fail ''Request not found'' ''NOT_FOUND'' 404, s)
    | Some row \<Rightarrow>
        if cq_requesterUserId row \<noteq> requester then (fail ''Request not found'' ''NOT_FOUND'' 404, s)
        else if cq_status row \<noteq> PendingAsk then (no_longer_pending, s)
        else (case respond i CancelledAsk None (oe_now env) s of
            (False, s1) \<Rightarrow> (no_longer_pending, s1)
          | (True, s1) \<Rightarrow> (Inr (), emit [RequestCancelled (cq_targetUserId row) i] s1)))"

subsection \<open>Answering\<close>

definition provisionOpenToConnectRoom :: "otc_env \<Rightarrow> string \<Rightarrow> string \<Rightarrow> string \<Rightarrow> (otc, string) service" where
  "provisionOpenToConnectRoom env requester target i s =
     (if \<not> oe_hasCategory env then (fail ''Match category not configured'' ''SERVICE_UNAVAILABLE'' 503, s)
      else (let r = oe_roomId env in
        (Inr r, s\<lparr>ot_main := set_session r [(''sessionKind'', ''match''), (''roomId'', r), (''attemptId'', i), (''pairId'', i),
            (''userA'', requester), (''userB'', target), (''openToConnectOrigin'', ''true''), (''createdAt'', int_str (oe_now env))]
          (syncGuestMatchRoomSessionCap (oe_room env) r (createMatchPairRoom (oe_now env) r requester target (ot_main s)))\<rparr>)))"

text \<open>What answering checks before it acts. An expired request is marked so.\<close>

definition request_to_answer :: "otc_env \<Rightarrow> string \<Rightarrow> string \<Rightarrow> (otc, connect_request) service" where
  "request_to_answer env target i s = (case findRequestById i s of
      None \<Rightarrow> (fail ''Request not found'' ''NOT_FOUND'' 404, s)
    | Some row \<Rightarrow>
        if cq_targetUserId row \<noteq> target then (fail ''Request not found'' ''NOT_FOUND'' 404, s)
        else if cq_status row \<noteq> PendingAsk then (no_longer_pending, s)
        else if cq_expiresAt row \<le> oe_now env then
          (fail ''Request expired'' ''CONFLICT'' 409, snd (respond i ExpiredAsk None (oe_now env) s))
        else (case first_error [assertUserNotBusy env target ''You'' s, assertUserNotBusy env (cq_requesterUserId row) ''They'' s] of
            Some e \<Rightarrow> (Inl e, s)
          | None \<Rightarrow> (Inr row, s)))"

definition reject_request :: "otc_env \<Rightarrow> connect_request \<Rightarrow> (otc, string option) service" where
  "reject_request env row s = (case respond (cq_id row) RejectedAsk None (oe_now env) s of
      (False, s1) \<Rightarrow> (no_longer_pending, s1)
    | (True, s1) \<Rightarrow> (Inr None, emit [RequestResponded (cq_requesterUserId row) (cq_id row) False None (cq_targetUserId row)] s1))"

definition accept_request :: "otc_env \<Rightarrow> connect_request \<Rightarrow> (otc, string option) service" where
  "accept_request env row s =
     (let requester = cq_requesterUserId row; target = cq_targetUserId row; i = cq_id row in
      case provisionOpenToConnectRoom env requester target i s of
        (Inl e, s1) \<Rightarrow> (Inl e, s1)
      | (Inr r, s1) \<Rightarrow> (case respond i AcceptedAsk (Some r) (oe_now env) s1 of
          (False, s2) \<Rightarrow> (no_longer_pending, s2)
        | (True, s2) \<Rightarrow> (Inr (Some r), emit [RequestResponded requester i True (Some r) target,
            RequestResponded target i True (Some r) requester] s2)))"

definition respondConnectRequestService :: "otc_env \<Rightarrow> string \<Rightarrow> string \<Rightarrow> bool \<Rightarrow> (otc, string option) service" where
  "respondConnectRequestService env target i accept s = (case request_to_answer env target i s of
      (Inl e, s1) \<Rightarrow> (Inl e, s1)
    | (Inr row, s1) \<Rightarrow> if accept then accept_request env row s1 else reject_request env row s1)"

subsection \<open>The end of such a call\<close>

definition isOtcCallRoom :: "string \<Rightarrow> otc \<Rightarrow> bool" where
  "isOtcCallRoom r s \<longleftrightarrow> hfield (rd_session (ot_main s) r) ''openToConnectOrigin'' = Some ''true''"

definition notifyOtcCallPeerEnded :: "string \<Rightarrow> string \<Rightarrow> otc \<Rightarrow> bool \<times> otc" where
  "notifyOtcCallPeerEnded r leaving s =
     (if \<not> isOtcCallRoom r s then (False, s)
      else (case findRoomById r (ot_main s) of
          None \<Rightarrow> (False, s)
        | Some room \<Rightarrow>
            if tm_roomType room \<noteq> Direct \<or> rr_sessionKind room \<noteq> MatchKind then (False, s)
            else (case find (\<lambda>u. u \<noteq> leaving) (listParticipantUserIds r (ot_main s)) of
                None \<Rightarrow> (False, s)
              | Some peer \<Rightarrow> if peer = [] then (False, s) else (True, emit [OtcCallEnded peer r leaving] s))))"

end
