(* ===== verification/OpenFeed.thy ===== *)
theory OpenFeed
  imports ConnectRequests
begin

text \<open>
  The feed of people who are open to connect (\<open>open-to-connect-feed.service.ts\<close>): its ranking, its pages and the
  suggestions during a search. Of a card only what the services compute is modelled; a page's cursor is the
  offset that it encodes.
\<close>

record feed_query =
  fq_activityId :: "string option"
  fq_interestId :: "string option"
  fq_offset :: nat
  fq_limit :: "int option"

record ranked_candidate =
  rc_userId :: string
  rc_profileId :: string
  rc_score :: nat
  rc_sharedInterestCount :: nat
  rc_updatedAtMs :: rat
  rc_headline :: "string option"
  rc_interestIds :: "string list"

record feed_item =
  fd_userId :: string
  fd_headline :: "string option"
  fd_sharedInterestCount :: nat
  fd_sharedInterests :: "string list"

record feed_result =
  fr_items :: "feed_item list"
  fr_nextOffset :: "nat option"
  fr_limit :: int

definition DEFAULT_FEED_LIMIT :: int where "DEFAULT_FEED_LIMIT = 12"
definition MAX_FEED_LIMIT :: int where "MAX_FEED_LIMIT = 40"
definition SIDEBAR_LIMIT :: int where "SIDEBAR_LIMIT = 8"

definition countSharedInterests :: "string list \<Rightarrow> string list \<Rightarrow> nat" where
  "countSharedInterests viewer peer = length (filter (\<lambda>i. i \<in> set viewer) peer)"

definition listSharedInterestLabels :: "(string \<Rightarrow> string option) \<Rightarrow> string list \<Rightarrow> string list \<Rightarrow> string list" where
  "listSharedInterestLabels labels viewer peer =
     List.map_filter (\<lambda>i. if truthy (labels i) then labels i else None) (filter (\<lambda>i. i \<in> set peer) viewer)"

definition countSharedActivities :: "string list \<Rightarrow> string list \<Rightarrow> nat" where
  "countSharedActivities searcher peer = length (filter (\<lambda>a. a \<in> set searcher) peer)"

definition ranked_cmp :: "(string \<Rightarrow> string \<Rightarrow> rat) \<Rightarrow> ranked_candidate \<Rightarrow> ranked_candidate \<Rightarrow> rat" where
  "ranked_cmp localeCompare a b =
     (if rc_score b \<noteq> rc_score a then of_nat (rc_score b) - of_nat (rc_score a)
      else if rc_updatedAtMs b \<noteq> rc_updatedAtMs a then rc_updatedAtMs b - rc_updatedAtMs a
      else localeCompare (rc_userId a) (rc_userId b))"

definition candidate_of :: "otc_env \<Rightarrow> (open_tags \<Rightarrow> nat \<Rightarrow> nat) \<Rightarrow> string list \<Rightarrow> open_tags \<Rightarrow> ranked_candidate" where
  "candidate_of env score viewerInterestIds tags =
     (let shared = countSharedInterests viewerInterestIds (tg_interestIds tags) in
      \<lparr>rc_userId = tg_userId tags, rc_profileId = tg_profileId tags, rc_score = score tags shared, rc_sharedInterestCount = shared,
       rc_updatedAtMs = nullish_or (oe_dateParse env (tg_updatedAt tags)) 0, rc_headline = tg_headline tags,
       rc_interestIds = tg_interestIds tags\<rparr>)"

definition rankCandidates :: "otc_env \<Rightarrow> string list \<Rightarrow> open_tags list \<Rightarrow> ranked_candidate list" where
  "rankCandidates env viewerInterestIds tags = js_sort (ranked_cmp (oe_localeCompare env))
     (map (candidate_of env (\<lambda>t shared. shared * 10 + (if tg_interestIds t \<noteq> [] then 1 else 0)) viewerInterestIds) tags)"

definition rankSearchSuggestionCandidates :: "otc_env \<Rightarrow> string list \<Rightarrow> string list \<Rightarrow> open_tags list \<Rightarrow> ranked_candidate list" where
  "rankSearchSuggestionCandidates env searcherActivityIds viewerInterestIds tags = js_sort (ranked_cmp (oe_localeCompare env))
     (map (candidate_of env (\<lambda>t shared. countSharedActivities searcherActivityIds (tg_activityIds t) * 20 + shared * 10 +
        (if tg_activityIds t \<noteq> [] then 2 else 0)) viewerInterestIds) tags)"

definition listViewerInterestIds :: "string \<Rightarrow> otc \<Rightarrow> string list" where
  "listViewerInterestIds u s = (case ot_profiles s u of None \<Rightarrow> [] | Some p \<Rightarrow> op_interestIds p)"

definition listViewerActivityIds :: "string \<Rightarrow> otc \<Rightarrow> string list" where
  "listViewerActivityIds u s = (case findByUserId u s of None \<Rightarrow> [] | Some (p, st) \<Rightarrow> os_activityIds st)"

text \<open>The indexed users who may be shown to a viewer, with what the index says of them.\<close>

definition shown_tags :: "otc_env \<Rightarrow> string \<Rightarrow> string list \<Rightarrow> otc \<Rightarrow> open_tags list \<times> otc" where
  "shown_tags env viewer indexedIds s =
     (let blocked = listAllBlockedPeerIds viewer (ot_people s);
          (visible, s1) = filterStillVisibleUserIds (filter (\<lambda>u. u \<noteq> viewer \<and> u \<notin> set blocked) indexedIds) s
      in (readTagsForUsers env visible s1, s1))"

definition feed_items :: "otc_env \<Rightarrow> string list \<Rightarrow> ranked_candidate list \<Rightarrow> otc \<Rightarrow> feed_item list" where
  "feed_items env viewerInterestIds rows s =
     map (\<lambda>c. \<lparr>fd_userId = rc_userId c, fd_headline = rc_headline c, fd_sharedInterestCount = rc_sharedInterestCount c,
               fd_sharedInterests = listSharedInterestLabels (oe_labels env) viewerInterestIds (rc_interestIds c)\<rparr>)
       (filter (\<lambda>c. has_profile (rc_userId c) s) rows)"

definition feed_limit :: "feed_query \<Rightarrow> int \<Rightarrow> int" where
  "feed_limit q hardLimit = min MAX_FEED_LIMIT (max 1 (nullish_or (fq_limit q) hardLimit))"

definition feed_ranking :: "otc_env \<Rightarrow> string \<Rightarrow> feed_query \<Rightarrow> otc \<Rightarrow> ranked_candidate list \<times> otc" where
  "feed_ranking env viewer q s =
     (let (tags, s1) = shown_tags env viewer (listIndexedUserIds (fq_activityId q) s) s;
          ranked = rankCandidates env (listViewerInterestIds viewer s) tags
      in (if truthy (fq_interestId q) then filter (\<lambda>c. the (fq_interestId q) \<in> set (rc_interestIds c)) ranked else ranked, s1))"

definition buildFeedResult :: "otc_env \<Rightarrow> string \<Rightarrow> feed_query \<Rightarrow> int \<Rightarrow> otc \<Rightarrow> feed_result \<times> otc" where
  "buildFeedResult env viewer q hardLimit s =
     (let limit = feed_limit q hardLimit;
          (ranked, s1) = feed_ranking env viewer q s;
          page = take (nat limit) (drop (fq_offset q) ranked);
          nextOffset = fq_offset q + length page
      in (\<lparr>fr_items = feed_items env (listViewerInterestIds viewer s) page s1,
           fr_nextOffset = (if nextOffset < length ranked then Some nextOffset else None), fr_limit = limit\<rparr>, s1))"

definition getOpenToConnectFeedService :: "otc_env \<Rightarrow> string \<Rightarrow> feed_query \<Rightarrow> otc \<Rightarrow> feed_result \<times> otc" where
  "getOpenToConnectFeedService env viewer q = buildFeedResult env viewer q DEFAULT_FEED_LIMIT"

definition getOpenToConnectSidebarService :: "otc_env \<Rightarrow> string \<Rightarrow> string option \<Rightarrow> string option \<Rightarrow> otc \<Rightarrow> feed_result \<times> otc" where
  "getOpenToConnectSidebarService env viewer activityId interestId = buildFeedResult env viewer
     \<lparr>fq_activityId = activityId, fq_interestId = interestId, fq_offset = 0, fq_limit = Some SIDEBAR_LIMIT\<rparr> SIDEBAR_LIMIT"

subsection \<open>Suggestions\<close>

definition markRecentNoMatchForSuggestions :: "string \<Rightarrow> string \<Rightarrow> otc \<Rightarrow> otc" where
  "markRecentNoMatchForSuggestions u reason s = s\<lparr>ot_noMatch := (ot_noMatch s)(u \<mapsto> reason)\<rparr>"

definition getRecentNoMatchReasonForSuggestions :: "string \<Rightarrow> otc \<Rightarrow> string option" where
  "getRecentNoMatchReasonForSuggestions u s = ot_noMatch s u"

definition isEligibleNoMatchReasonForSuggestions :: "string option \<Rightarrow> bool" where
  "isEligibleNoMatchReasonForSuggestions reason \<longleftrightarrow>
     \<not> truthy reason \<or> the reason \<notin> {''user_unavailable'', ''snapshot_not_found''}"

definition assertSearcherEligibleForSuggestions :: "otc_env \<Rightarrow> string \<Rightarrow> otc \<Rightarrow> api_error option" where
  "assertSearcherEligibleForSuggestions env u s =
     (let status = en_status (oe_match env u); reason = getRecentNoMatchReasonForSuggestions u s in
      error_if (\<not> (status = ''searching'' \<or> status = ''no_match'' \<or>
          (truthy reason \<and> isEligibleNoMatchReasonForSuggestions reason)))
        ''Suggestions are only available during an active search'' ''CONFLICT'' 409)"

definition listCandidateIdsForSearcher :: "string list \<Rightarrow> otc \<Rightarrow> string list" where
  "listCandidateIdsForSearcher activityIds s =
     (let merged = unique (concat (map (\<lambda>a. listIndexedUserIds (Some a) s) activityIds)) in
      if activityIds = [] \<or> merged = [] then listIndexedUserIds None s else merged)"

definition getOpenToConnectSearchSuggestionsService :: "otc_env \<Rightarrow> string \<Rightarrow> (otc, feed_result) service" where
  "getOpenToConnectSearchSuggestionsService env viewer s =
     (case assertSearcherEligibleForSuggestions env viewer s of
        Some e \<Rightarrow> (Inl e, s)
      | None \<Rightarrow>
         (let interests = listViewerInterestIds viewer s; activities = listViewerActivityIds viewer s;
              (tags, s1) = shown_tags env viewer (listCandidateIdsForSearcher activities s) s;
              ranked = take SEARCH_SUGGESTIONS_LIMIT (rankSearchSuggestionCandidates env activities interests tags)
          in (Inr \<lparr>fr_items = feed_items env interests ranked s1, fr_nextOffset = None,
                   fr_limit = int SEARCH_SUGGESTIONS_LIMIT\<rparr>, s1)))"

end
