(* ===== verification/ServerPresence.thy ===== *)
theory ServerPresence
  imports OpenConnect
begin

text \<open>
  Presence (\<open>user/events/user-event.listener.ts\<close>): a socket's connect, heartbeat and disconnect, the grace period
  of a user who was searching, and the expiry of a user's hash. The hash has a field for each address, which holds the
  id of a socket.
\<close>

definition normalizeIpField :: "string option \<Rightarrow> string \<Rightarrow> string" where
  "normalizeIpField ip socketId =
     (let value = js_lower (js_trim (nullish_or ip [])) in
      if value = [] \<or> value = ''undefined'' \<or> value = ''null'' \<or> value = ''unknown'' then ''unknown:'' @ socketId else value)"

definition del_field :: "string \<Rightarrow> fields \<Rightarrow> fields" where
  "del_field f h = filter (\<lambda>p. fst p \<noteq> f) h"

definition set_presence :: "string \<Rightarrow> fields \<Rightarrow> otc \<Rightarrow> otc" where
  "set_presence u h s = s\<lparr>ot_presence := (ot_presence s)(u := h)\<rparr>"

definition REMOVE_IP_IF_SOCKET_MATCHES :: "string \<Rightarrow> string \<Rightarrow> fields \<Rightarrow> fields" where
  "REMOVE_IP_IF_SOCKET_MATCHES ipField socketId h = (if hfield h ipField = Some socketId then del_field ipField h else h)"

definition MATCH_STATE_ON_CONNECT_DEBOUNCE_MS :: int where "MATCH_STATE_ON_CONNECT_DEBOUNCE_MS = 5000"

text \<open>The state that a connecting socket is told; how many sockets the user has is socket.io's answer.\<close>

definition match_state_event :: "otc_env \<Rightarrow> string \<Rightarrow> otc_event" where
  "match_state_event env u =
     (let e = oe_match env u in
      if en_status e = ''searching'' \<and> truthy (en_requestId e) then MatchState u ''searching'' (en_requestId e) None
      else if en_status e = ''proposed'' \<and> truthy (en_requestId e) then MatchState u ''proposed'' (en_requestId e) None
      else if matched_in_room e then MatchState u ''matched'' (en_requestId e) (en_roomId e)
      else MatchState u ''idle'' None None)"

definition emitMatchStateOnConnect :: "otc_env \<Rightarrow> nat \<Rightarrow> string \<Rightarrow> otc \<Rightarrow> otc" where
  "emitMatchStateOnConnect env sockets u s =
     (if sockets > 1 then s
      else if oe_now env - nullish_or (ot_restoredAt s u) 0 < MATCH_STATE_ON_CONNECT_DEBOUNCE_MS then s
      else emit [match_state_event env u] (s\<lparr>ot_restoredAt := (ot_restoredAt s)(u \<mapsto> oe_now env)\<rparr>))"

text \<open>The timers that run, by their handles, and the handle that is remembered for a user.\<close>

definition cancelGracePeriod :: "string \<Rightarrow> otc \<Rightarrow> otc" where
  "cancelGracePeriod u s = (case ot_graceTracked s u of
      None \<Rightarrow> s
    | Some t \<Rightarrow> s\<lparr>ot_graceTimers := filter (\<lambda>p. fst p \<noteq> t) (ot_graceTimers s), ot_graceTracked := (ot_graceTracked s)(u := None)\<rparr>)"

definition mark_connected :: "string \<Rightarrow> string \<Rightarrow> string option \<Rightarrow> int \<Rightarrow> otc \<Rightarrow> otc" where
  "mark_connected socketId u ip timestamp s =
     (let h = del_field [] (del_field ''null'' (del_field ''undefined'' (ot_presence s u))) in
      (set_presence u (set_field (normalizeIpField ip socketId) socketId h) s)
        \<lparr>ot_onlineUsers := set_add u (ot_onlineUsers s), ot_lastSeen := (ot_lastSeen s)(u \<mapsto> timestamp)\<rparr>)"

definition userConnected :: "otc_env \<Rightarrow> nat \<Rightarrow> string option \<Rightarrow> string option \<Rightarrow> string option \<Rightarrow> int \<Rightarrow> otc \<Rightarrow> otc" where
  "userConnected env sockets socketId userId ip timestamp s =
     (if \<not> truthy userId \<or> \<not> truthy socketId then s
      else (let u = the userId; s1 = mark_connected (the socketId) u ip timestamp s;
                s2 = s1\<lparr>ot_people := syncMatchingConnectionPeersFromDatabase u (ot_people s1)\<rparr>
            in emitMatchStateOnConnect env sockets u (cancelGracePeriod u (syncOpenToConnectIndexIfEnabled env u s2))))"

definition startGracePeriodIfSearching :: "otc_env \<Rightarrow> nat \<Rightarrow> string \<Rightarrow> otc \<Rightarrow> otc" where
  "startGracePeriodIfSearching env timer u s =
     (if searching_or_proposed (oe_match env u)
      then s\<lparr>ot_graceTimers := ot_graceTimers s @ [(timer, u)], ot_graceTracked := (ot_graceTracked s)(u \<mapsto> timer)\<rparr> else s)"

definition gone_offline :: "otc_env \<Rightarrow> nat \<Rightarrow> string \<Rightarrow> int \<Rightarrow> otc \<Rightarrow> otc" where
  "gone_offline env timer u timestamp s =
     startGracePeriodIfSearching env timer u (notifyUserUnavailable u (removeUserFromIndex u
       ((set_presence u [] s)\<lparr>ot_onlineUsers := removeAll u (ot_onlineUsers s), ot_lastSeen := (ot_lastSeen s)(u \<mapsto> timestamp)\<rparr>)))"

definition userDisconnected :: "otc_env \<Rightarrow> nat \<Rightarrow> string \<Rightarrow> string \<Rightarrow> string option \<Rightarrow> int \<Rightarrow> otc \<Rightarrow> otc" where
  "userDisconnected env timer socketId u ip timestamp s =
     (let h = REMOVE_IP_IF_SOCKET_MATCHES (normalizeIpField ip socketId) socketId (ot_presence s u);
          s1 = set_presence u h s
      in if h \<noteq> [] then s1 else gone_offline env timer u timestamp s1)"

text \<open>A timer of the grace period fires; the user is back if a socket is connected.\<close>

definition grace_period_over :: "otc_env \<Rightarrow> nat \<Rightarrow> nat \<Rightarrow> string \<Rightarrow> otc \<Rightarrow> otc" where
  "grace_period_over env sockets timer u s =
     (let s1 = s\<lparr>ot_graceTimers := filter (\<lambda>p. fst p \<noteq> timer) (ot_graceTimers s), ot_graceTracked := (ot_graceTracked s)(u := None)\<rparr> in
      if sockets > 0 then s1 else snd (cancelMatchService env u s1))"

text \<open>A minute without a heartbeat; nothing else is done then.\<close>

definition presence_expires :: "string \<Rightarrow> otc \<Rightarrow> otc" where
  "presence_expires u s = set_presence u [] s"

end
