(* ===== verification/OpenRules.thy ===== *)
theory OpenRules
  imports OpenFeed ServerPresence
begin

text \<open>
  What holds of open to connect and of presence: the presence hash against the history of sockets, who the feed
  shows, the life of a request, and that nobody is found while a room holds them.
\<close>

subsection \<open>Presence\<close>

datatype socket_event =
    Connects string string "string option"
  | Disconnects string string "string option"

text \<open>What the other services do meanwhile, the time and the number of sockets are arguments of each event.\<close>

fun on_socket :: "otc_env \<times> nat \<times> int \<Rightarrow> socket_event \<Rightarrow> otc \<Rightarrow> otc" where
  "on_socket (env, n, t) (Connects u k ip) = userConnected env n (Some k) (Some u) ip t"
| "on_socket (env, n, t) (Disconnects u k ip) = userDisconnected env n k u ip t"

definition on_sockets :: "((otc_env \<times> nat \<times> int) \<times> socket_event) list \<Rightarrow> otc \<Rightarrow> otc" where
  "on_sockets es s = fold (\<lambda>(a, e). on_socket a e) es s"

text \<open>The latest socket of an address that has not disconnected since it connected.\<close>

definition latest_socket :: "socket_event list \<Rightarrow> string \<Rightarrow> string \<Rightarrow> string \<Rightarrow> bool" where
  "latest_socket es u f k \<longleftrightarrow> (\<exists>pre post ip. es = pre @ [Connects u k ip] @ post \<and> normalizeIpField ip k = f \<and>
     (\<forall>k' ip'. Connects u k' ip' \<in> set post \<longrightarrow> normalizeIpField ip' k' \<noteq> f) \<and>
     (\<forall>ip'. Disconnects u k ip' \<in> set post \<longrightarrow> normalizeIpField ip' k \<noteq> f))"

definition touches :: "string \<Rightarrow> string \<Rightarrow> string \<Rightarrow> socket_event \<Rightarrow> bool" where
  "touches u f k e = (case e of
      Connects v k' ip \<Rightarrow> v = u \<and> normalizeIpField ip k' = f
    | Disconnects v k' ip \<Rightarrow> v = u \<and> k' = k \<and> normalizeIpField ip k' = f)"

lemma latest_Nil [simp]: "\<not> latest_socket [] u f k"
  by (simp add: latest_socket_def)

lemma latest_alt: "latest_socket es u f k \<longleftrightarrow> (\<exists>pre post ip. es = pre @ [Connects u k ip] @ post \<and> normalizeIpField ip k = f \<and>
    (\<forall>e\<in>set post. \<not> touches u f k e))"
proof -
  have "(\<forall>e\<in>set post. \<not> touches u f k e) \<longleftrightarrow> (\<forall>k' ip'. Connects u k' ip' \<in> set post \<longrightarrow> normalizeIpField ip' k' \<noteq> f) \<and>
     (\<forall>ip'. Disconnects u k ip' \<in> set post \<longrightarrow> normalizeIpField ip' k \<noteq> f)" for post
    by (auto simp: touches_def split: socket_event.splits)
  then show ?thesis by (simp add: latest_socket_def)
qed

lemma latest_snoc: "latest_socket (es @ [e]) u f k \<longleftrightarrow>
    (\<exists>ip. e = Connects u k ip \<and> normalizeIpField ip k = f) \<or> (latest_socket es u f k \<and> \<not> touches u f k e)"
  (is "?l \<longleftrightarrow> ?r")
proof
  assume ?l
  then obtain pre post ip where *: "es @ [e] = pre @ [Connects u k ip] @ post" "normalizeIpField ip k = f"
    "\<forall>e\<in>set post. \<not> touches u f k e" by (auto simp: latest_alt)
  show ?r
  proof (cases post rule: rev_cases)
    case Nil
    then show ?thesis using * by auto
  next
    case (snoc post' e')
    then have "e' = e" "es = pre @ [Connects u k ip] @ post'" using *(1) by simp_all
    then have "latest_socket es u f k" "\<not> touches u f k e" using *(2,3) snoc unfolding latest_alt by auto
    then show ?thesis by simp
  qed
next
  assume ?r
  then show ?l
  proof
    assume "\<exists>ip. e = Connects u k ip \<and> normalizeIpField ip k = f"
    then obtain ip where "e = Connects u k ip" "normalizeIpField ip k = f" by blast
    then show ?l unfolding latest_alt by (intro exI [of _ es] exI [of _ "[]"] exI [of _ ip]) simp
  next
    assume "latest_socket es u f k \<and> \<not> touches u f k e"
    then obtain pre post ip where "es = pre @ [Connects u k ip] @ post" "normalizeIpField ip k = f"
      "\<forall>e'\<in>set post. \<not> touches u f k e'" "\<not> touches u f k e" by (auto simp: latest_alt)
    then show ?l unfolding latest_alt by (intro exI [of _ pre] exI [of _ "post @ [e]"] exI [of _ ip]) auto
  qed
qed

text \<open>What the services around a socket leave of presence alone: they write the index, what is sent and who is listed online.\<close>

lemma unavailable_frame: "\<exists>on es. notifyUserUnavailable u s = s\<lparr>ot_onlineUsers := filter on (ot_onlineUsers s), ot_out := es\<rparr> \<and>
    (\<forall>v. isUserOnline v s \<longrightarrow> on v)"
  by (auto simp: notifyUserUnavailable_def listLiveOnlineUserIds_def retainLiveOnlineUserIds_def emit_def Let_def)

lemma available_frame: "\<exists>on es. notifyUserAvailable env u s = s\<lparr>ot_onlineUsers := filter on (ot_onlineUsers s), ot_out := es\<rparr> \<and>
    (\<forall>v. isUserOnline v s \<longrightarrow> on v)"
proof (cases "\<not> isUserVisibleInDiscovery u s \<or> readTagsForUsers env [u] s = [] \<or> \<not> has_profile u s")
  case True
  then have "notifyUserAvailable env u s = s\<lparr>ot_onlineUsers := filter (\<lambda>_. True) (ot_onlineUsers s), ot_out := ot_out s\<rparr>"
    by (auto simp: notifyUserAvailable_def)
  then show ?thesis by (intro exI) (rule conjI, assumption, simp)
next
  case False
  then show ?thesis
    by (auto simp: notifyUserAvailable_def listViewerIdsForOpenUser_def listLiveOnlineUserIds_def retainLiveOnlineUserIds_def emit_def Let_def)
qed

lemma remove_frame: "\<exists>a b c. removeUserFromIndex u s = s\<lparr>ot_online := a, ot_user := b, ot_activity := c\<rparr>"
  by (simp add: removeUserFromIndex_def Let_def) blast

lemma sync_frame:
  "\<exists>on es a b c. syncOpenToConnectIndexIfEnabled env u s =
     s\<lparr>ot_onlineUsers := filter on (ot_onlineUsers s), ot_out := es, ot_online := a, ot_user := b, ot_activity := c\<rparr> \<and>
     (\<forall>v. isUserOnline v s \<longrightarrow> on v)"
proof -
  have rem: ?thesis if eq: "syncOpenToConnectIndexIfEnabled env u s = removeUserFromIndex u s"
  proof -
    from remove_frame [of u s] obtain a b c where "removeUserFromIndex u s = s\<lparr>ot_online := a, ot_user := b, ot_activity := c\<rparr>" by blast
    then have "syncOpenToConnectIndexIfEnabled env u s =
        s\<lparr>ot_onlineUsers := filter (\<lambda>_. True) (ot_onlineUsers s), ot_out := ot_out s, ot_online := a, ot_user := b, ot_activity := c\<rparr>"
      by (simp add: eq)
    then show ?thesis by (intro exI) (rule conjI, assumption, simp)
  qed
  show ?thesis
  proof (cases "buildTagsForUser env u s")
    case None
    then show ?thesis by (intro rem) (simp add: syncOpenToConnectIndexIfEnabled_def)
  next
    case (Some tags)
    show ?thesis
    proof (cases "isUserOnline u s")
      case False
      then show ?thesis using Some by (intro rem) (simp add: syncOpenToConnectIndexIfEnabled_def)
    next
      case True
      obtain a b c where ix: "syncUserToIndex tags s = s\<lparr>ot_online := a, ot_user := b, ot_activity := c\<rparr>"
        by (simp add: syncUserToIndex_def Let_def)
      obtain on es where "notifyUserAvailable env u (syncUserToIndex tags s) =
          (syncUserToIndex tags s)\<lparr>ot_onlineUsers := filter on (ot_onlineUsers (syncUserToIndex tags s)), ot_out := es\<rparr>"
        "\<forall>v. isUserOnline v (syncUserToIndex tags s) \<longrightarrow> on v" using available_frame by blast
      then have "syncOpenToConnectIndexIfEnabled env u s =
          s\<lparr>ot_onlineUsers := filter on (ot_onlineUsers s), ot_out := es, ot_online := a, ot_user := b, ot_activity := c\<rparr> \<and>
          (\<forall>v. isUserOnline v s \<longrightarrow> on v)"
        using Some True by (simp add: syncOpenToConnectIndexIfEnabled_def ix isUserOnline_def)
      then show ?thesis by blast
    qed
  qed
qed

text \<open>The hash of a user after a socket event, and who is then listed online.\<close>

definition hash_after :: "socket_event \<Rightarrow> string \<Rightarrow> fields \<Rightarrow> fields" where
  "hash_after e u h = (case e of
      Connects v k ip \<Rightarrow> if v = u then set_field (normalizeIpField ip k) k (del_field [] (del_field ''null'' (del_field ''undefined'' h))) else h
    | Disconnects v k ip \<Rightarrow> if v = u then REMOVE_IP_IF_SOCKET_MATCHES (normalizeIpField ip k) k h else h)"

fun event_ok :: "socket_event \<Rightarrow> bool" where
  "event_ok (Connects u k ip) \<longleftrightarrow> u \<noteq> [] \<and> k \<noteq> []"
| "event_ok (Disconnects u k ip) \<longleftrightarrow> u \<noteq> [] \<and> k \<noteq> []"

definition listed_ok :: "otc \<Rightarrow> bool" where
  "listed_ok s \<longleftrightarrow> set (ot_onlineUsers s) = {u. isUserOnline u s}"

lemma set_field_some [simp]: "set_field f v h \<noteq> []"
  by (simp add: set_field_def)

lemma keeps_presence [simp]:
  "ot_presence (notifyUserUnavailable u s) = ot_presence s"
  "ot_presence (notifyUserAvailable env u s) = ot_presence s"
  "ot_presence (removeUserFromIndex u s) = ot_presence s"
  "ot_presence (syncOpenToConnectIndexIfEnabled env u s) = ot_presence s"
  using unavailable_frame [of u s] available_frame [of env u s] remove_frame [of u s] sync_frame [of env u s] by auto

lemma keeps_listed:
  "listed_ok s \<Longrightarrow> listed_ok (notifyUserUnavailable u s)"
  "listed_ok s \<Longrightarrow> listed_ok (removeUserFromIndex u s)"
  "listed_ok s \<Longrightarrow> listed_ok (syncOpenToConnectIndexIfEnabled env u s)"
  using unavailable_frame [of u s] remove_frame [of u s] sync_frame [of env u s] by (auto simp: listed_ok_def isUserOnline_def)

lemma keeps_listed_cong: "ot_presence s' = ot_presence s \<Longrightarrow> ot_onlineUsers s' = ot_onlineUsers s \<Longrightarrow> listed_ok s' = listed_ok s"
  by (simp add: listed_ok_def isUserOnline_def)

lemma connected_event:
  assumes "event_ok (Connects u k ip)" "listed_ok s"
  shows "ot_presence (userConnected env n (Some k) (Some u) ip t s) v = hash_after (Connects u k ip) v (ot_presence s v) \<and>
    listed_ok (userConnected env n (Some k) (Some u) ip t s)"
proof -
  let ?s1 = "mark_connected k u ip t s"
  let ?s2 = "?s1\<lparr>ot_people := syncMatchingConnectionPeersFromDatabase u (ot_people ?s1)\<rparr>"
  let ?s3 = "syncOpenToConnectIndexIfEnabled env u ?s2"
  have "listed_ok ?s1"
    using assms(2) by (auto simp: listed_ok_def mark_connected_def set_presence_def isUserOnline_def split: if_splits)
  then have "listed_ok ?s2" by (simp add: listed_ok_def isUserOnline_def)
  then have "listed_ok ?s3" by (rule keeps_listed)
  moreover have "ot_presence ?s3 v = hash_after (Connects u k ip) v (ot_presence s v)"
    by (simp add: mark_connected_def set_presence_def hash_after_def)
  moreover have "ot_presence (userConnected env n (Some k) (Some u) ip t s) = ot_presence ?s3"
    "ot_onlineUsers (userConnected env n (Some k) (Some u) ip t s) = ot_onlineUsers ?s3" using assms(1)
    by (simp_all add: userConnected_def Let_def emitMatchStateOnConnect_def cancelGracePeriod_def emit_def split: option.split)
  ultimately show ?thesis using keeps_listed_cong by metis
qed

lemma disconnected_event:
  assumes "listed_ok s"
  shows "ot_presence (userDisconnected env n k u ip t s) v = hash_after (Disconnects u k ip) v (ot_presence s v) \<and>
    listed_ok (userDisconnected env n k u ip t s)"
proof -
  let ?h = "REMOVE_IP_IF_SOCKET_MATCHES (normalizeIpField ip k) k (ot_presence s u)"
  show ?thesis
  proof (cases "?h = []")
    case False
    then have "ot_presence s u \<noteq> []" by (auto simp: REMOVE_IP_IF_SOCKET_MATCHES_def del_field_def split: if_splits)
    with False show ?thesis using assms
      by (auto simp: userDisconnected_def Let_def set_presence_def hash_after_def listed_ok_def isUserOnline_def)
  next
    case True
    let ?s1 = "(set_presence u [] (set_presence u ?h s))\<lparr>ot_onlineUsers := removeAll u (ot_onlineUsers s), ot_lastSeen := (ot_lastSeen s)(u \<mapsto> t)\<rparr>"
    let ?s2 = "notifyUserUnavailable u (removeUserFromIndex u ?s1)"
    have "listed_ok ?s1" using assms by (auto simp: listed_ok_def isUserOnline_def set_presence_def)
    then have "listed_ok ?s2" by (intro keeps_listed)
    moreover have "ot_presence ?s2 v = hash_after (Disconnects u k ip) v (ot_presence s v)"
      using True by (auto simp: hash_after_def set_presence_def)
    moreover have "userDisconnected env n k u ip t s = startGracePeriodIfSearching env n u ?s2"
      using True by (simp add: userDisconnected_def Let_def gone_offline_def) (simp add: set_presence_def)
    moreover have "ot_presence (startGracePeriodIfSearching env n u ?s2) = ot_presence ?s2"
      "listed_ok (startGracePeriodIfSearching env n u ?s2) = listed_ok ?s2"
      by (simp_all add: startGracePeriodIfSearching_def listed_ok_def isUserOnline_def)
    ultimately show ?thesis by metis
  qed
qed

lemma socket_event_presence:
  assumes "event_ok e" "listed_ok s"
  shows "ot_presence (on_socket a e s) v = hash_after e v (ot_presence s v) \<and> listed_ok (on_socket a e s)"
proof -
  obtain env n t where a: "a = (env, n, t)" by (cases a)
  show ?thesis
    using assms connected_event disconnected_event unfolding a by (cases e) simp_all
qed

lemma normal_field: "normalizeIpField ip k \<noteq> []" "normalizeIpField ip k \<noteq> ''null''" "normalizeIpField ip k \<noteq> ''undefined''"
  by (auto simp: normalizeIpField_def Let_def)

lemma hfield_del: "hfield (del_field f h) g = (if g = f then None else hfield h g)"
  by (induction h) (auto simp: hfield_def del_field_def)

lemma hfield_after:
  "hfield (hash_after e u h) f = Some k \<longleftrightarrow>
    (\<exists>ip. e = Connects u k ip \<and> normalizeIpField ip k = f) \<or> (hfield h f = Some k \<and> \<not> touches u f k e)"
  if "\<forall>k. hfield h f = Some k \<longrightarrow> f \<noteq> [] \<and> f \<noteq> ''null'' \<and> f \<noteq> ''undefined''"
  using that normal_field normal_field [THEN not_sym]
  by (cases e) (auto simp: hash_after_def touches_def REMOVE_IP_IF_SOCKET_MATCHES_def hfield_del)

lemma hash_nonempty: "h \<noteq> [] \<longleftrightarrow> (\<exists>f k. hfield h f = Some k)" for h :: fields
  by (cases h) (auto simp: hfield_def)

lemma presence_latest:
  assumes "\<forall>(a, e)\<in>set es. event_ok e" "ot_presence s = (\<lambda>u. [])" "ot_onlineUsers s = []"
  shows "listed_ok (on_sockets es s) \<and> (hfield (ot_presence (on_sockets es s) u) f = Some k) = latest_socket (map snd es) u f k"
proof -
  have "listed_ok (on_sockets es s) \<and> (\<forall>u f k. (hfield (ot_presence (on_sockets es s) u) f = Some k) = latest_socket (map snd es) u f k)"
    using assms(1)
  proof (induction es rule: rev_induct)
    case Nil
    then show ?case using assms(2,3) by (simp add: on_sockets_def listed_ok_def isUserOnline_def)
  next
    case (snoc x es)
    obtain a e where x: "x = (a, e)" by (cases x)
    let ?s = "on_sockets es s"
    have IH: "listed_ok ?s" "\<And>u f k. (hfield (ot_presence ?s u) f = Some k) = latest_socket (map snd es) u f k"
      using snoc by auto
    have step: "on_sockets (es @ [x]) s = on_socket a e ?s" by (simp add: on_sockets_def x)
    have "event_ok e" using snoc.prems x by simp
    then have ev: "ot_presence (on_socket a e ?s) v = hash_after e v (ot_presence ?s v)" "listed_ok (on_socket a e ?s)" for v
      using socket_event_presence IH(1) by blast+
    have "\<forall>k. hfield (ot_presence ?s u) f = Some k \<longrightarrow> f \<noteq> [] \<and> f \<noteq> ''null'' \<and> f \<noteq> ''undefined''" for u f
      using normal_field by (auto simp: IH(2) latest_socket_def)
    then have "(hfield (ot_presence (on_socket a e ?s) u) f = Some k) = latest_socket (map snd es @ [e]) u f k" for u f k
      unfolding ev(1) latest_snoc by (subst hfield_after) (simp_all add: IH(2))
    then show ?case using ev(2) by (simp add: step) (simp add: x)
  qed
  then show ?thesis by blast
qed


text \<open>A tab that closes takes the user offline though an older one from the same address is still connected.\<close>

theorem newer_tab_closes_presence:
  assumes "event_ok (Connects u k ip)" "event_ok (Connects u k' ip)" "k \<noteq> k'" "normalizeIpField ip k = normalizeIpField ip k'"
    and "ot_presence s = (\<lambda>u. [])" "ot_onlineUsers s = []"
  shows "\<not> isUserOnline u (on_sockets [(a, Connects u k ip), (b, Connects u k' ip), (c, Disconnects u k' ip)] s)"
proof -
  let ?es = "[(a, Connects u k ip), (b, Connects u k' ip), (c, Disconnects u k' ip)]"
  have "\<not> latest_socket ([] @ [Connects u k ip] @ [Connects u k' ip] @ [Disconnects u k' ip]) u f j" for f j
    unfolding append_assoc [symmetric] latest_snoc using assms(3,4) by (auto simp: touches_def)
  then have "hfield (ot_presence (on_sockets ?es s) u) f \<noteq> Some j" for f j
    using presence_latest [of ?es s u f j] assms by auto
  then show ?thesis by (simp add: isUserOnline_def hash_nonempty)
qed

subsection \<open>Who the feed shows\<close>

definition shows_only :: "string \<Rightarrow> otc \<Rightarrow> nat \<Rightarrow> feed_result \<Rightarrow> bool" where
  "shows_only viewer s n res \<longleftrightarrow> length (fr_items res) \<le> n \<and> distinct (map fd_userId (fr_items res)) \<and>
     fd_userId ` set (fr_items res) \<subseteq> {u. u \<noteq> viewer \<and> isUserVisibleInDiscovery u s \<and>
       \<not> isEitherBlocked viewer u (ot_people s) \<and> has_profile u s}"

lemma all_blocked: "set (listAllBlockedPeerIds v p) = {u. isEitherBlocked v u p}"
  by (auto simp: listAllBlockedPeerIds_def listBlockedUserIds_def listBlockerUserIds_def isEitherBlocked_def isBlockedBy_def image_iff)

lemma map_filter_users: "List.map_filter (\<lambda>u. read_tags env u s) us = map (\<lambda>u. the (read_tags env u s)) (filter (\<lambda>u. read_tags env u s \<noteq> None) us)"
  by (simp add: List.map_filter_def comp_def)

lemma read_user: "read_tags env u s = Some t \<Longrightarrow> tg_userId t = u"
  by (auto simp: read_tags_def Let_def split: if_splits)

lemma read_users: "map tg_userId (readTagsForUsers env us s) = filter (\<lambda>u. u \<noteq> [] \<and> read_tags env u s \<noteq> None) (unique us)"
  by (simp add: readTagsForUsers_def map_filter_users conj_commute) (rule map_idI, auto dest: read_user)

text \<open>Dropping stale entries: what is seen of visible users stays.\<close>

definition visible_same :: "otc \<Rightarrow> otc \<Rightarrow> bool" where
  "visible_same s s' \<longleftrightarrow> ot_people s' = ot_people s \<and> ot_users s' = ot_users s \<and> ot_profiles s' = ot_profiles s \<and>
     ot_presence s' = ot_presence s \<and> (\<forall>u. isUserVisibleInDiscovery u s' = isUserVisibleInDiscovery u s) \<and>
     (\<forall>u. isUserVisibleInDiscovery u s \<longrightarrow> ot_user s' u = ot_user s u) \<and>
     filter (\<lambda>u. isUserVisibleInDiscovery u s) (ot_online s') = filter (\<lambda>u. isUserVisibleInDiscovery u s) (ot_online s) \<and>
     (\<forall>a. filter (\<lambda>u. isUserVisibleInDiscovery u s) (ot_activity s' a) = filter (\<lambda>u. isUserVisibleInDiscovery u s) (ot_activity s a))"

lemma visible_onlineUsers [simp]: "isUserVisibleInDiscovery u (s\<lparr>ot_onlineUsers := x\<rparr>) = isUserVisibleInDiscovery u s"
  by (simp add: isUserVisibleInDiscovery_def isUserOnline_def)

lemma visible_same_refl [simp]: "visible_same s s"
  by (simp add: visible_same_def)

lemma visible_same_trans: "visible_same s s' \<Longrightarrow> visible_same s' s'' \<Longrightarrow> visible_same s s''"
  by (simp add: visible_same_def)

lemma filter_removed: "\<not> P u \<Longrightarrow> filter P (removeAll u xs) = filter P xs"
  by (induction xs) auto

lemma remove_stale: "\<not> isUserVisibleInDiscovery u s \<Longrightarrow> visible_same s (removeUserFromIndex u s)"
  by (auto simp: visible_same_def removeUserFromIndex_def Let_def isUserVisibleInDiscovery_def isUserOnline_def filter_removed)

lemma remove_all_stale: "\<forall>u\<in>set us. \<not> isUserVisibleInDiscovery u s \<Longrightarrow> visible_same s (fold removeUserFromIndex us s)"
proof (induction us arbitrary: s)
  case (Cons u us)
  let ?s = "removeUserFromIndex u s"
  have 1: "visible_same s ?s" using Cons.prems by (intro remove_stale) simp
  then have "\<forall>v\<in>set us. \<not> isUserVisibleInDiscovery v ?s" using Cons.prems by (simp add: visible_same_def)
  then have "visible_same ?s (fold removeUserFromIndex us ?s)" by (rule Cons.IH)
  with 1 show ?case by (simp add: visible_same_trans)
qed simp

lemma filter_still:
  "fst (filterStillVisibleUserIds us s) = filter (\<lambda>u. u \<noteq> [] \<and> isUserVisibleInDiscovery u s) us"
  "visible_same s (snd (filterStillVisibleUserIds us s))"
proof -
  let ?stale = "filter (\<lambda>u. \<not> isUserVisibleInDiscovery u s) (filter (\<lambda>u. u \<noteq> []) us)"
  have "visible_same s (fold removeUserFromIndex ?stale s)" by (rule remove_all_stale) auto
  then show "visible_same s (snd (filterStillVisibleUserIds us s))"
    by (simp add: filterStillVisibleUserIds_def Let_def visible_same_def)
  show "fst (filterStillVisibleUserIds us s) = filter (\<lambda>u. u \<noteq> [] \<and> isUserVisibleInDiscovery u s) us"
    by (auto simp: filterStillVisibleUserIds_def Let_def intro: filter_cong)
qed

definition shown_ids :: "string \<Rightarrow> string list \<Rightarrow> otc \<Rightarrow> string list" where
  "shown_ids viewer ids s = filter (\<lambda>u. u \<noteq> [] \<and> u \<noteq> viewer \<and> \<not> isEitherBlocked viewer u (ot_people s)) (filter (\<lambda>u. isUserVisibleInDiscovery u s) ids)"

lemma shown_tags_parts:
  "fst (shown_tags env viewer ids s) = readTagsForUsers env (shown_ids viewer ids s) s"
  "visible_same s (snd (shown_tags env viewer ids s))"
proof -
  let ?us = "filter (\<lambda>u. u \<noteq> viewer \<and> u \<notin> set (listAllBlockedPeerIds viewer (ot_people s))) ids"
  let ?s1 = "snd (filterStillVisibleUserIds ?us s)"
  have ids: "fst (filterStillVisibleUserIds ?us s) = shown_ids viewer ids s"
    by (simp add: filter_still shown_ids_def all_blocked) (rule filter_cong, auto)
  have same: "visible_same s ?s1" by (rule filter_still)
  have "read_tags env u ?s1 = read_tags env u s" if "u \<in> set (unique (shown_ids viewer ids s))" for u
    using that same by (auto simp: shown_ids_def visible_same_def read_tags_def)
  then have "readTagsForUsers env (shown_ids viewer ids s) ?s1 = readTagsForUsers env (shown_ids viewer ids s) s"
    unfolding readTagsForUsers_def map_filter_users by (auto intro!: map_cong filter_cong)
  with ids same show "fst (shown_tags env viewer ids s) = readTagsForUsers env (shown_ids viewer ids s) s"
    "visible_same s (snd (shown_tags env viewer ids s))"
    by (simp_all add: shown_tags_def Let_def split_beta)
qed

lemma shown_users:
  "set (map tg_userId (fst (shown_tags env viewer ids s))) \<subseteq> {u. u \<noteq> viewer \<and> isUserVisibleInDiscovery u s \<and> \<not> isEitherBlocked viewer u (ot_people s)}"
  "distinct (map tg_userId (fst (shown_tags env viewer ids s)))"
  unfolding shown_tags_parts read_users by (auto simp: shown_ids_def distinct_unique set_unique)

lemma ranked_users: "rc_userId (candidate_of env f v t) = tg_userId t"
  by (simp add: candidate_of_def Let_def)

lemma items_users: "map fd_userId (feed_items env interests rows s) = filter (\<lambda>u. has_profile u s) (map rc_userId rows)"
  by (simp add: feed_items_def comp_def filter_map)

text \<open>A part of a ranking of shown users, as cards.\<close>

lemma cards_only:
  assumes "mset (map rc_userId ranking) = mset (map tg_userId (fst (shown_tags env viewer ids s)))" "set rows \<subseteq> set ranking" "distinct (map rc_userId rows)"
    and "length rows \<le> n" "s1 = snd (shown_tags env viewer ids s)"
  shows "shows_only viewer s n \<lparr>fr_items = feed_items env interests rows s1, fr_nextOffset = nxt, fr_limit = l\<rparr>"
proof -
  have "visible_same s s1" unfolding assms(5) by (rule shown_tags_parts)
  then have prof: "has_profile u s1 = has_profile u s" for u by (simp add: visible_same_def has_profile_def)
  have "rc_userId ` set rows \<subseteq> set (map tg_userId (fst (shown_tags env viewer ids s)))"
    using assms(2) mset_eq_setD [OF assms(1)] by auto
  moreover have "fd_userId ` set (feed_items env interests rows s1) = {u \<in> rc_userId ` set rows. has_profile u s1}"
    using arg_cong [OF items_users, of set env interests rows s1] by auto
  moreover have "distinct (map fd_userId (feed_items env interests rows s1))" using assms(3) by (simp only: items_users distinct_filter)
  moreover have "length (feed_items env interests rows s1) \<le> n" using assms(4) by (auto simp: feed_items_def intro: le_trans [OF length_filter_le])
  ultimately show ?thesis using shown_users(1) [of env viewer ids s] prof by (auto simp: shows_only_def)
qed

lemma feed_ranking_part:
  "\<exists>P. fst (feed_ranking env viewer q s) = filter P (rankCandidates env (listViewerInterestIds viewer s)
     (fst (shown_tags env viewer (listIndexedUserIds (fq_activityId q) s) s)))"
  by (auto simp: feed_ranking_def Let_def split_beta intro: exI [of _ "\<lambda>_. True"])

lemma ranking_users:
  "mset (map rc_userId (rankCandidates env v tags)) = mset (map tg_userId tags)"
  "mset (map rc_userId (rankSearchSuggestionCandidates env a v tags)) = mset (map tg_userId tags)"
  unfolding rankCandidates_def rankSearchSuggestionCandidates_def mset_map mset_js_sort
  by (simp_all add: multiset.map_comp comp_def ranked_users)

lemma distinct_sub: "distinct (map f xs) \<Longrightarrow> distinct (map f (take m (drop n (filter P xs))))"
  by (metis distinct_drop distinct_map_filter distinct_take drop_map take_map)

lemma feed_shows: "shows_only viewer s 40 (fst (buildFeedResult env viewer q hardLimit s))"
proof -
  let ?ids = "listIndexedUserIds (fq_activityId q) s"
  let ?all = "rankCandidates env (listViewerInterestIds viewer s) (fst (shown_tags env viewer ?ids s))"
  obtain P where P: "fst (feed_ranking env viewer q s) = filter P ?all" using feed_ranking_part by blast
  let ?page = "take (nat (feed_limit q hardLimit)) (drop (fq_offset q) (filter P ?all))"
  have "distinct (map rc_userId ?all)"
    using shown_users(2) [of env viewer ?ids s] ranking_users(1) by (metis mset_eq_imp_distinct_iff)
  then have "distinct (map rc_userId ?page)" by (rule distinct_sub)
  moreover have "set ?page \<subseteq> set ?all" by (auto dest!: in_set_takeD in_set_dropD)
  moreover have "length ?page \<le> 40" by (auto simp: feed_limit_def MAX_FEED_LIMIT_def)
  moreover have "snd (feed_ranking env viewer q s) = snd (shown_tags env viewer ?ids s)" by (simp add: feed_ranking_def Let_def split_beta)
  ultimately show ?thesis
    using cards_only [OF ranking_users(1), of ?page] by (simp add: buildFeedResult_def Let_def split_beta P)
qed

text \<open>
  C12. The feed shows only who may be seen. The feed and the suggestions of a search show each user at
  most once, at most 40 and at most 5 of them, and only users who are online and indexed, who are not the viewer, whom
  the viewer has not blocked and who have not blocked the viewer.
\<close>

theorem feed_is_safe:
  "shows_only viewer s 40 (fst (buildFeedResult env viewer q hardLimit s)) \<and>
   (case fst (getOpenToConnectSearchSuggestionsService env viewer s) of
      Inl e \<Rightarrow> en_status (oe_match env viewer) \<noteq> ''searching'' | Inr res \<Rightarrow> shows_only viewer s 5 res)"
proof
  show "shows_only viewer s 40 (fst (buildFeedResult env viewer q hardLimit s))" by (rule feed_shows)
next
  let ?acts = "listViewerActivityIds viewer s"
  let ?ids = "listCandidateIdsForSearcher ?acts s"
  let ?all = "rankSearchSuggestionCandidates env ?acts (listViewerInterestIds viewer s) (fst (shown_tags env viewer ?ids s))"
  have "distinct (map rc_userId ?all)"
    using shown_users(2) [of env viewer ?ids s] ranking_users(2) by (metis mset_eq_imp_distinct_iff)
  then have "distinct (map rc_userId (take 5 ?all))" by (metis distinct_take take_map)
  moreover have "set (take 5 ?all) \<subseteq> set ?all" by (rule set_take_subset)
  ultimately show "case fst (getOpenToConnectSearchSuggestionsService env viewer s) of
      Inl e \<Rightarrow> en_status (oe_match env viewer) \<noteq> ''searching'' | Inr res \<Rightarrow> shows_only viewer s 5 res"
    using cards_only [OF ranking_users(2), of "take 5 ?all"]
    by (auto simp: getOpenToConnectSearchSuggestionsService_def assertSearcherEligibleForSuggestions_def error_if_def Let_def split_beta
        SEARCH_SUGGESTIONS_LIMIT_def split: if_splits)
qed

subsection \<open>Pages\<close>

text \<open>A client that follows the cursor, for at most as many pages as the fuel says.\<close>

fun all_pages :: "nat \<Rightarrow> otc_env \<Rightarrow> string \<Rightarrow> feed_query \<Rightarrow> int \<Rightarrow> otc \<Rightarrow> feed_item list option" where
  "all_pages 0 env viewer q hardLimit s = None"
| "all_pages (Suc n) env viewer q hardLimit s =
     (let (res, s1) = buildFeedResult env viewer q hardLimit s in
      case fr_nextOffset res of
        None \<Rightarrow> Some (fr_items res)
      | Some nxt \<Rightarrow> map_option (\<lambda>rest. fr_items res @ rest) (all_pages n env viewer (q\<lparr>fq_offset := nxt\<rparr>) hardLimit s1))"

lemma shown_again:
  assumes same: "visible_same s s'"
  shows "fst (feed_ranking env viewer (q\<lparr>fq_offset := n\<rparr>) s') = fst (feed_ranking env viewer q s)"
proof -
  let ?ids = "listIndexedUserIds (fq_activityId q)"
  have "filter (\<lambda>u. isUserVisibleInDiscovery u s) (?ids s') = filter (\<lambda>u. isUserVisibleInDiscovery u s) (?ids s)"
    using same by (simp add: visible_same_def listIndexedUserIds_def)
  then have ids: "shown_ids viewer (?ids s') s' = shown_ids viewer (?ids s) s" using same by (simp add: shown_ids_def visible_same_def)
  have "read_tags env u s' = read_tags env u s" if "u \<in> set (unique (shown_ids viewer (?ids s) s))" for u
    using that same by (auto simp: shown_ids_def visible_same_def read_tags_def set_unique)
  then have "readTagsForUsers env (shown_ids viewer (?ids s) s) s' = readTagsForUsers env (shown_ids viewer (?ids s) s) s"
    unfolding readTagsForUsers_def map_filter_users by (auto intro!: map_cong filter_cong)
  then have "fst (shown_tags env viewer (?ids s') s') = fst (shown_tags env viewer (?ids s) s)" by (simp only: shown_tags_parts ids)
  moreover have "listViewerInterestIds viewer s' = listViewerInterestIds viewer s"
    using same by (simp add: visible_same_def listViewerInterestIds_def)
  ultimately show ?thesis by (simp add: feed_ranking_def Let_def split_beta)
qed

lemma ranking_leaves: "visible_same s (snd (feed_ranking env viewer q s))"
  by (simp add: feed_ranking_def Let_def split_beta shown_tags_parts)

lemma items_same: "visible_same s s' \<Longrightarrow> feed_items env interests rows s' = feed_items env interests rows s"
  by (simp add: feed_items_def visible_same_def has_profile_def)

lemma items_append: "feed_items env interests (xs @ ys) s = feed_items env interests xs s @ feed_items env interests ys s"
  by (simp add: feed_items_def)

text \<open>
  Following the cursor shows everybody once. A client that follows the cursor from any offset
  gets, after at most as many pages as users are ranked behind it and one more, exactly the cards of the ranking from there on, in
  its order; the purge of stale entries that each page does changes nothing of it.
\<close>

theorem pages_cover_the_ranking:
  assumes "length (fst (feed_ranking env viewer q s)) - fq_offset q < n"
  shows "all_pages n env viewer q hardLimit s =
    Some (feed_items env (listViewerInterestIds viewer s) (drop (fq_offset q) (fst (feed_ranking env viewer q s))) s)"
  using assms
proof (induction n arbitrary: q s)
  case (Suc n)
  let ?r = "fst (feed_ranking env viewer q s)" and ?s1 = "snd (feed_ranking env viewer q s)"
  let ?l = "nat (feed_limit q hardLimit)" and ?v = "listViewerInterestIds viewer s"
  let ?page = "take ?l (drop (fq_offset q) ?r)"
  define m where "m = fq_offset q + length ?page"
  have same: "visible_same s ?s1" by (rule ranking_leaves)
  have items: "fr_items (fst (buildFeedResult env viewer q hardLimit s)) = feed_items env ?v ?page s"
    "fr_nextOffset (fst (buildFeedResult env viewer q hardLimit s)) = (if m < length ?r then Some m else None)"
    "snd (buildFeedResult env viewer q hardLimit s) = ?s1"
    by (simp_all add: buildFeedResult_def Let_def split_beta items_same [OF same] m_def)
  have pos: "0 < ?l" by (simp add: feed_limit_def MAX_FEED_LIMIT_def)
  show ?case
  proof (cases "m < length ?r")
    case False
    then have "?page = drop (fq_offset q) ?r" by (auto simp: m_def)
    then show ?thesis using False by (simp add: split_beta items)
  next
    case True
    let ?q = "q\<lparr>fq_offset := m\<rparr>"
    have again: "fst (feed_ranking env viewer ?q ?s1) = ?r" by (rule shown_again [OF same])
    have full: "length ?page = ?l" using True by (auto simp: m_def)
    have "length ?r - m < n" using Suc.prems True pos unfolding m_def full by linarith
    then have rest: "all_pages n env viewer ?q hardLimit ?s1 = Some (feed_items env (listViewerInterestIds viewer ?s1) (drop m ?r) ?s1)"
      using Suc.IH [of ?q ?s1] unfolding again by simp
    have viewer: "listViewerInterestIds viewer ?s1 = ?v" using same by (simp add: visible_same_def listViewerInterestIds_def)
    have "drop m ?r = drop ?l (drop (fq_offset q) ?r)" unfolding m_def full by (simp add: add.commute)
    then have "?page @ drop m ?r = drop (fq_offset q) ?r" by (simp only: append_take_drop_id)
    then show ?thesis using True
      by (simp add: split_beta items rest viewer items_same [OF same] flip: items_append)
  qed
qed simp

subsection \<open>Witnesses\<close>

text \<open>A town of two users: \<open>b\<close> is online and open to connect, \<open>a\<close> looks at the feed.\<close>

definition empty_rooms :: main_store where
  "empty_rooms = \<lparr>db_rooms = (\<lambda>_. None), db_parts = (\<lambda>_. []), db_invites = [], db_restricted = [], db_strikes = (\<lambda>_. 0), db_banned = [],
     rd_session = (\<lambda>_. []), rd_active = (\<lambda>_. None), rd_nsfw = (\<lambda>_ _. False), cc_invite = (\<lambda>_. []), cc_pendingForCallee = (\<lambda>_. None),
     cc_pendingByRoom = (\<lambda>_. None), cc_activeByRoom = (\<lambda>_. None), cc_historyLogged = (\<lambda>_. False),
     cc_historyLoggedForRequest = (\<lambda>_. False), out = []\<rparr>"

definition empty_people :: people where
  "empty_people = \<lparr>pe_connections = [], pe_blocks = [], pe_peers = (\<lambda>_. {}), pe_blockOut = (\<lambda>_. {}), pe_blockIn = (\<lambda>_. {}), pe_out = []\<rparr>"

definition demo_profile :: "string \<Rightarrow> open_profile" where
  "demo_profile u = \<lparr>op_id = u, op_isGuest = False, op_interestIds = [''go''],
     op_status = Some \<lparr>os_open = True, os_updatedAt = Some 0, os_source = None, os_headline = None, os_paused = False,
       os_moodIds = [], os_activityIds = [''chess'']\<rparr>\<rparr>"

definition empty_town :: otc where
  "empty_town = \<lparr>ot_main = empty_rooms, ot_people = empty_people, ot_users = (\<lambda>u. Some \<lparr>un_displayName = None, un_name = u\<rparr>),
     ot_profiles = (\<lambda>u. Some (demo_profile u)), ot_requests = [], ot_presence = (\<lambda>_. []), ot_onlineUsers = [], ot_lastSeen = (\<lambda>_. None),
     ot_online = [], ot_user = (\<lambda>_. []), ot_activity = (\<lambda>_. []), ot_noMatch = (\<lambda>_. None), ot_rate = (\<lambda>_. 0), ot_graceTimers = [],
     ot_graceTracked = (\<lambda>_. None), ot_restoredAt = (\<lambda>_. None), ot_out = []\<rparr>"

definition demo_env :: "int \<Rightarrow> otc_env" where
  "demo_env t = \<lparr>oe_room = \<lparr>re_now = t, re_isGuest = (\<lambda>_. False)\<rparr>, oe_iso = (\<lambda>_. ''1970''), oe_dateParse = (\<lambda>_. Some 0),
     oe_localeCompare = (\<lambda>_ _. 0), oe_match = (\<lambda>_. \<lparr>en_status = ''idle'', en_requestId = None, en_roomId = None\<rparr>),
     oe_cancelFails = False, oe_validate = Inr, oe_labels = (\<lambda>_. None), oe_newId = ''1'', oe_roomId = ''room'', oe_hasCategory = True\<rparr>"

definition town :: otc where
  "town = userConnected (demo_env 0) 1 (Some ''s'') (Some ''b'') (Some ''ip'') 0 empty_town"

definition demo_query :: feed_query where
  "demo_query = \<lparr>fq_activityId = Some ''chess'', fq_interestId = None, fq_offset = 0, fq_limit = Some 1\<rparr>"

lemma empty_town_presence: "ot_presence empty_town = (\<lambda>u. [])" "ot_onlineUsers empty_town = []"
  by (simp_all add: empty_town_def)


lemma newer_tab_closes_presence_witness:
  "\<not> isUserOnline ''b'' (on_sockets [((demo_env 0, 1, 0), Connects ''b'' ''s'' (Some ''ip'')), ((demo_env 0, 2, 0), Connects ''b'' ''t'' (Some ''ip'')),
     ((demo_env 0, 1, 0), Disconnects ''b'' ''t'' (Some ''ip''))] empty_town)"
  by (rule newer_tab_closes_presence) (simp_all add: empty_town_presence normalizeIpField_def js_trim_def js_lower_def js_lower_char_def js_space_def)

lemma town_ranking: "map rc_userId (fst (feed_ranking (demo_env 0) ''a'' demo_query town)) = [''b'']"
  by code_simp

lemma pages_cover_the_ranking_witness: "all_pages 2 (demo_env 0) ''a'' demo_query 12 town \<noteq> None"
proof -
  have "length (map rc_userId (fst (feed_ranking (demo_env 0) ''a'' demo_query town))) = 1" unfolding town_ranking by simp
  then show ?thesis using pages_cover_the_ranking [of "demo_env 0" "''a''" demo_query town 2 12] by simp
qed

end
