(* ===== verification/RequestRules.thy ===== *)
theory RequestRules
  imports OpenRules PeopleRules
begin

text \<open>
  The life of a request to somebody who is open to connect: over any requests at any times at most one is
  pending from one user to another and at most three at anyone, an answered one stays as it was answered, and an
  accepted one is a call. Blocks and a cancel in between show what answering does not look at.
\<close>

subsection \<open>Steps\<close>

datatype ask_step =
    Ask string string "string option"
  | CancelAsk string string
  | CheckAnswer string string
  | ActOnAnswer bool connect_request

fun ask_handler :: "otc_env \<Rightarrow> ask_step \<Rightarrow> otc \<Rightarrow> otc" where
  "ask_handler env (Ask requester target message) s = snd (createConnectRequestService env requester target message s)"
| "ask_handler env (CancelAsk requester i) s = snd (cancelConnectRequestService env requester i s)"
| "ask_handler env (CheckAnswer target i) s = snd (request_to_answer env target i s)"
| "ask_handler env (ActOnAnswer accept row) s = snd (if accept then accept_request env row s else reject_request env row s)"

text \<open>The parts of a request that never change.\<close>

definition same_ask :: "connect_request \<Rightarrow> connect_request \<Rightarrow> bool" where
  "same_ask q q' \<longleftrightarrow> cq_id q' = cq_id q \<and> cq_requesterUserId q' = cq_requesterUserId q \<and> cq_targetUserId q' = cq_targetUserId q \<and>
     cq_message q' = cq_message q \<and> cq_createdAt q' = cq_createdAt q \<and> cq_expiresAt q' = cq_expiresAt q"

text \<open>Ids are fresh, and an answer acts on a request that was read before.\<close>

fun ask_step_ok :: "otc_env \<Rightarrow> ask_step \<Rightarrow> otc \<Rightarrow> bool" where
  "ask_step_ok env (ActOnAnswer accept row) s \<longleftrightarrow> (\<exists>q\<in>set (ot_requests s). same_ask row q)"
| "ask_step_ok env st s \<longleftrightarrow> oe_newId env \<notin> cq_id ` set (ot_requests s)"

text \<open>Any number of steps; in between the rest of the state changes in any way, and time passes.\<close>

inductive asked_run :: "int \<Rightarrow> otc \<Rightarrow> int \<Rightarrow> otc \<Rightarrow> bool" for t0 s0 where
  start: "asked_run t0 s0 t0 s0"
| elsewhere: "asked_run t0 s0 t s \<Longrightarrow> t \<le> t' \<Longrightarrow> ot_requests s' = ot_requests s \<Longrightarrow> asked_run t0 s0 t' s'"
| step: "asked_run t0 s0 t s \<Longrightarrow> t \<le> oe_now env \<Longrightarrow> ask_step_ok env st s \<Longrightarrow> asked_run t0 s0 (oe_now env) (ask_handler env st s)"

subsection \<open>What the requests are like\<close>

definition request_ok :: "connect_request \<Rightarrow> bool" where
  "request_ok q \<longleftrightarrow> cq_requesterUserId q \<noteq> cq_targetUserId q \<and> (cq_respondedAt q = None \<longleftrightarrow> cq_status q = PendingAsk) \<and>
     (cq_roomId q \<noteq> None \<longleftrightarrow> cq_status q = AcceptedAsk)"

definition same_pair :: "connect_request \<Rightarrow> connect_request \<Rightarrow> bool" where
  "same_pair q q' \<longleftrightarrow> cq_requesterUserId q = cq_requesterUserId q' \<and> cq_targetUserId q = cq_targetUserId q'"

definition requests_ok :: "int \<Rightarrow> otc \<Rightarrow> bool" where
  "requests_ok t s \<longleftrightarrow> distinct (map cq_id (ot_requests s)) \<and> (\<forall>q\<in>set (ot_requests s). request_ok q) \<and>
     (\<forall>q\<in>set (ot_requests s). \<forall>q'\<in>set (ot_requests s). cq_status q = PendingAsk \<and> cq_status q' = PendingAsk \<and> same_pair q q' \<longrightarrow> q = q') \<and>
     (\<forall>u. countInboundPending u t s \<le> CONNECT_REQUEST_MAX_INBOUND_PENDING)"

definition ask_evolves :: "otc \<Rightarrow> otc \<Rightarrow> bool" where
  "ask_evolves s s' \<longleftrightarrow> (\<forall>q\<in>set (ot_requests s). \<exists>q'\<in>set (ot_requests s'). same_ask q q' \<and> (cq_status q \<noteq> PendingAsk \<longrightarrow> q' = q))"

lemma same_ask_refl [simp]: "same_ask q q"
  by (simp add: same_ask_def)

lemma ask_evolves_same: "set (ot_requests s) \<subseteq> set (ot_requests s') \<Longrightarrow> ask_evolves s s'"
  unfolding ask_evolves_def by (metis same_ask_refl subsetD)

lemma ask_evolves_D:
  assumes "ask_evolves s s'" "q \<in> set (ot_requests s)"
  obtains q' where "q' \<in> set (ot_requests s')" "same_ask q q'" "cq_status q \<noteq> PendingAsk \<longrightarrow> q' = q"
  using assms unfolding ask_evolves_def by blast

lemma ask_evolves_trans: "ask_evolves s s' \<Longrightarrow> ask_evolves s' s'' \<Longrightarrow> ask_evolves s s''"
proof -
  assume *: "ask_evolves s s'" "ask_evolves s' s''"
  have "\<exists>q''\<in>set (ot_requests s''). same_ask q q'' \<and> (cq_status q \<noteq> PendingAsk \<longrightarrow> q'' = q)" if q: "q \<in> set (ot_requests s)" for q
  proof -
    obtain q' where q': "q' \<in> set (ot_requests s')" "same_ask q q'" "cq_status q \<noteq> PendingAsk \<longrightarrow> q' = q"
      by (rule ask_evolves_D [OF *(1) q])
    obtain q'' where q'': "q'' \<in> set (ot_requests s'')" "same_ask q' q''" "cq_status q' \<noteq> PendingAsk \<longrightarrow> q'' = q'"
      by (rule ask_evolves_D [OF *(2) q'(1)])
    have "same_ask q q''" using q'(2) q''(2) by (simp add: same_ask_def)
    moreover have "q'' = q" if "cq_status q \<noteq> PendingAsk" using q'(3) q''(3) that by simp
    ultimately show ?thesis using q''(1) by blast
  qed
  then show ?thesis unfolding ask_evolves_def by blast
qed

lemma requests_ok_cong: "ot_requests s' = ot_requests s \<Longrightarrow> requests_ok t s' = requests_ok t s"
  by (simp add: requests_ok_def countInboundPending_def)

lemma inbound_later: "t \<le> t' \<Longrightarrow> length (filter (inbound_pending u t') qs) \<le> length (filter (inbound_pending u t) qs)"
  by (induction qs) (auto simp: inbound_pending_def)

lemma requests_later: "requests_ok t s \<Longrightarrow> t \<le> t' \<Longrightarrow> requests_ok t' s"
  unfolding requests_ok_def countInboundPending_def by (meson inbound_later le_trans)

subsection \<open>Answers\<close>

lemma respond_row_simps [simp]:
  "cq_id (respond_row i st r now q) = cq_id q" "cq_requesterUserId (respond_row i st r now q) = cq_requesterUserId q"
  "cq_targetUserId (respond_row i st r now q) = cq_targetUserId q" "cq_expiresAt (respond_row i st r now q) = cq_expiresAt q"
  "same_ask q (respond_row i st r now q)" "same_ask q' (respond_row i st r now q) = same_ask q' q"
  by (simp_all add: respond_row_def same_ask_def)

lemma respond_row_pending: "st \<noteq> PendingAsk \<Longrightarrow> cq_status (respond_row i st r now q) = PendingAsk \<longleftrightarrow> cq_status q = PendingAsk \<and> cq_id q \<noteq> i"
  by (auto simp: respond_row_def)

lemma respond_row_same: "cq_status q \<noteq> PendingAsk \<or> cq_id q \<noteq> i \<Longrightarrow> respond_row i st r now q = q"
  by (auto simp: respond_row_def)

lemma filter_map_shorter: "\<forall>x. P (f x) \<longrightarrow> P x \<Longrightarrow> length (filter P (map f xs)) \<le> length (filter P xs)"
  by (induction xs) auto

lemma respond_keeps:
  assumes ok: "requests_ok t s" and st: "st \<noteq> PendingAsk" "r \<noteq> None \<longleftrightarrow> st = AcceptedAsk"
  shows "requests_ok t (snd (respond i st r now s)) \<and> ask_evolves s (snd (respond i st r now s))"
proof
  let ?f = "respond_row i st r now"
  have "request_ok (?f q)" if "request_ok q" for q
    using that st by (auto simp: request_ok_def respond_row_def)
  moreover have "?f q = ?f q'" if "q \<in> set (ot_requests s)" "q' \<in> set (ot_requests s)" "cq_status (?f q) = PendingAsk"
      "cq_status (?f q') = PendingAsk" "same_pair (?f q) (?f q')" for q q'
    using that ok respond_row_pending [OF st(1)] by (auto simp: requests_ok_def same_pair_def)
  moreover have "length (filter (inbound_pending u t) (map ?f (ot_requests s))) \<le> CONNECT_REQUEST_MAX_INBOUND_PENDING" for u
  proof (rule le_trans [OF filter_map_shorter])
    show "\<forall>q. inbound_pending u t (?f q) \<longrightarrow> inbound_pending u t q"
      using respond_row_pending [OF st(1)] by (auto simp: inbound_pending_def)
    show "length (filter (inbound_pending u t) (ot_requests s)) \<le> CONNECT_REQUEST_MAX_INBOUND_PENDING"
      using ok by (simp add: requests_ok_def countInboundPending_def)
  qed
  moreover have "map cq_id (map ?f (ot_requests s)) = map cq_id (ot_requests s)" by simp
  ultimately show "requests_ok t (snd (respond i st r now s))"
    using ok unfolding requests_ok_def countInboundPending_def respond_def by (simp add: comp_def)
  show "ask_evolves s (snd (respond i st r now s))"
    by (auto simp: ask_evolves_def respond_def intro!: bexI respond_row_same)
qed

lemma emit_requests [simp]: "ot_requests (emit es s) = ot_requests s"
  by (simp add: emit_def)

text \<open>The requests of a store are changed by an answer, an insert or not at all.\<close>

definition answered :: "otc \<Rightarrow> otc \<Rightarrow> bool" where
  "answered s s' \<longleftrightarrow> ot_requests s' = ot_requests s \<or> (\<exists>i st r now. ot_requests s' = ot_requests (snd (respond i st r now s)) \<and>
     st \<noteq> PendingAsk \<and> (r \<noteq> None \<longleftrightarrow> st = AcceptedAsk))"

lemma answered_ok: "answered s s' \<Longrightarrow> requests_ok t s \<Longrightarrow> requests_ok t s' \<and> ask_evolves s s'"
proof -
  assume a: "answered s s'" and ok: "requests_ok t s"
  consider "ot_requests s' = ot_requests s"
    | i st r now where "ot_requests s' = ot_requests (snd (respond i st r now s))" "st \<noteq> PendingAsk" "r \<noteq> None \<longleftrightarrow> st = AcceptedAsk"
    using a unfolding answered_def by blast
  then show ?thesis
  proof cases
    case 1
    then show ?thesis using ok requests_ok_cong [OF 1] ask_evolves_same [of s s'] by simp
  next
    case 2
    then show ?thesis using respond_keeps [OF ok 2(2,3)] requests_ok_cong [OF 2(1)] by (simp add: ask_evolves_def)
  qed
qed

lemma answered_simps [simp]: "answered s s" "answered s (emit es s') = answered s s'"
  by (simp_all add: answered_def)

lemma answered_cong: "ot_requests s1 = ot_requests s \<Longrightarrow> answered s1 s' \<Longrightarrow> answered s s'"
  by (simp add: answered_def respond_def)

lemma answered_same: "ot_requests s' = ot_requests s \<Longrightarrow> answered s s'"
  by (simp add: answered_def)

lemma respond_answered:
  assumes "respond i st r now s = (b, s1)" "st \<noteq> PendingAsk" "r \<noteq> None \<longleftrightarrow> st = AcceptedAsk"
  shows "answered s s1"
proof -
  have "ot_requests s1 = ot_requests (snd (respond i st r now s))" using assms(1) by simp
  then show ?thesis unfolding answered_def using assms(2,3) by blast
qed

lemma cancel_answered: "answered s (snd (cancelConnectRequestService env u i s))"
  by (auto simp: cancelConnectRequestService_def split: option.split prod.split bool.split intro: respond_answered)

lemma check_answered: "answered s (snd (request_to_answer env u i s))"
  using respond_answered [OF surjective_pairing, where st = ExpiredAsk and r = None and i = i and now = "oe_now env" and s = s]
  by (auto simp: request_to_answer_def split: option.split)

lemma reject_answered: "answered s (snd (reject_request env row s))"
  by (auto simp: reject_request_def split: prod.split bool.split intro: respond_answered)

lemma accept_answered: "answered s (snd (accept_request env row s))"
proof -
  obtain e s1 where p: "provisionOpenToConnectRoom env (cq_requesterUserId row) (cq_targetUserId row) (cq_id row) s = (e, s1)" by force
  then have same: "ot_requests s1 = ot_requests s"
    by (auto simp: provisionOpenToConnectRoom_def Let_def split: if_splits)
  show ?thesis
    by (auto simp: accept_request_def p Let_def same answered_same split: sum.split prod.split bool.split
        intro!: answered_cong [OF same] intro: respond_answered)
qed

subsection \<open>Asking\<close>

lemma cancel_search_requests: "ot_requests (snd (cancel_if_searching env u s)) = ot_requests s"
proof -
  have "ot_requests (syncOpenToConnectIndexIfEnabled env v x) = ot_requests x" for v x
    using sync_frame [of env v x] by auto
  then have "ot_requests (clearActiveRoomAndRestore env v x) = ot_requests x" for v x
    by (simp add: clearActiveRoomAndRestore_def restoreOpenToConnectAfterRoom_def setPausedForRoom_def update_status_def set_profile_def
        split: option.split prod.split)
  then show ?thesis by (simp add: cancel_if_searching_def cancelMatchService_def)
qed

lemma ask_requests:
  "ot_requests (snd (createConnectRequestService env u target m s)) = ot_requests s \<or>
   (\<exists>q. ot_requests (snd (createConnectRequestService env u target m s)) = ot_requests s @ [q] \<and> cq_id q = oe_newId env \<and>
      request_ok q \<and> cq_status q = PendingAsk \<and> findPendingBetween (cq_requesterUserId q) (cq_targetUserId q) s = None \<and>
      countInboundPending (cq_targetUserId q) (oe_now env) s < CONNECT_REQUEST_MAX_INBOUND_PENDING)"
proof -
  let ?t = "js_trim target"
  let ?s1 = "snd (cancel_if_searching env u s)"
  show ?thesis
  proof (cases "may_ask env u ?t s = None \<and> fst (cancel_if_searching env u s) = None \<and> may_ask_again env u ?t ?s1 = None \<and>
      fst (assertOutboundRateLimit u ?s1) = None")
    case False
    then show ?thesis
      using cancel_search_requests [of env u s]
      by (auto simp: createConnectRequestService_def send_request_def assertOutboundRateLimit_def Let_def split_beta split: option.split if_splits prod.split)
  next
    case True
    then have ne: "?t \<noteq> u" by (auto simp: may_ask_def error_if_def split: if_splits)
    have free: "findPendingBetween u ?t ?s1 = None" "countInboundPending ?t (oe_now env) ?s1 < CONNECT_REQUEST_MAX_INBOUND_PENDING"
      using True by (auto simp: may_ask_again_def error_if_def not_le split: if_splits)
    let ?q = "\<lparr>cq_id = oe_newId env, cq_requesterUserId = u, cq_targetUserId = ?t, cq_status = PendingAsk,
                 cq_message = none_if_blank m, cq_roomId = None, cq_createdAt = oe_now env, cq_respondedAt = None,
                 cq_expiresAt = oe_now env + CONNECT_REQUEST_TTL_MS\<rparr>"
    have "ot_requests (snd (createConnectRequestService env u target m s)) = ot_requests ?s1 @ [?q]"
      using True by (auto simp: createConnectRequestService_def send_request_def assertOutboundRateLimit_def createPending_def Let_def
          split_beta split: option.split if_splits prod.split)
    then show ?thesis
      using ne free by (intro disjI2 exI [of _ ?q])
        (auto simp: request_ok_def findPendingBetween_def countInboundPending_def cancel_search_requests)
  qed
qed

lemma insert_ok:
  assumes ok: "requests_ok t s" and q: "cq_id q \<notin> cq_id ` set (ot_requests s)" "request_ok q"
    "findPendingBetween (cq_requesterUserId q) (cq_targetUserId q) s = None"
    "countInboundPending (cq_targetUserId q) t s < CONNECT_REQUEST_MAX_INBOUND_PENDING"
    and s': "ot_requests s' = ot_requests s @ [q]"
  shows "requests_ok t s' \<and> ask_evolves s s'"
proof
  have "countInboundPending u t s' \<le> CONNECT_REQUEST_MAX_INBOUND_PENDING" for u
  proof (cases "inbound_pending u t q")
    case True
    then have "u = cq_targetUserId q" by (simp add: inbound_pending_def)
    then show ?thesis using q(4) by (simp add: countInboundPending_def s')
  next
    case False
    then show ?thesis using ok by (simp add: requests_ok_def countInboundPending_def s')
  qed
  moreover have "\<not> (cq_status q' = PendingAsk \<and> same_pair q q')" if "q' \<in> set (ot_requests s)" for q'
    using that q(3) by (auto simp: findPendingBetween_def find_None_iff same_pair_def)
  moreover have "same_pair q' q = same_pair q q'" for q' by (auto simp: same_pair_def)
  moreover have "distinct (map cq_id (ot_requests s'))" using ok q(1) by (simp add: requests_ok_def s')
  moreover have "\<forall>q\<in>set (ot_requests s'). request_ok q" using ok q(2) by (simp add: requests_ok_def s')
  ultimately show "requests_ok t s'"
    using ok unfolding requests_ok_def s' set_append list.set by blast
  show "ask_evolves s s'" by (rule ask_evolves_same) (auto simp: s')
qed

lemma ask_handler_ok:
  assumes "requests_ok (oe_now env) s" "ask_step_ok env st s"
  shows "requests_ok (oe_now env) (ask_handler env st s) \<and> ask_evolves s (ask_handler env st s)"
proof (cases st)
  case (Ask u target m)
  show ?thesis
    using ask_requests [of env u target m s]
  proof
    assume "ot_requests (snd (createConnectRequestService env u target m s)) = ot_requests s"
    then show ?thesis using answered_ok [OF answered_same assms(1)] Ask by simp
  next
    assume "\<exists>q. ot_requests (snd (createConnectRequestService env u target m s)) = ot_requests s @ [q] \<and> cq_id q = oe_newId env \<and>
      request_ok q \<and> cq_status q = PendingAsk \<and> findPendingBetween (cq_requesterUserId q) (cq_targetUserId q) s = None \<and>
      countInboundPending (cq_targetUserId q) (oe_now env) s < CONNECT_REQUEST_MAX_INBOUND_PENDING"
    then obtain q where q: "ot_requests (snd (createConnectRequestService env u target m s)) = ot_requests s @ [q]" "cq_id q = oe_newId env"
      "request_ok q" "findPendingBetween (cq_requesterUserId q) (cq_targetUserId q) s = None"
      "countInboundPending (cq_targetUserId q) (oe_now env) s < CONNECT_REQUEST_MAX_INBOUND_PENDING" by blast
    have "cq_id q \<notin> cq_id ` set (ot_requests s)" using assms(2) Ask q(2) by simp
    from insert_ok [OF assms(1) this q(3,4,5,1)] show ?thesis by (simp only: Ask ask_handler.simps)
  qed
next
  case (CancelAsk u i)
  then show ?thesis using answered_ok [OF cancel_answered assms(1)] by simp
next
  case (CheckAnswer u i)
  then show ?thesis using answered_ok [OF check_answered assms(1)] by simp
next
  case (ActOnAnswer accept row)
  then show ?thesis using answered_ok [OF accept_answered assms(1)] answered_ok [OF reject_answered assms(1)] by simp
qed

text \<open>
  C10. Requests run their course. From any well-formed requests, over any asking, cancelling and answering
  at any times, with an answer that acts on what it read at an earlier time and with any change of the rest of the
  state in between: ids stay unique, nobody has two pending requests to the same user, nobody has more than three
  unexpired pending ones waiting, exactly the accepted ones have a room, no request disappears or changes whom it is from and to,
  and one that has been answered, cancelled or expired never changes again.
\<close>

theorem requests_run_their_course:
  assumes "asked_run t0 s0 t s" "requests_ok t0 s0"
  shows "requests_ok t s \<and> ask_evolves s0 s"
  using assms
proof (induction rule: asked_run.induct)
  case start
  then show ?case by (simp add: ask_evolves_same)
next
  case (elsewhere t s t' s')
  then show ?case using requests_later [of t s t'] requests_ok_cong [of s' s t'] by (simp add: ask_evolves_def)
next
  case (step t s env st)
  then have "requests_ok (oe_now env) s" using requests_later by blast
  then show ?case using ask_handler_ok [OF _ step.hyps(3)] step.IH step.prems ask_evolves_trans by blast
qed

subsection \<open>What an accepted request is\<close>

definition call_of :: "string \<Rightarrow> string \<Rightarrow> string \<Rightarrow> otc \<Rightarrow> bool" where
  "call_of r a b s \<longleftrightarrow> isOtcCallRoom r s \<and> listActiveParticipantUserIds r (ot_main s) = [a, b] \<and>
     (case findRoomById r (ot_main s) of None \<Rightarrow> False
      | Some room \<Rightarrow> tm_status room = Live \<and> tm_roomType room = Direct \<and> rr_sessionKind room = MatchKind \<and> rr_hostUserId room = a)"

lemma capped_call:
  "listActiveParticipantUserIds r (syncGuestMatchRoomSessionCap env r s) = listActiveParticipantUserIds r s \<and>
   map_option (\<lambda>room. (tm_status room, tm_roomType room, rr_sessionKind room, rr_hostUserId room)) (findRoomById r (syncGuestMatchRoomSessionCap env r s)) =
   map_option (\<lambda>room. (tm_status room, tm_roomType room, rr_sessionKind room, rr_hostUserId room)) (findRoomById r s)"
  by (auto simp: syncGuestMatchRoomSessionCap_def applyExpiresAtCapIfSooner_def findRoomById_def listActiveParticipantUserIds_def put_room_def
      split: option.split)

lemma provisioned:
  assumes "oe_hasCategory env"
  obtains s1 where "provisionOpenToConnectRoom env a b i s = (Inr (oe_roomId env), s1)" "ot_requests s1 = ot_requests s"
    "ot_people s1 = ot_people s" "call_of (oe_roomId env) a b s1"
proof -
  let ?r = "oe_roomId env"
  let ?m = "syncGuestMatchRoomSessionCap (oe_room env) ?r (createMatchPairRoom (oe_now env) ?r a b (ot_main s))"
  let ?s1 = "snd (provisionOpenToConnectRoom env a b i s)"
  have "listActiveParticipantUserIds ?r ?m = [a, b]"
    "map_option (\<lambda>room. (tm_status room, tm_roomType room, rr_sessionKind room, rr_hostUserId room)) (findRoomById ?r ?m) = Some (Live, Direct, MatchKind, a)"
    unfolding capped_call [THEN conjunct1] capped_call [THEN conjunct2]
    by (simp_all add: createMatchPairRoom_def listActiveParticipantUserIds_def put_parts_def put_room_def is_active_def findRoomById_def direct_row_def)
  moreover have "ot_main ?s1 = set_session ?r [(''sessionKind'', ''match''), (''roomId'', ?r), (''attemptId'', i), (''pairId'', i),
            (''userA'', a), (''userB'', b), (''openToConnectOrigin'', ''true''), (''createdAt'', int_str (oe_now env))] ?m"
    using assms by (simp add: provisionOpenToConnectRoom_def Let_def)
  ultimately have "call_of ?r a b ?s1"
    by (auto simp: call_of_def isOtcCallRoom_def set_session_def listActiveParticipantUserIds_def findRoomById_def split: option.split)
  moreover have "provisionOpenToConnectRoom env a b i s = (Inr ?r, ?s1)" "ot_requests ?s1 = ot_requests s" "ot_people ?s1 = ot_people s"
    using assms by (simp_all add: provisionOpenToConnectRoom_def Let_def)
  ultimately show ?thesis using that by blast
qed

lemma call_of_cong: "ot_main s' = ot_main s \<Longrightarrow> call_of r a b s' = call_of r a b s"
  by (simp add: call_of_def isOtcCallRoom_def)

lemma respond_main [simp]: "ot_main (snd (respond i st r now s)) = ot_main s"
  by (simp add: respond_def)

lemma emit_main [simp]: "ot_main (emit es s) = ot_main s"
  by (simp add: emit_def)

text \<open>The answer to a row that is pending in the store it acts on, and to one that is not.\<close>

lemma accept_pending:
  assumes "oe_hasCategory env" "q \<in> set (ot_requests s)" "cq_status q = PendingAsk"
  obtains s' where "accept_request env q s = (Inr (Some (oe_roomId env)), s')" "call_of (oe_roomId env) (cq_requesterUserId q) (cq_targetUserId q) s'"
    "q\<lparr>cq_status := AcceptedAsk, cq_roomId := Some (oe_roomId env), cq_respondedAt := Some (oe_now env)\<rparr> \<in> set (ot_requests s')"
proof -
  obtain s1 where s1: "provisionOpenToConnectRoom env (cq_requesterUserId q) (cq_targetUserId q) (cq_id q) s = (Inr (oe_roomId env), s1)"
    "ot_requests s1 = ot_requests s" "call_of (oe_roomId env) (cq_requesterUserId q) (cq_targetUserId q) s1"
    using provisioned [OF assms(1)] by blast
  obtain s2 where r: "respond (cq_id q) AcceptedAsk (Some (oe_roomId env)) (oe_now env) s1 = (True, s2)"
    "ot_requests s2 = map (respond_row (cq_id q) AcceptedAsk (Some (oe_roomId env)) (oe_now env)) (ot_requests s)" "ot_main s2 = ot_main s1"
    using assms(2,3) s1(2) by (auto simp: respond_def)
  let ?s' = "snd (accept_request env q s)"
  have acc: "accept_request env q s = (Inr (Some (oe_roomId env)), ?s')" "ot_requests ?s' = ot_requests s2" "ot_main ?s' = ot_main s1"
    by (simp_all add: accept_request_def Let_def s1(1) r(1,3))
  moreover have "respond_row (cq_id q) AcceptedAsk (Some (oe_roomId env)) (oe_now env) q \<in> set (ot_requests s2)"
    using assms(2) by (simp add: r(2))
  moreover have "call_of (oe_roomId env) (cq_requesterUserId q) (cq_targetUserId q) ?s'" using s1(3) call_of_cong [OF acc(3)] by simp
  ultimately show ?thesis using that assms(3) by (simp add: respond_row_def)
qed

text \<open>
  C13. An accepted request is a call. When accepting is answered with a room, the request was pending,
  unexpired and made to the user who accepts, neither of the two was in a call, and now the request is accepted with that
  room, which is a live match call of open-to-connect, hosted by the user who asked, with exactly the two in it.
\<close>

theorem acceptance_makes_a_call:
  assumes "respondConnectRequestService env u i True s = (Inr (Some r), s')"
  shows "\<exists>q\<in>set (ot_requests s). cq_id q = i \<and> cq_targetUserId q = u \<and> cq_status q = PendingAsk \<and> oe_now env < cq_expiresAt q \<and>
    \<not> is_busy env u s \<and> \<not> is_busy env (cq_requesterUserId q) s \<and> r = oe_roomId env \<and> call_of r (cq_requesterUserId q) u s' \<and>
    q\<lparr>cq_status := AcceptedAsk, cq_roomId := Some r, cq_respondedAt := Some (oe_now env)\<rparr> \<in> set (ot_requests s')"
proof -
  obtain q s1 where q: "request_to_answer env u i s = (Inr q, s1)" "accept_request env q s1 = (Inr (Some r), s')"
    using assms by (auto simp: respondConnectRequestService_def split: prod.splits sum.splits)
  then have row: "findRequestById i s = Some q" "cq_targetUserId q = u" "cq_status q = PendingAsk" "oe_now env < cq_expiresAt q"
    "\<not> is_busy env u s" "\<not> is_busy env (cq_requesterUserId q) s" "s1 = s"
    by (auto simp: request_to_answer_def fail_def no_longer_pending_def assertUserNotBusy_def split: option.splits if_splits)
  then have in_s: "q \<in> set (ot_requests s)" "cq_id q = i" by (auto simp: findRequestById_def find_Some_iff)
  have "oe_hasCategory env"
  proof (rule ccontr)
    assume "\<not> oe_hasCategory env"
    then show False using q(2) by (simp add: accept_request_def provisionOpenToConnectRoom_def fail_def)
  qed
  then obtain s2 where acc: "accept_request env q s = (Inr (Some (oe_roomId env)), s2)" "call_of (oe_roomId env) (cq_requesterUserId q) (cq_targetUserId q) s2"
    "q\<lparr>cq_status := AcceptedAsk, cq_roomId := Some (oe_roomId env), cq_respondedAt := Some (oe_now env)\<rparr> \<in> set (ot_requests s2)"
    by (rule accept_pending [OF _ in_s(1) row(3)])
  then have "r = oe_roomId env" "s' = s2" using q(2) row(7) by simp_all
  then show ?thesis using acc row in_s by (intro bexI [OF _ in_s(1)]) simp
qed

subsection \<open>What answering does not look at\<close>

text \<open>
  C14. A block does not stop a call. After a user has blocked the one they had asked, or has been
  blocked by them, the pending request can still be accepted, and the two are in a call although one has blocked the other.
\<close>

theorem blocked_request_is_accepted:
  assumes "findRequestById i s = Some q" "cq_status q = PendingAsk" "oe_now env < cq_expiresAt q" "oe_hasCategory env"
    "\<not> is_busy env (cq_targetUserId q) s" "\<not> is_busy env (cq_requesterUserId q) s" "a \<noteq> b"
    "{a, b} = {cq_requesterUserId q, cq_targetUserId q}"
  defines "s1 \<equiv> s\<lparr>ot_people := snd (blockUserService a b (ot_people s))\<rparr>"
  shows "isEitherBlocked (cq_requesterUserId q) (cq_targetUserId q) (ot_people s1) \<and>
    (case respondConnectRequestService env (cq_targetUserId q) i True s1 of
       (Inr (Some r), s') \<Rightarrow> call_of r (cq_requesterUserId q) (cq_targetUserId q) s' | _ \<Rightarrow> False)"
proof
  have "isBlockedBy a b (snd (blockUserService a b p))" for p
  proof -
    show ?thesis using assms(7)
      by (simp add: blockUserService_def notifyMessagingBlockChanged_def cancelPeerConnectionsOnBlock_def isBlockedBy_def cancel_all_same)
        (simp add: redisAddUserBlock_def createBlock_def isBlockedBy_def)
  qed
  then show "isEitherBlocked (cq_requesterUserId q) (cq_targetUserId q) (ot_people s1)"
    using assms(7,8) by (auto simp: s1_def isEitherBlocked_def doubleton_eq_iff)
  have "is_busy env u s1 = is_busy env u s" for u by (simp add: is_busy_def s1_def)
  then have "request_to_answer env (cq_targetUserId q) i s1 = (Inr q, s1)"
    using assms(1-6) by (simp add: request_to_answer_def findRequestById_def s1_def assertUserNotBusy_def)
  moreover have "q \<in> set (ot_requests s1)" using assms(1) by (auto simp: s1_def findRequestById_def find_Some_iff)
  then obtain s' where "accept_request env q s1 = (Inr (Some (oe_roomId env)), s')"
    "call_of (oe_roomId env) (cq_requesterUserId q) (cq_targetUserId q) s'" by (rule accept_pending [OF assms(4) _ assms(2)])
  ultimately show "case respondConnectRequestService env (cq_targetUserId q) i True s1 of
       (Inr (Some r), s') \<Rightarrow> call_of r (cq_requesterUserId q) (cq_targetUserId q) s' | _ \<Rightarrow> False"
    by (simp add: respondConnectRequestService_def)
qed

text \<open>
  A cancelled request leaves a call. When the requester cancels between the checks of an answer and
  its effects, the answer fails, yet the room has been made: a live call with both users in it belongs to no
  accepted request.
\<close>

theorem cancelled_acceptance_leaves_a_call:
  assumes "request_to_answer env u i s = (Inr q, s1)" "cancelConnectRequestService env1 (cq_requesterUserId q) i s1 = (Inr (), s2)"
    and "oe_hasCategory env2" "distinct (map cq_id (ot_requests s))"
  shows "fst (accept_request env2 q s2) = no_longer_pending \<and>
    call_of (oe_roomId env2) (cq_requesterUserId q) u (snd (accept_request env2 q s2)) \<and>
    q\<lparr>cq_status := CancelledAsk, cq_respondedAt := Some (oe_now env1)\<rparr>\<lparr>cq_roomId := None\<rparr> \<in> set (ot_requests (snd (accept_request env2 q s2)))"
proof -
  have q: "findRequestById i s = Some q" "cq_targetUserId q = u" "cq_status q = PendingAsk" "s1 = s"
    using assms(1) by (auto simp: request_to_answer_def fail_def no_longer_pending_def split: option.splits if_splits)
  then have in_s: "q \<in> set (ot_requests s)" "cq_id q = i" by (auto simp: findRequestById_def find_Some_iff)
  let ?f = "respond_row i CancelledAsk None (oe_now env1)"
  have "respond i CancelledAsk None (oe_now env1) s = (True, s\<lparr>ot_requests := map ?f (ot_requests s)\<rparr>)"
    using in_s q(3) by (auto simp: respond_def)
  then have "cancelConnectRequestService env1 (cq_requesterUserId q) i s =
      (Inr (), emit [RequestCancelled (cq_targetUserId q) i] (s\<lparr>ot_requests := map ?f (ot_requests s)\<rparr>))"
    by (simp add: cancelConnectRequestService_def q(1,3))
  with assms(2) have "s2 = emit [RequestCancelled (cq_targetUserId q) i] (s\<lparr>ot_requests := map ?f (ot_requests s)\<rparr>)"
    unfolding q(4) by (metis prod.inject)
  then have s2: "ot_requests s2 = map ?f (ot_requests s)" by simp
  have over: "cq_status x \<noteq> PendingAsk" if "x \<in> set (ot_requests s2)" "cq_id x = i" for x
  proof -
    have "x \<in> ?f ` set (ot_requests s)" using that(1) by (simp only: s2 set_map)
    then obtain y where "x = ?f y" by (rule imageE)
    then show ?thesis using that(2) by (simp add: respond_row_pending)
  qed
  obtain s3 where s3: "provisionOpenToConnectRoom env2 (cq_requesterUserId q) u i s2 = (Inr (oe_roomId env2), s3)"
    "ot_requests s3 = ot_requests s2" "call_of (oe_roomId env2) (cq_requesterUserId q) u s3" using provisioned [OF assms(3)] by blast
  obtain s4 where r: "respond i AcceptedAsk (Some (oe_roomId env2)) (oe_now env2) s3 = (False, s4)" "ot_main s4 = ot_main s3"
    "ot_requests s4 = map (respond_row i AcceptedAsk (Some (oe_roomId env2)) (oe_now env2)) (ot_requests s2)"
    using over by (auto simp: respond_def s3(2))
  then have "accept_request env2 q s2 = (no_longer_pending, s4)" by (simp add: accept_request_def Let_def in_s(2) q(2) s3(1))
  moreover have "ot_requests s4 = ot_requests s2"
    unfolding r(3) by (rule map_idI, rule respond_row_same) (use over in blast)
  moreover have "call_of (oe_roomId env2) (cq_requesterUserId q) u s4" using s3(3) call_of_cong [OF r(2)] by simp
  moreover have "?f q \<in> set (ot_requests s2)" using in_s(1) by (simp add: s2)
  moreover have "?f q = q\<lparr>cq_status := CancelledAsk, cq_respondedAt := Some (oe_now env1)\<rparr>\<lparr>cq_roomId := None\<rparr>"
    using q(3) in_s(2) by (simp add: respond_row_def)
  ultimately show ?thesis by (simp only: fst_conv snd_conv simp_thms)
qed

text \<open>A request that expired unanswered shuts out every later one to the same user, who is not shown it.\<close>

theorem expired_request_shuts_out:
  assumes "q \<in> set (ot_requests s)" "cq_status q = PendingAsk" "cq_expiresAt q < oe_now env"
  shows "may_ask_again env (cq_requesterUserId q) (cq_targetUserId q) s \<noteq> None \<and>
    q \<notin> set (listInboundConnectRequestsService env (cq_targetUserId q) s)"
proof -
  have "findPendingBetween (cq_requesterUserId q) (cq_targetUserId q) s \<noteq> None"
    using assms(1,2) by (auto simp: findPendingBetween_def find_None_iff)
  moreover have "first_error [x, error_if True m c n, y] \<noteq> None" for x y m c n by (cases x) (simp_all add: error_if_def)
  ultimately have "may_ask_again env (cq_requesterUserId q) (cq_targetUserId q) s \<noteq> None" by (simp only: may_ask_again_def simp_thms)
  moreover have "q \<notin> set (listInboundPending u (oe_now env) s)" for u
    using assms(3) by (auto simp: listInboundPending_def newest_first_def inbound_pending_def dest!: in_set_takeD)
  ultimately show ?thesis by (simp add: listInboundConnectRequestsService_def)
qed

subsection \<open>Witnesses\<close>

definition ask_town :: otc where
  "ask_town = ask_handler (demo_env 0) (Ask ''a'' ''b'' None) town"

definition the_request :: connect_request where
  "the_request = \<lparr>cq_id = ''1'', cq_requesterUserId = ''a'', cq_targetUserId = ''b'', cq_status = PendingAsk, cq_message = None,
     cq_roomId = None, cq_createdAt = 0, cq_respondedAt = None, cq_expiresAt = 300000\<rparr>"

lemma town_requests: "ot_requests town = []"
  by code_simp

lemma ask_town_requests: "ot_requests ask_town = [the_request]"
  by code_simp

lemma town_ok: "requests_ok 0 town"
  by (simp add: requests_ok_def town_requests countInboundPending_def)

lemma requests_run_their_course_witness: "requests_ok 0 ask_town"
proof -
  have "asked_run 0 town (oe_now (demo_env 0)) (ask_handler (demo_env 0) (Ask ''a'' ''b'' None) town)"
    by (rule asked_run.step [OF asked_run.start]) (simp_all add: demo_env_def town_requests)
  from requests_run_their_course [OF this town_ok] show ?thesis by (simp add: ask_town_def demo_env_def)
qed

lemma ask_town_free: "\<not> is_busy (demo_env 1000) ''b'' ask_town" "\<not> is_busy (demo_env 1000) ''a'' ask_town"
  by code_simp+

lemma acceptance_makes_a_call_witness:
  "call_of ''room'' ''a'' ''b'' (snd (respondConnectRequestService (demo_env 1000) ''b'' ''1'' True ask_town))"
proof -
  let ?r = "respondConnectRequestService (demo_env 1000) ''b'' ''1'' True ask_town"
  have "fst ?r = Inr (Some ''room'')" by code_simp
  then have "?r = (Inr (Some ''room''), snd ?r)" by (metis prod.collapse)
  from acceptance_makes_a_call [OF this] show ?thesis by (auto simp: ask_town_requests the_request_def)
qed

lemma blocked_request_is_accepted_witness:
  "isEitherBlocked ''a'' ''b'' (snd (blockUserService ''a'' ''b'' (ot_people ask_town)))"
  using blocked_request_is_accepted [of "''1''" ask_town the_request "demo_env 1000" "''a''" "''b''"] ask_town_free
  by (simp add: findRequestById_def ask_town_requests the_request_def demo_env_def)

lemma cancelled_acceptance_leaves_a_call_witness:
  "call_of ''room'' ''a'' ''b'' (snd (accept_request (demo_env 2000) the_request
     (snd (cancelConnectRequestService (demo_env 1500) ''a'' ''1'' (snd (request_to_answer (demo_env 1000) ''b'' ''1'' ask_town))))))"
proof -
  let ?c = "request_to_answer (demo_env 1000) ''b'' ''1'' ask_town"
  let ?d = "cancelConnectRequestService (demo_env 1500) ''a'' ''1'' (snd ?c)"
  have "fst ?c = Inr the_request" "fst ?d = Inr ()" by code_simp+
  then have "?c = (Inr the_request, snd ?c)" "?d = (Inr (), snd ?d)" by (metis prod.collapse)+
  then show ?thesis
    using cancelled_acceptance_leaves_a_call [of "demo_env 1000" "''b''" "''1''" ask_town the_request "snd ?c" "demo_env 1500" "snd ?d" "demo_env 2000"]
    by (simp add: ask_town_requests the_request_def demo_env_def)
qed

end
