(* ===== verification/OpenPrivacy.thy ===== *)
theory OpenPrivacy
  imports RequestRules
begin

text \<open>
  Nobody is found while a room holds them: over any steps of open to connect, of presence and of requests, and
  any writing and removing of tokens, a user with a token of a room is not indexed, and so in nobody's feed. And what goes
  wrong: a token that vanishes without its restoring, and activities that stay listed.
\<close>

subsection \<open>The invariant\<close>

definition in_room :: "string \<Rightarrow> otc \<Rightarrow> bool" where
  "in_room u s \<longleftrightarrow> getUserActiveRtcRoomId u (ot_main s) \<noteq> None"

definition shy :: "string \<Rightarrow> otc \<Rightarrow> bool" where
  "shy u s \<longleftrightarrow> (case findByUserId u s of None \<Rightarrow> True | Some (p, st) \<Rightarrow> \<not> os_open st \<or> os_paused st)"

definition hidden_at :: "string \<Rightarrow> otc \<Rightarrow> bool" where
  "hidden_at u s \<longleftrightarrow> (in_room u s \<longrightarrow> ot_profiles s u \<noteq> None \<and> shy u s) \<and> (shy u s \<longrightarrow> ot_user s u = [])"

definition hidden_ok :: "otc \<Rightarrow> bool" where
  "hidden_ok s \<longleftrightarrow> (\<forall>u. hidden_at u s)"

text \<open>A step that touches only one user, and one that only takes tokens and index entries away.\<close>

definition others :: "string \<Rightarrow> otc \<Rightarrow> otc \<Rightarrow> bool" where
  "others u s s' \<longleftrightarrow> (\<forall>v. v \<noteq> u \<longrightarrow> in_room v s' = in_room v s \<and> ot_profiles s' v = ot_profiles s v \<and> ot_user s' v = ot_user s v)"

definition takes_away :: "otc \<Rightarrow> otc \<Rightarrow> bool" where
  "takes_away s s' \<longleftrightarrow> (\<forall>v. (in_room v s' \<longrightarrow> in_room v s) \<and> (ot_user s' v = [] \<or> ot_user s' v = ot_user s v)) \<and> ot_profiles s' = ot_profiles s"

lemma shy_cong: "ot_profiles s' v = ot_profiles s v \<Longrightarrow> shy v s' = shy v s"
  by (simp add: shy_def findByUserId_def)

lemma hidden_one:
  assumes "hidden_ok s" "others u s s'" "hidden_at u s'"
  shows "hidden_ok s'"
proof -
  have "hidden_at v s'" if "v \<noteq> u" for v
    using assms(1,2) that shy_cong [of s' v s] by (simp add: hidden_ok_def hidden_at_def others_def)
  with assms(3) show ?thesis unfolding hidden_ok_def by metis
qed

lemma hidden_less:
  assumes "hidden_ok s" "takes_away s s'"
  shows "hidden_ok s'"
proof -
  have "hidden_at v s'" for v
    using assms shy_cong [of s' v s] by (auto simp: hidden_ok_def hidden_at_def takes_away_def)
  then show ?thesis by (simp add: hidden_ok_def)
qed

lemma others_refl [simp]: "others u s s"
  by (simp add: others_def)

lemma others_trans: "others u s s' \<Longrightarrow> others u s' s'' \<Longrightarrow> others u s s''"
  by (simp add: others_def)

lemma takes_refl [simp]: "takes_away s s"
  by (simp add: takes_away_def)

lemma takes_trans: "takes_away s s' \<Longrightarrow> takes_away s' s'' \<Longrightarrow> takes_away s s''"
  unfolding takes_away_def by metis

subsection \<open>The operations\<close>

lemma notify_same:
  "ot_main (notifyUserUnavailable u s) = ot_main s" "ot_profiles (notifyUserUnavailable u s) = ot_profiles s"
  "ot_user (notifyUserUnavailable u s) = ot_user s" "ot_main (notifyUserAvailable env u s) = ot_main s"
  "ot_profiles (notifyUserAvailable env u s) = ot_profiles s" "ot_user (notifyUserAvailable env u s) = ot_user s"
  using unavailable_frame [of u s] available_frame [of env u s] by auto

lemma remove_same [simp]:
  "ot_main (removeUserFromIndex u s) = ot_main s" "ot_profiles (removeUserFromIndex u s) = ot_profiles s"
  "ot_user (removeUserFromIndex u s) = (ot_user s)(u := [])"
  by (simp_all add: removeUserFromIndex_def Let_def)

lemma index_same [simp]:
  "ot_main (syncUserToIndex tags s) = ot_main s" "ot_profiles (syncUserToIndex tags s) = ot_profiles s"
  "v \<noteq> tg_userId tags \<Longrightarrow> ot_user (syncUserToIndex tags s) v = ot_user s v"
  by (simp_all add: syncUserToIndex_def Let_def)

lemmas open_same = notify_same in_room_def others_def takes_away_def

lemma tags_of: "buildTagsForUser env u s = Some tags \<Longrightarrow> tg_userId tags = u \<and> \<not> shy u s"
  by (auto simp: buildTagsForUser_def shy_def split: option.splits if_splits)

lemma sync_hidden: "hidden_ok s \<Longrightarrow> hidden_ok (syncOpenToConnectIndexIfEnabled env u s)"
proof -
  assume ok: "hidden_ok s"
  have rem: "takes_away s (removeUserFromIndex u s)" by (simp add: open_same)
  show ?thesis
  proof (cases "buildTagsForUser env u s")
    case None
    then show ?thesis using hidden_less [OF ok rem] by (simp add: syncOpenToConnectIndexIfEnabled_def)
  next
    case (Some tags)
    have t: "tg_userId tags = u" "\<not> shy u s" using tags_of [OF Some] by auto
    let ?s' = "notifyUserAvailable env u (syncUserToIndex tags s)"
    have "others u s ?s'" using t(1) by (simp add: open_same)
    moreover have "shy u ?s' = shy u s" by (rule shy_cong) (simp add: open_same)
    moreover have "\<not> in_room u s" using ok t(2) by (auto simp: hidden_ok_def hidden_at_def)
    ultimately have "hidden_ok ?s'" using hidden_one [OF ok] t(2) by (simp add: hidden_at_def open_same)
    then show ?thesis using hidden_less [OF ok rem] Some by (simp add: syncOpenToConnectIndexIfEnabled_def)
  qed
qed

lemma pause_effect:
  "others u s (pauseOpenToConnectForRoom u s) \<and> shy u (pauseOpenToConnectForRoom u s) \<and>
   in_room u (pauseOpenToConnectForRoom u s) = in_room u s \<and>
   (ot_profiles (pauseOpenToConnectForRoom u s) u = None \<longleftrightarrow> ot_profiles s u = None) \<and>
   (shy u s \<longrightarrow> pauseOpenToConnectForRoom u s = s) \<and> (\<not> shy u s \<longrightarrow> ot_user (pauseOpenToConnectForRoom u s) u = [])"
proof (cases "shy u s")
  case True
  then have "pauseOpenToConnectForRoom u s = s" by (auto simp: shy_def pauseOpenToConnectForRoom_def split: option.splits)
  with True show ?thesis by simp
next
  case False
  then obtain p st where f: "ot_profiles s u = Some p" "op_status p = Some st" "os_open st" "\<not> os_paused st"
    by (auto simp: shy_def findByUserId_def split: option.splits)
  let ?s1 = "setPausedForRoom True u s"
  have s1: "ot_main ?s1 = ot_main s" "ot_user ?s1 = ot_user s"
    "ot_profiles ?s1 = (ot_profiles s)(u \<mapsto> p\<lparr>op_status := Some (st\<lparr>os_paused := True\<rparr>)\<rparr>)"
    by (simp_all add: setPausedForRoom_def update_status_def f set_profile_def)
  have "pauseOpenToConnectForRoom u s = notifyUserUnavailable u (removeUserFromIndex u ?s1)"
    using f by (simp add: pauseOpenToConnectForRoom_def findByUserId_def)
  then show ?thesis using False by (simp add: open_same s1 shy_def findByUserId_def f(1))
qed

lemma token_set_hidden:
  assumes "hidden_ok s" "ot_profiles s u \<noteq> None"
  shows "hidden_ok (setActiveRoomAndPause u r s)"
proof -
  let ?s1 = "s\<lparr>ot_main := setUserActiveRtcRoom u r (ot_main s)\<rparr>"
  let ?s2 = "pauseOpenToConnectForRoom u ?s1"
  have sh: "shy u ?s1 = shy u s" by (rule shy_cong) simp
  have "others u s ?s1" by (simp add: others_def in_room_def getUserActiveRtcRoomId_def setUserActiveRtcRoom_def say_def)
  then have "others u s ?s2" using pause_effect [of u ?s1] others_trans by blast
  moreover have "hidden_at u ?s2"
    using pause_effect [of u ?s1] assms sh by (auto simp: hidden_at_def hidden_ok_def)
  ultimately show ?thesis unfolding setActiveRoomAndPause_def by (rule hidden_one [OF assms(1)])
qed

lemma token_cleared_hidden: "hidden_ok s \<Longrightarrow> hidden_ok (clearActiveRoomAndRestore env u s)"
proof -
  assume ok: "hidden_ok s"
  let ?s1 = "s\<lparr>ot_main := clearUserActiveRtcRoom u (ot_main s)\<rparr>"
  have gone: "\<not> in_room u ?s1" "takes_away s ?s1"
    by (auto simp: takes_away_def in_room_def getUserActiveRtcRoomId_def clearUserActiveRtcRoom_def say_def)
  have ok1: "hidden_ok ?s1" by (rule hidden_less [OF ok gone(2)])
  show ?thesis
  proof (cases "\<exists>p st. findByUserId u ?s1 = Some (p, st) \<and> os_paused st")
    case False
    then have "clearActiveRoomAndRestore env u s = ?s1"
      by (auto simp: clearActiveRoomAndRestore_def restoreOpenToConnectAfterRoom_def split: option.split)
    with ok1 show ?thesis by simp
  next
    case True
    then obtain p st where f: "ot_profiles ?s1 u = Some p" "op_status p = Some st" "os_paused st"
      by (auto simp: findByUserId_def split: option.splits)
    let ?s2 = "setPausedForRoom False u ?s1"
    have s2: "ot_main ?s2 = ot_main ?s1" "ot_user ?s2 = ot_user ?s1" "\<forall>v. v \<noteq> u \<longrightarrow> ot_profiles ?s2 v = ot_profiles ?s1 v"
      using f by (auto simp: setPausedForRoom_def update_status_def set_profile_def)
    have "shy u ?s1" using f by (simp add: shy_def findByUserId_def)
    then have "ot_user ?s2 u = []" using ok1 s2(2) by (auto simp: hidden_ok_def hidden_at_def)
    then have "hidden_at u ?s2" using gone(1) s2(1) by (simp add: hidden_at_def in_room_def)
    moreover have "others u ?s1 ?s2" using s2 by (simp add: others_def in_room_def)
    ultimately have "hidden_ok ?s2" by (intro hidden_one [OF ok1])
    moreover have "clearActiveRoomAndRestore env u s = syncOpenToConnectIndexIfEnabled env u ?s2"
      using f by (simp add: clearActiveRoomAndRestore_def restoreOpenToConnectAfterRoom_def findByUserId_def)
    ultimately show ?thesis by (simp add: sync_hidden)
  qed
qed

lemma takes_emit [simp]: "takes_away s (emit es s') = takes_away s s'"
  by (simp add: takes_away_def in_room_def emit_def)

lemma cancel_hidden: "hidden_ok s \<Longrightarrow> hidden_ok (snd (cancel_if_searching env u s)) \<and> hidden_ok (snd (cancelMatchService env u s))"
proof -
  assume ok: "hidden_ok s"
  have "hidden_ok (emit [EngineCancel u] s)" by (rule hidden_less [OF ok]) simp
  then show ?thesis using ok by (simp add: cancel_if_searching_def cancelMatchService_def token_cleared_hidden)
qed

lemma profile_made:
  assumes "hidden_ok s" "in_room u s \<Longrightarrow> ot_profiles s u \<noteq> None"
  shows "hidden_ok (getOrCreateProfile env u s) \<and> ot_profiles (getOrCreateProfile env u s) u \<noteq> None"
proof (cases "ot_profiles s u")
  case None
  let ?s' = "getOrCreateProfile env u s"
  have s': "ot_main ?s' = ot_main s" "ot_user ?s' = ot_user s" "\<forall>v. v \<noteq> u \<longrightarrow> ot_profiles ?s' v = ot_profiles s v" "\<not> shy u ?s'"
    "ot_profiles ?s' u \<noteq> None"
    by (simp_all add: getOrCreateProfile_def None set_profile_def shy_def findByUserId_def fresh_status_def)
  have "\<not> in_room u s" using assms(2) None by blast
  then have "hidden_at u ?s'" using s' by (simp add: hidden_at_def in_room_def)
  moreover have "others u s ?s'" using s' by (simp add: others_def in_room_def)
  ultimately show ?thesis using hidden_one [OF assms(1)] s'(5) by blast
qed (use assms(1) in \<open>simp add: getOrCreateProfile_def\<close>)

lemma made_profile: "hidden_ok s \<Longrightarrow> hidden_ok (getOrCreateProfile env u s) \<and> ot_profiles (getOrCreateProfile env u s) u \<noteq> None"
  by (rule profile_made) (auto simp: hidden_ok_def hidden_at_def)

lemma set_open_effect:
  assumes "ot_profiles s u \<noteq> None"
  shows "ot_main (setOpenState env u opn source headline s) = ot_main s" "ot_user (setOpenState env u opn source headline s) = ot_user s"
    "v \<noteq> u \<Longrightarrow> ot_profiles (setOpenState env u opn source headline s) v = ot_profiles s v"
    "shy u (setOpenState env u opn source headline s) \<longleftrightarrow> \<not> opn"
    "ot_profiles (setOpenState env u opn source headline s) u \<noteq> None"
  using assms by (auto simp: setOpenState_def set_profile_def shy_def findByUserId_def Let_def)

lemma closed_hidden: "hidden_ok s \<Longrightarrow> hidden_ok (disableOpenToConnectForUser env u s)"
proof -
  assume ok: "hidden_ok s"
  let ?s1 = "getOrCreateProfile env u s"
  have s1: "hidden_ok ?s1" "ot_profiles ?s1 u \<noteq> None" using made_profile [OF ok] by auto
  let ?s2 = "setOpenState env u False None None ?s1"
  let ?s3 = "notifyUserUnavailable u (removeUserFromIndex u ?s2)"
  note e = set_open_effect [OF s1(2), where env = env and opn = False and source = None and headline = None]
  have "others u ?s1 ?s3" by (simp add: open_same e)
  moreover have "shy u ?s3 = shy u ?s2" by (rule shy_cong) (simp add: open_same)
  then have "hidden_at u ?s3" using e(4,5) by (simp add: hidden_at_def open_same)
  ultimately show ?thesis unfolding disableOpenToConnectForUser_def by (rule hidden_one [OF s1(1)])
qed

lemma go_open_hidden:
  assumes ok: "hidden_ok s" and prof: "ot_profiles s u \<noteq> None"
  shows "hidden_ok (go_open env u body s)"
proof -
  let ?s1 = "setOpenState env u True (Some (eb_source body)) (none_if_blank (eb_headline body)) s"
  note e = set_open_effect [OF prof, where env = env and opn = True and source = "Some (eb_source body)" and headline = "none_if_blank (eb_headline body)"]
  let ?active = "getUserActiveRtcRoomId u (ot_main ?s1)"
  let ?s2 = "case buildTagsForUser env u ?s1 of None \<Rightarrow> ?s1
    | Some tags \<Rightarrow> (let s' = syncUserToIndex tags ?s1 in if ?active = None then notifyUserAvailable env u s' else s')"
  have s2: "others u ?s1 ?s2" "in_room u ?s2 = in_room u ?s1" "ot_profiles ?s2 = ot_profiles ?s1"
    using tags_of [of env u ?s1] by (auto simp: open_same Let_def split: option.split)
  have o2: "others u s ?s2" using s2(1) e(1-3) by (simp add: open_same)
  have sh: "\<not> shy u ?s2" using shy_cong [of ?s2 u ?s1] s2(3) e(4) by simp
  have prof2: "ot_profiles ?s2 u \<noteq> None" using s2(3) e(5) by simp
  show ?thesis
  proof (cases "?active = None")
    case True
    then have "\<not> in_room u ?s2" using s2(2) by (simp add: in_room_def)
    then have "hidden_at u ?s2" using sh by (simp add: hidden_at_def)
    then show ?thesis using hidden_one [OF ok o2] True by (simp add: go_open_def Let_def)
  next
    case False
    let ?s3 = "pauseOpenToConnectForRoom u ?s2"
    have "others u s ?s3" using others_trans [OF o2] pause_effect [of u ?s2] by blast
    moreover have "hidden_at u ?s3" using pause_effect [of u ?s2] sh prof2 by (auto simp: hidden_at_def)
    ultimately have "hidden_ok ?s3" by (rule hidden_one [OF ok])
    then show ?thesis using False by (simp add: go_open_def Let_def)
  qed
qed

subsection \<open>Presence, requests and the feed\<close>

lemma take_hash: "takes_away s (s\<lparr>ot_user := (ot_user s)(u := [])\<rparr>)"
  by (simp add: takes_away_def in_room_def)

lemma connect_hidden: "hidden_ok s \<Longrightarrow> hidden_ok (userConnected env n k u ip t s)"
proof -
  assume ok: "hidden_ok s"
  let ?u = "the u" and ?s1 = "mark_connected (the k) (the u) ip t s"
  let ?s2 = "?s1\<lparr>ot_people := syncMatchingConnectionPeersFromDatabase ?u (ot_people ?s1)\<rparr>"
  have "takes_away s ?s2" by (simp add: takes_away_def in_room_def mark_connected_def set_presence_def)
  then have "hidden_ok (syncOpenToConnectIndexIfEnabled env ?u ?s2)" by (intro sync_hidden hidden_less [OF ok])
  moreover have "takes_away x (emitMatchStateOnConnect env n v (cancelGracePeriod v x))" for v x
    by (auto simp: takes_away_def in_room_def emitMatchStateOnConnect_def cancelGracePeriod_def emit_def split: option.split)
  ultimately show ?thesis using ok hidden_less by (auto simp: userConnected_def Let_def)
qed

lemma offline_takes: "takes_away s (userDisconnected env n k u ip t s)"
proof -
  let ?s1 = "set_presence u (REMOVE_IP_IF_SOCKET_MATCHES (normalizeIpField ip k) k (ot_presence s u)) s"
  have "takes_away s ?s1" by (simp add: takes_away_def in_room_def set_presence_def)
  moreover have "takes_away x (gone_offline env n u t x)" for x
    by (simp add: gone_offline_def startGracePeriodIfSearching_def takes_away_def in_room_def notify_same set_presence_def)
  ultimately show ?thesis using takes_trans by (auto simp: userDisconnected_def Let_def)
qed

lemma grace_hidden: "hidden_ok s \<Longrightarrow> hidden_ok (grace_period_over env n timer u s)"
proof -
  assume ok: "hidden_ok s"
  let ?s1 = "s\<lparr>ot_graceTimers := filter (\<lambda>p. fst p \<noteq> timer) (ot_graceTimers s), ot_graceTracked := (ot_graceTracked s)(u := None)\<rparr>"
  have "hidden_ok ?s1" by (rule hidden_less [OF ok]) (simp add: takes_away_def in_room_def)
  then show ?thesis using cancel_hidden by (simp add: grace_period_over_def Let_def)
qed

lemma visible_takes: "takes_away s (snd (filterStillVisibleUserIds us s))"
proof -
  have "takes_away s (fold removeUserFromIndex vs s)" for vs
  proof (induction vs arbitrary: s)
    case (Cons v vs)
    have "takes_away s (removeUserFromIndex v s)" by (simp add: takes_away_def in_room_def)
    from takes_trans [OF this Cons] show ?case by simp
  qed simp
  then show ?thesis by (simp add: filterStillVisibleUserIds_def Let_def takes_away_def in_room_def)
qed

lemma feed_takes:
  "takes_away s (snd (buildFeedResult env viewer q h s))"
  "takes_away s (snd (getOpenToConnectSearchSuggestionsService env viewer s))"
  by (auto simp: buildFeedResult_def feed_ranking_def shown_tags_def getOpenToConnectSearchSuggestionsService_def Let_def split_beta
      visible_takes split: option.split)

lemma provision_takes: "takes_away s (snd (provisionOpenToConnectRoom env a b i s))"
  by (simp add: provisionOpenToConnectRoom_def Let_def takes_away_def in_room_def getUserActiveRtcRoomId_def set_session_def
      syncGuestMatchRoomSessionCap_def applyExpiresAtCapIfSooner_def createMatchPairRoom_def put_room_def put_parts_def
      split: option.split)

lemma respond_takes: "respond i st r now s = (b, s') \<Longrightarrow> takes_away s s'"
  by (auto simp: respond_def takes_away_def in_room_def)

lemma ask_hidden: "hidden_ok s \<Longrightarrow> hidden_ok (ask_handler env st s)"
proof (cases st)
  case (Ask u target m)
  assume ok: "hidden_ok s"
  have sent: "takes_away x (snd (send_request env u t m x))" for t x
    by (auto simp: send_request_def assertOutboundRateLimit_def createPending_def Let_def takes_away_def in_room_def emit_def)
  let ?s1 = "snd (cancel_if_searching env u s)"
  have ok1: "hidden_ok ?s1" using cancel_hidden [OF ok] by blast
  have "snd (createConnectRequestService env u target m s) \<in> {s, ?s1, snd (send_request env u (js_trim target) m ?s1)}"
    by (auto simp: createConnectRequestService_def Let_def split_beta split: option.split)
  then show ?thesis using ok ok1 hidden_less [OF ok1 sent] Ask by auto
next
  case (CancelAsk u i)
  assume ok: "hidden_ok s"
  have "takes_away s (snd (cancelConnectRequestService env u i s))"
    by (auto simp: cancelConnectRequestService_def split: option.split prod.split bool.split dest: respond_takes)
  then show ?thesis using hidden_less [OF ok] CancelAsk by simp
next
  case (CheckAnswer u i)
  assume ok: "hidden_ok s"
  have "takes_away s (snd (respond i ExpiredAsk None (oe_now env) s))" by (rule respond_takes) (rule prod.collapse [symmetric])
  then have "takes_away s (snd (request_to_answer env u i s))" by (auto simp: request_to_answer_def split: option.split)
  then show ?thesis using hidden_less [OF ok] CheckAnswer by simp
next
  case (ActOnAnswer accept q)
  assume ok: "hidden_ok s"
  have rej: "takes_away s (snd (reject_request env q s))"
    by (auto simp: reject_request_def split: prod.split bool.split dest: respond_takes)
  obtain e s1 where p: "provisionOpenToConnectRoom env (cq_requesterUserId q) (cq_targetUserId q) (cq_id q) s = (e, s1)" by force
  then have "takes_away s s1" using provision_takes by (metis snd_conv)
  then have "takes_away s (snd (accept_request env q s))"
    by (auto simp: accept_request_def p Let_def split: sum.split prod.split bool.split dest!: respond_takes intro: takes_trans)
  with rej show ?thesis using hidden_less [OF ok] ActOnAnswer by simp
qed

subsection \<open>Any steps\<close>

datatype open_step =
    GoOpen string enable_body
  | GoClosed string
  | TokenSet string string
  | TokenCleared string
  | TokenExpires string
  | NewProfile string
  | Socket nat int socket_event
  | PresenceExpires string
  | IndexExpires string
  | GraceOver nat nat string
  | LooksAtFeed string feed_query
  | LooksAtSuggestions string
  | RequestStep ask_step

fun open_handler :: "otc_env \<Rightarrow> open_step \<Rightarrow> otc \<Rightarrow> otc" where
  "open_handler env (GoOpen u body) s = snd (enableOpenToConnectService env u body s)"
| "open_handler env (GoClosed u) s = snd (disableOpenToConnectService env u s)"
| "open_handler env (TokenSet u r) s = setActiveRoomAndPause u r s"
| "open_handler env (TokenCleared u) s = clearActiveRoomAndRestore env u s"
| "open_handler env (TokenExpires u) s = s\<lparr>ot_main := (ot_main s)\<lparr>rd_active := (rd_active (ot_main s))(u := None)\<rparr>\<rparr>"
| "open_handler env (NewProfile u) s = getOrCreateProfile env u s"
| "open_handler env (Socket n t e) s = on_socket (env, n, t) e s"
| "open_handler env (PresenceExpires u) s = presence_expires u s"
| "open_handler env (IndexExpires u) s = s\<lparr>ot_user := (ot_user s)(u := [])\<rparr>"
| "open_handler env (GraceOver n timer u) s = grace_period_over env n timer u s"
| "open_handler env (LooksAtFeed u q) s = snd (getOpenToConnectFeedService env u q s)"
| "open_handler env (LooksAtSuggestions u) s = snd (getOpenToConnectSearchSuggestionsService env u s)"
| "open_handler env (RequestStep st) s = ask_handler env st s"

text \<open>A token is issued to a user who has a profile.\<close>

fun open_step_ok :: "open_step \<Rightarrow> otc \<Rightarrow> bool" where
  "open_step_ok (TokenSet u r) s \<longleftrightarrow> ot_profiles s u \<noteq> None"
| "open_step_ok _ s \<longleftrightarrow> True"

inductive open_reach :: "otc \<Rightarrow> bool" where
  start: "rd_active (ot_main s) = (\<lambda>u. None) \<Longrightarrow> ot_user s = (\<lambda>u. []) \<Longrightarrow> open_reach s"
| elsewhere: "open_reach s \<Longrightarrow> rd_active (ot_main s') = rd_active (ot_main s) \<Longrightarrow> ot_profiles s' = ot_profiles s \<Longrightarrow>
    ot_user s' = ot_user s \<Longrightarrow> open_reach s'"
| step: "open_reach s \<Longrightarrow> open_step_ok st s \<Longrightarrow> open_reach (open_handler env st s)"

lemma enable_hidden: "hidden_ok s \<Longrightarrow> hidden_ok (snd (enableOpenToConnectService env u body s))"
proof -
  assume ok: "hidden_ok s"
  let ?s1 = "snd (assertCanEnableOpenToConnect env u s)"
  have "?s1 \<in> {s, snd (cancel_if_searching env u s)}"
    by (auto simp: assertCanEnableOpenToConnect_def Let_def split_beta split: option.split)
  then have ok1: "hidden_ok ?s1" using ok cancel_hidden by auto
  let ?s2 = "getOrCreateProfile env u ?s1" and ?s3 = "snd (select_activities env u (eb_activitySelections body) (getOrCreateProfile env u ?s1))"
  have ok2: "hidden_ok ?s2" "ot_profiles ?s2 u \<noteq> None" using made_profile [OF ok1] by auto
  have chosen: "hidden_ok (replaceActivities ids u x) \<and> ot_profiles (replaceActivities ids u x) u \<noteq> None"
    if "hidden_ok x" "ot_profiles x u \<noteq> None" for ids x
  proof -
    let ?x = "replaceActivities ids u x"
    have "others u x ?x" "in_room u ?x = in_room u x" "ot_user ?x = ot_user x" "shy u ?x = shy u x" "ot_profiles ?x u \<noteq> None"
      using that(2) by (auto simp: replaceActivities_def update_status_def set_profile_def others_def in_room_def shy_def findByUserId_def
          split: option.split)
    moreover have "hidden_at u x" using that(1) by (simp add: hidden_ok_def)
    ultimately have "hidden_at u ?x" by (simp add: hidden_at_def)
    then show ?thesis using hidden_one [OF that(1) \<open>others u x ?x\<close>] \<open>ot_profiles ?x u \<noteq> None\<close> by blast
  qed
  have ok3: "hidden_ok ?s3 \<and> ot_profiles ?s3 u \<noteq> None"
  proof -
    have "?s3 = ?s2 \<or> (\<exists>ids. ?s3 = replaceActivities ids u ?s2)"
      by (auto simp: select_activities_def split: option.split sum.split)
    then show ?thesis using ok2 chosen [OF ok2] by metis
  qed
  have "snd (enableOpenToConnectService env u body s) \<in> {?s1, ?s3, go_open env u body ?s3}"
    by (simp add: enableOpenToConnectService_def Let_def split_beta split: sum.split)
  moreover have "hidden_ok (go_open env u body ?s3)" using ok3 by (intro go_open_hidden) simp_all
  ultimately show ?thesis using ok1 ok3 by (elim insertE) (simp_all only: empty_iff)
qed

lemma step_hidden:
  assumes ok: "hidden_ok s" and "open_step_ok st s"
  shows "hidden_ok (open_handler env st s)"
proof (cases st)
  case (Socket n t e)
  show ?thesis
  proof (cases e)
    case (Connects u k ip)
    then show ?thesis using Socket connect_hidden [OF ok] by simp
  next
    case (Disconnects u k ip)
    then show ?thesis using Socket hidden_less [OF ok offline_takes] by simp
  qed
next
  case (GoClosed u)
  then show ?thesis using closed_hidden [OF ok] by (simp add: disableOpenToConnectService_def Let_def)
next
  case (TokenExpires u)
  have "takes_away s (open_handler env st s)" by (simp add: TokenExpires takes_away_def in_room_def getUserActiveRtcRoomId_def)
  then show ?thesis by (rule hidden_less [OF ok])
next
  case (PresenceExpires u)
  have "takes_away s (open_handler env st s)" by (simp add: PresenceExpires presence_expires_def set_presence_def takes_away_def in_room_def)
  then show ?thesis by (rule hidden_less [OF ok])
next
  case (LooksAtFeed u q)
  then show ?thesis using hidden_less [OF ok feed_takes(1)] by (simp add: getOpenToConnectFeedService_def)
qed (use assms enable_hidden token_set_hidden token_cleared_hidden made_profile hidden_less [OF ok take_hash] grace_hidden
     hidden_less [OF ok feed_takes(2)] ask_hidden in simp_all)

lemma reach_hidden: "open_reach s \<Longrightarrow> hidden_ok s"
proof (induction rule: open_reach.induct)
  case (start s)
  then show ?case by (simp add: hidden_ok_def hidden_at_def in_room_def getUserActiveRtcRoomId_def)
next
  case (elsewhere s s')
  have "takes_away s s'" using elsewhere.hyps by (simp add: takes_away_def in_room_def getUserActiveRtcRoomId_def)
  then show ?case by (rule hidden_less [OF elsewhere.IH])
next
  case (step s st env)
  then show ?case by (intro step_hidden)
qed


subsection \<open>What goes wrong\<close>

lemma socket_profiles:
  "ot_profiles (on_socket a e s) = ot_profiles s \<and> (shy u s \<and> ot_user s u = [] \<longrightarrow> ot_user (on_socket a e s) u = [])"
proof -
  obtain env n t where a: "a = (env, n, t)" by (cases a)
  have sync: "ot_profiles (syncOpenToConnectIndexIfEnabled env v x) = ot_profiles x \<and>
      (shy u x \<and> ot_user x u = [] \<longrightarrow> ot_user (syncOpenToConnectIndexIfEnabled env v x) u = [])" for v x
    using tags_of [of env v x] by (cases "u = v") (auto simp: syncOpenToConnectIndexIfEnabled_def notify_same split: option.split)
  show ?thesis
  proof (cases e)
    case (Connects v k ip)
    let ?x = "(mark_connected k v ip t s)\<lparr>ot_people := syncMatchingConnectionPeersFromDatabase v (ot_people (mark_connected k v ip t s))\<rparr>"
    have x: "ot_profiles ?x = ot_profiles s" "ot_user ?x = ot_user s" by (simp_all add: mark_connected_def set_presence_def)
    then have "shy u ?x = shy u s" by (intro shy_cong) simp
    moreover have "ot_profiles (emitMatchStateOnConnect env n v (cancelGracePeriod v y)) = ot_profiles y"
      "ot_user (emitMatchStateOnConnect env n v (cancelGracePeriod v y)) = ot_user y" for y
      by (auto simp: emitMatchStateOnConnect_def cancelGracePeriod_def emit_def split: option.split)
    ultimately show ?thesis using sync [of v ?x] x by (simp add: a Connects userConnected_def Let_def)
  next
    case (Disconnects v k ip)
    then show ?thesis using offline_takes [of s env n k v ip t] by (auto simp: a takes_away_def)
  qed
qed

text \<open>
  A lost token hides for good. The token of a user who is hidden for a room can go without the
  restoring, by its expiry or because the status of calls finds the room dead. Then the user, in no room any more and still willing to
  be found, stays hidden whatever sockets connect and disconnect.
\<close>

theorem lost_token_hides_user:
  assumes "open_reach s" "findByUserId u s = Some (p, st)" "os_open st" "os_paused st" "rd_active (ot_main s) u = Some r" "r \<noteq> []" "rtcPeers r = []"
  defines "s1 \<equiv> s\<lparr>ot_main := snd (getUsersActiveRtcRooms rtcPeers [u] (ot_main s))\<rparr>"
  shows "\<not> in_room u s1 \<and> findByUserId u (on_sockets es s1) = Some (p, st) \<and> \<not> isUserVisibleInDiscovery u (on_sockets es s1)"
proof -
  have shy: "shy u s" using assms(2,4) by (simp add: shy_def)
  have "hidden_at u s" using reach_hidden [OF assms(1)] by (simp add: hidden_ok_def)
  then have "ot_user s u = []" using shy by (simp add: hidden_at_def)
  moreover have "ot_profiles (on_sockets es x) = ot_profiles x \<and> (shy u x \<and> ot_user x u = [] \<longrightarrow> ot_user (on_sockets es x) u = [])" for x
  proof (induction es rule: rev_induct)
    case (snoc e es)
    obtain a ev where e: "e = (a, ev)" by (cases e)
    have "shy u (on_sockets es x) = shy u x" using snoc by (intro shy_cong) simp
    then show ?case using snoc socket_profiles [of a ev "on_sockets es x"] by (simp add: on_sockets_def e)
  qed (simp add: on_sockets_def)
  moreover have "shy u s1" "ot_user s1 = ot_user s" "ot_profiles s1 = ot_profiles s"
    using shy shy_cong [of s1 u s] by (simp_all add: s1_def)
  ultimately have "ot_user (on_sockets es s1) u = []" "ot_profiles (on_sockets es s1) = ot_profiles s" by simp_all
  moreover have "\<not> in_room u s1"
    using assms(5-7) by (simp add: s1_def in_room_def getUsersActiveRtcRooms_def getUserActiveRtcRoomId_def Let_def)
  ultimately show ?thesis using assms(2) by (simp add: isUserVisibleInDiscovery_def findByUserId_def)
qed

text \<open>An activity that a user has dropped still lists them.\<close>

theorem dropped_activity_still_lists:
  assumes "u \<in> set (ot_activity s a)" "tg_userId tags = u" "a \<notin> set (tg_activityIds tags)"
  shows "u \<in> set (listIndexedUserIds (Some a) (syncUserToIndex tags s)) \<or> a = []"
  using assms by (simp add: listIndexedUserIds_def syncUserToIndex_def Let_def)

subsection \<open>Witnesses\<close>

definition in_call :: otc where
  "in_call = setActiveRoomAndPause ''b'' ''room'' town"

lemma empty_town_reach: "open_reach empty_town"
  by (rule open_reach.start) (simp_all add: empty_town_def empty_rooms_def)

lemma town_reach: "open_reach town"
proof -
  have "open_reach (open_handler (demo_env 0) (Socket 1 0 (Connects ''b'' ''s'' (Some ''ip''))) empty_town)"
    by (rule open_reach.step [OF empty_town_reach]) simp
  then show ?thesis by (simp add: town_def)
qed

lemma in_call_reach: "open_reach in_call"
proof -
  have "ot_profiles town ''b'' \<noteq> None" by code_simp
  then have "open_reach (open_handler (demo_env 0) (TokenSet ''b'' ''room'') town)" by (intro open_reach.step [OF town_reach]) simp
  then show ?thesis by (simp add: in_call_def)
qed

lemma in_call_facts:
  "rd_active (ot_main in_call) ''b'' = Some ''room''"
  "map_option (\<lambda>(p, st). os_open st \<and> os_paused st) (findByUserId ''b'' in_call) = Some True"
  by code_simp+


lemma lost_token_hides_user_witness:
  "\<not> in_room ''b'' (in_call\<lparr>ot_main := snd (getUsersActiveRtcRooms (\<lambda>_. []) [''b''] (ot_main in_call))\<rparr>)"
proof -
  obtain p st where f: "findByUserId ''b'' in_call = Some (p, st)" "os_open st" "os_paused st" using in_call_facts(2) by auto
  show ?thesis
    using lost_token_hides_user [OF in_call_reach f in_call_facts(1), of "\<lambda>_. []" "[]"] by simp
qed

end
