(* ===== verification/ChatStore.thy ===== *)
theory ChatStore
  imports RoomStore ServerPeople
begin

text \<open>
  Conversations and messages of the main API (\<open>core/database/schema/chat.ts\<close>, \<open>modules/chat/repositories\<close>,
  \<open>core/crypto/message-crypto.ts\<close> as an argument): the rows, the unread counts and typing flags in Redis, what sockets are sent, and
  the operations of the two repositories. A statement of SQL and a transaction are atomic. A time that the database writes is in
  microseconds, a JavaScript \<open>Date\<close> in milliseconds, which is what reading a stored time gives.
\<close>

subsection \<open>Rows\<close>

datatype conversation_type = RoomDirect | RoomSpace | ConnectionChat
datatype message_type = TextMessage | ImageMessage | VideoMessage | FileMessage | VoiceMessage | GifMessage | SystemMessage

record conversation_row =
  cv_id :: string
  cv_type :: conversation_type
  cv_roomId :: "string option"
  cv_connectionId :: "string option"
  cv_isPersisted :: bool
  cv_expandedAt :: "int option"
  cv_expandedByUserId :: "string option"
  cv_createdAt :: int

record member_row =
  mb_conversationId :: string
  mb_userId :: string
  mb_wantsPersistence :: bool
  mb_lastReadMessageId :: "string option"
  mb_lastReadAt :: "int option"
  mb_joinedFromMessageId :: "string option"
  mb_leftAt :: "int option"
  mb_historyHiddenBeforeAt :: "int option"

record message_row =
  ms_id :: string
  ms_conversationId :: string
  ms_senderId :: string
  ms_encryptedContent :: string
  ms_iv :: string
  ms_messageType :: message_type
  ms_replyToId :: "string option"
  ms_mentions :: "string list option"
  ms_systemPayload :: json
  ms_editedAt :: "int option"
  ms_editHistory :: "(string \<times> int) list"
  ms_isDeleted :: bool
  ms_deletedForAll :: bool
  ms_deletedAt :: "int option"
  ms_createdAt :: int

text \<open>\<open>MessageRow\<close>: a message as it is read, its content decrypted.\<close>

record message_view =
  vw_id :: string
  vw_conversationId :: string
  vw_senderId :: string
  vw_content :: string
  vw_messageType :: message_type
  vw_replyToId :: "string option"
  vw_mentions :: "string list option"
  vw_systemPayload :: json
  vw_editedAt :: "int option"
  vw_isDeleted :: bool
  vw_deletedForAll :: bool
  vw_createdAt :: int

type_synonym reaction = "string \<times> string \<times> string"

text \<open>
  Events to all sockets of a user, except typing and reading, which go to the sockets that joined the conversation's
  room (named by socket and user), and warnings, errors and a message deleted for oneself, which go to the caller's socket.
\<close>

datatype chat_event =
    NewMessage string message_view
  | ConversationActivity string string "int option" "string option"
  | UnreadSync string string int
  | TypingNote "string \<times> string" string string bool
  | ReadNote "string \<times> string" string string string
  | ReactionUpdate string string string "reaction list"
  | EditedMessage string message_view
  | DeletedMessage string string string bool
  | DeletedHere string string string
  | RateWarning string
  | ChatError string string string

record chat =
  ch_conversations :: "conversation_row list"
  ch_members :: "member_row list"
  ch_messages :: "message_row list"
  ch_reactions :: "reaction list"
  ch_receipts :: "(string \<times> string) list"
  ch_pins :: "(string \<times> string \<times> string) list"
  ch_unread :: "string \<Rightarrow> string \<Rightarrow> int option"
  ch_typing :: "(string \<times> string) set"
  ch_rate :: "string \<Rightarrow> nat"
  ch_joined :: "(string \<times> string \<times> string) list"
  ch_main :: main_store
  ch_people :: people
  ch_out :: "chat_event list"

text \<open>The clocks of the server and of the database, fresh ids, and the cipher: \<open>ce_decrypt\<close> is nothing where it throws.\<close>

record chat_env =
  ce_now :: int
  ce_dbNow :: int
  ce_newId :: string
  ce_messageId :: string
  ce_encrypt :: "string \<Rightarrow> string \<times> string"
  ce_decrypt :: "string \<Rightarrow> string \<Rightarrow> string option"

definition date_ms :: "int \<Rightarrow> int" where
  "date_ms t = t div 1000"

definition post :: "chat_event list \<Rightarrow> chat \<Rightarrow> chat" where
  "post es s = s\<lparr>ch_out := ch_out s @ es\<rparr>"

subsection \<open>Messages\<close>

definition toMessageRow :: "chat_env \<Rightarrow> message_row \<Rightarrow> message_view" where
  "toMessageRow env raw =
     \<lparr>vw_id = ms_id raw, vw_conversationId = ms_conversationId raw, vw_senderId = ms_senderId raw,
      vw_content = (if ms_messageType raw \<noteq> SystemMessage \<and> \<not> ms_isDeleted raw \<and> \<not> ms_deletedForAll raw
                       \<and> ms_encryptedContent raw \<noteq> [] \<and> ms_iv raw \<noteq> []
                    then nullish_or (ce_decrypt env (ms_encryptedContent raw) (ms_iv raw)) ''[decryption error]'' else []),
      vw_messageType = ms_messageType raw, vw_replyToId = ms_replyToId raw, vw_mentions = ms_mentions raw,
      vw_systemPayload = ms_systemPayload raw, vw_editedAt = ms_editedAt raw, vw_isDeleted = ms_isDeleted raw,
      vw_deletedForAll = ms_deletedForAll raw, vw_createdAt = date_ms (ms_createdAt raw)\<rparr>"

record message_body =
  bd_content :: string
  bd_messageType :: "message_type option"
  bd_replyToId :: "string option"
  bd_mentions :: "string list option"

definition text_row :: "chat_env \<Rightarrow> string \<Rightarrow> string \<Rightarrow> message_body \<Rightarrow> message_row" where
  "text_row env c u body =
     \<lparr>ms_id = ce_messageId env, ms_conversationId = c, ms_senderId = u, ms_encryptedContent = fst (ce_encrypt env (bd_content body)),
      ms_iv = snd (ce_encrypt env (bd_content body)), ms_messageType = nullish_or (bd_messageType body) TextMessage,
      ms_replyToId = bd_replyToId body, ms_mentions = bd_mentions body, ms_systemPayload = JNull, ms_editedAt = None, ms_editHistory = [],
      ms_isDeleted = False, ms_deletedForAll = False, ms_deletedAt = None, ms_createdAt = ce_dbNow env\<rparr>"

definition insertMessage :: "chat_env \<Rightarrow> string \<Rightarrow> string \<Rightarrow> message_body \<Rightarrow> chat \<Rightarrow> message_view \<times> chat" where
  "insertMessage env c u body s =
     (let row = text_row env c u body in (toMessageRow env row, s\<lparr>ch_messages := ch_messages s @ [row]\<rparr>))"

definition system_row :: "chat_env \<Rightarrow> string \<Rightarrow> string \<Rightarrow> json \<Rightarrow> message_row" where
  "system_row env c u payload =
     \<lparr>ms_id = ce_messageId env, ms_conversationId = c, ms_senderId = u, ms_encryptedContent = [], ms_iv = [],
      ms_messageType = SystemMessage, ms_replyToId = None, ms_mentions = None, ms_systemPayload = payload, ms_editedAt = None,
      ms_editHistory = [], ms_isDeleted = False, ms_deletedForAll = False, ms_deletedAt = None, ms_createdAt = ce_dbNow env\<rparr>"

definition insertSystemMessage :: "chat_env \<Rightarrow> string \<Rightarrow> string \<Rightarrow> json \<Rightarrow> chat \<Rightarrow> message_view \<times> chat" where
  "insertSystemMessage env c u payload s =
     (let row = system_row env c u payload in (toMessageRow env row, s\<lparr>ch_messages := ch_messages s @ [row]\<rparr>))"

definition findMessageRow :: "string \<Rightarrow> chat \<Rightarrow> message_row option" where
  "findMessageRow m s = find (\<lambda>row. ms_id row = m) (ch_messages s)"

definition findMessageById :: "chat_env \<Rightarrow> string \<Rightarrow> chat \<Rightarrow> message_view option" where
  "findMessageById env m s = map_option (toMessageRow env) (findMessageRow m s)"

text \<open>
  The latest message of a conversation: the rows whose time is the latest one, which is read as a \<open>Date\<close> and sent back to the
  database; of those the one that a scan keeps.
\<close>

definition later_row :: "message_row option \<Rightarrow> message_row \<Rightarrow> message_row option" where
  "later_row prev r = (case prev of
      None \<Rightarrow> Some r
    | Some p \<Rightarrow> if ms_createdAt p < ms_createdAt r \<or> (ms_createdAt r = ms_createdAt p \<and> ms_id p < ms_id r) then Some r else prev)"

definition findLatestByConversationIds :: "chat_env \<Rightarrow> string list \<Rightarrow> chat \<Rightarrow> string \<Rightarrow> message_view option" where
  "findLatestByConversationIds env ids s c =
     (let own = filter (\<lambda>row. ms_conversationId row = c) (ch_messages s) in
      if c \<notin> set ids \<or> c = [] \<or> own = [] then None
      else map_option (toMessageRow env)
        (foldl later_row None (filter (\<lambda>row. ms_createdAt row = date_ms (Max (ms_createdAt ` set own)) * 1000) own)))"

record message_page =
  pg_messages :: "message_view list"
  pg_reactions :: "reaction list list"
  pg_nextCursor :: "int option"

definition in_page :: "string \<Rightarrow> int option \<Rightarrow> int option \<Rightarrow> message_row \<Rightarrow> bool" where
  "in_page c cursor hidden row \<longleftrightarrow> ms_conversationId row = c \<and>
     (case hidden of None \<Rightarrow> True | Some h \<Rightarrow> h * 1000 < ms_createdAt row) \<and>
     (case cursor of None \<Rightarrow> True | Some t \<Rightarrow> ms_createdAt row < t * 1000)"

definition newest_messages :: "message_row list \<Rightarrow> message_row list" where
  "newest_messages = js_sort (\<lambda>a b. ms_createdAt b - ms_createdAt a)"

definition message_rows_page :: "string \<Rightarrow> int option \<Rightarrow> nat \<Rightarrow> int option \<Rightarrow> chat \<Rightarrow> message_row list \<times> int option" where
  "message_rows_page c cursor limit hidden s =
     (let rows = take (Suc limit) (newest_messages (filter (in_page c cursor hidden) (ch_messages s)));
          page = take limit rows
      in (rev page, if limit < length rows then Some (date_ms (ms_createdAt (last page))) else None))"

definition findMessagesPage :: "chat_env \<Rightarrow> string \<Rightarrow> int option \<Rightarrow> nat \<Rightarrow> int option \<Rightarrow> chat \<Rightarrow> message_page" where
  "findMessagesPage env c cursor limit hidden s =
     (let (rows, next) = message_rows_page c cursor limit hidden s
      in \<lparr>pg_messages = map (toMessageRow env) rows, pg_reactions = [], pg_nextCursor = next\<rparr>)"

definition on_message :: "string \<Rightarrow> (message_row \<Rightarrow> message_row) \<Rightarrow> chat \<Rightarrow> chat" where
  "on_message m f s = s\<lparr>ch_messages := map (\<lambda>row. if ms_id row = m then f row else row) (ch_messages s)\<rparr>"

text \<open>\<open>None\<close> where decrypting the old content throws; then nothing is written.\<close>

definition edited_row :: "chat_env \<Rightarrow> string \<Rightarrow> string \<Rightarrow> message_row \<Rightarrow> message_row" where
  "edited_row env old content row =
     row\<lparr>ms_encryptedContent := fst (ce_encrypt env content), ms_iv := snd (ce_encrypt env content), ms_editedAt := Some (ce_now env),
        ms_editHistory := ms_editHistory row @ [(old, nullish_or (ms_editedAt row) (date_ms (ms_createdAt row)))]\<rparr>"

definition editMessageRow :: "chat_env \<Rightarrow> string \<Rightarrow> string \<Rightarrow> chat \<Rightarrow> (message_view option \<times> chat) option" where
  "editMessageRow env m content s = (case findMessageRow m s of
      None \<Rightarrow> Some (None, s)
    | Some row \<Rightarrow> (case ce_decrypt env (ms_encryptedContent row) (ms_iv row) of
        None \<Rightarrow> None
      | Some old \<Rightarrow> Some (Some (toMessageRow env (edited_row env old content row)), on_message m (edited_row env old content) s)))"

definition deleted_row :: "chat_env \<Rightarrow> bool \<Rightarrow> message_row \<Rightarrow> message_row" where
  "deleted_row env forAll row = row\<lparr>ms_encryptedContent := [], ms_iv := [], ms_isDeleted := True, ms_deletedForAll := forAll,
     ms_deletedAt := Some (ce_now env)\<rparr>"

definition softDeleteMessage :: "chat_env \<Rightarrow> string \<Rightarrow> bool \<Rightarrow> chat \<Rightarrow> chat" where
  "softDeleteMessage env m forAll = on_message m (deleted_row env forAll)"

definition getReactions :: "string \<Rightarrow> chat \<Rightarrow> reaction list" where
  "getReactions m s = filter (\<lambda>r. fst r = m) (ch_reactions s)"

text \<open>An insert with the id of a message that does not exist is refused by the foreign key.\<close>

definition insertReaction :: "string \<Rightarrow> string \<Rightarrow> string \<Rightarrow> chat \<Rightarrow> (reaction list \<times> chat) option" where
  "insertReaction m u emoji s =
     (if findMessageRow m s = None then None
      else (let s1 = s\<lparr>ch_reactions := (if (m, u, emoji) \<in> set (ch_reactions s) then ch_reactions s else ch_reactions s @ [(m, u, emoji)])\<rparr>
            in Some (getReactions m s1, s1)))"

definition deleteReaction :: "string \<Rightarrow> string \<Rightarrow> string \<Rightarrow> chat \<Rightarrow> reaction list \<times> chat" where
  "deleteReaction m u emoji s =
     (let s1 = s\<lparr>ch_reactions := filter (\<lambda>r. r \<noteq> (m, u, emoji)) (ch_reactions s)\<rparr> in (getReactions m s1, s1))"

definition insertReceipt :: "string \<Rightarrow> string \<Rightarrow> chat \<Rightarrow> chat option" where
  "insertReceipt m u s =
     (if findMessageRow m s = None then None
      else Some (s\<lparr>ch_receipts := (if (m, u) \<in> set (ch_receipts s) then ch_receipts s else ch_receipts s @ [(m, u)])\<rparr>))"

definition pinMessage :: "string \<Rightarrow> string \<Rightarrow> string \<Rightarrow> chat \<Rightarrow> chat" where
  "pinMessage c m u s = (if \<exists>p\<in>set (ch_pins s). fst p = c \<and> fst (snd p) = m then s else s\<lparr>ch_pins := ch_pins s @ [(c, m, u)]\<rparr>)"

definition unpinMessage :: "string \<Rightarrow> string \<Rightarrow> chat \<Rightarrow> chat" where
  "unpinMessage c m s = s\<lparr>ch_pins := filter (\<lambda>p. \<not> (fst p = c \<and> fst (snd p) = m)) (ch_pins s)\<rparr>"

definition getReactionsForMessageIds :: "string list \<Rightarrow> chat \<Rightarrow> reaction list list" where
  "getReactionsForMessageIds ms s = map (\<lambda>m. getReactions m s) ms"

subsection \<open>Conversations\<close>

definition findConversationById :: "string \<Rightarrow> chat \<Rightarrow> conversation_row option" where
  "findConversationById c s = find (\<lambda>row. cv_id row = c) (ch_conversations s)"

definition members_of :: "string \<Rightarrow> chat \<Rightarrow> string list" where
  "members_of c s = map mb_userId (filter (\<lambda>p. mb_conversationId p = c) (ch_members s))"

definition getParticipant :: "string \<Rightarrow> string \<Rightarrow> chat \<Rightarrow> member_row option" where
  "getParticipant c u s = find (\<lambda>p. mb_conversationId p = c \<and> mb_userId p = u) (ch_members s)"

definition hasParticipantRecord :: "string \<Rightarrow> string \<Rightarrow> chat \<Rightarrow> bool" where
  "hasParticipantRecord c u s \<longleftrightarrow> (\<exists>p\<in>set (ch_members s). mb_conversationId p = c \<and> mb_userId p = u)"

definition isParticipant :: "string \<Rightarrow> string \<Rightarrow> chat \<Rightarrow> bool" where
  "isParticipant c u s \<longleftrightarrow> (\<exists>p\<in>set (ch_members s). mb_conversationId p = c \<and> mb_userId p = u \<and> mb_leftAt p = None)"

definition on_member :: "string \<Rightarrow> string \<Rightarrow> (member_row \<Rightarrow> member_row) \<Rightarrow> chat \<Rightarrow> chat" where
  "on_member c u f s = s\<lparr>ch_members := map (\<lambda>p. if mb_conversationId p = c \<and> mb_userId p = u then f p else p) (ch_members s)\<rparr>"

definition markLeft :: "chat_env \<Rightarrow> string \<Rightarrow> string \<Rightarrow> chat \<Rightarrow> bool \<times> chat" where
  "markLeft env c u s =
     (isParticipant c u s,
      on_member c u (\<lambda>p. if mb_leftAt p = None then p\<lparr>mb_leftAt := Some (ce_now env), mb_historyHiddenBeforeAt := Some (ce_now env)\<rparr> else p) s)"

definition rejoin :: "string \<Rightarrow> string \<Rightarrow> chat \<Rightarrow> chat" where
  "rejoin c u = on_member c u (\<lambda>p. p\<lparr>mb_leftAt := None\<rparr>)"

definition on_conversation :: "string \<Rightarrow> (conversation_row \<Rightarrow> conversation_row) \<Rightarrow> chat \<Rightarrow> chat" where
  "on_conversation c f s = s\<lparr>ch_conversations := map (\<lambda>row. if cv_id row = c then f row else row) (ch_conversations s)\<rparr>"

definition writePersistence :: "string \<Rightarrow> string \<Rightarrow> bool \<Rightarrow> chat \<Rightarrow> chat" where
  "writePersistence c u wants s =
     (let s1 = on_member c u (\<lambda>p. p\<lparr>mb_wantsPersistence := wants\<rparr>) s;
          allWant = list_all mb_wantsPersistence (filter (\<lambda>p. mb_conversationId p = c) (ch_members s1))
      in on_conversation c (\<lambda>row. row\<lparr>cv_isPersisted := allWant\<rparr>) s1)"

definition updateLastRead :: "chat_env \<Rightarrow> string \<Rightarrow> string \<Rightarrow> string \<Rightarrow> chat \<Rightarrow> chat" where
  "updateLastRead env c u m = on_member c u (\<lambda>p. p\<lparr>mb_lastReadMessageId := Some m, mb_lastReadAt := Some (ce_now env)\<rparr>)"

definition linkRoomToConversation :: "string \<Rightarrow> string \<Rightarrow> chat \<Rightarrow> chat" where
  "linkRoomToConversation c r = on_conversation c (\<lambda>row. row\<lparr>cv_roomId := Some r\<rparr>)"

definition listConversationsForUser :: "string \<Rightarrow> chat \<Rightarrow> conversation_row list" where
  "listConversationsForUser u s =
     List.map_filter (\<lambda>p. if mb_userId p = u \<and> mb_leftAt p = None then findConversationById (mb_conversationId p) s else None) (ch_members s)"

definition new_member :: "string \<Rightarrow> string \<Rightarrow> member_row" where
  "new_member c u = \<lparr>mb_conversationId = c, mb_userId = u, mb_wantsPersistence = True, mb_lastReadMessageId = None, mb_lastReadAt = None,
     mb_joinedFromMessageId = None, mb_leftAt = None, mb_historyHiddenBeforeAt = None\<rparr>"

definition add_participant :: "string \<Rightarrow> string \<Rightarrow> chat \<Rightarrow> chat" where
  "add_participant c u s = (if hasParticipantRecord c u s then s else s\<lparr>ch_members := ch_members s @ [new_member c u]\<rparr>)"

definition insertConversationParticipants :: "string \<Rightarrow> string list \<Rightarrow> chat \<Rightarrow> chat" where
  "insertConversationParticipants c us s = fold (add_participant c) us s"

definition insert_conversation :: "conversation_row \<Rightarrow> string list \<Rightarrow> chat \<Rightarrow> chat" where
  "insert_conversation row us s =
     insertConversationParticipants (cv_id row) us (s\<lparr>ch_conversations := ch_conversations s @ [row]\<rparr>)"

definition conversation_of :: "chat_env \<Rightarrow> conversation_type \<Rightarrow> string option \<Rightarrow> string option \<Rightarrow> bool \<Rightarrow> conversation_row" where
  "conversation_of env ty room conn persisted = \<lparr>cv_id = ce_newId env, cv_type = ty, cv_roomId = room, cv_connectionId = conn,
     cv_isPersisted = persisted, cv_expandedAt = None, cv_expandedByUserId = None, cv_createdAt = ce_dbNow env\<rparr>"

definition accepted_connection :: "string \<Rightarrow> string \<Rightarrow> chat \<Rightarrow> connection_row option" where
  "accepted_connection a b s = find (\<lambda>c. cn_status c = AcceptedConnection \<and> between a b c) (pe_connections (ch_people s))"

definition connection_conversation :: "string \<Rightarrow> chat \<Rightarrow> conversation_row option" where
  "connection_conversation k s = find (\<lambda>row. cv_type row = ConnectionChat \<and> cv_connectionId row = Some k) (ch_conversations s)"

definition findConnectionConversation :: "string \<Rightarrow> string \<Rightarrow> chat \<Rightarrow> conversation_row option" where
  "findConnectionConversation a b s = (case accepted_connection a b s of None \<Rightarrow> None | Some k \<Rightarrow> connection_conversation (cn_id k) s)"

definition oldest_first :: "conversation_row list \<Rightarrow> conversation_row list" where
  "oldest_first = js_sort (\<lambda>a b. cv_createdAt a - cv_createdAt b)"

definition findExistingPeerConversationId :: "string \<Rightarrow> string \<Rightarrow> chat \<Rightarrow> string option" where
  "findExistingPeerConversationId a b s =
     (case oldest_first (filter (\<lambda>row. hasParticipantRecord (cv_id row) a s \<and> hasParticipantRecord (cv_id row) b s \<and>
          (cv_type row = RoomDirect \<or> cv_type row = ConnectionChat)) (ch_conversations s)) of
        [] \<Rightarrow> None | row # _ \<Rightarrow> Some (cv_id row))"

definition findOrCreatePeerConversation :: "chat_env \<Rightarrow> string \<Rightarrow> string \<Rightarrow> chat \<Rightarrow> (string + string) \<times> chat" where
  "findOrCreatePeerConversation env a b s =
     (if a = b then (Inl ''INVALID_PEER'', s)
      else case accepted_connection a b s of
        Some k \<Rightarrow> (case connection_conversation (cn_id k) s of
            Some row \<Rightarrow> (Inr (cv_id row), s)
          | None \<Rightarrow> (Inr (ce_newId env), insert_conversation (conversation_of env ConnectionChat None (Some (cn_id k)) True) [a, b] s))
      | None \<Rightarrow> (case findExistingPeerConversationId a b s of
            Some c \<Rightarrow> (Inr c, s)
          | None \<Rightarrow> (Inr (ce_newId env), insert_conversation (conversation_of env RoomDirect None None False) [a, b] s)))"

end
