(* ===== verification/ServerChat.thy ===== *)
theory ServerChat
  imports ChatStore
begin

text \<open>
  Chat of the main API (\<open>modules/chat\<close>): the conversation and message services, the conversation of a room and what growing
  a call into a space does to it, the handlers of the \<open>/chat\<close> sockets and the HTTP routes. A service gives the text of the error
  it throws or its answer. The display data of users and rooms is left out, and so are the reactions
  listed with an edited message.
\<close>

type_synonym 'a chat_result = "(string + 'a) \<times> chat"

subsection \<open>Previews\<close>

definition pad2 :: "nat \<Rightarrow> string" where
  "pad2 n = (if n < 10 then CHR ''0'' # nat_str n else nat_str n)"

definition formatDuration :: "int \<Rightarrow> string" where
  "formatDuration d =
     (if d < 60 then ''0:'' @ pad2 (nat (max 0 d))
      else let mins = nat d div 60; secs = nat d mod 60; hours = mins div 60; rem = mins mod 60 in
        if mins < 60 then (if 0 < secs then nat_str mins @ '':'' @ pad2 secs else nat_str mins @ '' min'')
        else nat_str hours @ '':'' @ pad2 rem @ '':'' @ pad2 secs)"

definition modeLabel :: "string \<Rightarrow> string" where
  "modeLabel mode = (if mode = ''video'' then ''Video call'' else ''Voice call'')"

definition isConnectionCallSystemPayload :: "jrecord \<Rightarrow> bool" where
  "isConnectionCallSystemPayload ob \<longleftrightarrow> jget ob ''event'' = JStr ''connection_call'' \<and>
     (jget ob ''mode'' = JStr ''audio'' \<or> jget ob ''mode'' = JStr ''video'') \<and>
     jget ob ''status'' \<in> {JStr ''completed'', JStr ''missed'', JStr ''declined'', JStr ''cancelled''} \<and>
     as_string (jget ob ''initiatorUserId'') \<noteq> None"

text \<open>The duration is written as whole seconds; the separator is the middle dot.\<close>

definition connectionCallInboxPreview :: "jrecord \<Rightarrow> string" where
  "connectionCallInboxPreview ob =
     (let video = (jget ob ''mode'' = JStr ''video''); label = modeLabel (if video then ''video'' else ''audio'');
          status = jget ob ''status'';
          dur = (case jget ob ''durationSec'' of JNum x \<Rightarrow> \<lfloor>x\<rfloor> | _ \<Rightarrow> 0)
      in if status = JStr ''completed'' then (if 0 < dur then label @ '' '' @ [char_of (183 :: nat)] @ '' '' @ formatDuration dur else label)
         else if status = JStr ''missed'' then ''Missed '' @ (if video then ''video'' else ''voice'') @ '' call''
         else if status = JStr ''declined'' then label @ '' declined''
         else if status = JStr ''cancelled'' then label @ '' cancelled'' else label)"

definition trimmed_field :: "jrecord \<Rightarrow> string \<Rightarrow> string option" where
  "trimmed_field ob k = (case jget ob k of JStr t \<Rightarrow> if js_trim t = [] then None else Some (js_trim t) | _ \<Rightarrow> None)"

fun systemPayloadPreview :: "json \<Rightarrow> string option" where
  "systemPayloadPreview JNull = None"
| "systemPayloadPreview JUndefined = None"
| "systemPayloadPreview (JStr t) = (if js_trim t = [] then None else Some (js_trim t))"
| "systemPayloadPreview (JObj ob) =
     (case trimmed_field ob ''text'' of Some t \<Rightarrow> Some t | None \<Rightarrow>
      (case trimmed_field ob ''message'' of Some t \<Rightarrow> Some t | None \<Rightarrow>
       (case trimmed_field ob ''body'' of Some t \<Rightarrow> Some t | None \<Rightarrow>
         if jget ob ''event'' = JStr ''user_added'' then Some ''Someone joined the space''
         else if isConnectionCallSystemPayload ob then Some (connectionCallInboxPreview ob) else Some ''System message'')))"
| "systemPayloadPreview v = Some ''System message''"

definition inboxPreviewFromMessageRow :: "message_view \<Rightarrow> string option" where
  "inboxPreviewFromMessageRow row =
     (if vw_isDeleted row \<or> vw_deletedForAll row then None
      else case vw_messageType row of
        TextMessage \<Rightarrow> (if js_trim (vw_content row) = [] then None else Some (js_trim (vw_content row)))
      | ImageMessage \<Rightarrow> Some ''Photo'' | VideoMessage \<Rightarrow> Some ''Video'' | FileMessage \<Rightarrow> Some ''File''
      | VoiceMessage \<Rightarrow> Some ''Voice message'' | GifMessage \<Rightarrow> Some ''GIF''
      | SystemMessage \<Rightarrow> systemPayloadPreview (vw_systemPayload row))"

definition inboxPreviewForConversation :: "chat_env \<Rightarrow> string \<Rightarrow> chat \<Rightarrow> string option" where
  "inboxPreviewForConversation env c s =
     (case findLatestByConversationIds env [c] s c of None \<Rightarrow> None | Some row \<Rightarrow> inboxPreviewFromMessageRow row)"

subsection \<open>Who may write\<close>

definition peer_view :: "string \<Rightarrow> chat \<Rightarrow> (bool \<times> string list) option" where
  "peer_view c s = map_option (\<lambda>row. (cv_type row = RoomSpace, members_of c s)) (findConversationById c s)"

text \<open>\<open>assertCanMessageInConversation\<close>: the error, if any.\<close>

definition may_message :: "string \<Rightarrow> string \<Rightarrow> chat \<Rightarrow> string option" where
  "may_message c u s = assertCanMessageInConversation (peer_view c s) u (ch_people s)"

definition getMessagingBlockForConversation :: "string \<Rightarrow> string \<Rightarrow> chat \<Rightarrow> block_reason option" where
  "getMessagingBlockForConversation c viewer s =
     (case peer_view c s of None \<Rightarrow> None | Some conv \<Rightarrow> (case getDmPeerUserId conv viewer of
        None \<Rightarrow> None | Some peer \<Rightarrow> if peer = [] then None else resolveMessagingBlockStatus viewer peer (ch_people s)))"

subsection \<open>The conversation service\<close>

record conversation_item =
  ci_conversation :: conversation_row
  ci_block :: "block_reason option"
  ci_unreadCount :: int
  ci_preview :: "string option"

definition latest_activity :: "string \<Rightarrow> chat \<Rightarrow> int" where
  "latest_activity c s = Max (ms_createdAt ` set (filter (\<lambda>row. ms_conversationId row = c) (ch_messages s)))"

text \<open>Conversations with a message, the one with the latest message first, by id where two are equally late.\<close>

definition activity_cmp :: "chat \<Rightarrow> conversation_row \<Rightarrow> conversation_row \<Rightarrow> int" where
  "activity_cmp s a b =
     (let x = latest_activity (cv_id a) s; y = latest_activity (cv_id b) s in
      if y < x then -1 else if x < y then 1 else if cv_id b < cv_id a then -1 else if cv_id a < cv_id b then 1 else 0)"

definition listForUser :: "chat_env \<Rightarrow> string \<Rightarrow> chat \<Rightarrow> conversation_item list" where
  "listForUser env u s =
     (let convs = listConversationsForUser u s;
          active = filter (\<lambda>row. \<exists>m\<in>set (ch_messages s). ms_conversationId m = cv_id row) convs
      in map (\<lambda>row. \<lparr>ci_conversation = row, ci_block = getMessagingBlockForConversation (cv_id row) u s,
           ci_unreadCount = nullish_or (ch_unread s u (cv_id row)) 0, ci_preview = inboxPreviewForConversation env (cv_id row) s\<rparr>)
         (js_sort (activity_cmp s) active))"

definition getById :: "string \<Rightarrow> string \<Rightarrow> chat \<Rightarrow> string + (conversation_row \<times> block_reason option) option" where
  "getById c u s = (case findConversationById c s of
      None \<Rightarrow> Inr None
    | Some row \<Rightarrow>
        if \<not> isParticipant c u s then Inl ''UNAUTHORIZED''
        else Inr (Some (row, getMessagingBlockForConversation c u s)))"

definition getOrCreateConnectionConversation :: "chat_env \<Rightarrow> string \<Rightarrow> string \<Rightarrow> chat \<Rightarrow> string chat_result" where
  "getOrCreateConnectionConversation env a b s =
     (if resolveMessagingBlockStatus a b (ch_people s) \<noteq> None then (Inl ''MESSAGING_BLOCKED'', s)
      else case findOrCreatePeerConversation env a b s of
        (Inl e, s1) \<Rightarrow> (Inl e, s1)
      | (Inr c, s1) \<Rightarrow> (Inr c, rejoin c a s1))"

definition leaveConversation :: "chat_env \<Rightarrow> string \<Rightarrow> string \<Rightarrow> chat \<Rightarrow> unit chat_result" where
  "leaveConversation env c u s =
     (if \<not> isParticipant c u s then (Inl ''UNAUTHORIZED'', s)
      else (let (removed, s1) = markLeft env c u s in
        if \<not> removed then (Inl ''NOT_FOUND'', s1)
        else (Inr (), s1\<lparr>ch_unread := (ch_unread s1)(u := (ch_unread s1 u)(c := None))\<rparr>)))"

definition setPersistence :: "string \<Rightarrow> string \<Rightarrow> bool \<Rightarrow> chat \<Rightarrow> unit chat_result" where
  "setPersistence c u wants s =
     (if \<not> isParticipant c u s then (Inl ''UNAUTHORIZED'', s) else (Inr (), writePersistence c u wants s))"

subsection \<open>The message service\<close>

definition CHAT_RATE_LIMIT :: nat where
  "CHAT_RATE_LIMIT = 60"

definition checkRateLimit :: "string \<Rightarrow> chat \<Rightarrow> bool \<times> chat" where
  "checkRateLimit u s =
     (let n = Suc (ch_rate s u) in (n \<le> CHAT_RATE_LIMIT, s\<lparr>ch_rate := (ch_rate s)(u := n)\<rparr>))"

text \<open>The loop over the other participants: each is back in the conversation and has one more to read.\<close>

definition bump :: "string \<Rightarrow> string \<Rightarrow> chat \<Rightarrow> chat" where
  "bump c p s = (let s1 = rejoin c p s in
     s1\<lparr>ch_unread := (ch_unread s1)(p := (ch_unread s1 p)(c := Some (nullish_or (ch_unread s1 p c) 0 + 1)))\<rparr>)"

definition bump_others :: "string \<Rightarrow> string \<Rightarrow> chat \<Rightarrow> chat" where
  "bump_others c sender s = (case findConversationById c s of
      None \<Rightarrow> s
    | Some row \<Rightarrow> fold (bump c) (filter (\<lambda>p. p \<noteq> sender) (members_of c s)) s)"

definition sendChatMessage :: "chat_env \<Rightarrow> string \<Rightarrow> string \<Rightarrow> message_body \<Rightarrow> chat \<Rightarrow> message_view chat_result" where
  "sendChatMessage env c sender body s =
     (if \<not> hasParticipantRecord c sender s then (Inl ''UNAUTHORIZED'', s)
      else (let s1 = rejoin c sender s in case may_message c sender s1 of
          Some e \<Rightarrow> (Inl e, s1)
        | None \<Rightarrow> (let (msg, s2) = insertMessage env c sender body s1 in (Inr msg, bump_others c sender s2))))"

definition unread_sync :: "string \<Rightarrow> string \<Rightarrow> chat \<Rightarrow> chat_event list" where
  "unread_sync c p s = [UnreadSync p c (nullish_or (ch_unread s p c) 0)]"

definition publishSystemMessage :: "chat_env \<Rightarrow> string \<Rightarrow> string \<Rightarrow> json \<Rightarrow> chat \<Rightarrow> message_view chat_result" where
  "publishSystemMessage env c sender payload s =
     (if \<not> isParticipant c sender s then (Inl ''UNAUTHORIZED'', s)
      else (let (msg, s1) = insertSystemMessage env c sender payload s; s2 = bump_others c sender s1 in
        (Inr msg, post (concat (map (\<lambda>p. [NewMessage p msg, ConversationActivity p c (Some (vw_createdAt msg)) (inboxPreviewFromMessageRow msg)]
             @ (if p = sender then [] else unread_sync c p s2)) (if findConversationById c s1 = None then [] else members_of c s1))) s2)))"

definition getMessages :: "chat_env \<Rightarrow> string \<Rightarrow> string \<Rightarrow> int option \<Rightarrow> nat \<Rightarrow> chat \<Rightarrow> string + message_page" where
  "getMessages env c u cursor limit s =
     (if \<not> isParticipant c u s then Inl ''UNAUTHORIZED''
      else (let page = findMessagesPage env c cursor limit
          (case getParticipant c u s of None \<Rightarrow> None | Some p \<Rightarrow> mb_historyHiddenBeforeAt p) s
        in Inr (page\<lparr>pg_reactions := getReactionsForMessageIds (map vw_id (pg_messages page)) s\<rparr>)))"

definition markRead :: "chat_env \<Rightarrow> string \<Rightarrow> string \<Rightarrow> string \<Rightarrow> chat \<Rightarrow> unit chat_result" where
  "markRead env c m u s = (case insertReceipt m u s of
      None \<Rightarrow> (Inl ''INTERNAL_ERROR'', s)
    | Some s1 \<Rightarrow> (let s2 = updateLastRead env c u m s1 in
        (Inr (), s2\<lparr>ch_unread := (ch_unread s2)(u := (ch_unread s2 u)(c := Some 0))\<rparr>)))"

definition editMessage :: "chat_env \<Rightarrow> string \<Rightarrow> string \<Rightarrow> string \<Rightarrow> chat \<Rightarrow> message_view option chat_result" where
  "editMessage env m sender content s = (case findMessageById env m s of
      None \<Rightarrow> (Inl ''NOT_FOUND'', s)
    | Some existing \<Rightarrow>
        if vw_senderId existing \<noteq> sender then (Inl ''UNAUTHORIZED'', s)
        else case may_message (vw_conversationId existing) sender s of
          Some e \<Rightarrow> (Inl e, s)
        | None \<Rightarrow> (case editMessageRow env m content s of
            None \<Rightarrow> (Inl ''INTERNAL_ERROR'', s)
          | Some (updated, s1) \<Rightarrow> (Inr updated, s1)))"

definition deleteMessage :: "chat_env \<Rightarrow> string \<Rightarrow> string \<Rightarrow> bool \<Rightarrow> chat \<Rightarrow> unit chat_result" where
  "deleteMessage env m sender forAll s = (case findMessageById env m s of
      None \<Rightarrow> (Inl ''NOT_FOUND'', s)
    | Some existing \<Rightarrow>
        if vw_senderId existing \<noteq> sender then (Inl ''UNAUTHORIZED'', s)
        else (Inr (), softDeleteMessage env m forAll s))"

definition addReaction :: "string \<Rightarrow> string \<Rightarrow> string \<Rightarrow> string \<Rightarrow> chat \<Rightarrow> reaction list chat_result" where
  "addReaction m c u emoji s =
     (if \<not> isParticipant c u s then (Inl ''UNAUTHORIZED'', s)
      else case may_message c u s of
        Some e \<Rightarrow> (Inl e, s)
      | None \<Rightarrow> (case insertReaction m u emoji s of
          None \<Rightarrow> (Inl ''INTERNAL_ERROR'', s) | Some (rs, s1) \<Rightarrow> (Inr rs, s1)))"

definition removeReaction :: "string \<Rightarrow> string \<Rightarrow> string \<Rightarrow> string \<Rightarrow> chat \<Rightarrow> reaction list chat_result" where
  "removeReaction m c u emoji s =
     (if \<not> isParticipant c u s then (Inl ''UNAUTHORIZED'', s)
      else case may_message c u s of
        Some e \<Rightarrow> (Inl e, s)
      | None \<Rightarrow> (let (rs, s1) = deleteReaction m u emoji s in (Inr rs, s1)))"

definition setTyping :: "string \<Rightarrow> string \<Rightarrow> bool \<Rightarrow> chat \<Rightarrow> unit chat_result" where
  "setTyping c u typing s = (case may_message c u s of
      Some e \<Rightarrow> (Inl e, s)
    | None \<Rightarrow> (Inr (), s\<lparr>ch_typing := (if typing then insert (c, u) (ch_typing s) else ch_typing s - {(c, u)})\<rparr>))"

subsection \<open>The conversation of a room\<close>

text \<open>The users of the room are its participant rows, those who have left included.\<close>

definition room_users :: "string \<Rightarrow> chat \<Rightarrow> string list" where
  "room_users r s = map pt_userId (db_parts (ch_main s) r)"

definition relink :: "string \<Rightarrow> string \<Rightarrow> string \<Rightarrow> chat \<Rightarrow> chat" where
  "relink c k r = on_conversation c (\<lambda>row. row\<lparr>cv_type := ConnectionChat, cv_connectionId := Some k, cv_isPersisted := True, cv_roomId := Some r\<rparr>)"

definition createDirectRoomConversation :: "chat_env \<Rightarrow> string \<Rightarrow> string \<Rightarrow> chat \<Rightarrow> string \<times> chat" where
  "createDirectRoomConversation env r host s =
     (let others = filter (\<lambda>u. u \<noteq> host) (room_users r s);
          fresh = (\<lambda>ty k persisted. (ce_newId env, insert_conversation (conversation_of env ty (Some r) k persisted) (room_users r s) s))
      in if others = [] \<or> hd others = [] then fresh RoomDirect None False
         else (let other = hd others in case accepted_connection host other s of
             Some k \<Rightarrow> (case connection_conversation (cn_id k) s of
                 Some row \<Rightarrow> (cv_id row, linkRoomToConversation (cv_id row) r s)
               | None \<Rightarrow> (case findExistingPeerConversationId host other s of
                   Some c \<Rightarrow> (c, relink c (cn_id k) r s)
                 | None \<Rightarrow> fresh ConnectionChat (Some (cn_id k)) True))
           | None \<Rightarrow> (case findExistingPeerConversationId host other s of
                 Some c \<Rightarrow> (c, linkRoomToConversation c r s)
               | None \<Rightarrow> fresh RoomDirect None False)))"

definition createSpaceRoomConversation :: "chat_env \<Rightarrow> string \<Rightarrow> chat \<Rightarrow> string \<times> chat" where
  "createSpaceRoomConversation env r s =
     (ce_newId env, insert_conversation (conversation_of env RoomSpace (Some r) None True) (room_users r s) s)"

definition conversation_of_room :: "string \<Rightarrow> chat \<Rightarrow> conversation_row option" where
  "conversation_of_room r s = find (\<lambda>row. cv_roomId row = Some r) (ch_conversations s)"

definition getOrCreateRoomConversation :: "chat_env \<Rightarrow> string \<Rightarrow> room_session_type \<Rightarrow> string \<Rightarrow> chat \<Rightarrow> string \<times> chat" where
  "getOrCreateRoomConversation env r ty host s = (case conversation_of_room r s of
      Some row \<Rightarrow> (cv_id row, s)
    | None \<Rightarrow> if ty = Direct then createDirectRoomConversation env r host s else createSpaceRoomConversation env r s)"

definition ensureRoomConversationParticipant :: "string \<Rightarrow> string \<Rightarrow> chat \<Rightarrow> chat" where
  "ensureRoomConversationParticipant r u s = (case conversation_of_room r s of None \<Rightarrow> s | Some row \<Rightarrow> add_participant (cv_id row) u s)"

text \<open>The conversation's part of issuing a token (\<open>finalizeRtcTokenIssue\<close>).\<close>

definition token_conversation :: "chat_env \<Rightarrow> string \<Rightarrow> string \<Rightarrow> room_row \<Rightarrow> chat \<Rightarrow> string \<times> chat" where
  "token_conversation env u r room s =
     (let (c, s1) = getOrCreateRoomConversation env r (tm_roomType room) (rr_hostUserId room) s
      in (c, ensureRoomConversationParticipant r u s1))"

text \<open>The conversation's part of \<open>runExpandDirectAcceptTransaction\<close>, after the participant row is written.\<close>

definition user_added :: "string \<Rightarrow> json" where
  "user_added u = JObj [(''event'', JStr ''user_added''), (''userId'', JStr u)]"

definition expand_conversation :: "chat_env \<Rightarrow> string \<Rightarrow> string \<Rightarrow> string \<Rightarrow> chat \<Rightarrow> chat" where
  "expand_conversation env r inviter invitee s = (case conversation_of_room r s of
      Some row \<Rightarrow>
       (let c = cv_id row;
            s1 = on_conversation c (\<lambda>x. x\<lparr>cv_type := RoomSpace, cv_connectionId := None, cv_isPersisted := True,
              cv_expandedAt := Some (ce_now env), cv_expandedByUserId := Some inviter\<rparr>) s;
            s2 = snd (insertSystemMessage env c inviter (user_added invitee) (add_participant c invitee s1))
        in on_member c invitee (\<lambda>p. p\<lparr>mb_joinedFromMessageId := Some (ce_messageId env)\<rparr>) s2)
    | None \<Rightarrow>
       (let active = map pt_userId (filter is_active (db_parts (ch_main s) r));
            row = (conversation_of env RoomSpace (Some r) None True)\<lparr>cv_expandedAt := Some (ce_now env), cv_expandedByUserId := Some inviter\<rparr>
        in snd (insertSystemMessage env (ce_newId env) inviter (user_added invitee) (insert_conversation row active s))))"

end
