(* ===== verification/ChatHandlers.thy ===== *)
theory ChatHandlers
  imports ServerChat
begin

text \<open>
  What clients reach of chat: the messages of the \<open>/chat\<close> sockets (\<open>socket/chat.socket.ts\<close>, \<open>lib/chat-socket-errors.ts\<close>) and the
  HTTP routes (\<open>controllers\<close>) with the status of every outcome. A message of a socket is one atomic step. The ids in a payload are
  the client's, and nothing ties the id of a message to that of a conversation but what a handler checks.
\<close>

subsection \<open>Sockets\<close>

definition isClientSafeChatError :: "string \<Rightarrow> bool" where
  "isClientSafeChatError code \<longleftrightarrow> code \<in> {''UNAUTHORIZED'', ''MESSAGING_BLOCKED'', ''NOT_FOUND''}"

definition chatSocketErrorCode :: "string \<Rightarrow> string" where
  "chatSocketErrorCode msg = (if isClientSafeChatError msg then msg else ''INTERNAL_ERROR'')"

definition handleError :: "string \<Rightarrow> string \<Rightarrow> string \<Rightarrow> chat \<Rightarrow> chat" where
  "handleError sock event err = post [ChatError sock (chatSocketErrorCode err) event]"

text \<open>Participants of a conversation, or nobody where it does not exist.\<close>

definition audience :: "string \<Rightarrow> chat \<Rightarrow> string list" where
  "audience c s = (if findConversationById c s = None then [] else members_of c s)"

definition joined_sockets :: "string \<Rightarrow> chat \<Rightarrow> (string \<times> string) list" where
  "joined_sockets c s = map snd (filter (\<lambda>j. fst j = c) (ch_joined s))"

definition on_room_join :: "string \<Rightarrow> string \<Rightarrow> string \<Rightarrow> chat \<Rightarrow> chat" where
  "on_room_join sock u c s = (if (c, sock, u) \<in> set (ch_joined s) then s else s\<lparr>ch_joined := ch_joined s @ [(c, sock, u)]\<rparr>)"

definition on_room_leave :: "string \<Rightarrow> string \<Rightarrow> string \<Rightarrow> chat \<Rightarrow> chat" where
  "on_room_leave sock u c s = s\<lparr>ch_joined := filter (\<lambda>j. j \<noteq> (c, sock, u)) (ch_joined s)\<rparr>"

definition typing_notes :: "string \<Rightarrow> string \<Rightarrow> string \<Rightarrow> bool \<Rightarrow> chat \<Rightarrow> chat_event list" where
  "typing_notes sock c u typing s = map (\<lambda>j. TypingNote j c u typing) (filter (\<lambda>j. fst j \<noteq> sock) (joined_sockets c s))"

text \<open>What a new message makes known, each other participant with the count of unread messages.\<close>

definition announce :: "string \<Rightarrow> string \<Rightarrow> message_view \<Rightarrow> chat \<Rightarrow> chat_event list" where
  "announce c u msg s =
     (if findConversationById c s = None then [NewMessage u msg]
      else map (\<lambda>p. NewMessage p msg) (members_of c s) @
        concat (map (\<lambda>p. ConversationActivity p c (Some (vw_createdAt msg)) (inboxPreviewFromMessageRow msg)
          # (if p = u then [] else unread_sync c p s)) (members_of c s)))"

definition on_message_send :: "chat_env \<Rightarrow> string \<Rightarrow> string \<Rightarrow> string \<Rightarrow> message_body \<Rightarrow> chat \<Rightarrow> string chat_result" where
  "on_message_send env sock u c body s =
     (let (ok, s1) = checkRateLimit u s in
      if \<not> ok then (Inl ''RATE_LIMITED'', post [RateWarning sock] s1)
      else case sendChatMessage env c u body s1 of
        (Inl e, s2) \<Rightarrow> (Inl (chatSocketErrorCode e), handleError sock ''chat:message:send'' e s2)
      | (Inr msg, s2) \<Rightarrow> (case setTyping c u False s2 of
          (Inl e, s3) \<Rightarrow> (Inl (chatSocketErrorCode e), handleError sock ''chat:message:send'' e s3)
        | (Inr _, s3) \<Rightarrow> (Inr (vw_id msg), post (typing_notes sock c u False s3 @ announce c u msg s3) s3)))"

definition on_message_read :: "chat_env \<Rightarrow> string \<Rightarrow> string \<Rightarrow> string \<Rightarrow> string \<Rightarrow> chat \<Rightarrow> chat" where
  "on_message_read env sock u c m s = (case markRead env c m u s of
      (Inl e, s1) \<Rightarrow> handleError sock ''chat:message:read'' e s1
    | (Inr _, s1) \<Rightarrow> post (map (\<lambda>j. ReadNote j c m u) (joined_sockets c s1) @ [UnreadSync u c 0]) s1)"

definition on_typing :: "string \<Rightarrow> string \<Rightarrow> string \<Rightarrow> bool \<Rightarrow> chat \<Rightarrow> chat" where
  "on_typing sock u c typing s = (case setTyping c u typing s of
      (Inl e, s1) \<Rightarrow> handleError sock (if typing then ''chat:typing:start'' else ''chat:typing:stop'') e s1
    | (Inr _, s1) \<Rightarrow> post (typing_notes sock c u typing s1) s1)"

definition on_reaction :: "string \<Rightarrow> string \<Rightarrow> bool \<Rightarrow> string \<Rightarrow> string \<Rightarrow> string \<Rightarrow> chat \<Rightarrow> chat" where
  "on_reaction sock u add m c emoji s = (case (if add then addReaction m c u emoji s else removeReaction m c u emoji s) of
      (Inl e, s1) \<Rightarrow> handleError sock (if add then ''chat:reaction:add'' else ''chat:reaction:remove'') e s1
    | (Inr rs, s1) \<Rightarrow> post (map (\<lambda>p. ReactionUpdate p m c rs) (audience c s1)) s1)"

definition on_message_edit :: "chat_env \<Rightarrow> string \<Rightarrow> string \<Rightarrow> string \<Rightarrow> string \<Rightarrow> string \<Rightarrow> chat \<Rightarrow> chat" where
  "on_message_edit env sock u m c content s = (case editMessage env m u content s of
      (Inl e, s1) \<Rightarrow> handleError sock ''chat:message:edit'' e s1
    | (Inr None, s1) \<Rightarrow> s1
    | (Inr (Some updated), s1) \<Rightarrow> post (map (\<lambda>p. EditedMessage p updated) (audience c s1) @
        map (\<lambda>p. ConversationActivity p c (Some (ce_now env)) (inboxPreviewFromMessageRow updated)) (audience c s1)) s1)"

definition on_message_delete :: "chat_env \<Rightarrow> string \<Rightarrow> string \<Rightarrow> string \<Rightarrow> string \<Rightarrow> bool \<Rightarrow> chat \<Rightarrow> chat" where
  "on_message_delete env sock u m c forAll s = (case deleteMessage env m u forAll s of
      (Inl e, s1) \<Rightarrow> handleError sock ''chat:message:delete'' e s1
    | (Inr _, s1) \<Rightarrow> post ((if forAll then map (\<lambda>p. DeletedMessage p m c True) (audience c s1) else [DeletedHere sock m c]) @
        map (\<lambda>p. ConversationActivity p c None (inboxPreviewForConversation env c s1)) (audience c s1)) s1)"

subsection \<open>Routes\<close>

datatype 'a http_answer = Answer 'a | Refusal nat string

definition handleGetConversation :: "string \<Rightarrow> string \<Rightarrow> chat \<Rightarrow> (conversation_row \<times> block_reason option) http_answer" where
  "handleGetConversation u c s = (case getById c u s of
      Inl e \<Rightarrow> Refusal 403 ''UNAUTHORIZED''
    | Inr None \<Rightarrow> Refusal 404 ''NOT_FOUND''
    | Inr (Some conv) \<Rightarrow> Answer conv)"

definition handleGetMessages :: "chat_env \<Rightarrow> string \<Rightarrow> string \<Rightarrow> int option \<Rightarrow> nat option \<Rightarrow> chat \<Rightarrow> message_page http_answer" where
  "handleGetMessages env u c cursor limit s =
     (let n = nullish_or limit 30 in
      if n < 1 \<or> 50 < n then Refusal 400 ''VALIDATION_ERROR''
      else case getMessages env c u cursor n s of Inl e \<Rightarrow> Refusal 403 ''UNAUTHORIZED'' | Inr page \<Rightarrow> Answer page)"

definition handleCreateConnectionConversation :: "chat_env \<Rightarrow> string \<Rightarrow> string option \<Rightarrow> chat \<Rightarrow> string http_answer \<times> chat" where
  "handleCreateConnectionConversation env u target s = (case target of
      None \<Rightarrow> (Refusal 400 ''VALIDATION_ERROR'', s)
    | Some t \<Rightarrow> (case getOrCreateConnectionConversation env u t s of
        (Inr c, s1) \<Rightarrow> (Answer c, s1)
      | (Inl e, s1) \<Rightarrow> (if e = ''NOT_CONNECTIONS'' then Refusal 403 e else if e = ''MESSAGING_BLOCKED'' then Refusal 403 e
          else Refusal 500 ''CREATE_CONNECTION_CONVERSATION_FAILED'', s1)))"

definition handleLeaveConversation :: "chat_env \<Rightarrow> string \<Rightarrow> string \<Rightarrow> chat \<Rightarrow> unit http_answer \<times> chat" where
  "handleLeaveConversation env u c s = (case leaveConversation env c u s of
      (Inr _, s1) \<Rightarrow> (Answer (), s1)
    | (Inl e, s1) \<Rightarrow> (if e = ''UNAUTHORIZED'' then Refusal 403 e else if e = ''NOT_FOUND'' then Refusal 404 e
        else Refusal 500 ''LEAVE_CONVERSATION_FAILED'', s1))"

definition handleSetPersistence :: "string \<Rightarrow> string \<Rightarrow> bool option \<Rightarrow> chat \<Rightarrow> unit http_answer \<times> chat" where
  "handleSetPersistence u c wants s = (case wants of
      None \<Rightarrow> (Refusal 400 ''VALIDATION_ERROR'', s)
    | Some w \<Rightarrow> (case setPersistence c u w s of
        (Inr _, s1) \<Rightarrow> (Answer (), s1)
      | (Inl e, s1) \<Rightarrow> (if e = ''UNAUTHORIZED'' then Refusal 403 e else Refusal 500 ''SET_PERSISTENCE_FAILED'', s1)))"

definition handleDeleteMessage :: "chat_env \<Rightarrow> string \<Rightarrow> string \<Rightarrow> bool option \<Rightarrow> chat \<Rightarrow> unit http_answer \<times> chat" where
  "handleDeleteMessage env u m forAll s = (case findMessageById env m s of
      None \<Rightarrow> (Refusal 404 ''NOT_FOUND'', s)
    | Some existing \<Rightarrow>
        if vw_senderId existing \<noteq> u then (Refusal 403 ''UNAUTHORIZED'', s)
        else (Answer (), softDeleteMessage env m (nullish_or forAll False) s))"

definition handle_pin :: "chat_env \<Rightarrow> bool \<Rightarrow> string \<Rightarrow> string \<Rightarrow> chat \<Rightarrow> unit http_answer \<times> chat" where
  "handle_pin env pin u m s = (case findMessageById env m s of
      None \<Rightarrow> (Refusal 404 ''NOT_FOUND'', s)
    | Some existing \<Rightarrow>
        if \<not> isParticipant (vw_conversationId existing) u s then (Refusal 403 ''UNAUTHORIZED'', s)
        else (Answer (), if pin then pinMessage (vw_conversationId existing) m u s else unpinMessage (vw_conversationId existing) m s))"

definition handlePinMessage :: "chat_env \<Rightarrow> string \<Rightarrow> string \<Rightarrow> chat \<Rightarrow> unit http_answer \<times> chat" where
  "handlePinMessage env = handle_pin env True"

definition handleUnpinMessage :: "chat_env \<Rightarrow> string \<Rightarrow> string \<Rightarrow> chat \<Rightarrow> unit http_answer \<times> chat" where
  "handleUnpinMessage env = handle_pin env False"

definition handleReportMessage :: "chat_env \<Rightarrow> string option \<Rightarrow> chat \<Rightarrow> unit http_answer" where
  "handleReportMessage env report s = (case report of
      None \<Rightarrow> Refusal 400 ''VALIDATION_ERROR''
    | Some m \<Rightarrow> if findMessageById env m s = None then Refusal 404 ''NOT_FOUND'' else Answer ())"

end
