(* ===== verification/ChatSafety.thy ===== *)
theory ChatSafety
  imports ChatHandlers
begin

text \<open>
  Chat as a run of requests: every message of a socket, every route, the conversations of rooms, and whatever the rest of the
  server does to rooms and blocks in between. The locale \<open>chat_writes\<close> says what a property must keep under each kind of write to be kept by
  every request; it is interpreted for the soundness of the rows and for what is never lost.
\<close>

subsection \<open>Runs\<close>

datatype chat_request =
    RoomJoin string string string
  | RoomLeave string string string
  | MessageSend string string string message_body
  | MessageRead string string string string
  | Typing string string string bool
  | Reaction string string bool string string string
  | MessageEdit string string string string string
  | MessageDelete string string string string bool
  | OpenConversation string "string option"
  | LeaveConversation string string
  | Persistence string string "bool option"
  | HttpDelete string string "bool option"
  | Pin bool string string
  | TokenIssued string string room_row
  | CallExpanded string string string
  | CallEntry string string json
  | RoomsChange main_store
  | PeopleChange people
  | RateWindowOver string
  | TypingOver string string

fun chat_do :: "chat_env \<Rightarrow> chat_request \<Rightarrow> chat \<Rightarrow> chat" where
  "chat_do env (RoomJoin sock u c) s = on_room_join sock u c s"
| "chat_do env (RoomLeave sock u c) s = on_room_leave sock u c s"
| "chat_do env (MessageSend sock u c body) s = snd (on_message_send env sock u c body s)"
| "chat_do env (MessageRead sock u c m) s = on_message_read env sock u c m s"
| "chat_do env (Typing sock u c b) s = on_typing sock u c b s"
| "chat_do env (Reaction sock u add m c emoji) s = on_reaction sock u add m c emoji s"
| "chat_do env (MessageEdit sock u m c content) s = on_message_edit env sock u m c content s"
| "chat_do env (MessageDelete sock u m c forAll) s = on_message_delete env sock u m c forAll s"
| "chat_do env (OpenConversation u t) s = snd (handleCreateConnectionConversation env u t s)"
| "chat_do env (LeaveConversation u c) s = snd (handleLeaveConversation env u c s)"
| "chat_do env (Persistence u c w) s = snd (handleSetPersistence u c w s)"
| "chat_do env (HttpDelete u m forAll) s = snd (handleDeleteMessage env u m forAll s)"
| "chat_do env (Pin b u m) s = snd (if b then handlePinMessage env u m s else handleUnpinMessage env u m s)"
| "chat_do env (TokenIssued u r room) s = snd (token_conversation env u r room s)"
| "chat_do env (CallExpanded r inviter invitee) s = expand_conversation env r inviter invitee s"
| "chat_do env (CallEntry c u payload) s = snd (publishSystemMessage env c u payload s)"
| "chat_do env (RoomsChange m) s = s\<lparr>ch_main := m\<rparr>"
| "chat_do env (PeopleChange p) s = s\<lparr>ch_people := p\<rparr>"
| "chat_do env (RateWindowOver u) s = s\<lparr>ch_rate := (ch_rate s)(u := 0)\<rparr>"
| "chat_do env (TypingOver c u) s = s\<lparr>ch_typing := ch_typing s - {(c, u)}\<rparr>"

text \<open>The database's fresh ids are new.\<close>

definition fresh_ids :: "chat_env \<Rightarrow> chat \<Rightarrow> bool" where
  "fresh_ids env s \<longleftrightarrow> ce_newId env \<notin> cv_id ` set (ch_conversations s) \<and> ce_messageId env \<notin> ms_id ` set (ch_messages s)"

inductive chat_run :: "chat \<Rightarrow> chat \<Rightarrow> bool" where
  chat_start: "chat_run s s"
| chat_more: "chat_run s s' \<Longrightarrow> fresh_ids env s' \<Longrightarrow> chat_run s (chat_do env a s')"

definition no_chat :: "main_store \<Rightarrow> people \<Rightarrow> chat" where
  "no_chat m p = \<lparr>ch_conversations = [], ch_members = [], ch_messages = [], ch_reactions = [], ch_receipts = [], ch_pins = [],
     ch_unread = (\<lambda>u c. None), ch_typing = {}, ch_rate = (\<lambda>u. 0), ch_joined = [], ch_main = m, ch_people = p, ch_out = []\<rparr>"

subsection \<open>Writes\<close>

definition member_key :: "member_row \<Rightarrow> string \<times> string" where
  "member_key p = (mb_conversationId p, mb_userId p)"

text \<open>The connection whose conversation a row is.\<close>

definition link_of :: "conversation_row \<Rightarrow> string option" where
  "link_of row = (if cv_type row = ConnectionChat then cv_connectionId row else None)"

definition linked :: "conversation_row \<Rightarrow> bool" where
  "linked row \<longleftrightarrow> cv_type row = ConnectionChat \<longrightarrow> cv_connectionId row \<noteq> None"

definition may_relabel :: "chat \<Rightarrow> conversation_row \<Rightarrow> conversation_row \<Rightarrow> bool" where
  "may_relabel s row row' \<longleftrightarrow> cv_id row' = cv_id row \<and> (linked row \<longrightarrow> linked row') \<and>
     (link_of row' = link_of row \<or> link_of row' \<notin> link_of ` set (ch_conversations s) \<or> link_of row' = None) \<and>
     (cv_roomId row' = cv_roomId row \<or> cv_roomId row' \<notin> cv_roomId ` set (ch_conversations s))"

definition tells_members :: "chat_event list \<Rightarrow> chat \<Rightarrow> bool" where
  "tells_members es s \<longleftrightarrow> (\<forall>p v. NewMessage p v \<in> set es \<longrightarrow> hasParticipantRecord (vw_conversationId v) p s)"

definition same_rows :: "chat \<Rightarrow> chat \<Rightarrow> bool" where
  "same_rows s s' \<longleftrightarrow> ch_conversations s' = ch_conversations s \<and> ch_members s' = ch_members s \<and> ch_messages s' = ch_messages s \<and> ch_out s' = ch_out s"

locale chat_writes =
  fixes I :: "chat \<Rightarrow> bool"
  assumes known: "I s \<Longrightarrow> p \<in> set (ch_members s) \<Longrightarrow> mb_conversationId p \<in> cv_id ` set (ch_conversations s)"
    and aside: "I s \<Longrightarrow> same_rows s s' \<Longrightarrow> I s'"
    and posts: "I s \<Longrightarrow> tells_members es s \<Longrightarrow> I (post es s)"
    and says: "I s \<Longrightarrow> ms_conversationId row \<in> cv_id ` set (ch_conversations s) \<Longrightarrow> ms_id row \<notin> ms_id ` set (ch_messages s) \<Longrightarrow>
      ms_messageType row = SystemMessage \<or> hasParticipantRecord (ms_conversationId row) (ms_senderId row) s \<Longrightarrow>
      I (s\<lparr>ch_messages := ch_messages s @ [row]\<rparr>)"
    and edits: "I s \<Longrightarrow> (\<And>row. ms_id (f row) = ms_id row \<and> ms_conversationId (f row) = ms_conversationId row \<and>
      ms_senderId (f row) = ms_senderId row \<and> ms_messageType (f row) = ms_messageType row \<and> ms_createdAt (f row) = ms_createdAt row) \<Longrightarrow>
      I (on_message m f s)"
    and joins: "I s \<Longrightarrow> c \<in> cv_id ` set (ch_conversations s) \<Longrightarrow> I (add_participant c u s)"
    and changes_member: "I s \<Longrightarrow> (\<And>p. member_key (g p) = member_key p) \<Longrightarrow> I (on_member c u g s)"
    and opens: "I s \<Longrightarrow> cv_id conv \<notin> cv_id ` set (ch_conversations s) \<Longrightarrow> linked conv \<Longrightarrow>
      link_of conv = None \<or> link_of conv \<notin> link_of ` set (ch_conversations s) \<Longrightarrow>
      cv_roomId conv = None \<or> cv_roomId conv \<notin> cv_roomId ` set (ch_conversations s) \<Longrightarrow>
      I (s\<lparr>ch_conversations := ch_conversations s @ [conv]\<rparr>)"
    and relabels: "I s \<Longrightarrow> (\<And>x. x \<in> set (ch_conversations s) \<Longrightarrow> cv_id x = c \<Longrightarrow> may_relabel s x (h x)) \<Longrightarrow> I (on_conversation c h s)"

lemma found_conversation: "findConversationById c s = Some row \<Longrightarrow> c \<in> cv_id ` set (ch_conversations s)"
  by (auto simp: findConversationById_def find_Some_iff)

lemma missing_conversation: "findConversationById c s = None \<longleftrightarrow> c \<notin> cv_id ` set (ch_conversations s)"
  by (auto simp: findConversationById_def find_None_iff)

lemma may_message_known: "may_message c u s = None \<Longrightarrow> c \<in> cv_id ` set (ch_conversations s)"
  using found_conversation by (fastforce simp: may_message_def assertCanMessageInConversation_def peer_view_def split: option.splits)

lemma member_record: "p \<in> set (members_of c s) \<longleftrightarrow> hasParticipantRecord c p s"
  by (auto simp: members_of_def hasParticipantRecord_def)

lemma active_record: "isParticipant c u s \<Longrightarrow> hasParticipantRecord c u s"
  by (auto simp: isParticipant_def hasParticipantRecord_def)

lemma record_key: "hasParticipantRecord c u s \<longleftrightarrow> (c, u) \<in> member_key ` set (ch_members s)"
  by (auto simp: hasParticipantRecord_def member_key_def)

subsection \<open>What the operations leave\<close>

lemma post_simps [simp]:
  "ch_conversations (post es s) = ch_conversations s" "ch_members (post es s) = ch_members s" "ch_messages (post es s) = ch_messages s"
  "ch_unread (post es s) = ch_unread s" "ch_out (post es s) = ch_out s @ es" "ch_people (post es s) = ch_people s"
  "ch_reactions (post es s) = ch_reactions s"
  by (simp_all add: post_def)

lemma on_simps [simp]:
  "ch_conversations (on_member c u f s) = ch_conversations s" "ch_messages (on_member c u f s) = ch_messages s"
  "ch_unread (on_member c u f s) = ch_unread s" "ch_out (on_member c u f s) = ch_out s" "ch_people (on_member c u f s) = ch_people s"
  "ch_conversations (on_message m g s) = ch_conversations s" "ch_members (on_message m g s) = ch_members s"
  "ch_unread (on_message m g s) = ch_unread s" "ch_out (on_message m g s) = ch_out s"
  "ch_members (on_conversation c h s) = ch_members s" "ch_messages (on_conversation c h s) = ch_messages s"
  "ch_unread (on_conversation c h s) = ch_unread s" "ch_out (on_conversation c h s) = ch_out s" "ch_main (on_conversation c h s) = ch_main s"
  "ch_reactions (on_member c u f s) = ch_reactions s"
  by (simp_all add: on_member_def on_message_def on_conversation_def)

lemma member_simps [simp]:
  "ch_conversations (add_participant c u s) = ch_conversations s" "ch_messages (add_participant c u s) = ch_messages s"
  "ch_unread (add_participant c u s) = ch_unread s" "ch_out (add_participant c u s) = ch_out s" "ch_main (add_participant c u s) = ch_main s"
  by (simp_all add: add_participant_def)

lemma members_simps [simp]:
  "ch_conversations (insertConversationParticipants c us s) = ch_conversations s"
  "ch_messages (insertConversationParticipants c us s) = ch_messages s"
  "ch_unread (insertConversationParticipants c us s) = ch_unread s"
  "ch_out (insertConversationParticipants c us s) = ch_out s"
  unfolding insertConversationParticipants_def by (induction us arbitrary: s) simp_all

lemma opened_simps [simp]:
  "ch_conversations (insert_conversation row us s) = ch_conversations s @ [row]" "ch_messages (insert_conversation row us s) = ch_messages s"
  "ch_unread (insert_conversation row us s) = ch_unread s" "ch_out (insert_conversation row us s) = ch_out s"
  by (simp_all add: insert_conversation_def)

lemma id_list_kept: "(\<And>x. cv_id (f x) = cv_id x) \<Longrightarrow> map cv_id (ch_conversations (on_conversation c f s)) = map cv_id (ch_conversations s)"
  by (simp add: on_conversation_def)

lemma ids_kept [simp]: "(\<And>x. cv_id (f x) = cv_id x) \<Longrightarrow> cv_id ` set (ch_conversations (on_conversation c f s)) = cv_id ` set (ch_conversations s)"
  by (metis id_list_kept list.set_map)

lemma member_keys_kept: "(\<And>p. member_key (f p) = member_key p) \<Longrightarrow> map member_key (ch_members (on_member c u f s)) = map member_key (ch_members s)"
  by (simp add: on_member_def)

lemma record_kept [simp]: "(\<And>p. member_key (f p) = member_key p) \<Longrightarrow> hasParticipantRecord c' v (on_member c u f s) = hasParticipantRecord c' v s"
  using member_keys_kept [of f c u s] by (metis record_key list.set_map)

lemma left_key [simp]: "member_key (p\<lparr>mb_leftAt := x\<rparr>) = member_key p" "member_key (p\<lparr>mb_leftAt := x, mb_historyHiddenBeforeAt := y\<rparr>) = member_key p"
  "member_key (p\<lparr>mb_wantsPersistence := b\<rparr>) = member_key p" "member_key (p\<lparr>mb_lastReadMessageId := x', mb_lastReadAt := y'\<rparr>) = member_key p"
  "member_key (p\<lparr>mb_joinedFromMessageId := z\<rparr>) = member_key p"
  by (simp_all add: member_key_def)

lemma record_frame [simp]:
  "hasParticipantRecord c u (post es s) = hasParticipantRecord c u s" "hasParticipantRecord c u (s\<lparr>ch_messages := ms\<rparr>) = hasParticipantRecord c u s"
  "hasParticipantRecord c u (s\<lparr>ch_unread := w\<rparr>) = hasParticipantRecord c u s" "hasParticipantRecord c u (s\<lparr>ch_rate := r\<rparr>) = hasParticipantRecord c u s"
  "hasParticipantRecord c u (s\<lparr>ch_typing := t\<rparr>) = hasParticipantRecord c u s" "hasParticipantRecord c u (s\<lparr>ch_out := x\<rparr>) = hasParticipantRecord c u s"
  by (simp_all add: hasParticipantRecord_def post_def)

lemma rejoin_simps [simp]:
  "hasParticipantRecord c u (rejoin d v s) = hasParticipantRecord c u s" "ch_conversations (rejoin c u s) = ch_conversations s"
  "ch_messages (rejoin c u s) = ch_messages s" "ch_unread (rejoin c u s) = ch_unread s" "ch_out (rejoin c u s) = ch_out s"
  "ch_people (rejoin c u s) = ch_people s" "ch_reactions (rejoin c u s) = ch_reactions s"
  by (simp_all add: rejoin_def)

lemma bump_simps [simp]:
  "hasParticipantRecord c u (bump d v s) = hasParticipantRecord c u s" "ch_conversations (bump d v s) = ch_conversations s"
  "ch_messages (bump d v s) = ch_messages s" "ch_out (bump d v s) = ch_out s"
  by (simp_all add: bump_def Let_def)

lemma bumps_simps [simp]:
  "hasParticipantRecord c u (fold (bump d) vs s) = hasParticipantRecord c u s" "ch_conversations (fold (bump d) vs s) = ch_conversations s"
  "ch_messages (fold (bump d) vs s) = ch_messages s" "ch_out (fold (bump d) vs s) = ch_out s"
  by (induction vs arbitrary: s) simp_all

lemma bump_others_simps [simp]:
  "hasParticipantRecord c u (bump_others d v s) = hasParticipantRecord c u s" "ch_conversations (bump_others d v s) = ch_conversations s"
  "ch_messages (bump_others d v s) = ch_messages s" "ch_out (bump_others d v s) = ch_out s"
  by (simp_all add: bump_others_def split: option.splits)

lemma same_rowsI: "ch_conversations s' = ch_conversations s \<Longrightarrow> ch_members s' = ch_members s \<Longrightarrow> ch_messages s' = ch_messages s \<Longrightarrow>
    ch_out s' = ch_out s \<Longrightarrow> same_rows s s'"
  by (simp add: same_rows_def)

lemma tells_nobody [simp]: "tells_members [] s"
  by (simp add: tells_members_def)

lemma tells_append [simp]: "tells_members (es @ es') s \<longleftrightarrow> tells_members es s \<and> tells_members es' s"
  by (auto simp: tells_members_def)

lemma tells_cons [simp]: "tells_members (e # es) s \<longleftrightarrow>
    (case e of NewMessage p v \<Rightarrow> hasParticipantRecord (vw_conversationId v) p s | _ \<Rightarrow> True) \<and> tells_members es s"
  by (cases e) (auto simp: tells_members_def)

subsection \<open>Every request is a sequence of writes\<close>

context chat_writes
begin

lemma rejoins: "I s \<Longrightarrow> I (rejoin c u s)"
  unfolding rejoin_def by (rule changes_member) simp_all

lemma unreads: "I s \<Longrightarrow> I (s\<lparr>ch_unread := w\<rparr>)"
  by (erule aside) (simp add: same_rows_def)

lemma bumps: "I s \<Longrightarrow> I (fold (bump c) vs s)"
  by (induction vs arbitrary: s) (simp_all add: bump_def Let_def unreads rejoins)

lemma bump_all: "I s \<Longrightarrow> I (bump_others c u s)"
  by (simp add: bump_others_def bumps split: option.splits)

lemma member_known: "I s \<Longrightarrow> hasParticipantRecord c u s \<Longrightarrow> c \<in> cv_id ` set (ch_conversations s)"
  using known by (auto simp: hasParticipantRecord_def)

lemma inserts:
  assumes "I s" "c \<in> cv_id ` set (ch_conversations s)" "fresh_ids env s" "hasParticipantRecord c u s"
  shows "I (snd (insertMessage env c u body s))"
  using says [OF assms(1), of "text_row env c u body"] assms(2-) by (simp add: insertMessage_def fresh_ids_def text_row_def Let_def)

lemma inserts_system:
  assumes "I s" "c \<in> cv_id ` set (ch_conversations s)" "fresh_ids env s"
  shows "I (snd (insertSystemMessage env c u payload s))"
  using says [OF assms(1), of "system_row env c u payload"] assms(2-) by (simp add: insertSystemMessage_def fresh_ids_def system_row_def Let_def)

lemma errors: "I s \<Longrightarrow> I (handleError sock event e s)"
  unfolding handleError_def by (erule posts) (simp add: tells_members_def)

lemma typings: "I s \<Longrightarrow> I (snd (setTyping c u b s))"
  by (auto simp: setTyping_def same_rows_def split: option.splits intro: aside)

lemma sends:
  assumes "I s" "fresh_ids env s"
  shows "I (snd (sendChatMessage env c u body s))"
proof (cases "hasParticipantRecord c u s \<and> may_message c u (rejoin c u s) = None")
  case True
  then have "c \<in> cv_id ` set (ch_conversations (rejoin c u s))" using may_message_known by blast
  then have "I (snd (insertMessage env c u body (rejoin c u s)))"
    using True inserts [OF rejoins [OF assms(1)]] assms(2) by (simp add: fresh_ids_def)
  then show ?thesis using True bump_all by (simp add: sendChatMessage_def Let_def case_prod_beta)
qed (use assms rejoins in \<open>auto simp: sendChatMessage_def Let_def split: option.splits\<close>)

lemma sent_message:
  assumes "sendChatMessage env c u body s = (Inr msg, s')"
  shows "hasParticipantRecord c u s' \<and> vw_conversationId msg = c \<and> c \<in> cv_id ` set (ch_conversations s')"
proof -
  have ok: "hasParticipantRecord c u s" "may_message c u (rejoin c u s) = None"
    and s': "s' = bump_others c u (snd (insertMessage env c u body (rejoin c u s)))" "msg = fst (insertMessage env c u body (rejoin c u s))"
    using assms by (auto simp: sendChatMessage_def Let_def case_prod_beta split: if_splits option.splits)
  then show ?thesis using may_message_known [OF ok(2)] by (simp add: insertMessage_def Let_def toMessageRow_def text_row_def)
qed

lemma announced: "hasParticipantRecord c u s \<Longrightarrow> vw_conversationId msg = c \<Longrightarrow> tells_members (announce c u msg s) s"
  by (auto simp: tells_members_def announce_def unread_sync_def member_record split: if_splits)

lemma typing_told [simp]: "tells_members (typing_notes sock c u b s) s"
  by (auto simp: tells_members_def typing_notes_def)

lemma typing_keeps: "setTyping c u b s = (r, s') \<Longrightarrow> hasParticipantRecord d v s' = hasParticipantRecord d v s"
  by (auto simp: setTyping_def split: option.splits)

lemma message_sends:
  assumes "I s" "fresh_ids env s"
  shows "I (snd (on_message_send env sock u c body s))"
proof -
  obtain ok s1 where rate: "checkRateLimit u s = (ok, s1)" by fastforce
  then have s1: "I s1" "fresh_ids env s1"
    using assms aside [of s s1] by (auto simp: checkRateLimit_def Let_def same_rows_def fresh_ids_def)
  obtain r s2 where sent: "sendChatMessage env c u body s1 = (r, s2)" by fastforce
  have s2: "I s2" using sends [OF s1, of c u body] sent by simp
  show ?thesis
  proof (cases r)
    case (Inr msg)
    obtain r3 s3 where typed: "setTyping c u False s2 = (r3, s3)" by fastforce
    have "I s3" using typings [OF s2, of c u False] typed by simp
    moreover have "hasParticipantRecord c u s3" "vw_conversationId msg = c"
      using sent_message sent Inr typing_keeps [OF typed] by auto
    ultimately show ?thesis using rate sent typed Inr s1
      by (auto simp: on_message_send_def posts errors announced split: sum.splits)
  qed (use rate sent s1 s2 in \<open>auto simp: on_message_send_def errors posts\<close>)
qed

lemma others_told [simp]:
  "tells_members (map (\<lambda>j. ReadNote j c m u) js) s" "tells_members (map (\<lambda>p. ReactionUpdate p m c rs) ps) s"
  "tells_members (map (\<lambda>p. EditedMessage p v) ps) s" "tells_members (map (\<lambda>p. ConversationActivity p c x y) ps) s"
  "tells_members (map (\<lambda>p. DeletedMessage p m c True) ps) s" "tells_members [UnreadSync u c 0] s" "tells_members [DeletedHere sock m c] s"
  by (auto simp: tells_members_def)

lemma reads: "I s \<Longrightarrow> I (on_message_read env sock u c m s)"
proof -
  assume "I s"
  have "I (snd (markRead env c m u s))"
  proof (cases "insertReceipt m u s")
    case (Some s1)
    then have "I s1" using \<open>I s\<close> aside [of s s1] by (auto simp: insertReceipt_def same_rows_def split: if_splits)
    then have "I (updateLastRead env c u m s1)" unfolding updateLastRead_def by (rule changes_member) simp
    then show ?thesis using Some by (simp add: markRead_def Let_def unreads)
  qed (simp add: markRead_def \<open>I s\<close>)
  then show ?thesis by (auto simp: on_message_read_def errors posts split: prod.splits sum.splits)
qed

lemma types: "I s \<Longrightarrow> I (on_typing sock u c b s)"
  using typings [of s c u b] by (auto simp: on_typing_def errors posts split: prod.splits sum.splits)

lemma reacts: "I s \<Longrightarrow> I (on_reaction sock u add m c emoji s)"
proof -
  assume "I s"
  have "I (snd (if add then addReaction m c u emoji s else removeReaction m c u emoji s))"
    using aside [OF \<open>I s\<close>] \<open>I s\<close>
    by (auto simp: addReaction_def removeReaction_def insertReaction_def deleteReaction_def Let_def same_rows_def split: option.splits)
  then show ?thesis by (auto simp: on_reaction_def errors posts split: prod.splits sum.splits)
qed

lemma edits_message: "I s \<Longrightarrow> I (on_message_edit env sock u m c content s)"
proof -
  assume "I s"
  have "I (on_message m (edited_row env old content) s)" for old by (rule edits [OF \<open>I s\<close>]) (simp add: edited_row_def)
  then have "I (snd (editMessage env m u content s))"
    using \<open>I s\<close> by (auto simp: editMessage_def editMessageRow_def split: option.splits)
  then show ?thesis by (auto simp: on_message_edit_def errors posts split: prod.splits sum.splits option.splits)
qed

lemma soft_deletes: "I s \<Longrightarrow> I (softDeleteMessage env m forAll s)"
  unfolding softDeleteMessage_def by (erule edits) (simp add: deleted_row_def)

lemma deletes: "I s \<Longrightarrow> I (on_message_delete env sock u m c forAll s)"
  by (auto simp: on_message_delete_def deleteMessage_def errors posts soft_deletes split: prod.splits sum.splits option.splits)

lemma leaves: "I s \<Longrightarrow> I (snd (handleLeaveConversation env u c s))"
proof -
  assume "I s"
  then have "I (snd (markLeft env c u s))" unfolding markLeft_def snd_conv by (rule changes_member) (simp add: member_key_def)
  then show ?thesis using \<open>I s\<close> by (auto simp: handleLeaveConversation_def leaveConversation_def unreads split: prod.splits sum.splits)
qed

lemma persists: "I s \<Longrightarrow> I (snd (handleSetPersistence u c w s))"
proof -
  assume "I s"
  have "I (on_member c u (\<lambda>p. p\<lparr>mb_wantsPersistence := b\<rparr>) s)" for b by (rule changes_member [OF \<open>I s\<close>]) simp
  then have "I (writePersistence c u b s)" for b
    unfolding writePersistence_def Let_def by (rule relabels) (simp add: may_relabel_def linked_def link_of_def)
  then show ?thesis using \<open>I s\<close>
    by (auto simp: handleSetPersistence_def setPersistence_def split: option.splits prod.splits sum.splits)
qed

lemma joins_all: "I s \<Longrightarrow> c \<in> cv_id ` set (ch_conversations s) \<Longrightarrow> I (insertConversationParticipants c us s)"
  unfolding insertConversationParticipants_def by (induction us arbitrary: s) (simp_all add: joins)

lemma opens_with:
  assumes "I s" "fresh_ids env s" "cv_id row = ce_newId env" "linked row"
    and "link_of row = None \<or> link_of row \<notin> link_of ` set (ch_conversations s)"
    and "cv_roomId row = None \<or> cv_roomId row \<notin> cv_roomId ` set (ch_conversations s)"
  shows "I (insert_conversation row us s)"
proof -
  have "I (s\<lparr>ch_conversations := ch_conversations s @ [row]\<rparr>)" using assms by (intro opens) (simp_all add: fresh_ids_def)
  then show ?thesis unfolding insert_conversation_def by (rule joins_all) simp
qed

lemma no_connection_conversation: "connection_conversation k s = None \<Longrightarrow> Some k \<notin> link_of ` set (ch_conversations s)"
  by (auto simp: connection_conversation_def find_None_iff link_of_def split: if_splits)

lemma no_room_conversation: "conversation_of_room r s = None \<Longrightarrow> Some r \<notin> cv_roomId ` set (ch_conversations s)"
  by (auto simp: conversation_of_room_def find_None_iff)

lemma found_room: "conversation_of_room r s = Some row \<Longrightarrow> row \<in> set (ch_conversations s)"
  by (auto simp: conversation_of_room_def find_Some_iff)

lemma fresh_conversation [simp]:
  "cv_id (conversation_of env ty r k b) = ce_newId env" "cv_roomId (conversation_of env ty r k b) = r"
  "link_of (conversation_of env ty r k b) = (if ty = ConnectionChat then k else None)"
  "linked (conversation_of env ty r k b) \<longleftrightarrow> (ty = ConnectionChat \<longrightarrow> k \<noteq> None)"
  by (simp_all add: conversation_of_def link_of_def linked_def)

lemma opens_peer: "I s \<Longrightarrow> fresh_ids env s \<Longrightarrow> I (snd (findOrCreatePeerConversation env a b s))"
  by (auto simp: findOrCreatePeerConversation_def opens_with no_connection_conversation split: option.splits)

lemma opens_conversation: "I s \<Longrightarrow> fresh_ids env s \<Longrightarrow> I (snd (handleCreateConnectionConversation env u t s))"
  using opens_peer [of s env u "the t"]
  by (auto simp: handleCreateConnectionConversation_def getOrCreateConnectionConversation_def rejoins split: option.splits prod.splits sum.splits)

lemma links: "I s \<Longrightarrow> conversation_of_room r s = None \<Longrightarrow> I (linkRoomToConversation c r s)"
  unfolding linkRoomToConversation_def
  by (rule relabels) (auto simp: may_relabel_def linked_def link_of_def dest: no_room_conversation)

lemma relinks: "I s \<Longrightarrow> conversation_of_room r s = None \<Longrightarrow> connection_conversation k s = None \<Longrightarrow> I (relink c k r s)"
  unfolding relink_def
  by (rule relabels) (auto simp: may_relabel_def linked_def link_of_def dest: no_room_conversation no_connection_conversation [unfolded link_of_def])

lemma room_conversation:
  assumes "I s" "fresh_ids env s"
  shows "I (snd (getOrCreateRoomConversation env r ty host s))"
proof (cases "conversation_of_room r s")
  case None
  then have "I (insert_conversation (conversation_of env t (Some r) k b) us s)"
    if "t = ConnectionChat \<Longrightarrow> k \<noteq> None \<and> connection_conversation (the k) s = None" for t k b us
    using opens_with [OF assms, of "conversation_of env t (Some r) k b" us] no_room_conversation [OF None]
      no_connection_conversation [of "the k" s] that by (cases k) auto
  then show ?thesis using None assms(1) links [OF assms(1) None] relinks [OF assms(1) None]
    by (auto simp: getOrCreateRoomConversation_def createDirectRoomConversation_def createSpaceRoomConversation_def Let_def split: option.splits)
qed (simp add: getOrCreateRoomConversation_def assms)

lemma ensures: "I s \<Longrightarrow> I (ensureRoomConversationParticipant r u s)"
  using found_room by (fastforce simp: ensureRoomConversationParticipant_def joins split: option.splits)

lemma tokens: "I s \<Longrightarrow> fresh_ids env s \<Longrightarrow> I (snd (token_conversation env u r room s))"
  by (simp add: token_conversation_def case_prod_beta ensures room_conversation)

lemma expands:
  assumes "I s" "fresh_ids env s"
  shows "I (expand_conversation env r inviter invitee s)"
proof (cases "conversation_of_room r s")
  case (Some row)
  let ?f = "\<lambda>x. x\<lparr>cv_type := RoomSpace, cv_connectionId := None, cv_isPersisted := True, cv_expandedAt := Some (ce_now env),
    cv_expandedByUserId := Some inviter\<rparr>"
  let ?s1 = "on_conversation (cv_id row) ?f s"
  let ?s2 = "add_participant (cv_id row) invitee ?s1"
  have "I ?s1" by (rule relabels [OF assms(1)]) (simp add: may_relabel_def linked_def link_of_def)
  moreover have c: "cv_id row \<in> cv_id ` set (ch_conversations ?s1)" using found_room [OF Some] by simp
  ultimately have "I ?s2" by (rule joins)
  moreover have "fresh_ids env ?s2" using assms(2) by (simp add: fresh_ids_def)
  ultimately have "I (snd (insertSystemMessage env (cv_id row) inviter (user_added invitee) ?s2))"
    using c by (intro inserts_system) simp_all
  then have "I (on_member (cv_id row) invitee (\<lambda>p. p\<lparr>mb_joinedFromMessageId := Some (ce_messageId env)\<rparr>)
      (snd (insertSystemMessage env (cv_id row) inviter (user_added invitee) ?s2)))"
    by (rule changes_member) simp
  then show ?thesis by (simp add: expand_conversation_def Some Let_def)
next
  case None
  let ?row = "(conversation_of env RoomSpace (Some r) None True)\<lparr>cv_expandedAt := Some (ce_now env), cv_expandedByUserId := Some inviter\<rparr>"
  let ?us = "map pt_userId (filter is_active (db_parts (ch_main s) r))"
  have "I (insert_conversation ?row ?us s)"
    using opens_with [OF assms, of ?row] no_room_conversation [OF None] by (simp add: linked_def link_of_def conversation_of_def)
  then have "I (snd (insertSystemMessage env (ce_newId env) inviter (user_added invitee) (insert_conversation ?row ?us s)))"
    using assms(2) says [of "insert_conversation ?row ?us s" "system_row env (ce_newId env) inviter (user_added invitee)"]
    by (simp add: insertSystemMessage_def Let_def fresh_ids_def system_row_def conversation_of_def)
  then show ?thesis by (simp add: expand_conversation_def None Let_def)
qed

lemma publishes:
  assumes "I s" "fresh_ids env s"
  shows "I (snd (publishSystemMessage env c u payload s))"
proof (cases "isParticipant c u s")
  case True
  let ?m = "fst (insertSystemMessage env c u payload s)" and ?s1 = "snd (insertSystemMessage env c u payload s)"
  have "I (bump_others c u ?s1)"
    using inserts_system [OF assms(1) member_known [OF assms(1) active_record [OF True]] assms(2)] by (rule bump_all)
  then show ?thesis using True
    by (auto simp: publishSystemMessage_def case_prod_beta Let_def intro!: posts)
      (auto simp: tells_members_def unread_sync_def member_record insertSystemMessage_def Let_def toMessageRow_def system_row_def split: if_splits)
qed (simp add: publishSystemMessage_def assms)

theorem every_request: "I s \<Longrightarrow> fresh_ids env s \<Longrightarrow> I (chat_do env a s)"
proof (cases a)
  case (Pin b u m)
  assume "I s"
  then show ?thesis using Pin aside [of s]
    by (auto simp: handlePinMessage_def handleUnpinMessage_def handle_pin_def pinMessage_def unpinMessage_def same_rows_def split: option.splits)
next
  case (RoomJoin sock u c)
  assume "I s"
  then show ?thesis using RoomJoin aside [of s] by (simp add: on_room_join_def same_rows_def)
next
  case (RoomLeave sock u c)
  assume "I s"
  then show ?thesis using RoomLeave aside [of s] by (simp add: on_room_leave_def same_rows_def)
next
  case (HttpDelete u m forAll)
  assume "I s"
  then show ?thesis using HttpDelete by (auto simp: handleDeleteMessage_def soft_deletes split: option.splits)
qed (auto simp: message_sends reads types reacts edits_message deletes leaves persists opens_conversation tokens expands publishes
    same_rows_def intro: aside)

theorem every_run: "chat_run s s' \<Longrightarrow> I s \<Longrightarrow> I s'"
  by (induction rule: chat_run.induct) (simp_all add: every_request)

end

end
