(* ===== verification/ChatRules.thy ===== *)
theory ChatRules
  imports ChatSafety
begin

text \<open>
  What holds of chat after any requests: the rows stay sound and nothing is lost, messages reach members only, unread counts
  count, pages cover a history, a block silences a conversation of two; and where the code gives more than it means to.
\<close>

subsection \<open>Sound rows\<close>

definition apart :: "(conversation_row \<Rightarrow> string option) \<Rightarrow> chat \<Rightarrow> bool" where
  "apart f s \<longleftrightarrow> (\<forall>x\<in>set (ch_conversations s). \<forall>y\<in>set (ch_conversations s). cv_id x \<noteq> cv_id y \<longrightarrow> f x = f y \<longrightarrow> f x = None)"

definition keys_ok :: "chat \<Rightarrow> bool" where
  "keys_ok s \<longleftrightarrow> distinct (map cv_id (ch_conversations s)) \<and> distinct (map ms_id (ch_messages s)) \<and> distinct (map member_key (ch_members s)) \<and>
     mb_conversationId ` set (ch_members s) \<subseteq> cv_id ` set (ch_conversations s) \<and>
     ms_conversationId ` set (ch_messages s) \<subseteq> cv_id ` set (ch_conversations s)"

definition authors_ok :: "chat \<Rightarrow> bool" where
  "authors_ok s \<longleftrightarrow> (\<forall>m\<in>set (ch_messages s). ms_messageType m = SystemMessage \<or> hasParticipantRecord (ms_conversationId m) (ms_senderId m) s)"

definition chat_ok :: "chat \<Rightarrow> bool" where
  "chat_ok s \<longleftrightarrow> keys_ok s \<and> authors_ok s \<and> (\<forall>x\<in>set (ch_conversations s). linked x) \<and> apart link_of s \<and> apart cv_roomId s \<and>
     tells_members (ch_out s) s"

text \<open>What a later state still has: the conversations, the members, who wrote what and when, and what was sent.\<close>

definition same_message :: "message_row \<Rightarrow> message_row \<Rightarrow> bool" where
  "same_message m m' \<longleftrightarrow> ms_id m' = ms_id m \<and> ms_conversationId m' = ms_conversationId m \<and> ms_senderId m' = ms_senderId m \<and>
     ms_messageType m' = ms_messageType m \<and> ms_createdAt m' = ms_createdAt m"

definition grows :: "chat \<Rightarrow> chat \<Rightarrow> bool" where
  "grows s s' \<longleftrightarrow> cv_id ` set (ch_conversations s) \<subseteq> cv_id ` set (ch_conversations s') \<and>
     (\<forall>c u. hasParticipantRecord c u s \<longrightarrow> hasParticipantRecord c u s') \<and>
     (\<forall>m\<in>set (ch_messages s). \<exists>m'\<in>set (ch_messages s'). same_message m m') \<and> (\<exists>es. ch_out s' = ch_out s @ es)"

lemma same_rows_record: "same_rows s s' \<Longrightarrow> hasParticipantRecord c u s' = hasParticipantRecord c u s"
  by (simp add: same_rows_def hasParticipantRecord_def)

lemma added_record: "hasParticipantRecord d v (add_participant c u s) \<longleftrightarrow> hasParticipantRecord d v s \<or> (d = c \<and> v = u)"
  by (auto simp: add_participant_def hasParticipantRecord_def new_member_def)

lemma converse_record [simp]: "hasParticipantRecord c u (s\<lparr>ch_conversations := cs\<rparr>) = hasParticipantRecord c u s"
  "hasParticipantRecord c u (on_message m f s) = hasParticipantRecord c u s" "hasParticipantRecord c u (on_conversation d h s) = hasParticipantRecord c u s"
  by (simp_all add: hasParticipantRecord_def on_message_def on_conversation_def)

lemma tells_cong: "(\<And>c u. hasParticipantRecord c u s \<Longrightarrow> hasParticipantRecord c u s') \<Longrightarrow> tells_members es s \<Longrightarrow> tells_members es s'"
  by (auto simp: tells_members_def)

lemma ok_aside: "chat_ok s \<Longrightarrow> same_rows s s' \<Longrightarrow> chat_ok s'"
  using same_rows_record [of s s']
  by (simp add: chat_ok_def keys_ok_def authors_ok_def apart_def tells_members_def same_rows_def)

lemma ok_posts: "chat_ok s \<Longrightarrow> tells_members es s \<Longrightarrow> chat_ok (post es s)"
  by (simp add: chat_ok_def keys_ok_def authors_ok_def apart_def tells_members_def)

lemma ok_says: "chat_ok s \<Longrightarrow> ms_conversationId row \<in> cv_id ` set (ch_conversations s) \<Longrightarrow> ms_id row \<notin> ms_id ` set (ch_messages s) \<Longrightarrow>
    ms_messageType row = SystemMessage \<or> hasParticipantRecord (ms_conversationId row) (ms_senderId row) s \<Longrightarrow>
    chat_ok (s\<lparr>ch_messages := ch_messages s @ [row]\<rparr>)"
  by (auto simp: chat_ok_def keys_ok_def authors_ok_def apart_def tells_members_def)

lemma message_list:
  assumes "\<And>row. ms_id (f row) = ms_id row \<and> ms_conversationId (f row) = ms_conversationId row \<and> ms_senderId (f row) = ms_senderId row \<and>
    ms_messageType (f row) = ms_messageType row \<and> ms_createdAt (f row) = ms_createdAt row"
  shows "map ms_id (ch_messages (on_message m f s)) = map ms_id (ch_messages s)"
    and "ms_conversationId ` set (ch_messages (on_message m f s)) = ms_conversationId ` set (ch_messages s)"
    and "x \<in> set (ch_messages (on_message m f s)) \<Longrightarrow> \<exists>y\<in>set (ch_messages s). same_message y x"
    and "y \<in> set (ch_messages s) \<Longrightarrow> \<exists>x\<in>set (ch_messages (on_message m f s)). same_message y x"
proof -
  show "map ms_id (ch_messages (on_message m f s)) = map ms_id (ch_messages s)" using assms by (simp add: on_message_def)
  have "map ms_conversationId (ch_messages (on_message m f s)) = map ms_conversationId (ch_messages s)" using assms by (simp add: on_message_def)
  then show "ms_conversationId ` set (ch_messages (on_message m f s)) = ms_conversationId ` set (ch_messages s)" by (metis list.set_map)
qed (use assms in \<open>auto simp: on_message_def same_message_def\<close>)

lemma ok_edits:
  assumes "chat_ok s" "\<And>row. ms_id (f row) = ms_id row \<and> ms_conversationId (f row) = ms_conversationId row \<and>
    ms_senderId (f row) = ms_senderId row \<and> ms_messageType (f row) = ms_messageType row \<and> ms_createdAt (f row) = ms_createdAt row"
  shows "chat_ok (on_message m f s)"
proof -
  have "authors_ok (on_message m f s)"
    unfolding authors_ok_def using assms(1) message_list(3) [of f, OF assms(2)]
    by (fastforce simp: chat_ok_def authors_ok_def same_message_def)
  then show ?thesis using assms(1) message_list(1,2) [of f m s, OF assms(2)]
    by (simp add: chat_ok_def keys_ok_def apart_def tells_members_def)
qed

lemma ok_joins: "chat_ok s \<Longrightarrow> c \<in> cv_id ` set (ch_conversations s) \<Longrightarrow> chat_ok (add_participant c u s)"
proof -
  assume ok: "chat_ok s" and c: "c \<in> cv_id ` set (ch_conversations s)"
  have "keys_ok (add_participant c u s)" using ok c
    by (auto simp: chat_ok_def keys_ok_def add_participant_def record_key new_member_def member_key_def)
  then show ?thesis using ok by (auto simp: chat_ok_def authors_ok_def apart_def added_record tells_members_def)
qed

lemma ok_changes_member:
  assumes "chat_ok s" "\<And>p. member_key (g p) = member_key p"
  shows "chat_ok (on_member c u g s)"
proof -
  have keys: "map member_key (ch_members (on_member c u g s)) = map member_key (ch_members s)" by (rule member_keys_kept) (rule assms(2))
  have "mb_conversationId ` set (ch_members x) = fst ` set (map member_key (ch_members x))" for x
    by (simp add: image_image member_key_def)
  then have "mb_conversationId ` set (ch_members (on_member c u g s)) = mb_conversationId ` set (ch_members s)" by (metis keys)
  then show ?thesis using assms keys by (simp add: chat_ok_def keys_ok_def authors_ok_def apart_def tells_members_def)
qed

lemma apart_opens: "apart f s \<Longrightarrow> f row = None \<or> f row \<notin> f ` set (ch_conversations s) \<Longrightarrow> apart f (s\<lparr>ch_conversations := ch_conversations s @ [row]\<rparr>)"
  by (auto simp: apart_def image_iff)

lemma ok_opens: "chat_ok s \<Longrightarrow> cv_id row \<notin> cv_id ` set (ch_conversations s) \<Longrightarrow> linked row \<Longrightarrow>
    link_of row = None \<or> link_of row \<notin> link_of ` set (ch_conversations s) \<Longrightarrow>
    cv_roomId row = None \<or> cv_roomId row \<notin> cv_roomId ` set (ch_conversations s) \<Longrightarrow>
    chat_ok (s\<lparr>ch_conversations := ch_conversations s @ [row]\<rparr>)"
  using apart_opens [of link_of s row] apart_opens [of cv_roomId s row]
  by (auto simp: chat_ok_def keys_ok_def authors_ok_def tells_members_def)

lemma relabelled: "x' \<in> set (ch_conversations (on_conversation c h s)) \<Longrightarrow>
    \<exists>x\<in>set (ch_conversations s). x' = (if cv_id x = c then h x else x)"
  by (auto simp: on_conversation_def)

lemma apart_relabels:
  assumes "apart f s" "\<And>x. x \<in> set (ch_conversations s) \<Longrightarrow> cv_id x = c \<Longrightarrow> cv_id (h x) = c \<and>
    (f (h x) = f x \<or> f (h x) \<notin> f ` set (ch_conversations s) \<or> f (h x) = None)"
  shows "apart f (on_conversation c h s)"
  unfolding apart_def
proof (intro ballI impI)
  fix x' y'
  assume "x' \<in> set (ch_conversations (on_conversation c h s))" "y' \<in> set (ch_conversations (on_conversation c h s))"
  then obtain x y where xy: "x \<in> set (ch_conversations s)" "x' = (if cv_id x = c then h x else x)"
    "y \<in> set (ch_conversations s)" "y' = (if cv_id y = c then h y else y)" using relabelled by meson
  assume "cv_id x' \<noteq> cv_id y'" "f x' = f y'"
  then show "f x' = None" using xy assms(2) [OF xy(1)] assms(2) [OF xy(3)] assms(1) unfolding apart_def
    by (auto split: if_splits) (metis imageI)+
qed

lemma ok_relabels:
  assumes "chat_ok s" "\<And>x. x \<in> set (ch_conversations s) \<Longrightarrow> cv_id x = c \<Longrightarrow> may_relabel s x (h x)"
  shows "chat_ok (on_conversation c h s)"
proof -
  have ids: "map cv_id (ch_conversations (on_conversation c h s)) = map cv_id (ch_conversations s)"
    using assms(2) by (simp add: on_conversation_def may_relabel_def)
  then have ids': "cv_id ` set (ch_conversations (on_conversation c h s)) = cv_id ` set (ch_conversations s)" by (metis list.set_map)
  have row: "cv_id (h x) = c \<and> (link_of (h x) = link_of x \<or> link_of (h x) \<notin> link_of ` set (ch_conversations s) \<or> link_of (h x) = None) \<and>
      (cv_roomId (h x) = cv_roomId x \<or> cv_roomId (h x) \<notin> cv_roomId ` set (ch_conversations s) \<or> cv_roomId (h x) = None)"
    if "x \<in> set (ch_conversations s)" "cv_id x = c" for x
    using assms(2) [OF that] that(2) by (auto simp: may_relabel_def)
  have "apart link_of (on_conversation c h s)" "apart cv_roomId (on_conversation c h s)"
    using assms(1) apart_relabels [of link_of s c h] apart_relabels [of cv_roomId s c h] row by (simp_all add: chat_ok_def)
  moreover have "\<forall>x\<in>set (ch_conversations (on_conversation c h s)). linked x"
    using assms relabelled [of _ c h s] by (fastforce simp: chat_ok_def may_relabel_def)
  ultimately show ?thesis using assms(1) ids ids' by (simp add: chat_ok_def keys_ok_def authors_ok_def tells_members_def)
qed

interpretation sound: chat_writes chat_ok
proof
  show "mb_conversationId p \<in> cv_id ` set (ch_conversations s)" if "chat_ok s" "p \<in> set (ch_members s)" for s p
    using that by (auto simp: chat_ok_def keys_ok_def)
qed (fact ok_aside ok_posts ok_says ok_edits ok_joins ok_changes_member ok_opens ok_relabels)+

lemma same_message_refl [simp]: "same_message m m"
  by (simp add: same_message_def)

lemma grows_refl [simp]: "grows s s"
  by (auto simp: grows_def intro: same_message_refl)

lemma grows_trans:
  assumes "grows s s'" "grows s' s''"
  shows "grows s s''"
proof -
  have "\<exists>m''\<in>set (ch_messages s''). same_message m m''" if "m \<in> set (ch_messages s)" for m
    using assms that unfolding grows_def same_message_def by (metis (no_types, lifting))
  moreover obtain es es' where "ch_out s' = ch_out s @ es" "ch_out s'' = ch_out s' @ es'" using assms by (auto simp: grows_def)
  ultimately show ?thesis using assms unfolding grows_def by (metis (no_types, lifting) append.assoc subset_trans)
qed

lemma grows_rows: "ch_conversations s' = ch_conversations s \<Longrightarrow> ch_members s' = ch_members s \<Longrightarrow> ch_messages s' = ch_messages s @ ms \<Longrightarrow>
    ch_out s' = ch_out s @ es \<Longrightarrow> grows s s'"
  by (auto simp: grows_def hasParticipantRecord_def intro: same_message_refl)

interpretation lasting: chat_writes "\<lambda>s. chat_ok s \<and> grows s0 s" for s0
proof unfold_locales
  fix s
  assume I: "chat_ok s \<and> grows s0 s"
  note grow = grows_trans [OF conjunct2 [OF I]]
  show "mb_conversationId p \<in> cv_id ` set (ch_conversations s)" if "p \<in> set (ch_members s)" for p
    using I that sound.known by blast
  show "chat_ok s' \<and> grows s0 s'" if "same_rows s s'" for s'
    using I that ok_aside grow grows_rows [of s' s "[]" "[]"] by (auto simp: same_rows_def)
  show "chat_ok (post es s) \<and> grows s0 (post es s)" if "tells_members es s" for es
    using I that ok_posts grow grows_rows [of "post es s" s "[]" es] by auto
  show "chat_ok (s\<lparr>ch_messages := ch_messages s @ [row]\<rparr>) \<and> grows s0 (s\<lparr>ch_messages := ch_messages s @ [row]\<rparr>)"
    if "ms_conversationId row \<in> cv_id ` set (ch_conversations s)" "ms_id row \<notin> ms_id ` set (ch_messages s)"
      "ms_messageType row = SystemMessage \<or> hasParticipantRecord (ms_conversationId row) (ms_senderId row) s" for row
    using I that ok_says grow grows_rows [of "s\<lparr>ch_messages := ch_messages s @ [row]\<rparr>" s "[row]" "[]"] by auto
  show "chat_ok (on_message m f s) \<and> grows s0 (on_message m f s)"
    if "\<And>row. ms_id (f row) = ms_id row \<and> ms_conversationId (f row) = ms_conversationId row \<and> ms_senderId (f row) = ms_senderId row \<and>
      ms_messageType (f row) = ms_messageType row \<and> ms_createdAt (f row) = ms_createdAt row" for m f
    using I ok_edits [of s f m] that message_list(4) [of f _ s m] by (intro conjI grow) (auto simp: grows_def)
  show "chat_ok (add_participant c u s) \<and> grows s0 (add_participant c u s)" if "c \<in> cv_id ` set (ch_conversations s)" for c u
    using I ok_joins that by (intro conjI grow) (auto simp: grows_def added_record intro: same_message_refl)
  show "chat_ok (on_member c u g s) \<and> grows s0 (on_member c u g s)" if "\<And>p. member_key (g p) = member_key p" for c u g
    using I ok_changes_member that by (intro conjI grow) (auto simp: grows_def that intro: same_message_refl)
  show "chat_ok (s\<lparr>ch_conversations := ch_conversations s @ [conv]\<rparr>) \<and> grows s0 (s\<lparr>ch_conversations := ch_conversations s @ [conv]\<rparr>)"
    if "cv_id conv \<notin> cv_id ` set (ch_conversations s)" "linked conv"
      "link_of conv = None \<or> link_of conv \<notin> link_of ` set (ch_conversations s)"
      "cv_roomId conv = None \<or> cv_roomId conv \<notin> cv_roomId ` set (ch_conversations s)" for conv
    using I ok_opens that by (intro conjI grow) (auto simp: grows_def intro: same_message_refl)
  show "chat_ok (on_conversation c h s) \<and> grows s0 (on_conversation c h s)"
    if "\<And>x. x \<in> set (ch_conversations s) \<Longrightarrow> cv_id x = c \<Longrightarrow> may_relabel s x (h x)" for c h
  proof (intro conjI grow)
    show "chat_ok (on_conversation c h s)" using I ok_relabels that by blast
    have "map cv_id (ch_conversations (on_conversation c h s)) = map cv_id (ch_conversations s)"
      using that by (simp add: on_conversation_def may_relabel_def)
    then have "cv_id ` set (ch_conversations (on_conversation c h s)) = cv_id ` set (ch_conversations s)" by (metis list.set_map)
    then show "grows s (on_conversation c h s)" by (auto simp: grows_def intro: same_message_refl)
  qed
qed

lemma no_chat_ok: "chat_ok (no_chat m p)"
  by (simp add: chat_ok_def keys_ok_def authors_ok_def apart_def tells_members_def no_chat_def)


subsection \<open>Unread counts\<close>

definition unread_of :: "string \<Rightarrow> string \<Rightarrow> chat \<Rightarrow> int" where
  "unread_of u c s = nullish_or (ch_unread s u c) 0"

text \<open>The request makes the user's count of the conversation zero: the user reads a message, or leaves.\<close>

fun clears :: "chat_request \<Rightarrow> string \<Rightarrow> string \<Rightarrow> chat \<Rightarrow> bool" where
  "clears (MessageRead sock v d m) u c s \<longleftrightarrow> v = u \<and> d = c \<and> findMessageRow m s \<noteq> None"
| "clears (LeaveConversation v d) u c s \<longleftrightarrow> v = u \<and> d = c \<and> isParticipant c u s"
| "clears a u c s \<longleftrightarrow> False"

text \<open>The entry that somebody was added to a call is not counted.\<close>

fun counted :: "chat_request \<Rightarrow> bool" where
  "counted (CallExpanded r a b) \<longleftrightarrow> False"
| "counted a \<longleftrightarrow> True"

definition new_for :: "string \<Rightarrow> string \<Rightarrow> chat \<Rightarrow> chat \<Rightarrow> nat" where
  "new_for u c s s' = length (filter (\<lambda>m. ms_conversationId m = c \<and> ms_senderId m \<noteq> u) (drop (length (ch_messages s)) (ch_messages s')))"

fun tally :: "(chat_env \<times> chat_request) list \<Rightarrow> string \<Rightarrow> string \<Rightarrow> chat \<Rightarrow> int \<Rightarrow> int" where
  "tally [] u c s n = n"
| "tally ((env, a) # es) u c s n = tally es u c (chat_do env a s)
     (if clears a u c s then 0
      else if counted a \<and> hasParticipantRecord c u s then n + int (new_for u c s (chat_do env a s)) else n)"

fun chat_does :: "(chat_env \<times> chat_request) list \<Rightarrow> chat \<Rightarrow> chat" where
  "chat_does [] s = s"
| "chat_does ((env, a) # es) s = chat_does es (chat_do env a s)"

fun fresh_run :: "(chat_env \<times> chat_request) list \<Rightarrow> chat \<Rightarrow> bool" where
  "fresh_run [] s \<longleftrightarrow> True"
| "fresh_run ((env, a) # es) s \<longleftrightarrow> fresh_ids env s \<and> fresh_run es (chat_do env a s)"

lemma members_distinct: "distinct (map member_key (ch_members s)) \<Longrightarrow> distinct (members_of c s)"
proof -
  have "distinct (map member_key ps) \<Longrightarrow> distinct (map mb_userId (filter (\<lambda>p. mb_conversationId p = c) ps))" for ps
    by (induction ps) (auto simp: member_key_def image_iff)
  then show "distinct (map member_key (ch_members s)) \<Longrightarrow> distinct (members_of c s)" by (simp add: members_of_def)
qed

lemma bump_unread: "unread_of u c (bump d v s) = unread_of u c s + (if c = d \<and> u = v then 1 else 0)"
  by (simp add: unread_of_def bump_def Let_def)

lemma bumps_unread: "distinct vs \<Longrightarrow> unread_of u c (fold (bump d) vs s) = unread_of u c s + (if c = d \<and> u \<in> set vs then 1 else 0)"
  by (induction vs arbitrary: s) (auto simp: bump_unread)

lemma others_unread:
  assumes "distinct (map member_key (ch_members s))" "d \<in> cv_id ` set (ch_conversations s)"
  shows "unread_of u c (bump_others d x s) = unread_of u c s + (if c = d \<and> u \<noteq> x \<and> hasParticipantRecord c u s then 1 else 0)"
proof -
  obtain row where "findConversationById d s = Some row" using assms(2) missing_conversation [of d s] by auto
  then show ?thesis using members_distinct [OF assms(1), of d]
    by (auto simp: bump_others_def bumps_unread member_record)
qed

lemma unread_frame:
  "unread_of u c (post es s) = unread_of u c s" "unread_of u c (rejoin d v s) = unread_of u c s" "unread_of u c (s\<lparr>ch_messages := ms\<rparr>) = unread_of u c s"
  "unread_of u c (s\<lparr>ch_rate := r\<rparr>) = unread_of u c s" "unread_of u c (s\<lparr>ch_typing := t\<rparr>) = unread_of u c s"
  by (simp_all add: unread_of_def)

lemma rejoin_keys: "map member_key (ch_members (rejoin c u s)) = map member_key (ch_members s)"
  unfolding rejoin_def by (rule member_keys_kept) simp

text \<open>Requests that add no message and change no count.\<close>

definition quiet :: "chat \<Rightarrow> chat \<Rightarrow> bool" where
  "quiet s s' \<longleftrightarrow> ch_unread s' = ch_unread s \<and> length (ch_messages s') = length (ch_messages s)"

lemma quiet_refl [simp]: "quiet s s"
  by (simp add: quiet_def)

lemma quiet_writes [simp]:
  "quiet s (post es s') = quiet s s'" "quiet s (handleError sock e er s') = quiet s s'" "quiet s (on_member c u f s') = quiet s s'"
  "quiet s (rejoin c u s') = quiet s s'" "quiet s (add_participant c u s') = quiet s s'" "quiet s (on_conversation c h s') = quiet s s'"
  "quiet s (on_message m g s') = quiet s s'" "quiet s (insert_conversation row us s') = quiet s s'"
  by (simp_all add: quiet_def handleError_def) (simp_all add: on_message_def)

lemma quiet_typing: "setTyping c u b s = (r, s') \<Longrightarrow> quiet s s'"
  by (auto simp: setTyping_def quiet_def split: option.splits)

lemma quiet_reaction: "(if add then addReaction m c u emoji s else removeReaction m c u emoji s) = (r, s') \<Longrightarrow> quiet s s'"
  by (auto simp: addReaction_def removeReaction_def insertReaction_def deleteReaction_def Let_def quiet_def split: option.splits if_splits)

lemma quiet_edit: "editMessage env m u content s = (r, s') \<Longrightarrow> quiet s s'"
  by (auto simp: editMessage_def editMessageRow_def split: option.splits if_splits)

lemma quiet_delete: "quiet s (softDeleteMessage env m b s)" "deleteMessage env m u b s = (r, s') \<Longrightarrow> quiet s s'"
  by (auto simp: softDeleteMessage_def deleteMessage_def split: option.splits if_splits)

lemma quiet_open: "quiet s (snd (handleCreateConnectionConversation env u t s))"
  by (auto simp: handleCreateConnectionConversation_def getOrCreateConnectionConversation_def findOrCreatePeerConversation_def
    split: option.splits prod.splits sum.splits if_splits)

lemma quiet_persist: "quiet s (snd (handleSetPersistence u c w s))"
  by (auto simp: handleSetPersistence_def setPersistence_def writePersistence_def Let_def split: option.splits)

lemma quiet_token: "quiet s (snd (token_conversation env u r room s))"
proof -
  have "quiet s (snd (getOrCreateRoomConversation env r ty host s))" for ty host
    by (auto simp: getOrCreateRoomConversation_def createDirectRoomConversation_def createSpaceRoomConversation_def Let_def
      linkRoomToConversation_def relink_def split: option.splits)
  then show ?thesis by (auto simp: token_conversation_def case_prod_beta ensureRoomConversationParticipant_def split: option.splits)
qed

definition loud :: "chat_request \<Rightarrow> bool" where
  "loud a \<longleftrightarrow> (case a of MessageSend sock u c body \<Rightarrow> True | CallEntry c u p \<Rightarrow> True | CallExpanded r a b \<Rightarrow> True
     | MessageRead sock u c m \<Rightarrow> True | LeaveConversation u c \<Rightarrow> True | _ \<Rightarrow> False)"

lemma quiet_request: "\<not> loud a \<Longrightarrow> quiet s (chat_do env a s)"
proof (cases a)
  case (Typing sock u c b)
  then show ?thesis using quiet_typing [of c u b s] by (auto simp: on_typing_def split: prod.splits sum.splits)
next
  case (Reaction sock u add m c emoji)
  then show ?thesis using quiet_reaction [of add m c u emoji s] by (auto simp: on_reaction_def split: prod.splits sum.splits)
next
  case (MessageEdit sock u m c content)
  then show ?thesis using quiet_edit [of env m u content s] by (auto simp: on_message_edit_def split: prod.splits sum.splits option.splits)
next
  case (MessageDelete sock u m c b)
  then show ?thesis using quiet_delete(2) [of env m u b s] by (auto simp: on_message_delete_def split: prod.splits sum.splits)
next
  case (HttpDelete u m b)
  then show ?thesis by (auto simp: handleDeleteMessage_def quiet_delete split: option.splits)
next
  case (Pin b u m)
  then show ?thesis by (auto simp: handlePinMessage_def handleUnpinMessage_def handle_pin_def pinMessage_def unpinMessage_def quiet_def split: option.splits)
qed (auto simp: loud_def quiet_open quiet_persist quiet_token on_room_join_def on_room_leave_def, auto simp: quiet_def)

lemma quiet_unread: "quiet s s' \<Longrightarrow> unread_of u c s' = unread_of u c s \<and> new_for u c s s' = 0"
  by (simp add: quiet_def unread_of_def new_for_def)

lemma said_unread:
  assumes "chat_ok s" "c \<in> cv_id ` set (ch_conversations s)" "ms_conversationId row = c" "ms_senderId row = x"
    "ch_messages s' = ch_messages s @ [row]" "\<And>d. unread_of u d s' = unread_of u d (bump_others c x (s\<lparr>ch_messages := ch_messages s @ [row]\<rparr>))"
  shows "unread_of u d s' = unread_of u d s + (if hasParticipantRecord d u s then int (new_for u d s s') else 0)"
proof -
  have "unread_of u d s' = unread_of u d s + (if d = c \<and> u \<noteq> x \<and> hasParticipantRecord d u s then 1 else 0)"
    using assms(1,2,6) others_unread [of "s\<lparr>ch_messages := ch_messages s @ [row]\<rparr>" c u d x] by (simp add: chat_ok_def keys_ok_def unread_frame)
  then show ?thesis using assms(3-5) by (auto simp: new_for_def)
qed

definition step_counts :: "string \<Rightarrow> string \<Rightarrow> chat \<Rightarrow> chat \<Rightarrow> bool" where
  "step_counts u d s s' \<longleftrightarrow> unread_of u d s' = unread_of u d s + (if hasParticipantRecord d u s then int (new_for u d s s') else 0)"

lemma quiet_counts: "quiet s s' \<Longrightarrow> step_counts u d s s'"
  by (simp add: step_counts_def quiet_unread)

lemma counts_quiet_after: "step_counts u d s s' \<Longrightarrow> ch_unread s'' = ch_unread s' \<Longrightarrow> ch_messages s'' = ch_messages s' \<Longrightarrow> step_counts u d s s''"
  by (simp add: step_counts_def unread_of_def new_for_def)

lemma send_counts:
  assumes "chat_ok s"
  shows "step_counts u d s (snd (sendChatMessage env c x body s))"
proof (cases "hasParticipantRecord c x s \<and> may_message c x (rejoin c x s) = None")
  case True
  let ?s1 = "rejoin c x s"
  let ?row = "text_row env c x body"
  have s': "snd (sendChatMessage env c x body s) = bump_others c x (?s1\<lparr>ch_messages := ch_messages ?s1 @ [?row]\<rparr>)"
    using True by (simp add: sendChatMessage_def insertMessage_def Let_def)
  have "c \<in> cv_id ` set (ch_conversations ?s1)" using True may_message_known by blast
  then have "step_counts u d ?s1 (snd (sendChatMessage env c x body s))"
    using said_unread [OF sound.rejoins [OF assms], where row = ?row and c = c and x = x] by (simp add: step_counts_def s' text_row_def)
  then show ?thesis by (simp add: step_counts_def unread_frame new_for_def)
qed (auto simp: sendChatMessage_def Let_def intro!: quiet_counts split: option.splits)

lemma on_send_counts:
  assumes "chat_ok s"
  shows "step_counts u d s (snd (on_message_send env sock x c body s))"
proof -
  obtain ok s1 where rate: "checkRateLimit x s = (ok, s1)" by fastforce
  then have s1: "same_rows s s1" "ch_unread s1 = ch_unread s" by (auto simp: checkRateLimit_def Let_def same_rows_def)
  have sent: "step_counts u d s (snd (sendChatMessage env c x body s1))"
    using send_counts [OF ok_aside [OF assms s1(1)], of u d env c x body] s1 same_rows_record [OF s1(1)]
    by (simp add: step_counts_def unread_of_def new_for_def same_rows_def)
  have typed: "ch_unread s3 = ch_unread s2 \<and> ch_messages s3 = ch_messages s2" if "setTyping c x False s2 = (r, s3)" for r s2 s3
    using that by (auto simp: setTyping_def split: option.splits)
  show ?thesis using rate sent s1
    by (auto simp: on_message_send_def handleError_def same_rows_def split: prod.splits sum.splits dest!: typed
      intro: quiet_counts counts_quiet_after) (auto simp: quiet_def intro!: quiet_counts)
qed

lemma entry_counts:
  assumes "chat_ok s"
  shows "step_counts u d s (snd (publishSystemMessage env c x p s))"
proof (cases "isParticipant c x s")
  case True
  let ?s1 = "s\<lparr>ch_messages := ch_messages s @ [system_row env c x p]\<rparr>"
  have "step_counts u d s (bump_others c x ?s1)"
    using said_unread [OF assms sound.member_known [OF assms active_record [OF True]], of "system_row env c x p"]
    by (simp add: step_counts_def system_row_def)
  moreover have "ch_unread (snd (publishSystemMessage env c x p s)) = ch_unread (bump_others c x ?s1)"
    "ch_messages (snd (publishSystemMessage env c x p s)) = ch_messages (bump_others c x ?s1)"
    using True by (simp_all add: publishSystemMessage_def insertSystemMessage_def Let_def)
  ultimately show ?thesis by (rule counts_quiet_after)
qed (simp add: publishSystemMessage_def quiet_counts)

lemma expand_unread: "ch_unread (expand_conversation env r a b s) = ch_unread s"
  by (auto simp: expand_conversation_def insertSystemMessage_def Let_def split: option.splits)

lemma read_unread: "ch_messages (on_message_read env sock x c m s) = ch_messages s \<and>
    unread_of u d (on_message_read env sock x c m s) = (if x = u \<and> c = d \<and> findMessageRow m s \<noteq> None then 0 else unread_of u d s)"
  by (auto simp: on_message_read_def markRead_def insertReceipt_def Let_def handleError_def updateLastRead_def unread_of_def)

lemma leave_unread: "length (ch_messages (snd (handleLeaveConversation env x c s))) = length (ch_messages s) \<and>
    unread_of u d (snd (handleLeaveConversation env x c s)) = (if x = u \<and> c = d \<and> isParticipant c x s then 0 else unread_of u d s)"
  by (auto simp: handleLeaveConversation_def leaveConversation_def markLeft_def unread_of_def)

lemma request_counts:
  assumes "chat_ok s"
  shows "unread_of u c (chat_do env a s) = (if clears a u c s then 0
    else if counted a \<and> hasParticipantRecord c u s then unread_of u c s + int (new_for u c s (chat_do env a s)) else unread_of u c s)"
proof (cases "loud a")
  case False
  then have "\<not> clears a u c s" by (cases a) (simp_all add: loud_def)
  then show ?thesis using quiet_unread [OF quiet_request [OF False]] by simp
next
  case True
  then show ?thesis
  proof (cases a)
    case (MessageSend sock x d body)
    then show ?thesis using on_send_counts [OF assms, of u c env sock x d body] by (simp add: step_counts_def)
  next
    case (CallEntry d x p)
    then show ?thesis using entry_counts [OF assms, of u c env d x p] by (simp add: step_counts_def)
  next
    case (CallExpanded r x y)
    then show ?thesis by (simp add: unread_of_def expand_unread)
  next
    case (MessageRead sock x d m)
    then show ?thesis using read_unread [of env sock x d m s u c] by (auto simp: new_for_def)
  next
    case (LeaveConversation x d)
    then show ?thesis using leave_unread [of env x d s u c] by (auto simp: new_for_def)
  qed (simp_all add: loud_def)
qed

text \<open>
  C17. Unread counts count. After any requests, the count of a conversation that a user is shown is the number of messages that
  others have written to it while the user was a member, since the user last read one of its messages or left it; an entry that
  somebody joined a call is not counted, and no other request changes a count.
\<close>

theorem unread_counts_messages:
  assumes "chat_run (no_chat m p) s" "fresh_run es s"
  shows "unread_of u c (chat_does es s) = tally es u c s (unread_of u c s)"
proof -
  have "chat_ok s" using assms(1) no_chat_ok by (rule sound.every_run)
  then show ?thesis using assms(2)
  proof (induction es arbitrary: s)
    case (Cons e es)
    obtain env a where e: "e = (env, a)" by fastforce
    have "chat_ok (chat_do env a s)" using Cons.prems sound.every_request by (simp add: e)
    then show ?case using Cons.IH [of "chat_do env a s"] Cons.prems request_counts [of s u c env a] by (simp add: e)
  qed simp
qed

subsection \<open>Witnesses\<close>

text \<open>Two connected users, who write to each other and then have a call in the room \<open>r\<close>.\<close>

definition pals :: people where
  "pals = \<lparr>pe_connections = [\<lparr>cn_id = ''k'', cn_requesterId = ''a'', cn_addresseeId = ''b'', cn_status = AcceptedConnection\<rparr>], pe_blocks = [],
     pe_peers = (\<lambda>_. {}), pe_blockOut = (\<lambda>_. {}), pe_blockIn = (\<lambda>_. {}), pe_out = []\<rparr>"

definition call_part :: "string \<Rightarrow> part_row" where
  "call_part u = \<lparr>pt_userId = u, pt_role = ParticipantRole, pt_joinedAt = 0, pt_leftAt = None\<rparr>"

definition call_rooms :: main_store where
  "call_rooms = \<lparr>db_rooms = (\<lambda>_. None), db_parts = (\<lambda>r. if r = ''r'' then [call_part ''a'', call_part ''b''] else []), db_invites = [],
     db_restricted = [], db_strikes = (\<lambda>_. 0), db_banned = [], rd_session = (\<lambda>_. []), rd_active = (\<lambda>_. None), rd_nsfw = (\<lambda>_ _. False),
     cc_invite = (\<lambda>_. []), cc_pendingForCallee = (\<lambda>_. None), cc_pendingByRoom = (\<lambda>_. None), cc_activeByRoom = (\<lambda>_. None),
     cc_historyLogged = (\<lambda>_. False), cc_historyLoggedForRequest = (\<lambda>_. False), out = []\<rparr>"

definition pal_env :: "nat \<Rightarrow> chat_env" where
  "pal_env n = \<lparr>ce_now = int n, ce_dbNow = 1000 * int n, ce_newId = CHR ''c'' # nat_str n, ce_messageId = CHR ''m'' # nat_str n,
     ce_encrypt = (\<lambda>t. (CHR ''x'' # t, ''iv'')), ce_decrypt = (\<lambda>t iv. if iv = ''iv'' then Some (tl t) else None)\<rparr>"

definition says_text :: "string \<Rightarrow> message_body" where
  "says_text t = \<lparr>bd_content = t, bd_messageType = None, bd_replyToId = None, bd_mentions = None\<rparr>"

definition pals_write :: "(chat_env \<times> chat_request) list" where
  "pals_write = [(pal_env 1, OpenConversation ''a'' (Some ''b'')), (pal_env 2, MessageSend ''s'' ''a'' ''c1'' (says_text ''hi'')),
     (pal_env 3, MessageSend ''t'' ''b'' ''c1'' (says_text ''yo''))]"

definition pal_chat :: chat where
  "pal_chat = chat_does pals_write (no_chat call_rooms pals)"

lemma runs: "chat_run s0 s \<Longrightarrow> fresh_run es s \<Longrightarrow> chat_run s0 (chat_does es s)"
proof (induction es arbitrary: s)
  case (Cons e es)
  then show ?case by (cases e) (simp add: chat_more)
qed simp

lemma pals_fresh: "fresh_run pals_write (no_chat call_rooms pals)"
  by code_simp

lemma pal_run: "chat_run (no_chat call_rooms pals) pal_chat"
  unfolding pal_chat_def by (rule runs [OF chat_start pals_fresh])


lemma unread_counts_messages_witness:
  "unread_of ''a'' ''c1'' pal_chat = 1 \<and> tally pals_write ''a'' ''c1'' (no_chat call_rooms pals) 0 = 1"
proof -
  have "tally pals_write ''a'' ''c1'' (no_chat call_rooms pals) 0 = 1" by code_simp
  moreover have "unread_of ''a'' ''c1'' (no_chat call_rooms pals) = 0" by code_simp
  ultimately show ?thesis
    using unread_counts_messages [OF chat_start pals_fresh, of "''a''" "''c1''"] by (simp add: pal_chat_def)
qed

end
