(* ===== verification/ChatPrivacy.thy ===== *)
theory ChatPrivacy
  imports ChatRules
begin

text \<open>
  Who reads what in chat: a message reaches members only, a history is read in whole through its pages, a block silences a
  conversation of two; and what reaches others all the same, through the growing of a call, an edit, a deletion or a reaction.
\<close>

subsection \<open>Histories\<close>

interpretation newest: js_comparator "\<lambda>a b. ms_createdAt b - ms_createdAt a"
  by unfold_locales auto

interpretation oldest: js_comparator "\<lambda>a b. cv_createdAt a - cv_createdAt b"
  by unfold_locales auto

lemma newest_sorted: "sorted_wrt (\<lambda>a b. ms_createdAt b \<le> ms_createdAt a) (newest_messages rows)"
  using newest.sort_sorted [of rows] by (simp add: newest_messages_def)

lemma newest_set [simp]: "set (newest_messages rows) = set rows"
  by (simp add: newest_messages_def)

lemma date_mono: "t \<le> t' \<Longrightarrow> date_ms t \<le> date_ms t'"
  by (simp add: date_ms_def zdiv_mono1)

lemma date_bounds: "date_ms t * 1000 \<le> t" "t < date_ms t * 1000 + 1000"
  unfolding date_ms_def by presburger+

definition sees :: "string \<Rightarrow> string \<Rightarrow> chat \<Rightarrow> message_row \<Rightarrow> bool" where
  "sees c u s row \<longleftrightarrow> ms_conversationId row = c \<and>
     (case getParticipant c u s of None \<Rightarrow> False | Some p \<Rightarrow>
       (case mb_historyHiddenBeforeAt p of None \<Rightarrow> True | Some h \<Rightarrow> h * 1000 < ms_createdAt row))"

lemma page_rows:
  "set (fst (message_rows_page c cursor n hidden s)) \<subseteq> set (filter (in_page c cursor hidden) (ch_messages s))"
  "length (fst (message_rows_page c cursor n hidden s)) \<le> n"
  "sorted (map ms_createdAt (fst (message_rows_page c cursor n hidden s)))"
proof -
  let ?rows = "newest_messages (filter (in_page c cursor hidden) (ch_messages s))"
  have page: "fst (message_rows_page c cursor n hidden s) = rev (take n ?rows)" by (simp add: message_rows_page_def Let_def min_def)
  show "set (fst (message_rows_page c cursor n hidden s)) \<subseteq> set (filter (in_page c cursor hidden) (ch_messages s))"
    unfolding page using set_take_subset [of n ?rows] by auto
  show "length (fst (message_rows_page c cursor n hidden s)) \<le> n" unfolding page by simp
  have "sorted_wrt (\<lambda>a b. ms_createdAt b \<le> ms_createdAt a) (take n ?rows)" using newest_sorted by (rule sorted_wrt_take)
  then show "sorted (map ms_createdAt (fst (message_rows_page c cursor n hidden s)))"
    unfolding page by (simp add: sorted_map sorted_wrt_rev)
qed

lemma active_participant: "isParticipant c u s \<Longrightarrow> getParticipant c u s \<noteq> None"
  by (auto simp: isParticipant_def getParticipant_def find_None_iff)

lemma read_page:
  assumes "getMessages env c u cursor n s = Inr page"
  shows "isParticipant c u s \<and> length (pg_messages page) \<le> n \<and>
    (\<exists>rows. pg_messages page = map (toMessageRow env) rows \<and> set rows \<subseteq> set (ch_messages s) \<and> sorted (map ms_createdAt rows) \<and>
      list_all (sees c u s) rows)"
proof -
  have u: "isParticipant c u s" using assms by (simp add: getMessages_def split: if_splits)
  then obtain p where p: "getParticipant c u s = Some p" using active_participant by blast
  let ?rows = "fst (message_rows_page c cursor n (mb_historyHiddenBeforeAt p) s)"
  have "pg_messages page = map (toMessageRow env) ?rows"
    using assms u p by (auto simp: getMessages_def findMessagesPage_def case_prod_beta Let_def)
  moreover have "list_all (sees c u s) ?rows"
    using page_rows(1) [of c cursor n "mb_historyHiddenBeforeAt p" s] p
    by (auto simp: list_all_iff sees_def in_page_def split: option.splits)
  ultimately show ?thesis using u page_rows [of c cursor n "mb_historyHiddenBeforeAt p" s]
    by (intro conjI exI [of _ ?rows]) auto
qed

text \<open>
  C15. Messages reach members only. After any requests, whoever was sent a new message is a member of its conversation, and
  a page of messages is only given to an active member and holds, oldest first and at most as many as asked for, messages of that
  conversation that are not older than the member's last leaving of it.
\<close>

theorem messages_reach_members_only:
  assumes "chat_run (no_chat m p) s"
  shows "(NewMessage q v \<in> set (ch_out s) \<longrightarrow> hasParticipantRecord (vw_conversationId v) q s) \<and>
    (case getMessages env c u cursor n s of Inl e \<Rightarrow> \<not> isParticipant c u s
     | Inr page \<Rightarrow> isParticipant c u s \<and> length (pg_messages page) \<le> n \<and>
        (\<exists>rows. pg_messages page = map (toMessageRow env) rows \<and> set rows \<subseteq> set (ch_messages s) \<and> sorted (map ms_createdAt rows) \<and>
          list_all (sees c u s) rows))"
proof -
  have "chat_ok s" using assms no_chat_ok by (rule sound.every_run)
  then have "NewMessage q v \<in> set (ch_out s) \<longrightarrow> hasParticipantRecord (vw_conversationId v) q s"
    by (auto simp: chat_ok_def tells_members_def)
  moreover have "\<not> isParticipant c u s" if "getMessages env c u cursor n s = Inl e" for e
    using that by (simp add: getMessages_def Let_def split: if_splits)
  ultimately show ?thesis using read_page [of env c u cursor n s] by (cases "getMessages env c u cursor n s") simp_all
qed

text \<open>A client that follows the cursor to the start of the history.\<close>

fun all_history :: "nat \<Rightarrow> string \<Rightarrow> int option \<Rightarrow> nat \<Rightarrow> int option \<Rightarrow> chat \<Rightarrow> message_row list option" where
  "all_history 0 c cursor limit hidden s = None"
| "all_history (Suc n) c cursor limit hidden s =
     (let (rows, next) = message_rows_page c cursor limit hidden s in
      case next of None \<Rightarrow> Some rows
      | Some t \<Rightarrow> map_option (\<lambda>older. older @ rows) (all_history n c (Some t) limit hidden s))"

lemma sorted_unique:
  assumes "sorted_wrt (\<lambda>a b. (f b :: int) < f a) xs" "sorted_wrt (\<lambda>a b. f b < f a) ys" "set xs = set ys"
  shows "xs = ys"
  using assms
proof (induction xs arbitrary: ys)
  case (Cons x xs)
  then obtain y ys' where ys: "ys = y # ys'" by (cases ys) auto
  have "x \<in> set ys" "y \<in> set (x # xs)" using Cons.prems(3) ys by auto
  then have "x = y" using Cons.prems(1,2) ys by (auto dest: order.asym)
  moreover have "x \<notin> set xs" "y \<notin> set ys'" using Cons.prems(1,2) ys by auto
  ultimately have "set xs = set ys'" using Cons.prems(3) ys by auto
  then show ?case using Cons ys \<open>x = y\<close> by auto
qed simp

lemma strictly_sorted: "distinct zs \<Longrightarrow> inj_on f (set zs) \<Longrightarrow> sorted_wrt (\<lambda>a b. f b \<le> (f a :: int)) zs \<Longrightarrow> sorted_wrt (\<lambda>a b. f b < f a) zs"
  by (induction zs) (auto simp: inj_on_def order.strict_iff_order)

text \<open>Messages of different milliseconds.\<close>

definition ticks_apart :: "message_row list \<Rightarrow> bool" where
  "ticks_apart rows \<longleftrightarrow> distinct rows \<and> inj_on (\<lambda>row. date_ms (ms_createdAt row)) (set rows)"

lemma newest_strict:
  assumes "ticks_apart rows"
  shows "sorted_wrt (\<lambda>a b. date_ms (ms_createdAt b) < date_ms (ms_createdAt a)) (newest_messages rows)"
proof (rule strictly_sorted)
  show "distinct (newest_messages rows)" using assms by (simp add: newest_messages_def ticks_apart_def)
  show "inj_on (\<lambda>row. date_ms (ms_createdAt row)) (set (newest_messages rows))" using assms by (simp add: ticks_apart_def)
  have "sorted_wrt (\<lambda>a b. date_ms (ms_createdAt b) \<le> date_ms (ms_createdAt a)) zs"
    if "sorted_wrt (\<lambda>a b. ms_createdAt b \<le> ms_createdAt a) zs" for zs :: "message_row list"
    using that by (induction zs) (auto simp: date_mono)
  then show "sorted_wrt (\<lambda>a b. date_ms (ms_createdAt b) \<le> date_ms (ms_createdAt a)) (newest_messages rows)"
    by (simp add: newest_sorted)
qed

lemma before_date: "t < date_ms t' * 1000 \<longleftrightarrow> date_ms t < date_ms t'"
  using div_mult_mod_eq [of t 1000] pos_mod_bound [of 1000 t] pos_mod_sign [of 1000 t] unfolding date_ms_def by (intro iffI; linarith)

lemma in_drop: "x \<in> set (drop l xs) \<longleftrightarrow> (\<exists>k. l \<le> k \<and> k < length xs \<and> x = xs ! k)"
proof
  assume "x \<in> set (drop l xs)"
  then obtain j where "j < length xs - l" "x = xs ! (l + j)" by (auto simp: in_set_conv_nth)
  then show "\<exists>k. l \<le> k \<and> k < length xs \<and> x = xs ! k" by (intro exI [of _ "l + j"]) simp
next
  assume "\<exists>k. l \<le> k \<and> k < length xs \<and> x = xs ! k"
  then obtain k where "l \<le> k" "k < length xs" "x = xs ! k" by blast
  then have "k - l < length (drop l xs)" "x = drop l xs ! (k - l)" by simp_all
  then show "x \<in> set (drop l xs)" by (metis nth_mem)
qed

lemma below_cut:
  assumes "sorted_wrt (\<lambda>a b. f b < (f a :: int)) rows" "0 < l" "l - 1 < length rows" "row \<in> set rows"
  shows "f row < f (rows ! (l - 1)) \<longleftrightarrow> row \<in> set (drop l rows)"
proof -
  obtain i where i: "i < length rows" "row = rows ! i" using assms(4) by (metis in_set_conv_nth)
  have nth: "f (rows ! j) < f (rows ! k)" if "k < j" "j < length rows" for j k
    using assms(1) that by (simp add: sorted_wrt_iff_nth_less)
  show ?thesis
  proof (cases "l \<le> i")
    case True
    then have "rows ! i \<in> set (drop l rows)" using i(1) by (metis in_drop)
    then show ?thesis using nth [of "l - 1" i] True i assms(2) by simp
  next
    case False
    then have "i = l - 1 \<or> i < l - 1" by linarith
    then have "\<not> f row < f (rows ! (l - 1))" using nth [of i "l - 1"] i(2) assms(3) by auto
    moreover have "row \<notin> set (drop l rows)"
    proof
      assume "row \<in> set (drop l rows)"
      then obtain k where k: "l \<le> k" "k < length rows" "row = rows ! k" by (metis in_drop)
      then show False using nth [of i k] False i(2) by simp
    qed
    ultimately show ?thesis by simp
  qed
qed

text \<open>The rows behind a cursor are those behind the page it came with.\<close>

lemma rows_behind:
  assumes "ticks_apart (filter (in_page c cursor hidden) ms)" "0 < l" "l < length (newest_messages (filter (in_page c cursor hidden) ms))"
  defines "rows \<equiv> newest_messages (filter (in_page c cursor hidden) ms)"
  defines "t \<equiv> date_ms (ms_createdAt (rows ! (l - 1)))"
  shows "newest_messages (filter (in_page c (Some t) hidden) ms) = drop l rows"
    and "ticks_apart (filter (in_page c (Some t) hidden) ms)"
proof -
  let ?date = "\<lambda>row. date_ms (ms_createdAt row)" and ?L = "rows ! (l - 1)"
  have strict: "sorted_wrt (\<lambda>a b. ?date b < ?date a) rows" unfolding rows_def by (rule newest_strict) (rule assms(1))
  have l: "l - 1 < length rows" using assms(2,3) by (simp add: rows_def)
  then have L: "?L \<in> set rows" by (rule nth_mem)
  have iff: "ms_createdAt row < t * 1000 \<longleftrightarrow> ?date row < t" for row by (simp add: t_def before_date)
  have "ms_createdAt row < t0 * 1000" if "cursor = Some t0" "?date row < t" for row t0
  proof -
    have "ms_createdAt ?L < t0 * 1000" using L that(1) by (auto simp: rows_def in_page_def)
    then have "t * 1000 < t0 * 1000" using date_bounds(1) [of "ms_createdAt ?L"] by (simp add: t_def)
    then show ?thesis using iff [of row] that(2) by linarith
  qed
  then have sub: "in_page c (Some t) hidden row \<longleftrightarrow> in_page c cursor hidden row \<and> ?date row < t" for row
    by (cases cursor) (auto simp: in_page_def iff)
  have later: "?date row < t \<longleftrightarrow> row \<in> set (drop l rows)" if "row \<in> set rows" for row
    using below_cut [OF strict assms(2) l that] by (simp add: t_def)
  have filt: "filter (in_page c (Some t) hidden) ms = filter (\<lambda>row. ?date row < t) (filter (in_page c cursor hidden) ms)"
    unfolding filter_filter by (rule filter_cong) (auto simp: sub)
  show ticks: "ticks_apart (filter (in_page c (Some t) hidden) ms)"
    unfolding filt ticks_apart_def
  proof
    show "distinct (filter (\<lambda>row. ?date row < t) (filter (in_page c cursor hidden) ms))"
      by (rule distinct_filter) (use assms(1) in \<open>simp add: ticks_apart_def\<close>)
  qed (use assms(1) in \<open>auto simp: ticks_apart_def intro: inj_on_subset\<close>)
  show "newest_messages (filter (in_page c (Some t) hidden) ms) = drop l rows"
  proof (rule sorted_unique [of ?date])
    show "sorted_wrt (\<lambda>a b. ?date b < ?date a) (newest_messages (filter (in_page c (Some t) hidden) ms))" using ticks by (rule newest_strict)
    show "sorted_wrt (\<lambda>a b. ?date b < ?date a) (drop l rows)" using strict by (rule sorted_wrt_drop)
    show "set (newest_messages (filter (in_page c (Some t) hidden) ms)) = set (drop l rows)"
      using later set_drop_subset [of l rows] unfolding filt by (auto simp: rows_def)
  qed
qed

text \<open>
  C21. A history is read in whole. A client that follows the cursor of a conversation whose messages are of different milliseconds
  stops after at most as many pages as there are messages, and one more, and has read each message that it may see once, in order.
\<close>

theorem history_pages_are_complete:
  assumes "ticks_apart (filter (in_page c cursor hidden) (ch_messages s))" "0 < limit"
    and "length (filter (in_page c cursor hidden) (ch_messages s)) < n"
  shows "all_history n c cursor limit hidden s = Some (rev (newest_messages (filter (in_page c cursor hidden) (ch_messages s))))"
  using assms
proof (induction n arbitrary: cursor)
  case (Suc n)
  let ?rows = "newest_messages (filter (in_page c cursor hidden) (ch_messages s))"
  have len: "length ?rows = length (filter (in_page c cursor hidden) (ch_messages s))" by (simp add: newest_messages_def)
  show ?case
  proof (cases "limit < length ?rows")
    case True
    let ?t = "date_ms (ms_createdAt (?rows ! (limit - 1)))"
    note behind = rows_behind [OF Suc.prems(1,2) True]
    have "length (newest_messages (filter (in_page c (Some ?t) hidden) (ch_messages s))) < n"
      using behind(1) Suc.prems(2,3) True len by simp
    then have "all_history n c (Some ?t) limit hidden s = Some (rev (drop limit ?rows))"
      using Suc.IH [OF behind(2) Suc.prems(2)] behind(1) by (simp add: newest_messages_def)
    moreover have "last (take limit ?rows) = ?rows ! (limit - 1)"
      using True Suc.prems(2) by (subst last_conv_nth) (auto simp: min_def)
    moreover have "rev ?rows = rev (drop limit ?rows) @ rev (take limit ?rows)" by (metis append_take_drop_id rev_append)
    ultimately show ?thesis using True by (simp add: message_rows_page_def Let_def min_def)
  qed (simp add: message_rows_page_def Let_def min_def)
qed simp

text \<open>Of messages of one millisecond, those that do not fit on a page are on no page.\<close>

theorem page_skips_the_same_millisecond:
  assumes "date_ms (ms_createdAt row) = date_ms (ms_createdAt (last page))"
  shows "\<not> in_page c (Some (date_ms (ms_createdAt (last page)))) hidden row"
  using date_bounds(1) [of "ms_createdAt row"] assms by (simp add: in_page_def)

subsection \<open>Blocks\<close>

lemma single: "distinct us \<Longrightarrow> set us = {b} \<Longrightarrow> us = [b]"
  by (cases us; cases "tl us") auto

lemma others_of_two: "distinct us \<Longrightarrow> set us = {a, b} \<Longrightarrow> a \<noteq> b \<Longrightarrow> filter (\<lambda>u. u \<noteq> a) us = [b]"
  by (rule single) auto

lemma rejoin_members [simp]: "members_of c (rejoin d u s) = members_of c s"
proof -
  have "map mb_userId (filter (\<lambda>p. mb_conversationId p = c) (map (\<lambda>p. if mb_conversationId p = d \<and> mb_userId p = u then p\<lparr>mb_leftAt := None\<rparr> else p) ps))
      = map mb_userId (filter (\<lambda>p. mb_conversationId p = c) ps)" for ps
    by (induction ps) auto
  then show ?thesis by (simp add: members_of_def rejoin_def on_member_def)
qed

text \<open>A conversation of two, one of whom has blocked the other.\<close>

definition blocked_pair :: "string \<Rightarrow> string \<Rightarrow> string \<Rightarrow> chat \<Rightarrow> bool" where
  "blocked_pair c a b s \<longleftrightarrow> a \<noteq> b \<and> b \<noteq> [] \<and> set (members_of c s) = {a, b} \<and> isEitherBlocked a b (ch_people s) \<and>
     (\<exists>row. findConversationById c s = Some row \<and> cv_type row \<noteq> RoomSpace)"

lemma block_status: "isEitherBlocked a b p \<Longrightarrow> resolveMessagingBlockStatus a b p \<noteq> None"
  by (auto simp: isEitherBlocked_def resolveMessagingBlockStatus_def)

lemma blocked_message:
  assumes "chat_ok s" "blocked_pair c a b s"
  shows "may_message c a s = Some ''MESSAGING_BLOCKED''"
proof -
  have "distinct (members_of c s)" using assms(1) members_distinct by (simp add: chat_ok_def keys_ok_def)
  then have "filter (\<lambda>u. u \<noteq> a) (members_of c s) = [b]" using assms(2) others_of_two [of "members_of c s" a b] by (simp add: blocked_pair_def)
  then show ?thesis using assms(2) block_status
    by (auto simp: blocked_pair_def may_message_def peer_view_def assertCanMessageInConversation_def getDmPeerUserId_def)
qed

lemma blocked_rejoined: "blocked_pair c a b s \<Longrightarrow> blocked_pair c a b (rejoin d u s)"
  by (simp add: blocked_pair_def findConversationById_def)


lemma rejoined: "hasParticipantRecord c u s \<Longrightarrow> isParticipant c u (rejoin c u s)"
proof -
  assume "hasParticipantRecord c u s"
  then obtain p where p: "p \<in> set (ch_members s)" "mb_conversationId p = c" "mb_userId p = u" by (auto simp: hasParticipantRecord_def)
  then have "p\<lparr>mb_leftAt := None\<rparr> \<in> set (ch_members (rejoin c u s))" by (force simp: rejoin_def on_member_def)
  then show ?thesis unfolding isParticipant_def using p(2,3) by (intro bexI [of _ "p\<lparr>mb_leftAt := None\<rparr>"]) simp_all
qed

text \<open>A sender who had left is back in the conversation though the message is refused.\<close>

theorem blocked_sender_rejoins:
  assumes "chat_ok s" "blocked_pair c a b s"
  shows "fst (sendChatMessage env c a body s) = Inl ''MESSAGING_BLOCKED'' \<and> isParticipant c a (snd (sendChatMessage env c a body s))"
proof -
  have "a \<in> set (members_of c s)" using assms(2) by (auto simp: blocked_pair_def)
  then have rec: "hasParticipantRecord c a s" by (simp add: member_record)
  then have "isParticipant c a (rejoin c a s)" by (rule rejoined)
  moreover have "may_message c a (rejoin c a s) = Some ''MESSAGING_BLOCKED''"
    by (rule blocked_message [OF sound.rejoins [OF assms(1)] blocked_rejoined [OF assms(2)]])
  ultimately show ?thesis using rec by (simp add: sendChatMessage_def Let_def)
qed

subsection \<open>What reaches others\<close>

lemma find_last: "find P xs = None \<Longrightarrow> P x \<Longrightarrow> find P (xs @ [x]) = Some x"
  by (induction xs) (simp_all split: if_splits)

text \<open>
  C19. A call that grows opens the history. When a call of two is made a space with somebody else, and its
  conversation is the one the two have been writing in, the newcomer is given every message that was ever written there, though the
  row of the newcomer records from which message on they joined.
\<close>

theorem expanded_call_opens_history:
  assumes "chat_run (no_chat m p) s" "conversation_of_room r s = Some row" "\<not> hasParticipantRecord (cv_id row) invitee s"
    and "length (filter (\<lambda>x. ms_conversationId x = cv_id row) (ch_messages s)) < n"
  shows "case getMessages env' (cv_id row) invitee None n (expand_conversation env r inviter invitee s) of
      Inl e \<Rightarrow> False
    | Inr page \<Rightarrow> \<forall>x\<in>set (ch_messages s). ms_conversationId x = cv_id row \<longrightarrow> toMessageRow env' x \<in> set (pg_messages page)"
proof -
  let ?c = "cv_id row" and ?s = "expand_conversation env r inviter invitee s"
  let ?p = "(new_member ?c invitee)\<lparr>mb_joinedFromMessageId := Some (ce_messageId env)\<rparr>"
  let ?set = "\<lambda>p. if mb_conversationId p = ?c \<and> mb_userId p = invitee then p\<lparr>mb_joinedFromMessageId := Some (ce_messageId env)\<rparr> else p"
  have old: "\<not> (mb_conversationId q = ?c \<and> mb_userId q = invitee)" if "q \<in> set (ch_members s)" for q
    using assms(3) that by (auto simp: hasParticipantRecord_def)
  then have "map ?set (ch_members s) = ch_members s" by (intro map_idI) auto
  then have members: "ch_members ?s = ch_members s @ [?p]"
    using assms(3) by (simp add: expand_conversation_def assms(2) Let_def insertSystemMessage_def add_participant_def on_member_def new_member_def)
  have messages: "ch_messages ?s = ch_messages s @ [system_row env ?c inviter (user_added invitee)]"
    by (simp add: expand_conversation_def assms(2) Let_def insertSystemMessage_def)
  have active: "isParticipant ?c invitee ?s" by (simp add: isParticipant_def members new_member_def)
  have "find (\<lambda>p. mb_conversationId p = ?c \<and> mb_userId p = invitee) (ch_members s) = None" using old by (auto simp: find_None_iff)
  then have "getParticipant ?c invitee ?s = Some ?p" unfolding getParticipant_def members
    by (rule find_last) (simp add: new_member_def)
  then have page: "\<exists>rs. getMessages env' ?c invitee None n ?s = Inr ((findMessagesPage env' ?c None n None ?s)\<lparr>pg_reactions := rs\<rparr>)"
    using active by (auto simp: getMessages_def new_member_def Let_def)
  let ?all = "filter (in_page ?c None None) (ch_messages ?s)"
  have all: "in_page ?c None None = (\<lambda>x. ms_conversationId x = ?c)" by (simp add: in_page_def fun_eq_iff)
  then have "length ?all \<le> n" using assms(4) by (simp add: messages)
  then have "fst (message_rows_page ?c None n None ?s) = rev (newest_messages ?all)"
    by (simp add: message_rows_page_def Let_def newest_messages_def min_def)
  then have "set (pg_messages (findMessagesPage env' ?c None n None ?s)) = toMessageRow env' ` set ?all"
    by (simp add: findMessagesPage_def case_prod_beta)
  then show ?thesis using page by (auto simp: messages in_page_def)
qed

text \<open>
  C20. An edit reaches whom the sender chooses. A user who edits a message of their own is free to name any conversation in the request: every
  participant of it is sent the new text, whether or not the user is one of them and whether or not one has blocked the other.
\<close>

theorem edit_reaches_any_conversation:
  assumes "findMessageRow mid s = Some row" "ms_senderId row = u" "may_message (ms_conversationId row) u s = None"
    and "ce_decrypt env (ms_encryptedContent row) (ms_iv row) \<noteq> None"
    and "ms_messageType row \<noteq> SystemMessage" "\<not> ms_isDeleted row" "\<not> ms_deletedForAll row"
    and cipher: "ce_encrypt env content = (ct, iv)" "ct \<noteq> []" "iv \<noteq> []" "ce_decrypt env ct iv = Some content"
    and "findConversationById c s \<noteq> None" "hasParticipantRecord c v s"
  shows "\<exists>w. EditedMessage v w \<in> set (ch_out (on_message_edit env sock u mid c content s)) \<and> vw_content w = content"
proof -
  obtain old where old: "ce_decrypt env (ms_encryptedContent row) (ms_iv row) = Some old" using assms(4) by blast
  let ?w = "toMessageRow env (edited_row env old content row)"
  let ?s1 = "on_message mid (edited_row env old content) s"
  have "editMessage env mid u content s = (Inr (Some ?w), ?s1)"
    using assms(1-3) old by (simp add: editMessage_def findMessageById_def editMessageRow_def toMessageRow_def)
  moreover have "v \<in> set (audience c ?s1)"
    using assms(12,13) by (simp add: audience_def findConversationById_def member_record)
  ultimately have "EditedMessage v ?w \<in> set (ch_out (on_message_edit env sock u mid c content s))"
    by (simp add: on_message_edit_def)
  moreover have "vw_content ?w = content" using assms(5-7) cipher by (simp add: toMessageRow_def edited_row_def)
  ultimately show ?thesis by blast
qed

lemma touched: "x \<in> set (ch_messages (on_message m f s)) \<Longrightarrow> \<exists>y\<in>set (ch_messages s). x = (if ms_id y = m then f y else y)"
  by (auto simp: on_message_def)

text \<open>
  Deleting for oneself deletes for all. A message that its sender deletes only for themself reads empty for everybody from then on, and
  nobody else is told.
\<close>

theorem delete_for_me_deletes_for_all:
  assumes "findMessageRow mid s = Some row" "ms_senderId row = u"
  shows "(\<forall>x\<in>set (ch_messages (on_message_delete env sock u mid c False s)). ms_id x = mid \<longrightarrow> vw_content (toMessageRow env' x) = []) \<and>
    (\<forall>q. DeletedMessage q mid c True \<in> set (ch_out (on_message_delete env sock u mid c False s)) \<longrightarrow> DeletedMessage q mid c True \<in> set (ch_out s))"
proof -
  let ?s1 = "softDeleteMessage env mid False s"
  have "deleteMessage env mid u False s = (Inr (), ?s1)"
    using assms by (simp add: deleteMessage_def findMessageById_def toMessageRow_def)
  then have out: "ch_out (on_message_delete env sock u mid c False s) = ch_out s @ DeletedHere sock mid c #
      map (\<lambda>p. ConversationActivity p c None (inboxPreviewForConversation env c ?s1)) (audience c ?s1)"
    and rows: "ch_messages (on_message_delete env sock u mid c False s) = ch_messages ?s1"
    by (simp_all add: on_message_delete_def) (simp add: softDeleteMessage_def)
  have "vw_content (toMessageRow env' x) = []" if x: "x \<in> set (ch_messages ?s1)" "ms_id x = mid" for x
  proof -
    obtain y where "x = (if ms_id y = mid then deleted_row env False y else y)" using touched [OF x(1) [unfolded softDeleteMessage_def]] by blast
    then have "ms_isDeleted x" using x(2) by (simp add: deleted_row_def split: if_splits)
    then show ?thesis by (simp add: toMessageRow_def)
  qed
  then show ?thesis unfolding out rows by auto
qed

text \<open>A member of any conversation can react to any message, and learns who else did.\<close>

theorem reaction_from_elsewhere:
  assumes "isParticipant c u s" "may_message c u s = None" "findMessageRow mid s \<noteq> None"
  shows "fst (addReaction mid c u emoji s) = Inr (getReactions mid (snd (addReaction mid c u emoji s))) \<and>
    (mid, u, emoji) \<in> set (ch_reactions (snd (addReaction mid c u emoji s)))"
  using assms by (auto simp: addReaction_def insertReaction_def Let_def)

text \<open>Who is no member marks messages as read, and the sockets that joined the conversation's room are told.\<close>

theorem outsider_marks_read:
  assumes "findMessageRow mid s \<noteq> None" "j \<in> set (joined_sockets c s)"
  shows "(mid, u) \<in> set (ch_receipts (on_message_read env sock u c mid s)) \<and> ReadNote j c mid u \<in> set (ch_out (on_message_read env sock u c mid s))"
  using assms by (auto simp: on_message_read_def markRead_def insertReceipt_def updateLastRead_def Let_def joined_sockets_def on_member_def post_def)

text \<open>The time of the latest message is read as a \<open>Date\<close>: unless it is a whole millisecond, no row has it.\<close>

theorem preview_misses_latest:
  assumes "\<forall>x\<in>set (ch_messages s). ms_conversationId x = c \<longrightarrow> ms_createdAt x mod 1000 \<noteq> 0"
  shows "inboxPreviewForConversation env c s = None"
proof -
  have "filter (\<lambda>row. ms_createdAt row = k * 1000) (filter (\<lambda>row. ms_conversationId row = c) (ch_messages s)) = []" for k
    using assms by (auto simp: filter_empty_conv)
  then show ?thesis by (simp add: inboxPreviewForConversation_def findLatestByConversationIds_def Let_def)
qed

subsection \<open>Witnesses\<close>

lemma messages_reach_members_only_witness:
  "case getMessages (pal_env 4) ''c1'' ''a'' None 30 pal_chat of
     Inl e \<Rightarrow> False | Inr page \<Rightarrow> map vw_content (pg_messages page) = [''hi'', ''yo''] \<and> length (pg_messages page) \<le> 30"
proof -
  have "case getMessages (pal_env 4) ''c1'' ''a'' None 30 pal_chat of Inl e \<Rightarrow> False | Inr page \<Rightarrow> map vw_content (pg_messages page) = [''hi'', ''yo'']"
    by code_simp
  then show ?thesis
    using messages_reach_members_only [OF pal_run, where env = "pal_env 4" and c = "''c1''" and u = "''a''" and cursor = None and n = 30] by (auto split: sum.splits)
qed

lemma history_pages_are_complete_witness:
  "map_option (map ms_id) (all_history 3 ''c1'' None 1 None pal_chat) = Some [''m2'', ''m3'']"
proof -
  have ms: "ch_messages pal_chat = [text_row (pal_env 2) ''c1'' ''a'' (says_text ''hi''), text_row (pal_env 3) ''c1'' ''b'' (says_text ''yo'')]"
    by code_simp
  have "all_history 3 ''c1'' None 1 None pal_chat = Some (rev (newest_messages (filter (in_page ''c1'' None None) (ch_messages pal_chat))))"
    by (rule history_pages_are_complete) (simp_all add: ms in_page_def ticks_apart_def text_row_def pal_env_def date_ms_def)
  moreover have "map ms_id (rev (newest_messages (filter (in_page ''c1'' None None) (ch_messages pal_chat)))) = [''m2'', ''m3'']" by code_simp
  ultimately show ?thesis by simp
qed

definition fallen_pals :: chat where
  "fallen_pals = pal_chat\<lparr>ch_people := pals\<lparr>pe_blocks := [(''b'', ''a'')]\<rparr>\<rparr>"

lemma fallen_run: "chat_run (no_chat call_rooms pals) fallen_pals"
proof -
  have "fallen_pals = chat_do (pal_env 4) (PeopleChange (pals\<lparr>pe_blocks := [(''b'', ''a'')]\<rparr>)) pal_chat" by (simp add: fallen_pals_def)
  moreover have "fresh_ids (pal_env 4) pal_chat" by code_simp
  ultimately show ?thesis using chat_more [OF pal_run, of "pal_env 4"] by metis
qed

lemma fallen_blocked: "blocked_pair ''c1'' ''a'' ''b'' fallen_pals"
proof -
  have "set (members_of ''c1'' fallen_pals) = {''a'', ''b''}" by code_simp
  moreover have "isEitherBlocked ''a'' ''b'' (ch_people fallen_pals)" by code_simp
  moreover have "map_option cv_type (findConversationById ''c1'' fallen_pals) = Some ConnectionChat" by code_simp
  then have "\<exists>row. findConversationById ''c1'' fallen_pals = Some row \<and> cv_type row = ConnectionChat" by (simp add: map_option_eq_Some)
  then obtain row where "findConversationById ''c1'' fallen_pals = Some row" "cv_type row = ConnectionChat" by blast
  ultimately show ?thesis unfolding blocked_pair_def by (intro conjI exI [of _ row]) simp_all
qed


text \<open>The call of the two is linked to their conversation, and grows by a third user.\<close>

definition call_room :: room_row where
  "call_room = \<lparr>tm_status = Live, tm_roomType = Direct, tm_startedAt = None, tm_scheduledStartAt = None, tm_scheduledEndAt = None,
     tm_advancedOptions = None, rr_hostUserId = ''a'', rr_sessionKind = ConnectionCallKind, rr_endedAt = None, rr_expiresAt = None,
     rr_isExpired = False, rr_maxParticipants = 2, rr_visibility = Private, rr_title = [], rr_rtcRoomId = None\<rparr>"

definition pal_call :: chat where
  "pal_call = chat_do (pal_env 4) (TokenIssued ''a'' ''r'' call_room) pal_chat"

lemma first_words: "text_row (pal_env 2) ''c1'' ''a'' (says_text ''hi'') \<in> set (ch_messages pal_call)"
proof -
  have "ch_messages pal_call = [text_row (pal_env 2) ''c1'' ''a'' (says_text ''hi''), text_row (pal_env 3) ''c1'' ''b'' (says_text ''yo'')]"
    by code_simp
  then show ?thesis by simp
qed

lemma expanded_call_opens_history_witness:
  "case getMessages (pal_env 6) ''c1'' ''z'' None 30 (expand_conversation (pal_env 5) ''r'' ''a'' ''z'' pal_call) of
     Inl e \<Rightarrow> False | Inr page \<Rightarrow> ''hi'' \<in> vw_content ` set (pg_messages page)"
proof -
  have "fresh_ids (pal_env 4) pal_chat" by code_simp
  then have run: "chat_run (no_chat call_rooms pals) pal_call" unfolding pal_call_def by (rule chat_more [OF pal_run])
  have "map_option cv_id (conversation_of_room ''r'' pal_call) = Some ''c1''" by code_simp
  then obtain row where row: "conversation_of_room ''r'' pal_call = Some row" "cv_id row = ''c1''" by auto
  have "\<not> hasParticipantRecord ''c1'' ''z'' pal_call" by code_simp
  moreover have "length (filter (\<lambda>x. ms_conversationId x = ''c1'') (ch_messages pal_call)) < 30" by code_simp
  ultimately have "case getMessages (pal_env 6) ''c1'' ''z'' None 30 (expand_conversation (pal_env 5) ''r'' ''a'' ''z'' pal_call) of
      Inl e \<Rightarrow> False
    | Inr page \<Rightarrow> \<forall>x\<in>set (ch_messages pal_call). ms_conversationId x = ''c1'' \<longrightarrow> toMessageRow (pal_env 6) x \<in> set (pg_messages page)"
    using expanded_call_opens_history [OF run row(1), of "''z''" 30 "pal_env 6" "pal_env 5" "''a''"] row(2) by (auto split: sum.splits)
  moreover have "vw_content (toMessageRow (pal_env 6) (text_row (pal_env 2) ''c1'' ''a'' (says_text ''hi''))) = ''hi''" by code_simp
  ultimately show ?thesis using first_words
    by (force simp: text_row_def split: sum.splits)
qed

text \<open>The user who is blocked edits what they wrote to somebody else.\<close>

definition gossip :: chat where
  "gossip = chat_does [(pal_env 5, OpenConversation ''a'' (Some ''z'')), (pal_env 6, MessageSend ''s'' ''a'' ''c5'' (says_text ''x''))] fallen_pals"

lemma edit_reaches_any_conversation_witness:
  "isEitherBlocked ''a'' ''b'' (ch_people gossip) \<and>
   (\<exists>w. EditedMessage ''b'' w \<in> set (ch_out (on_message_edit (pal_env 7) ''s'' ''a'' ''m6'' ''c1'' ''spam'' gossip)) \<and> vw_content w = ''spam'')"
proof
  show "isEitherBlocked ''a'' ''b'' (ch_people gossip)" by code_simp
  have row: "findMessageRow ''m6'' gossip = Some (text_row (pal_env 6) ''c5'' ''a'' (says_text ''x''))" by code_simp
  have "may_message ''c5'' ''a'' gossip = None" "hasParticipantRecord ''c1'' ''b'' gossip" by code_simp+
  moreover have "map_option cv_id (findConversationById ''c1'' gossip) = Some ''c1''" by code_simp
  ultimately show "\<exists>w. EditedMessage ''b'' w \<in> set (ch_out (on_message_edit (pal_env 7) ''s'' ''a'' ''m6'' ''c1'' ''spam'' gossip)) \<and> vw_content w = ''spam''"
    by (intro edit_reaches_any_conversation [OF row]) (auto simp: text_row_def pal_env_def says_text_def)
qed

lemma delete_for_me_deletes_for_all_witness:
  "list_all (\<lambda>x. ms_id x = ''m2'' \<longrightarrow> vw_content (toMessageRow (pal_env 9) x) = [])
     (ch_messages (on_message_delete (pal_env 4) ''s'' ''a'' ''m2'' ''c1'' False pal_chat))"
proof -
  have row: "findMessageRow ''m2'' pal_chat = Some (text_row (pal_env 2) ''c1'' ''a'' (says_text ''hi''))" by code_simp
  show ?thesis using delete_for_me_deletes_for_all [OF row, of "''a''" "pal_env 4" "''s''" "''c1''" "pal_env 9"]
    by (simp add: list_all_iff text_row_def)
qed

end
