(* ===== verification/Spec2Isabelle.thy ===== *)
theory Spec2Isabelle
  imports MatchSafety MatchHttp VoiceScore VoiceBuffer RtcSafety RtcSignaling ServerChessRules CallOutcomes PeopleRules OpenPrivacy ChatPrivacy
begin

text \<open>
  \<^bold>\<open>GreetUp: matching, rooms, calls, going open to connect, chat, voice scoring and chess in calls.\<close>

  GreetUp pairs strangers for calls. Four TypeScript processes share Redis: the main API
  (\<open>apps/server\<close>), the matching service (\<open>apps/matching-service\<close>), the media service
  (\<open>apps/rtc-service\<close>) and the voice scoring service (\<open>apps/voiceiq-service\<close>). A user starts a
  search over HTTP; the matching service records an attempt, puts the user in location pools and
  queues a job; a worker ranks candidates, locks a pair and writes a proposal; both users answer
  connect or skip; the second connect creates a room through the main API. A room can also be a call that
  one connection places to another, or a space that a host opens or plans; the main API decides who may
  join, issues the token for the rtc service and ends sessions. A user who goes open to connect is listed in a Redis index
  while online and in no room; others find them in a feed and ask for a call. The users' sockets then
  join the room at the rtc service, which keeps the sessions, transports, producers and consumers
  of mediasoup and tells the room who speaks. A tap forwards the microphones of a room to the
  voice service, which parses RTP, cuts each speaker's audio into windows and aggregates scores.

  \<^bold>\<open>Theories.\<close>

  \<^item> \<open>Prelude\<close>, \<open>JsValue\<close>: TypeScript's nullish and truthy tests, the stable sort with its comparator
    locale, JSON values, \<open>trim\<close>, \<open>toLowerCase\<close>, \<open>Number\<close>, \<open>String\<close>, \<open>Math.round\<close>.
  \<^item> \<open>RedisStore\<close>: \<open>core/redis/keys.ts\<close> of the matching service as a datatype of keys with their
    rendered text, and the commands on a typed store.
  \<^item> \<open>MatchLocation\<close>, \<open>MatchSnapshot\<close>, \<open>MatchScoring\<close>, \<open>MatchRanking\<close>: the pure parts of
    \<open>modules/simple-matching\<close> (\<open>scoring/\<close>, \<open>repositories/snapshot.ts\<close>, \<open>helpers.ts\<close>, \<open>strategy.ts\<close>).
  \<^item> \<open>MatchPool\<close>, \<open>MatchAttempts\<close>, \<open>MatchProposal\<close>: the stateful parts (\<open>pool/\<close>, \<open>repositories/attempt.ts\<close>,
    \<open>pool/lock.ts\<close>, \<open>proposal/\<close>, the Lua scripts of \<open>core/redis/scripts.ts\<close> as atomic functions).
  \<^item> \<open>Handler\<close>, \<open>MatchOrchestrator\<close>: a handler is a function from the store to a result or a snapshot
    error, the new store and the webhooks sent; every method of \<open>orchestrator.ts\<close> is one.
  \<^item> \<open>MatchSearch\<close>: a predicate-transformer calculus of handlers (\<open>hends\<close>), and from it that starting a
    search answers, enqueues and coalesces, and that the worker settles its jobs.
  \<^item> \<open>MatchInvariant\<close>, \<open>MatchSafety\<close>: the service as a step relation over handlers, worker jobs, expiries and
    the main API's writes (\<open>mm_steps\<close>); the locale \<open>core_invariant\<close> says what a property of the store must
    keep under each primitive write to be kept by every handler, and is interpreted for the ownership
    of attempts and for the consent of a user; the safety theorems follow from the two.
  \<^item> \<open>MatchHttp\<close>: \<open>match.controller.ts\<close>, each route with its status codes.
  \<^item> \<open>RtcRegistry\<close>: \<open>room/room-registry.ts\<close>, \<open>peer/peer.repository.ts\<close>; \<open>RtcTaps\<close>: \<open>modules/voiceiq\<close>;
    \<open>RtcSpeaker\<close>: \<open>peer/dominant-speaker.ts\<close>; \<open>RtcPeers\<close>: \<open>peer/peer.service.ts\<close>.
  \<^item> \<open>RtcRoster\<close>: the rtc service as a step relation (\<open>rtc_step\<close>) and the invariant \<open>rtc_ok\<close> of its
    reachable states; \<open>RtcSafety\<close>: what follows for consuming, leaving and hosting, and where the
    code goes wrong; \<open>RtcSignaling\<close>: the socket handlers, payload checks, authentication and webhooks,
    shown to refine the step relation.
  \<^item> \<open>VoiceRtp\<close>, \<open>VoiceBuffer\<close>, \<open>VoiceScore\<close>: \<open>sources/rtp-parser.ts\<close> over \<open>8 word\<close> bytes against an encoder of
    RFC 3550 packets, \<open>sources/audio-buffer.ts\<close> against the cutting of one speaker's stream, and
    \<open>scoring/aggregator.ts\<close>.
  \<^item> \<open>RoomTypes\<close>: \<open>packages/shared/src/room-session.ts\<close> and the errors of an API service; \<open>ServerChess\<close>:
    \<open>rooms/services/activity\<close> of the main API, chess in a call; \<open>ServerChessRules\<close>: its reachable stores
    (\<open>chess_reach\<close>), their invariant, who may move and how a game may end.
  \<^item> \<open>RoomExpiry\<close>: the options and deadlines of a room (\<open>rooms/lib/expiry\<close>, \<open>rooms/lib/session\<close>,
    \<open>core/database/schema/rooms.ts\<close>) and the condition of the sweep, which is compared with the check on access.
  \<^item> \<open>RoomStore\<close>: the rows of rooms, participants, invites and restrictions as one record \<open>main_store\<close> with
    the operations of \<open>rooms/repositories\<close>; \<open>RoomRedis\<close>: the Redis keys of rooms, of a user's last token and of
    calls, with \<open>connection-call-history.service.ts\<close>.
  \<^item> \<open>RoomSessions\<close>, \<open>RoomAccess\<close>, \<open>RoomLeaving\<close>, \<open>RoomPlanning\<close>: \<open>rooms/services\<close> (\<open>session\<close>, \<open>access\<close>, \<open>participation\<close>,
    \<open>moderation\<close>, \<open>direct\<close>, \<open>space\<close>) and the making and changing of planned spaces; \<open>ServerCalls\<close>:
    \<open>connections/services/connection-call.service.ts\<close>. A service is a function from the store to an error or an
    answer, and the new store; what it sends to users and other services is appended to \<open>out\<close>.
  \<^item> \<open>RoomLifecycle\<close>: the phases of a room, the automaton they follow and the preorder \<open>well\<close> on stores, which
    adds that who is shut out stays out and that rows stay well-formed; \<open>RoomRequests\<close>, \<open>RoomTraffic\<close>, \<open>RoomDepartures\<close>: one
    lemma per write and per service, that it keeps to \<open>well\<close>; \<open>RoomRules\<close>: all requests as one type (\<open>server_request\<close>), any
    number of them at any times (\<open>served\<close>), and what holds after them; \<open>CallOutcomes\<close>: the ends of a
    ring in any order.
  \<^item> \<open>ServerPeople\<close>: connection requests, connections and blocks (\<open>modules/connections\<close>, \<open>modules/blocks\<close>) with the Redis sets
    that the matching service reads; \<open>PeopleRules\<close>: their invariant over any requests (\<open>people_reach\<close>), who makes a
    connection, and what the matching service then sees.
  \<^item> \<open>OpenConnect\<close>: \<open>modules/open-to-connect\<close>, the record \<open>otc\<close> of everything it reads, going open and closed, the pause for
    a room, the Redis index and the broadcasts; \<open>ConnectRequests\<close>: asking, cancelling and answering, with the room that an
    acceptance makes; \<open>OpenFeed\<close>: ranking, pages and suggestions; \<open>ServerPresence\<close>: \<open>user-event.listener.ts\<close>, the sockets of a user
    and the grace period of a search.
  \<^item> \<open>OpenRules\<close>: presence is the latest sockets of a run of socket events (\<open>on_sockets\<close>), the feed shows only who may be
    seen, and pages cover it; \<open>RequestRules\<close>: the life of a request over any requests at any times (\<open>asked_run\<close>), what an acceptance makes and
    where it goes wrong; \<open>OpenPrivacy\<close>: the steps of all of it together (\<open>open_reach\<close>) and the invariant that hides a user in a
    room.
  \<^item> \<open>ChatStore\<close>, \<open>ServerChat\<close>, \<open>ChatHandlers\<close>: \<open>modules/chat\<close>, the rows and repositories (record \<open>chat\<close>), the services with the
    conversation of a room, and what sockets and routes do with them. \<open>ChatSafety\<close>: all requests as one type (\<open>chat_request\<close>), any number of them
    (\<open>chat_run\<close>), and the locale \<open>chat_writes\<close>, which says what a property must keep under each kind of write to be kept by every request; \<open>ChatRules\<close>
    interprets it for sound rows (\<open>chat_ok\<close>) and for what is never lost (\<open>grows\<close>), and relates unread counts to a tally; \<open>ChatPrivacy\<close>: who
    reads what, pages of a history, blocks, and what reaches others all the same.

  \<^bold>\<open>Correspondence.\<close> Definitions keep the names of the code. A class's private maps are the fields of a
  record (\<open>rtc\<close>, \<open>speaker\<close>, \<open>taps\<close>, \<open>registry\<close>, \<open>buffer_pool\<close>); a JavaScript \<open>Set\<close> or \<open>Map\<close> whose order is
  observable is a distinct list, others are functions to options. Exceptions are values: \<open>Inl\<close> of a
  snapshot error in a handler, \<open>Throws\<close> in the rtc service. Every reading of the clock, random id, answer
  of mediasoup, HTTP answer of the main API, JWT verification and action of another process between two
  awaits is an argument (\<open>match_env\<close>, \<open>rtc_env\<close>, \<open>tap_env\<close>, \<open>media\<close>, \<open>clock3\<close>, \<open>chess_env\<close>, \<open>room_env\<close>, \<open>call_env\<close>,
  \<open>invite_env\<close>, \<open>otc_env\<close>, \<open>chat_env\<close>). Logging is left out.

  \<^bold>\<open>Bounds.\<close> The lock wait of \<open>startFindMatch\<close> has fuel: one unit a turn. A turn lasts 25 ms and the wait ends
  3 s after it began, so 121 turns are enough (\<open>start_always_answers\<close>); the HTTP route uses 121.
  A client that follows the cursor of a history needs one page more than it has messages (\<open>history_pages_are_complete\<close>), of a feed one page more than users are ranked (\<open>pages_cover_the_ranking\<close>). All other
  functions terminate by their structure.

  \<^bold>\<open>Idealisations.\<close> Numbers are exact rationals, not doubles. Strings are lists of 8-bit code units. Keys of
  the rtc store are typed by family, which agrees with the code for room ids without a colon. A method of
  the rtc service is one atomic step, except in \<open>getOrCreateLocalRoom\<close>, where other instances act between
  the awaits. A time to live is recorded in the matching store and an expiry is a step of its own; the
  24 hour time to live of the rtc keys is not modelled. A chess request is one atomic step, except that other
  requests act between the check for a pending invite and its claim; an expiry of a chess key is a step. A
  request to a room is one atomic step with one reading of the clock. Of a call, placing it lets other requests act before
  the callee is claimed, and its ends are split into what they read and what they do. The same split is made for the
  answer to a connect request. The expiries of a token, of a presence hash and of an index hash are steps, and so is a grace timer that
  fires. A chat request is one atomic step; a time that the database writes is in microseconds, a \<open>Date\<close> in milliseconds; that a foreign
  key names an existing user is not checked.

  \<^bold>\<open>Not modelled.\<close> Of rooms: the guest's trial, the signing of tokens, the listing of
  rooms and the parsing of request bodies. Of chat: media, the text of cursors and display data. Of going open to connect: the display fields of a card, the text of
  cursors and of stored tags. The rest of the main API (\<open>apps/server\<close>: profiles, guests, notifications, search) except for what it does to the matching store; the client; the voice
  service's adapters, queue workers and language-model scoring; process start-up, Redis and
  mediasoup clients.
\<close>

end
